(* ===== verification/Prelude.thy ===== *)
theory Prelude
  imports Main "HOL-Library.Word"
begin

unbundle bit_operations_syntax

section \<open>Shared types, memory primitives and automation\<close>

text \<open>
  The types and generic facts every component uses. C's fixed-width integers are words of
  the same width (so \<open>+\<close> and \<open>-\<close> wrap as the unsigned types do); a C array is the list
  of its elements, and a pointer that the code compares with \<open>NULL\<close> is an \<open>option\<close>.
  \<open>write_at\<close> is \<open>memcpy\<close> into an array: a write that stays inside the array keeps its
  length, a write past its end does not (\<open>length_write_at_iff\<close>), so the invariants
  "this buffer keeps its length" of the components are statements of memory safety.
\<close>

type_synonym u8 = "8 word"
type_synonym u16 = "16 word"
type_synonym u32 = "32 word"

named_theorems wf_intros \<open>introduction rules for the components' well-formedness invariants\<close>
named_theorems frame_simps \<open>fields an operation leaves unchanged\<close>

subsection \<open>Arrays\<close>

definition write_at :: "'a list \<Rightarrow> nat \<Rightarrow> 'a list \<Rightarrow> 'a list" where
  "write_at buf off xs = take off buf @ xs @ drop (off + length xs) buf"

lemma length_write_at [simp]:
  "off + length xs \<le> length buf \<Longrightarrow> length (write_at buf off xs) = length buf"
  by (simp add: write_at_def)

lemma length_write_at_iff:
  "xs \<noteq> [] \<Longrightarrow> length (write_at buf off xs) = length buf \<longleftrightarrow> off + length xs \<le> length buf"
  by (cases xs) (auto simp: write_at_def min_def)

lemma write_at_Nil [simp]: "write_at buf off [] = buf"
  by (simp add: write_at_def)

lemma take_write_at:
  "off \<le> length buf \<Longrightarrow> take (off + length xs) (write_at buf off xs) = take off buf @ xs"
  by (simp add: write_at_def)

lemma take_write_at_prefix:
  "n \<le> off \<Longrightarrow> off \<le> length buf \<Longrightarrow> take n (write_at buf off xs) = take n buf"
  by (simp add: write_at_def min_def)

lemma nth_write_at:
  "off + length xs \<le> length buf \<Longrightarrow> i < length buf \<Longrightarrow>
   write_at buf off xs ! i = (if off \<le> i \<and> i < off + length xs then xs ! (i - off) else buf ! i)"
  by (auto simp: write_at_def nth_append min_def)

lemma write_at_same_tail:
  "off + length xs = length buf \<Longrightarrow> write_at buf off xs = take off buf @ xs"
  by (simp add: write_at_def)

lemma write_at_write_at:
  assumes "off + length xs \<le> length buf" "k = off + length xs"
  shows "write_at (write_at buf off xs) k ys = write_at buf off (xs @ ys)"
  using assms by (cases xs) (auto simp: write_at_def min_def ac_simps)

lemma write_at_0: "write_at buf 0 xs = xs @ drop (length xs) buf"
  by (simp add: write_at_def)

lemma take_add_drop: "take m xs @ take n (drop m xs) = take (m + n) xs"
  by (simp add: take_add)

text \<open>The bytes of a C string.\<close>

definition chars :: "string \<Rightarrow> u8 list" where
  "chars s = map of_char s"

subsection \<open>Bytes of wider words\<close>

definition byte_hi :: "u16 \<Rightarrow> u8" where
  "byte_hi w = ucast (drop_bit 8 w)"

definition byte_lo :: "u16 \<Rightarrow> u8" where
  "byte_lo w = ucast (w AND 0xFF)"

definition u16_of_bytes :: "u8 \<Rightarrow> u8 \<Rightarrow> u16" where
  "u16_of_bytes h l = (push_bit 8 (ucast h) OR ucast l)"

lemma bit_byte_hi: "bit (byte_hi w) i \<longleftrightarrow> i < 8 \<and> bit w (i + 8)"
  by (auto simp: byte_hi_def bit_simps add.commute)

lemma and_0xFF_mask: "w AND 0xFF = take_bit 8 (w :: 'a::len word)"
  by (simp add: take_bit_eq_mask mask_eq_exp_minus_1)

lemma bit_byte_lo: "bit (byte_lo w) i \<longleftrightarrow> i < 8 \<and> bit w i"
  by (auto simp: byte_lo_def and_0xFF_mask bit_simps)

lemma u16_of_bytes_split [simp]: "u16_of_bytes (byte_hi w) (byte_lo w) = w"
proof (rule bit_word_eqI)
  fix n assume "n < LENGTH(16)"
  then show "bit (u16_of_bytes (byte_hi w) (byte_lo w)) n \<longleftrightarrow> bit w n"
    by (cases "n < 8") (auto simp: u16_of_bytes_def bit_simps bit_byte_hi bit_byte_lo)
qed

lemma byte_hi_u16_of_bytes [simp]: "byte_hi (u16_of_bytes h l) = h"
  by (rule bit_word_eqI) (auto simp: bit_byte_hi u16_of_bytes_def bit_simps dest: bit_imp_le_length)

lemma byte_lo_u16_of_bytes [simp]: "byte_lo (u16_of_bytes h l) = l"
  by (rule bit_word_eqI) (auto simp: bit_byte_lo u16_of_bytes_def bit_simps)

subsection \<open>Counters and word arithmetic\<close>

lemma unat_Suc_word:
  fixes x :: "'a::len word"
  assumes "unat x < 2 ^ LENGTH('a) - 1"
  shows "unat (x + 1) = Suc (unat x)"
proof -
  have "unat x + 1 < 2 ^ LENGTH('a)" using assms by arith
  then show ?thesis by (simp add: unat_word_ariths)
qed

lemma unat_inc_of_less:
  fixes x y :: "'a::len word"
  assumes "x < y"
  shows "unat (x + 1) = Suc (unat x)"
proof (rule unat_Suc_word)
  have "unat x < unat y" using assms by (simp add: word_less_nat_alt)
  moreover have "unat y < 2 ^ LENGTH('a)" by simp
  ultimately show "unat x < 2 ^ LENGTH('a) - 1" by arith
qed

lemma unat_plus_no_wrap:
  fixes x y :: "'a::len word"
  assumes "unat x + unat y < 2 ^ LENGTH('a)"
  shows "unat (x + y) = unat x + unat y"
  using assms by (simp add: unat_word_ariths)

lemma unat_minus_le:
  fixes x y :: "'a::len word"
  assumes "y \<le> x"
  shows "unat (x - y) = unat x - unat y"
  using assms by (simp add: unat_sub)

lemma elapsed_add [simp]: "(t + d) - t = (d :: 'a::len word)"
  by simp

lemma word_inc_le: "x < y \<Longrightarrow> x + 1 \<le> (y :: 'a::len word)"
  using unat_inc_of_less [of x y] by (simp add: word_le_nat_alt word_less_nat_alt)

lemma unat_u32_of_u16: "unat (ucast (x :: u16) :: u32) = unat x"
  by (simp add: unsigned_ucast_eq take_bit_nat_eq_self order_less_trans [OF unsigned_less])

subsection \<open>Setters of a flag under a mask\<close>

lemma and_or_absorb_ne0:
  fixes s b :: "'a::len word"
  shows "b \<noteq> 0 \<Longrightarrow> (s OR b) AND b \<noteq> 0"
  by (simp add: word_ao_absorbs)

subsection \<open>Counters modulo 16\<close>

lemma and_0x0F_mask: "w AND 0x0F = take_bit 4 (w :: 'a::len word)"
  by (simp add: take_bit_eq_mask mask_eq_exp_minus_1)

lemma unat_and_0x0F: "unat (w AND 0x0F :: u8) = unat w mod 16"
  by (simp only: and_0x0F_mask unsigned_take_bit_eq) (simp add: take_bit_eq_mod)

lemma take_bit_diff_word:
  "take_bit n (take_bit n k - take_bit n l) = take_bit n (k - l :: 'a::len word)"
  by transfer (simp add: take_bit_diff min_def)

lemma counter_mod: "(a AND 0x0F) - (b AND 0x0F) AND 0x0F = (a - b :: u8) AND 0x0F"
  by (simp only: and_0x0F_mask take_bit_diff_word)

lemma take_bit_add_word:
  "take_bit n (take_bit n k + l) = take_bit n (k + l :: 'a::len word)"
  by transfer (metis take_bit_add take_bit_take_bit min.idem min.commute)

lemma counter_add: "((a AND 0x0F) + b) AND 0x0F = (a + b :: u8) AND 0x0F"
  by (simp only: and_0x0F_mask take_bit_add_word)

lemma counter_same: "(a - b) AND 0x0F = 0 \<Longrightarrow> a AND 0x0F = (b :: u8) AND 0x0F"
  using counter_add [of "a - b" b] by simp

lemma mask_le_15: "x AND 0x0F \<le> (15 :: u8)"
  using mod_less_divisor [of 16 "unat x"] by (simp add: word_le_nat_alt unat_and_0x0F)

end
