(* ===== verification/CanMatrix.thy ===== *)
theory CanMatrix
  imports Prelude
begin

section \<open>The CAN matrix (common/can/can_matrix.h)\<close>

text \<open>
  Identifiers, lengths, cycle times and limits both ECUs are compiled against.
\<close>

definition CANID_SENSOR_SPEED :: u16 where "CANID_SENSOR_SPEED = 0x100"
definition SENSOR_SPEED_DLC :: u8 where "SENSOR_SPEED_DLC = 8"
definition SENSOR_SPEED_MAX_X10 :: u32 where "SENSOR_SPEED_MAX_X10 = 2500"
definition SENSOR_STATUS_FAULT_INJ :: u8 where "SENSOR_STATUS_FAULT_INJ = 0x01"
definition SENSOR_STATUS_ADC_ERROR :: u8 where "SENSOR_STATUS_ADC_ERROR = 0x02"

definition CANID_SENSOR_ALIVE :: u16 where "CANID_SENSOR_ALIVE = 0x101"
definition SENSOR_ALIVE_DLC :: u8 where "SENSOR_ALIVE_DLC = 8"
definition SENSOR_ALIVE_CYCLE_MS :: u32 where "SENSOR_ALIVE_CYCLE_MS = 100"

definition CANID_CONTROL_STATUS :: u16 where "CANID_CONTROL_STATUS = 0x200"
definition CONTROL_STATUS_DLC :: u8 where "CONTROL_STATUS_DLC = 8"
definition CONTROL_STATUS_CYCLE_MS :: u32 where "CONTROL_STATUS_CYCLE_MS = 100"

definition CANID_UDS_REQ_CONTROL :: u16 where "CANID_UDS_REQ_CONTROL = 0x7E0"
definition CANID_UDS_RESP_CONTROL :: u16 where "CANID_UDS_RESP_CONTROL = 0x7E8"

definition SENSOR_SPEED_TIMEOUT_MS :: u32 where "SENSOR_SPEED_TIMEOUT_MS = 100"

lemmas can_matrix = CANID_SENSOR_SPEED_def SENSOR_SPEED_DLC_def SENSOR_SPEED_MAX_X10_def
  SENSOR_STATUS_FAULT_INJ_def SENSOR_STATUS_ADC_ERROR_def CANID_SENSOR_ALIVE_def
  SENSOR_ALIVE_DLC_def SENSOR_ALIVE_CYCLE_MS_def CANID_CONTROL_STATUS_def CONTROL_STATUS_DLC_def
  CONTROL_STATUS_CYCLE_MS_def CANID_UDS_REQ_CONTROL_def CANID_UDS_RESP_CONTROL_def
  SENSOR_SPEED_TIMEOUT_MS_def

end
