(* ===== verification/CanDrv.thy ===== *)
theory CanDrv
  imports CanMatrix
begin

section \<open>What the CAN drivers of both ECUs share (Core/Mcal/can_drv.h)\<close>

text \<open>
  The types of \<open>can_drv.h\<close> and the HAL both drivers stand on. The HAL is third-party code: its
  functions are the fields of \<open>FdcanHal\<close>, over a peripheral state \<open>'h\<close>. The static variables
  of a driver are the fields of \<open>CanDrv\<close>; the registered indication \<open>s_rxIndication\<close> is a
  parameter of the interrupt handler. \<open>tx_trace\<close> is a specification variable: the frames the
  controller's transmit FIFO has taken, in order. The two drivers have the same function names,
  so their definitions (SensorMcal, ControlMcal) carry the prefixes \<open>sensor_\<close> and \<open>control_\<close>.
\<close>

definition CANDRV_MAX_DLC :: u8 where "CANDRV_MAX_DLC = 8"
definition CANDRV_MAX_STD_ID :: u16 where "CANDRV_MAX_STD_ID = 0x7FF"

record CanDrv_Frame_t =
  frame_id :: u16
  frame_dlc :: u8
  frame_data :: "u8 list"

datatype CanDrv_Status_t = CANDRV_OK | CANDRV_ERROR | CANDRV_TX_FULL

datatype CanDrv_Mode_t = CANDRV_MODE_NORMAL | CANDRV_MODE_INTERNAL_LOOPBACK

record CanDrv_Stats_t =
  txQueued :: u32
  txDropped :: u32
  rxCount :: u32
  busOffCount :: u32

record CanDrv_Filter_t =
  firstId :: u16
  lastId :: u16

subsection \<open>The HAL\<close>

datatype HAL_Status = HAL_OK | HAL_ERROR | HAL_BUSY | HAL_TIMEOUT

record FDCAN_TxHeader =
  Identifier :: u32
  IdType :: u32
  TxFrameType :: u32
  DataLength :: u32
  ErrorStateIndicator :: u32
  BitRateSwitch :: u32
  FDFormat :: u32
  TxEventFifoControl :: u32
  MessageMarker :: u32

record FDCAN_RxHeader =
  rxIdentifier :: u32
  rxDataLength :: u32

record FDCAN_Filter =
  filterIdType :: u32
  FilterIndex :: u32
  FilterType :: u32
  FilterConfig :: u32
  FilterID1 :: u32
  FilterID2 :: u32

record FDCAN_Init =
  initMode :: u32
  NominalPrescaler :: u32
  NominalTimeSeg1 :: u32
  NominalTimeSeg2 :: u32
  NominalSyncJumpWidth :: u32

record 'h FdcanHal =
  HAL_FDCAN_Init :: "FDCAN_Init \<Rightarrow> 'h \<Rightarrow> HAL_Status \<times> 'h"
  HAL_FDCAN_ConfigFilter :: "FDCAN_Filter \<Rightarrow> 'h \<Rightarrow> HAL_Status \<times> 'h"
  HAL_FDCAN_ConfigGlobalFilter :: "u32 \<Rightarrow> u32 \<Rightarrow> u32 \<Rightarrow> u32 \<Rightarrow> 'h \<Rightarrow> HAL_Status \<times> 'h"
  HAL_FDCAN_ActivateNotification :: "u32 \<Rightarrow> u32 \<Rightarrow> 'h \<Rightarrow> HAL_Status \<times> 'h"
  HAL_FDCAN_Start :: "'h \<Rightarrow> HAL_Status \<times> 'h"
  HAL_FDCAN_GetTxFifoFreeLevel :: "'h \<Rightarrow> u32"
  HAL_FDCAN_AddMessageToTxFifoQ :: "FDCAN_TxHeader \<Rightarrow> u8 list \<Rightarrow> 'h \<Rightarrow> HAL_Status \<times> 'h"
  HAL_FDCAN_GetRxFifoFillLevel :: "'h \<Rightarrow> u32"
  HAL_FDCAN_GetRxMessage :: "'h \<Rightarrow> HAL_Status \<times> FDCAN_RxHeader \<times> u8 list \<times> 'h"
  read_CCCR :: "'h \<Rightarrow> u32"
  write_CCCR :: "u32 \<Rightarrow> 'h \<Rightarrow> 'h"
  read_PSR :: "'h \<Rightarrow> u32"

definition FDCAN_STANDARD_ID :: u32 where "FDCAN_STANDARD_ID = 0"
definition FDCAN_DATA_FRAME :: u32 where "FDCAN_DATA_FRAME = 0"
definition FDCAN_ESI_ACTIVE :: u32 where "FDCAN_ESI_ACTIVE = 0"
definition FDCAN_BRS_OFF :: u32 where "FDCAN_BRS_OFF = 0"
definition FDCAN_CLASSIC_CAN :: u32 where "FDCAN_CLASSIC_CAN = 0"
definition FDCAN_NO_TX_EVENTS :: u32 where "FDCAN_NO_TX_EVENTS = 0"
definition FDCAN_FILTER_RANGE :: u32 where "FDCAN_FILTER_RANGE = 0"
definition FDCAN_FILTER_TO_RXFIFO0 :: u32 where "FDCAN_FILTER_TO_RXFIFO0 = 1"
definition FDCAN_MODE_INTERNAL_LOOPBACK :: u32 where "FDCAN_MODE_INTERNAL_LOOPBACK = 3"
definition FDCAN_REJECT :: u32 where "FDCAN_REJECT = 2"
definition FDCAN_REJECT_REMOTE :: u32 where "FDCAN_REJECT_REMOTE = 1"
definition FDCAN_IT_RX_FIFO0_NEW_MESSAGE :: u32 where "FDCAN_IT_RX_FIFO0_NEW_MESSAGE = 0x00000001"
definition FDCAN_CCCR_INIT :: u32 where "FDCAN_CCCR_INIT = 1"
definition FDCAN_PSR_BO :: u32 where "FDCAN_PSR_BO = 0x80"

record 'h CanDrv =
  hfdcan1 :: 'h
  hfdcan1_Init :: FDCAN_Init
  s_busOffPending :: bool
  s_busOffTimer :: u32
  s_stats :: CanDrv_Stats_t
  tx_trace :: "CanDrv_Frame_t list"

definition BUSOFF_RECOVERY_DELAY_TICKS :: u32 where "BUSOFF_RECOVERY_DELAY_TICKS = 10"

text \<open>A call of the HAL: the status, and the state with the peripheral's new state.\<close>

definition hal_call ::
  "('h \<Rightarrow> HAL_Status \<times> 'h) \<Rightarrow> ('h, 'm) CanDrv_scheme \<Rightarrow> HAL_Status \<times> ('h, 'm) CanDrv_scheme" where
  "hal_call f s = (let (st, h) = f (hfdcan1 s) in (st, s\<lparr>hfdcan1 := h\<rparr>))"

definition frame_header :: "CanDrv_Frame_t \<Rightarrow> u32 \<Rightarrow> FDCAN_TxHeader" where
  "frame_header frame dataLength =
     \<lparr>Identifier = ucast (frame_id frame), IdType = FDCAN_STANDARD_ID, TxFrameType = FDCAN_DATA_FRAME,
      DataLength = dataLength, ErrorStateIndicator = FDCAN_ESI_ACTIVE, BitRateSwitch = FDCAN_BRS_OFF,
      FDFormat = FDCAN_CLASSIC_CAN, TxEventFifoControl = FDCAN_NO_TX_EVENTS, MessageMarker = 0\<rparr>"

text \<open>The statistics counters.\<close>

definition count_dropped :: "('h, 'm) CanDrv_scheme \<Rightarrow> ('h, 'm) CanDrv_scheme" where
  "count_dropped s = s\<lparr>s_stats := (s_stats s)\<lparr>txDropped := txDropped (s_stats s) + 1\<rparr>\<rparr>"

definition count_queued :: "CanDrv_Frame_t \<Rightarrow> ('h, 'm) CanDrv_scheme \<Rightarrow> ('h, 'm) CanDrv_scheme" where
  "count_queued frame s =
     s\<lparr>s_stats := (s_stats s)\<lparr>txQueued := txQueued (s_stats s) + 1\<rparr>, tx_trace := tx_trace s @ [frame]\<rparr>"

definition count_received :: "('h, 'm) CanDrv_scheme \<Rightarrow> ('h, 'm) CanDrv_scheme" where
  "count_received s = s\<lparr>s_stats := (s_stats s)\<lparr>rxCount := rxCount (s_stats s) + 1\<rparr>\<rparr>"

text \<open>What the controller has taken for the bus: identifiers and payloads, in order.\<close>

definition can_sent :: "('h, 'm) CanDrv_scheme \<Rightarrow> (u16 \<times> u8 list) list" where
  "can_sent w = map (\<lambda>f. (frame_id f, frame_data f)) (tx_trace w)"

lemma hal_call_trace: "hal_call f s = (st, s') \<Longrightarrow> tx_trace s' = tx_trace s"
  by (auto simp: hal_call_def split: prod.splits)

end
