(* ===== verification/ControlMcal.thy ===== *)
theory ControlMcal
  imports CanDrv
begin

section \<open>Drivers of the Control ECU (control_ecu/CM4/Core/Mcal)\<close>

text \<open>
  The CAN driver on FDCAN1 of the STM32MP157's Cortex-M4 with its kernel clock handling, the
  button and PWM driver and the restart of the core. HAL calls and registers are the fields of
  \<open>ControlHal\<close>; the timer registers the PWM driver writes are fields of the state.
\<close>

datatype rcc_reg = FDCANCKSELR | PLL3CR | PLL4CR | OCENSETR

record 'h ControlHal = "'h FdcanHal" +
  read_rcc :: "rcc_reg \<Rightarrow> 'h \<Rightarrow> u32"
  write_rcc :: "rcc_reg \<Rightarrow> u32 \<Rightarrow> 'h \<Rightarrow> 'h"
  HAL_Delay :: "u32 \<Rightarrow> 'h \<Rightarrow> 'h"
  GetPeriphCLKFreq_FDCAN :: "'h \<Rightarrow> u32"
  HAL_TIM_PWM_Start :: "'h \<Rightarrow> HAL_Status \<times> 'h"
  user1_pin :: "'h \<Rightarrow> bool"

record 'h ControlCan = "'h CanDrv" +
  s_kernelClockHz :: u32
  stats_kernelClockHz :: u32
  tim1_ARR :: u32
  tim1_Period :: u32
  tim1_CCR2 :: u32

text \<open>\<open>stats_kernelClockHz\<close> is the field \<open>kernelClockHz\<close> of \<open>s_stats\<close>, which only this driver has.\<close>

record control_CanDrv_Stats_t = CanDrv_Stats_t +
  kernelClockHz :: u32

subsection \<open>Kernel clock of the CAN controller\<close>

definition KERNEL_CLOCK_HSE_HZ :: u32 where "KERNEL_CLOCK_HSE_HZ = 24000000"
definition KERNEL_CLOCK_PLL4R_HZ :: u32 where "KERNEL_CLOCK_PLL4R_HZ = 74250000"
definition MAX_STD_FILTERS :: u8 where "MAX_STD_FILTERS = 2"
definition DLC_SHIFT :: nat where "DLC_SHIFT = 16"
definition control_BUSOFF_RECOVERY_DELAY_TICKS :: u32 where "control_BUSOFF_RECOVERY_DELAY_TICKS = 10"
definition control_IT_BUS_OFF :: u32 where "control_IT_BUS_OFF = 0x02000000"

definition RCC_FDCANCKSELR_FDCANSRC :: u32 where "RCC_FDCANCKSELR_FDCANSRC = 3"
definition RCC_FDCANCLKSOURCE_HSE :: u32 where "RCC_FDCANCLKSOURCE_HSE = 0"
definition RCC_FDCANCLKSOURCE_PLL3 :: u32 where "RCC_FDCANCLKSOURCE_PLL3 = 1"
definition RCC_FDCANCLKSOURCE_PLL4_Q :: u32 where "RCC_FDCANCLKSOURCE_PLL4_Q = 2"
definition RCC_FDCANCLKSOURCE_PLL4_R :: u32 where "RCC_FDCANCLKSOURCE_PLL4_R = 3"
definition RCC_PLL3CR_DIVQEN :: u32 where "RCC_PLL3CR_DIVQEN = 0x20"
definition RCC_PLL4CR_DIVQEN :: u32 where "RCC_PLL4CR_DIVQEN = 0x20"
definition RCC_PLL4CR_DIVREN :: u32 where "RCC_PLL4CR_DIVREN = 0x40"
definition RCC_OCENSETR_HSEKERON :: u32 where "RCC_OCENSETR_HSEKERON = 0x200"

definition OldSourceGate :: "u32 \<Rightarrow> rcc_reg option \<times> u32" where
  "OldSourceGate source =
     (if source = RCC_FDCANCLKSOURCE_PLL3 then (Some PLL3CR, RCC_PLL3CR_DIVQEN)
      else if source = RCC_FDCANCLKSOURCE_PLL4_Q then (Some PLL4CR, RCC_PLL4CR_DIVQEN)
      else if source = RCC_FDCANCLKSOURCE_PLL4_R then (Some PLL4CR, RCC_PLL4CR_DIVREN)
      else (None, 0))"

text \<open>\<open>MODIFY_REG\<close>: clear the bits of a mask, then set those of a value.\<close>

definition modify_rcc :: "('h, 'n) ControlHal_scheme \<Rightarrow> rcc_reg \<Rightarrow> u32 \<Rightarrow> u32 \<Rightarrow> 'h \<Rightarrow> 'h" where
  "modify_rcc hal r clear val h = write_rcc hal r (read_rcc hal r h AND NOT clear OR val) h"

definition PrepareKernelClock_regs :: "('h, 'n) ControlHal_scheme \<Rightarrow> 'h \<Rightarrow> 'h" where
  "PrepareKernelClock_regs hal h =
     (let current = read_rcc hal FDCANCKSELR h AND RCC_FDCANCKSELR_FDCANSRC;
          h1 = write_rcc hal OCENSETR RCC_OCENSETR_HSEKERON h
      in if current \<noteq> RCC_FDCANCLKSOURCE_HSE then
           (let (pllcr, diven) = OldSourceGate current;
                tempEnabled = (case pllcr of None \<Rightarrow> False | Some r \<Rightarrow> read_rcc hal r h1 AND diven = 0);
                h2 = (case pllcr of None \<Rightarrow> h1
                      | Some r \<Rightarrow> if tempEnabled then modify_rcc hal r 0 diven h1 else h1);
                h3 = modify_rcc hal FDCANCKSELR RCC_FDCANCKSELR_FDCANSRC RCC_FDCANCLKSOURCE_HSE h2;
                h4 = HAL_Delay hal 1 h3
            in case pllcr of None \<Rightarrow> h4
               | Some r \<Rightarrow> if tempEnabled then modify_rcc hal r diven 0 h4 else h4)
         else h1)"

definition CanDrv_PrepareKernelClock ::
  "('h, 'n) ControlHal_scheme \<Rightarrow> ('h, 'm) ControlCan_scheme \<Rightarrow> u32 \<times> ('h, 'm) ControlCan_scheme" where
  "CanDrv_PrepareKernelClock hal s =
     (let h = PrepareKernelClock_regs hal (hfdcan1 s);
          hz = GetPeriphCLKFreq_FDCAN hal h
      in (hz, s\<lparr>hfdcan1 := h, s_kernelClockHz := hz\<rparr>))"

subsection \<open>CAN driver (can_drv.c)\<close>

definition ApplyBitTiming ::
  "('h, 'n) ControlHal_scheme \<Rightarrow> ('h, 'm) ControlCan_scheme \<Rightarrow> CanDrv_Status_t \<times> ('h, 'm) ControlCan_scheme" where
  "ApplyBitTiming hal s =
     (if s_kernelClockHz s = KERNEL_CLOCK_HSE_HZ then (CANDRV_OK, s)
      else if s_kernelClockHz s = KERNEL_CLOCK_PLL4R_HZ then
        (let s1 = s\<lparr>hfdcan1_Init := (hfdcan1_Init s)\<lparr>NominalPrescaler := 1, NominalTimeSeg1 := 128,
                      NominalTimeSeg2 := 19, NominalSyncJumpWidth := 19\<rparr>\<rparr>;
             (st, s2) = hal_call (HAL_FDCAN_Init hal (hfdcan1_Init s1)) s1
         in (if st = HAL_OK then CANDRV_OK else CANDRV_ERROR, s2))
      else (CANDRV_ERROR, s))"

definition filter_setting :: "u32 \<Rightarrow> CanDrv_Filter_t \<Rightarrow> FDCAN_Filter" where
  "filter_setting i f =
     \<lparr>filterIdType = FDCAN_STANDARD_ID, FilterIndex = i, FilterType = FDCAN_FILTER_RANGE,
      FilterConfig = FDCAN_FILTER_TO_RXFIFO0, FilterID1 = ucast (firstId f), FilterID2 = ucast (lastId f)\<rparr>"

fun config_filters ::
  "('h, 'n) FdcanHal_scheme \<Rightarrow> u32 \<Rightarrow> CanDrv_Filter_t list \<Rightarrow> ('h, 'm) CanDrv_scheme \<Rightarrow>
   CanDrv_Status_t \<times> ('h, 'm) CanDrv_scheme" where
  "config_filters hal i [] s = (CANDRV_OK, s)"
| "config_filters hal i (f # fs) s =
     (let (st, s1) = hal_call (HAL_FDCAN_ConfigFilter hal (filter_setting i f)) s
      in if st \<noteq> HAL_OK then (CANDRV_ERROR, s1) else config_filters hal (i + 1) fs s1)"

definition control_ConfigureFilters ::
  "('h, 'n) FdcanHal_scheme \<Rightarrow> CanDrv_Filter_t list option \<Rightarrow> u8 \<Rightarrow> ('h, 'm) CanDrv_scheme \<Rightarrow>
   CanDrv_Status_t \<times> ('h, 'm) CanDrv_scheme" where
  "control_ConfigureFilters hal filters count s =
     (case filters of
        None \<Rightarrow> (CANDRV_ERROR, s)
      | Some fs \<Rightarrow>
          if count = 0 \<or> count > MAX_STD_FILTERS then (CANDRV_ERROR, s)
          else
            (let (st, s1) = config_filters hal 0 (take (unat count) fs) s in
             if st \<noteq> CANDRV_OK then (CANDRV_ERROR, s1)
             else
               (let (st2, s2) = hal_call (HAL_FDCAN_ConfigGlobalFilter hal FDCAN_REJECT FDCAN_REJECT
                                            FDCAN_REJECT_REMOTE FDCAN_REJECT_REMOTE) s1
                in if st2 \<noteq> HAL_OK then (CANDRV_ERROR, s2) else (CANDRV_OK, s2))))"

definition control_CanDrv_Init ::
  "('h, 'n) ControlHal_scheme \<Rightarrow> CanDrv_Mode_t \<Rightarrow> CanDrv_Filter_t list option \<Rightarrow> u8 \<Rightarrow>
   ('h, 'm) ControlCan_scheme \<Rightarrow> CanDrv_Status_t \<times> ('h, 'm) ControlCan_scheme" where
  "control_CanDrv_Init hal mode filters filterCount s =
     (let (bt, s1) = ApplyBitTiming hal (s\<lparr>stats_kernelClockHz := s_kernelClockHz s\<rparr>) in
      if bt \<noteq> CANDRV_OK then (CANDRV_ERROR, s1)
      else
        (let (st, s2) =
               (if mode = CANDRV_MODE_INTERNAL_LOOPBACK then
                  (let s0 = s1\<lparr>hfdcan1_Init := (hfdcan1_Init s1)\<lparr>initMode := FDCAN_MODE_INTERNAL_LOOPBACK\<rparr>\<rparr>
                   in hal_call (HAL_FDCAN_Init hal (hfdcan1_Init s0)) s0)
                else (HAL_OK, s1))
         in if st \<noteq> HAL_OK then (CANDRV_ERROR, s2)
            else
              (let (cs, s3) = control_ConfigureFilters hal filters filterCount s2 in
               if cs \<noteq> CANDRV_OK then (CANDRV_ERROR, s3)
               else
                 (let (st4, s4) = hal_call (HAL_FDCAN_ActivateNotification hal
                                    (FDCAN_IT_RX_FIFO0_NEW_MESSAGE OR control_IT_BUS_OFF) 0) s3
                  in if st4 \<noteq> HAL_OK then (CANDRV_ERROR, s4)
                     else
                       (let (st5, s5) = hal_call (HAL_FDCAN_Start hal) s4
                        in (if st5 = HAL_OK then CANDRV_OK else CANDRV_ERROR, s5))))))"

text \<open>The payload buffer is the eight bytes of the frame up to its DLC, the rest zero.\<close>

definition control_CanDrv_Write ::
  "('h, 'n) FdcanHal_scheme \<Rightarrow> CanDrv_Frame_t option \<Rightarrow> ('h, 'm) CanDrv_scheme \<Rightarrow>
   CanDrv_Status_t \<times> ('h, 'm) CanDrv_scheme" where
  "control_CanDrv_Write hal f s =
     (case f of
        None \<Rightarrow> (CANDRV_ERROR, s)
      | Some frame \<Rightarrow>
          if frame_dlc frame > CANDRV_MAX_DLC \<or> frame_id frame > CANDRV_MAX_STD_ID then (CANDRV_ERROR, s)
          else
            (let payload = write_at (replicate 8 0) 0 (take (unat (frame_dlc frame)) (frame_data frame)) in
             if HAL_FDCAN_GetTxFifoFreeLevel hal (hfdcan1 s) = 0 then (CANDRV_TX_FULL, count_dropped s)
             else
               (let header = frame_header frame (push_bit DLC_SHIFT (ucast (frame_dlc frame)));
                    (st, s1) = hal_call (HAL_FDCAN_AddMessageToTxFifoQ hal header payload) s
                in if st \<noteq> HAL_OK then (CANDRV_ERROR, count_dropped s1)
                   else (CANDRV_OK, count_queued frame s1))))"

definition control_CanDrv_MainFunction ::
  "('h, 'n) FdcanHal_scheme \<Rightarrow> ('h, 'm) CanDrv_scheme \<Rightarrow> ('h, 'm) CanDrv_scheme" where
  "control_CanDrv_MainFunction hal s =
     (if \<not> s_busOffPending s then s
      else
        (let s1 = s\<lparr>s_busOffTimer := s_busOffTimer s + 1\<rparr> in
         if s_busOffTimer s1 \<ge> control_BUSOFF_RECOVERY_DELAY_TICKS then
           s1\<lparr>s_busOffTimer := 0, s_busOffPending := False,
              hfdcan1 := write_CCCR hal (read_CCCR hal (hfdcan1 s1) AND NOT FDCAN_CCCR_INIT) (hfdcan1 s1)\<rparr>
         else s1))"

definition control_CanDrv_IsBusOff :: "('h, 'n) FdcanHal_scheme \<Rightarrow> ('h, 'm) CanDrv_scheme \<Rightarrow> bool" where
  "control_CanDrv_IsBusOff hal s = (read_PSR hal (hfdcan1 s) AND FDCAN_PSR_BO \<noteq> 0)"

definition control_CanDrv_GetStats ::
  "control_CanDrv_Stats_t option \<Rightarrow> ('h, 'm) ControlCan_scheme \<Rightarrow> control_CanDrv_Stats_t option" where
  "control_CanDrv_GetStats stats s =
     (case stats of
        None \<Rightarrow> None
      | Some st \<Rightarrow> Some (st\<lparr>txQueued := txQueued (s_stats s), txDropped := txDropped (s_stats s),
                           rxCount := rxCount (s_stats s), busOffCount := busOffCount (s_stats s),
                           kernelClockHz := stats_kernelClockHz s\<rparr>))"

definition control_rx_frame :: "FDCAN_RxHeader \<Rightarrow> u8 list \<Rightarrow> CanDrv_Frame_t" where
  "control_rx_frame header bytes =
     (let dlc = drop_bit DLC_SHIFT (rxDataLength header) in
      \<lparr>frame_id = ucast (rxIdentifier header),
       frame_dlc = (if dlc > ucast CANDRV_MAX_DLC then CANDRV_MAX_DLC else ucast dlc),
       frame_data = bytes\<rparr>)"

text \<open>\<open>None\<close>: the FIFO never empties (the hardware keeps filling it).\<close>

partial_function (option) control_RxLoop ::
  "('h, 'n) FdcanHal_scheme \<Rightarrow>
   (CanDrv_Frame_t \<Rightarrow> ('h, 'm) CanDrv_scheme \<Rightarrow> ('h, 'm) CanDrv_scheme) option \<Rightarrow>
   ('h, 'm) CanDrv_scheme \<Rightarrow> ('h, 'm) CanDrv_scheme option" where
  "control_RxLoop hal rxIndication s =
     (if HAL_FDCAN_GetRxFifoFillLevel hal (hfdcan1 s) > 0 then
        (let (st, header, bytes, h) = HAL_FDCAN_GetRxMessage hal (hfdcan1 s);
             s1 = s\<lparr>hfdcan1 := h\<rparr>
         in if st \<noteq> HAL_OK then Some s1
            else
              (let s2 = count_received s1;
                   s3 = (case rxIndication of None \<Rightarrow> s2 | Some f \<Rightarrow> f (control_rx_frame header bytes) s2)
               in control_RxLoop hal rxIndication s3))
      else Some s)"

definition control_RxFifo0Callback ::
  "('h, 'n) FdcanHal_scheme \<Rightarrow>
   (CanDrv_Frame_t \<Rightarrow> ('h, 'm) CanDrv_scheme \<Rightarrow> ('h, 'm) CanDrv_scheme) option \<Rightarrow> u32 \<Rightarrow>
   ('h, 'm) CanDrv_scheme \<Rightarrow> ('h, 'm) CanDrv_scheme option" where
  "control_RxFifo0Callback hal rxIndication its s =
     (if its AND FDCAN_IT_RX_FIFO0_NEW_MESSAGE = 0 then Some s else control_RxLoop hal rxIndication s)"

definition control_ErrorStatusCallback ::
  "u32 \<Rightarrow> ('h, 'm) CanDrv_scheme \<Rightarrow> ('h, 'm) CanDrv_scheme" where
  "control_ErrorStatusCallback its s =
     (if its AND control_IT_BUS_OFF \<noteq> 0 then
        s\<lparr>s_stats := (s_stats s)\<lparr>busOffCount := busOffCount (s_stats s) + 1\<rparr>,
          s_busOffTimer := 0, s_busOffPending := True\<rparr>
      else s)"

subsection \<open>Digital input and PWM output (io_drv.c)\<close>

definition IODRV_PWM_MAX :: u16 where "IODRV_PWM_MAX = 1000"

definition IoDrv_Init ::
  "('h, 'n) ControlHal_scheme \<Rightarrow> ('h, 'm) ControlCan_scheme \<Rightarrow> bool \<times> ('h, 'm) ControlCan_scheme" where
  "IoDrv_Init hal s =
     (let s1 = s\<lparr>tim1_ARR := ucast IODRV_PWM_MAX - 1, tim1_Period := ucast IODRV_PWM_MAX - 1, tim1_CCR2 := 0\<rparr>;
          (st, s2) = hal_call (HAL_TIM_PWM_Start hal) s1
      in (st = HAL_OK, s2))"

text \<open>\<open>user1_pin\<close> is the level of the pin; the button is active low.\<close>

definition IoDrv_IsUserButtonPressed ::
  "('h, 'n) ControlHal_scheme \<Rightarrow> ('h, 'm) ControlCan_scheme \<Rightarrow> bool" where
  "IoDrv_IsUserButtonPressed hal s = (\<not> user1_pin hal (hfdcan1 s))"

definition IoDrv_SetPwm :: "u16 \<Rightarrow> ('h, 'm) ControlCan_scheme \<Rightarrow> ('h, 'm) ControlCan_scheme" where
  "IoDrv_SetPwm duty s =
     (let clamped = (if duty > IODRV_PWM_MAX then IODRV_PWM_MAX else duty) in s\<lparr>tim1_CCR2 := ucast clamped\<rparr>)"

subsection \<open>Restart of the core (sys_drv.c)\<close>

text \<open>
  \<open>SysDrv_Restart\<close> as the list of what it does to the core, from the vector table the register
  \<open>VTOR\<close> points to; the last step, the jump, does not return.
\<close>

datatype peripheral = FDCAN | TIM1 | TIM7 | UART7

datatype core_step =
    Disable_irq | Enable_irq | SysTick_CTRL u32 | ICER nat u32 | ICPR nat u32
  | Force_reset peripheral | Release_reset peripheral | Set_CONTROL u32 | Set_MSP u32
  | Barrier_ISB | Barrier_DSB | Jump u32

definition NVIC_REGISTER_COUNT :: nat where "NVIC_REGISTER_COUNT = 8"

definition SysDrv_Restart :: "(nat \<Rightarrow> u32) \<Rightarrow> core_step list" where
  "SysDrv_Restart vectors =
     (let initialSp = vectors 0; resetHandler = vectors 1 in
      [Disable_irq, SysTick_CTRL 0]
      @ concat (map (\<lambda>i. [ICER i 0xFFFFFFFF, ICPR i 0xFFFFFFFF]) [0..<NVIC_REGISTER_COUNT])
      @ [Force_reset FDCAN, Force_reset TIM1, Force_reset TIM7, Force_reset UART7,
         Release_reset FDCAN, Release_reset TIM1, Release_reset TIM7, Release_reset UART7,
         Set_CONTROL 0, Barrier_ISB, Set_MSP initialSp, Barrier_DSB, Barrier_ISB,
         Enable_irq, Jump resetHandler])"

end
