(* ===== verification/Crc8.thy ===== *)
theory Crc8
  imports Prelude
begin

section \<open>CRC-8 SAE-J1850 (common/e2e/crc8.c)\<close>

text \<open>
  The bitwise CRC and the algebra behind its error detection: one step of the shift register
  is linear over XOR and injective, so the CRC of a message with an error pattern differs from
  the CRC of the message by the syndrome of the pattern alone.
\<close>

definition CRC8_POLY :: u8 where "CRC8_POLY = 0x1D"
definition CRC8_INIT :: u8 where "CRC8_INIT = 0xFF"
definition CRC8_XOR_OUT :: u8 where "CRC8_XOR_OUT = 0xFF"

definition crc_bit :: "u8 \<Rightarrow> u8" where
  "crc_bit crc = (if crc AND 0x80 \<noteq> 0 then push_bit 1 crc XOR CRC8_POLY else push_bit 1 crc)"

definition crc_bits :: "u8 \<Rightarrow> u8" where
  "crc_bits crc = (crc_bit ^^ 8) crc"

fun crc_run :: "u8 \<Rightarrow> u8 list \<Rightarrow> u8" where
  "crc_run crc [] = crc"
| "crc_run crc (b # bs) = crc_run (crc_bits (crc XOR b)) bs"

definition Crc8_SaeJ1850 :: "u8 list option \<Rightarrow> nat \<Rightarrow> u8" where
  "Crc8_SaeJ1850 data len =
     (case data of
        None \<Rightarrow> 0
      | Some bytes \<Rightarrow> crc_run CRC8_INIT (take len bytes) XOR CRC8_XOR_OUT)"

subsection \<open>The register step is linear and injective\<close>

lemma bit7_test: "(w :: u8) AND 0x80 \<noteq> 0 \<longleftrightarrow> bit w 7"
  by (simp add: bit_iff_and_push_bit_not_eq_0)

lemma crc_bit_alt: "crc_bit c = push_bit 1 c XOR (if bit c 7 then CRC8_POLY else 0)"
  by (simp add: crc_bit_def bit7_test)

lemma push_bit_xor: "push_bit n (a XOR b) = push_bit n a XOR push_bit n (b :: u8)"
  by (rule bit_word_eqI) (auto simp: bit_simps)

lemma crc_bit_xor: "crc_bit (a XOR b) = crc_bit a XOR crc_bit b"
  by (auto simp: crc_bit_alt push_bit_xor bit_simps xor.assoc xor.left_commute xor.commute)

lemma funpow_crc_bit_xor: "(crc_bit ^^ n) (a XOR b) = (crc_bit ^^ n) a XOR (crc_bit ^^ n) b"
  by (induction n) (simp_all add: crc_bit_xor)

lemma crc_bits_xor: "crc_bits (a XOR b) = crc_bits a XOR crc_bits b"
  by (simp only: crc_bits_def funpow_crc_bit_xor)

lemma xor_eq_0_iff: "a XOR b = 0 \<longleftrightarrow> a = (b :: 'a::len word)"
  by (metis bit.xor_self xor.assoc xor.right_neutral)

lemma bit_crc_bit:
  "bit (crc_bit c) n \<longleftrightarrow> n < 8 \<and> ((1 \<le> n \<and> bit c (n - 1)) \<noteq> (bit c 7 \<and> bit CRC8_POLY n))"
  by (simp only: crc_bit_alt bit_xor_iff bit_push_bit_iff) (auto dest: bit_imp_le_length)

lemma crc_bit_eq_0: "crc_bit v = 0 \<longleftrightarrow> v = 0"
proof
  assume z: "crc_bit v = 0"
  have bits: "\<not> bit (crc_bit v) n" for n
    by (simp add: z)
  have n7: "\<not> bit v 7"
    using bits [of 0] unfolding bit_crc_bit by (simp add: CRC8_POLY_def)
  have "\<not> bit v n" if "n < 7" for n
    using bits [of "Suc n"] n7 that unfolding bit_crc_bit by simp
  with n7 show "v = 0"
    by (intro bit_word_eqI) (auto simp: less_Suc_eq numeral_eq_Suc)
qed (simp add: crc_bit_alt)

lemma funpow_crc_bit_eq_0: "(crc_bit ^^ n) v = 0 \<longleftrightarrow> v = 0"
  by (induction n) (simp_all add: crc_bit_eq_0)

lemma crc_bits_eq_0: "crc_bits v = 0 \<longleftrightarrow> v = 0"
  by (simp only: crc_bits_def funpow_crc_bit_eq_0)

lemma crc_bits_0 [simp]: "crc_bits 0 = 0"
  by (simp add: crc_bits_eq_0)

subsection \<open>Runs over a message\<close>

lemma crc_run_xor_start:
  "crc_run (c XOR d) bs = crc_run c bs XOR (crc_bits ^^ length bs) d"
proof (induction bs arbitrary: c d)
  case Nil
  then show ?case by simp
next
  case (Cons b bs)
  have "crc_run (c XOR d) (b # bs) = crc_run (crc_bits (c XOR b) XOR crc_bits d) bs"
    by (simp add: crc_bits_xor [symmetric] xor.assoc xor.commute xor.left_commute)
  also have "\<dots> = crc_run (crc_bits (c XOR b)) bs XOR (crc_bits ^^ length bs) (crc_bits d)"
    by (rule Cons.IH)
  finally show ?case by (simp add: funpow_swap1)
qed

lemma crc_run_append: "crc_run c (xs @ ys) = crc_run (crc_run c xs) ys"
  by (induction xs arbitrary: c) simp_all

text \<open>Changing byte \<open>i\<close> by \<open>d\<close> changes the CRC by the syndrome of \<open>d\<close>, whatever the message.\<close>

lemma crc_run_update:
  assumes "i < length bs"
  shows "crc_run c (bs[i := bs ! i XOR d]) = crc_run c bs XOR (crc_bits ^^ (length bs - i)) d"
proof -
  have split: "bs = take i bs @ bs ! i # drop (Suc i) bs"
    using assms by (rule id_take_nth_drop)
  have upd: "bs[i := bs ! i XOR d] = take i bs @ (bs ! i XOR d) # drop (Suc i) bs"
    using assms by (rule upd_conv_take_nth_drop)
  define e where "e = crc_run c (take i bs)"
  have len: "length bs - i = Suc (length (drop (Suc i) bs))"
    using assms by simp
  have "crc_run c (bs[i := bs ! i XOR d])
      = crc_run (crc_bits (e XOR bs ! i) XOR crc_bits d) (drop (Suc i) bs)"
    by (simp add: upd crc_run_append e_def crc_bits_xor xor.assoc)
  also have "\<dots> = crc_run (crc_bits (e XOR bs ! i)) (drop (Suc i) bs)
      XOR (crc_bits ^^ length (drop (Suc i) bs)) (crc_bits d)"
    by (rule crc_run_xor_start)
  also have "crc_run (crc_bits (e XOR bs ! i)) (drop (Suc i) bs) = crc_run c bs"
    by (subst (3) split) (simp add: crc_run_append e_def)
  finally show ?thesis by (simp add: len funpow_swap1)
qed

lemma funpow_crc_bits_eq_0: "(crc_bits ^^ n) v = 0 \<longleftrightarrow> v = 0"
  by (induction n) (simp_all add: crc_bits_eq_0)

lemma funpow_crc_bits_xor: "(crc_bits ^^ n) (a XOR b) = (crc_bits ^^ n) a XOR (crc_bits ^^ n) b"
  by (induction n) (simp_all add: crc_bits_xor)

lemma Crc8_SaeJ1850_update:
  assumes "i < n" "n \<le> length bs"
  shows "Crc8_SaeJ1850 (Some (bs[i := bs ! i XOR d])) n
       = Crc8_SaeJ1850 (Some bs) n XOR (crc_bits ^^ (n - i)) d"
proof -
  have "take n (bs[i := bs ! i XOR d]) = (take n bs)[i := take n bs ! i XOR d]"
    using assms by (simp add: take_update_swap)
  then show ?thesis
    using assms crc_run_update [of i "take n bs" CRC8_INIT d]
    by (simp add: Crc8_SaeJ1850_def min_def xor.assoc xor.left_commute xor.commute)
qed

lemma Crc8_SaeJ1850_prefix:
  "take n xs = take n ys \<Longrightarrow> Crc8_SaeJ1850 (Some xs) n = Crc8_SaeJ1850 (Some ys) n"
  by (simp add: Crc8_SaeJ1850_def)

subsection \<open>Evaluation\<close>

text \<open>The register step unrolled, so that \<open>simp\<close> evaluates a CRC on numerals.\<close>

lemma crc_bits_unfold:
  "crc_bits c = crc_bit (crc_bit (crc_bit (crc_bit (crc_bit (crc_bit (crc_bit (crc_bit c)))))))"
  by (simp add: crc_bits_def numeral_eq_Suc)

lemmas crc_eval = Crc8_SaeJ1850_def CRC8_INIT_def CRC8_XOR_OUT_def CRC8_POLY_def
  crc_bits_unfold crc_bit_def

subsection \<open>The order of the register\<close>

text \<open>
  The state \<open>1\<close> does not come back within the 63 bits that separate two bits of an 8-byte
  frame, which is what makes every two-bit error visible.
\<close>

primrec crc_orbit :: "nat \<Rightarrow> u8 \<Rightarrow> u8 list" where
  "crc_orbit 0 c = []"
| "crc_orbit (Suc n) c = c # crc_orbit n (crc_bit c)"

lemma funpow_in_orbit: "k < n \<Longrightarrow> (crc_bit ^^ k) c \<in> set (crc_orbit n c)"
proof (induction n arbitrary: k c)
  case 0
  then show ?case by simp
next
  case (Suc n)
  then show ?case
    by (cases k) (auto simp: funpow_swap1)
qed

lemma crc_orbit_numeral:
  "crc_orbit (numeral k) c = c # crc_orbit (pred_numeral k) (crc_bit c)"
  by (simp add: numeral_eq_Suc)

lemma one_not_in_orbit: "1 \<notin> set (crc_orbit 63 (crc_bit 1))"
  by (simp add: crc_orbit_numeral crc_bit_def CRC8_POLY_def)

lemma crc_bit_funpow_1: "0 < k \<Longrightarrow> k < 64 \<Longrightarrow> (crc_bit ^^ k) 1 \<noteq> 1"
  using funpow_in_orbit [of "k - 1" 63 "crc_bit 1"] one_not_in_orbit
  by (cases k) (auto simp: funpow_swap1)

end
