(* ===== verification/E2e.thy ===== *)
theory E2e
  imports Crc8
begin

section \<open>End-to-end protection of cyclic frames (common/e2e/e2e.c, e2e.h)\<close>

text \<open>
  The alive counter and CRC of the cyclic frames: \<open>E2e_Protect\<close> on the sender,
  \<open>E2e_InitRx\<close>, \<open>E2e_Check\<close> and \<open>E2e_IsValid\<close> on the receiver. The lemmas give the
  verdict for a run of lost frames, and the corruptions the check cannot miss.
\<close>

definition E2E_FRAME_LEN :: u8 where "E2E_FRAME_LEN = 8"
definition E2E_COUNTER_BYTE :: nat where "E2E_COUNTER_BYTE = 6"
definition E2E_CRC_BYTE :: nat where "E2E_CRC_BYTE = 7"
definition E2E_COUNTER_MASK :: u8 where "E2E_COUNTER_MASK = 0x0F"
definition E2E_MAX_DELTA_COUNTER :: u8 where "E2E_MAX_DELTA_COUNTER = 3"

lemmas e2e_consts = E2E_FRAME_LEN_def E2E_COUNTER_BYTE_def E2E_CRC_BYTE_def
  E2E_COUNTER_MASK_def E2E_MAX_DELTA_COUNTER_def

datatype E2e_Status_t =
    E2E_OK | E2E_OK_SOME_LOST | E2E_INITIAL | E2E_ERR_CRC
  | E2E_ERR_REPEATED | E2E_ERR_WRONG_SEQ | E2E_ERR_LENGTH

record E2e_RxState_t =
  lastCounter :: u8
  synced :: bool

text \<open>
  \<open>None\<close> as the frame or the counter is the \<open>NULL\<close> pointer; \<open>None\<close> as the result means that
  nothing was written.
\<close>

definition E2e_Protect :: "u8 list option \<Rightarrow> u8 option \<Rightarrow> (u8 list \<times> u8) option" where
  "E2e_Protect frame counter =
     (case (frame, counter) of
        (Some f, Some c) \<Rightarrow>
          (let f1 = f[E2E_COUNTER_BYTE := c AND E2E_COUNTER_MASK];
               f2 = f1[E2E_CRC_BYTE := Crc8_SaeJ1850 (Some f1) E2E_CRC_BYTE]
           in Some (f2, (c + 1) AND E2E_COUNTER_MASK))
      | _ \<Rightarrow> None)"

definition E2e_InitRx :: "E2e_RxState_t option \<Rightarrow> E2e_RxState_t option" where
  "E2e_InitRx state = map_option (\<lambda>s. s\<lparr>lastCounter := 0, synced := False\<rparr>) state"

definition E2e_Check ::
  "E2e_RxState_t option \<Rightarrow> u8 list option \<Rightarrow> u8 \<Rightarrow> E2e_Status_t \<times> E2e_RxState_t option" where
  "E2e_Check state frame dlc =
     (case (state, frame) of
        (Some s, Some f) \<Rightarrow>
          if dlc < E2E_FRAME_LEN then (E2E_ERR_LENGTH, Some s)
          else if Crc8_SaeJ1850 (Some f) E2E_CRC_BYTE \<noteq> f ! E2E_CRC_BYTE then (E2E_ERR_CRC, Some s)
          else
            (let counter = (f ! E2E_COUNTER_BYTE) AND E2E_COUNTER_MASK in
             if \<not> synced s then (E2E_INITIAL, Some (s\<lparr>synced := True, lastCounter := counter\<rparr>))
             else
               (let delta = (counter - lastCounter s) AND E2E_COUNTER_MASK in
                if delta = 0 then (E2E_ERR_REPEATED, Some s)
                else
                  (let s' = s\<lparr>lastCounter := counter\<rparr> in
                   if delta = 1 then (E2E_OK, Some s')
                   else if delta \<le> E2E_MAX_DELTA_COUNTER then (E2E_OK_SOME_LOST, Some s')
                   else (E2E_ERR_WRONG_SEQ, Some s'))))
      | _ \<Rightarrow> (E2E_ERR_LENGTH, state))"

definition E2e_IsValid :: "E2e_Status_t \<Rightarrow> bool" where
  "E2e_IsValid status = (status = E2E_OK \<or> status = E2E_OK_SOME_LOST \<or> status = E2E_INITIAL)"

subsection \<open>Protecting and checking\<close>

lemma E2e_Protect_Some:
  assumes "length f = 8"
  obtains f' where "E2e_Protect (Some f) (Some c) = Some (f', (c + 1) AND 0x0F)"
    and "length f' = 8" and "take 6 f' = take 6 f" and "f' ! 6 = c AND 0x0F"
    and "f' ! 7 = Crc8_SaeJ1850 (Some f') 7"
proof -
  define f1 where "f1 = f[6 := c AND 0x0F]"
  define f' where "f' = f1[7 := Crc8_SaeJ1850 (Some f1) 7]"
  have "take 7 f' = take 7 f1" by (simp add: f'_def)
  then have "Crc8_SaeJ1850 (Some f') 7 = Crc8_SaeJ1850 (Some f1) 7"
    by (rule Crc8_SaeJ1850_prefix)
  then show ?thesis
    using assms by (intro that [of f'])
      (simp_all add: E2e_Protect_def e2e_consts f1_def f'_def Let_def)
qed

text \<open>The verdict on a frame with a correct CRC, as a function of the counter distance.\<close>

definition seq_verdict :: "u8 \<Rightarrow> E2e_Status_t" where
  "seq_verdict delta =
     (if delta = 0 then E2E_ERR_REPEATED else if delta = 1 then E2E_OK
      else if delta \<le> 3 then E2E_OK_SOME_LOST else E2E_ERR_WRONG_SEQ)"

lemma E2e_Check_synced:
  assumes "8 \<le> dlc" "Crc8_SaeJ1850 (Some f) 7 = f ! 7" "synced s"
  shows "E2e_Check (Some s) (Some f) dlc =
    (let counter = f ! 6 AND 0x0F; delta = (counter - lastCounter s) AND 0x0F
     in (seq_verdict delta, Some (if delta = 0 then s else s\<lparr>lastCounter := counter\<rparr>)))"
  using assms by (auto simp: E2e_Check_def e2e_consts seq_verdict_def Let_def not_less)

lemma E2e_Check_unsynced:
  assumes "8 \<le> dlc" "Crc8_SaeJ1850 (Some f) 7 = f ! 7" "\<not> synced s"
  shows "E2e_Check (Some s) (Some f) dlc =
    (E2E_INITIAL, Some (s\<lparr>synced := True, lastCounter := f ! 6 AND 0x0F\<rparr>))"
  using assms by (auto simp: E2e_Check_def e2e_consts Let_def not_less)

lemma E2e_Check_bad_crc:
  assumes "8 \<le> dlc" "Crc8_SaeJ1850 (Some f) 7 \<noteq> f ! 7"
  shows "E2e_Check (Some s) (Some f) dlc = (E2E_ERR_CRC, Some s)"
  using assms by (auto simp: E2e_Check_def e2e_consts not_less)

lemma E2e_Check_Some: "\<exists>st s'. E2e_Check (Some s) (Some f) dlc = (st, Some s')"
  by (auto simp: E2e_Check_def Let_def)

text \<open>A rejected frame other than one with a wrong sequence leaves the receiver as it was.\<close>

lemma E2e_Check_reject_keeps:
  "E2e_Check state f dlc = (st, state') \<Longrightarrow>
   st \<in> {E2E_ERR_CRC, E2E_ERR_REPEATED, E2E_ERR_LENGTH} \<Longrightarrow> state' = state"
  by (auto simp: E2e_Check_def Let_def split: option.splits if_splits)

subsection \<open>A stream of frames\<close>

text \<open>The frames a sender produces from a list of payloads, and a receiver's verdicts on a list.\<close>

fun e2e_send :: "u8 \<Rightarrow> u8 list list \<Rightarrow> u8 list list" where
  "e2e_send c [] = []"
| "e2e_send c (p # ps) =
     (case E2e_Protect (Some p) (Some c) of
        None \<Rightarrow> [] | Some (f, c') \<Rightarrow> f # e2e_send c' ps)"

fun e2e_recv :: "E2e_RxState_t option \<Rightarrow> u8 list list \<Rightarrow> E2e_Status_t list" where
  "e2e_recv s [] = []"
| "e2e_recv s (f # fs) =
     (case E2e_Check s (Some f) E2E_FRAME_LEN of (st, s') \<Rightarrow> st # e2e_recv s' fs)"

lemma E2e_Check_next:
  assumes "E2e_Protect (Some p) (Some c) = Some (f, c')" "length p = 8"
    and "synced s" "lastCounter s = (c - 1) AND 0x0F"
  shows "E2e_Check (Some s) (Some f) 8 = (E2E_OK, Some (s\<lparr>lastCounter := c AND 0x0F\<rparr>))"
    "c' = (c + 1) AND 0x0F" "(c' - 1) AND 0x0F = c AND 0x0F" "length f = 8" "take 6 f = take 6 p"
proof -
  obtain f' where f: "E2e_Protect (Some p) (Some c) = Some (f', (c + 1) AND 0x0F)" "length f' = 8"
    "take 6 f' = take 6 p" "f' ! 6 = c AND 0x0F" "f' ! 7 = Crc8_SaeJ1850 (Some f') 7"
    using assms(2) by (rule E2e_Protect_Some)
  have "(c AND 0x0F AND 0x0F) - lastCounter s AND 0x0F = 1"
    using assms(4) counter_mod [of "c AND 0x0F" "c - 1"] counter_mod [of c "c - 1"] by simp
  then show "E2e_Check (Some s) (Some f) 8 = (E2E_OK, Some (s\<lparr>lastCounter := c AND 0x0F\<rparr>))"
    using f assms(1,3) by (subst E2e_Check_synced) (simp_all add: seq_verdict_def Let_def)
  show c: "c' = (c + 1) AND 0x0F" "length f = 8" "take 6 f = take 6 p" using f assms(1) by simp_all
  show "(c' - 1) AND 0x0F = c AND 0x0F"
    using counter_mod [of "c + 1" 1] by (simp add: c)
qed

lemma e2e_recv_synced:
  assumes "\<forall>p \<in> set ps. length p = 8"
    and "synced s" "lastCounter s = (c - 1) AND 0x0F"
  shows "e2e_recv (Some s) (e2e_send c ps) = replicate (length ps) E2E_OK"
  using assms
proof (induction ps arbitrary: c s)
  case Nil
  then show ?case by simp
next
  case (Cons p ps)
  then have "length p = 8" by simp
  then obtain f where f: "E2e_Protect (Some p) (Some c) = Some (f, (c + 1) AND 0x0F)"
    by (rule E2e_Protect_Some)
  note chk = E2e_Check_next [OF f \<open>length p = 8\<close> Cons.prems(2,3)]
  have "e2e_recv (Some (s\<lparr>lastCounter := c AND 0x0F\<rparr>)) (e2e_send ((c + 1) AND 0x0F) ps)
      = replicate (length ps) E2E_OK"
    using Cons.prems chk(3) by (intro Cons.IH) simp_all
  with f chk(1) show ?case by (simp add: E2E_FRAME_LEN_def)
qed

subsection \<open>Detected corruptions\<close>

text \<open>\<open>flip_bit p\<close> inverts bit \<open>p\<close> of a frame, counted from the most significant bit of byte 0.\<close>

definition flip_bit :: "nat \<Rightarrow> u8 list \<Rightarrow> u8 list" where
  "flip_bit p f = f[p div 8 := f ! (p div 8) XOR push_bit (7 - p mod 8) 1]"

definition crc_residue :: "u8 list \<Rightarrow> u8" where
  "crc_residue f = Crc8_SaeJ1850 (Some f) 7 XOR f ! 7"

lemma crc_residue_0: "crc_residue f = 0 \<longleftrightarrow> Crc8_SaeJ1850 (Some f) 7 = f ! 7"
  by (simp add: crc_residue_def xor_eq_0_iff)

lemma crc_residue_update:
  assumes "length f = 8" "i < 8"
  shows "crc_residue (f[i := f ! i XOR d]) = crc_residue f XOR (crc_bits ^^ (7 - i)) d"
proof (cases "i = 7")
  case True
  have "Crc8_SaeJ1850 (Some (f[7 := f ! 7 XOR d])) 7 = Crc8_SaeJ1850 (Some f) 7"
    by (rule Crc8_SaeJ1850_prefix) simp
  with True assms show ?thesis by (simp add: crc_residue_def xor.assoc)
next
  case False
  with assms have "i < 7" by simp
  with assms have "Crc8_SaeJ1850 (Some (f[i := f ! i XOR d])) 7
      = Crc8_SaeJ1850 (Some f) 7 XOR (crc_bits ^^ (7 - i)) d"
    by (intro Crc8_SaeJ1850_update) simp_all
  with \<open>i < 7\<close> show ?thesis
    by (simp add: crc_residue_def xor.assoc xor.commute xor.left_commute)
qed

lemma crc_bit_funpow_push: "n < 8 \<Longrightarrow> (crc_bit ^^ n) 1 = push_bit n (1 :: u8)"
proof (induction n)
  case 0
  then show ?case by simp
next
  case (Suc n)
  have "\<not> bit (push_bit n (1 :: u8)) 7"
    using Suc.prems by (simp add: bit_simps)
  with Suc show ?case by (simp add: crc_bit_alt)
qed

lemma crc_residue_flip:
  assumes "length f = 8" "p < 64"
  shows "crc_residue (flip_bit p f) = crc_residue f XOR (crc_bit ^^ (63 - p)) 1"
proof -
  have push: "push_bit (7 - p mod 8) (1 :: u8) = (crc_bit ^^ (7 - p mod 8)) 1"
    by (simp add: crc_bit_funpow_push)
  have bits8: "crc_bits = crc_bit ^^ 8"
    by (rule ext) (simp only: crc_bits_def)
  have pow: "crc_bits ^^ n = crc_bit ^^ (8 * n)" for n
    by (subst bits8) (rule funpow_mult)
  define a b where "a = p div 8" and "b = p mod 8"
  have "p = 8 * a + b" "a < 8" "b < 8"
    using assms(2) by (simp_all add: a_def b_def less_mult_imp_div_less)
  then have "8 * (7 - a) + (7 - b) = 63 - p"
    by arith
  then have "(crc_bits ^^ (7 - p div 8)) (push_bit (7 - p mod 8) 1) = (crc_bit ^^ (63 - p)) 1"
    by (simp only: push pow a_def b_def flip: funpow_add [THEN fun_cong, unfolded comp_apply])
  moreover have "p div 8 < 8" using assms(2) by simp
  ultimately show ?thesis
    using assms crc_residue_update by (simp add: flip_bit_def)
qed

lemma length_flip_bit [simp]: "length (flip_bit p f) = length f"
  by (simp add: flip_bit_def)

lemma crc_bit_funpow_inj: "(crc_bit ^^ n) a = (crc_bit ^^ n) b \<longleftrightarrow> a = b"
  by (metis funpow_crc_bit_xor funpow_crc_bit_eq_0 xor_eq_0_iff)

lemma syndromes_distinct:
  assumes "p < q" "q < 64"
  shows "(crc_bit ^^ (63 - p)) 1 \<noteq> (crc_bit ^^ (63 - q)) (1 :: u8)"
proof -
  have "63 - p = (63 - q) + (q - p)" using assms by simp
  then have "(crc_bit ^^ (63 - p)) 1 = (crc_bit ^^ (63 - q)) ((crc_bit ^^ (q - p)) 1)"
    by (simp add: funpow_add)
  moreover have "(crc_bit ^^ (q - p)) 1 \<noteq> 1"
    using assms by (intro crc_bit_funpow_1) simp_all
  ultimately show ?thesis by (simp add: crc_bit_funpow_inj)
qed

subsection \<open>Frames of a stream\<close>

lemma length_e2e_send:
  "\<forall>p \<in> set ps. length p = 8 \<Longrightarrow> length (e2e_send c ps) = length ps"
proof (induction ps arbitrary: c)
  case Nil
  then show ?case by simp
next
  case (Cons p ps)
  then have "length p = 8" by simp
  then obtain f where "E2e_Protect (Some p) (Some c) = Some (f, (c + 1) AND 0x0F)"
    by (rule E2e_Protect_Some)
  with Cons show ?case by simp
qed

text \<open>What a frame on the bus carries: payload, counter and a matching CRC.\<close>

definition carries :: "u8 \<Rightarrow> u8 list \<Rightarrow> u8 list \<Rightarrow> bool" where
  "carries c p f = (length f = 8 \<and> take 6 f = take 6 p \<and> f ! 6 = c AND 0x0F \<and>
     Crc8_SaeJ1850 (Some f) 7 = f ! 7)"

lemma carries_mod: "carries (c AND 0x0F) p f = carries c p f"
  by (simp add: carries_def)

lemma nth_e2e_send:
  assumes "\<forall>p \<in> set ps. length p = 8" "i < length ps"
  shows "carries (c + of_nat i) (ps ! i) (e2e_send c ps ! i)"
  using assms
proof (induction ps arbitrary: c i)
  case (Cons p ps)
  then have "length p = 8" by simp
  then obtain f where f: "E2e_Protect (Some p) (Some c) = Some (f, (c + 1) AND 0x0F)"
    "carries c p f"
    by (rule E2e_Protect_Some [of p c]) (simp add: carries_def)
  show ?case
  proof (cases i)
    case 0
    with f show ?thesis by simp
  next
    case (Suc k)
    with Cons have "carries (((c + 1) AND 0x0F) + of_nat k) (ps ! k)
        (e2e_send ((c + 1) AND 0x0F) ps ! k)" by simp
    then have "carries (c + 1 + of_nat k) (ps ! k) (e2e_send ((c + 1) AND 0x0F) ps ! k)"
      using carries_mod [of "((c + 1) AND 0x0F) + of_nat k"] carries_mod [of "c + 1 + of_nat k"]
      by (simp only: counter_add)
    with f Suc show ?thesis by (simp add: ac_simps)
  qed
qed simp

text \<open>A receiver that accepted a frame takes its counter over.\<close>

lemma E2e_Check_valid:
  assumes "carries c p f" "E2e_Check (Some s) (Some f) 8 = (st, Some s')" "E2e_IsValid st"
  shows "synced s'" "lastCounter s' = c AND 0x0F"
  using assms
  by (auto simp: E2e_Check_def carries_def e2e_consts E2e_IsValid_def Let_def split: if_splits)

lemma counter_distance:
  assumes "i \<le> j"
  shows "unat ((((c + of_nat j) AND 0x0F) - ((c + of_nat i) AND 0x0F)) AND 0x0F :: u8) = (j - i) mod 16"
proof -
  have "(((c + of_nat j) AND 0x0F) - ((c + of_nat i) AND 0x0F)) AND 0x0F
      = (of_nat (j - i) :: u8) AND 0x0F"
    using assms by (simp add: counter_mod of_nat_diff)
  then show ?thesis
    by (simp add: unat_and_0x0F unat_of_nat mod_mod_cancel)
qed

text \<open>The verdict after \<open>n\<close> steps of the sender.\<close>

definition gap_verdict :: "nat \<Rightarrow> E2e_Status_t" where
  "gap_verdict n =
     (if n mod 16 = 0 then E2E_ERR_REPEATED else if n mod 16 = 1 then E2E_OK
      else if n mod 16 \<le> 3 then E2E_OK_SOME_LOST else E2E_ERR_WRONG_SEQ)"

lemma seq_verdict_gap: "unat delta = n mod 16 \<Longrightarrow> seq_verdict delta = gap_verdict n"
  by (auto simp: seq_verdict_def gap_verdict_def word_unat_eq_iff word_le_nat_alt)

lemma E2e_Check_gap:
  assumes "carries (c + of_nat i) p f" "carries (c + of_nat j) q g" "i \<le> j"
    and "E2e_Check (Some s) (Some f) 8 = (st, Some s')" "E2e_IsValid st"
  shows "E2e_Check (Some s') (Some g) 8
       = (gap_verdict (j - i), Some (s'\<lparr>lastCounter := (c + of_nat j) AND 0x0F\<rparr>))"
proof -
  define delta where "delta = (((c + of_nat j) AND 0x0F) - lastCounter s') AND 0x0F"
  have s': "synced s'" "lastCounter s' = (c + of_nat i) AND 0x0F"
    using E2e_Check_valid [OF assms(1,4,5)] by simp_all
  have d: "seq_verdict delta = gap_verdict (j - i)"
    using counter_distance [OF assms(3), of c] s' by (intro seq_verdict_gap) (simp add: delta_def)
  have rep: "s' = s'\<lparr>lastCounter := (c + of_nat j) AND 0x0F\<rparr>" if "delta = 0"
    using that counter_same [of "(c + of_nat j) AND 0x0F" "(c + of_nat i) AND 0x0F"] s'
    by (simp add: delta_def)
  show ?thesis
    using assms(2) s' d rep
    by (subst E2e_Check_synced) (simp_all add: carries_def Let_def delta_def)
qed

subsection \<open>Properties\<close>

definition example_frame :: "u8 list" where
  "example_frame = [0x04, 0xE2, 0x08, 0x00, 0x00, 0x00, 0x05, 0x29]"

lemma example_frame_crc: "Crc8_SaeJ1850 (Some example_frame) 7 = example_frame ! 7"
  by (simp add: example_frame_def crc_eval)

lemma example_frame_facts [simp]: "length example_frame = 8" "example_frame ! 2 = 0x08"
  by (simp_all add: example_frame_def)

text \<open>C22: whatever the state of the receiver, a protected frame in which one byte was replaced
  by any other value (the CRC byte and the counter included) is rejected with \<open>E2E_ERR_CRC\<close>
  and the receiver's counter state is not touched.\<close>

theorem E2e_Check_detects_corrupted_byte:
  assumes "length f = 8" "Crc8_SaeJ1850 (Some f) 7 = f ! 7" "i < 8" "v \<noteq> f ! i" "8 \<le> dlc"
  shows "E2e_Check (Some s) (Some (f[i := v])) dlc = (E2E_ERR_CRC, Some s)"
proof -
  have v: "f ! i XOR (f ! i XOR v) = v"
    by (simp flip: xor.assoc)
  have "crc_residue (f[i := v]) = crc_residue f XOR (crc_bits ^^ (7 - i)) (f ! i XOR v)"
    using crc_residue_update [OF assms(1,3), of "f ! i XOR v"] by (simp only: v)
  then have "crc_residue (f[i := v]) \<noteq> 0"
    using assms(2,4) by (auto simp: crc_residue_0 [symmetric] funpow_crc_bits_eq_0 xor_eq_0_iff)
  then show ?thesis
    using assms(5) by (intro E2e_Check_bad_crc) (simp_all only: crc_residue_0 not_False_eq_True)
qed

theorem E2e_Check_detects_corrupted_byte_witness:
  "E2e_Check (Some \<lparr>lastCounter = 4, synced = True\<rparr>) (Some (example_frame[2 := 0x09])) 8
   = (E2E_ERR_CRC, Some \<lparr>lastCounter = 4, synced = True\<rparr>)"
  by (rule E2e_Check_detects_corrupted_byte) (simp_all add: example_frame_crc)

text \<open>C23: any one or two inverted bits of a protected 8-byte frame, wherever they are, are
  detected: the frame is rejected with \<open>E2E_ERR_CRC\<close> and the receiver's state is kept
  (\<open>p = q\<close> would invert the same bit twice).\<close>

theorem E2e_Check_detects_two_bit_flips:
  assumes "length f = 8" "Crc8_SaeJ1850 (Some f) 7 = f ! 7" "p < q" "q < 64" "8 \<le> dlc"
  shows "E2e_Check (Some s) (Some (flip_bit p f)) dlc = (E2E_ERR_CRC, Some s) \<and>
    E2e_Check (Some s) (Some (flip_bit q (flip_bit p f))) dlc = (E2E_ERR_CRC, Some s)"
proof
  have "p < 64" using assms(3,4) by simp
  note one = crc_residue_flip [OF assms(1) this]
  have "crc_residue (flip_bit q (flip_bit p f))
      = crc_residue f XOR ((crc_bit ^^ (63 - p)) 1 XOR (crc_bit ^^ (63 - q)) 1)"
    using crc_residue_flip [of "flip_bit p f" q] assms(1,4) one by (simp add: xor.assoc)
  then have "crc_residue (flip_bit q (flip_bit p f)) \<noteq> 0"
    using assms(2) syndromes_distinct [OF assms(3,4)] crc_residue_0 [of f]
    by (simp add: xor_eq_0_iff)
  then show "E2e_Check (Some s) (Some (flip_bit q (flip_bit p f))) dlc = (E2E_ERR_CRC, Some s)"
    using assms(5) by (intro E2e_Check_bad_crc) (simp_all only: crc_residue_0 not_False_eq_True)
  have "crc_residue (flip_bit p f) \<noteq> 0"
    using assms(2) one crc_residue_0 [of f] by (simp add: funpow_crc_bit_eq_0)
  then show "E2e_Check (Some s) (Some (flip_bit p f)) dlc = (E2E_ERR_CRC, Some s)"
    using assms(5) by (intro E2e_Check_bad_crc) (simp_all only: crc_residue_0 not_False_eq_True)
qed

theorem E2e_Check_detects_two_bit_flips_witness:
  "E2e_Check (Some \<lparr>lastCounter = 4, synced = True\<rparr>)
     (Some (flip_bit 51 (flip_bit 7 example_frame))) 8
   = (E2E_ERR_CRC, Some \<lparr>lastCounter = 4, synced = True\<rparr>)"
  by (rule E2e_Check_detects_two_bit_flips [THEN conjunct2]) (simp_all add: example_frame_crc)

text \<open>C24: a receiver that starts unsynchronised accepts every frame of a sender on a lossless
  bus: the first with \<open>E2E_INITIAL\<close>, all later ones with \<open>E2E_OK\<close>, through any number of
  counter wrap-arounds; and the six payload bytes of every frame arrive unchanged.\<close>

theorem e2e_lossless_stream:
  assumes "\<forall>p \<in> set (q # ps). length p = 8"
  shows "e2e_recv (E2e_InitRx (Some s)) (e2e_send c (q # ps))
         = E2E_INITIAL # replicate (length ps) E2E_OK \<and>
       map (take 6) (e2e_send c (q # ps)) = map (take 6) (q # ps)"
proof
  have "length q = 8" using assms by simp
  then obtain f where f: "E2e_Protect (Some q) (Some c) = Some (f, (c + 1) AND 0x0F)"
    "f ! 6 = c AND 0x0F" "f ! 7 = Crc8_SaeJ1850 (Some f) 7"
    by (rule E2e_Protect_Some)
  have last: "c AND 0x0F = ((c + 1) AND 0x0F) - 1 AND 0x0F"
    using counter_mod [of "c + 1" 1] by simp
  have "e2e_recv (Some (s\<lparr>synced := True, lastCounter := c AND 0x0F\<rparr>)) (e2e_send ((c + 1) AND 0x0F) ps)
      = replicate (length ps) E2E_OK"
    using assms last by (intro e2e_recv_synced) simp_all
  then show "e2e_recv (E2e_InitRx (Some s)) (e2e_send c (q # ps))
      = E2E_INITIAL # replicate (length ps) E2E_OK"
    using f by (simp add: E2e_InitRx_def E2E_FRAME_LEN_def E2e_Check_unsynced)
  show "map (take 6) (e2e_send c (q # ps)) = map (take 6) (q # ps)"
  proof (rule nth_equalityI)
    fix i assume "i < length (map (take 6) (e2e_send c (q # ps)))"
    with nth_e2e_send [OF assms, of i c] length_e2e_send [OF assms, of c]
    show "map (take 6) (e2e_send c (q # ps)) ! i = map (take 6) (q # ps) ! i"
      by (simp only: length_map nth_map carries_def)
  qed (simp only: length_map length_e2e_send [OF assms])
qed

theorem e2e_lossless_stream_witness:
  "e2e_recv (E2e_InitRx (Some \<lparr>lastCounter = 9, synced = True\<rparr>))
     (e2e_send 14 [replicate 8 1, replicate 8 2, replicate 8 3]) = [E2E_INITIAL, E2E_OK, E2E_OK]"
  using e2e_lossless_stream [of "replicate 8 1" "[replicate 8 2, replicate 8 3]"
      "\<lparr>lastCounter = 9, synced = True\<rparr>" 14]
  by (simp add: numeral_eq_Suc)

text \<open>after a valid frame number \<open>i\<close> of a sender's stream, the verdict on frame number
  \<open>j\<close> (everything in between lost) depends only on \<open>(j - i) mod 16\<close>: 0 is a repetition, 1 is
  in order, 2 and 3 are tolerated losses, anything else is a wrong sequence; and the receiver
  takes over the counter of frame \<open>j\<close>. In particular 16 lost frames in a row are invisible.\<close>

theorem E2e_Check_lost_frames:
  assumes "\<forall>p \<in> set ps. length p = 8" "i \<le> j" "j < length ps"
    and "E2e_Check (Some s) (Some (e2e_send c ps ! i)) 8 = (st, Some s')" "E2e_IsValid st"
  shows "E2e_Check (Some s') (Some (e2e_send c ps ! j)) 8
       = (gap_verdict (j - i), Some (s'\<lparr>lastCounter := (c + of_nat j) AND 0x0F\<rparr>))"
  using assms(2,3) nth_e2e_send [OF assms(1), of i c] nth_e2e_send [OF assms(1,3), of c]
  by (intro E2e_Check_gap [OF _ _ assms(2,4,5)]) simp_all

theorem E2e_Check_lost_frames_witness:
  "E2e_Check (Some \<lparr>lastCounter = 0, synced = True\<rparr>)
     (Some (e2e_send 0 (replicate 20 (replicate 8 7)) ! 17)) 8
   = (E2E_OK, Some \<lparr>lastCounter = 1, synced = True\<rparr>)"
proof -
  have "E2e_Check (Some \<lparr>lastCounter = 0, synced = False\<rparr>)
      (Some (e2e_send 0 (replicate 20 (replicate 8 7)) ! 0)) 8
      = (E2E_INITIAL, Some \<lparr>lastCounter = 0, synced = True\<rparr>)"
    using nth_e2e_send [of "replicate 20 (replicate 8 7)" 0 0]
    by (subst E2e_Check_unsynced) (simp_all add: carries_def)
  then show ?thesis
    using E2e_Check_lost_frames [of "replicate 20 (replicate 8 7)" 0 17
        "\<lparr>lastCounter = 0, synced = False\<rparr>" 0 E2E_INITIAL "\<lparr>lastCounter = 0, synced = True\<rparr>"]
    by (simp add: gap_verdict_def E2e_IsValid_def)
qed

end
