(* ===== verification/DtcManager.thy ===== *)
theory DtcManager
  imports Prelude
begin

section \<open>Diagnostic trouble codes (common/dtc/dtc_manager.c, dtc_manager.h)\<close>

text \<open>
  The manager keeps, per trouble code, the ISO 14229-1 status byte and a failure counter.
  The static variables of the file are the fields of \<open>DtcMgr_State\<close>; the lock callbacks are
  functions on the hold count of the mutex they drive, so that a missing or doubled unlock
  shows in the state.
\<close>

subsection \<open>Status bits\<close>

definition DTC_STATUS_TF :: u8 where "DTC_STATUS_TF = 0x01"
definition DTC_STATUS_TFTOC :: u8 where "DTC_STATUS_TFTOC = 0x02"
definition DTC_STATUS_PDTC :: u8 where "DTC_STATUS_PDTC = 0x04"
definition DTC_STATUS_CDTC :: u8 where "DTC_STATUS_CDTC = 0x08"
definition DTC_STATUS_TNCSLC :: u8 where "DTC_STATUS_TNCSLC = 0x10"
definition DTC_STATUS_TFSLC :: u8 where "DTC_STATUS_TFSLC = 0x20"
definition DTC_STATUS_TNCTOC :: u8 where "DTC_STATUS_TNCTOC = 0x40"
definition DTC_STATUS_WIR :: u8 where "DTC_STATUS_WIR = 0x80"

definition DTC_STATUS_AVAILABILITY_MASK :: u8 where
  "DTC_STATUS_AVAILABILITY_MASK = 0xFF AND NOT DTC_STATUS_WIR"

definition DTC_MAX_ENTRIES :: u8 where "DTC_MAX_ENTRIES = 16"

definition STATUS_INITIAL :: u8 where
  "STATUS_INITIAL = DTC_STATUS_TNCSLC OR DTC_STATUS_TNCTOC"

lemmas dtc_status_defs = DTC_STATUS_TF_def DTC_STATUS_TFTOC_def DTC_STATUS_PDTC_def
  DTC_STATUS_CDTC_def DTC_STATUS_TNCSLC_def DTC_STATUS_TFSLC_def DTC_STATUS_TNCTOC_def
  DTC_STATUS_WIR_def

lemma bit_dtc_status:
  "bit DTC_STATUS_TF n \<longleftrightarrow> n = 0" "bit DTC_STATUS_TFTOC n \<longleftrightarrow> n = 1"
  "bit DTC_STATUS_PDTC n \<longleftrightarrow> n = 2" "bit DTC_STATUS_CDTC n \<longleftrightarrow> n = 3"
  "bit DTC_STATUS_TNCSLC n \<longleftrightarrow> n = 4" "bit DTC_STATUS_TFSLC n \<longleftrightarrow> n = 5"
  "bit DTC_STATUS_TNCTOC n \<longleftrightarrow> n = 6" "bit DTC_STATUS_WIR n \<longleftrightarrow> n = 7"
proof -
  have "bit (2 ^ k :: u8) n \<longleftrightarrow> n = k" if "k < 8" for k
    using that by (auto simp: bit_simps)
  from this [of 0] this [of 1] this [of 2] this [of 3] this [of 4] this [of 5] this [of 6] this [of 7]
  show "bit DTC_STATUS_TF n \<longleftrightarrow> n = 0" "bit DTC_STATUS_TFTOC n \<longleftrightarrow> n = 1"
    "bit DTC_STATUS_PDTC n \<longleftrightarrow> n = 2" "bit DTC_STATUS_CDTC n \<longleftrightarrow> n = 3"
    "bit DTC_STATUS_TNCSLC n \<longleftrightarrow> n = 4" "bit DTC_STATUS_TFSLC n \<longleftrightarrow> n = 5"
    "bit DTC_STATUS_TNCTOC n \<longleftrightarrow> n = 6" "bit DTC_STATUS_WIR n \<longleftrightarrow> n = 7"
    by (simp_all add: dtc_status_defs)
qed

subsection \<open>State\<close>

record DtcEntry_t =
  status :: u8
  failCount :: u8

record DtcMgr_Config_t =
  code :: u32
  confirmThreshold :: u8

record DtcMgr_State =
  s_table :: "DtcMgr_Config_t list"
  s_count :: u8
  s_entries :: "DtcEntry_t list"
  s_lock :: "(nat \<Rightarrow> nat) option"
  s_unlock :: "(nat \<Rightarrow> nat) option"
  mutex :: nat

text \<open>The values the static variables have before \<open>DtcMgr_Init\<close>.\<close>

definition DtcMgr_static :: DtcMgr_State where
  "DtcMgr_static = \<lparr>s_table = [], s_count = 0,
     s_entries = replicate (unat DTC_MAX_ENTRIES) \<lparr>status = 0, failCount = 0\<rparr>,
     s_lock = None, s_unlock = None, mutex = 0\<rparr>"

subsection \<open>Operations\<close>

definition Lock :: "DtcMgr_State \<Rightarrow> DtcMgr_State" where
  "Lock d = (case s_lock d of None \<Rightarrow> d | Some f \<Rightarrow> d\<lparr>mutex := f (mutex d)\<rparr>)"

definition Unlock :: "DtcMgr_State \<Rightarrow> DtcMgr_State" where
  "Unlock d = (case s_unlock d of None \<Rightarrow> d | Some f \<Rightarrow> d\<lparr>mutex := f (mutex d)\<rparr>)"

text \<open>The loops over the first \<open>s_count\<close> entries.\<close>

definition for_entries :: "(DtcEntry_t \<Rightarrow> DtcEntry_t) \<Rightarrow> DtcMgr_State \<Rightarrow> DtcMgr_State" where
  "for_entries f d =
     d\<lparr>s_entries := map f (take (unat (s_count d)) (s_entries d))
        @ drop (unat (s_count d)) (s_entries d)\<rparr>"

definition ResetAll :: "DtcMgr_State \<Rightarrow> DtcMgr_State" where
  "ResetAll d = for_entries (\<lambda>e. e\<lparr>status := STATUS_INITIAL, failCount := 0\<rparr>) d"

definition DtcMgr_Init ::
  "DtcMgr_Config_t list option \<Rightarrow> u8 \<Rightarrow> (nat \<Rightarrow> nat) option \<Rightarrow> (nat \<Rightarrow> nat) option \<Rightarrow>
   DtcMgr_State \<Rightarrow> bool \<times> DtcMgr_State" where
  "DtcMgr_Init table count lock unlock d =
     (case table of
        None \<Rightarrow> (False, d)
      | Some t \<Rightarrow>
          if count = 0 \<or> count > DTC_MAX_ENTRIES then (False, d)
          else (True, ResetAll (d\<lparr>s_table := t, s_count := count, s_lock := lock, s_unlock := unlock\<rparr>)))"

definition report_entry :: "u8 \<Rightarrow> bool \<Rightarrow> DtcEntry_t \<Rightarrow> DtcEntry_t" where
  "report_entry threshold failed e =
     (let e1 = e\<lparr>status := status e AND NOT (DTC_STATUS_TNCTOC OR DTC_STATUS_TNCSLC)\<rparr> in
      if failed then
        (let e2 = e1\<lparr>status := status e1 OR (DTC_STATUS_TF OR DTC_STATUS_TFTOC OR DTC_STATUS_TFSLC OR DTC_STATUS_PDTC)\<rparr>;
             e3 = (if failCount e2 < 0xFF then e2\<lparr>failCount := failCount e2 + 1\<rparr> else e2)
         in if failCount e3 \<ge> threshold then e3\<lparr>status := status e3 OR DTC_STATUS_CDTC\<rparr> else e3)
      else e1\<lparr>status := status e1 AND NOT DTC_STATUS_TF, failCount := 0\<rparr>)"

definition effective_threshold :: "DtcMgr_Config_t \<Rightarrow> u8" where
  "effective_threshold cfg = (if confirmThreshold cfg = 0 then 1 else confirmThreshold cfg)"

definition DtcMgr_ReportResult :: "u8 \<Rightarrow> bool \<Rightarrow> DtcMgr_State \<Rightarrow> DtcMgr_State" where
  "DtcMgr_ReportResult index failed d =
     (if index \<ge> s_count d then d
      else
        (let d1 = Lock d;
             threshold = effective_threshold (s_table d1 ! unat index);
             e = report_entry threshold failed (s_entries d1 ! unat index)
         in Unlock (d1\<lparr>s_entries := (s_entries d1)[unat index := e]\<rparr>)))"

definition cycle_entry :: "DtcEntry_t \<Rightarrow> DtcEntry_t" where
  "cycle_entry e =
     (let e1 = (if status e AND DTC_STATUS_TFTOC = 0
                then e\<lparr>status := status e AND NOT DTC_STATUS_PDTC\<rparr> else e);
          e2 = e1\<lparr>status := status e1 AND NOT DTC_STATUS_TFTOC\<rparr>
      in e2\<lparr>status := status e2 OR DTC_STATUS_TNCTOC\<rparr>)"

definition DtcMgr_StartOperationCycle :: "DtcMgr_State \<Rightarrow> DtcMgr_State" where
  "DtcMgr_StartOperationCycle d = Unlock (for_entries cycle_entry (Lock d))"

definition DtcMgr_ClearAll :: "DtcMgr_State \<Rightarrow> DtcMgr_State" where
  "DtcMgr_ClearAll d = Unlock (ResetAll (Lock d))"

definition DtcMgr_Count :: "DtcMgr_State \<Rightarrow> u8" where
  "DtcMgr_Count d = s_count d"

definition DtcMgr_GetStatus :: "u8 \<Rightarrow> DtcMgr_State \<Rightarrow> u8 \<times> DtcMgr_State" where
  "DtcMgr_GetStatus index d =
     (if index < s_count d then
        (let d1 = Lock d; st = status (s_entries d1 ! unat index) in (st, Unlock d1))
      else (0, d))"

definition status_matches :: "u8 \<Rightarrow> DtcEntry_t \<Rightarrow> bool" where
  "status_matches msk e = (status e AND msk AND DTC_STATUS_AVAILABILITY_MASK \<noteq> 0)"

definition DtcMgr_CountByStatusMask :: "u8 \<Rightarrow> DtcMgr_State \<Rightarrow> u8 \<times> DtcMgr_State" where
  "DtcMgr_CountByStatusMask msk d =
     (let d1 = Lock d;
          n = foldl (\<lambda>n e. if status_matches msk e then n + 1 else n) 0
                (take (unat (s_count d1)) (s_entries d1))
      in (n, Unlock d1))"

definition dtc_record :: "DtcMgr_Config_t \<Rightarrow> DtcEntry_t \<Rightarrow> u8 list" where
  "dtc_record cfg e =
     [ucast (drop_bit 16 (code cfg) AND 0xFF), ucast (drop_bit 8 (code cfg) AND 0xFF),
      ucast (code cfg AND 0xFF), status e AND DTC_STATUS_AVAILABILITY_MASK]"

fun get_loop ::
  "u8 \<Rightarrow> u8 \<Rightarrow> (DtcMgr_Config_t \<times> DtcEntry_t) list \<Rightarrow> u8 \<Rightarrow> u8 list \<Rightarrow> u8 \<times> u8 list" where
  "get_loop msk maxRecords [] n out = (n, out)"
| "get_loop msk maxRecords ((cfg, e) # rest) n out =
     (if n < maxRecords then
        (if status_matches msk e
         then get_loop msk maxRecords rest (n + 1) (write_at out (unat n * 4) (dtc_record cfg e))
         else get_loop msk maxRecords rest n out)
      else (n, out))"

definition DtcMgr_GetByStatusMask ::
  "u8 \<Rightarrow> u8 list option \<Rightarrow> u8 \<Rightarrow> DtcMgr_State \<Rightarrow> u8 \<times> u8 list option \<times> DtcMgr_State" where
  "DtcMgr_GetByStatusMask msk out maxRecords d =
     (case out of
        None \<Rightarrow> (0, None, d)
      | Some buf \<Rightarrow>
          (let d1 = Lock d;
               (n, buf') = get_loop msk maxRecords
                 (take (unat (s_count d1)) (zip (s_table d1) (s_entries d1))) 0 buf
           in (n, Some buf', Unlock d1)))"

end
