(* ===== verification/UdsServer.thy ===== *)
theory UdsServer
  imports DtcManager
begin

section \<open>ISO 14229-1 server (common/uds/uds_server.c, uds_server.h)\<close>

text \<open>
  The request handlers of the diagnostic server. The static variables are the fields of
  \<open>Uds_State\<close>, except the configuration \<open>s_cfg\<close>, a parameter of the operations that read it
  (it holds functions on the caller's world \<open>'w\<close>). The trouble code manager, which the file
  calls by name, is the parameter \<open>'w DtcIf\<close>; the caller binds it to the \<open>DtcMgr\<close> functions.
\<close>

definition SPRMIB :: u8 where "SPRMIB = 0x80"
definition SUBFUNCTION_MASK :: u8 where "SUBFUNCTION_MASK = 0x7F"
definition DTC_GROUP_ALL :: u32 where "DTC_GROUP_ALL = 0xFFFFFF"
definition DTC_FORMAT_ISO14229_1 :: u8 where "DTC_FORMAT_ISO14229_1 = 0x01"
definition DTC_RECORD_LEN :: u16 where "DTC_RECORD_LEN = 4"

definition RESET_NONE :: u8 where "RESET_NONE = 0x00"
definition RESET_HARD :: u8 where "RESET_HARD = 0x01"
definition RESET_SOFT :: u8 where "RESET_SOFT = 0x03"

definition UDS_SID_DIAG_SESSION_CONTROL :: u8 where "UDS_SID_DIAG_SESSION_CONTROL = 0x10"
definition UDS_SID_ECU_RESET :: u8 where "UDS_SID_ECU_RESET = 0x11"
definition UDS_SID_CLEAR_DTC :: u8 where "UDS_SID_CLEAR_DTC = 0x14"
definition UDS_SID_READ_DTC :: u8 where "UDS_SID_READ_DTC = 0x19"
definition UDS_SID_READ_DID :: u8 where "UDS_SID_READ_DID = 0x22"
definition UDS_SID_TESTER_PRESENT :: u8 where "UDS_SID_TESTER_PRESENT = 0x3E"
definition UDS_SID_NEGATIVE_RESPONSE :: u8 where "UDS_SID_NEGATIVE_RESPONSE = 0x7F"
definition UDS_POSITIVE_OFFSET :: u8 where "UDS_POSITIVE_OFFSET = 0x40"

definition UDS_NRC_SERVICE_NOT_SUPPORTED :: u8 where "UDS_NRC_SERVICE_NOT_SUPPORTED = 0x11"
definition UDS_NRC_SUBFUNCTION_NOT_SUPPORTED :: u8 where "UDS_NRC_SUBFUNCTION_NOT_SUPPORTED = 0x12"
definition UDS_NRC_INCORRECT_LENGTH :: u8 where "UDS_NRC_INCORRECT_LENGTH = 0x13"
definition UDS_NRC_RESPONSE_TOO_LONG :: u8 where "UDS_NRC_RESPONSE_TOO_LONG = 0x14"
definition UDS_NRC_REQUEST_OUT_OF_RANGE :: u8 where "UDS_NRC_REQUEST_OUT_OF_RANGE = 0x31"
definition UDS_NRC_SUBFUNC_NOT_SUPP_IN_SESSION :: u8 where "UDS_NRC_SUBFUNC_NOT_SUPP_IN_SESSION = 0x7E"
definition UDS_NRC_SERVICE_NOT_SUPP_IN_SESSION :: u8 where "UDS_NRC_SERVICE_NOT_SUPP_IN_SESSION = 0x7F"

definition UDS_SESSION_DEFAULT :: u8 where "UDS_SESSION_DEFAULT = 0x01"
definition UDS_SESSION_EXTENDED :: u8 where "UDS_SESSION_EXTENDED = 0x03"

definition UDS_P2_SERVER_MS :: u16 where "UDS_P2_SERVER_MS = 50"
definition UDS_P2STAR_SERVER_MS :: u16 where "UDS_P2STAR_SERVER_MS = 5000"
definition UDS_S3_SERVER_MS :: u32 where "UDS_S3_SERVER_MS = 5000"

lemmas uds_consts = SPRMIB_def SUBFUNCTION_MASK_def DTC_GROUP_ALL_def DTC_FORMAT_ISO14229_1_def
  DTC_RECORD_LEN_def RESET_NONE_def RESET_HARD_def RESET_SOFT_def UDS_SID_DIAG_SESSION_CONTROL_def
  UDS_SID_ECU_RESET_def UDS_SID_CLEAR_DTC_def UDS_SID_READ_DTC_def UDS_SID_READ_DID_def
  UDS_SID_TESTER_PRESENT_def UDS_SID_NEGATIVE_RESPONSE_def UDS_POSITIVE_OFFSET_def
  UDS_NRC_SERVICE_NOT_SUPPORTED_def UDS_NRC_SUBFUNCTION_NOT_SUPPORTED_def
  UDS_NRC_INCORRECT_LENGTH_def UDS_NRC_RESPONSE_TOO_LONG_def UDS_NRC_REQUEST_OUT_OF_RANGE_def
  UDS_NRC_SUBFUNC_NOT_SUPP_IN_SESSION_def UDS_NRC_SERVICE_NOT_SUPP_IN_SESSION_def
  UDS_SESSION_DEFAULT_def UDS_SESSION_EXTENDED_def UDS_P2_SERVER_MS_def UDS_P2STAR_SERVER_MS_def
  UDS_S3_SERVER_MS_def

record 'w Uds_Did_t =
  did_id :: u16
  did_length :: u8
  did_read :: "'w \<Rightarrow> u8 list \<times> 'w"

record 'w Uds_Config_t =
  dids :: "'w Uds_Did_t list"
  didCount :: u8
  uds_getTimeMs :: "('w \<Rightarrow> u32 \<times> 'w) option"
  ecuReset :: "(u8 \<Rightarrow> 'w \<Rightarrow> 'w option) option"

record 'w DtcIf =
  dtc_ClearAll :: "'w \<Rightarrow> 'w"
  dtc_CountByStatusMask :: "u8 \<Rightarrow> 'w \<Rightarrow> u8 \<times> 'w"
  dtc_GetByStatusMask :: "u8 \<Rightarrow> u8 list \<Rightarrow> u8 \<Rightarrow> 'w \<Rightarrow> u8 \<times> u8 list \<times> 'w"

record Uds_State =
  s_session :: u8
  s_lastRequestMs :: u32
  s_pendingReset :: u8

definition Uds_static :: Uds_State where
  "Uds_static = \<lparr>s_session = UDS_SESSION_DEFAULT, s_lastRequestMs = 0, s_pendingReset = RESET_NONE\<rparr>"

record Ctx_t =
  req :: "u8 list"
  reqLen :: u16
  resp :: "u8 list"
  respMax :: u16
  respLen :: u16
  suppressPositive :: bool

text \<open>A handler maps the context, the static state and the world to an NRC (0 is positive).\<close>

type_synonym 'w uds = "Ctx_t \<times> Uds_State \<times> 'w"

subsection \<open>Helpers\<close>

definition Negative :: "Ctx_t \<Rightarrow> u8 \<Rightarrow> u16 \<times> Ctx_t" where
  "Negative c nrc =
     (if respMax c < 3 then (0, c)
      else (3, c\<lparr>resp := (resp c)[0 := UDS_SID_NEGATIVE_RESPONSE, 1 := req c ! 0, 2 := nrc]\<rparr>))"

definition Put :: "Ctx_t \<Rightarrow> u8 \<Rightarrow> bool \<times> Ctx_t" where
  "Put c byte =
     (if respLen c \<ge> respMax c then (False, c)
      else (True, c\<lparr>resp := (resp c)[unat (respLen c) := byte], respLen := respLen c + 1\<rparr>))"

text \<open>\<open>(void)Put(c, byte)\<close>, and a sequence of them.\<close>

definition put :: "u8 \<Rightarrow> Ctx_t \<Rightarrow> Ctx_t" where
  "put byte c = snd (Put c byte)"

definition puts :: "u8 list \<Rightarrow> Ctx_t \<Rightarrow> Ctx_t" where
  "puts bytes c = fold put bytes c"

definition FindDid :: "'w Uds_Config_t \<Rightarrow> u16 \<Rightarrow> 'w Uds_Did_t option" where
  "FindDid cfg did = find (\<lambda>d. did_id d = did) (take (unat (didCount cfg)) (dids cfg))"

subsection \<open>Services\<close>

definition SessionControl :: "'w uds \<Rightarrow> u8 \<times> 'w uds" where
  "SessionControl s =
     (case s of (c, u, w) \<Rightarrow>
        if reqLen c \<noteq> 2 then (UDS_NRC_INCORRECT_LENGTH, s)
        else
          (let session = (req c ! 1) AND SUBFUNCTION_MASK in
           if session \<noteq> UDS_SESSION_DEFAULT \<and> session \<noteq> UDS_SESSION_EXTENDED
           then (UDS_NRC_SUBFUNCTION_NOT_SUPPORTED, s)
           else
             (let u1 = u\<lparr>s_session := session\<rparr>;
                  c1 = c\<lparr>suppressPositive := ((req c ! 1) AND SPRMIB \<noteq> 0)\<rparr>;
                  c2 = puts [UDS_SID_DIAG_SESSION_CONTROL + UDS_POSITIVE_OFFSET, session,
                             ucast (drop_bit 8 UDS_P2_SERVER_MS), ucast (UDS_P2_SERVER_MS AND 0xFF),
                             ucast (drop_bit 8 (UDS_P2STAR_SERVER_MS div 10)),
                             ucast ((UDS_P2STAR_SERVER_MS div 10) AND 0xFF)] c1
              in (0, (c2, u1, w)))))"

definition EcuReset :: "'w uds \<Rightarrow> u8 \<times> 'w uds" where
  "EcuReset s =
     (case s of (c, u, w) \<Rightarrow>
        if reqLen c \<noteq> 2 then (UDS_NRC_INCORRECT_LENGTH, s)
        else
          (let type = (req c ! 1) AND SUBFUNCTION_MASK in
           if type \<noteq> RESET_HARD \<and> type \<noteq> RESET_SOFT then (UDS_NRC_SUBFUNCTION_NOT_SUPPORTED, s)
           else if s_session u \<noteq> UDS_SESSION_EXTENDED then (UDS_NRC_SUBFUNC_NOT_SUPP_IN_SESSION, s)
           else
             (let u1 = u\<lparr>s_pendingReset := type\<rparr>;
                  c1 = c\<lparr>suppressPositive := ((req c ! 1) AND SPRMIB \<noteq> 0)\<rparr>;
                  c2 = puts [UDS_SID_ECU_RESET + UDS_POSITIVE_OFFSET, type] c1
              in (0, (c2, u1, w)))))"

definition ClearDtc :: "'w DtcIf \<Rightarrow> 'w uds \<Rightarrow> u8 \<times> 'w uds" where
  "ClearDtc dtc s =
     (case s of (c, u, w) \<Rightarrow>
        if reqLen c \<noteq> 4 then (UDS_NRC_INCORRECT_LENGTH, s)
        else
          (let group = push_bit 16 (ucast (req c ! 1)) OR push_bit 8 (ucast (req c ! 2)) OR ucast (req c ! 3) in
           if group \<noteq> DTC_GROUP_ALL then (UDS_NRC_REQUEST_OUT_OF_RANGE, s)
           else
             (let w1 = dtc_ClearAll dtc w
              in (0, (put (UDS_SID_CLEAR_DTC + UDS_POSITIVE_OFFSET) c, u, w1)))))"

definition ReadDtc :: "'w DtcIf \<Rightarrow> 'w uds \<Rightarrow> u8 \<times> 'w uds" where
  "ReadDtc dtc s =
     (case s of (c, u, w) \<Rightarrow>
        if reqLen c < 2 then (UDS_NRC_INCORRECT_LENGTH, s)
        else
          (let subFunction = (req c ! 1) AND SUBFUNCTION_MASK in
           if subFunction \<noteq> 0x01 \<and> subFunction \<noteq> 0x02 then (UDS_NRC_SUBFUNCTION_NOT_SUPPORTED, s)
           else if reqLen c \<noteq> 3 then (UDS_NRC_INCORRECT_LENGTH, s)
           else
             (let msk = req c ! 2;
                  c1 = puts [UDS_SID_READ_DTC + UDS_POSITIVE_OFFSET, subFunction, DTC_STATUS_AVAILABILITY_MASK] c
              in if subFunction = 0x01 then
                   (let (n, w1) = dtc_CountByStatusMask dtc msk w;
                        count = ucast n :: u16
                    in (0, (puts [DTC_FORMAT_ISO14229_1, ucast (drop_bit 8 count), ucast (count AND 0xFF)] c1,
                            u, w1)))
                 else
                   (let room = (respMax c1 - respLen c1) div DTC_RECORD_LEN;
                        maxRecords = (if room > 0xFF then 0xFF else ucast room);
                        (total, w1) = dtc_CountByStatusMask dtc msk w
                    in if total > maxRecords then (UDS_NRC_RESPONSE_TOO_LONG, (c1, u, w1))
                       else
                         (let (n, out, w2) =
                                dtc_GetByStatusMask dtc msk (drop (unat (respLen c1)) (resp c1)) maxRecords w1;
                              c2 = c1\<lparr>resp := take (unat (respLen c1)) (resp c1) @ out,
                                      respLen := respLen c1 + ucast n * DTC_RECORD_LEN\<rparr>
                          in (0, (c2, u, w2)))))))"

fun read_dids ::
  "'w Uds_Config_t \<Rightarrow> nat list \<Rightarrow> bool \<Rightarrow> Ctx_t \<Rightarrow> 'w \<Rightarrow> u8 \<times> Ctx_t \<times> 'w" where
  "read_dids cfg [] anyFound c w = (if anyFound then 0 else UDS_NRC_REQUEST_OUT_OF_RANGE, c, w)"
| "read_dids cfg (i # rest) anyFound c w =
     (let did = push_bit 8 (ucast (req c ! (1 + 2 * i))) OR ucast (req c ! (2 + 2 * i)) in
      case FindDid cfg did of
        None \<Rightarrow> read_dids cfg rest anyFound c w
      | Some d \<Rightarrow>
          if (ucast (respLen c) + 2 + ucast (did_length d) :: u32) > ucast (respMax c)
          then (UDS_NRC_RESPONSE_TOO_LONG, c, w)
          else
            (let c1 = puts [ucast (drop_bit 8 did), ucast (did AND 0xFF)] c;
                 (bytes, w1) = did_read d w;
                 c2 = c1\<lparr>resp := write_at (resp c1) (unat (respLen c1)) bytes,
                         respLen := respLen c1 + ucast (did_length d)\<rparr>
             in read_dids cfg rest True c2 w1))"

definition ReadDid :: "'w Uds_Config_t \<Rightarrow> 'w uds \<Rightarrow> u8 \<times> 'w uds" where
  "ReadDid cfg s =
     (case s of (c, u, w) \<Rightarrow>
        if reqLen c < 3 \<or> (reqLen c - 1) mod 2 \<noteq> 0 then (UDS_NRC_INCORRECT_LENGTH, s)
        else
          (let nDids = (reqLen c - 1) div 2;
               c1 = put (UDS_SID_READ_DID + UDS_POSITIVE_OFFSET) c;
               (nrc, c2, w1) = read_dids cfg [0..<unat nDids] False c1 w
           in (nrc, (c2, u, w1))))"

definition TesterPresent :: "'w uds \<Rightarrow> u8 \<times> 'w uds" where
  "TesterPresent s =
     (case s of (c, u, w) \<Rightarrow>
        if reqLen c \<noteq> 2 then (UDS_NRC_INCORRECT_LENGTH, s)
        else if (req c ! 1) AND SUBFUNCTION_MASK \<noteq> 0x00 then (UDS_NRC_SUBFUNCTION_NOT_SUPPORTED, s)
        else
          (let c1 = c\<lparr>suppressPositive := ((req c ! 1) AND SPRMIB \<noteq> 0)\<rparr>
           in (0, (puts [UDS_SID_TESTER_PRESENT + UDS_POSITIVE_OFFSET, 0x00] c1, u, w))))"

definition IsSuppressedForFunctional :: "u8 \<Rightarrow> bool" where
  "IsSuppressedForFunctional nrc =
     (nrc = UDS_NRC_SERVICE_NOT_SUPPORTED \<or> nrc = UDS_NRC_SUBFUNCTION_NOT_SUPPORTED \<or>
      nrc = UDS_NRC_REQUEST_OUT_OF_RANGE \<or> nrc = UDS_NRC_SUBFUNC_NOT_SUPP_IN_SESSION \<or>
      nrc = UDS_NRC_SERVICE_NOT_SUPP_IN_SESSION)"

subsection \<open>Public interface\<close>

definition uds_now :: "'w Uds_Config_t \<Rightarrow> 'w \<Rightarrow> u32 \<times> 'w" where
  "uds_now cfg w = (case uds_getTimeMs cfg of None \<Rightarrow> (0, w) | Some f \<Rightarrow> f w)"

text \<open>\<open>Uds_Init(cfg)\<close>: the configuration in force afterwards, and the state.\<close>

definition Uds_Init ::
  "'w Uds_Config_t option \<Rightarrow> 'w Uds_Config_t \<Rightarrow> Uds_State \<Rightarrow> 'w \<Rightarrow>
   'w Uds_Config_t \<times> Uds_State \<times> 'w" where
  "Uds_Init newCfg s_cfg u w =
     (let cfg = (case newCfg of None \<Rightarrow> s_cfg | Some c \<Rightarrow> c);
          (t, w1) = uds_now cfg w
      in (cfg, u\<lparr>s_session := UDS_SESSION_DEFAULT, s_pendingReset := RESET_NONE, s_lastRequestMs := t\<rparr>, w1))"

definition dispatch :: "'w DtcIf \<Rightarrow> 'w Uds_Config_t \<Rightarrow> 'w uds \<Rightarrow> u8 \<times> 'w uds" where
  "dispatch dtc cfg s =
     (let sid = req (fst s) ! 0 in
      if sid = UDS_SID_DIAG_SESSION_CONTROL then SessionControl s
      else if sid = UDS_SID_ECU_RESET then EcuReset s
      else if sid = UDS_SID_CLEAR_DTC then ClearDtc dtc s
      else if sid = UDS_SID_READ_DTC then ReadDtc dtc s
      else if sid = UDS_SID_READ_DID then ReadDid cfg s
      else if sid = UDS_SID_TESTER_PRESENT then TesterPresent s
      else (UDS_NRC_SERVICE_NOT_SUPPORTED, s))"

text \<open>The result is the length to send, the response buffer, and the state.\<close>

definition Uds_ProcessRequest ::
  "'w DtcIf \<Rightarrow> 'w Uds_Config_t \<Rightarrow> u8 list option \<Rightarrow> u16 \<Rightarrow> bool \<Rightarrow> u8 list option \<Rightarrow> u16 \<Rightarrow>
   Uds_State \<Rightarrow> 'w \<Rightarrow> u16 \<times> u8 list option \<times> Uds_State \<times> 'w" where
  "Uds_ProcessRequest dtc cfg request len functional response maxLen u w =
     (case (request, response) of
        (Some rq, Some buf) \<Rightarrow>
          if len = 0 then (0, response, u, w)
          else
            (let c = \<lparr>req = rq, reqLen = len, resp = buf, respMax = maxLen, respLen = 0,
                      suppressPositive = False\<rparr>;
                 (t, w1) = uds_now cfg w;
                 u1 = u\<lparr>s_lastRequestMs := t\<rparr>;
                 (nrc, (c2, u2, w2)) = dispatch dtc cfg (c, u1, w1)
             in if nrc \<noteq> 0 then
                  (if functional \<and> IsSuppressedForFunctional nrc then (0, Some (resp c2), u2, w2)
                   else (let (n, c3) = Negative c2 nrc in (n, Some (resp c3), u2, w2)))
                else (if suppressPositive c2 then 0 else respLen c2, Some (resp c2), u2, w2))
      | _ \<Rightarrow> (0, response, u, w))"

definition Uds_MainFunction :: "'w Uds_Config_t \<Rightarrow> Uds_State \<Rightarrow> 'w \<Rightarrow> Uds_State \<times> 'w" where
  "Uds_MainFunction cfg u w =
     (case uds_getTimeMs cfg of
        None \<Rightarrow> (u, w)
      | Some f \<Rightarrow>
          if s_session u = UDS_SESSION_DEFAULT then (u, w)
          else
            (let (now, w1) = f w in
             if now - s_lastRequestMs u \<ge> UDS_S3_SERVER_MS
             then (u\<lparr>s_session := UDS_SESSION_DEFAULT\<rparr>, w1) else (u, w1)))"

definition Uds_GetSession :: "Uds_State \<Rightarrow> u8" where
  "Uds_GetSession u = s_session u"

text \<open>\<open>None\<close>: the reset does not return.\<close>

definition Uds_ExecutePendingReset ::
  "'w Uds_Config_t \<Rightarrow> Uds_State \<Rightarrow> 'w \<Rightarrow> (Uds_State \<times> 'w) option" where
  "Uds_ExecutePendingReset cfg u w =
     (let type = s_pendingReset u in
      if type = RESET_NONE then Some (u, w)
      else
        (let u1 = u\<lparr>s_pendingReset := RESET_NONE, s_session := UDS_SESSION_DEFAULT\<rparr> in
         case ecuReset cfg of None \<Rightarrow> Some (u1, w) | Some f \<Rightarrow> map_option (Pair u1) (f type w)))"

end
