(* ===== verification/Printf.thy ===== *)
theory Printf
  imports Prelude
begin

section \<open>Formatted output\<close>

text \<open>
  The conversions of C's \<open>printf\<close> that the program uses, as functions to strings:
  \<open>%u\<close> and \<open>%lu\<close> (\<open>dec\<close>), \<open>%X\<close> and \<open>%02X\<close> (\<open>hex\<close>, \<open>hex02\<close>), \<open>%02lx\<close>, and the field widths
  of \<open>%2u\<close> and \<open>%-32s\<close>.
\<close>

fun digits :: "nat \<Rightarrow> nat \<Rightarrow> nat list" where
  "digits b n = (if n < b \<or> b < 2 then [n] else digits b (n div b) @ [n mod b])"

declare digits.simps [simp del]

definition digit_char :: "string \<Rightarrow> nat \<Rightarrow> char" where
  "digit_char cs d = (if d < length cs then cs ! d else CHR ''?'')"

definition dec :: "nat \<Rightarrow> string" where
  "dec n = map (digit_char ''0123456789'') (digits 10 n)"

definition hex_upper :: string where "hex_upper = ''0123456789ABCDEF''"
definition hex_lower :: string where "hex_lower = ''0123456789abcdef''"

definition hex :: "nat \<Rightarrow> string" where
  "hex n = map (digit_char hex_upper) (digits 16 n)"

definition pad_left :: "nat \<Rightarrow> char \<Rightarrow> string \<Rightarrow> string" where
  "pad_left w c s = replicate (w - length s) c @ s"

definition pad_right :: "nat \<Rightarrow> string \<Rightarrow> string" where
  "pad_right w s = s @ replicate (w - length s) CHR '' ''"

definition hex02 :: "nat \<Rightarrow> string" where
  "hex02 n = pad_left 2 CHR ''0'' (hex n)"

definition hex02_lower :: "nat \<Rightarrow> string" where
  "hex02_lower n = pad_left 2 CHR ''0'' (map (digit_char hex_lower) (digits 16 n))"

definition crlf :: string where "crlf = [CHR 0x0D, CHR 0x0A]"

text \<open>\<open>%u.%u\<close> of a value in tenths.\<close>

definition tenths :: "nat \<Rightarrow> string" where
  "tenths n = dec (n div 10) @ ''.'' @ dec (n mod 10)"

text \<open>Reading a number back.\<close>

definition undec :: "string \<Rightarrow> nat" where
  "undec s = foldl (\<lambda>n c. 10 * n + (of_char c - 48)) 0 s"

lemma digit_value: "d < 10 \<Longrightarrow> of_char (digit_char ''0123456789'' d) = 48 + d"
  by (auto simp: digit_char_def numeral_eq_Suc less_Suc_eq)

lemma digits_less: "2 \<le> b \<Longrightarrow> d \<in> set (digits b n) \<Longrightarrow> d < b"
proof (induction b n rule: digits.induct)
  case (1 b n)
  then show ?case by (subst (asm) digits.simps) (auto split: if_splits)
qed

lemma foldl_digits: "2 \<le> b \<Longrightarrow> foldl (\<lambda>n d. b * n + d) 0 (digits b n) = n"
proof (induction b n rule: digits.induct)
  case (1 b n)
  then show ?case by (subst digits.simps) auto
qed

lemma undec_dec: "undec (dec n) = n"
proof -
  have "undec (map (digit_char ''0123456789'') ds) = foldl (\<lambda>n d. 10 * n + d) 0 ds"
    if "\<forall>d \<in> set ds. d < 10" for ds
    using that
    by (induction ds rule: rev_induct) (simp_all add: undec_def digit_value)
  then show ?thesis
    using digits_less [of 10 _ n] foldl_digits [of 10 n] by (simp add: dec_def)
qed

end
