(* ===== verification/IsoTp.thy ===== *)
theory IsoTp
  imports Prelude "HOL-Library.Monad_Syntax"
begin

section \<open>ISO 15765-2 transport layer (common/isotp/isotp.c, isotp.h)\<close>

text \<open>
  One connection is the record \<open>IsoTp_Link_t\<close>; the array behind a buffer pointer of the
  configuration is the list in \<open>rxBuffer\<close> or \<open>txBuffer\<close>. The injected driver, clock and
  callbacks are the fields of \<open>IsoTp_TxOps\<close> and \<open>IsoTp_Ops\<close>, over a world \<open>'w\<close> of the
  caller. A callback runs in the middle of an operation and may call back into the link, so
  it maps the pair of link and world to a new pair; \<open>None\<close> says that it does not return (the
  ECU restarts), and then neither does the operation that called it.
\<close>

definition PCI_TYPE_SF :: u8 where "PCI_TYPE_SF = 0x0"
definition PCI_TYPE_FF :: u8 where "PCI_TYPE_FF = 0x1"
definition PCI_TYPE_CF :: u8 where "PCI_TYPE_CF = 0x2"
definition PCI_TYPE_FC :: u8 where "PCI_TYPE_FC = 0x3"

definition FC_STATUS_CTS :: u8 where "FC_STATUS_CTS = 0x0"
definition FC_STATUS_WAIT :: u8 where "FC_STATUS_WAIT = 0x1"
definition FC_STATUS_OVFLW :: u8 where "FC_STATUS_OVFLW = 0x2"

definition SF_MAX_DATA :: u16 where "SF_MAX_DATA = 7"
definition FF_DATA :: u16 where "FF_DATA = 6"
definition CF_MAX_DATA :: u16 where "CF_MAX_DATA = 7"
definition SEQ_MASK :: u8 where "SEQ_MASK = 0x0F"

definition STMIN_MAX_MS :: u8 where "STMIN_MAX_MS = 0x7F"
definition STMIN_US_FIRST :: u8 where "STMIN_US_FIRST = 0xF1"
definition STMIN_US_LAST :: u8 where "STMIN_US_LAST = 0xF9"

definition ISOTP_CAN_DL :: u8 where "ISOTP_CAN_DL = 8"
definition ISOTP_PADDING_BYTE :: u8 where "ISOTP_PADDING_BYTE = 0xCC"
definition ISOTP_MAX_MESSAGE_LEN :: u16 where "ISOTP_MAX_MESSAGE_LEN = 4095"
definition ISOTP_DEFAULT_N_BS_MS :: u16 where "ISOTP_DEFAULT_N_BS_MS = 1000"
definition ISOTP_DEFAULT_N_CR_MS :: u16 where "ISOTP_DEFAULT_N_CR_MS = 1000"
definition ISOTP_MAX_WFT :: u8 where "ISOTP_MAX_WFT = 10"

lemmas isotp_consts = PCI_TYPE_SF_def PCI_TYPE_FF_def PCI_TYPE_CF_def PCI_TYPE_FC_def
  FC_STATUS_CTS_def FC_STATUS_WAIT_def FC_STATUS_OVFLW_def SF_MAX_DATA_def FF_DATA_def
  CF_MAX_DATA_def SEQ_MASK_def STMIN_MAX_MS_def STMIN_US_FIRST_def STMIN_US_LAST_def
  ISOTP_CAN_DL_def ISOTP_PADDING_BYTE_def ISOTP_MAX_MESSAGE_LEN_def ISOTP_DEFAULT_N_BS_MS_def
  ISOTP_DEFAULT_N_CR_MS_def ISOTP_MAX_WFT_def

datatype IsoTp_Result_t =
    ISOTP_OK | ISOTP_ERR_BUSY | ISOTP_ERR_PARAM | ISOTP_ERR_TIMEOUT_BS | ISOTP_ERR_TIMEOUT_CR
  | ISOTP_ERR_WRONG_SN | ISOTP_ERR_OVERFLOW | ISOTP_ERR_WFT_OVRN | ISOTP_ERR_UNEXP_PDU
  | ISOTP_ERR_INVALID_FS

datatype IsoTp_TxState_t =
  ISOTP_TX_IDLE | ISOTP_TX_SEND_FIRST | ISOTP_TX_WAIT_FC | ISOTP_TX_SEND_CF

datatype IsoTp_RxState_t = ISOTP_RX_IDLE | ISOTP_RX_RECEIVING

record IsoTp_Config_t =
  txId :: u16
  rxId :: u16
  rxBuffer :: "u8 list"
  rxBufferSize :: u16
  txBuffer :: "u8 list"
  txBufferSize :: u16
  blockSize :: u8
  stMin :: u8
  nBsTimeoutMs :: u16
  nCrTimeoutMs :: u16

record IsoTp_Link_t =
  cfg :: IsoTp_Config_t
  txState :: IsoTp_TxState_t
  txLength :: u16
  txOffset :: u16
  txSeq :: u8
  txBlockSize :: u8
  txBlockCount :: u8
  txStMinMs :: u32
  txTimerStart :: u32
  txLastCfTime :: u32
  txWaitCount :: u8
  rxState :: IsoTp_RxState_t
  rxLength :: u16
  rxOffset :: u16
  rxSeq :: u8
  rxBlockCount :: u8
  rxTimerStart :: u32
  rxFcPending :: bool
  rxFcStatus :: u8

type_synonym 'w link_state = "IsoTp_Link_t \<times> 'w"

record 'w IsoTp_TxOps =
  sendFrame :: "u16 \<Rightarrow> u8 list \<Rightarrow> u8 \<Rightarrow> 'w \<Rightarrow> bool \<times> 'w"
  getTimeMs :: "'w \<Rightarrow> u32 \<times> 'w"
  txConfirmation :: "(IsoTp_Result_t \<Rightarrow> 'w link_state \<Rightarrow> 'w link_state option) option"

record 'w IsoTp_Ops = "'w IsoTp_TxOps" +
  rxIndication ::
    "(u8 list \<Rightarrow> u16 \<Rightarrow> IsoTp_Result_t \<Rightarrow> 'w link_state \<Rightarrow> 'w link_state option) option"

subsection \<open>Helpers\<close>

definition Now :: "('w, 'm) IsoTp_TxOps_scheme \<Rightarrow> 'w link_state \<Rightarrow> u32 \<times> 'w link_state" where
  "Now ops s = (case s of (l, w) \<Rightarrow> let (t, w') = getTimeMs ops w in (t, (l, w')))"

definition Elapsed ::
  "('w, 'm) IsoTp_TxOps_scheme \<Rightarrow> u32 \<Rightarrow> 'w link_state \<Rightarrow> u32 \<times> 'w link_state" where
  "Elapsed ops start s = (let (t, s') = Now ops s in (t - start, s'))"

definition SendFrame ::
  "('w, 'm) IsoTp_TxOps_scheme \<Rightarrow> u8 list \<Rightarrow> 'w link_state \<Rightarrow> bool \<times> 'w link_state" where
  "SendFrame ops frame s =
     (case s of (l, w) \<Rightarrow>
        let (ok, w') = sendFrame ops (txId (cfg l)) frame ISOTP_CAN_DL w in (ok, (l, w')))"

definition InitFrame :: "u8 list" where
  "InitFrame = replicate (unat ISOTP_CAN_DL) ISOTP_PADDING_BYTE"

definition DecodeStMin :: "u8 \<Rightarrow> u32" where
  "DecodeStMin raw =
     (if raw \<le> STMIN_MAX_MS then ucast raw
      else if raw \<ge> STMIN_US_FIRST \<and> raw \<le> STMIN_US_LAST then 1
      else ucast STMIN_MAX_MS)"

text \<open>Assignments to the link inside a state.\<close>

definition upd :: "(IsoTp_Link_t \<Rightarrow> IsoTp_Link_t) \<Rightarrow> 'w link_state \<Rightarrow> 'w link_state" where
  "upd f s = (f (fst s), snd s)"

subsection \<open>Sender side\<close>

definition TxFinish ::
  "('w, 'm) IsoTp_TxOps_scheme \<Rightarrow> IsoTp_Result_t \<Rightarrow> 'w link_state \<Rightarrow> 'w link_state option" where
  "TxFinish ops result s =
     (let s1 = upd (\<lambda>l. l\<lparr>txState := ISOTP_TX_IDLE\<rparr>) s in
      case txConfirmation ops of None \<Rightarrow> Some s1 | Some f \<Rightarrow> f result s1)"

definition TxSendFirst ::
  "('w, 'm) IsoTp_TxOps_scheme \<Rightarrow> 'w link_state \<Rightarrow> (bool \<times> 'w link_state) option" where
  "TxSendFirst ops s =
     (let l = fst s; frame = InitFrame in
      if txLength l \<le> SF_MAX_DATA then
        (let frame1 = frame[0 := ucast (push_bit 4 (ucast PCI_TYPE_SF) OR txLength l)];
             frame2 = write_at frame1 1 (take (unat (txLength l)) (txBuffer (cfg l)));
             (ok, s1) = SendFrame ops frame2 s
         in if \<not> ok then Some (False, s1)
            else do { s2 \<leftarrow> TxFinish ops ISOTP_OK s1; Some (True, s2) })
      else
        (let frame1 = frame[0 := ucast (push_bit 4 (ucast PCI_TYPE_FF) OR (drop_bit 8 (txLength l) AND 0x0F))];
             frame2 = frame1[1 := ucast (txLength l AND 0xFF)];
             frame3 = write_at frame2 2 (take (unat FF_DATA) (txBuffer (cfg l)));
             (ok, s1) = SendFrame ops frame3 s
         in if \<not> ok then Some (False, s1)
            else
              (let s2 = upd (\<lambda>l. l\<lparr>txOffset := FF_DATA, txSeq := 1, txWaitCount := 0,
                                   txState := ISOTP_TX_WAIT_FC\<rparr>) s1;
                   (t, s3) = Now ops s2
               in Some (True, upd (\<lambda>l. l\<lparr>txTimerStart := t\<rparr>) s3))))"

text \<open>
  One turn of the sending loop, with the new value of \<open>keepSending\<close>. The STmin test reads the
  clock only when STmin is positive (the short-circuit \<open>&&\<close>).
\<close>

definition StMinBlocks ::
  "('w, 'm) IsoTp_TxOps_scheme \<Rightarrow> 'w link_state \<Rightarrow> bool \<times> 'w link_state" where
  "StMinBlocks ops s =
     (if txStMinMs (fst s) > 0 then
        (let (el, s1) = Elapsed ops (txLastCfTime (fst s)) s in (el \<le> txStMinMs (fst s), s1))
      else (False, s))"

definition cf_chunk :: "u16 \<Rightarrow> u16" where
  "cf_chunk remaining = (if remaining > CF_MAX_DATA then CF_MAX_DATA else remaining)"

definition TxCfStep ::
  "('w, 'm) IsoTp_TxOps_scheme \<Rightarrow> 'w link_state \<Rightarrow> (bool \<times> 'w link_state) option" where
  "TxCfStep ops s =
     (let l = fst s;
          remaining = txLength l - txOffset l;
          chunk = cf_chunk remaining;
          (blocked, s1) = StMinBlocks ops s
      in if blocked then Some (False, s1)
         else
           (let frame1 = InitFrame[0 := push_bit 4 PCI_TYPE_CF OR txSeq l];
                frame2 = write_at frame1 1
                  (take (unat chunk) (drop (unat (txOffset l)) (txBuffer (cfg l))));
                (ok, s2) = SendFrame ops frame2 s1
            in if \<not> ok then Some (False, s2)
               else
                 (let s3 = upd (\<lambda>l. l\<lparr>txOffset := txOffset l + chunk,
                                      txSeq := (txSeq l + 1) AND SEQ_MASK\<rparr>) s2;
                      (t, s4) = Now ops s3;
                      s5 = upd (\<lambda>l. l\<lparr>txLastCfTime := t\<rparr>) s4
                  in if txOffset (fst s5) \<ge> txLength (fst s5) then
                       do { s6 \<leftarrow> TxFinish ops ISOTP_OK s5; Some (True, s6) }
                     else if txBlockSize (fst s5) \<noteq> 0 then
                       (let s6 = upd (\<lambda>l. l\<lparr>txBlockCount := txBlockCount l + 1\<rparr>) s5 in
                        if txBlockCount (fst s6) \<ge> txBlockSize (fst s6) then
                          (let s7 = upd (\<lambda>l. l\<lparr>txState := ISOTP_TX_WAIT_FC\<rparr>) s6;
                               (t', s8) = Now ops s7
                           in Some (True, upd (\<lambda>l. l\<lparr>txTimerStart := t'\<rparr>) s8))
                        else Some (True, s6))
                     else Some (True, s5))))"

partial_function (option) TxCfLoop ::
  "('w, 'm) IsoTp_TxOps_scheme \<Rightarrow> bool \<Rightarrow> 'w link_state \<Rightarrow> 'w link_state option" where
  "TxCfLoop ops keepSending s =
     (if keepSending \<and> txState (fst s) = ISOTP_TX_SEND_CF then
        do { (keep, s') \<leftarrow> TxCfStep ops s; TxCfLoop ops keep s' }
      else Some s)"

definition TxSendConsecutiveFrames ::
  "('w, 'm) IsoTp_TxOps_scheme \<Rightarrow> 'w link_state \<Rightarrow> 'w link_state option" where
  "TxSendConsecutiveFrames ops s = TxCfLoop ops True s"

definition TxOnFlowControl ::
  "('w, 'm) IsoTp_TxOps_scheme \<Rightarrow> u8 list \<Rightarrow> u8 \<Rightarrow> 'w link_state \<Rightarrow> 'w link_state option" where
  "TxOnFlowControl ops data dlc s =
     (if txState (fst s) \<noteq> ISOTP_TX_WAIT_FC \<or> dlc < 3 then Some s
      else
        (let fs = (data ! 0) AND 0x0F in
         if fs = FC_STATUS_CTS then
           (let s1 = upd (\<lambda>l. l\<lparr>txBlockSize := data ! 1, txBlockCount := 0, txWaitCount := 0,
                                txStMinMs := DecodeStMin (data ! 2)\<rparr>) s;
                (t, s2) = Now ops s1;
                s3 = upd (\<lambda>l. l\<lparr>txLastCfTime := t - (txStMinMs l + 1),
                                txState := ISOTP_TX_SEND_CF\<rparr>) s2
            in TxSendConsecutiveFrames ops s3)
         else if fs = FC_STATUS_WAIT then
           (let s1 = upd (\<lambda>l. l\<lparr>txWaitCount := txWaitCount l + 1\<rparr>) s in
            if txWaitCount (fst s1) > ISOTP_MAX_WFT then TxFinish ops ISOTP_ERR_WFT_OVRN s1
            else
              (let (t, s2) = Now ops s1 in Some (upd (\<lambda>l. l\<lparr>txTimerStart := t\<rparr>) s2)))
         else if fs = FC_STATUS_OVFLW then TxFinish ops ISOTP_ERR_OVERFLOW s
         else TxFinish ops ISOTP_ERR_INVALID_FS s))"

subsection \<open>Receiver side\<close>

definition RxFinish :: "'w IsoTp_Ops \<Rightarrow> IsoTp_Result_t \<Rightarrow> 'w link_state \<Rightarrow> 'w link_state option" where
  "RxFinish ops result s =
     (let len = (if result = ISOTP_OK then rxLength (fst s) else rxOffset (fst s));
          s1 = upd (\<lambda>l. l\<lparr>rxState := ISOTP_RX_IDLE\<rparr>) s
      in case rxIndication ops of
           None \<Rightarrow> Some s1
         | Some f \<Rightarrow> f (rxBuffer (cfg (fst s1))) len result s1)"

definition RxSendFlowControl :: "('w, 'm) IsoTp_TxOps_scheme \<Rightarrow> u8 \<Rightarrow> 'w link_state \<Rightarrow> 'w link_state" where
  "RxSendFlowControl ops fs s =
     (let frame = InitFrame[0 := push_bit 4 PCI_TYPE_FC OR fs, 1 := blockSize (cfg (fst s)),
                            2 := stMin (cfg (fst s))];
          (ok, s1) = SendFrame ops frame s
      in if ok then upd (\<lambda>l. l\<lparr>rxFcPending := False\<rparr>) s1
         else upd (\<lambda>l. l\<lparr>rxFcPending := True, rxFcStatus := fs\<rparr>) s1)"

text \<open>\<open>memcpy\<close> into the receive buffer.\<close>

definition store_rx :: "nat \<Rightarrow> u8 list \<Rightarrow> IsoTp_Link_t \<Rightarrow> IsoTp_Link_t" where
  "store_rx off bytes l = l\<lparr>cfg := (cfg l)\<lparr>rxBuffer := write_at (rxBuffer (cfg l)) off bytes\<rparr>\<rparr>"

definition RxOnSingleFrame ::
  "'w IsoTp_Ops \<Rightarrow> u8 list \<Rightarrow> u8 \<Rightarrow> 'w link_state \<Rightarrow> 'w link_state option" where
  "RxOnSingleFrame ops data dlc s =
     (let len = (data ! 0) AND 0x0F in
      if len = 0 \<or> ucast len > SF_MAX_DATA \<or> len > dlc - 1 \<or> ucast len > rxBufferSize (cfg (fst s))
      then Some s
      else
        do {
          s1 \<leftarrow> (if rxState (fst s) = ISOTP_RX_RECEIVING then RxFinish ops ISOTP_ERR_UNEXP_PDU s
                else Some s);
          RxFinish ops ISOTP_OK
            (upd (\<lambda>l. (store_rx 0 (take (unat len) (drop 1 data)) l)\<lparr>rxLength := ucast len\<rparr>) s1)
        })"

definition RxOnFirstFrame ::
  "'w IsoTp_Ops \<Rightarrow> u8 list \<Rightarrow> u8 \<Rightarrow> 'w link_state \<Rightarrow> 'w link_state option" where
  "RxOnFirstFrame ops data dlc s =
     (let len = push_bit 8 (ucast (data ! 0) AND 0x0F) OR ucast (data ! 1) :: u16 in
      if dlc < ISOTP_CAN_DL \<or> len \<le> SF_MAX_DATA then Some s
      else
        do {
          s1 \<leftarrow> (if rxState (fst s) = ISOTP_RX_RECEIVING then RxFinish ops ISOTP_ERR_UNEXP_PDU s
                else Some s);
          if len > rxBufferSize (cfg (fst s1)) then Some (RxSendFlowControl ops FC_STATUS_OVFLW s1)
          else
            (let s2 = upd (\<lambda>l. (store_rx 0 (take (unat FF_DATA) (drop 2 data)) l)
                       \<lparr>rxLength := len, rxOffset := FF_DATA, rxSeq := 1, rxBlockCount := 0,
                        rxState := ISOTP_RX_RECEIVING\<rparr>) s1;
                 (t, s3) = Now ops s2
             in Some (RxSendFlowControl ops FC_STATUS_CTS (upd (\<lambda>l. l\<lparr>rxTimerStart := t\<rparr>) s3)))
        })"

definition RxOnConsecutiveFrame ::
  "'w IsoTp_Ops \<Rightarrow> u8 list \<Rightarrow> u8 \<Rightarrow> 'w link_state \<Rightarrow> 'w link_state option" where
  "RxOnConsecutiveFrame ops data dlc s =
     (let l = fst s in
      if rxState l \<noteq> ISOTP_RX_RECEIVING then Some s
      else if (data ! 0) AND SEQ_MASK \<noteq> rxSeq l then RxFinish ops ISOTP_ERR_WRONG_SN s
      else
        (let remaining = rxLength l - rxOffset l;
             chunk = cf_chunk remaining
         in if (ucast chunk :: u32) > ucast dlc - 1 then Some s
            else
              (let s1 = upd (\<lambda>l. (store_rx (unat (rxOffset l)) (take (unat chunk) (drop 1 data)) l)
                          \<lparr>rxOffset := rxOffset l + chunk, rxSeq := (rxSeq l + 1) AND SEQ_MASK\<rparr>) s;
                   (t, s2) = Now ops s1;
                   s3 = upd (\<lambda>l. l\<lparr>rxTimerStart := t\<rparr>) s2
               in if rxOffset (fst s3) \<ge> rxLength (fst s3) then RxFinish ops ISOTP_OK s3
                  else if blockSize (cfg (fst s3)) \<noteq> 0 then
                    (let s4 = upd (\<lambda>l. l\<lparr>rxBlockCount := rxBlockCount l + 1\<rparr>) s3 in
                     if rxBlockCount (fst s4) \<ge> blockSize (cfg (fst s4)) then
                       Some (RxSendFlowControl ops FC_STATUS_CTS (upd (\<lambda>l. l\<lparr>rxBlockCount := 0\<rparr>) s4))
                     else Some s4)
                  else Some s3)))"

subsection \<open>Public interface\<close>

text \<open>\<open>memset(link, 0)\<close>; the result of \<open>IsoTp_Init\<close> without a configuration is the old link.\<close>

definition zero_link :: "IsoTp_Config_t \<Rightarrow> IsoTp_Link_t" where
  "zero_link c =
     \<lparr>cfg = c, txState = ISOTP_TX_IDLE, txLength = 0, txOffset = 0, txSeq = 0, txBlockSize = 0,
      txBlockCount = 0, txStMinMs = 0, txTimerStart = 0, txLastCfTime = 0, txWaitCount = 0,
      rxState = ISOTP_RX_IDLE, rxLength = 0, rxOffset = 0, rxSeq = 0, rxBlockCount = 0,
      rxTimerStart = 0, rxFcPending = False, rxFcStatus = 0\<rparr>"

definition IsoTp_Init :: "IsoTp_Config_t option \<Rightarrow> IsoTp_Link_t \<Rightarrow> IsoTp_Link_t" where
  "IsoTp_Init c l =
     (case c of
        None \<Rightarrow> l
      | Some c0 \<Rightarrow>
          (let l1 = zero_link c0;
               l2 = (if nBsTimeoutMs (cfg l1) = 0
                     then l1\<lparr>cfg := (cfg l1)\<lparr>nBsTimeoutMs := ISOTP_DEFAULT_N_BS_MS\<rparr>\<rparr> else l1)
           in if nCrTimeoutMs (cfg l2) = 0
              then l2\<lparr>cfg := (cfg l2)\<lparr>nCrTimeoutMs := ISOTP_DEFAULT_N_CR_MS\<rparr>\<rparr> else l2))"

definition IsoTp_Transmit ::
  "('w, 'm) IsoTp_TxOps_scheme \<Rightarrow> u8 list option \<Rightarrow> u16 \<Rightarrow> 'w link_state \<Rightarrow>
   (IsoTp_Result_t \<times> 'w link_state) option" where
  "IsoTp_Transmit ops data len s =
     (case data of
        None \<Rightarrow> Some (ISOTP_ERR_PARAM, s)
      | Some bytes \<Rightarrow>
          if len = 0 \<or> len > ISOTP_MAX_MESSAGE_LEN \<or> len > txBufferSize (cfg (fst s))
          then Some (ISOTP_ERR_PARAM, s)
          else if txState (fst s) \<noteq> ISOTP_TX_IDLE then Some (ISOTP_ERR_BUSY, s)
          else
            (let s1 = upd (\<lambda>l. l\<lparr>cfg := (cfg l)\<lparr>txBuffer :=
                                   write_at (txBuffer (cfg l)) 0 (take (unat len) bytes)\<rparr>,
                                 txLength := len, txOffset := 0, txState := ISOTP_TX_SEND_FIRST\<rparr>) s;
                 (t, s2) = Now ops s1
             in do {
                  (_, s3) \<leftarrow> TxSendFirst ops (upd (\<lambda>l. l\<lparr>txTimerStart := t\<rparr>) s2);
                  Some (ISOTP_OK, s3)
                }))"

definition IsoTp_RxFrame ::
  "'w IsoTp_Ops \<Rightarrow> u8 list option \<Rightarrow> u8 \<Rightarrow> 'w link_state \<Rightarrow> 'w link_state option" where
  "IsoTp_RxFrame ops data dlc s =
     (case data of
        None \<Rightarrow> Some s
      | Some bytes \<Rightarrow>
          if dlc = 0 \<or> dlc > ISOTP_CAN_DL then Some s
          else
            (let pci = drop_bit 4 (bytes ! 0) in
             if pci = PCI_TYPE_SF then RxOnSingleFrame ops bytes dlc s
             else if pci = PCI_TYPE_FF then RxOnFirstFrame ops bytes dlc s
             else if pci = PCI_TYPE_CF then RxOnConsecutiveFrame ops bytes dlc s
             else if pci = PCI_TYPE_FC then TxOnFlowControl ops bytes dlc s
             else Some s))"

definition RxMain :: "'w IsoTp_Ops \<Rightarrow> 'w link_state \<Rightarrow> 'w link_state option" where
  "RxMain ops s =
     (let s1 = (if rxFcPending (fst s) then RxSendFlowControl ops (rxFcStatus (fst s)) s else s) in
      if rxState (fst s1) = ISOTP_RX_RECEIVING then
        (let (el, s2) = Elapsed ops (rxTimerStart (fst s1)) s1 in
         if el \<ge> ucast (nCrTimeoutMs (cfg (fst s2))) then RxFinish ops ISOTP_ERR_TIMEOUT_CR s2
         else Some s2)
      else Some s1)"

definition TxTimeoutCheck ::
  "('w, 'm) IsoTp_TxOps_scheme \<Rightarrow> 'w link_state \<Rightarrow> 'w link_state option" where
  "TxTimeoutCheck ops s =
     (let (el, s1) = Elapsed ops (txTimerStart (fst s)) s in
      if el \<ge> ucast (nBsTimeoutMs (cfg (fst s1))) then TxFinish ops ISOTP_ERR_TIMEOUT_BS s1
      else Some s1)"

definition TxMain :: "('w, 'm) IsoTp_TxOps_scheme \<Rightarrow> 'w link_state \<Rightarrow> 'w link_state option" where
  "TxMain ops s =
     (case txState (fst s) of
        ISOTP_TX_SEND_FIRST \<Rightarrow>
          do { (ok, s1) \<leftarrow> TxSendFirst ops s; if ok then Some s1 else TxTimeoutCheck ops s1 }
      | ISOTP_TX_WAIT_FC \<Rightarrow> TxTimeoutCheck ops s
      | ISOTP_TX_SEND_CF \<Rightarrow> TxSendConsecutiveFrames ops s
      | ISOTP_TX_IDLE \<Rightarrow> Some s)"

definition IsoTp_MainFunction :: "'w IsoTp_Ops \<Rightarrow> 'w link_state \<Rightarrow> 'w link_state option" where
  "IsoTp_MainFunction ops s = do { s1 \<leftarrow> RxMain ops s; TxMain ops s1 }"

definition IsoTp_IsTxBusy :: "IsoTp_Link_t option \<Rightarrow> bool" where
  "IsoTp_IsTxBusy link = (case link of None \<Rightarrow> False | Some l \<Rightarrow> txState l \<noteq> ISOTP_TX_IDLE)"

end
