(* ===== verification/ControlServices.thy ===== *)
theory ControlServices
  imports ControlMcal E2e UdsServer Printf IsoTp
begin

section \<open>State and services of the Control ECU (control_ecu/CM4/Core/App/control_app.c)\<close>

text \<open>
  The static variables of \<open>control_app.c\<close> and \<open>diag_app.c\<close> are the fields of \<open>Ecu\<close>, with the
  state of the modules they own (CAN driver, trouble codes, diagnostic server); the ISO-TP
  links are kept beside it. This theory has the services the diagnostics call; the tasks are in
  ControlApp. The FreeRTOS objects are parameters (\<open>EcuHal\<close>), except the mutexes, which are hold
  counts, and the output of \<open>printf\<close>, which is the list \<open>log\<close>.
\<close>

definition CONTROL_APP_CAN_LOOPBACK :: bool where "CONTROL_APP_CAN_LOOPBACK = False"
definition RX_QUEUE_LEN :: nat where "RX_QUEUE_LEN = 32"
definition MONITOR_PERIOD_MS :: u32 where "MONITOR_PERIOD_MS = 10"
definition LOG_PERIOD_TICKS :: u32 where "LOG_PERIOD_TICKS = 1000 div MONITOR_PERIOD_MS"
definition STARTUP_GRACE_MS :: u32 where "STARTUP_GRACE_MS = 500"
definition E2E_HEAL_FRAMES :: u8 where "E2E_HEAL_FRAMES = 10"
definition BUTTON_DEBOUNCE_TICKS :: u8 where "BUTTON_DEBOUNCE_TICKS = 3"

datatype Fault_t =
  FAULT_SPEED_TIMEOUT | FAULT_SPEED_RANGE | FAULT_SPEED_E2E | FAULT_SENSOR_ADC | FAULT_OUTPUT_LOCAL

definition FAULT_COUNT :: nat where "FAULT_COUNT = 5"

text \<open>The number of an enumerator.\<close>

fun fault_index :: "Fault_t \<Rightarrow> nat" where
  "fault_index FAULT_SPEED_TIMEOUT = 0"
| "fault_index FAULT_SPEED_RANGE = 1"
| "fault_index FAULT_SPEED_E2E = 2"
| "fault_index FAULT_SENSOR_ADC = 3"
| "fault_index FAULT_OUTPUT_LOCAL = 4"

instantiation Fault_t :: linorder
begin

definition less_eq_Fault_t :: "Fault_t \<Rightarrow> Fault_t \<Rightarrow> bool" where
  "less_eq_Fault_t a b = (fault_index a \<le> fault_index b)"

definition less_Fault_t :: "Fault_t \<Rightarrow> Fault_t \<Rightarrow> bool" where
  "less_Fault_t a b = (fault_index a < fault_index b)"

instance
proof
  fix a b :: Fault_t
  show "a \<le> b \<Longrightarrow> b \<le> a \<Longrightarrow> a = b"
    by (cases a; cases b) (simp_all add: less_eq_Fault_t_def)
qed (auto simp: less_eq_Fault_t_def less_Fault_t_def)

end

definition k_faultNames :: "string list" where
  "k_faultNames = [''SPEED_TIMEOUT'', ''SPEED_RANGE'', ''SPEED_E2E'', ''SENSOR_ADC'', ''OUTPUT_LOCAL'']"

record E2eStats_t =
  e2e_ok :: u32
  e2e_lost :: u32
  e2e_crc :: u32
  e2e_repeated :: u32
  e2e_wrongSeq :: u32

record SensorView_t =
  speedX10 :: u16
  adcRaw :: u16
  sensorStatus :: u8
  lastValidTick :: u32
  received :: bool
  e2eError :: bool
  goodStreak :: u8
  e2e :: E2eStats_t
  aliveFrames :: u32
  udsRequests :: u32

datatype StState_t = ST_OFF | ST_WAIT_START | ST_SEND | ST_WAIT_RESP | ST_DONE

record 'h EcuHal = "'h ControlHal" +
  osKernelGetTickCount :: "'h \<Rightarrow> u32"
  osMessageQueuePut :: "CanDrv_Frame_t \<Rightarrow> 'h \<Rightarrow> bool \<times> 'h"
  osMessageQueueGet :: "u32 \<Rightarrow> 'h \<Rightarrow> CanDrv_Frame_t option \<times> 'h"
  osDelayUntil :: "u32 \<Rightarrow> 'h \<Rightarrow> 'h"
  osMessageQueueNew :: "nat \<Rightarrow> 'h \<Rightarrow> bool \<times> 'h"
  osMutexNew :: "'h \<Rightarrow> bool \<times> 'h"
  osThreadNew :: "string \<Rightarrow> 'h \<Rightarrow> bool \<times> 'h"
  xPortGetFreeHeapSize :: "'h \<Rightarrow> u32"

record 'h Ecu = "'h ControlCan" +
  s_view :: SensorView_t
  s_e2eSpeed :: E2e_RxState_t
  s_e2eAlive :: E2e_RxState_t
  s_rxQueueOverflow :: u32
  s_viewMutex :: nat
  s_txMutex :: nat
  s_logMutex :: nat
  s_localInject :: bool
  s_faults :: "bool list"
  s_startTick :: u32
  button_stableTicks :: u8
  button_latched :: bool
  status_counter :: u8
  fake_counter :: u8
  fake_speed :: u16
  log :: "string list"
  dtcs :: DtcMgr_State
  uds :: Uds_State
  s_respBuf :: "u8 list"
  s_selfTest :: bool
  s_stState :: StState_t
  s_stStep :: u8
  s_stPassed :: u8
  s_stTimer :: u32
  s_testerResp :: "u8 list"
  s_testerRespLen :: u16
  s_testerGotResp :: bool

text \<open>Acquiring and releasing a mutex.\<close>

definition lock_view :: "'h Ecu \<Rightarrow> 'h Ecu" where "lock_view w = w\<lparr>s_viewMutex := s_viewMutex w + 1\<rparr>"
definition unlock_view :: "'h Ecu \<Rightarrow> 'h Ecu" where "unlock_view w = w\<lparr>s_viewMutex := s_viewMutex w - 1\<rparr>"

lemma unlock_lock_view [simp]: "unlock_view (lock_view w) = w"
  by (simp add: unlock_view_def lock_view_def)

subsection \<open>Services\<close>

definition ControlApp_CanSend ::
  "('h, 'n) EcuHal_scheme \<Rightarrow> u16 \<Rightarrow> u8 list option \<Rightarrow> u8 \<Rightarrow> 'h Ecu \<Rightarrow> bool \<times> 'h Ecu" where
  "ControlApp_CanSend hal i data dlc w =
     (case data of
        None \<Rightarrow> (False, w)
      | Some bytes \<Rightarrow>
          if dlc > CANDRV_MAX_DLC then (False, w)
          else
            (let frame = \<lparr>frame_id = i, frame_dlc = dlc,
                          frame_data = write_at (replicate 8 0) 0 (take (unat dlc) bytes)\<rparr>;
                 w1 = w\<lparr>s_txMutex := s_txMutex w + 1\<rparr>;
                 (st, w2) = control_CanDrv_Write hal (Some frame) w1
             in (st = CANDRV_OK, w2\<lparr>s_txMutex := s_txMutex w2 - 1\<rparr>)))"

definition ControlApp_GetSpeedX10 :: "'h Ecu \<Rightarrow> u16 \<times> 'h Ecu" where
  "ControlApp_GetSpeedX10 w =
     (let w1 = lock_view w; speed = speedX10 (s_view w1) in (speed, unlock_view w1))"

definition ControlApp_GetFaultMask :: "'h Ecu \<Rightarrow> u8" where
  "ControlApp_GetFaultMask w =
     foldl (\<lambda>m i. if s_faults w ! i then m OR push_bit i 1 else m) 0 [0..<FAULT_COUNT]"

definition ControlApp_SetLocalFaultInjection :: "bool \<Rightarrow> 'h Ecu \<Rightarrow> 'h Ecu" where
  "ControlApp_SetLocalFaultInjection active w = w\<lparr>s_localInject := active\<rparr>"

definition ControlApp_Log :: "string \<Rightarrow> 'h Ecu \<Rightarrow> 'h Ecu" where
  "ControlApp_Log msg w =
     (let w1 = w\<lparr>s_logMutex := s_logMutex w + 1\<rparr>;
          w2 = w1\<lparr>log := log w1 @ [msg]\<rparr>
      in w2\<lparr>s_logMutex := s_logMutex w2 - 1\<rparr>)"

definition ControlApp_SoftReset :: "'h Ecu \<Rightarrow> 'h Ecu" where
  "ControlApp_SoftReset w =
     (let w1 = w\<lparr>s_e2eSpeed := the (E2e_InitRx (Some (s_e2eSpeed w)))\<rparr>;
          w2 = w1\<lparr>s_e2eAlive := the (E2e_InitRx (Some (s_e2eAlive w1)))\<rparr>;
          w3 = w2\<lparr>dtcs := DtcMgr_StartOperationCycle (dtcs w2)\<rparr>
      in ControlApp_Log (''[CTRL] soft reset: new operation cycle'' @ crlf) w3)"

end
