(* ===== verification/DtcHistory.thy ===== *)
theory DtcHistory
  imports DtcManager "HOL-Library.Sublist"
begin

section \<open>The status byte against the history of test results\<close>

text \<open>
  The abstract view of one trouble code is the list of events since its status was last
  cleared: test results and starts of an operation cycle. \<open>spec_status\<close> reads each bit of
  the status byte off that list, in the words of dtc_manager.h; the lemmas show that the
  byte the manager maintains incrementally, with a saturating 8-bit counter, is that one.
\<close>

datatype entry_event = Tested bool | NewCycle

fun results :: "entry_event list \<Rightarrow> bool list" where
  "results [] = []"
| "results (Tested b # h) = b # results h"
| "results (NewCycle # h) = results h"

definition this_cycle :: "entry_event list \<Rightarrow> bool list" where
  "this_cycle h = results (takeWhile (\<lambda>ev. ev \<noteq> NewCycle) (rev h))"

definition last_cycle :: "entry_event list \<Rightarrow> bool list" where
  "last_cycle h =
     results (takeWhile (\<lambda>ev. ev \<noteq> NewCycle) (tl (dropWhile (\<lambda>ev. ev \<noteq> NewCycle) (rev h))))"

definition fail_run :: "bool list \<Rightarrow> nat" where
  "fail_run rs = length (takeWhile id (rev rs))"

text \<open>\<open>k\<close> failed results in a row at some time since the last clear.\<close>

definition confirmed :: "nat \<Rightarrow> bool list \<Rightarrow> bool" where
  "confirmed k rs = sublist (replicate k True) rs"

definition spec_status :: "u8 \<Rightarrow> entry_event list \<Rightarrow> u8" where
  "spec_status threshold h =
     (let rs = results h in
      (if rs \<noteq> [] \<and> last rs then DTC_STATUS_TF else 0)
      OR (if True \<in> set (this_cycle h) then DTC_STATUS_TFTOC else 0)
      OR (if True \<in> set (this_cycle h) \<union> set (last_cycle h) then DTC_STATUS_PDTC else 0)
      OR (if confirmed (unat threshold) rs then DTC_STATUS_CDTC else 0)
      OR (if rs = [] then DTC_STATUS_TNCSLC else 0)
      OR (if True \<in> set rs then DTC_STATUS_TFSLC else 0)
      OR (if this_cycle h = [] then DTC_STATUS_TNCTOC else 0))"

definition entry_step :: "u8 \<Rightarrow> DtcEntry_t \<Rightarrow> entry_event \<Rightarrow> DtcEntry_t" where
  "entry_step threshold e ev =
     (case ev of Tested b \<Rightarrow> report_entry threshold b e | NewCycle \<Rightarrow> cycle_entry e)"

definition initial_entry :: DtcEntry_t where
  "initial_entry = \<lparr>status = STATUS_INITIAL, failCount = 0\<rparr>"

subsection \<open>Histories grow at the end\<close>

lemma results_append [simp]: "results (h @ h') = results h @ results h'"
  by (induction h rule: results.induct) simp_all

lemma this_cycle_Tested [simp]: "set (this_cycle (h @ [Tested b])) = insert b (set (this_cycle h))"
  by (simp add: this_cycle_def)

lemma this_cycle_Tested_ne [simp]: "this_cycle (h @ [Tested b]) \<noteq> []"
  by (simp add: this_cycle_def)

lemma last_cycle_Tested [simp]: "last_cycle (h @ [Tested b]) = last_cycle h"
  by (simp add: last_cycle_def)

lemma this_cycle_NewCycle [simp]: "this_cycle (h @ [NewCycle]) = []"
  by (simp add: this_cycle_def)

lemma last_cycle_NewCycle [simp]: "last_cycle (h @ [NewCycle]) = this_cycle h"
  by (simp add: last_cycle_def this_cycle_def)

lemma fail_run_snoc: "fail_run (rs @ [b]) = (if b then Suc (fail_run rs) else 0)"
  by (simp add: fail_run_def)

lemma suffix_replicate: "suffix (replicate k True) rs \<longleftrightarrow> k \<le> fail_run rs"
proof (induction rs arbitrary: k rule: rev_induct)
  case Nil
  then show ?case by (cases k) (simp_all add: fail_run_def)
next
  case (snoc b rs)
  show ?case
  proof (cases k)
    case 0
    then show ?thesis by simp
  next
    case (Suc j)
    then have "replicate k True = replicate j True @ [True]"
      by (simp add: replicate_append_same)
    with snoc.IH [of j] Suc show ?thesis
      by (auto simp: fail_run_snoc)
  qed
qed

lemma confirmed_snoc:
  "confirmed k (rs @ [b]) \<longleftrightarrow> confirmed k rs \<or> k \<le> fail_run (rs @ [b])"
  by (simp only: confirmed_def sublist_snoc suffix_replicate disj_commute)

lemma confirmed_Nil [simp]: "confirmed k [] \<longleftrightarrow> k = 0"
  by (simp add: confirmed_def)

subsection \<open>The byte, bit by bit\<close>

lemma bit_if_zero: "bit (if c then (b :: u8) else 0) n \<longleftrightarrow> c \<and> bit b n"
  by simp

lemma bit_spec_status:
  "bit (spec_status threshold h) n \<longleftrightarrow>
     (n = 0 \<and> results h \<noteq> [] \<and> last (results h)) \<or>
     (n = 1 \<and> True \<in> set (this_cycle h)) \<or>
     (n = 2 \<and> True \<in> set (this_cycle h) \<union> set (last_cycle h)) \<or>
     (n = 3 \<and> confirmed (unat threshold) (results h)) \<or>
     (n = 4 \<and> results h = []) \<or>
     (n = 5 \<and> True \<in> set (results h)) \<or>
     (n = 6 \<and> this_cycle h = [])"
  by (simp only: spec_status_def Let_def bit_or_iff bit_if_zero bit_dtc_status) blast

lemma bit_report_entry:
  "bit (status (report_entry threshold failed e)) n \<longleftrightarrow> n < 8 \<and>
     (if failed then n \<in> {0, 1, 2, 5} \<or> (n = 3 \<and> failCount (report_entry threshold failed e) \<ge> threshold)
        \<or> (n \<notin> {4, 6} \<and> bit (status e) n)
      else n \<notin> {0, 4, 6} \<and> bit (status e) n)"
  by (auto simp: report_entry_def Let_def bit_dtc_status bit_or_iff bit_and_iff bit_not_iff
      dest: bit_imp_le_length)

lemma failCount_report_entry:
  "failCount (report_entry threshold failed e) =
     (if failed then (if failCount e < 0xFF then failCount e + 1 else failCount e) else 0)"
  by (simp add: report_entry_def Let_def)

lemma and_TFTOC_eq_0: "w AND DTC_STATUS_TFTOC = 0 \<longleftrightarrow> \<not> bit w 1"
proof -
  have "DTC_STATUS_TFTOC = push_bit 1 1"
    by (simp add: DTC_STATUS_TFTOC_def)
  then show ?thesis
    by (simp only: bit_iff_and_push_bit_not_eq_0 not_not)
qed

lemma bit_cycle_entry:
  "bit (status (cycle_entry e)) n \<longleftrightarrow>
     n = 6 \<or> (n \<noteq> 1 \<and> (n = 2 \<longrightarrow> bit (status e) 1) \<and> bit (status e) n)"
  by (auto simp: cycle_entry_def Let_def and_TFTOC_eq_0 bit_dtc_status bit_or_iff bit_and_iff
      bit_not_iff dest: bit_imp_le_length)

lemma failCount_cycle_entry [simp]: "failCount (cycle_entry e) = failCount e"
  by (simp add: cycle_entry_def Let_def)

subsection \<open>The maintained entry is the specified one\<close>

text \<open>An 8-bit counter that stops at 255.\<close>

definition sat8 :: "nat \<Rightarrow> u8" where
  "sat8 k = of_nat (min 255 k)"

definition spec_entry :: "u8 \<Rightarrow> entry_event list \<Rightarrow> DtcEntry_t" where
  "spec_entry threshold h =
     \<lparr>status = spec_status threshold h, failCount = sat8 (fail_run (results h))\<rparr>"

lemma unat_sat8: "unat (sat8 k) = min 255 k"
  by (simp add: sat8_def unat_of_nat del: of_nat_min)

lemma sat8_0 [simp]: "sat8 0 = 0"
  by (simp add: sat8_def)

lemma sat8_step: "(if sat8 k < 0xFF then sat8 k + 1 else sat8 k) = sat8 (Suc k)"
proof (cases "k < 255")
  case True
  then have "unat (sat8 k + 1) = Suc k"
    by (subst unat_Suc_word) (simp_all add: unat_sat8)
  with True show ?thesis
    by (simp add: word_unat_eq_iff word_less_nat_alt unat_sat8)
next
  case False
  then show ?thesis
    by (simp add: word_unat_eq_iff word_less_nat_alt unat_sat8)
qed

lemma threshold_le_sat8: "threshold \<le> sat8 k \<longleftrightarrow> unat threshold \<le> k"
proof -
  have "unat threshold < 2 ^ LENGTH(8)" by (rule unsigned_less)
  then show ?thesis
    unfolding word_le_nat_alt unat_sat8 by auto
qed

lemma entry_step_spec:
  assumes "0 < threshold"
  shows "entry_step threshold (spec_entry threshold h) ev = spec_entry threshold (h @ [ev])"
proof (cases ev)
  case (Tested b)
  have count: "failCount (report_entry threshold b (spec_entry threshold h))
      = sat8 (fail_run (results h @ [b]))"
    by (simp add: failCount_report_entry spec_entry_def fail_run_snoc flip: sat8_step)
  have "status (report_entry threshold b (spec_entry threshold h)) = spec_status threshold (h @ [ev])"
  proof (rule bit_word_eqI)
    fix n assume "n < LENGTH(8)"
    then have n: "n = 0 \<or> n = 1 \<or> n = 2 \<or> n = 3 \<or> n = 4 \<or> n = 5 \<or> n = 6 \<or> n = 7"
      by (simp add: less_Suc_eq numeral_eq_Suc)
    have pos: "unat threshold \<noteq> 0" using assms by (simp add: unat_eq_zero word_neq_0_conv)
    show "bit (status (report_entry threshold b (spec_entry threshold h))) n
        \<longleftrightarrow> bit (spec_status threshold (h @ [ev])) n"
      unfolding bit_report_entry count threshold_le_sat8 bit_spec_status Tested
      using n pos
      by (elim disjE; cases b; simp add: bit_spec_status confirmed_snoc fail_run_snoc
          spec_entry_def disj_commute)
  qed
  with count Tested show ?thesis
    by (simp add: entry_step_def spec_entry_def)
next
  case NewCycle
  have "status (cycle_entry (spec_entry threshold h)) = spec_status threshold (h @ [ev])"
    by (rule bit_word_eqI) (auto simp: NewCycle bit_cycle_entry bit_spec_status spec_entry_def)
  with NewCycle show ?thesis
    by (simp add: entry_step_def spec_entry_def)
qed

lemma spec_entry_Nil: "0 < threshold \<Longrightarrow> spec_entry threshold [] = initial_entry"
  by (auto simp: spec_entry_def initial_entry_def spec_status_def STATUS_INITIAL_def
      this_cycle_def last_cycle_def fail_run_def unat_eq_zero word_neq_0_conv)

lemma entry_history:
  assumes "0 < threshold"
  shows "foldl (entry_step threshold) initial_entry h = spec_entry threshold h"
  using assms
  by (induction h rule: rev_induct) (simp_all add: spec_entry_Nil entry_step_spec)

subsection \<open>The whole manager\<close>

definition dtc_wf :: "DtcMgr_State \<Rightarrow> bool" where
  "dtc_wf d = (length (s_entries d) = 16 \<and> s_count d \<le> 16 \<and> unat (s_count d) \<le> length (s_table d))"

definition lock_balanced :: "DtcMgr_State \<Rightarrow> bool" where
  "lock_balanced d =
     (case (s_lock d, s_unlock d) of
        (None, None) \<Rightarrow> True
      | (Some l, Some u) \<Rightarrow> u (l (mutex d)) = mutex d
      | _ \<Rightarrow> False)"

datatype dtc_event = Report u8 bool | OperationCycle | ClearAll

definition dtc_step :: "DtcMgr_State \<Rightarrow> dtc_event \<Rightarrow> DtcMgr_State" where
  "dtc_step d ev =
     (case ev of
        Report i failed \<Rightarrow> DtcMgr_ReportResult i failed d
      | OperationCycle \<Rightarrow> DtcMgr_StartOperationCycle d
      | ClearAll \<Rightarrow> DtcMgr_ClearAll d)"

text \<open>The events of trouble code \<open>j\<close> since its last clear.\<close>

definition history_step :: "u8 \<Rightarrow> entry_event list \<Rightarrow> dtc_event \<Rightarrow> entry_event list" where
  "history_step j h ev =
     (case ev of
        Report i failed \<Rightarrow> if i = j then h @ [Tested failed] else h
      | OperationCycle \<Rightarrow> h @ [NewCycle]
      | ClearAll \<Rightarrow> [])"

definition dtc_history :: "u8 \<Rightarrow> dtc_event list \<Rightarrow> entry_event list" where
  "dtc_history j evs = foldl (history_step j) [] evs"

lemma Lock_frame [simp]:
  "s_table (Lock d) = s_table d" "s_count (Lock d) = s_count d" "s_entries (Lock d) = s_entries d"
  "s_lock (Lock d) = s_lock d" "s_unlock (Lock d) = s_unlock d"
  by (simp_all add: Lock_def split: option.split)

lemma Unlock_frame [simp]:
  "s_table (Unlock d) = s_table d" "s_count (Unlock d) = s_count d"
  "s_entries (Unlock d) = s_entries d"
  "s_lock (Unlock d) = s_lock d" "s_unlock (Unlock d) = s_unlock d"
  by (simp_all add: Unlock_def split: option.split)

lemma for_entries_frame [simp]:
  "s_table (for_entries f d) = s_table d" "s_count (for_entries f d) = s_count d"
  "s_lock (for_entries f d) = s_lock d" "s_unlock (for_entries f d) = s_unlock d"
  "mutex (for_entries f d) = mutex d" "length (s_entries (for_entries f d)) = length (s_entries d)"
  by (simp_all add: for_entries_def)

lemma nth_for_entries:
  "dtc_wf d \<Longrightarrow> j < s_count d \<Longrightarrow> s_entries (for_entries f d) ! unat j = f (s_entries d ! unat j)"
  by (auto simp: for_entries_def dtc_wf_def nth_append word_less_nat_alt word_le_nat_alt)

lemma for_entries_Lock [simp]: "s_entries (for_entries f (Lock d)) = s_entries (for_entries f d)"
  by (simp add: for_entries_def)

lemmas dtc_op_defs = DtcMgr_ReportResult_def DtcMgr_StartOperationCycle_def DtcMgr_ClearAll_def
  ResetAll_def Let_def

lemma dtc_step_frame [simp]:
  "s_table (dtc_step d ev) = s_table d" "s_count (dtc_step d ev) = s_count d"
  "s_lock (dtc_step d ev) = s_lock d" "s_unlock (dtc_step d ev) = s_unlock d"
  "length (s_entries (dtc_step d ev)) = length (s_entries d)"
  by (simp_all add: dtc_step_def dtc_op_defs split: dtc_event.split)

lemma dtc_wf_step [simp]: "dtc_wf (dtc_step d ev) = dtc_wf d"
  by (simp add: dtc_wf_def)

lemma mutex_balanced: "lock_balanced d \<Longrightarrow> s_lock d' = s_lock d \<Longrightarrow> s_unlock d' = s_unlock d \<Longrightarrow>
    mutex d' = mutex (Lock d) \<Longrightarrow> mutex (Unlock d') = mutex d"
  by (auto simp: lock_balanced_def Lock_def Unlock_def split: option.splits)

lemma mutex_dtc_step: "lock_balanced d \<Longrightarrow> mutex (dtc_step d ev) = mutex d"
  by (auto simp: dtc_step_def dtc_op_defs intro!: mutex_balanced split: dtc_event.split)

lemma lock_balanced_step: "lock_balanced d \<Longrightarrow> lock_balanced (dtc_step d ev)"
  using mutex_dtc_step [of d ev] by (auto simp: lock_balanced_def split: option.splits)

definition dtc_threshold :: "DtcMgr_State \<Rightarrow> u8 \<Rightarrow> u8" where
  "dtc_threshold d j = effective_threshold (s_table d ! unat j)"

lemma dtc_threshold_pos: "0 < dtc_threshold d j"
  by (simp add: dtc_threshold_def effective_threshold_def word_neq_0_conv)

lemma dtc_threshold_step [simp]: "dtc_threshold (dtc_step d ev) j = dtc_threshold d j"
  by (simp add: dtc_threshold_def)

lemma dtc_step_entry:
  assumes "dtc_wf d" "j < s_count d"
    and "s_entries d ! unat j = spec_entry (dtc_threshold d j) h"
  shows "s_entries (dtc_step d ev) ! unat j = spec_entry (dtc_threshold d j) (history_step j h ev)"
proof (cases ev)
  case (Report i failed)
  have "unat j < length (s_entries d)"
    using assms(1,2) by (simp add: dtc_wf_def word_less_nat_alt word_le_nat_alt)
  note inr = this
  show ?thesis
  proof (cases "i = j")
    case True
    have "s_entries (dtc_step d ev) ! unat j
        = report_entry (dtc_threshold d j) failed (s_entries d ! unat j)"
      using True Report inr assms(2)
      by (simp add: dtc_step_def DtcMgr_ReportResult_def Let_def dtc_threshold_def not_le)
    also have "\<dots> = spec_entry (dtc_threshold d j) (h @ [Tested failed])"
      using entry_step_spec [OF dtc_threshold_pos, of d j h "Tested failed"] assms(3)
      by (simp add: entry_step_def)
    finally show ?thesis
      using True Report by (simp add: history_step_def)
  next
    case False
    then have "unat i \<noteq> unat j" by (simp add: word_unat_eq_iff)
    with False Report assms(3) show ?thesis
      by (simp add: dtc_step_def history_step_def DtcMgr_ReportResult_def Let_def)
  qed
next
  case OperationCycle
  with assms entry_step_spec [OF dtc_threshold_pos, of d j h NewCycle] show ?thesis
    by (simp add: dtc_step_def history_step_def DtcMgr_StartOperationCycle_def nth_for_entries
        entry_step_def)
next
  case ClearAll
  with assms spec_entry_Nil [OF dtc_threshold_pos] show ?thesis
    by (simp add: dtc_step_def history_step_def DtcMgr_ClearAll_def ResetAll_def nth_for_entries
        initial_entry_def)
qed

lemma dtc_run_entry:
  assumes "dtc_wf d" "j < s_count d"
    and "s_entries d ! unat j = spec_entry (dtc_threshold d j) h"
  shows "s_entries (foldl dtc_step d evs) ! unat j
       = spec_entry (dtc_threshold d j) (foldl (history_step j) h evs)"
  using assms
proof (induction evs arbitrary: d h)
  case Nil
  then show ?case by simp
next
  case (Cons ev evs)
  then have "s_entries (dtc_step d ev) ! unat j
      = spec_entry (dtc_threshold (dtc_step d ev) j) (history_step j h ev)"
    by (simp add: dtc_step_entry)
  with Cons.IH [of "dtc_step d ev"] Cons.prems show ?case by simp
qed

lemma dtc_run_frame [simp]: "s_count (foldl dtc_step d evs) = s_count d"
  "s_table (foldl dtc_step d evs) = s_table d"
  by (induction evs arbitrary: d) simp_all

lemma dtc_wf_run [simp]: "dtc_wf (foldl dtc_step d evs) = dtc_wf d"
  by (induction evs arbitrary: d) simp_all

lemma DtcMgr_InitD:
  assumes "DtcMgr_Init (Some table) count lock unlock d0 = (True, d)"
  shows "s_table d = table" "s_count d = count" "0 < count" "count \<le> 16"
    "s_lock d = lock" "s_unlock d = unlock"
    "length (s_entries d) = length (s_entries d0)"
  using assms
  by (auto simp: DtcMgr_Init_def ResetAll_def DTC_MAX_ENTRIES_def word_neq_0_conv not_less
      split: if_splits)

lemma dtc_init_wf:
  assumes "DtcMgr_Init (Some table) count lock unlock d0 = (True, d)"
    and "length (s_entries d0) = 16" "unat count \<le> length table"
  shows "dtc_wf d"
  using DtcMgr_InitD [OF assms(1)] assms(2,3) by (simp add: dtc_wf_def)

lemma dtc_init_entry:
  assumes "DtcMgr_Init (Some table) count lock unlock d0 = (True, d)"
    and "length (s_entries d0) = 16" "unat count \<le> length table" "j < count"
  shows "s_entries d ! unat j = initial_entry"
proof -
  define d1 where
    "d1 = d0\<lparr>s_table := table, s_count := count, s_lock := lock, s_unlock := unlock\<rparr>"
  have d: "d = ResetAll d1"
    using assms(1) by (auto simp: DtcMgr_Init_def d1_def split: if_splits)
  have "dtc_wf d1"
    using DtcMgr_InitD [OF assms(1)] assms(2,3) by (simp add: dtc_wf_def d1_def)
  moreover have "j < s_count d1"
    using assms(4) by (simp add: d1_def)
  ultimately show ?thesis
    by (simp only: d ResetAll_def nth_for_entries initial_entry_def) simp
qed

subsection \<open>Reading the codes by status mask\<close>

text \<open>The codes that match a mask, in table order: what both read operations are about.\<close>

definition matching :: "u8 \<Rightarrow> DtcMgr_State \<Rightarrow> (DtcMgr_Config_t \<times> DtcEntry_t) list" where
  "matching msk d =
     filter (\<lambda>(cfg, e). status_matches msk e) (take (unat (s_count d)) (zip (s_table d) (s_entries d)))"

definition record_bytes :: "(DtcMgr_Config_t \<times> DtcEntry_t) list \<Rightarrow> u8 list" where
  "record_bytes xs = concat (map (\<lambda>(cfg, e). dtc_record cfg e) xs)"

lemma length_dtc_record [simp]: "length (dtc_record cfg e) = 4"
  by (simp add: dtc_record_def)

lemma length_record_bytes [simp]: "length (record_bytes xs) = 4 * length xs"
  by (induction xs) (auto simp: record_bytes_def)

lemma record_bytes_append [simp]: "record_bytes (xs @ ys) = record_bytes xs @ record_bytes ys"
  by (simp add: record_bytes_def)

lemma foldl_count:
  "foldl (\<lambda>n e. if P e then n + 1 else n) (k :: u8) xs = k + of_nat (length (filter P xs))"
  by (induction xs arbitrary: k) (simp_all add: ac_simps)

lemma filter_zip_snd:
  "length xs = length ys \<Longrightarrow>
   length (filter (\<lambda>(x, y). P y) (zip xs ys)) = length (filter P ys)"
  by (induction xs ys rule: list_induct2) simp_all

lemma length_matching:
  assumes "dtc_wf d"
  shows "length (matching msk d)
       = length (filter (status_matches msk) (take (unat (s_count d)) (s_entries d)))"
proof -
  have "unat (s_count d) \<le> length (s_table d)" "unat (s_count d) \<le> length (s_entries d)"
    using assms by (auto simp: dtc_wf_def word_le_nat_alt)
  then show ?thesis
    by (simp add: matching_def take_zip filter_zip_snd)
qed

lemma matching_bound: "dtc_wf d \<Longrightarrow> length (matching msk d) \<le> 16"
  by (rule order_trans [OF eq_refl [OF length_matching] order_trans [OF length_filter_le]])
    (auto simp: dtc_wf_def word_le_nat_alt)

lemma CountByStatusMask_matching:
  assumes "dtc_wf d"
  shows "fst (DtcMgr_CountByStatusMask msk d) = of_nat (length (matching msk d))"
  using assms
  by (simp add: DtcMgr_CountByStatusMask_def Let_def foldl_count length_matching)

lemma get_loop_records:
  assumes "unat n + length rest < 256" "4 * unat maxRecords \<le> length out" "n \<le> maxRecords"
    and "hits = filter (\<lambda>(cfg, e). status_matches msk e) rest"
    and "k = min (unat maxRecords - unat n) (length hits)"
  shows "get_loop msk maxRecords rest n out
       = (n + of_nat k, write_at out (4 * unat n) (record_bytes (take k hits)))"
  using assms
proof (induction msk maxRecords rest n out arbitrary: hits k rule: get_loop.induct)
  case (1 msk maxRecords n out)
  then show ?case by (simp add: record_bytes_def)
next
  case (2 msk maxRecords cfg e rest n out)
  show ?case
  proof (cases "n < maxRecords")
    case False
    then have "unat maxRecords - unat n = 0"
      by (simp add: not_less word_le_nat_alt)
    with False "2.prems" show ?thesis
      by (simp add: record_bytes_def)
  next
    case True
    show ?thesis
    proof (cases "status_matches msk e")
      case False
      with True "2.IH"(2) "2.prems" show ?thesis by simp
    next
      case match: True
      define hits' where "hits' = filter (\<lambda>(cfg, e). status_matches msk e) rest"
      define k' where "k' = min (unat maxRecords - unat (n + 1)) (length hits')"
      have inc: "unat (n + 1) = Suc (unat n)"
        using True by (rule unat_inc_of_less)
      have lt: "unat n < unat maxRecords"
        using True by (simp add: word_less_nat_alt)
      have k: "k = Suc k'"
        using "2.prems" match lt inc by (simp add: k'_def hits'_def)
      have fits: "4 * unat n + 4 \<le> length out"
        using "2.prems"(2) lt by arith
      have k'_le: "k' \<le> unat maxRecords - Suc (unat n)"
        by (simp add: k'_def inc)
      have "get_loop msk maxRecords rest (n + 1) (write_at out (unat n * 4) (dtc_record cfg e))
          = (n + 1 + of_nat k', write_at (write_at out (unat n * 4) (dtc_record cfg e))
               (4 * unat (n + 1)) (record_bytes (take k' hits')))"
      proof (rule "2.IH"(1) [OF True match])
        show "unat (n + 1) + length rest < 256" using "2.prems"(1) inc by simp
        show "4 * unat maxRecords \<le> length (write_at out (unat n * 4) (dtc_record cfg e))"
          using "2.prems"(2) fits by (simp add: mult.commute)
        show "n + 1 \<le> maxRecords" using lt inc by (simp add: word_le_nat_alt)
      qed (simp_all add: hits'_def k'_def)
      moreover have "write_at (write_at out (unat n * 4) (dtc_record cfg e))
               (4 * unat (n + 1)) (record_bytes (take k' hits'))
          = write_at out (4 * unat n) (dtc_record cfg e @ record_bytes (take k' hits'))"
        using fits inc by (subst write_at_write_at) (simp_all add: mult.commute)
      ultimately show ?thesis
        using True match k "2.prems"(4)
        by (simp add: hits'_def record_bytes_def ac_simps)
    qed
  qed
qed

lemma GetByStatusMask_matching:
  assumes "dtc_wf d" "4 * unat maxRecords \<le> length out"
    and "k = min (unat maxRecords) (length (matching msk d))"
  shows "DtcMgr_GetByStatusMask msk (Some out) maxRecords d
       = (of_nat k, Some (write_at out 0 (record_bytes (take k (matching msk d)))), Unlock (Lock d))"
proof -
  define rest where "rest = take (unat (s_count d)) (zip (s_table d) (s_entries d))"
  have "length rest < 256"
    using assms(1) by (simp add: dtc_wf_def rest_def)
  then have "get_loop msk maxRecords rest 0 out
      = (0 + of_nat k, write_at out (4 * unat (0 :: u8)) (record_bytes (take k (matching msk d))))"
    using assms(2,3) by (intro get_loop_records) (simp_all add: matching_def rest_def)
  then show ?thesis
    by (simp add: DtcMgr_GetByStatusMask_def rest_def)
qed

subsection \<open>Properties\<close>

lemma Unlock_Lock: "lock_balanced d \<Longrightarrow> Unlock (Lock d) = d"
  by (auto simp: lock_balanced_def Lock_def Unlock_def split: option.splits)

lemma CountByStatusMask_eq:
  assumes "dtc_wf d" "lock_balanced d"
  shows "DtcMgr_CountByStatusMask msk d = (of_nat (length (matching msk d)), d)"
  using CountByStatusMask_matching [OF assms(1), of msk] assms(2)
  by (simp add: DtcMgr_CountByStatusMask_def Let_def Unlock_Lock)

lemma lock_balanced_run: "lock_balanced d \<Longrightarrow> lock_balanced (foldl dtc_step d evs)"
  by (induction evs arbitrary: d) (simp_all add: lock_balanced_step)

lemma mutex_run: "lock_balanced d \<Longrightarrow> mutex (foldl dtc_step d evs) = mutex d"
  by (induction evs arbitrary: d) (simp_all add: lock_balanced_step mutex_dtc_step)

text \<open>A manager for three codes, with a recursive mutex, used by the witnesses.\<close>

definition example_table :: "DtcMgr_Config_t list" where
  "example_table = [\<lparr>code = 0xC10087, confirmThreshold = 1\<rparr>, \<lparr>code = 0x050100, confirmThreshold = 3\<rparr>,
     \<lparr>code = 0x9A0011, confirmThreshold = 0\<rparr>]"

definition example_mgr :: DtcMgr_State where
  "example_mgr = snd (DtcMgr_Init (Some example_table) 3 (Some Suc) (Some (\<lambda>n. n - 1)) DtcMgr_static)"

lemma example_mgr_init:
  "DtcMgr_Init (Some example_table) 3 (Some Suc) (Some (\<lambda>n. n - 1)) DtcMgr_static = (True, example_mgr)"
  by (simp add: example_mgr_def DtcMgr_Init_def DTC_MAX_ENTRIES_def)

lemma example_mgr_facts:
  "lock_balanced example_mgr" "dtc_wf example_mgr" "s_count example_mgr = 3" "mutex example_mgr = 0"
  "s_table example_mgr = example_table"
  by (simp_all add: example_mgr_def DtcMgr_Init_def DTC_MAX_ENTRIES_def DtcMgr_static_def
      lock_balanced_def dtc_wf_def ResetAll_def example_table_def)

lemma GetStatus_history:
  assumes "dtc_wf d" "lock_balanced d" "j < s_count d"
    and "s_entries d ! unat j = spec_entry (dtc_threshold d j) h"
  shows "DtcMgr_GetStatus j (foldl dtc_step d evs)
       = (spec_status (dtc_threshold d j) (foldl (history_step j) h evs), foldl dtc_step d evs)"
  using assms(2,3) dtc_run_entry [OF assms(1,3,4), of evs]
  by (simp add: DtcMgr_GetStatus_def Unlock_Lock lock_balanced_run spec_entry_def)

lemma dtc_init_history:
  assumes "DtcMgr_Init (Some table) count lock unlock d0 = (True, d)"
    and "length (s_entries d0) = 16" "unat count \<le> length table" "j < count"
  shows "s_entries d ! unat j = spec_entry (dtc_threshold d j) []"
  using dtc_init_entry [OF assms] spec_entry_Nil [OF dtc_threshold_pos] by simp

text \<open>C18: after a successful \<open>DtcMgr_Init\<close>, whatever sequence of test results, operation
  cycles and clears follows, the status byte read for a trouble code is the ISO 14229-1 byte of
  its history since the last clear (each bit defined by \<open>spec_status\<close> in terms of the results,
  not of the incremental updates), with the threshold of the table entry, 0 counting as 1; and
  the mutex is released after every operation.\<close>

theorem DtcMgr_status_of_history:
  assumes "DtcMgr_Init (Some table) count lock unlock d0 = (True, d)"
    and "length (s_entries d0) = 16" "unat count \<le> length table" "j < count" "lock_balanced d"
  shows "DtcMgr_GetStatus j (foldl dtc_step d evs)
         = (spec_status (effective_threshold (table ! unat j)) (dtc_history j evs), foldl dtc_step d evs) \<and>
       mutex (foldl dtc_step d evs) = mutex d"
proof
  note init = DtcMgr_InitD [OF assms(1)]
  have j: "j < s_count d" using init assms(4) by simp
  show "DtcMgr_GetStatus j (foldl dtc_step d evs)
       = (spec_status (effective_threshold (table ! unat j)) (dtc_history j evs), foldl dtc_step d evs)"
    using GetStatus_history [OF dtc_init_wf [OF assms(1-3)] assms(5) j dtc_init_history [OF assms(1-4)]] init
    by (simp add: dtc_threshold_def dtc_history_def)
  show "mutex (foldl dtc_step d evs) = mutex d"
    using assms(5) by (rule mutex_run)
qed

theorem DtcMgr_status_of_history_witness:
  "fst (DtcMgr_GetStatus 1 (foldl dtc_step example_mgr
     [Report 1 True, Report 1 True, OperationCycle, Report 1 True, Report 1 False])) = 0x2E"
proof -
  have thr: "effective_threshold (example_table ! 1) = 3"
    by (simp add: effective_threshold_def example_table_def)
  have conf: "confirmed 3 [True, True, True, False]"
    by (simp add: confirmed_def numeral_3_eq_3)
  have "dtc_history 1 [Report 1 True, Report 1 True, OperationCycle, Report 1 True, Report 1 False]
      = [Tested True, Tested True, NewCycle, Tested True, Tested False]"
    by (simp add: dtc_history_def history_step_def)
  then show ?thesis
    using DtcMgr_status_of_history [OF example_mgr_init, of 1
        "[Report 1 True, Report 1 True, OperationCycle, Report 1 True, Report 1 False]"] thr conf
    by (simp add: example_mgr_facts DtcMgr_static_def DTC_MAX_ENTRIES_def spec_status_def
        this_cycle_def last_cycle_def dtc_status_defs example_table_def)
qed

text \<open>C25: reading the codes that match a status mask into a buffer with room for them returns
  exactly the matching table entries, in table order, as code (three bytes, big-endian) and
  status byte; the count service returns their number; bytes of the buffer past the records are
  not written, the buffer keeps its length, and the manager's state is unchanged.\<close>

theorem DtcMgr_read_by_mask:
  assumes "dtc_wf d" "lock_balanced d"
    and "4 * unat maxRecords \<le> length out" "length (matching msk d) \<le> unat maxRecords"
  shows "DtcMgr_CountByStatusMask msk d = (of_nat (length (matching msk d)), d) \<and>
       DtcMgr_GetByStatusMask msk (Some out) maxRecords d
       = (of_nat (length (matching msk d)),
          Some (record_bytes (matching msk d) @ drop (4 * length (matching msk d)) out), d) \<and>
       unat (of_nat (length (matching msk d)) :: u8) = length (matching msk d)"
proof (intro conjI)
  have "min (unat maxRecords) (length (matching msk d)) = length (matching msk d)"
    using assms(4) by simp
  then show "DtcMgr_GetByStatusMask msk (Some out) maxRecords d
       = (of_nat (length (matching msk d)),
          Some (record_bytes (matching msk d) @ drop (4 * length (matching msk d)) out), d)"
    using assms(2) by (simp add: GetByStatusMask_matching [OF assms(1,3)] Unlock_Lock write_at_0)
  show "DtcMgr_CountByStatusMask msk d = (of_nat (length (matching msk d)), d)"
    by (rule CountByStatusMask_eq [OF assms(1,2)])
  show "unat (of_nat (length (matching msk d)) :: u8) = length (matching msk d)"
    using matching_bound [OF assms(1), of msk] by (simp add: unat_of_nat)
qed

definition example_failed :: DtcMgr_State where
  "example_failed = foldl dtc_step example_mgr [Report 0 True, Report 1 False, Report 2 True]"

lemma example_failed_facts: "lock_balanced example_failed" "dtc_wf example_failed"
  "s_count example_failed = 3"
  by (simp_all add: example_failed_def example_mgr_facts lock_balanced_step)

lemma example_failed_table: "s_table example_failed = example_table"
  by (simp add: example_failed_def example_mgr_facts)

theorem DtcMgr_read_by_mask_witness:
  "fst (snd (DtcMgr_GetByStatusMask 0x08 (Some (replicate 12 0)) 3 example_failed))
   = Some (record_bytes (matching 0x08 example_failed)
        @ drop (4 * length (matching 0x08 example_failed)) (replicate 12 0))"
proof -
  have "length (matching 0x08 example_failed) \<le> 3"
    using length_filter_le [of "\<lambda>(cfg, e). status_matches 0x08 e"
        "take 3 (zip (s_table example_failed) (s_entries example_failed))"]
    by (simp add: matching_def example_failed_facts example_failed_table example_table_def)
  then show ?thesis
    using DtcMgr_read_by_mask [OF example_failed_facts(2,1), of 3 "replicate 12 0" "0x08"] by simp
qed

end
