(* ===== verification/UdsProps.thy ===== *)
theory UdsProps
  imports UdsServer DtcHistory
begin

section \<open>The diagnostic server against its specification\<close>

text \<open>
  \<open>spec_reply\<close> gives the answer of each service on the request as a list; the lemmas show
  that the handlers, which build it byte by byte in a bounded buffer, send exactly it. The
  locales \<open>dtc_store\<close> and \<open>uds_server\<close> are the contracts of the trouble code manager and of
  the identifier table.
\<close>

subsection \<open>The response under construction\<close>

definition out :: "Ctx_t \<Rightarrow> u8 list" where
  "out c = take (unat (respLen c)) (resp c)"

definition room :: "Ctx_t \<Rightarrow> nat" where
  "room c = unat (respMax c) - unat (respLen c)"

definition ctx_wf :: "Ctx_t \<Rightarrow> bool" where
  "ctx_wf c = (respLen c \<le> respMax c \<and> unat (respMax c) \<le> length (resp c))"

text \<open>\<open>c'\<close> answers the same request into the same buffer, and has not written past \<open>respMax\<close>.\<close>

definition same_buffer :: "Ctx_t \<Rightarrow> Ctx_t \<Rightarrow> bool" where
  "same_buffer c c' =
     (req c' = req c \<and> reqLen c' = reqLen c \<and> respMax c' = respMax c \<and>
      length (resp c') = length (resp c) \<and>
      drop (unat (respMax c)) (resp c') = drop (unat (respMax c)) (resp c))"

lemma same_buffer_refl [simp]: "same_buffer c c"
  by (simp add: same_buffer_def)

lemma same_buffer_trans: "same_buffer c c' \<Longrightarrow> same_buffer c' c'' \<Longrightarrow> same_buffer c c''"
  by (simp add: same_buffer_def)

lemma length_out: "ctx_wf c \<Longrightarrow> length (out c) = unat (respLen c)"
  by (auto simp: out_def ctx_wf_def word_le_nat_alt)

lemma put_props:
  assumes "ctx_wf c"
  shows "ctx_wf (put b c)" "same_buffer c (put b c)" "out (put b c) = out c @ take (room c) [b]"
    "room (put b c) = room c - 1" "suppressPositive (put b c) = suppressPositive c"
proof -
  have "ctx_wf (put b c) \<and> same_buffer c (put b c) \<and> out (put b c) = out c @ take (room c) [b] \<and>
    room (put b c) = room c - 1"
  proof (cases "respLen c \<ge> respMax c")
    case True
    then have "room c = 0" by (simp add: room_def word_le_nat_alt)
    with True assms show ?thesis by (simp add: put_def Put_def)
  next
    case False
    then have lt: "unat (respLen c) < unat (respMax c)" by (simp add: word_less_nat_alt not_le)
    have inc: "unat (respLen c + 1) = Suc (unat (respLen c))"
      using False by (intro unat_inc_of_less) (simp add: not_le)
    have "room c = Suc (room c - 1)" using lt by (simp add: room_def)
    then have r: "take (room c) [b] = [b]" by (metis take_Suc_Cons take_Nil)
    have len: "unat (respLen c) < length (resp c)" using lt assms by (simp add: ctx_wf_def)
    then have "take (Suc (unat (respLen c))) ((resp c)[unat (respLen c) := b]) = out c @ [b]"
      by (simp add: out_def take_Suc_conv_app_nth)
    with False inc r lt assms show ?thesis
      by (simp add: put_def Put_def ctx_wf_def same_buffer_def out_def room_def word_le_nat_alt)
  qed
  then show "ctx_wf (put b c)" "same_buffer c (put b c)" "out (put b c) = out c @ take (room c) [b]"
    "room (put b c) = room c - 1" by simp_all
  show "suppressPositive (put b c) = suppressPositive c" by (simp add: put_def Put_def)
qed

lemma puts_props:
  assumes "ctx_wf c"
  shows "ctx_wf (puts bs c) \<and> same_buffer c (puts bs c) \<and> out (puts bs c) = out c @ take (room c) bs \<and>
    room (puts bs c) = room c - length bs \<and> suppressPositive (puts bs c) = suppressPositive c"
  using assms
proof (induction bs arbitrary: c)
  case Nil
  then show ?case by (simp add: puts_def)
next
  case (Cons b bs)
  note p = put_props [OF Cons.prems, of b]
  have "puts (b # bs) c = puts bs (put b c)" by (simp add: puts_def)
  with Cons.IH [OF p(1)] p same_buffer_trans [OF p(2)] show ?case
    by (cases "room c") simp_all
qed


subsection \<open>What the server relies on\<close>

text \<open>
  The trouble code manager as the server uses it: \<open>hits m w\<close> are the records that match a mask;
  counting and reading agree on them and leave the world as it is. The identifiers: a read
  fills exactly the configured number of bytes.
\<close>

locale dtc_store =
  fixes dtc :: "'w DtcIf" and ok :: "'w \<Rightarrow> bool" and hits :: "u8 \<Rightarrow> 'w \<Rightarrow> u8 list"
  assumes count: "ok w \<Longrightarrow> dtc_CountByStatusMask dtc m w = (of_nat (length (hits m w) div 4), w)"
    and get: "ok w \<Longrightarrow> length (hits m w) \<le> 4 * unat mx \<Longrightarrow> 4 * unat mx \<le> length buf \<Longrightarrow>
      dtc_GetByStatusMask dtc m buf mx w =
        (of_nat (length (hits m w) div 4), hits m w @ drop (length (hits m w)) buf, w)"
    and hits_bound: "ok w \<Longrightarrow> length (hits m w) \<le> 64 \<and> 4 dvd length (hits m w)"
    and clear_ok: "ok w \<Longrightarrow> ok (dtc_ClearAll dtc w)"

locale uds_server = dtc_store dtc ok hits
  for dtc :: "'w DtcIf" and ok :: "'w \<Rightarrow> bool" and hits :: "u8 \<Rightarrow> 'w \<Rightarrow> u8 list" +
  fixes cfg :: "'w Uds_Config_t"
  assumes read_length: "d \<in> set (take (unat (didCount cfg)) (dids cfg)) \<Longrightarrow> ok w \<Longrightarrow>
      length (fst (did_read d w)) = unat (did_length d)"
    and read_pure: "d \<in> set (take (unat (didCount cfg)) (dids cfg)) \<Longrightarrow> ok w \<Longrightarrow> snd (did_read d w) = w"
    and time_pure: "uds_getTimeMs cfg = Some f \<Longrightarrow> snd (f w) = w"

subsection \<open>Abstract replies\<close>

datatype uds_reply = Positive bool "u8 list" | NegativeReply u8

definition spec_SessionControl :: "u8 list \<Rightarrow> uds_reply" where
  "spec_SessionControl rq =
     (if length rq \<noteq> 2 then NegativeReply 0x13
      else if rq ! 1 AND 0x7F \<notin> {0x01, 0x03} then NegativeReply 0x12
      else Positive (rq ! 1 AND 0x80 \<noteq> 0) [0x50, rq ! 1 AND 0x7F, 0x00, 0x32, 0x01, 0xF4])"

definition spec_EcuReset :: "u8 \<Rightarrow> u8 list \<Rightarrow> uds_reply" where
  "spec_EcuReset session rq =
     (if length rq \<noteq> 2 then NegativeReply 0x13
      else if rq ! 1 AND 0x7F \<notin> {0x01, 0x03} then NegativeReply 0x12
      else if session \<noteq> 0x03 then NegativeReply 0x7E
      else Positive (rq ! 1 AND 0x80 \<noteq> 0) [0x51, rq ! 1 AND 0x7F])"

definition spec_ClearDtc :: "u8 list \<Rightarrow> uds_reply" where
  "spec_ClearDtc rq =
     (if length rq \<noteq> 4 then NegativeReply 0x13
      else if tl rq \<noteq> [0xFF, 0xFF, 0xFF] then NegativeReply 0x31
      else Positive False [0x54])"

definition spec_ReadDtc :: "nat \<Rightarrow> (u8 \<Rightarrow> u8 list) \<Rightarrow> u8 list \<Rightarrow> uds_reply" where
  "spec_ReadDtc maxLen recs rq =
     (if length rq < 2 then NegativeReply 0x13
      else if rq ! 1 AND 0x7F \<notin> {0x01, 0x02} then NegativeReply 0x12
      else if length rq \<noteq> 3 then NegativeReply 0x13
      else if rq ! 1 AND 0x7F = 0x01
      then Positive False [0x59, 0x01, 0x7F, 0x01, 0x00, of_nat (length (recs (rq ! 2)) div 4)]
      else if 3 + length (recs (rq ! 2)) > maxLen then NegativeReply 0x14
      else Positive False ([0x59, 0x02, 0x7F] @ recs (rq ! 2)))"

definition requested_dids :: "u8 list \<Rightarrow> u16 list" where
  "requested_dids rq =
     map (\<lambda>i. u16_of_bytes (rq ! (1 + 2 * i)) (rq ! (2 + 2 * i))) [0..<(length rq - 1) div 2]"

definition did_bytes :: "(u16 \<Rightarrow> u8 list option) \<Rightarrow> u16 \<Rightarrow> u8 list" where
  "did_bytes val did = (case val did of None \<Rightarrow> [] | Some v \<Rightarrow> byte_hi did # byte_lo did # v)"

definition spec_ReadDid :: "nat \<Rightarrow> (u16 \<Rightarrow> u8 list option) \<Rightarrow> u8 list \<Rightarrow> uds_reply" where
  "spec_ReadDid maxLen val rq =
     (if length rq < 3 \<or> even (length rq) then NegativeReply 0x13
      else
        (let body = concat (map (did_bytes val) (requested_dids rq)) in
         if 1 + length body > maxLen then NegativeReply 0x14
         else if \<forall>did \<in> set (requested_dids rq). val did = None then NegativeReply 0x31
         else Positive False (0x62 # body)))"

definition spec_TesterPresent :: "u8 list \<Rightarrow> uds_reply" where
  "spec_TesterPresent rq =
     (if length rq \<noteq> 2 then NegativeReply 0x13
      else if rq ! 1 AND 0x7F \<noteq> 0 then NegativeReply 0x12
      else Positive (rq ! 1 AND 0x80 \<noteq> 0) [0x7E, 0x00])"

definition spec_reply ::
  "nat \<Rightarrow> (u8 \<Rightarrow> u8 list) \<Rightarrow> (u16 \<Rightarrow> u8 list option) \<Rightarrow> u8 \<Rightarrow> u8 list \<Rightarrow> uds_reply" where
  "spec_reply maxLen recs val session rq =
     (if hd rq = 0x10 then spec_SessionControl rq
      else if hd rq = 0x11 then spec_EcuReset session rq
      else if hd rq = 0x14 then spec_ClearDtc rq
      else if hd rq = 0x19 then spec_ReadDtc maxLen recs rq
      else if hd rq = 0x22 then spec_ReadDid maxLen val rq
      else if hd rq = 0x3E then spec_TesterPresent rq
      else NegativeReply 0x11)"

text \<open>The bytes sent for a reply, and the state changes that go with a positive one.\<close>

definition encode_reply :: "bool \<Rightarrow> u8 \<Rightarrow> uds_reply \<Rightarrow> u8 list" where
  "encode_reply functional sid r =
     (case r of
        Positive suppress bytes \<Rightarrow> if suppress then [] else bytes
      | NegativeReply nrc \<Rightarrow>
          if functional \<and> nrc \<in> {0x11, 0x12, 0x31, 0x7E, 0x7F} then [] else [0x7F, sid, nrc])"

definition positive :: "uds_reply \<Rightarrow> bool" where
  "positive r = (case r of Positive _ _ \<Rightarrow> True | NegativeReply _ \<Rightarrow> False)"

lemma positive_simps [simp]: "positive (Positive b bytes)" "\<not> positive (NegativeReply nrc)"
  by (simp_all add: positive_def)

definition reply_of :: "u8 \<Rightarrow> Ctx_t \<Rightarrow> uds_reply" where
  "reply_of nrc c = (if nrc = 0 then Positive (suppressPositive c) (out c) else NegativeReply nrc)"

text \<open>A fresh context: nothing written, room for the fixed-length answers.\<close>

definition fresh :: "u8 list \<Rightarrow> Ctx_t \<Rightarrow> bool" where
  "fresh rq c = (ctx_wf c \<and> req c = rq \<and> unat (reqLen c) = length rq \<and> respLen c = 0 \<and>
     8 \<le> respMax c \<and> \<not> suppressPositive c \<and> rq \<noteq> [])"

lemma fresh_facts:
  assumes "fresh rq c"
  shows "ctx_wf c" "req c = rq" "unat (reqLen c) = length rq" "out c = []" "8 \<le> room c"
    "room c = unat (respMax c)" "\<not> suppressPositive c"
  using assms by (auto simp: fresh_def out_def room_def word_le_nat_alt)

lemma reqLen_eq: "fresh rq c \<Longrightarrow> reqLen c = of_nat k \<longleftrightarrow> length rq = k" if "k < 65536"
  using that fresh_facts(3) [of rq c] by (auto simp: word_unat_eq_iff unat_of_nat)

lemma fresh_puts:
  assumes "fresh rq c" "length bs \<le> 8"
  shows "ctx_wf (puts bs c)" "same_buffer c (puts bs c)" "out (puts bs c) = bs"
    "suppressPositive (puts bs c) = suppressPositive c"
  using puts_props [OF fresh_facts(1) [OF assms(1)], of bs] fresh_facts [OF assms(1)] assms(2)
  by simp_all

lemma suppress_update:
  "ctx_wf (c\<lparr>suppressPositive := b\<rparr>) = ctx_wf c" "same_buffer c (c\<lparr>suppressPositive := b\<rparr>)"
  "out (c\<lparr>suppressPositive := b\<rparr>) = out c" "room (c\<lparr>suppressPositive := b\<rparr>) = room c"
  by (simp_all add: ctx_wf_def same_buffer_def out_def room_def)

lemma fresh_suppress_puts:
  assumes "fresh rq c" "length bs \<le> 8"
  shows "ctx_wf (puts bs (c\<lparr>suppressPositive := b\<rparr>))"
    "same_buffer c (puts bs (c\<lparr>suppressPositive := b\<rparr>))"
    "out (puts bs (c\<lparr>suppressPositive := b\<rparr>)) = bs"
    "suppressPositive (puts bs (c\<lparr>suppressPositive := b\<rparr>)) = b"
proof -
  have "ctx_wf (c\<lparr>suppressPositive := b\<rparr>)"
    using fresh_facts(1) [OF assms(1)] by (simp add: suppress_update)
  note p = puts_props [OF this, of bs]
  show "ctx_wf (puts bs (c\<lparr>suppressPositive := b\<rparr>))"
    "out (puts bs (c\<lparr>suppressPositive := b\<rparr>)) = bs"
    "suppressPositive (puts bs (c\<lparr>suppressPositive := b\<rparr>)) = b"
    using p fresh_facts [OF assms(1)] assms(2) by (simp_all add: suppress_update)
  show "same_buffer c (puts bs (c\<lparr>suppressPositive := b\<rparr>))"
    using p same_buffer_trans [OF suppress_update(2)] by blast
qed

subsection \<open>Each service answers as specified\<close>

text \<open>A service's outcome: buffer discipline, the reply, and no effect when it is negative.\<close>

definition answers :: "Ctx_t \<Rightarrow> u8 \<times> 'w uds \<Rightarrow> uds_reply \<Rightarrow> Uds_State \<Rightarrow> 'w \<Rightarrow> bool" where
  "answers c res r u w =
     (case res of (nrc, (c', u', w')) \<Rightarrow>
        ctx_wf c' \<and> same_buffer c c' \<and> reply_of nrc c' = r \<and> u' = u \<and> w' = w)"

lemma SessionControl_answers:
  assumes "fresh rq c"
  shows "answers c (SessionControl (c, u, w)) (spec_SessionControl rq)
    (if positive (spec_SessionControl rq) then u\<lparr>s_session := rq ! 1 AND 0x7F\<rparr> else u) w"
  using fresh_facts [OF assms] reqLen_eq [OF _ assms, of 2] fresh_suppress_puts [OF assms]
  by (simp add: answers_def SessionControl_def spec_SessionControl_def reply_of_def positive_def
      uds_consts Let_def)

lemma EcuReset_answers:
  assumes "fresh rq c"
  shows "answers c (EcuReset (c, u, w)) (spec_EcuReset (s_session u) rq)
    (if positive (spec_EcuReset (s_session u) rq) then u\<lparr>s_pendingReset := rq ! 1 AND 0x7F\<rparr> else u) w"
  using fresh_facts [OF assms] reqLen_eq [OF _ assms, of 2] fresh_suppress_puts [OF assms]
  by (simp add: answers_def EcuReset_def spec_EcuReset_def reply_of_def positive_def
      uds_consts Let_def)

lemma TesterPresent_answers:
  assumes "fresh rq c"
  shows "answers c (TesterPresent (c, u, w)) (spec_TesterPresent rq) u w"
  using fresh_facts [OF assms] reqLen_eq [OF _ assms, of 2] fresh_suppress_puts [OF assms]
  by (simp add: answers_def TesterPresent_def spec_TesterPresent_def reply_of_def uds_consts Let_def)

lemma group_all:
  "push_bit 16 (ucast (a :: u8)) OR push_bit 8 (ucast (b :: u8)) OR ucast c = (0xFFFFFF :: u32) \<longleftrightarrow>
   a = 0xFF \<and> b = 0xFF \<and> c = (0xFF :: u8)" (is "?w = _ \<longleftrightarrow> _")
proof
  assume w: "?w = 0xFFFFFF"
  have "a = ucast (drop_bit 16 ?w)"
    by (rule bit_word_eqI) (auto simp: bit_simps dest: bit_imp_le_length)
  moreover have "b = ucast (drop_bit 8 ?w)"
    by (rule bit_word_eqI) (auto simp: bit_simps dest: bit_imp_le_length)
  moreover have "c = ucast ?w"
    by (rule bit_word_eqI) (auto simp: bit_simps dest: bit_imp_le_length)
  ultimately show "a = 0xFF \<and> b = 0xFF \<and> c = 0xFF"
    unfolding w by simp
qed simp

lemma tl_eq_3: "length rq = 4 \<Longrightarrow> tl rq = [a, b, c] \<longleftrightarrow> rq ! 1 = a \<and> rq ! 2 = b \<and> rq ! 3 = c"
  by (auto simp: numeral_eq_Suc length_Suc_conv)

lemma ClearDtc_answers:
  assumes "fresh rq c"
  shows "answers c (ClearDtc dtc (c, u, w)) (spec_ClearDtc rq) u
    (if positive (spec_ClearDtc rq) then dtc_ClearAll dtc w else w)"
proof -
  have one: "put b c = puts [b] c" for b by (simp add: puts_def)
  show ?thesis
    using fresh_facts [OF assms] reqLen_eq [OF _ assms, of 4] fresh_puts [OF assms]
    by (auto simp: answers_def ClearDtc_def spec_ClearDtc_def reply_of_def positive_def
        uds_consts Let_def one group_all tl_eq_3)
qed

context dtc_store begin

lemma ReadDtc_answers:
  assumes "fresh rq c" "ok w"
  shows "answers c (ReadDtc dtc (c, u, w)) (spec_ReadDtc (unat (respMax c)) (\<lambda>m. hits m w) rq) u w"
proof -
  note f = fresh_facts [OF assms(1)]
  define m where "m = rq ! 2"
  define h where "h = hits m w"
  define n :: u8 where "n = of_nat (length h div 4)"
  have h: "length h \<le> 64" "4 dvd length h"
    using hits_bound [OF assms(2)] by (simp_all add: h_def)
  then have n: "unat n = length h div 4" by (simp add: n_def unat_of_nat)
  have cnt: "dtc_CountByStatusMask dtc m w = (n, w)"
    using count [OF assms(2)] by (simp add: n_def h_def)
  have len: "reqLen c < 2 \<longleftrightarrow> length rq < 2" using f by (simp add: word_less_nat_alt)
  have len3: "reqLen c = 3 \<longleftrightarrow> length rq = 3" using reqLen_eq [OF _ assms(1), of 3] by simp
  show ?thesis
  proof (cases "length rq = 3 \<and> rq ! 1 AND 0x7F \<in> {0x01, 0x02}")
    case False
    then show ?thesis
      using f len len3
      by (auto simp: answers_def ReadDtc_def spec_ReadDtc_def reply_of_def uds_consts Let_def)
  next
    case True
    show ?thesis
    proof (cases "rq ! 1 AND 0x7F = 0x01")
      case sub1: True
      define c1 where "c1 = puts [0x59, 0x01, 0x7F] c"
      have cnt16: "ucast (drop_bit 8 (ucast n :: u16)) = (0 :: u8)" "ucast ((ucast n :: u16) AND 0xFF) = n"
        by (rule bit_word_eqI, auto simp: bit_simps and_0xFF_mask dest: bit_imp_le_length)+
      have q: "puts [0x01, 0, n] c1 = puts [0x59, 0x01, 0x7F, 0x01, 0, n] c"
        by (simp add: c1_def puts_def)
      have "ReadDtc dtc (c, u, w) = (0, (puts [0x01, 0, n] c1, u, w))"
        using True f len len3 sub1 cnt cnt16
        by (simp add: ReadDtc_def uds_consts Let_def dtc_status_defs DTC_STATUS_AVAILABILITY_MASK_def
            c1_def flip: m_def)
      moreover have sp: "spec_ReadDtc (unat (respMax c)) (\<lambda>m. hits m w) rq
          = Positive False [0x59, 0x01, 0x7F, 0x01, 0, n]"
        using True sub1 by (simp add: spec_ReadDtc_def n_def h_def m_def)
      ultimately show ?thesis
        using fresh_puts [OF assms(1), of "[0x59, 0x01, 0x7F, 0x01, 0, n]"] f sp
        by (simp add: answers_def q reply_of_def)
    next
      case sub2: False
      then have sub: "rq ! 1 AND 0x7F = 0x02" using True by simp
      define c1 where "c1 = puts [0x59, 0x02, 0x7F] c"
      have p: "ctx_wf c1" "same_buffer c c1" "out c1 = [0x59, 0x02, 0x7F]" "room c1 = room c - 3"
        "\<not> suppressPositive c1"
        using puts_props [OF f(1), of "[0x59, 0x02, 0x7F]"] f by (simp_all add: c1_def)
      define rm where "rm = (respMax c1 - respLen c1) div 4"
      define mx :: u8 where "mx = (if rm > 0xFF then 0xFF else ucast rm)"
      have eq: "ReadDtc dtc (c, u, w) = (if n > mx then (0x14, (c1, u, w))
         else (let (n, out, w2) = dtc_GetByStatusMask dtc m (drop (unat (respLen c1)) (resp c1)) mx w
           in (0, (c1\<lparr>resp := take (unat (respLen c1)) (resp c1) @ out,
                      respLen := respLen c1 + ucast n * 4\<rparr>, u, w2))))"
        using True f len len3 sub cnt
        by (simp add: ReadDtc_def uds_consts dtc_status_defs DTC_STATUS_AVAILABILITY_MASK_def
            flip: m_def c1_def rm_def mx_def)
      have rl: "unat (respLen c1) = 3"
        using p(1,3) length_out [OF p(1)] by simp
      have rmx: "respMax c1 = respMax c" using p(2) by (simp add: same_buffer_def)
      have rm: "unat rm = (unat (respMax c) - 3) div 4"
        using f(5,6) rl rmx p(1) by (simp add: rm_def unat_div unat_sub ctx_wf_def)
      have mx: "unat mx = min 255 ((unat (respMax c) - 3) div 4)"
      proof (cases "rm > 0xFF")
        case True
        then have "255 < unat rm" by (simp add: word_less_nat_alt)
        then show ?thesis using True rm by (simp add: mx_def)
      next
        case False
        then have "unat rm \<le> 255" by (simp add: word_less_nat_alt not_less)
        then have "unat (ucast rm :: u8) = unat rm"
          by (simp add: unsigned_ucast_eq take_bit_nat_eq_self)
        then show ?thesis using False rm \<open>unat rm \<le> 255\<close> by (simp add: mx_def)
      qed
      have fits: "n > mx \<longleftrightarrow> 3 + length h > unat (respMax c)"
      proof -
        obtain j where j: "length h = 4 * j" using h(2) by (auto elim: dvdE)
        have "n > mx \<longleftrightarrow> min 255 ((unat (respMax c) - 3) div 4) < j"
          using n mx j by (simp add: word_less_nat_alt)
        also have "\<dots> \<longleftrightarrow> (unat (respMax c) - 3) div 4 < j"
          using h(1) j by auto
        also have "\<dots> \<longleftrightarrow> unat (respMax c) < 3 + length h"
          using f(5,6) j by (auto simp: div_less_iff_less_mult)
        finally show ?thesis .
      qed
      show ?thesis
      proof (cases "n > mx")
        case True
        have "ReadDtc dtc (c, u, w) = (0x14, (c1, u, w))"
          using True eq by simp
        moreover have "3 + length h > unat (respMax c)" using fits True by simp
        ultimately show ?thesis
          using \<open>length rq = 3 \<and> _\<close> sub p
          by (simp add: answers_def reply_of_def spec_ReadDtc_def h_def m_def)
      next
        case False
        have room: "3 + length h \<le> unat (respMax c)" using fits False by simp
        have small: "length h \<le> 4 * unat mx"
          using False n h(2) by (auto simp: word_less_nat_alt not_less elim!: dvdE)
        have space: "4 * unat mx \<le> length (drop 3 (resp c1))"
          using mx p(1) rmx by (auto simp: ctx_wf_def)
        define buf where "buf = drop 3 (resp c1)"
        have g: "dtc_GetByStatusMask dtc m buf mx w = (n, h @ drop (length h) buf, w)"
          using get [OF assms(2), of m mx buf] small space by (simp add: n_def h_def buf_def)
        define c2 where "c2 = c1\<lparr>resp := take 3 (resp c1) @ h @ drop (length h) buf,
          respLen := respLen c1 + ucast n * 4\<rparr>"
        have "ReadDtc dtc (c, u, w) = (0, (c2, u, w))"
          using False eq g rl by (simp add: c2_def flip: buf_def)
        moreover have l2: "unat (respLen c2) = 3 + length h"
        proof -
          have "unat (ucast n * 4 :: u16) = length h"
            using n h by (auto simp: unat_word_ariths unsigned_ucast_eq take_bit_nat_eq_self elim!: dvdE)
          then show ?thesis
            using rl h(1) by (simp add: c2_def unat_plus_no_wrap)
        qed
        moreover have "out c2 = [0x59, 0x02, 0x7F] @ h"
        proof -
          have "take 3 (resp c1) = [0x59, 0x02, 0x7F]"
            using p(3) rl by (simp add: out_def)
          then have t3: "take 3 (resp c1) @ h = [0x59, 0x02, 0x7F] @ h" by simp
          then have len: "3 + length h = length (take 3 (resp c1) @ h)" by simp
          have "out c2 = take (3 + length h) ((take 3 (resp c1) @ h) @ drop (length h) buf)"
            using l2 by (simp only: out_def) (simp add: c2_def)
          also have "\<dots> = take 3 (resp c1) @ h"
            unfolding len by (rule append_eq_conv_conj [THEN iffD1, THEN conjunct1, symmetric]) simp
          finally show ?thesis by (simp only: t3)
        qed
        moreover have "ctx_wf c2 \<and> same_buffer c c2"
          using p(1,2) rmx room l2
          by (auto simp: ctx_wf_def same_buffer_def c2_def buf_def word_le_nat_alt min_def)
            (cases h; simp)
        moreover have "\<not> suppressPositive c2" using p(5) by (simp add: c2_def)
        ultimately show ?thesis
          using \<open>length rq = 3 \<and> _\<close> sub room
          by (simp add: answers_def reply_of_def spec_ReadDtc_def h_def m_def)
      qed
    qed
  qed
qed

end


subsection \<open>Reading identifiers\<close>

context uds_server begin

definition did_val :: "'w \<Rightarrow> u16 \<Rightarrow> u8 list option" where
  "did_val w did = map_option (\<lambda>d. fst (did_read d w)) (FindDid cfg did)"

lemma FindDid_Some:
  assumes "FindDid cfg did = Some d"
  shows "d \<in> set (take (unat (didCount cfg)) (dids cfg))"
  using assms by (auto simp: FindDid_def find_Some_iff in_set_conv_nth)

lemma read_dids_spec:
  assumes "ctx_wf c" "ok w"
    and "body = concat (map (\<lambda>i. did_bytes (did_val w) (u16_of_bytes (req c ! (1 + 2 * i)) (req c ! (2 + 2 * i)))) is)"
    and "found \<longleftrightarrow> anyFound \<or> (\<exists>i \<in> set is. did_val w (u16_of_bytes (req c ! (1 + 2 * i)) (req c ! (2 + 2 * i))) \<noteq> None)"
  shows "\<exists>nrc c'. read_dids cfg is anyFound c w = (nrc, c', w) \<and> ctx_wf c' \<and> same_buffer c c' \<and>
    suppressPositive c' = suppressPositive c \<and>
    (if length body > room c then nrc = 0x14
     else out c' = out c @ body \<and> nrc = (if found then 0 else 0x31))"
  using assms
proof (induction "is" arbitrary: anyFound c body found)
  case Nil
  then show ?case by (auto simp: uds_consts)
next
  case (Cons i rest)
  define did where "did = u16_of_bytes (req c ! (1 + 2 * i)) (req c ! (2 + 2 * i))"
  define body' where "body' = concat (map (\<lambda>i. did_bytes (did_val w) (u16_of_bytes (req c ! (1 + 2 * i)) (req c ! (2 + 2 * i)))) rest)"
  have body: "body = did_bytes (did_val w) did @ body'"
    using Cons.prems(3) by (simp add: body'_def did_def)
  have code: "push_bit 8 (ucast (req c ! (1 + 2 * i))) OR ucast (req c ! (2 + 2 * i)) = did"
    by (simp add: did_def u16_of_bytes_def)
  show ?case
  proof (cases "FindDid cfg did")
    case None
    then have v: "did_val w did = None" by (simp add: did_val_def)
    have "read_dids cfg (i # rest) anyFound c w = read_dids cfg rest anyFound c w"
      by (simp only: read_dids.simps code Let_def None option.case)
    moreover have "body = body'" by (simp add: body did_bytes_def v)
    moreover have f: "found \<longleftrightarrow> anyFound \<or> (\<exists>i \<in> set rest. did_val w (u16_of_bytes (req c ! (1 + 2 * i)) (req c ! (2 + 2 * i))) \<noteq> None)"
      using Cons.prems(4) v by (auto simp: did_def)
    ultimately show ?thesis
      using Cons.IH [OF Cons.prems(1,2) body'_def f] by (simp only:)
  next
    case (Some d)
    note mem = FindDid_Some [OF Some]
    define bytes where "bytes = fst (did_read d w)"
    have rd: "did_read d w = (bytes, w)" "length bytes = unat (did_length d)"
      using read_length [OF mem Cons.prems(2)] read_pure [OF mem Cons.prems(2)]
      by (simp_all add: bytes_def prod_eq_iff)
    have v: "did_val w did = Some bytes" by (simp add: did_val_def Some bytes_def)
    have db: "did_bytes (did_val w) did = [byte_hi did, byte_lo did] @ bytes"
      by (simp add: did_bytes_def v)
    have wf: "unat (respLen c) \<le> unat (respMax c)" "unat (respMax c) \<le> length (resp c)"
      using Cons.prems(1) by (simp_all add: ctx_wf_def word_le_nat_alt)
    have dl: "unat (did_length d) < 256" using unsigned_less [of "did_length d"] by simp
    have rl: "unat (respLen c) < 65536" using unsigned_less [of "respLen c"] by simp
    have rmx: "unat (respMax c) < 65536" using unsigned_less [of "respMax c"] by simp
    have test: "(ucast (respLen c) + 2 + ucast (did_length d) :: u32) > ucast (respMax c) \<longleftrightarrow>
        2 + length bytes > room c"
    proof -
      have "unat (ucast (respLen c) + 2 + ucast (did_length d) :: u32) = unat (respLen c) + 2 + unat (did_length d)"
        using dl rl by (simp add: unat_word_ariths unsigned_ucast_eq take_bit_nat_eq_self)
      then show ?thesis
        using wf rmx
        by (auto simp: word_less_nat_alt unsigned_ucast_eq take_bit_nat_eq_self rd room_def)
    qed
    show ?thesis
    proof (cases "2 + length bytes > room c")
      case True
      have "read_dids cfg (i # rest) anyFound c w = (0x14, c, w)"
        using True test by (simp only: read_dids.simps code Let_def Some option.case if_True)
          (simp add: uds_consts)
      with True Cons.prems(1) show ?thesis by (simp add: body db)
    next
      case False
      define c1 where "c1 = puts [byte_hi did, byte_lo did] c"
      define c2 where "c2 = c1\<lparr>resp := write_at (resp c1) (unat (respLen c1)) bytes,
                         respLen := respLen c1 + ucast (did_length d)\<rparr>"
      have p: "ctx_wf c1" "same_buffer c c1" "out c1 = out c @ [byte_hi did, byte_lo did]"
        "suppressPositive c1 = suppressPositive c" "room c1 = room c - 2"
        using puts_props [OF Cons.prems(1), of "[byte_hi did, byte_lo did]"] False by (simp_all add: c1_def)
      have len1: "unat (respLen c1) = unat (respLen c) + 2"
        using p(1,3) length_out [OF p(1)] length_out [OF Cons.prems(1)] by simp
      have len2: "unat (respLen c2) = unat (respLen c1) + length bytes"
      proof -
        have "unat (respLen c1) + length bytes < 65536"
          using False len1 rmx by (simp add: room_def)
        then show ?thesis
          by (simp add: c2_def unat_word_ariths unsigned_ucast_eq take_bit_nat_eq_self rd)
      qed
      have max1: "respMax c1 = respMax c" "length (resp c1) = length (resp c)"
        using p(2) by (simp_all add: same_buffer_def)
      have fits: "unat (respLen c1) + length bytes \<le> unat (respMax c)"
        using False len1 by (simp add: room_def)
      have wf2: "ctx_wf c2"
        using fits len2 max1 wf by (simp add: ctx_wf_def c2_def word_le_nat_alt)
      have "same_buffer c1 c2"
        using fits max1 wf by (simp add: same_buffer_def c2_def) (simp add: write_at_def)
      then have sb: "same_buffer c c2" by (rule same_buffer_trans [OF p(2)])
      have out2: "out c2 = out c @ [byte_hi did, byte_lo did] @ bytes"
      proof -
        have "take (unat (respLen c2)) (resp c2) = take (unat (respLen c1)) (resp c1) @ bytes"
          using len2 fits wf max1 by (simp add: c2_def take_write_at)
        then show ?thesis using p(3) by (simp add: out_def)
      qed
      have room2: "room c2 = room c - (2 + length bytes)"
        using len1 len2 sb by (simp add: room_def same_buffer_def)
      have req2: "req c2 = req c" using sb by (simp add: same_buffer_def)
      have step: "read_dids cfg (i # rest) anyFound c w = read_dids cfg rest True c2 w"
        using False test
        by (simp only: read_dids.simps code Let_def Some option.case if_False rd(1) prod.case
            flip: byte_hi_def byte_lo_def c1_def c2_def)
      have fnd: found using Cons.prems(4) v by (auto simp: did_def)
      obtain nrc c' where r: "read_dids cfg rest True c2 w = (nrc, c', w)" "ctx_wf c'" "same_buffer c2 c'"
        "suppressPositive c' = suppressPositive c2"
        "if length body' > room c2 then nrc = 0x14 else out c' = out c2 @ body' \<and> nrc = (if True then 0 else 0x31)"
        using Cons.IH [OF wf2 Cons.prems(2), of body' True True] by (auto simp: body'_def req2)
      have "length body > room c \<longleftrightarrow> length body' > room c2"
        using room2 False by (auto simp: body db)
      then show ?thesis
        using step r same_buffer_trans [OF sb r(3)] p(4) out2 fnd
        by (auto simp: body db c2_def split: if_splits)
    qed
  qed
qed

lemma ReadDid_answers:
  assumes "fresh rq c" "ok w"
  shows "answers c (ReadDid cfg (c, u, w)) (spec_ReadDid (unat (respMax c)) (did_val w) rq) u w"
proof -
  note f = fresh_facts [OF assms(1)]
  have pos: "1 \<le> reqLen c"
    using assms(1) by (simp add: fresh_def word_le_nat_alt Suc_le_eq)
  then have minus: "unat (reqLen c - 1) = length rq - 1"
    using f(3) by (simp add: unat_minus_le)
  have nd: "unat ((reqLen c - 1) div 2) = (length rq - 1) div 2"
    using minus by (simp add: unat_div)
  have bad: "reqLen c < 3 \<or> (reqLen c - 1) mod 2 \<noteq> 0 \<longleftrightarrow> length rq < 3 \<or> even (length rq)"
  proof -
    have "(reqLen c - 1) mod 2 \<noteq> 0 \<longleftrightarrow> (length rq - 1) mod 2 \<noteq> 0"
      using minus by (simp add: word_unat_eq_iff unat_mod)
    moreover have "(length rq - 1) mod 2 \<noteq> 0 \<longleftrightarrow> even (length rq)"
      using assms(1) by (cases rq) (simp_all add: fresh_def odd_iff_mod_2_eq_one)
    ultimately show ?thesis using f(3) by (simp add: word_less_nat_alt)
  qed
  show ?thesis
  proof (cases "length rq < 3 \<or> even (length rq)")
    case True
    then show ?thesis
      using f bad by (auto simp: answers_def ReadDid_def spec_ReadDid_def reply_of_def uds_consts)
  next
    case False
    define c1 where "c1 = put 0x62 c"
    define body where "body = concat (map (did_bytes (did_val w)) (requested_dids rq))"
    define found where "found = (\<exists>did \<in> set (requested_dids rq). did_val w did \<noteq> None)"
    have p: "ctx_wf c1" "same_buffer c c1" "out c1 = [0x62]" "room c1 = room c - 1" "\<not> suppressPositive c1"
      using put_props [OF f(1), of "0x62"] f by (auto simp: c1_def take_Cons')
    have rq1: "req c1 = rq" using p(2) f(2) by (simp add: same_buffer_def)
    have b: "body = concat (map (\<lambda>i. did_bytes (did_val w)
        (u16_of_bytes (req c1 ! (1 + 2 * i)) (req c1 ! (2 + 2 * i)))) [0..<(length rq - 1) div 2])"
      by (simp add: body_def requested_dids_def rq1 comp_def)
    have fd: "found \<longleftrightarrow> False \<or> (\<exists>i \<in> set [0..<(length rq - 1) div 2].
        did_val w (u16_of_bytes (req c1 ! (1 + 2 * i)) (req c1 ! (2 + 2 * i))) \<noteq> None)"
      by (auto simp: found_def requested_dids_def rq1)
    obtain nrc c' where r: "read_dids cfg [0..<(length rq - 1) div 2] False c1 w = (nrc, c', w)"
      "ctx_wf c'" "same_buffer c1 c'" "suppressPositive c' = suppressPositive c1"
      "if length body > room c1 then nrc = 0x14 else out c' = out c1 @ body \<and> nrc = (if found then 0 else 0x31)"
      using read_dids_spec [OF p(1) assms(2) b fd] by blast
    have "ReadDid cfg (c, u, w) = (nrc, (c', u, w))"
      using False bad r(1) nd unfolding ReadDid_def prod.case
      by (simp add: uds_consts c1_def)
    moreover have "length body > room c1 \<longleftrightarrow> 1 + length body > unat (respMax c)"
      using p(4) f(5,6) by auto
    moreover have "spec_ReadDid (unat (respMax c)) (did_val w) rq
        = (if 1 + length body > unat (respMax c) then NegativeReply 0x14
           else if \<not> found then NegativeReply 0x31 else Positive False (0x62 # body))"
      using False by (auto simp: spec_ReadDid_def body_def found_def Let_def)
    ultimately show ?thesis
      using r(2,4,5) same_buffer_trans [OF p(2) r(3)] p(3,5)
      by (auto simp: answers_def reply_of_def split: if_splits)
  qed
qed

text \<open>The dispatcher, and the whole request.\<close>

lemma dispatch_answers:
  fixes u :: Uds_State
  assumes "fresh rq c" "ok w"
  defines "r \<equiv> spec_reply (unat (respMax c)) (\<lambda>m. hits m w) (did_val w) (s_session u) rq"
  shows "answers c (dispatch dtc cfg (c, u, w)) r
    (if \<not> positive r then u else if hd rq = 0x10 then u\<lparr>s_session := rq ! 1 AND 0x7F\<rparr>
     else if hd rq = 0x11 then u\<lparr>s_pendingReset := rq ! 1 AND 0x7F\<rparr> else u)
    (if positive r \<and> hd rq = 0x14 then dtc_ClearAll dtc w else w)"
proof -
  have hd: "req c ! 0 = hd rq"
    using assms(1) by (simp add: fresh_def hd_conv_nth)
  have none: "answers c (0x11, (c, u, w)) (NegativeReply 0x11) u w"
    using fresh_facts(1) [OF assms(1)] by (simp add: answers_def reply_of_def)
  show ?thesis
    using SessionControl_answers [OF assms(1), of u w] EcuReset_answers [OF assms(1), of u w]
      ClearDtc_answers [OF assms(1), of dtc u w] ReadDtc_answers [OF assms(1,2), of u]
      ReadDid_answers [OF assms(1,2), of u] TesterPresent_answers [OF assms(1), of u w] none
    by (auto simp: dispatch_def hd r_def spec_reply_def uds_consts split: if_splits)
qed

lemma uds_now_pure: "snd (uds_now cfg w) = w"
  by (auto simp: uds_now_def time_pure split: option.split)

lemma process_refines:
  fixes u :: Uds_State
  assumes "ok w" "rq \<noteq> []" "unat len = length rq" "8 \<le> maxLen" "unat maxLen \<le> length buf"
  defines "r \<equiv> spec_reply (unat maxLen) (\<lambda>m. hits m w) (did_val w) (s_session u) rq"
  shows "\<exists>n buf'. Uds_ProcessRequest dtc cfg (Some rq) len functional (Some buf) maxLen u w =
      (n, Some buf',
       (if \<not> positive r then u else if hd rq = 0x10 then u\<lparr>s_session := rq ! 1 AND 0x7F\<rparr>
        else if hd rq = 0x11 then u\<lparr>s_pendingReset := rq ! 1 AND 0x7F\<rparr> else u)
          \<lparr>s_lastRequestMs := fst (uds_now cfg w)\<rparr>,
       if positive r \<and> hd rq = 0x14 then dtc_ClearAll dtc w else w) \<and>
    take (unat n) buf' = encode_reply functional (hd rq) r \<and> n \<le> maxLen \<and>
    length buf' = length buf \<and> drop (unat maxLen) buf' = drop (unat maxLen) buf"
proof -
  define c where "c = \<lparr>req = rq, reqLen = len, resp = buf, respMax = maxLen, respLen = 0, suppressPositive = False\<rparr>"
  obtain t where now: "uds_now cfg w = (t, w)"
    using uds_now_pure [of w] by (cases "uds_now cfg w") simp
  define u1 where "u1 = u\<lparr>s_lastRequestMs := t\<rparr>"
  have fr: "fresh rq c" using assms by (simp add: fresh_def c_def ctx_wf_def word_le_nat_alt)
  obtain nrc c2 u2 w2 where d: "dispatch dtc cfg (c, u1, w) = (nrc, (c2, u2, w2))"
    by (metis prod_cases4)
  have a: "ctx_wf c2" "same_buffer c c2" "reply_of nrc c2 = r"
    "u2 = (if \<not> positive r then u1 else if hd rq = 0x10 then u1\<lparr>s_session := rq ! 1 AND 0x7F\<rparr>
       else if hd rq = 0x11 then u1\<lparr>s_pendingReset := rq ! 1 AND 0x7F\<rparr> else u1)"
    "w2 = (if positive r \<and> hd rq = 0x14 then dtc_ClearAll dtc w else w)"
    using dispatch_answers [OF fr assms(1), of u1] unfolding d answers_def
    by (simp_all add: r_def u1_def c_def)
  have u2: "u2 = (if \<not> positive r then u else if hd rq = 0x10 then u\<lparr>s_session := rq ! 1 AND 0x7F\<rparr>
        else if hd rq = 0x11 then u\<lparr>s_pendingReset := rq ! 1 AND 0x7F\<rparr> else u)\<lparr>s_lastRequestMs := t\<rparr>"
    by (simp add: a(4) u1_def)
  have sb: "req c2 = rq" "respMax c2 = maxLen" "length (resp c2) = length buf"
    "drop (unat maxLen) (resp c2) = drop (unat maxLen) buf"
    using a(2) by (simp_all add: same_buffer_def c_def)
  have lenpos: "len \<noteq> 0" using assms(2,3) by auto
  have step: "Uds_ProcessRequest dtc cfg (Some rq) len functional (Some buf) maxLen u w =
      (if nrc \<noteq> 0 then
         (if functional \<and> IsSuppressedForFunctional nrc then (0, Some (resp c2), u2, w2)
          else (3, Some ((resp c2)[0 := 0x7F, 1 := hd rq, 2 := nrc]), u2, w2))
       else (if suppressPositive c2 then 0 else respLen c2, Some (resp c2), u2, w2))"
    using lenpos now d sb assms(2,4)
    by (simp add: Uds_ProcessRequest_def Negative_def Let_def u1_def c_def hd_conv_nth uds_consts
        word_less_nat_alt word_le_nat_alt)
  have big: "8 \<le> length (resp c2)" "8 \<le> unat maxLen"
    using assms(4,5) sb(3) by (simp_all add: word_le_nat_alt)
  show ?thesis
  proof (cases "nrc = 0")
    case True
    then have "r = Positive (suppressPositive c2) (out c2)" using a(3) by (simp add: reply_of_def)
    then show ?thesis
      using True step u2 a(1,5) sb now
      by (auto simp: encode_reply_def out_def ctx_wf_def)
  next
    case False
    then have r': "r = NegativeReply nrc" using a(3) by (simp add: reply_of_def)
    have supp: "IsSuppressedForFunctional nrc \<longleftrightarrow> nrc \<in> {0x11, 0x12, 0x31, 0x7E, 0x7F}"
      by (auto simp: IsSuppressedForFunctional_def uds_consts)
    have neg: "take 3 ((resp c2)[0 := 0x7F, 1 := hd rq, 2 := nrc]) = [0x7F, hd rq, nrc]"
      using big(1) by (cases "resp c2" rule: remdups_adj.cases)
        (auto simp: numeral_eq_Suc Suc_le_length_iff)
    have tail: "drop (unat maxLen) ((resp c2)[0 := 0x7F, 1 := hd rq, 2 := nrc]) = drop (unat maxLen) buf"
      using big sb(4) by simp
    show ?thesis
      using False step u2 a(5) sb now r' supp neg tail big
      by (auto simp: encode_reply_def word_le_nat_alt)
  qed
qed

end

subsection \<open>Only the first bytes of the request are read\<close>

text \<open>
  The caller passes its whole receive buffer and a length; the server behaves as on the bytes
  before that length, whatever array they are read from.
\<close>

definition on_req :: "u8 list \<Rightarrow> u8 \<times> 'w uds \<Rightarrow> u8 \<times> 'w uds" where
  "on_req x res = (case res of (nrc, (c, u, w)) \<Rightarrow> (nrc, (c\<lparr>req := x\<rparr>, u, w)))"

lemma on_req_pair [simp]: "on_req x (nrc, (c, u, w)) = (nrc, (c\<lparr>req := x\<rparr>, u, w))"
  by (simp add: on_req_def)

lemma on_req_if: "on_req x (if b then p else q) = (if b then on_req x p else on_req x q)"
  by simp

lemma put_req: "put b (c\<lparr>req := x\<rparr>) = (put b c)\<lparr>req := x\<rparr>"
  by (simp add: put_def Put_def)

lemma puts_req: "puts bs (c\<lparr>req := x\<rparr>) = (puts bs c)\<lparr>req := x\<rparr>"
  by (induction bs arbitrary: c) (simp_all add: puts_def put_req)

lemma req_swap:
  "c\<lparr>req := x, suppressPositive := b\<rparr> = c\<lparr>suppressPositive := b, req := x\<rparr>"
  "c\<lparr>req := x, resp := r\<rparr> = c\<lparr>resp := r, req := x\<rparr>"
  "c\<lparr>req := x, respLen := n\<rparr> = c\<lparr>respLen := n, req := x\<rparr>"
  by simp_all

lemma put_fields [simp]:
  "req (put b c) = req c" "reqLen (put b c) = reqLen c" "respMax (put b c) = respMax c"
  by (simp_all add: put_def Put_def)

lemma puts_fields [simp]:
  "req (puts bs c) = req c" "reqLen (puts bs c) = reqLen c" "respMax (puts bs c) = respMax c"
  by (induction bs arbitrary: c) (simp_all add: puts_def)

lemmas req_commute = put_req puts_req req_swap on_req_if

lemma req_update: "req (c\<lparr>req := x\<rparr>) = x"
  by simp

definition prefix_of :: "Ctx_t \<Rightarrow> u8 list" where
  "prefix_of c = map ((!) (req c)) [0..<unat (reqLen c)]"

lemma nth_prefix_of [simp]: "k < unat (reqLen c) \<Longrightarrow> prefix_of c ! k = req c ! k"
  by (simp add: prefix_of_def)

lemma SessionControl_prefix:
  "SessionControl (c\<lparr>req := prefix_of c\<rparr>, u, w) = on_req (prefix_of c) (SessionControl (c, u, w))"
  by (cases "reqLen c = 2") (simp_all add: SessionControl_def Let_def req_commute)

lemma EcuReset_prefix:
  "EcuReset (c\<lparr>req := prefix_of c\<rparr>, u, w) = on_req (prefix_of c) (EcuReset (c, u, w))"
  by (cases "reqLen c = 2") (simp_all add: EcuReset_def Let_def req_commute)

lemma ClearDtc_prefix:
  "ClearDtc dtc (c\<lparr>req := prefix_of c\<rparr>, u, w) = on_req (prefix_of c) (ClearDtc dtc (c, u, w))"
  by (cases "reqLen c = 4") (simp_all add: ClearDtc_def Let_def req_commute)

lemma TesterPresent_prefix:
  "TesterPresent (c\<lparr>req := prefix_of c\<rparr>, u, w) = on_req (prefix_of c) (TesterPresent (c, u, w))"
  by (cases "reqLen c = 2") (simp_all add: TesterPresent_def Let_def req_commute)

lemma ReadDtc_prefix:
  "ReadDtc dtc (c\<lparr>req := prefix_of c\<rparr>, u, w) = on_req (prefix_of c) (ReadDtc dtc (c, u, w))"
proof (cases "reqLen c < 2")
  case True
  then show ?thesis by (simp add: ReadDtc_def)
next
  case False
  then have "1 < unat (reqLen c)" by (simp add: word_less_nat_alt)
  moreover have "reqLen c = 3 \<Longrightarrow> prefix_of c ! 2 = req c ! 2" by simp
  ultimately show ?thesis
    using False
    by (auto simp add: ReadDtc_def Let_def req_commute split: prod.splits)
qed

lemma read_dids_Some:
  assumes "push_bit 8 (ucast (req c ! (1 + 2 * i))) OR ucast (req c ! (2 + 2 * i)) = did"
    and "FindDid cfg did = Some d"
  shows "read_dids cfg (i # rest) found c w =
    (if (ucast (respLen c) + 2 + ucast (did_length d) :: u32) > ucast (respMax c)
     then (UDS_NRC_RESPONSE_TOO_LONG, c, w)
     else
       (let c1 = puts [ucast (drop_bit 8 did), ucast (did AND 0xFF)] c in
        read_dids cfg rest True
          (c1\<lparr>resp := write_at (resp c1) (unat (respLen c1)) (fst (did_read d w)),
              respLen := respLen c1 + ucast (did_length d)\<rparr>) (snd (did_read d w))))"
  by (simp only: read_dids.simps Let_def assms option.case case_prod_unfold)

lemma read_dids_None:
  assumes "push_bit 8 (ucast (req c ! (1 + 2 * i))) OR ucast (req c ! (2 + 2 * i)) = did"
    and "FindDid cfg did = None"
  shows "read_dids cfg (i # rest) found c w = read_dids cfg rest found c w"
  by (simp only: read_dids.simps Let_def assms option.case)

lemma read_dids_prefix:
  assumes "\<forall>i \<in> set is. 2 + 2 * i < unat (reqLen c)" "prefix_of c = x"
  shows "read_dids cfg is found (c\<lparr>req := x\<rparr>) w =
    (case read_dids cfg is found c w of (nrc, c2, w2) \<Rightarrow> (nrc, c2\<lparr>req := x\<rparr>, w2))"
  using assms
proof (induction "is" arbitrary: c w found)
  case Nil
  then show ?case by simp
next
  case (Cons i rest)
  define did where "did = push_bit 8 (ucast (req c ! (1 + 2 * i))) OR (ucast (req c ! (2 + 2 * i)) :: u16)"
  have did: "push_bit 8 (ucast (req c ! (1 + 2 * i))) OR ucast (req c ! (2 + 2 * i)) = did"
    by (simp only: did_def)
  have "x ! (1 + 2 * i) = req c ! (1 + 2 * i)" "x ! (2 + 2 * i) = req c ! (2 + 2 * i)"
    using Cons.prems by (auto simp flip: Cons.prems(2))
  then have did': "push_bit 8 (ucast (req (c\<lparr>req := x\<rparr>) ! (1 + 2 * i))) OR
      ucast (req (c\<lparr>req := x\<rparr>) ! (2 + 2 * i)) = did"
    by (simp only: did_def req_update)
  show ?case
  proof (cases "FindDid cfg did")
    case None
    then show ?thesis
      using Cons.IH [of c found w] Cons.prems
      by (simp only: read_dids_None [OF did] read_dids_None [OF did']) simp
  next
    case (Some d)
    define c1 where "c1 = puts [ucast (drop_bit 8 did), ucast (did AND 0xFF)] c"
    define c2 where "c2 = c1\<lparr>resp := write_at (resp c1) (unat (respLen c1)) (fst (did_read d w)),
        respLen := respLen c1 + ucast (did_length d)\<rparr>"
    have c2: "reqLen c2 = reqLen c" "req c2 = req c" by (simp_all add: c2_def c1_def)
    then have "prefix_of c2 = x" using Cons.prems(2) by (simp add: prefix_of_def)
    then have IH: "read_dids cfg rest True (c2\<lparr>req := x\<rparr>) w1 =
        (case read_dids cfg rest True c2 w1 of (nrc, c3, w3) \<Rightarrow> (nrc, c3\<lparr>req := x\<rparr>, w3))" for w1
      using Cons.prems c2 by (intro Cons.IH) auto
    show ?thesis
      unfolding read_dids_Some [OF did Some] read_dids_Some [OF did' Some]
      using IH [of "snd (did_read d w)"]
      by (simp add: Let_def req_commute c2_def flip: c1_def)
  qed
qed

lemma ReadDid_prefix:
  "ReadDid cfg (c\<lparr>req := prefix_of c\<rparr>, u, w) = on_req (prefix_of c) (ReadDid cfg (c, u, w))"
proof (cases "reqLen c < 3 \<or> (reqLen c - 1) mod 2 \<noteq> 0")
  case True
  then show ?thesis by (auto simp: ReadDid_def)
next
  case False
  define c1 where "c1 = put (UDS_SID_READ_DID + UDS_POSITIVE_OFFSET) c"
  have p: "prefix_of c1 = prefix_of c" "reqLen c1 = reqLen c" by (simp_all add: prefix_of_def c1_def)
  have "2 + 2 * i < unat (reqLen c)" if "i < unat ((reqLen c - 1) div 2)" for i
  proof -
    have "1 \<le> reqLen c" using False by (simp add: word_le_nat_alt word_less_nat_alt)
    then have "unat ((reqLen c - 1) div 2) = (unat (reqLen c) - 1) div 2"
      by (simp add: unat_div unat_sub)
    then show ?thesis using that by simp
  qed
  then have "\<forall>i \<in> set [0..<unat ((reqLen c - 1) div 2)]. 2 + 2 * i < unat (reqLen c1)"
    by (simp add: p)
  from read_dids_prefix [OF this p(1), of cfg False w]
  show ?thesis
    using False by (simp add: ReadDid_def Let_def req_commute case_prod_unfold on_req_def flip: c1_def)
qed

lemma dispatch_prefix:
  assumes "reqLen c \<noteq> 0"
  shows "dispatch dtc cfg (c\<lparr>req := prefix_of c\<rparr>, u, w) = on_req (prefix_of c) (dispatch dtc cfg (c, u, w))"
proof -
  have "prefix_of c ! 0 = req c ! 0" using assms by (simp add: unat_gt_0)
  then show ?thesis
    by (simp add: dispatch_def Let_def on_req_if SessionControl_prefix EcuReset_prefix ClearDtc_prefix
        ReadDtc_prefix ReadDid_prefix TesterPresent_prefix)
qed

lemma read_dids_req: "read_dids cfg is found c w = (nrc, c2, w2) \<Longrightarrow> req c2 = req c"
proof (induction "is" arbitrary: c w found)
  case (Cons i rest)
  then show ?case
    by (auto simp: Let_def split: option.splits if_splits prod.splits dest!: Cons.IH)
qed simp

lemma dispatch_req: "dispatch dtc cfg (c, u, w) = (nrc, (c2, u2, w2)) \<Longrightarrow> req c2 = req c"
  by (auto simp: dispatch_def SessionControl_def EcuReset_def ClearDtc_def ReadDtc_def ReadDid_def
      TesterPresent_def Let_def split: if_splits prod.splits dest!: read_dids_req)

lemma ProcessRequest_prefix:
  "Uds_ProcessRequest dtc cfg (Some data) len functional buf maxLen u w =
   Uds_ProcessRequest dtc cfg (Some (map ((!) data) [0..<unat len])) len functional buf maxLen u w"
proof (cases "len = 0 \<or> buf = None")
  case True
  then show ?thesis by (auto simp: Uds_ProcessRequest_def split: option.splits)
next
  case False
  then obtain b where b: "buf = Some b" by auto
  obtain t w1 where now: "uds_now cfg w = (t, w1)" by fastforce
  define c where "c = \<lparr>req = data, reqLen = len, resp = b, respMax = maxLen, respLen = 0, suppressPositive = False\<rparr>"
  have c': "c\<lparr>req := prefix_of c\<rparr> = \<lparr>req = map ((!) data) [0..<unat len], reqLen = len, resp = b, respMax = maxLen,
      respLen = 0, suppressPositive = False\<rparr>"
    by (simp add: c_def prefix_of_def)
  obtain nrc c2 u2 w2 where d: "dispatch dtc cfg (c, u\<lparr>s_lastRequestMs := t\<rparr>, w1) = (nrc, (c2, u2, w2))"
    by (metis prod_cases4)
  have d': "dispatch dtc cfg (c\<lparr>req := prefix_of c\<rparr>, u\<lparr>s_lastRequestMs := t\<rparr>, w1) =
      (nrc, (c2\<lparr>req := prefix_of c\<rparr>, u2, w2))"
    using dispatch_prefix [of c dtc cfg "u\<lparr>s_lastRequestMs := t\<rparr>" w1] False d by (simp add: c_def)
  have "req c2 = data" using dispatch_req [OF d] by (simp add: c_def)
  moreover have "map ((!) data) [0..<unat len] ! 0 = data ! 0" using False by (simp add: unat_gt_0)
  ultimately have hd: "map ((!) data) [0..<unat len] ! 0 = req c2 ! 0" by simp
  have result: "Uds_ProcessRequest dtc cfg (Some (req c')) len functional buf maxLen u w =
      (let (nrc, (c3, u3, w3)) = dispatch dtc cfg (c', u\<lparr>s_lastRequestMs := t\<rparr>, w1)
       in if nrc \<noteq> 0 then
            (if functional \<and> IsSuppressedForFunctional nrc then (0, Some (resp c3), u3, w3)
             else (let (n, c4) = Negative c3 nrc in (n, Some (resp c4), u3, w3)))
          else (if suppressPositive c3 then 0 else respLen c3, Some (resp c3), u3, w3))"
    if "c' = c\<lparr>req := x\<rparr>" for c' x
    using False now that by (simp add: Uds_ProcessRequest_def b c_def Let_def)
  have "Uds_ProcessRequest dtc cfg (Some data) len functional buf maxLen u w =
      (if nrc \<noteq> 0 then
         (if functional \<and> IsSuppressedForFunctional nrc then (0, Some (resp c2), u2, w2)
          else (let (n, c4) = Negative c2 nrc in (n, Some (resp c4), u2, w2)))
       else (if suppressPositive c2 then 0 else respLen c2, Some (resp c2), u2, w2))"
    using result [of c data] d by (simp add: c_def)
  moreover have "Uds_ProcessRequest dtc cfg (Some (map ((!) data) [0..<unat len])) len functional buf maxLen u w =
      (if nrc \<noteq> 0 then
         (if functional \<and> IsSuppressedForFunctional nrc then (0, Some (resp c2), u2, w2)
          else (let (n, c4) = Negative c2 nrc in (n, Some (resp c4), u2, w2)))
       else (if suppressPositive c2 then 0 else respLen c2, Some (resp c2), u2, w2))"
    using result [of "c\<lparr>req := prefix_of c\<rparr>" "prefix_of c"] d' hd
    by (simp add: c' Negative_def Let_def) (simp add: c_def prefix_of_def)
  ultimately show ?thesis by simp
qed

end
