(* ===== verification/UdsTheorems.thy ===== *)
theory UdsTheorems
  imports UdsProps
begin

section \<open>Properties of the diagnostic server\<close>

text \<open>
  The trouble code manager bound to the server's interface (\<open>dtcMgr_on\<close>), and the properties of
  the server: the answers, their format, which resets can be pending in any history, the S3 time.
\<close>

subsection \<open>The trouble code manager as the server's store\<close>

text \<open>The server's calls bound to the manager kept in a part of the caller's world.\<close>

definition dtcMgr_on :: "('w \<Rightarrow> DtcMgr_State) \<Rightarrow> (DtcMgr_State \<Rightarrow> 'w \<Rightarrow> 'w) \<Rightarrow> 'w DtcIf" where
  "dtcMgr_on getd putd =
     \<lparr>dtc_ClearAll = \<lambda>w. putd (DtcMgr_ClearAll (getd w)) w,
      dtc_CountByStatusMask = \<lambda>m w. let (n, d) = DtcMgr_CountByStatusMask m (getd w) in (n, putd d w),
      dtc_GetByStatusMask = \<lambda>m buf mx w.
        let (n, o', d) = DtcMgr_GetByStatusMask m (Some buf) mx (getd w)
        in (n, (case o' of None \<Rightarrow> buf | Some b \<Rightarrow> b), putd d w)\<rparr>"

definition dtc_ok :: "DtcMgr_State \<Rightarrow> bool" where
  "dtc_ok d = (dtc_wf d \<and> lock_balanced d)"

definition dtc_hits :: "u8 \<Rightarrow> DtcMgr_State \<Rightarrow> u8 list" where
  "dtc_hits m d = record_bytes (matching m d)"

lemma dtc_ok_step: "dtc_ok d \<Longrightarrow> dtc_ok (dtc_step d ev)"
  by (simp add: dtc_ok_def lock_balanced_step)

lemma dtcMgr_on_store:
  assumes "\<And>d w. getd (putd d w) = d" "\<And>w. putd (getd w) w = w"
  shows "dtc_store (dtcMgr_on getd putd) (\<lambda>w. dtc_ok (getd w)) (\<lambda>m w. dtc_hits m (getd w))"
proof
  fix w m assume "dtc_ok (getd w)"
  then have ok: "dtc_wf (getd w)" "lock_balanced (getd w)" by (simp_all add: dtc_ok_def)
  have n: "length (dtc_hits m (getd w)) div 4 = length (matching m (getd w))"
    by (simp add: dtc_hits_def)
  have "DtcMgr_CountByStatusMask m (getd w) = (of_nat (length (matching m (getd w))), getd w)"
    using CountByStatusMask_matching [OF ok(1), of m] ok(2)
    by (simp add: DtcMgr_CountByStatusMask_def Let_def Unlock_Lock)
  then show "dtc_CountByStatusMask (dtcMgr_on getd putd) m w
      = (of_nat (length (dtc_hits m (getd w)) div 4), w)"
    by (simp add: dtcMgr_on_def n assms(2))
  show "length (dtc_hits m (getd w)) \<le> 64 \<and> 4 dvd length (dtc_hits m (getd w))"
    using matching_bound [OF ok(1), of m] by (simp add: dtc_hits_def)
  fix mx :: u8 and buf :: "u8 list"
  assume fits: "length (dtc_hits m (getd w)) \<le> 4 * unat mx" "4 * unat mx \<le> length buf"
  then have "min (unat mx) (length (matching m (getd w))) = length (matching m (getd w))"
    by (simp add: dtc_hits_def)
  then have "DtcMgr_GetByStatusMask m (Some buf) mx (getd w)
      = (of_nat (length (matching m (getd w))),
         Some (dtc_hits m (getd w) @ drop (length (dtc_hits m (getd w))) buf), getd w)"
    using ok(2) fits(2)
    by (simp add: GetByStatusMask_matching [OF ok(1)] Unlock_Lock write_at_0 dtc_hits_def)
  then show "dtc_GetByStatusMask (dtcMgr_on getd putd) m buf mx w =
        (of_nat (length (dtc_hits m (getd w)) div 4),
         dtc_hits m (getd w) @ drop (length (dtc_hits m (getd w))) buf, w)"
    by (simp add: dtcMgr_on_def n assms(2))
next
  fix w assume "dtc_ok (getd w)"
  then show "dtc_ok (getd (dtc_ClearAll (dtcMgr_on getd putd) w))"
    using dtc_ok_step [of "getd w" ClearAll] by (simp add: dtcMgr_on_def assms(1) dtc_step_def)
qed

interpretation mgr: dtc_store "dtcMgr_on (\<lambda>d. d) (\<lambda>d _. d)" "\<lambda>d. dtc_ok d" "\<lambda>m d. dtc_hits m d"
  by (rule dtcMgr_on_store) simp_all

subsection \<open>Properties\<close>

text \<open>A server with one identifier over the example manager.\<close>

definition example_did :: "DtcMgr_State Uds_Did_t" where
  "example_did = \<lparr>did_id = 0x0101, did_length = 1, did_read = \<lambda>d. ([0x2A], d)\<rparr>"

definition example_uds :: "DtcMgr_State Uds_Config_t" where
  "example_uds = \<lparr>dids = [example_did], didCount = 1, uds_getTimeMs = None, ecuReset = None\<rparr>"

definition example_dtc :: "DtcMgr_State DtcIf" where
  "example_dtc = dtcMgr_on (\<lambda>d. d) (\<lambda>d _. d)"

lemma example_server: "uds_server example_dtc dtc_ok dtc_hits example_uds"
proof -
  have "dtc_store example_dtc dtc_ok dtc_hits"
    using dtcMgr_on_store [of "\<lambda>d. d" "\<lambda>d _. d"] by (simp add: example_dtc_def)
  then show ?thesis
    by (rule uds_server.intro) (unfold_locales, auto simp: example_uds_def example_did_def)
qed

lemma example_mgr_ok: "dtc_ok example_mgr"
  by (simp add: dtc_ok_def example_mgr_facts)

text \<open>C3: for every request (any bytes, any length), session and addressing, a server with a
  response buffer of at least 8 bytes sends exactly the bytes of the specified answer
  (\<open>spec_reply\<close>, with the identifier values and the trouble codes of the moment), changes the
  session, the pending reset and the trouble codes only as a positive answer to 0x10, 0x11 and
  0x14 requires, restarts the S3 time, and writes nothing past the end of the buffer it was given.\<close>

theorem Uds_answers_as_specified:
  fixes u :: Uds_State
  assumes "uds_server dtc ok hits cfg" "ok w" "rq \<noteq> []" "unat len = length rq"
    and "8 \<le> maxLen" "unat maxLen \<le> length buf"
    and "r = spec_reply (unat maxLen) (\<lambda>m. hits m w) (uds_server.did_val cfg w) (s_session u) rq"
  shows "\<exists>n buf'. Uds_ProcessRequest dtc cfg (Some rq) len functional (Some buf) maxLen u w =
      (n, Some buf',
       (if \<not> positive r then u else if hd rq = 0x10 then u\<lparr>s_session := rq ! 1 AND 0x7F\<rparr>
        else if hd rq = 0x11 then u\<lparr>s_pendingReset := rq ! 1 AND 0x7F\<rparr> else u)
          \<lparr>s_lastRequestMs := fst (uds_now cfg w)\<rparr>,
       if positive r \<and> hd rq = 0x14 then dtc_ClearAll dtc w else w) \<and>
    take (unat n) buf' = encode_reply functional (hd rq) r \<and> n \<le> maxLen \<and>
    length buf' = length buf \<and> drop (unat maxLen) buf' = drop (unat maxLen) buf"
  unfolding assms(7) by (rule uds_server.process_refines [OF assms(1-6)])

theorem Uds_answers_as_specified_witness:
  "\<exists>n buf' u'. Uds_ProcessRequest example_dtc example_uds (Some [0x22, 0x01, 0x01]) 3 False
      (Some (replicate 16 0)) 16 Uds_static example_mgr = (n, Some buf', u', example_mgr) \<and>
    take (unat n) buf' = [0x62, 0x01, 0x01, 0x2A]"
proof -
  have did: "uds_server.did_val example_uds example_mgr 0x0101 = Some [0x2A]"
    by (simp only: uds_server.did_val_def [OF example_server])
      (simp add: FindDid_def example_uds_def example_did_def)
  have rq: "requested_dids [0x22, 0x01, 0x01] = [0x0101]"
    by (simp add: requested_dids_def u16_of_bytes_def)
  have reply: "spec_reply 16 (\<lambda>m. dtc_hits m example_mgr) (uds_server.did_val example_uds example_mgr)
      (s_session Uds_static) [0x22, 0x01, 0x01] = Positive False [0x62, 0x01, 0x01, 0x2A]"
    by (simp add: spec_reply_def spec_ReadDid_def rq did_bytes_def did byte_hi_def byte_lo_def)
  show ?thesis
    using Uds_answers_as_specified [OF example_server example_mgr_ok, of "[0x22, 0x01, 0x01]" 3 16
        "replicate 16 0" _ Uds_static False]
    by (simp add: reply encode_reply_def) blast
qed

lemma spec_reply_nrc:
  "spec_reply maxLen recs val session rq = NegativeReply nrc \<Longrightarrow> nrc \<in> {0x11, 0x12, 0x13, 0x14, 0x31, 0x7E}"
  by (auto simp: spec_reply_def spec_SessionControl_def spec_EcuReset_def spec_ClearDtc_def
      spec_ReadDtc_def spec_ReadDid_def spec_TesterPresent_def Let_def split: if_splits)

lemma spec_reply_sid:
  "spec_reply maxLen recs val session rq = Positive s bytes \<Longrightarrow> bytes \<noteq> [] \<and> hd bytes = hd rq + 0x40"
  by (auto simp: spec_reply_def spec_SessionControl_def spec_EcuReset_def spec_ClearDtc_def
      spec_ReadDtc_def spec_ReadDid_def spec_TesterPresent_def Let_def split: if_splits)

lemma spec_reply_negative_pos: "spec_reply maxLen recs val session rq \<noteq> NegativeReply 0"
  using spec_reply_nrc [of maxLen recs val session rq 0] by auto

text \<open>C33: whatever the request, the bytes sent are nothing, or a positive response (the service
  identifier plus 0x40 first), or the three bytes 7F, service, code; the codes are 11, 12, 13, 14,
  31 and 7E only, and a functionally addressed request is refused with 13 or 14 only.\<close>

theorem Uds_response_format:
  assumes "uds_server dtc ok hits cfg" "ok w" "rq \<noteq> []" "unat len = length rq"
    and "8 \<le> maxLen" "unat maxLen \<le> length buf"
    and "Uds_ProcessRequest dtc cfg (Some rq) len functional (Some buf) maxLen u w = (n, Some buf', u', w')"
  shows "n = 0 \<or> hd buf' = hd rq + 0x40 \<or>
    (\<exists>nrc \<in> {0x11, 0x12, 0x13, 0x14, 0x31, 0x7E}.
       take (unat n) buf' = [0x7F, hd rq, nrc] \<and> (functional \<longrightarrow> nrc \<in> {0x13, 0x14}))"
proof -
  define r where "r = spec_reply (unat maxLen) (\<lambda>m. hits m w) (uds_server.did_val cfg w) (s_session u) rq"
  have sent: "take (unat n) buf' = encode_reply functional (hd rq) r"
    using uds_server.process_refines [OF assms(1-6), of functional u] assms(7) by (auto simp: r_def)
  have "length buf' = length buf"
    using uds_server.process_refines [OF assms(1-6), of functional u] assms(7) by auto
  then have "buf' \<noteq> []" using assms(5,6) by (auto simp: word_le_nat_alt)
  show ?thesis
  proof (cases r)
    case (Positive s bytes)
    then have "bytes \<noteq> [] \<and> hd bytes = hd rq + 0x40"
      using spec_reply_sid by (simp add: r_def)
    then show ?thesis
      using sent Positive \<open>buf' \<noteq> []\<close>
      by (cases s; cases "unat n"; cases buf') (auto simp: encode_reply_def unat_eq_0)
  next
    case (NegativeReply nrc)
    then have "nrc \<in> {0x11, 0x12, 0x13, 0x14, 0x31, 0x7E}" using spec_reply_nrc by (simp add: r_def)
    then show ?thesis
      using sent NegativeReply \<open>buf' \<noteq> []\<close>
      by (cases "unat n"; cases buf') (auto simp: encode_reply_def unat_eq_0 split: if_splits)
  qed
qed

theorem Uds_response_format_witness:
  "\<exists>n buf' u' w'. Uds_ProcessRequest example_dtc example_uds (Some [0x31, 0x01]) 2 True
      (Some (replicate 16 0)) 16 Uds_static example_mgr = (n, Some buf', u', w') \<and>
    (n = 0 \<or> hd buf' = 0x71 \<or> (\<exists>nrc. take (unat n) buf' = [0x7F, 0x31, nrc] \<and> nrc \<in> {0x13, 0x14}))"
proof -
  obtain n buf' u' w' where run: "Uds_ProcessRequest example_dtc example_uds (Some [0x31, 0x01]) 2 True
      (Some (replicate 16 0)) 16 Uds_static example_mgr = (n, Some buf', u', w')"
    using uds_server.process_refines [OF example_server example_mgr_ok, of "[0x31, 0x01]" 2 16 "replicate 16 0"]
    by (simp add: Let_def) blast
  show ?thesis
    using run Uds_response_format [OF example_server example_mgr_ok _ _ _ _ run] by auto
qed

subsection \<open>Histories\<close>

text \<open>
  What can happen to the server after \<open>Uds_Init\<close>: requests, calls of the main function, the
  execution of a pending reset, and changes of the world by everyone else. A request and a call carry the
  time of the server's clock, an execution the type of the reset it found pending (0: none).
\<close>

datatype uds_event = Request u32 "u8 list" | Main u32 | ResetDone u8 | World

inductive uds_history ::
  "'w DtcIf \<Rightarrow> ('w \<Rightarrow> bool) \<Rightarrow> 'w Uds_Config_t \<Rightarrow> uds_event list \<Rightarrow> Uds_State \<Rightarrow> 'w \<Rightarrow> bool"
  for dtc ok cfg where
  init: "ok w \<Longrightarrow> Uds_Init (Some cfg) cfg0 u0 w = (cfg, u, w) \<Longrightarrow> uds_history dtc ok cfg [] u w"
| request: "uds_history dtc ok cfg h u w \<Longrightarrow> rq \<noteq> [] \<Longrightarrow> unat len = length rq \<Longrightarrow> 8 \<le> maxLen \<Longrightarrow>
    unat maxLen \<le> length buf \<Longrightarrow>
    Uds_ProcessRequest dtc cfg (Some rq) len functional (Some buf) maxLen u w = (n, b, u', w') \<Longrightarrow>
    uds_history dtc ok cfg (h @ [Request (fst (uds_now cfg w)) rq]) u' w'"
| main: "uds_history dtc ok cfg h u w \<Longrightarrow> Uds_MainFunction cfg u w = (u', w') \<Longrightarrow>
    uds_history dtc ok cfg (h @ [Main (fst (uds_now cfg w))]) u' w'"
| reset: "uds_history dtc ok cfg h u w \<Longrightarrow> Uds_ExecutePendingReset cfg u w = Some (u', w') \<Longrightarrow> ok w' \<Longrightarrow>
    uds_history dtc ok cfg (h @ [ResetDone (s_pendingReset u)]) u' w'"
| world: "uds_history dtc ok cfg h u w \<Longrightarrow> ok w' \<Longrightarrow> uds_history dtc ok cfg (h @ [World]) u w'"

text \<open>
  What ISO 14229-1 says of a session that is extended at time \<open>t\<close>: it lasts over events if none of them asks for the default session,
  none executes a reset, and no call of the main function is 5000 ms or more after the last request before it.
\<close>

fun stays_extended :: "u32 \<Rightarrow> uds_event list \<Rightarrow> bool" where
  "stays_extended t [] = True"
| "stays_extended t (Request t' rq # h) =
     (\<not> (length rq = 2 \<and> rq ! 0 = 0x10 \<and> rq ! 1 AND 0x7F = 0x01) \<and> stays_extended t' h)"
| "stays_extended t (Main t' # h) = (t' - t < 5000 \<and> stays_extended t h)"
| "stays_extended t (ResetDone r # h) = (r = 0 \<and> stays_extended t h)"
| "stays_extended t (World # h) = stays_extended t h"

fun last_request :: "u32 \<Rightarrow> uds_event list \<Rightarrow> u32" where
  "last_request t [] = t"
| "last_request t (Request t' rq # h) = last_request t' h"
| "last_request t (e # h) = last_request t h"

lemma last_request_append: "last_request t (h @ h') = last_request (last_request t h) h'"
  by (induction t h rule: last_request.induct) simp_all

lemma stays_extended_append: "stays_extended t (h @ h') = (stays_extended t h \<and> stays_extended (last_request t h) h')"
  by (induction t h rule: stays_extended.induct) auto

text \<open>The history asks for the extended session, which lasts to its end; \<open>t\<close> is the time of the last request.\<close>

definition in_extended :: "uds_event list \<Rightarrow> u32 \<Rightarrow> bool" where
  "in_extended h t =
     (\<exists>pre t0 a mid. h = pre @ Request t0 [0x10, a] # mid \<and> a AND 0x7F = 0x03 \<and> stays_extended t0 mid \<and> t = last_request t0 mid)"

text \<open>A reset of type \<open>r\<close> is asked for while the extended session lasts, and none is executed since.\<close>

definition asked_reset :: "uds_event list \<Rightarrow> u8 \<Rightarrow> bool" where
  "asked_reset h r =
     (\<exists>pre t b post. h = pre @ Request t [0x11, b] # post \<and> b AND 0x7F = r \<and> (\<exists>t0. in_extended pre t0) \<and>
        (\<forall>x. ResetDone x \<in> set post \<longrightarrow> x = 0))"

definition session_ok :: "uds_event list \<Rightarrow> Uds_State \<Rightarrow> bool" where
  "session_ok h u =
     ((s_session u = 0x01 \<or> s_session u = 0x03 \<and> in_extended h (s_lastRequestMs u)) \<and>
      (s_pendingReset u = 0 \<or> s_pendingReset u \<in> {0x01, 0x03} \<and> asked_reset h (s_pendingReset u)))"

lemma in_extended_snoc:
  "in_extended h t \<Longrightarrow> stays_extended t [e] \<Longrightarrow> in_extended (h @ [e]) (last_request t [e])"
  unfolding in_extended_def
  by (elim exE conjE, rule exI, rule exI, rule exI, rule_tac x = "mid @ [e]" in exI)
     (simp add: stays_extended_append last_request_append)

lemma in_extended_now: "a AND 0x7F = 0x03 \<Longrightarrow> in_extended (h @ [Request t [0x10, a]]) t"
  unfolding in_extended_def by (intro exI [of _ h] exI [of _ t] exI [of _ a] exI [of _ "[]"]) simp

lemma asked_reset_snoc: "asked_reset h r \<Longrightarrow> (\<And>x. e = ResetDone x \<Longrightarrow> x = 0) \<Longrightarrow> asked_reset (h @ [e]) r"
  unfolding asked_reset_def
  by (elim exE conjE, rule exI, rule exI, rule exI, rule_tac x = "post @ [e]" in exI) auto

lemma asked_reset_now: "in_extended h t0 \<Longrightarrow> b AND 0x7F = r \<Longrightarrow> asked_reset (h @ [Request t [0x11, b]]) r"
  unfolding asked_reset_def by (intro exI [of _ h] exI [of _ t] exI [of _ b] exI [of _ "[]"]) auto

lemma positive_session:
  assumes "positive (spec_reply m r v s rq)" "hd rq = 0x10" "rq \<noteq> []"
  shows "\<exists>a. rq = [0x10, a] \<and> a AND 0x7F \<in> {0x01, 0x03}"
proof -
  have "length rq = 2" using assms by (auto simp: spec_reply_def spec_SessionControl_def split: if_splits)
  then obtain a where "rq = [0x10, a]" using assms(2) by (auto simp: numeral_eq_Suc length_Suc_conv)
  then show ?thesis using assms by (auto simp: spec_reply_def spec_SessionControl_def split: if_splits)
qed

lemma positive_reset:
  assumes "positive (spec_reply m r v s rq)" "hd rq = 0x11" "rq \<noteq> []"
  shows "\<exists>b. rq = [0x11, b] \<and> b AND 0x7F \<in> {0x01, 0x03} \<and> s = 0x03"
proof -
  have "length rq = 2" using assms by (auto simp: spec_reply_def spec_EcuReset_def split: if_splits)
  then obtain b where "rq = [0x11, b]" using assms(2) by (auto simp: numeral_eq_Suc length_Suc_conv)
  then show ?thesis using assms by (auto simp: spec_reply_def spec_EcuReset_def split: if_splits)
qed

lemma session_ok_request:
  assumes "session_ok h u" "rq \<noteq> []"
    and "u' = (if \<not> positive r then u else if hd rq = 0x10 then u\<lparr>s_session := rq ! 1 AND 0x7F\<rparr>
        else if hd rq = 0x11 then u\<lparr>s_pendingReset := rq ! 1 AND 0x7F\<rparr> else u)\<lparr>s_lastRequestMs := t\<rparr>"
    and "r = spec_reply m recs val (s_session u) rq"
  shows "session_ok (h @ [Request t rq]) u'"
proof -
  have pending: "s_pendingReset u = 0 \<or> s_pendingReset u \<in> {0x01, 0x03} \<and> asked_reset (h @ [Request t rq]) (s_pendingReset u)"
    using assms(1) asked_reset_snoc [of h "s_pendingReset u" "Request t rq"] by (auto simp: session_ok_def)
  have session: "s_session u = 0x01 \<or> s_session u = 0x03 \<and> in_extended (h @ [Request t rq]) t"
    if "\<not> (length rq = 2 \<and> rq ! 0 = 0x10 \<and> rq ! 1 AND 0x7F = 0x01)"
    using assms(1) that in_extended_snoc [of h "s_lastRequestMs u" "Request t rq"] by (auto simp: session_ok_def)
  consider "positive r" "hd rq = 0x10" | "positive r" "hd rq = 0x11" |
    "u' = u\<lparr>s_lastRequestMs := t\<rparr>" "\<not> (positive r \<and> hd rq = 0x10)"
    using assms(3) by (auto split: if_splits)
  then show ?thesis
  proof cases
    case 1
    then obtain a where "rq = [0x10, a]" "a AND 0x7F \<in> {0x01, 0x03}"
      using positive_session assms(2,4) by metis
    then show ?thesis using 1 pending assms(3) by (auto simp: session_ok_def in_extended_now)
  next
    case 2
    then obtain b where b: "rq = [0x11, b]" "b AND 0x7F \<in> {0x01, 0x03}" "s_session u = 0x03"
      using positive_reset assms(2,4) by metis
    have "in_extended h (s_lastRequestMs u)" using assms(1) b(3) by (simp add: session_ok_def)
    then have "asked_reset (h @ [Request t rq]) (b AND 0x7F)" by (auto simp: b(1) intro: asked_reset_now)
    then show ?thesis using 2 b session assms(3) by (auto simp: session_ok_def)
  next
    case 3
    have "\<not> (length rq = 2 \<and> rq ! 0 = 0x10 \<and> rq ! 1 AND 0x7F = 0x01)"
    proof
      assume l: "length rq = 2 \<and> rq ! 0 = 0x10 \<and> rq ! 1 AND 0x7F = 0x01"
      then obtain a where "rq = [0x10, a]" by (auto simp: numeral_eq_Suc length_Suc_conv)
      with l 3(2) assms(4) show False by (simp add: spec_reply_def spec_SessionControl_def)
    qed
    then show ?thesis using 3(1) session pending by (auto simp: session_ok_def)
  qed
qed

lemma uds_history_session_ok:
  assumes "uds_history dtc ok cfg h u w" "uds_server dtc ok hits cfg"
  shows "session_ok h u \<and> ok w \<and> (uds_getTimeMs cfg = None \<longrightarrow> s_lastRequestMs u = 0)"
  using assms(1)
proof induction
  case (init w cfg0 u0 u)
  then show ?case
    by (auto simp: Uds_Init_def session_ok_def uds_consts uds_now_def split: prod.splits option.splits)
next
  case (request h u w rq len maxLen buf functional n b u' w')
  note p = uds_server.process_refines [OF assms(2) _ request.hyps(2,3,4,5), of w functional u]
  have "u' = (if \<not> positive (spec_reply (unat maxLen) (\<lambda>m. hits m w) (uds_server.did_val cfg w) (s_session u) rq)
      then u else if hd rq = 0x10 then u\<lparr>s_session := rq ! 1 AND 0x7F\<rparr>
      else if hd rq = 0x11 then u\<lparr>s_pendingReset := rq ! 1 AND 0x7F\<rparr> else u)
        \<lparr>s_lastRequestMs := fst (uds_now cfg w)\<rparr>" "w' = w \<or> w' = dtc_ClearAll dtc w"
    using p request.hyps(6) request.IH by auto
  then show ?case
    using session_ok_request [OF conjunct1 [OF request.IH] request.hyps(2) _ refl] request.IH
      dtc_store.clear_ok [OF uds_server.axioms(1) [OF assms(2)]] by (auto simp: uds_now_def)
next
  case (main h u w u' w')
  define t where "t = fst (uds_now cfg w)"
  have u': "w' = w" "s_session u = 0x01 \<and> u' = u \<or> u' = u\<lparr>s_session := 0x01\<rparr> \<or> u' = u \<and> t - s_lastRequestMs u < 5000"
    using main.hyps main.IH uds_server.time_pure [OF assms(2), of _ w]
    by (auto simp: Uds_MainFunction_def uds_consts Let_def t_def uds_now_def split: option.splits if_splits prod.splits)
  show ?case
    using main.IH u' asked_reset_snoc [of h "s_pendingReset u" "Main t"] in_extended_snoc [of h "s_lastRequestMs u" "Main t"]
    by (auto simp: session_ok_def simp flip: t_def)
next
  case (reset h u w u' w')
  define r where "r = s_pendingReset u"
  have "r \<noteq> 0 \<and> u' = u\<lparr>s_pendingReset := 0, s_session := 0x01\<rparr> \<or> r = 0 \<and> u' = u"
    using reset.hyps
    by (auto simp: Uds_ExecutePendingReset_def uds_consts Let_def r_def split: option.splits if_splits)
  then show ?case
    using reset.IH reset.hyps in_extended_snoc [of h "s_lastRequestMs u" "ResetDone r"]
    by (auto simp: session_ok_def r_def)
next
  case (world h u w w')
  then show ?case
    using asked_reset_snoc [of h "s_pendingReset u" World] in_extended_snoc [of h "s_lastRequestMs u" World]
    by (auto simp: session_ok_def)
qed

text \<open>C34: in every history of the server since its initialisation the session is the default or the
  extended one, and a reset is pending only if a reset of that type was requested in the extended session and none has been
  executed since: the extended session was asked for before that request, and between the two nothing ended it, neither a
  request for the default session nor an executed reset nor a call of the main function 5000 ms after the last request.\<close>

theorem Uds_reset_needs_extended_session:
  assumes "uds_history dtc ok cfg h u w" "uds_server dtc ok hits cfg"
  shows "Uds_GetSession u \<in> {0x01, 0x03} \<and>
    (s_pendingReset u \<noteq> 0 \<longrightarrow>
      (\<exists>pre t a mid t' b post. h = pre @ Request t [0x10, a] # mid @ Request t' [0x11, b] # post \<and>
         a AND 0x7F = 0x03 \<and> b AND 0x7F = s_pendingReset u \<and> stays_extended t mid \<and>
         (\<forall>x. ResetDone x \<in> set post \<longrightarrow> x = 0)))"
proof -
  have ok: "session_ok h u" using uds_history_session_ok [OF assms] by simp
  moreover have "\<exists>pre t a mid t' b post. h = pre @ Request t [0x10, a] # mid @ Request t' [0x11, b] # post \<and>
         a AND 0x7F = 0x03 \<and> b AND 0x7F = s_pendingReset u \<and> stays_extended t mid \<and>
         (\<forall>x. ResetDone x \<in> set post \<longrightarrow> x = 0)" if "asked_reset h (s_pendingReset u)"
    
  proof -
    obtain pre' t' b post where h: "h = pre' @ Request t' [0x11, b] # post" "b AND 0x7F = s_pendingReset u" "\<forall>x. ResetDone x \<in> set post \<longrightarrow> x = 0"
      and "\<exists>t0. in_extended pre' t0" using \<open>asked_reset h (s_pendingReset u)\<close> unfolding asked_reset_def by blast
    then obtain pre t a mid where "pre' = pre @ Request t [0x10, a] # mid" "a AND 0x7F = 0x03" "stays_extended t mid"
      unfolding in_extended_def by blast
    with h show ?thesis
      by (intro exI [of _ pre] exI [of _ t] exI [of _ a] exI [of _ mid] exI [of _ t'] exI [of _ b] exI [of _ post]) simp
  qed
  ultimately show ?thesis by (auto simp: session_ok_def Uds_GetSession_def)
qed

lemma example_history:
  "\<exists>u. uds_history example_dtc dtc_ok example_uds [Request 0 [0x10, 0x03], Request 0 [0x11, 0x01]] u example_mgr \<and>
     s_pendingReset u = 0x01"
proof -
  have 0: "uds_history example_dtc dtc_ok example_uds [] Uds_static example_mgr"
    by (rule uds_history.init [where ?cfg0.0 = example_uds and ?u0.0 = Uds_static])
       (simp_all add: example_mgr_ok Uds_Init_def uds_now_def example_uds_def Uds_static_def)
  have pos1: "positive (spec_reply 16 (\<lambda>m. dtc_hits m example_mgr) v (s_session Uds_static) [0x10, 0x03])" for v
    by (simp add: spec_reply_def spec_SessionControl_def)
  have pos2: "positive (spec_reply 16 (\<lambda>m. dtc_hits m example_mgr) v 0x03 [0x11, 0x01])" for v
    by (simp add: spec_reply_def spec_EcuReset_def)
  obtain n b u where 1: "Uds_ProcessRequest example_dtc example_uds (Some [0x10, 0x03]) 2 False
      (Some (replicate 16 0)) 16 Uds_static example_mgr = (n, b, u, example_mgr)" and u: "s_session u = 0x03"
    using uds_server.process_refines [OF example_server example_mgr_ok, of "[0x10, 0x03]" 2 16
        "replicate 16 0" False Uds_static] pos1 by auto
  obtain n' b' u' where 2: "Uds_ProcessRequest example_dtc example_uds (Some [0x11, 0x01]) 2 False
      (Some (replicate 16 0)) 16 u example_mgr = (n', b', u', example_mgr)" and u': "s_pendingReset u' = 0x01"
    using uds_server.process_refines [OF example_server example_mgr_ok, of "[0x11, 0x01]" 2 16
        "replicate 16 0" False u] pos2 u by auto
  have h1: "uds_history example_dtc dtc_ok example_uds ([] @ [Request 0 [0x10, 0x03]]) u example_mgr"
    using uds_history.request [OF 0 _ _ _ _ 1] by (simp add: uds_now_def example_uds_def)
  have "uds_history example_dtc dtc_ok example_uds (([] @ [Request 0 [0x10, 0x03]]) @ [Request 0 [0x11, 0x01]]) u' example_mgr"
    using uds_history.request [OF h1 _ _ _ _ 2] by (simp add: uds_now_def example_uds_def)
  then show ?thesis using u' by auto
qed

theorem Uds_reset_needs_extended_session_witness:
  "\<exists>u. s_pendingReset u \<noteq> 0 \<and> Uds_GetSession u \<in> {0x01, 0x03} \<and>
     uds_history example_dtc dtc_ok example_uds [Request 0 [0x10, 0x03], Request 0 [0x11, 0x01]] u example_mgr"
proof -
  obtain u where u: "uds_history example_dtc dtc_ok example_uds [Request 0 [0x10, 0x03], Request 0 [0x11, 0x01]] u example_mgr"
    "s_pendingReset u = 0x01" using example_history by blast
  show ?thesis using u Uds_reset_needs_extended_session [OF u(1) example_server] by (intro exI [of _ u]) simp
qed

subsection \<open>The S3 time\<close>

definition uds_idle :: "'w Uds_Config_t \<Rightarrow> 'w list \<Rightarrow> Uds_State \<Rightarrow> Uds_State" where
  "uds_idle cfg ws u = fold (\<lambda>w u. fst (Uds_MainFunction cfg u w)) ws u"

lemma uds_idle_session:
  assumes "uds_getTimeMs cfg = Some (\<lambda>w. (clock w, w))" "s_session u \<noteq> 0x01"
  shows "uds_idle cfg ws u =
    (if \<exists>w \<in> set ws. clock w - s_lastRequestMs u \<ge> 5000 then u\<lparr>s_session := 0x01\<rparr> else u)"
proof -
  have default: "uds_idle cfg ws (u\<lparr>s_session := 0x01\<rparr>) = u\<lparr>s_session := 0x01\<rparr>" for ws
    by (induction ws) (simp_all add: uds_idle_def Uds_MainFunction_def assms(1) uds_consts)
  show ?thesis
    using assms(2)
  proof (induction ws)
    case Nil
    then show ?case by (simp add: uds_idle_def)
  next
    case (Cons w ws)
    then show ?case
      using default [of ws] assms(1)
      by (simp add: uds_idle_def Uds_MainFunction_def uds_consts)
  qed
qed

text \<open>The session a request asks for, if it is a request for a session the server has.\<close>

definition session_of_request :: "u8 list \<Rightarrow> u8 \<Rightarrow> u8" where
  "session_of_request rq s =
     (if length rq = 2 \<and> rq ! 0 = 0x10 \<and> rq ! 1 AND 0x7F \<in> {0x01, 0x03} then rq ! 1 AND 0x7F else s)"

lemma session_positive:
  assumes "rq \<noteq> []"
  shows "(positive (spec_reply m r v s rq) \<and> hd rq = 0x10) = (length rq = 2 \<and> rq ! 0 = 0x10 \<and> rq ! 1 AND 0x7F \<in> {0x01, 0x03})"
proof
  assume "positive (spec_reply m r v s rq) \<and> hd rq = 0x10"
  then show "length rq = 2 \<and> rq ! 0 = 0x10 \<and> rq ! 1 AND 0x7F \<in> {0x01, 0x03}" using positive_session assms by fastforce
next
  assume l: "length rq = 2 \<and> rq ! 0 = 0x10 \<and> rq ! 1 AND 0x7F \<in> {0x01, 0x03}"
  then obtain a where "rq = [0x10, a]" by (auto simp: numeral_eq_Suc length_Suc_conv)
  with l show "positive (spec_reply m r v s rq) \<and> hd rq = 0x10" by (auto simp: spec_reply_def spec_SessionControl_def)
qed

lemma uds_idle_default: "s_session u = 0x01 \<Longrightarrow> uds_idle cfg ws u = u"
  by (induction ws) (auto simp: uds_idle_def Uds_MainFunction_def uds_consts split: option.split)

text \<open>C35: any request, received at time \<open>clock w\<close> and whatever the answer, restarts the S3 time: the session it leaves (the one
  it asks for, or the one before it) lasts until the first call of the main function at least 5000 ms later (modulo the counter's wrap),
  which ends it, and no sooner, whatever the times of the calls.\<close>

theorem Uds_S3_timeout:
  assumes "uds_server dtc ok hits cfg" "ok w" "uds_getTimeMs cfg = Some (\<lambda>w. (clock w, w))"
    and "rq \<noteq> []" "unat len = length rq" "8 \<le> maxLen" "unat maxLen \<le> length buf"
    and "Uds_ProcessRequest dtc cfg (Some rq) len functional (Some buf) maxLen u w = (n, b, u', w')"
  shows "Uds_GetSession (uds_idle cfg ws u') =
    (if \<exists>v \<in> set ws. clock v - clock w \<ge> 5000 then 0x01 else session_of_request rq (Uds_GetSession u))"
proof -
  note session_positive [OF assms(4), of "unat maxLen" "\<lambda>m. hits m w" "uds_server.did_val cfg w" "s_session u"]
  then have u': "s_session u' = session_of_request rq (s_session u)" "s_lastRequestMs u' = clock w"
    using uds_server.process_refines [OF assms(1,2,4,5,6,7), of functional u] assms(3,8)
    by (auto simp: uds_now_def session_of_request_def split: if_splits)
  show ?thesis
  proof (cases "s_session u' = 0x01")
    case True
    then show ?thesis using uds_idle_default [OF True, of cfg ws] u'(1) by (simp add: Uds_GetSession_def)
  next
    case False
    then show ?thesis using uds_idle_session [OF assms(3) False, of ws] u' by (simp add: Uds_GetSession_def)
  qed
qed

definition timed_dtc :: "(DtcMgr_State \<times> u32) DtcIf" where
  "timed_dtc = dtcMgr_on fst (\<lambda>d w. (d, snd w))"

definition timed_uds :: "(DtcMgr_State \<times> u32) Uds_Config_t" where
  "timed_uds = \<lparr>dids = [], didCount = 0, uds_getTimeMs = Some (\<lambda>w. (snd w, w)), ecuReset = None\<rparr>"

lemma timed_server: "uds_server timed_dtc (\<lambda>w. dtc_ok (fst w)) (\<lambda>m w. dtc_hits m (fst w)) timed_uds"
proof -
  have "dtc_store timed_dtc (\<lambda>w. dtc_ok (fst w)) (\<lambda>m w. dtc_hits m (fst w))"
    using dtcMgr_on_store [of fst "\<lambda>d w. (d, snd w)"] by (simp add: timed_dtc_def)
  then show ?thesis
    by (rule uds_server.intro) (unfold_locales, auto simp: timed_uds_def)
qed

theorem Uds_S3_timeout_witness:
  "\<exists>n b u' w'. Uds_ProcessRequest timed_dtc timed_uds (Some [0x3E, 0x80]) 2 False (Some (replicate 16 0)) 16
      (Uds_static\<lparr>s_session := 0x03\<rparr>) (example_mgr, 0xFFFFFF00) = (n, b, u', w') \<and>
    Uds_GetSession (uds_idle timed_uds [(example_mgr, 0xFFFFFFFF), (example_mgr, 4743)] u') = 0x03 \<and>
    Uds_GetSession (uds_idle timed_uds [(example_mgr, 0xFFFFFFFF), (example_mgr, 4744)] u') = 0x01"
proof -
  obtain n b u' w' where run: "Uds_ProcessRequest timed_dtc timed_uds (Some [0x3E, 0x80]) 2 False
      (Some (replicate 16 0)) 16 (Uds_static\<lparr>s_session := 0x03\<rparr>) (example_mgr, 0xFFFFFF00) = (n, b, u', w')"
    by (metis prod_cases4)
  have cfg: "uds_getTimeMs timed_uds = Some (\<lambda>w. (snd w, w))" by (simp add: timed_uds_def)
  show ?thesis
    using run Uds_S3_timeout [OF timed_server _ cfg _ _ _ _ run, of "[(example_mgr, 0xFFFFFFFF), (example_mgr, 4743)]"]
      Uds_S3_timeout [OF timed_server _ cfg _ _ _ _ run, of "[(example_mgr, 0xFFFFFFFF), (example_mgr, 4744)]"]
    by (simp add: example_mgr_ok session_of_request_def Uds_GetSession_def)
qed

end
