(* ===== verification/IsoTpLink.thy ===== *)
theory IsoTpLink
  imports IsoTp
begin

section \<open>Well-formed links and segmentation of messages\<close>

text \<open>
  What every operation of a link keeps (\<open>tx_wf\<close>, \<open>rx_wf\<close>: the buffers keep the sizes of the
  configuration, and the position in a message under way is a frame boundary inside it), and
  the frames of a message as ISO 15765-2 defines them (\<open>segment\<close>). The locales state what a
  link relies on in its callbacks and its driver; the provider interprets them.
\<close>

subsection \<open>Operations on explicit pairs\<close>

lemma Now_pair: "Now ops (l, w) = (fst (getTimeMs ops w), l, snd (getTimeMs ops w))"
  by (simp add: Now_def split: prod.split)

lemma Elapsed_pair:
  "Elapsed ops start (l, w) = (fst (getTimeMs ops w) - start, l, snd (getTimeMs ops w))"
  by (simp add: Elapsed_def Now_pair)

lemma SendFrame_pair:
  "SendFrame ops f (l, w) =
     (fst (sendFrame ops (txId (cfg l)) f 8 w), l, snd (sendFrame ops (txId (cfg l)) f 8 w))"
  by (simp add: SendFrame_def ISOTP_CAN_DL_def split: prod.split)

lemma upd_pair: "upd f (l, w) = (f l, w)"
  by (simp add: upd_def)

lemmas isotp_pairs = Now_pair Elapsed_pair SendFrame_pair upd_pair

lemma fst_SendFrame: "fst (snd (SendFrame ops f s)) = fst s"
  by (cases s) (simp add: SendFrame_pair)

lemma fst_RxSendFlowControl:
  "\<exists>p st. fst (RxSendFlowControl ops fs (l, w)) = l\<lparr>rxFcPending := p, rxFcStatus := st\<rparr>"
proof -
  define fr where "fr = InitFrame[0 := push_bit 4 PCI_TYPE_FC OR fs, 1 := blockSize (cfg l),
    2 := stMin (cfg l)]"
  obtain ok s1 where s1: "SendFrame ops fr (l, w) = (ok, s1)" "fst s1 = l"
    using fst_SendFrame [of ops fr "(l, w)"] by (cases "SendFrame ops fr (l, w)") simp
  have "fst (RxSendFlowControl ops fs (l, w))
      = (if ok then l\<lparr>rxFcPending := False\<rparr> else l\<lparr>rxFcPending := True, rxFcStatus := fs\<rparr>)"
    by (simp only: RxSendFlowControl_def fst_conv fr_def [symmetric] s1(1) Let_def prod.case)
      (simp add: upd_def s1(2))
  moreover have "l\<lparr>rxFcPending := False\<rparr> = l\<lparr>rxFcPending := False, rxFcStatus := rxFcStatus l\<rparr>"
    by simp
  ultimately show ?thesis by metis
qed

subsection \<open>Segmentation\<close>

definition pad8 :: "u8 list \<Rightarrow> u8 list" where
  "pad8 xs = xs @ replicate (8 - length xs) 0xCC"

definition sf_frame :: "u8 list \<Rightarrow> u8 list" where
  "sf_frame msg = pad8 (of_nat (length msg) # msg)"

definition ff_frame :: "u8 list \<Rightarrow> u8 list" where
  "ff_frame msg = pad8 ((0x10 OR of_nat (length msg div 256)) # of_nat (length msg) # take 6 msg)"

definition cf_seq :: "nat \<Rightarrow> u8" where
  "cf_seq k = of_nat k AND 0x0F"

definition cf_frame :: "nat \<Rightarrow> u8 list \<Rightarrow> u8 list" where
  "cf_frame k chunk = pad8 ((0x20 OR cf_seq k) # chunk)"

text \<open>Consecutive frame number \<open>k\<close> (from 1) of a message of more than 7 bytes.\<close>

definition cf_data :: "u8 list \<Rightarrow> nat \<Rightarrow> u8 list" where
  "cf_data msg k = take 7 (drop (7 * k - 1) msg)"

definition segment :: "u8 list \<Rightarrow> u8 list list" where
  "segment msg =
     (if length msg \<le> 7 then [sf_frame msg]
      else ff_frame msg # map (\<lambda>k. cf_frame k (cf_data msg k)) [1..<Suc (length msg div 7)])"

lemma length_pad8 [simp]: "length xs \<le> 8 \<Longrightarrow> length (pad8 xs) = 8"
  by (simp add: pad8_def)

lemma cf_seq_Suc: "(cf_seq k + 1) AND 0x0F = cf_seq (Suc k)"
  using counter_add [of "of_nat k" 1] by (simp add: cf_seq_def add.commute)

subsection \<open>Invariant\<close>

text \<open>After \<open>k\<close> consecutive frames: the offset, the next sequence number, and data left.\<close>

definition cf_pos :: "nat \<Rightarrow> u16 \<Rightarrow> u8 \<Rightarrow> u16 \<Rightarrow> bool" where
  "cf_pos k off sq len = (unat off = 6 + 7 * k \<and> sq = cf_seq (Suc k) \<and> off < len)"

definition tx_wf :: "IsoTp_Link_t \<Rightarrow> bool" where
  "tx_wf l =
     (length (txBuffer (cfg l)) = unat (txBufferSize (cfg l)) \<and>
      (txState l \<noteq> ISOTP_TX_IDLE \<longrightarrow>
         0 < txLength l \<and> txLength l \<le> 4095 \<and> txLength l \<le> txBufferSize (cfg l)) \<and>
      (txState l \<in> {ISOTP_TX_WAIT_FC, ISOTP_TX_SEND_CF} \<longrightarrow>
         7 < txLength l \<and> (\<exists>k. cf_pos k (txOffset l) (txSeq l) (txLength l))))"

definition rx_wf :: "IsoTp_Link_t \<Rightarrow> bool" where
  "rx_wf l =
     (length (rxBuffer (cfg l)) = unat (rxBufferSize (cfg l)) \<and>
      (rxState l = ISOTP_RX_RECEIVING \<longrightarrow>
         7 < rxLength l \<and> rxLength l \<le> 4095 \<and> rxLength l \<le> rxBufferSize (cfg l) \<and>
         (\<exists>k. cf_pos k (rxOffset l) (rxSeq l) (rxLength l))))"

definition link_wf :: "IsoTp_Link_t \<Rightarrow> bool" where
  "link_wf l = (tx_wf l \<and> rx_wf l)"

text \<open>The two sides of a link, as views that hide the other side.\<close>

definition rx_view :: "IsoTp_Link_t \<Rightarrow> IsoTp_Link_t" where
  "rx_view l = l\<lparr>cfg := (cfg l)\<lparr>txBuffer := []\<rparr>, txState := ISOTP_TX_IDLE, txLength := 0, txOffset := 0,
     txSeq := 0, txBlockSize := 0, txBlockCount := 0, txStMinMs := 0, txTimerStart := 0,
     txLastCfTime := 0, txWaitCount := 0\<rparr>"

definition tx_view :: "IsoTp_Link_t \<Rightarrow> IsoTp_Link_t" where
  "tx_view l = l\<lparr>cfg := (cfg l)\<lparr>rxBuffer := []\<rparr>, rxState := ISOTP_RX_IDLE, rxLength := 0, rxOffset := 0,
     rxSeq := 0, rxBlockCount := 0, rxTimerStart := 0, rxFcPending := False, rxFcStatus := 0\<rparr>"

lemma rx_viewD:
  assumes "rx_view l = rx_view l'"
  shows "rxState l = rxState l'" "rxLength l = rxLength l'" "rxOffset l = rxOffset l'"
    "rxSeq l = rxSeq l'" "rxBuffer (cfg l) = rxBuffer (cfg l')"
    "rxBufferSize (cfg l) = rxBufferSize (cfg l')" "blockSize (cfg l) = blockSize (cfg l')"
    "rxBlockCount l = rxBlockCount l'" "txBufferSize (cfg l) = txBufferSize (cfg l')"
    "txId (cfg l) = txId (cfg l')" "stMin (cfg l) = stMin (cfg l')"
    "rxFcPending l = rxFcPending l'"
  using arg_cong [OF assms, of rxFcPending] arg_cong [OF assms, of rxState] arg_cong [OF assms, of rxLength] arg_cong [OF assms, of rxOffset]
    arg_cong [OF assms, of rxSeq] arg_cong [OF assms, of rxBlockCount]
    arg_cong [OF assms, of "rxBuffer \<circ> cfg"] arg_cong [OF assms, of "rxBufferSize \<circ> cfg"]
    arg_cong [OF assms, of "blockSize \<circ> cfg"] arg_cong [OF assms, of "txBufferSize \<circ> cfg"]
    arg_cong [OF assms, of "txId \<circ> cfg"] arg_cong [OF assms, of "stMin \<circ> cfg"]
  by (simp_all add: rx_view_def)

lemma tx_viewD:
  assumes "tx_view l = tx_view l'"
  shows "txState l = txState l'" "txLength l = txLength l'" "txOffset l = txOffset l'"
    "txSeq l = txSeq l'" "txBuffer (cfg l) = txBuffer (cfg l')"
    "txBufferSize (cfg l) = txBufferSize (cfg l')"
    "rxBufferSize (cfg l) = rxBufferSize (cfg l')" "txId (cfg l) = txId (cfg l')"
  using arg_cong [OF assms, of txState] arg_cong [OF assms, of txLength] arg_cong [OF assms, of txOffset]
    arg_cong [OF assms, of txSeq] arg_cong [OF assms, of "txBuffer \<circ> cfg"]
    arg_cong [OF assms, of "txBufferSize \<circ> cfg"] arg_cong [OF assms, of "rxBufferSize \<circ> cfg"]
    arg_cong [OF assms, of "txId \<circ> cfg"]
  by (simp_all add: tx_view_def)

lemma tx_wf_cong: "tx_view l = tx_view l' \<Longrightarrow> tx_wf l = tx_wf l'"
  using tx_viewD [of l l'] by (simp add: tx_wf_def)

lemma rx_wf_cong: "rx_view l = rx_view l' \<Longrightarrow> rx_wf l = rx_wf l'"
  using rx_viewD [of l l'] by (simp add: rx_wf_def)

subsection \<open>Positions in a message\<close>

lemma word16_less_unat: "a < b \<longleftrightarrow> unat a < unat (b :: u16)"
  by (simp add: word_less_nat_alt)

lemma cf_chunk_unat:
  assumes "off \<le> len"
  shows "unat (cf_chunk (len - off)) = min 7 (unat len - unat off)"
  using assms
  by (simp add: cf_chunk_def CF_MAX_DATA_def word_less_nat_alt unat_minus_le min_def)

lemma cf_pos_step:
  assumes "cf_pos k off sq len" "unat len \<le> 4095"
  defines "n \<equiv> cf_chunk (len - off)"
  shows "unat n = min 7 (unat len - unat off)"
    and "unat (off + n) = min (unat len) (unat off + 7)"
    and "len \<le> off + n \<longleftrightarrow> unat len \<le> unat off + 7"
    and "\<not> len \<le> off + n \<Longrightarrow> cf_pos (Suc k) (off + n) ((sq + 1) AND 0x0F) len"
proof -
  have lt: "unat off < unat len"
    using assms(1) by (simp add: cf_pos_def word_less_nat_alt)
  show n: "unat n = min 7 (unat len - unat off)"
    using lt by (simp add: n_def cf_chunk_unat word_le_nat_alt)
  then have "unat off + unat n < 2 ^ LENGTH(16)"
    using lt assms(2) by auto
  then show s: "unat (off + n) = min (unat len) (unat off + 7)"
    using n lt by (subst unat_plus_no_wrap) auto
  then show le: "len \<le> off + n \<longleftrightarrow> unat len \<le> unat off + 7"
    using lt by (auto simp: word_le_nat_alt)
  show "\<not> len \<le> off + n \<Longrightarrow> cf_pos (Suc k) (off + n) ((sq + 1) AND 0x0F) len"
    using s le assms(1) by (simp add: cf_pos_def cf_seq_Suc not_le)
qed

subsection \<open>The frames the sender builds\<close>

lemma InitFrame_eq: "InitFrame = replicate 8 0xCC"
  by (simp add: InitFrame_def ISOTP_CAN_DL_def ISOTP_PADDING_BYTE_def)

lemma write_frame:
  assumes "length xs + length hs \<le> 8"
  shows "write_at (hs @ replicate (8 - length hs) 0xCC) (length hs) xs = pad8 (hs @ xs)"
  using assms by (simp add: write_at_def pad8_def)

lemma write_frame1:
  assumes "length xs \<le> 7"
  shows "write_at (InitFrame[0 := h]) (Suc 0) xs = pad8 (h # xs)"
proof -
  have "InitFrame[0 := h] = [h] @ replicate (8 - length [h]) 0xCC"
    by (simp add: InitFrame_eq numeral_eq_Suc)
  with write_frame [of xs "[h]"] assms show ?thesis by simp
qed

lemma write_frame2:
  assumes "length xs \<le> 6"
  shows "write_at (InitFrame[0 := a, Suc 0 := b]) 2 xs = pad8 (a # b # xs)"
proof -
  have "InitFrame[0 := a, 1 := b] = [a, b] @ replicate (8 - length [a, b]) 0xCC"
    by (simp add: InitFrame_eq numeral_eq_Suc)
  with write_frame [of xs "[a, b]"] assms show ?thesis
    by (simp add: numeral_2_eq_2)
qed

text \<open>The message under way is the start of the transmit buffer.\<close>

definition tx_msg :: "IsoTp_Link_t \<Rightarrow> u8 list" where
  "tx_msg l = take (unat (txLength l)) (txBuffer (cfg l))"

lemma length_tx_msg:
  "tx_wf l \<Longrightarrow> txState l \<noteq> ISOTP_TX_IDLE \<Longrightarrow> length (tx_msg l) = unat (txLength l)"
  by (simp add: tx_msg_def tx_wf_def word_le_nat_alt)

lemma first_byte_FF:
  assumes "unat len \<le> 4095"
  shows "ucast (push_bit 4 (ucast PCI_TYPE_FF) OR (drop_bit 8 len AND 0x0F) :: u16)
       = (0x10 OR of_nat (unat len div 256) :: u8)"
proof -
  have "of_nat (unat len div 256) = (ucast (drop_bit 8 len) :: u8)"
    by (rule word_unat_eq_iff [THEN iffD2]) (simp add: unat_drop_bit_eq drop_bit_eq_div unat_of_nat unsigned_ucast_eq take_bit_eq_mod unat_div)
  moreover have "drop_bit 8 len AND 0x0F = drop_bit 8 len"
  proof -
    have "unat (drop_bit 8 len) < 2 ^ 4"
      using assms by (simp add: unat_drop_bit_eq drop_bit_eq_div unat_div)
    then have "take_bit 4 (drop_bit 8 len) = drop_bit 8 len"
      by (simp add: word_unat_eq_iff unsigned_take_bit_eq take_bit_nat_eq_self)
    then show ?thesis by (simp add: and_0x0F_mask)
  qed
  ultimately show ?thesis
    by (simp add: PCI_TYPE_FF_def unsigned_or_eq)
qed

lemma second_byte_FF: "ucast (len AND 0xFF) = (of_nat (unat len) :: u8)"
  by (rule bit_word_eqI) (auto simp: and_0xFF_mask bit_simps)

lemma sf_bytes:
  assumes "tx_wf l" "txState l \<noteq> ISOTP_TX_IDLE" "txLength l \<le> SF_MAX_DATA"
  shows "write_at (InitFrame[0 := ucast (push_bit 4 (ucast PCI_TYPE_SF) OR txLength l)]) 1
      (take (unat (txLength l)) (txBuffer (cfg l))) = sf_frame (tx_msg l)"
proof -
  have "ucast (push_bit 4 (ucast PCI_TYPE_SF) OR txLength l) = (of_nat (unat (txLength l)) :: u8)"
    by (simp add: PCI_TYPE_SF_def)
  moreover have "unat (txLength l) \<le> 7"
    using assms(3) by (simp add: word_le_nat_alt SF_MAX_DATA_def)
  ultimately show ?thesis
    using length_tx_msg [OF assms(1,2)]
    by (simp add: sf_frame_def write_frame1 flip: tx_msg_def)
qed

lemma ff_bytes:
  assumes "tx_wf l" "txState l \<noteq> ISOTP_TX_IDLE" "\<not> txLength l \<le> SF_MAX_DATA"
  shows "write_at (InitFrame[0 := ucast (push_bit 4 (ucast PCI_TYPE_FF) OR (drop_bit 8 (txLength l) AND 0x0F)),
      1 := ucast (txLength l AND 0xFF)]) 2 (take (unat FF_DATA) (txBuffer (cfg l))) = ff_frame (tx_msg l)"
proof -
  have len: "unat (txLength l) \<le> 4095" "7 < unat (txLength l)"
    using assms by (auto simp: tx_wf_def word_le_nat_alt SF_MAX_DATA_def)
  then have "take (unat FF_DATA) (txBuffer (cfg l)) = take 6 (tx_msg l)"
    by (simp add: tx_msg_def FF_DATA_def min_def)
  then show ?thesis
    using len length_tx_msg [OF assms(1,2)]
    by (simp only: ff_frame_def first_byte_FF second_byte_FF) (simp add: write_frame2)
qed

lemma cf_bytes:
  assumes "tx_wf l" "txState l \<noteq> ISOTP_TX_IDLE" "cf_pos k (txOffset l) (txSeq l) (txLength l)"
  shows "write_at (InitFrame[0 := push_bit 4 PCI_TYPE_CF OR txSeq l]) 1
      (take (unat (cf_chunk (txLength l - txOffset l))) (drop (unat (txOffset l)) (txBuffer (cfg l))))
     = cf_frame (Suc k) (cf_data (tx_msg l) (Suc k))"
proof -
  have len: "unat (txLength l) \<le> 4095" "unat (txLength l) \<le> length (txBuffer (cfg l))"
    using assms by (auto simp: tx_wf_def word_le_nat_alt)
  have off: "unat (txOffset l) = 6 + 7 * k" "txSeq l = cf_seq (Suc k)" "unat (txOffset l) < unat (txLength l)"
    using assms(3) by (auto simp: cf_pos_def word_less_nat_alt)
  have "take (unat (cf_chunk (txLength l - txOffset l))) (drop (unat (txOffset l)) (txBuffer (cfg l)))
      = cf_data (tx_msg l) (Suc k)"
    using off len cf_pos_step(1) [OF assms(3) len(1)]
    by (simp add: cf_data_def tx_msg_def drop_take min_def)
  then show ?thesis
    using off by (simp add: cf_frame_def write_frame1 cf_data_def PCI_TYPE_CF_def)
qed

end
