(* ===== verification/IsoTpProps.thy ===== *)
theory IsoTpProps
  imports IsoTpLink
begin

section \<open>Correctness of a link\<close>

text \<open>
  The sender (\<open>isotp_sender\<close>, with the confirmation callback's contract), its termination
  (\<open>isotp_sender_total\<close>), and the receiver (\<open>isotp_client\<close>, with the indication callback's
  contract). Every operation keeps \<open>link_wf\<close>.
\<close>

subsection \<open>Sender side\<close>

text \<open>The next consecutive frame, the link after it was sent at \<open>t\<close>, and the STmin test.\<close>

definition cf_out :: "IsoTp_Link_t \<Rightarrow> u8 list" where
  "cf_out l = write_at (InitFrame[0 := push_bit 4 PCI_TYPE_CF OR txSeq l]) 1
     (take (unat (cf_chunk (txLength l - txOffset l))) (drop (unat (txOffset l)) (txBuffer (cfg l))))"

definition cf_sent :: "u32 \<Rightarrow> IsoTp_Link_t \<Rightarrow> IsoTp_Link_t" where
  "cf_sent t l = l\<lparr>txOffset := txOffset l + cf_chunk (txLength l - txOffset l),
     txSeq := (txSeq l + 1) AND SEQ_MASK, txLastCfTime := t\<rparr>"

definition may_send :: "('w, 'm) IsoTp_TxOps_scheme \<Rightarrow> IsoTp_Link_t \<Rightarrow> 'w \<Rightarrow> 'w \<Rightarrow> bool" where
  "may_send ops l w w1 =
     (if 0 < txStMinMs l
      then \<exists>t. getTimeMs ops w = (t, w1) \<and> txStMinMs l < t - txLastCfTime l else w1 = w)"

locale isotp_sender =
  fixes ops :: "('w, 'm) IsoTp_TxOps_scheme"
  assumes conf_keeps:
    "txConfirmation ops = Some f \<Longrightarrow> f r (l, w) = Some s' \<Longrightarrow> fst s' = l"
begin

lemma TxFinish_link:
  "TxFinish ops r (l, w) = Some s' \<Longrightarrow> fst s' = l\<lparr>txState := ISOTP_TX_IDLE\<rparr>"
  by (auto simp: TxFinish_def upd_pair Let_def dest: conf_keeps split: option.splits)

lemma TxSendFirst_cases:
  assumes "TxSendFirst ops (l, w) = Some (ok, s')"
  obtains (refused) "\<not> ok" "fst s' = l"
  | (single) "ok" "txLength l \<le> SF_MAX_DATA" "fst s' = l\<lparr>txState := ISOTP_TX_IDLE\<rparr>"
  | (first) t where "ok" "\<not> txLength l \<le> SF_MAX_DATA"
      "fst s' = l\<lparr>txOffset := FF_DATA, txSeq := 1, txWaitCount := 0, txState := ISOTP_TX_WAIT_FC,
        txTimerStart := t\<rparr>"
proof (cases "txLength l \<le> SF_MAX_DATA")
  case True
  with assms that(1,2) show thesis
    by (auto simp: TxSendFirst_def isotp_pairs Let_def split: if_splits prod.splits bind_splits
        dest!: TxFinish_link)
next
  case False
  with assms that(1,3) show thesis
    by (auto simp: TxSendFirst_def isotp_pairs Let_def split: if_splits prod.splits)
qed

lemma TxSendFirst_tx_wf:
  assumes "TxSendFirst ops (l, w) = Some (ok, s')" "tx_wf l" "txState l \<noteq> ISOTP_TX_IDLE"
  shows "tx_wf (fst s')" "rx_view (fst s') = rx_view l"
proof -
  have "cf_pos 0 6 1 (txLength l)" if "\<not> txLength l \<le> SF_MAX_DATA"
    using that by (auto simp: cf_pos_def cf_seq_def SF_MAX_DATA_def not_le word_less_nat_alt)
  then show "tx_wf (fst s')" "rx_view (fst s') = rx_view l"
    using assms(2,3)
    by (cases rule: TxSendFirst_cases [OF assms(1)];
        auto simp: tx_wf_def rx_view_def FF_DATA_def SF_MAX_DATA_def not_le)+
qed

lemma TxCfStep_cases:
  assumes "TxCfStep ops (l, w) = Some (keep, s')"
  obtains (stmin) "\<not> keep" "s' = (l, snd (getTimeMs ops w))" "0 < txStMinMs l"
      "fst (getTimeMs ops w) - txLastCfTime l \<le> txStMinMs l"
  | (refused) w1 w2 where "\<not> keep" "s' = (l, w2)" "may_send ops l w w1"
      "sendFrame ops (txId (cfg l)) (cf_out l) 8 w1 = (False, w2)"
  | (finished) w1 w2 t w3 where "keep" "may_send ops l w w1"
      "sendFrame ops (txId (cfg l)) (cf_out l) 8 w1 = (True, w2)" "getTimeMs ops w2 = (t, w3)"
      "txLength l \<le> txOffset l + cf_chunk (txLength l - txOffset l)"
      "TxFinish ops ISOTP_OK (cf_sent t l, w3) = Some s'"
  | (block) w1 w2 t w3 t' w4 where "keep" "may_send ops l w w1"
      "sendFrame ops (txId (cfg l)) (cf_out l) 8 w1 = (True, w2)" "getTimeMs ops w2 = (t, w3)"
      "\<not> txLength l \<le> txOffset l + cf_chunk (txLength l - txOffset l)"
      "txBlockSize l \<noteq> 0" "txBlockSize l \<le> txBlockCount l + 1" "getTimeMs ops w3 = (t', w4)"
      "s' = ((cf_sent t l)\<lparr>txBlockCount := txBlockCount l + 1, txState := ISOTP_TX_WAIT_FC,
        txTimerStart := t'\<rparr>, w4)"
  | (more) w1 w2 t w3 bc where "keep" "may_send ops l w w1"
      "sendFrame ops (txId (cfg l)) (cf_out l) 8 w1 = (True, w2)" "getTimeMs ops w2 = (t, w3)"
      "\<not> txLength l \<le> txOffset l + cf_chunk (txLength l - txOffset l)"
      "bc = (if txBlockSize l = 0 then txBlockCount l else txBlockCount l + 1)"
      "txBlockSize l \<noteq> 0 \<Longrightarrow> bc < txBlockSize l"
      "s' = ((cf_sent t l)\<lparr>txBlockCount := bc\<rparr>, w3)"
proof -
  define b where "b = (0 < txStMinMs l \<and> fst (getTimeMs ops w) - txLastCfTime l \<le> txStMinMs l)"
  define w1 where "w1 = (if 0 < txStMinMs l then snd (getTimeMs ops w) else w)"
  obtain ok w2 where send: "sendFrame ops (txId (cfg l)) (cf_out l) 8 w1 = (ok, w2)" by fastforce
  obtain t w3 where now: "getTimeMs ops w2 = (t, w3)" by fastforce
  obtain t' w4 where now': "getTimeMs ops w3 = (t', w4)" by fastforce
  have sb: "StMinBlocks ops (l, w) = (b, (l, w1))"
    by (simp add: StMinBlocks_def Elapsed_pair b_def w1_def)
  have may: "\<not> b \<Longrightarrow> may_send ops l w w1"
    by (auto simp: may_send_def b_def w1_def not_le intro!: exI [of _ "fst (getTimeMs ops w)"])
  have eq: "TxCfStep ops (l, w) =
     (if b then Some (False, (l, w1)) else if \<not> ok then Some (False, (l, w2))
      else if txLength l \<le> txOffset l + cf_chunk (txLength l - txOffset l)
      then do { s6 \<leftarrow> TxFinish ops ISOTP_OK (cf_sent t l, w3); Some (True, s6) }
      else if txBlockSize l \<noteq> 0
      then (if txBlockSize l \<le> txBlockCount l + 1
            then Some (True, ((cf_sent t l)\<lparr>txBlockCount := txBlockCount l + 1,
              txState := ISOTP_TX_WAIT_FC, txTimerStart := t'\<rparr>, w4))
            else Some (True, ((cf_sent t l)\<lparr>txBlockCount := txBlockCount l + 1\<rparr>, w3)))
      else Some (True, (cf_sent t l, w3)))"
    by (simp only: TxCfStep_def Let_def fst_conv sb prod.case cf_out_def [symmetric])
      (simp add: SendFrame_pair send upd_pair Now_pair now now' cf_sent_def)
  have bc: "(cf_sent t l)\<lparr>txBlockCount := txBlockCount l\<rparr> = cf_sent t l"
    by (simp add: cf_sent_def)
  show thesis
  proof (cases "b \<or> \<not> ok")
    case True
    then show thesis
      using assms eq that(1) that(2) [OF _ _ may] send by (auto simp: b_def w1_def split: if_splits)
  next
    case False
    then show thesis
      using assms eq bc send now now' may that(3-5)
      by (auto simp: not_le split: if_splits bind_splits)
  qed
qed

end

lemma TxCfLoop_inv_aux:
  assumes "TxCfLoop ops keep s = Some s'"
  shows "P s \<longrightarrow> (\<forall>s k s1. P s \<longrightarrow> txState (fst s) = ISOTP_TX_SEND_CF \<longrightarrow>
    TxCfStep ops s = Some (k, s1) \<longrightarrow> P s1) \<longrightarrow> P s'"
proof (rule TxCfLoop.raw_induct [OF _ assms, where P = "\<lambda>ops keep s s'. P s \<longrightarrow> (\<forall>s k s1. P s \<longrightarrow>
    txState (fst s) = ISOTP_TX_SEND_CF \<longrightarrow> TxCfStep ops s = Some (k, s1) \<longrightarrow> P s1) \<longrightarrow> P s'"])
  fix loop and ops :: "('a, 'b) IsoTp_TxOps_scheme" and keep and s s' :: "'a link_state"
  assume IH: "\<And>ops keep s s'. loop ops keep s = Some s' \<Longrightarrow> P s \<longrightarrow> (\<forall>s k s1. P s \<longrightarrow>
      txState (fst s) = ISOTP_TX_SEND_CF \<longrightarrow> TxCfStep ops s = Some (k, s1) \<longrightarrow> P s1) \<longrightarrow> P s'"
    and body: "(if keep \<and> txState (fst s) = ISOTP_TX_SEND_CF
      then TxCfStep ops s \<bind> (\<lambda>(keep, s'). loop ops keep s') else Some s) = Some s'"
  show "P s \<longrightarrow> (\<forall>s k s1. P s \<longrightarrow> txState (fst s) = ISOTP_TX_SEND_CF \<longrightarrow>
      TxCfStep ops s = Some (k, s1) \<longrightarrow> P s1) \<longrightarrow> P s'"
  proof (cases "keep \<and> txState (fst s) = ISOTP_TX_SEND_CF")
    case True
    with body obtain k s1 where "TxCfStep ops s = Some (k, s1)" "loop ops k s1 = Some s'"
      by (cases "TxCfStep ops s") auto
    with True IH [of ops k s1 s'] show ?thesis by blast
  next
    case False
    with body show ?thesis by (simp split: if_splits)
  qed
qed

lemma TxCfLoop_inv:
  assumes "TxCfLoop ops keep s = Some s'" "P s"
    and "\<And>s k s1. P s \<Longrightarrow> txState (fst s) = ISOTP_TX_SEND_CF \<Longrightarrow> TxCfStep ops s = Some (k, s1) \<Longrightarrow> P s1"
  shows "P s'"
  using TxCfLoop_inv_aux [OF assms(1), of P] assms(2,3) by blast

lemma TxCfLoop_stop: "\<not> (keep \<and> txState (fst s) = ISOTP_TX_SEND_CF) \<Longrightarrow> TxCfLoop ops keep s = Some s"
  by (subst TxCfLoop.simps) (simp only: if_False)

lemma TxCfLoop_step:
  "keep \<Longrightarrow> txState (fst s) = ISOTP_TX_SEND_CF \<Longrightarrow> TxCfStep ops s = Some (k, s1) \<Longrightarrow>
   TxCfLoop ops keep s = TxCfLoop ops k s1"
  by (subst TxCfLoop.simps) simp

lemma rx_view_tx_update [simp]:
  "rx_view (cf_sent t l) = rx_view l"
  "rx_view (l\<lparr>txState := st\<rparr>) = rx_view l"
  "rx_view (l\<lparr>txTimerStart := v\<rparr>) = rx_view l"
  "rx_view (l\<lparr>txBlockCount := c\<rparr>) = rx_view l"
  by (simp_all add: rx_view_def cf_sent_def)

lemma cf_sent_fields [simp]:
  "cfg (cf_sent t l) = cfg l" "txState (cf_sent t l) = txState l" "txLength (cf_sent t l) = txLength l"
  "txOffset (cf_sent t l) = txOffset l + cf_chunk (txLength l - txOffset l)"
  "txSeq (cf_sent t l) = (txSeq l + 1) AND 0x0F"
  "txStMinMs (cf_sent t l) = txStMinMs l" "txLastCfTime (cf_sent t l) = t"
  by (simp_all add: cf_sent_def SEQ_MASK_def)

text \<open>A link in the middle of a message, with \<open>k\<close> consecutive frames sent.\<close>

definition tx_at :: "nat \<Rightarrow> IsoTp_Link_t \<Rightarrow> bool" where
  "tx_at k l = (tx_wf l \<and> txState l \<in> {ISOTP_TX_WAIT_FC, ISOTP_TX_SEND_CF} \<and>
     cf_pos k (txOffset l) (txSeq l) (txLength l))"

lemma tx_at_ex: "tx_wf l \<Longrightarrow> txState l \<in> {ISOTP_TX_WAIT_FC, ISOTP_TX_SEND_CF} \<Longrightarrow> \<exists>k. tx_at k l"
  by (auto simp: tx_at_def tx_wf_def)

lemma tx_wf_idle: "tx_wf l \<Longrightarrow> tx_wf (l\<lparr>txState := ISOTP_TX_IDLE\<rparr>)"
  by (simp add: tx_wf_def)

lemma tx_at_sent:
  assumes "tx_at k l" "\<not> txLength l \<le> txOffset l + cf_chunk (txLength l - txOffset l)"
  shows "tx_at (Suc k) (cf_sent t l)"
    and "unat (txOffset (cf_sent t l)) = unat (txOffset l) + 7"
proof -
  have pos: "cf_pos k (txOffset l) (txSeq l) (txLength l)" and len: "unat (txLength l) \<le> 4095"
    using assms(1) by (auto simp: tx_at_def tx_wf_def word_le_nat_alt)
  note st = cf_pos_step [OF pos len]
  show "unat (txOffset (cf_sent t l)) = unat (txOffset l) + 7"
    using st(2,3) assms(2) by simp
  show "tx_at (Suc k) (cf_sent t l)"
    using st(4) assms by (auto simp: tx_at_def tx_wf_def)
qed

lemma tx_at_update:
  assumes "tx_at k l" "txState l' \<in> {ISOTP_TX_WAIT_FC, ISOTP_TX_SEND_CF}" "cfg l' = cfg l"
    "txLength l' = txLength l" "txOffset l' = txOffset l" "txSeq l' = txSeq l"
  shows "tx_at k l'"
  using assms by (auto simp: tx_at_def tx_wf_def)

context isotp_sender begin

lemma TxCfStep_tx_at:
  assumes "TxCfStep ops (l, w) = Some (keep, s')" "tx_at k l"
  shows "rx_view (fst s') = rx_view l"
    and "(tx_wf (fst s') \<and> txState (fst s') = ISOTP_TX_IDLE) \<or>
       (\<not> keep \<and> fst s' = l) \<or>
       (tx_at (Suc k) (fst s') \<and> unat (txOffset (fst s')) = unat (txOffset l) + 7 \<and>
        txLength (fst s') = txLength l)"
proof -
  have idle: "tx_wf ((cf_sent t l)\<lparr>txState := ISOTP_TX_IDLE\<rparr>)" for t
    using assms(2) by (simp add: tx_wf_def tx_at_def)
  show "rx_view (fst s') = rx_view l"
    by (cases rule: TxCfStep_cases [OF assms(1)]) (auto dest: TxFinish_link)
  show "(tx_wf (fst s') \<and> txState (fst s') = ISOTP_TX_IDLE) \<or>
       (\<not> keep \<and> fst s' = l) \<or>
       (tx_at (Suc k) (fst s') \<and> unat (txOffset (fst s')) = unat (txOffset l) + 7 \<and>
        txLength (fst s') = txLength l)"
    using assms(1)
  proof (cases rule: TxCfStep_cases)
    case (finished w1 w2 t w3)
    with idle show ?thesis by (auto dest: TxFinish_link)
  next
    case (block w1 w2 t w3 t' w4)
    have "tx_at (Suc k) (fst s')"
      by (rule tx_at_update [OF tx_at_sent(1) [OF assms(2) block(5), of t]]) (simp_all add: block)
    then show ?thesis
      using tx_at_sent(2) [OF assms(2) block(5), of t] block by simp
  next
    case (more w1 w2 t w3 bc)
    have st: "txState l \<in> {ISOTP_TX_WAIT_FC, ISOTP_TX_SEND_CF}"
      using assms(2) by (simp add: tx_at_def)
    have "tx_at (Suc k) (fst s')"
      by (rule tx_at_update [OF tx_at_sent(1) [OF assms(2) more(5), of t]])
        (use st in \<open>simp_all add: more\<close>)
    then show ?thesis
      using tx_at_sent(2) [OF assms(2) more(5), of t] more by simp
  qed simp_all
qed

lemma TxCfLoop_tx_wf:
  assumes "TxCfLoop ops keep (l, w) = Some s'" "tx_wf l"
  shows "tx_wf (fst s')" "rx_view (fst s') = rx_view l"
proof -
  have "tx_wf (fst s') \<and> rx_view (fst s') = rx_view l"
    using assms(1)
  proof (rule TxCfLoop_inv)
    show "tx_wf (fst (l, w)) \<and> rx_view (fst (l, w)) = rx_view l" using assms(2) by simp
  next
    fix s k s1
    assume s: "tx_wf (fst s) \<and> rx_view (fst s) = rx_view l" "txState (fst s) = ISOTP_TX_SEND_CF"
      and step: "TxCfStep ops s = Some (k, s1)"
    then obtain j where "tx_at j (fst s)" using tx_at_ex by blast
    with TxCfStep_tx_at [of "fst s" "snd s" k s1 j] s step
    show "tx_wf (fst s1) \<and> rx_view (fst s1) = rx_view l"
      by (auto simp: tx_at_def)
  qed
  then show "tx_wf (fst s')" "rx_view (fst s') = rx_view l" by simp_all
qed

end

text \<open>A guard \<open>Q\<close> of the caller's world that driver and clock keep, and under which the confirmation callback
  returns and keeps it: then the sending loop returns.\<close>

locale isotp_sender_guarded = isotp_sender ops for ops :: "('w, 'm) IsoTp_TxOps_scheme" +
  fixes Q :: "'w \<Rightarrow> bool"
  assumes send_Q: "sendFrame ops i f n w = (ok, w') \<Longrightarrow> Q w \<Longrightarrow> Q w'"
    and time_Q: "getTimeMs ops w = (t, w') \<Longrightarrow> Q w \<Longrightarrow> Q w'"
    and conf_Q: "txConfirmation ops = Some cb \<Longrightarrow> Q w \<Longrightarrow> \<exists>s'. cb r (l, w) = Some s' \<and> Q (snd s')"
begin

lemma TxFinish_Q: "Q (snd s) \<Longrightarrow> \<exists>s'. TxFinish ops r s = Some s' \<and> Q (snd s')"
  using conf_Q by (cases s) (auto simp: TxFinish_def upd_pair Let_def split: option.split)

lemma Now_Q: "Now ops s = (t, s') \<Longrightarrow> Q (snd s) \<Longrightarrow> Q (snd s')"
  by (auto simp: Now_def split: prod.splits dest: time_Q)

lemma SendFrame_Q: "SendFrame ops f s = (ok, s') \<Longrightarrow> Q (snd s) \<Longrightarrow> Q (snd s')"
  by (auto simp: SendFrame_def split: prod.splits dest: send_Q)

lemma StMinBlocks_Q: "StMinBlocks ops s = (b, s') \<Longrightarrow> Q (snd s) \<Longrightarrow> Q (snd s')"
  by (auto simp: StMinBlocks_def Elapsed_def split: if_splits prod.splits dest: Now_Q)

lemma upd_Q: "Q (snd (upd g s)) = Q (snd s)"
  by (simp add: upd_def)

lemma TxCfStep_Q:
  assumes "Q (snd s)"
  shows "\<exists>k s'. TxCfStep ops s = Some (k, s') \<and> Q (snd s')"
proof -
  have fin: "\<exists>k s'. (do { s6 \<leftarrow> TxFinish ops ISOTP_OK s; Some (True, s6) }) = Some (k, s') \<and> Q (snd s')" if "Q (snd s)" for s
    using TxFinish_Q [OF that, of ISOTP_OK] by auto
  show ?thesis
    using assms by (auto simp: TxCfStep_def Let_def fin upd_Q simp del: split_paired_Ex split: prod.split
        dest!: StMinBlocks_Q SendFrame_Q Now_Q)
qed

lemma TxCfLoop_Q:
  assumes "tx_wf (fst s)" "Q (snd s)"
  shows "\<exists>s'. TxCfLoop ops keep s = Some s' \<and> Q (snd s')"
  using assms
proof (induction "unat (txLength (fst s)) - unat (txOffset (fst s))" arbitrary: s keep rule: less_induct)
  case less
  show ?case
  proof (cases "keep \<and> txState (fst s) = ISOTP_TX_SEND_CF")
    case False
    then have "TxCfLoop ops keep s = Some s" by (rule TxCfLoop_stop)
    then show ?thesis using less.prems by blast
  next
    case True
    then obtain k where k: "tx_at k (fst s)" using less.prems tx_at_ex by blast
    obtain keep' s1 where step: "TxCfStep ops s = Some (keep', s1)" "Q (snd s1)"
      using TxCfStep_Q [OF less.prems(2)] by blast
    have loop: "TxCfLoop ops keep s = TxCfLoop ops keep' s1"
      using True step by (intro TxCfLoop_step) simp_all
    show ?thesis
    proof (cases "keep' \<and> txState (fst s1) = ISOTP_TX_SEND_CF")
      case False
      then have "TxCfLoop ops keep' s1 = Some s1" by (rule TxCfLoop_stop)
      with loop step(2) show ?thesis by simp
    next
      case cont: True
      then have s1: "tx_at (Suc k) (fst s1)" "unat (txOffset (fst s1)) = unat (txOffset (fst s)) + 7"
        "txLength (fst s1) = txLength (fst s)"
        using TxCfStep_tx_at(2) [of "fst s" "snd s" keep' s1 k] step k by auto
      have "unat (txOffset (fst s)) < unat (txLength (fst s))"
        using k by (auto simp: tx_at_def cf_pos_def word_less_nat_alt)
      then have "\<exists>s'. TxCfLoop ops keep' s1 = Some s' \<and> Q (snd s')"
        using s1 step(2) by (intro less.hyps) (auto simp: tx_at_def)
      with loop show ?thesis by simp
    qed
  qed
qed

end

text \<open>If the confirmation callback always returns, so does the sending loop.\<close>

locale isotp_sender_total = isotp_sender +
  assumes conf_returns: "txConfirmation ops = Some f \<Longrightarrow> f r s \<noteq> None"

sublocale isotp_sender_total \<subseteq> guarded: isotp_sender_guarded ops "\<lambda>_. True"
proof unfold_locales
  fix cb r l w
  assume "txConfirmation ops = Some cb"
  then have "cb r (l, w) \<noteq> None" by (rule conf_returns)
  then show "\<exists>s'. cb r (l, w) = Some s' \<and> True" by (simp only: not_None_eq simp_thms)
qed simp_all

context isotp_sender_total begin

lemma TxCfStep_returns: "TxCfStep ops s \<noteq> None"
  using guarded.TxCfStep_Q [OF TrueI, of s] by (metis option.distinct(1))

lemma TxCfLoop_returns: "tx_wf (fst s) \<Longrightarrow> \<exists>s'. TxCfLoop ops keep s = Some s'"
  using guarded.TxCfLoop_Q [of s keep] by blast

end

context isotp_sender begin

lemma TxSendConsecutiveFrames_tx_wf:
  assumes "TxSendConsecutiveFrames ops (l, w) = Some s'" "tx_wf l"
  shows "tx_wf (fst s')" "rx_view (fst s') = rx_view l"
  using TxCfLoop_tx_wf assms by (auto simp: TxSendConsecutiveFrames_def)

lemma TxFinish_tx_wf:
  assumes "TxFinish ops r (l, w) = Some s'" "tx_wf l"
  shows "tx_wf (fst s')" "rx_view (fst s') = rx_view l"
  using TxFinish_link [OF assms(1)] assms(2) by (simp_all add: tx_wf_idle)

lemma TxOnFlowControl_tx_wf:
  assumes "TxOnFlowControl ops data dlc (l, w) = Some s'" "tx_wf l"
  shows "tx_wf (fst s') \<and> rx_view (fst s') = rx_view l"
proof (cases "txState l = ISOTP_TX_WAIT_FC \<and> \<not> dlc < 3")
  case False
  with assms show ?thesis by (auto simp: TxOnFlowControl_def)
next
  case wait: True
  define fs where "fs = data ! 0 AND 0x0F"
  consider "fs = FC_STATUS_CTS" | "fs = FC_STATUS_WAIT" "fs \<noteq> FC_STATUS_CTS"
    | "fs \<noteq> FC_STATUS_WAIT" "fs \<noteq> FC_STATUS_CTS" by blast
  then show ?thesis
  proof cases
    case 1
    define t where "t = fst (getTimeMs ops w)"
    define l1 where "l1 = l\<lparr>txBlockSize := data ! 1, txBlockCount := 0, txWaitCount := 0,
      txStMinMs := DecodeStMin (data ! 2), txLastCfTime := t - (DecodeStMin (data ! 2) + 1),
      txState := ISOTP_TX_SEND_CF\<rparr>"
    have "TxSendConsecutiveFrames ops (l1, snd (getTimeMs ops w)) = Some s'"
      using assms(1) wait 1
      by (simp add: TxOnFlowControl_def isotp_pairs Let_def l1_def t_def flip: fs_def)
    moreover have "tx_wf l1" using assms(2) wait by (simp add: l1_def tx_wf_def)
    ultimately have "tx_wf (fst s')" "rx_view (fst s') = rx_view l1"
      by (rule TxSendConsecutiveFrames_tx_wf)+
    then show ?thesis by (simp add: l1_def rx_view_def)
  next
    case 2
    then show ?thesis
      using assms wait TxFinish_tx_wf [of ISOTP_ERR_WFT_OVRN "l\<lparr>txWaitCount := txWaitCount l + 1\<rparr>" w s']
      by (auto simp: TxOnFlowControl_def isotp_pairs Let_def tx_wf_def rx_view_def
          simp flip: fs_def split: if_splits)
  next
    case 3
    then show ?thesis
      using assms wait TxFinish_tx_wf [OF _ assms(2)]
      by (auto simp: TxOnFlowControl_def isotp_pairs Let_def simp flip: fs_def split: if_splits)
  qed
qed

lemma TxTimeoutCheck_tx_wf:
  assumes "TxTimeoutCheck ops (l, w) = Some s'" "tx_wf l"
  shows "tx_wf (fst s') \<and> rx_view (fst s') = rx_view l"
  using assms TxFinish_tx_wf [OF _ assms(2)]
  by (auto simp: TxTimeoutCheck_def Elapsed_pair split: if_splits)

lemma TxMain_tx_wf:
  assumes "TxMain ops (l, w) = Some s'" "tx_wf l"
  shows "tx_wf (fst s') \<and> rx_view (fst s') = rx_view l"
proof (cases "txState l")
  case ISOTP_TX_SEND_FIRST
  with assms(1) obtain ok s1 where s1: "TxSendFirst ops (l, w) = Some (ok, s1)"
    "(if ok then Some s1 else TxTimeoutCheck ops s1) = Some s'"
    by (auto simp: TxMain_def split: bind_splits)
  then have "tx_wf (fst s1)" "rx_view (fst s1) = rx_view l"
    using TxSendFirst_tx_wf [OF s1(1) assms(2)] ISOTP_TX_SEND_FIRST by simp_all
  then show ?thesis
    using s1(2) TxTimeoutCheck_tx_wf [of "fst s1" "snd s1" s'] by (auto split: if_splits)
qed (use assms TxTimeoutCheck_tx_wf [OF _ assms(2)] TxSendConsecutiveFrames_tx_wf [OF _ assms(2)]
    in \<open>auto simp: TxMain_def\<close>)

lemma IsoTp_Transmit_tx_wf:
  assumes "IsoTp_Transmit ops data len (l, w) = Some (r, s')" "tx_wf l"
  shows "tx_wf (fst s') \<and> rx_view (fst s') = rx_view l"
proof (cases "r = ISOTP_OK")
  case False
  with assms(1,2) show ?thesis
    by (auto simp: IsoTp_Transmit_def Let_def isotp_pairs split: option.splits if_splits bind_splits)
next
  case True
  define l1 where "l1 t bytes = l\<lparr>cfg := (cfg l)\<lparr>txBuffer := write_at (txBuffer (cfg l)) 0 (take (unat len) bytes)\<rparr>,
    txLength := len, txOffset := 0, txState := ISOTP_TX_SEND_FIRST, txTimerStart := t\<rparr>" for t bytes
  obtain bytes ok t w1 where b: "data = Some bytes" "len \<noteq> 0" "len \<le> 4095" "len \<le> txBufferSize (cfg l)"
    "TxSendFirst ops (l1 t bytes, w1) = Some (ok, s')"
    using assms(1) True
    by (auto simp: IsoTp_Transmit_def Let_def isotp_pairs ISOTP_MAX_MESSAGE_LEN_def not_less l1_def
        split: option.splits if_splits bind_splits)
  have "unat len \<le> length (txBuffer (cfg l))"
    using b assms(2) by (simp add: tx_wf_def word_le_nat_alt)
  then have "length (write_at (txBuffer (cfg l)) 0 (take (unat len) bytes)) = length (txBuffer (cfg l))"
    by (intro length_write_at) simp
  then have "tx_wf (l1 t bytes)"
    using b assms(2) by (simp add: tx_wf_def l1_def word_neq_0_conv)
  moreover have "txState (l1 t bytes) \<noteq> ISOTP_TX_IDLE" "rx_view (l1 t bytes) = rx_view l"
    by (simp_all add: l1_def rx_view_def)
  ultimately show ?thesis
    using TxSendFirst_tx_wf [OF b(5)] by simp
qed

end

subsection \<open>Receiver side\<close>

lemma tx_view_rx_update [simp]:
  "tx_view (l\<lparr>rxState := a\<rparr>) = tx_view l" "tx_view (l\<lparr>rxLength := b\<rparr>) = tx_view l"
  "tx_view (l\<lparr>rxOffset := b\<rparr>) = tx_view l" "tx_view (l\<lparr>rxSeq := c\<rparr>) = tx_view l"
  "tx_view (l\<lparr>rxBlockCount := c\<rparr>) = tx_view l" "tx_view (l\<lparr>rxTimerStart := d\<rparr>) = tx_view l"
  "tx_view (l\<lparr>rxFcPending := e\<rparr>) = tx_view l" "tx_view (l\<lparr>rxFcStatus := c\<rparr>) = tx_view l"
  "tx_view (store_rx off bs l) = tx_view l"
  by (simp_all add: tx_view_def store_rx_def)

lemma store_rx_fields [simp]:
  "rxState (store_rx off bs l) = rxState l" "rxLength (store_rx off bs l) = rxLength l"
  "rxOffset (store_rx off bs l) = rxOffset l" "rxSeq (store_rx off bs l) = rxSeq l"
  "rxBuffer (cfg (store_rx off bs l)) = write_at (rxBuffer (cfg l)) off bs"
  "rxBufferSize (cfg (store_rx off bs l)) = rxBufferSize (cfg l)"
  "rxBlockCount (store_rx off bs l) = rxBlockCount l"
  "blockSize (cfg (store_rx off bs l)) = blockSize (cfg l)"
  by (simp_all add: store_rx_def)

lemma RxSendFlowControl_view:
  "tx_view (fst (RxSendFlowControl ops fs s)) = tx_view (fst s)"
  "rx_wf (fst (RxSendFlowControl ops fs s)) = rx_wf (fst s)"
proof -
  obtain l w where s: "s = (l, w)" by fastforce
  obtain p st where "fst (RxSendFlowControl ops fs (l, w)) = l\<lparr>rxFcPending := p, rxFcStatus := st\<rparr>"
    using fst_RxSendFlowControl [of ops fs l w] by blast
  then show "tx_view (fst (RxSendFlowControl ops fs s)) = tx_view (fst s)"
    "rx_wf (fst (RxSendFlowControl ops fs s)) = rx_wf (fst s)"
    by (simp_all add: s rx_wf_def)
qed

lemma RxSendFlowControl_link_wf [simp]:
  "link_wf (fst (RxSendFlowControl ops fs s)) = link_wf (fst s)"
  by (simp only: link_wf_def RxSendFlowControl_view(2) tx_wf_cong [OF RxSendFlowControl_view(1)])

definition rx_at :: "nat \<Rightarrow> IsoTp_Link_t \<Rightarrow> bool" where
  "rx_at k l = (rx_wf l \<and> rxState l = ISOTP_RX_RECEIVING \<and> cf_pos k (rxOffset l) (rxSeq l) (rxLength l))"

lemma rx_at_ex: "rx_wf l \<Longrightarrow> rxState l = ISOTP_RX_RECEIVING \<Longrightarrow> \<exists>k. rx_at k l"
  by (auto simp: rx_at_def rx_wf_def)

lemma rx_wf_idle: "rx_wf l \<Longrightarrow> rx_wf (l\<lparr>rxState := ISOTP_RX_IDLE\<rparr>)"
  by (simp add: rx_wf_def)

lemma rx_wf_timer [simp]: "rx_wf (l\<lparr>rxTimerStart := t\<rparr>) = rx_wf l" "rx_wf (l\<lparr>rxBlockCount := c\<rparr>) = rx_wf l"
  by (simp_all add: rx_wf_def)

lemma tx_wf_rx_update [simp]:
  "tx_wf (l\<lparr>rxState := a\<rparr>) = tx_wf l" "tx_wf (l\<lparr>rxLength := b\<rparr>) = tx_wf l"
  "tx_wf (l\<lparr>rxOffset := b\<rparr>) = tx_wf l" "tx_wf (l\<lparr>rxSeq := c\<rparr>) = tx_wf l"
  "tx_wf (l\<lparr>rxBlockCount := c\<rparr>) = tx_wf l" "tx_wf (l\<lparr>rxTimerStart := d\<rparr>) = tx_wf l"
  "tx_wf (store_rx off bs l) = tx_wf l"
  by (simp_all add: tx_wf_def store_rx_def)

text \<open>
  What the link needs of the client's indication: it may transmit (the response to a
  request), but it leaves the receiving side alone.
\<close>

locale isotp_client = isotp_sender ops for ops :: "'w IsoTp_Ops" +
  assumes ind_keeps:
    "rxIndication ops = Some f \<Longrightarrow> f data n r (l, w) = Some s' \<Longrightarrow> tx_wf l \<Longrightarrow>
     tx_wf (fst s') \<and> rx_view (fst s') = rx_view l"
begin

lemma RxFinish_wf:
  assumes "RxFinish ops r (l, w) = Some s'" "tx_wf l"
  shows "tx_wf (fst s') \<and> rx_view (fst s') = rx_view (l\<lparr>rxState := ISOTP_RX_IDLE\<rparr>)"
  using assms
  by (auto simp: RxFinish_def upd_pair Let_def dest!: ind_keeps split: option.splits)

lemma RxFinish_link_wf:
  assumes "RxFinish ops r (l, w) = Some s'" "link_wf l"
  shows "link_wf (fst s')" "rxState (fst s') = ISOTP_RX_IDLE"
    "rxBufferSize (cfg (fst s')) = rxBufferSize (cfg l)"
proof -
  have s': "tx_wf (fst s')" "rx_view (fst s') = rx_view (l\<lparr>rxState := ISOTP_RX_IDLE\<rparr>)"
    using RxFinish_wf [OF assms(1)] assms(2) by (simp_all add: link_wf_def)
  then show "link_wf (fst s')"
    using assms(2) rx_wf_cong [OF s'(2)] by (simp add: link_wf_def rx_wf_idle)
  show "rxState (fst s') = ISOTP_RX_IDLE" "rxBufferSize (cfg (fst s')) = rxBufferSize (cfg l)"
    using rx_viewD(1,6) [OF s'(2)] by simp_all
qed

text \<open>The abort of a reception in progress that a new single or first frame causes.\<close>

lemma abort_link_wf:
  assumes "(if rxState l = ISOTP_RX_RECEIVING then RxFinish ops ISOTP_ERR_UNEXP_PDU (l, w)
      else Some (l, w)) = Some s1" "link_wf l"
  shows "link_wf (fst s1)" "rxState (fst s1) = ISOTP_RX_IDLE"
    "rxBufferSize (cfg (fst s1)) = rxBufferSize (cfg l)"
  using assms RxFinish_link_wf [of ISOTP_ERR_UNEXP_PDU l w s1]
  by (auto split: if_splits) (cases "rxState l"; simp)+

lemma RxOnSingleFrame_link_wf:
  assumes "RxOnSingleFrame ops data dlc (l, w) = Some s'" "link_wf l"
  shows "link_wf (fst s')"
proof -
  define n where "n = data ! 0 AND 0x0F"
  show ?thesis
  proof (cases "n = 0 \<or> (ucast n :: u16) > SF_MAX_DATA \<or> n > dlc - 1 \<or> (ucast n :: u16) > rxBufferSize (cfg l)")
    case True
    with assms show ?thesis by (auto simp: RxOnSingleFrame_def simp flip: n_def)
  next
    case False
    then obtain s1 where abort: "(if rxState l = ISOTP_RX_RECEIVING
        then RxFinish ops ISOTP_ERR_UNEXP_PDU (l, w) else Some (l, w)) = Some s1"
      and fin: "RxFinish ops ISOTP_OK (upd (\<lambda>l. (store_rx 0 (take (unat n) (drop 1 data)) l)
          \<lparr>rxLength := ucast n\<rparr>) s1) = Some s'"
      using assms(1)
      by (simp add: RxOnSingleFrame_def flip: n_def split: bind_splits)
    define l1 where "l1 = (store_rx 0 (take (unat n) (drop 1 data)) (fst s1))\<lparr>rxLength := ucast n\<rparr>"
    note s1 = abort_link_wf [OF abort assms(2)]
    have n256: "unat n < 2 ^ LENGTH(8)" by (rule unsigned_less)
    have "unat n \<le> unat (rxBufferSize (cfg l))"
      using False n256
      by (simp add: word_le_nat_alt not_less unsigned_ucast_eq take_bit_nat_def)
    then have "length (take (unat n) (drop 1 data)) \<le> length (rxBuffer (cfg (fst s1)))"
      using s1 by (simp add: link_wf_def rx_wf_def)
    then have "link_wf l1"
      using s1 by (simp add: link_wf_def rx_wf_def l1_def)
    then show ?thesis
      using fin RxFinish_link_wf(1) [of ISOTP_OK l1 "snd s1" s'] by (simp add: upd_def l1_def)
  qed
qed

lemma RxOnFirstFrame_link_wf:
  assumes "RxOnFirstFrame ops data dlc (l, w) = Some s'" "link_wf l"
  shows "link_wf (fst s')"
proof -
  define len where "len = (push_bit 8 (ucast (data ! 0) AND 0x0F) OR ucast (data ! 1) :: u16)"
  note eq = RxOnFirstFrame_def [of ops data dlc "(l, w)", folded len_def, unfolded Let_def [of len] fst_conv]
  have len4095: "len \<le> 4095"
  proof -
    have "len = take_bit 12 len"
      by (rule bit_word_eqI)
        (auto simp: len_def bit_simps and_0x0F_mask dest: bit_imp_le_length)
    then have "unat len < 2 ^ 12"
      by (metis take_bit_nat_less_exp unsigned_take_bit_eq)
    then show ?thesis by (simp add: word_le_nat_alt)
  qed
  show ?thesis
  proof (cases "dlc < ISOTP_CAN_DL \<or> len \<le> SF_MAX_DATA")
    case True
    with assms show ?thesis by (auto simp: eq)
  next
    case False
    then obtain s1 where abort: "(if rxState l = ISOTP_RX_RECEIVING
        then RxFinish ops ISOTP_ERR_UNEXP_PDU (l, w) else Some (l, w)) = Some s1"
      and rest: "(if len > rxBufferSize (cfg (fst s1)) then Some (RxSendFlowControl ops FC_STATUS_OVFLW s1)
          else
            (let s2 = upd (\<lambda>l. (store_rx 0 (take (unat FF_DATA) (drop 2 data)) l)
                       \<lparr>rxLength := len, rxOffset := FF_DATA, rxSeq := 1, rxBlockCount := 0,
                        rxState := ISOTP_RX_RECEIVING\<rparr>) s1;
                 (t, s3) = Now ops s2
             in Some (RxSendFlowControl ops FC_STATUS_CTS (upd (\<lambda>l. l\<lparr>rxTimerStart := t\<rparr>) s3)))) = Some s'"
      using assms(1)
      by (auto simp: eq simp del: Let_def split: bind_splits)
    note s1 = abort_link_wf [OF abort assms(2)]
    show ?thesis
    proof (cases "len > rxBufferSize (cfg (fst s1))")
      case True
      with rest s1 show ?thesis by auto
    next
      case fits: False
      define l2 where "l2 t = (store_rx 0 (take (unat FF_DATA) (drop 2 data)) (fst s1))
         \<lparr>rxLength := len, rxOffset := FF_DATA, rxSeq := 1, rxBlockCount := 0,
          rxState := ISOTP_RX_RECEIVING, rxTimerStart := t\<rparr>" for t
      obtain t w' where "s' = RxSendFlowControl ops FC_STATUS_CTS (l2 t, w')"
        using rest fits by (cases s1) (auto simp: isotp_pairs l2_def Let_def)
      moreover have "link_wf (l2 t)"
      proof -
        have "unat len \<le> length (rxBuffer (cfg (fst s1)))" "7 < unat len"
          using s1 fits False
          by (auto simp: link_wf_def rx_wf_def word_le_nat_alt word_less_nat_alt SF_MAX_DATA_def)
        moreover have "cf_pos 0 FF_DATA 1 len"
          using False by (auto simp: cf_pos_def cf_seq_def FF_DATA_def SF_MAX_DATA_def word_less_nat_alt word_le_nat_alt)
        ultimately show ?thesis
          using s1 fits False len4095
          by (auto simp: link_wf_def rx_wf_def l2_def FF_DATA_def SF_MAX_DATA_def not_le not_less)
      qed
      ultimately show ?thesis by simp
    qed
  qed
qed

lemma RxOnConsecutiveFrame_cases:
  assumes "RxOnConsecutiveFrame ops data dlc (l, w) = Some s'"
  defines "n \<equiv> cf_chunk (rxLength l - rxOffset l)"
  defines "l1 t \<equiv> (store_rx (unat (rxOffset l)) (take (unat n) (drop 1 data)) l)
      \<lparr>rxOffset := rxOffset l + n, rxSeq := (rxSeq l + 1) AND SEQ_MASK, rxTimerStart := t\<rparr>"
  obtains (ignored) "rxState l \<noteq> ISOTP_RX_RECEIVING" "s' = (l, w)"
  | (wrong) "rxState l = ISOTP_RX_RECEIVING" "data ! 0 AND SEQ_MASK \<noteq> rxSeq l"
      "RxFinish ops ISOTP_ERR_WRONG_SN (l, w) = Some s'"
  | (short) "rxState l = ISOTP_RX_RECEIVING" "data ! 0 AND SEQ_MASK = rxSeq l" "s' = (l, w)"
      "(ucast n :: u32) > ucast dlc - 1"
  | (complete) t w1 where "rxState l = ISOTP_RX_RECEIVING" "data ! 0 AND SEQ_MASK = rxSeq l"
      "\<not> (ucast n :: u32) > ucast dlc - 1" "getTimeMs ops w = (t, w1)"
      "rxLength l \<le> rxOffset l + n" "RxFinish ops ISOTP_OK (l1 t, w1) = Some s'"
  | (more) t w1 s2 bc where "rxState l = ISOTP_RX_RECEIVING" "data ! 0 AND SEQ_MASK = rxSeq l"
      "\<not> (ucast n :: u32) > ucast dlc - 1" "getTimeMs ops w = (t, w1)"
      "\<not> rxLength l \<le> rxOffset l + n" "s2 = ((l1 t)\<lparr>rxBlockCount := bc\<rparr>, w1)"
      "s' = s2 \<and> (blockSize (cfg l) \<noteq> 0 \<longrightarrow> bc = rxBlockCount l + 1 \<and> bc < blockSize (cfg l)) \<or>
       s' = RxSendFlowControl ops FC_STATUS_CTS s2 \<and> bc = 0 \<and> blockSize (cfg l) \<noteq> 0 \<and>
         blockSize (cfg l) \<le> rxBlockCount l + 1"
proof -
  obtain t w1 where now: "getTimeMs ops w = (t, w1)" by fastforce
  have bc: "(l1 t)\<lparr>rxBlockCount := rxBlockCount l\<rparr> = l1 t"
    by (simp add: l1_def store_rx_def)
  have eq: "RxOnConsecutiveFrame ops data dlc (l, w) =
    (if rxState l \<noteq> ISOTP_RX_RECEIVING then Some (l, w)
     else if data ! 0 AND SEQ_MASK \<noteq> rxSeq l then RxFinish ops ISOTP_ERR_WRONG_SN (l, w)
     else if (ucast n :: u32) > ucast dlc - 1 then Some (l, w)
     else if rxLength l \<le> rxOffset l + n then RxFinish ops ISOTP_OK (l1 t, w1)
     else if blockSize (cfg l) \<noteq> 0 then
       (if blockSize (cfg l) \<le> rxBlockCount l + 1
        then Some (RxSendFlowControl ops FC_STATUS_CTS ((l1 t)\<lparr>rxBlockCount := 0\<rparr>, w1))
        else Some ((l1 t)\<lparr>rxBlockCount := rxBlockCount l + 1\<rparr>, w1))
     else Some (l1 t, w1))"
    unfolding RxOnConsecutiveFrame_def Let_def fst_conv n_def [symmetric]
    by (simp add: isotp_pairs now l1_def store_rx_def)
  show thesis
  proof (cases "rxState l \<noteq> ISOTP_RX_RECEIVING")
    case True
    with assms(1) eq show thesis by (intro that(1)) simp_all
  next
    case rcv: False
    show thesis
    proof (cases "data ! 0 AND SEQ_MASK \<noteq> rxSeq l")
      case True
      with assms(1) eq rcv show thesis by (intro that(2)) simp_all
    next
      case sn: False
      show thesis
      proof (cases "(ucast n :: u32) > ucast dlc - 1")
        case True
        have "Some s' = Some (l, w)"
          using assms(1) unfolding eq using rcv sn True by (simp only: if_True if_False not_not)
        with rcv sn True show thesis by (intro that(3)) simp_all
      next
        case len: False
        show thesis
        proof (cases "rxLength l \<le> rxOffset l + n")
          case True
          have "RxFinish ops ISOTP_OK (l1 t, w1) = Some s'"
            using assms(1) unfolding eq using rcv sn len True by (simp only: if_True if_False not_not)
          with rcv sn len True now show thesis by (intro that(4)) simp_all
        next
          case False
          have "(if blockSize (cfg l) \<noteq> 0 then
             (if blockSize (cfg l) \<le> rxBlockCount l + 1
              then Some (RxSendFlowControl ops FC_STATUS_CTS ((l1 t)\<lparr>rxBlockCount := 0\<rparr>, w1))
              else Some ((l1 t)\<lparr>rxBlockCount := rxBlockCount l + 1\<rparr>, w1))
             else Some ((l1 t)\<lparr>rxBlockCount := rxBlockCount l\<rparr>, w1)) = Some s'"
            using assms(1) unfolding eq bc using rcv sn len False by (simp only: if_True if_False not_not)
          with that(5) [OF _ _ len now False refl] rcv sn show thesis
            by (auto simp: not_le split: if_splits)
        qed
      qed
    qed
  qed
qed

text \<open>The link after a consecutive frame with the expected sequence number was stored.\<close>

lemma cf_stored:
  assumes "rx_at k l" "n = cf_chunk (rxLength l - rxOffset l)"
    and "l1 = (store_rx (unat (rxOffset l)) (take (unat n) (drop 1 data)) l)
      \<lparr>rxOffset := rxOffset l + n, rxSeq := (rxSeq l + 1) AND SEQ_MASK, rxTimerStart := t\<rparr>"
  shows "rx_wf (l1\<lparr>rxState := ISOTP_RX_IDLE\<rparr>)"
    and "\<not> rxLength l \<le> rxOffset l + n \<Longrightarrow> rx_at (Suc k) l1"
proof -
  have pos: "cf_pos k (rxOffset l) (rxSeq l) (rxLength l)" and len: "unat (rxLength l) \<le> 4095"
    and size: "unat (rxLength l) \<le> length (rxBuffer (cfg l))"
    and st: "rxState l = ISOTP_RX_RECEIVING" and wf: "rx_wf l"
    using assms(1) by (auto simp: rx_at_def rx_wf_def word_le_nat_alt)
  note step = cf_pos_step [OF pos len, folded assms(2)]
  have "unat (rxOffset l) + unat n \<le> length (rxBuffer (cfg l))"
    using step(1) size pos by (auto simp: cf_pos_def word_less_nat_alt)
  then have buf: "length (rxBuffer (cfg l1)) = length (rxBuffer (cfg l))"
    by (simp add: assms(3))
  then show "rx_wf (l1\<lparr>rxState := ISOTP_RX_IDLE\<rparr>)"
    using wf by (simp add: rx_wf_def assms(3))
  show "rx_at (Suc k) l1" if "\<not> rxLength l \<le> rxOffset l + n"
    using step(4) [OF that] buf wf st by (auto simp: rx_at_def rx_wf_def assms(3) SEQ_MASK_def)
qed

lemma RxOnConsecutiveFrame_link_wf:
  assumes "RxOnConsecutiveFrame ops data dlc (l, w) = Some s'" "link_wf l"
  shows "link_wf (fst s')"
  using assms(1)
proof (cases rule: RxOnConsecutiveFrame_cases)
  case wrong
  then show ?thesis using RxFinish_link_wf(1) assms(2) by blast
next
  case (complete t w1)
  obtain k where k: "rx_at k l" using complete(1) assms(2) rx_at_ex by (auto simp: link_wf_def)
  note st = cf_stored(1) [OF k refl refl, where data = data and t = t]
  from RxFinish_wf [OF complete(6)] assms(2)
  have s': "tx_wf (fst s')" "rx_view (fst s') = rx_view (((store_rx (unat (rxOffset l))
        (take (unat (cf_chunk (rxLength l - rxOffset l))) (drop 1 data)) l)
      \<lparr>rxOffset := rxOffset l + cf_chunk (rxLength l - rxOffset l),
       rxSeq := (rxSeq l + 1) AND SEQ_MASK, rxTimerStart := t\<rparr>)\<lparr>rxState := ISOTP_RX_IDLE\<rparr>)"
    by (simp_all add: link_wf_def)
  show ?thesis
    using s'(1) st rx_wf_cong [OF s'(2)] by (simp only: link_wf_def)
next
  case (more t w1 s2 bc)
  obtain k where k: "rx_at k l" using more(1) assms(2) rx_at_ex by (auto simp: link_wf_def)
  have "rx_at (Suc k) ((store_rx (unat (rxOffset l))
        (take (unat (cf_chunk (rxLength l - rxOffset l))) (drop 1 data)) l)
      \<lparr>rxOffset := rxOffset l + cf_chunk (rxLength l - rxOffset l),
       rxSeq := (rxSeq l + 1) AND SEQ_MASK, rxTimerStart := t\<rparr>)"
    using cf_stored(2) [OF k refl refl more(5)] .
  then have "link_wf (fst s2)"
    using assms(2) more(6) by (simp add: link_wf_def rx_at_def rx_wf_def)
  then show ?thesis using more(7) by auto
qed (use assms(2) in simp_all)

text \<open>Every entry point keeps the invariant.\<close>

lemma link_wf_tx_step:
  "tx_wf l' \<and> rx_view l' = rx_view l \<Longrightarrow> link_wf l \<Longrightarrow> link_wf l'"
  using rx_wf_cong [of l' l] by (simp add: link_wf_def)

lemma IsoTp_RxFrame_link_wf:
  assumes "IsoTp_RxFrame ops data dlc (l, w) = Some s'" "link_wf l"
  shows "link_wf (fst s')"
proof -
  have fc: "link_wf (fst s')" if "TxOnFlowControl ops bytes dlc (l, w) = Some s'" for bytes
    using link_wf_tx_step [OF TxOnFlowControl_tx_wf [OF that]] assms(2) by (simp add: link_wf_def)
  show ?thesis
    using assms fc
    by (auto simp: IsoTp_RxFrame_def Let_def dest: RxOnSingleFrame_link_wf RxOnFirstFrame_link_wf
        RxOnConsecutiveFrame_link_wf split: option.splits if_splits)
qed

lemma RxMain_link_wf:
  assumes "RxMain ops (l, w) = Some s'" "link_wf l"
  shows "link_wf (fst s')"
proof -
  define s1 where "s1 = (if rxFcPending l then RxSendFlowControl ops (rxFcStatus l) (l, w) else (l, w))"
  have wf: "link_wf (fst s1)" using assms(2) by (simp add: s1_def)
  obtain l1 w1 where l1: "s1 = (l1, w1)" by fastforce
  show ?thesis
    using assms(1) wf RxFinish_link_wf(1) [of ISOTP_ERR_TIMEOUT_CR l1]
    unfolding RxMain_def fst_conv s1_def [symmetric] Let_def [of s1]
    by (auto simp: l1 Elapsed_pair split: if_splits)
qed

lemma TxMain_link_wf:
  assumes "TxMain ops s = Some s'" "link_wf (fst s)"
  shows "link_wf (fst s')"
  using link_wf_tx_step [OF TxMain_tx_wf [of "fst s" "snd s" s']] assms by (simp add: link_wf_def)

lemma IsoTp_MainFunction_link_wf:
  assumes "IsoTp_MainFunction ops (l, w) = Some s'" "link_wf l"
  shows "link_wf (fst s')"
  using assms by (auto simp: IsoTp_MainFunction_def split: bind_splits
      dest: RxMain_link_wf TxMain_link_wf)

lemma IsoTp_Transmit_link_wf:
  assumes "IsoTp_Transmit ops data len (l, w) = Some (r, s')" "link_wf l"
  shows "link_wf (fst s')"
  using link_wf_tx_step [OF IsoTp_Transmit_tx_wf [OF assms(1)]] assms(2)
  by (simp add: link_wf_def)

end

end
