(* ===== verification/IsoTpSender.thy ===== *)
theory IsoTpSender
  imports IsoTpProps
begin

section \<open>The frames a sender puts on the bus\<close>

text \<open>
  \<open>isotp_port\<close> is the contract of the CAN driver under a link: it keeps a log of the frames
  it accepted, which the clock and the confirmation callback do not write.
\<close>

locale isotp_port = isotp_sender ops for ops :: "('w, 'm) IsoTp_TxOps_scheme" +
  fixes sent :: "'w \<Rightarrow> (u16 \<times> u8 list) list"
  assumes send_log: "sendFrame ops i f 8 w = (ok, w') \<Longrightarrow> length f = 8 \<Longrightarrow>
      sent w' = (if ok then sent w @ [(i, f)] else sent w)"
    and time_log: "getTimeMs ops w = (t, w') \<Longrightarrow> sent w' = sent w"
    and conf_log: "txConfirmation ops = Some cb \<Longrightarrow> cb r (l, w) = Some s' \<Longrightarrow> sent (snd s') = sent w"
begin

lemma TxFinish_log: "TxFinish ops r (l, w) = Some s' \<Longrightarrow> sent (snd s') = sent w"
  by (auto simp: TxFinish_def upd_pair Let_def dest: conf_log split: option.splits)

lemma may_send_log: "may_send ops l w w1 \<Longrightarrow> sent w1 = sent w"
  by (auto simp: may_send_def dest: time_log split: if_splits)

lemma now_log: "sent (snd (getTimeMs ops w)) = sent w"
  by (rule time_log [of w "fst (getTimeMs ops w)"]) simp

text \<open>\<open>n\<close> frames of the message are out, the rest is still to come.\<close>

definition progress :: "(u16 \<times> u8 list) list \<Rightarrow> u8 list \<Rightarrow> nat \<Rightarrow> u16 \<Rightarrow> 'w link_state \<Rightarrow> bool" where
  "progress base msg n i s =
     (sent (snd s) = base @ map (Pair i) (take n (segment msg)) \<and> n \<le> length (segment msg) \<and>
      tx_wf (fst s) \<and> txId (cfg (fst s)) = i \<and>
      (txState (fst s) \<noteq> ISOTP_TX_IDLE \<longrightarrow> tx_msg (fst s) = msg \<and> n < length (segment msg)) \<and>
      (txState (fst s) = ISOTP_TX_SEND_FIRST \<longrightarrow> n = 0) \<and>
      (txState (fst s) \<in> {ISOTP_TX_WAIT_FC, ISOTP_TX_SEND_CF} \<longrightarrow> (\<exists>k. n = Suc k \<and> tx_at k (fst s))))"

end

text \<open>
  A message has been taken in the world \<open>w\<close>: if the driver accepts its first frame then, that frame is out, and the link is done or
  waits for the flow control; if it refuses the frame, the link holds the message to try again.
\<close>

definition tx_started ::
  "('w, 'm) IsoTp_TxOps_scheme \<Rightarrow> ('w \<Rightarrow> (u16 \<times> u8 list) list) \<Rightarrow> u8 list \<Rightarrow> u16 \<Rightarrow> 'w \<Rightarrow> 'w link_state \<Rightarrow> bool" where
  "tx_started ops sent msg i w s =
     (if fst (sendFrame ops i (hd (segment msg)) 8 (snd (getTimeMs ops w)))
      then sent (snd s) = sent w @ [(i, hd (segment msg))] \<and>
        txState (fst s) = (if length msg \<le> 7 then ISOTP_TX_IDLE else ISOTP_TX_WAIT_FC)
      else sent (snd s) = sent w \<and> txState (fst s) = ISOTP_TX_SEND_FIRST \<and> tx_msg (fst s) = msg)"

lemma length_segment: "length (segment msg) = (if length msg \<le> 7 then 1 else Suc (length msg div 7))"
  by (simp add: segment_def)

lemma segment_single: "length msg \<le> 7 \<Longrightarrow> segment msg = [sf_frame msg]"
  by (simp add: segment_def)

lemma nth_segment_0: "7 < length msg \<Longrightarrow> segment msg ! 0 = ff_frame msg"
  by (simp add: segment_def)

lemma nth_segment_Suc:
  "7 < length msg \<Longrightarrow> k < length msg div 7 \<Longrightarrow>
   segment msg ! Suc k = cf_frame (Suc k) (cf_data msg (Suc k))"
  by (simp add: segment_def del: upt_Suc)

text \<open>Frame \<open>Suc k\<close> exists while data is left, and it is the last when it takes all of it.\<close>

lemma cf_index:
  assumes "7 < n" "6 + 7 * k < n"
  shows "k < n div 7" and "n \<le> 13 + 7 * k \<Longrightarrow> Suc k = n div 7" and "13 + 7 * k < n \<Longrightarrow> Suc k < n div 7"
  using assms by (auto simp: div_nat_eqI Suc_le_eq less_eq_div_iff_mult_less_eq)

lemma tx_msg_update [simp]:
  "tx_msg (l\<lparr>txState := st\<rparr>) = tx_msg l" "tx_msg (l\<lparr>txTimerStart := t\<rparr>) = tx_msg l"
  "tx_msg (l\<lparr>txBlockCount := c\<rparr>) = tx_msg l" "tx_msg (cf_sent t l) = tx_msg l"
  "tx_msg (l\<lparr>txOffset := o'\<rparr>) = tx_msg l" "tx_msg (l\<lparr>txSeq := c\<rparr>) = tx_msg l"
  "tx_msg (l\<lparr>txWaitCount := c\<rparr>) = tx_msg l"
  by (simp_all add: tx_msg_def)


definition first_out :: "IsoTp_Link_t \<Rightarrow> u8 list" where
  "first_out l =
     (if txLength l \<le> SF_MAX_DATA
      then write_at (InitFrame[0 := ucast (push_bit 4 (ucast PCI_TYPE_SF) OR txLength l)]) 1
        (take (unat (txLength l)) (txBuffer (cfg l)))
      else write_at (InitFrame[0 := ucast (push_bit 4 (ucast PCI_TYPE_FF) OR (drop_bit 8 (txLength l) AND 0x0F)),
        1 := ucast (txLength l AND 0xFF)]) 2 (take (unat FF_DATA) (txBuffer (cfg l))))"

lemma length_first_out [simp]: "length (first_out l) = 8"
proof (cases "txLength l \<le> SF_MAX_DATA")
  case True
  then have "unat (txLength l) \<le> 7" by (simp add: SF_MAX_DATA_def word_le_nat_alt)
  then show ?thesis
    using True by (simp add: first_out_def InitFrame_def ISOTP_CAN_DL_def)
next
  case False
  then show ?thesis
    by (simp add: first_out_def InitFrame_def ISOTP_CAN_DL_def FF_DATA_def)
qed

lemma length_cf_out [simp]: "length (cf_out l) = 8"
proof -
  have "unat (cf_chunk (txLength l - txOffset l)) \<le> 7"
    by (auto simp: cf_chunk_def CF_MAX_DATA_def not_less word_le_nat_alt)
  then show ?thesis
    unfolding cf_out_def by (subst length_write_at) (simp_all add: InitFrame_def ISOTP_CAN_DL_def)
qed

lemma first_out_segment:
  assumes "tx_wf l" "txState l \<noteq> ISOTP_TX_IDLE"
  shows "first_out l = segment (tx_msg l) ! 0"
proof (cases "txLength l \<le> SF_MAX_DATA")
  case True
  then show ?thesis
    using length_tx_msg [OF assms] sf_bytes [OF assms True]
    by (simp only: first_out_def if_True) (simp add: segment_single SF_MAX_DATA_def word_le_nat_alt)
next
  case False
  then show ?thesis
    using length_tx_msg [OF assms] ff_bytes [OF assms False]
    by (simp only: first_out_def if_False) (simp add: nth_segment_0 SF_MAX_DATA_def word_le_nat_alt)
qed

lemma cf_out_segment:
  assumes "tx_at k l"
  shows "cf_out l = segment (tx_msg l) ! Suc k" "Suc k < length (segment (tx_msg l))"
    "txLength l \<le> txOffset l + cf_chunk (txLength l - txOffset l) \<longleftrightarrow>
     Suc (Suc k) = length (segment (tx_msg l))"
proof -
  have wf: "tx_wf l" "txState l \<noteq> ISOTP_TX_IDLE" "cf_pos k (txOffset l) (txSeq l) (txLength l)"
    and len4095: "unat (txLength l) \<le> 4095"
    using assms by (auto simp: tx_at_def tx_wf_def word_le_nat_alt)
  have len: "length (tx_msg l) = unat (txLength l)" "7 < length (tx_msg l)"
    using length_tx_msg [OF wf(1,2)] assms by (auto simp: tx_at_def tx_wf_def word_less_nat_alt)
  have pos: "6 + 7 * k < length (tx_msg l)"
    using wf(3) len by (simp add: cf_pos_def word_less_nat_alt)
  note idx = cf_index [OF len(2) pos]
  show "cf_out l = segment (tx_msg l) ! Suc k"
    using cf_bytes [OF wf] nth_segment_Suc [OF len(2) idx(1)] by (simp only: cf_out_def)
  show "Suc k < length (segment (tx_msg l))"
    using idx(1) len by (simp add: length_segment)
  have "txLength l \<le> txOffset l + cf_chunk (txLength l - txOffset l) \<longleftrightarrow> length (tx_msg l) \<le> 13 + 7 * k"
    using cf_pos_step(3) [OF wf(3) len4095] wf(3) len by (simp add: cf_pos_def)
  then show "txLength l \<le> txOffset l + cf_chunk (txLength l - txOffset l) \<longleftrightarrow>
     Suc (Suc k) = length (segment (tx_msg l))"
    using idx(2,3) len(2) by (cases "length (tx_msg l) \<le> 13 + 7 * k") (simp_all add: length_segment)
qed

lemma TxSendFirst_eq:
  assumes "sendFrame ops (txId (cfg l)) (first_out l) 8 w = (ok, w1)" "getTimeMs ops w1 = (t, w2)"
  shows "TxSendFirst ops (l, w) =
    (if \<not> ok then Some (False, (l, w1))
     else if txLength l \<le> SF_MAX_DATA then do { s2 \<leftarrow> TxFinish ops ISOTP_OK (l, w1); Some (True, s2) }
     else Some (True, (l\<lparr>txOffset := FF_DATA, txSeq := 1, txWaitCount := 0,
       txState := ISOTP_TX_WAIT_FC, txTimerStart := t\<rparr>, w2)))"
proof (cases "txLength l \<le> SF_MAX_DATA")
  case True
  then have "first_out l = write_at (InitFrame[0 := ucast (push_bit 4 (ucast PCI_TYPE_SF) OR txLength l)]) 1
        (take (unat (txLength l)) (txBuffer (cfg l)))" by (simp add: first_out_def)
  note f = this [symmetric]
  show ?thesis
    unfolding TxSendFirst_def Let_def fst_conv f using True assms by (simp add: SendFrame_pair)
next
  case False
  then have "first_out l = write_at (InitFrame[0 := ucast (push_bit 4 (ucast PCI_TYPE_FF) OR (drop_bit 8 (txLength l) AND 0x0F)),
        1 := ucast (txLength l AND 0xFF)]) 2 (take (unat FF_DATA) (txBuffer (cfg l)))"
    by (simp add: first_out_def)
  note f = this [symmetric]
  show ?thesis
    unfolding TxSendFirst_def Let_def fst_conv f using False assms
    by (simp add: SendFrame_pair upd_pair Now_pair)
qed

text \<open>A message that fits one frame.\<close>

lemma Transmit_single_eq:
  assumes "tx_wf l" "txState l = ISOTP_TX_IDLE" "0 < length msg" "length msg \<le> 7" "7 \<le> txBufferSize (cfg l)"
    and "l0 = (\<lambda>t. l\<lparr>cfg := (cfg l)\<lparr>txBuffer := write_at (txBuffer (cfg l)) 0 msg\<rparr>,
      txLength := of_nat (length msg), txOffset := 0, txState := ISOTP_TX_SEND_FIRST, txTimerStart := t\<rparr>)"
  shows "IsoTp_Transmit ops (Some msg) (of_nat (length msg)) (l, w) =
    (let (t, w1) = getTimeMs ops w; (ok, w2) = sendFrame ops (txId (cfg l)) (sf_frame msg) 8 w1
     in map_option (Pair ISOTP_OK) (if ok then TxFinish ops ISOTP_OK (l0 t, w2) else Some (l0 t, w2)))"
proof -
  define len :: u16 where "len = of_nat (length msg)"
  have n: "unat len = length msg" using assms(4) by (simp add: len_def unat_of_nat)
  have len: "len \<noteq> 0" "len \<le> 7" "\<not> len > ISOTP_MAX_MESSAGE_LEN" "len \<le> SF_MAX_DATA"
    using assms(3,4) n by (auto simp: isotp_consts word_less_nat_alt word_le_nat_alt)
  then have fit: "\<not> len > txBufferSize (cfg l)" using assms(5) by simp
  have size: "length msg \<le> length (txBuffer (cfg l))"
    using assms(1,4,5) by (simp add: tx_wf_def word_le_nat_alt)
  obtain t w1 where t: "getTimeMs ops w = (t, w1)" by fastforce
  obtain ok w2 where f: "sendFrame ops (txId (cfg l)) (sf_frame msg) 8 w1 = (ok, w2)" by fastforce
  have l0: "txLength (l0 t) = len" "txId (cfg (l0 t)) = txId (cfg l)" "txState (l0 t) = ISOTP_TX_SEND_FIRST"
    "tx_msg (l0 t) = msg" "txBuffer (cfg (l0 t)) = write_at (txBuffer (cfg l)) 0 msg" "txBufferSize (cfg (l0 t)) = txBufferSize (cfg l)"
    using n by (simp_all add: assms(6) len_def tx_msg_def write_at_0)
  have "0 < len" "len \<le> 4095" "len \<le> txBufferSize (cfg l)" using len fit by (simp_all add: isotp_consts word_gt_0)
  then have wf: "tx_wf (l0 t)" using assms(1) size by (simp add: tx_wf_def l0)
  have "first_out (l0 t) = sf_frame msg"
    using first_out_segment [OF wf] assms(4) by (simp add: l0 segment_single)
  then have "TxSendFirst ops (l0 t, w1) =
    (if \<not> ok then Some (False, (l0 t, w2)) else do { s2 \<leftarrow> TxFinish ops ISOTP_OK (l0 t, w2); Some (True, s2) })"
    using TxSendFirst_eq [of ops "l0 t" w1 ok w2] f len(4) by (simp add: l0 prod_eq_iff)
  moreover have "IsoTp_Transmit ops (Some msg) len (l, w)
     = do { (_, s3) \<leftarrow> TxSendFirst ops (l0 t, w1); Some (ISOTP_OK, s3) }"
    using assms(2) len fit n t by (simp add: IsoTp_Transmit_def Let_def isotp_pairs assms(6) flip: len_def)
  ultimately show ?thesis
    by (cases "TxFinish ops ISOTP_OK (l0 t, w2)") (auto simp: t f len_def)
qed

lemma length_sf_frame: "length msg \<le> 7 \<Longrightarrow> length (sf_frame msg) = 8"
  by (simp add: sf_frame_def)

context isotp_port begin

lemma progress_abort:
  assumes "progress base msg n i (l, w)" "TxFinish ops r (l, w) = Some s'"
  shows "progress base msg n i s'"
  using assms(1) TxFinish_link [OF assms(2)] TxFinish_log [OF assms(2)]
  by (simp add: progress_def tx_wf_idle)

lemma progress_env: "progress base msg n i (l, w) \<Longrightarrow> sent w' = sent w \<Longrightarrow> progress base msg n i (l, w')"
  by (simp add: progress_def)

lemma progress_update:
  assumes "progress base msg n i (l, w)" "sent w' = sent w" "txState l' = txState l" "cfg l' = cfg l"
    "txLength l' = txLength l" "txOffset l' = txOffset l" "txSeq l' = txSeq l"
  shows "progress base msg n i (l', w')"
proof -
  have "tx_wf l' = tx_wf l" "tx_msg l' = tx_msg l" "tx_at k l' = tx_at k l" for k
    using assms(3-7) by (simp_all add: tx_wf_def tx_msg_def tx_at_def)
  with assms show ?thesis by (simp add: progress_def)
qed

lemma progress_first:
  assumes "progress base msg n i (l, w)" "txState l = ISOTP_TX_SEND_FIRST"
    and "TxSendFirst ops (l, w) = Some (ok, s')"
  shows "progress base msg (if ok then 1 else 0) i s'" "\<not> ok \<Longrightarrow> fst s' = l"
proof -
  obtain w1 ok' where send: "sendFrame ops (txId (cfg l)) (first_out l) 8 w = (ok', w1)" by fastforce
  obtain t w2 where now: "getTimeMs ops w1 = (t, w2)" by fastforce
  note eq = TxSendFirst_eq [OF send now]
  have l: "tx_wf l" "txId (cfg l) = i" "tx_msg l = msg" "0 < length (segment msg)" "n = 0"
    "sent w = base"
    using assms(1,2) by (auto simp: progress_def)
  have len: "length msg = unat (txLength l)"
    using length_tx_msg [OF l(1)] assms(2) l(3) by simp
  have out: "first_out l = segment msg ! 0"
    using first_out_segment [OF l(1)] assms(2) l(3) by simp
  have sent1: "ok' \<Longrightarrow> sent w1 = base @ map (Pair i) (take 1 (segment msg))"
    using send_log [OF send length_first_out] l out by (simp add: take_Suc_conv_app_nth)
  have "progress base msg (if ok then 1 else 0) i s' \<and> (\<not> ok \<longrightarrow> fst s' = l)"
  proof (cases "ok' \<and> \<not> txLength l \<le> SF_MAX_DATA")
    case True
    then have "s' = (l\<lparr>txOffset := FF_DATA, txSeq := 1, txWaitCount := 0,
       txState := ISOTP_TX_WAIT_FC, txTimerStart := t\<rparr>, w2)" "ok"
      using assms(3) eq by auto
    moreover have "cf_pos 0 6 1 (txLength l)" "7 < txLength l"
      using True by (auto simp: cf_pos_def cf_seq_def SF_MAX_DATA_def word_less_nat_alt word_le_nat_alt)
    moreover have "1 < length (segment msg)"
      using True len by (simp add: length_segment SF_MAX_DATA_def word_le_nat_alt div_greater_zero_iff)
    ultimately show ?thesis
      using l sent1 True time_log [OF now] assms(2)
      by (auto simp: progress_def tx_at_def tx_wf_def FF_DATA_def tx_msg_def)
  next
    case False
    then consider "\<not> ok'" | "ok'" "txLength l \<le> SF_MAX_DATA" by blast
    then show ?thesis
    proof cases
      case 1
      then have "s' = (l, w1)" "\<not> ok" using assms(3) eq by auto
      with assms(1) send_log [OF send length_first_out] 1 l show ?thesis
        by (simp add: progress_def)
    next
      case 2
      then have fin: "TxFinish ops ISOTP_OK (l, w1) = Some s'" "ok"
        using assms(3) eq by (auto split: bind_splits)
      have "length (segment msg) = 1"
        using 2 len by (simp add: length_segment SF_MAX_DATA_def word_le_nat_alt)
      with fin TxFinish_link [OF fin(1)] TxFinish_log [OF fin(1)] sent1 2 l show ?thesis
        by (simp add: progress_def tx_wf_idle)
    qed
  qed
  then show "progress base msg (if ok then 1 else 0) i s'" "\<not> ok \<Longrightarrow> fst s' = l" by simp_all
qed

lemma progress_cf:
  assumes "progress base msg n i s" "txState (fst s) = ISOTP_TX_SEND_CF" "TxCfStep ops s = Some (keep, s')"
  shows "progress base msg n i s' \<and> \<not> keep \<or>
    progress base msg (Suc n) i s' \<and> keep"
proof -
  obtain l w where s: "s = (l, w)" by fastforce
  obtain k where k: "n = Suc k" "tx_at k l" and l: "tx_wf l" "txId (cfg l) = i" "tx_msg l = msg"
    "sent w = base @ map (Pair i) (take n (segment msg))" "n < length (segment msg)"
    using assms(1,2) by (auto simp: progress_def s)
  note out = cf_out_segment [OF k(2), unfolded l(3)]
  have more: "base @ map (Pair i) (take n (segment msg)) @ [(i, cf_out l)]
      = base @ map (Pair i) (take (Suc n) (segment msg))"
    using out(1) l(5) k(1) by (simp add: take_Suc_conv_app_nth)
  from assms(3) [unfolded s] show ?thesis
  proof (cases rule: TxCfStep_cases)
    case stmin
    then show ?thesis using assms(1) s by (auto intro: progress_env simp: now_log)
  next
    case (refused w1 w2)
    then show ?thesis
      using assms(1) s send_log [OF refused(4) length_cf_out] may_send_log [OF refused(3)]
      by (auto intro: progress_env)
  next
    case (finished w1 w2 t w3)
    have "sent w3 = base @ map (Pair i) (take (Suc n) (segment msg))"
      using send_log [OF finished(3) length_cf_out] may_send_log [OF finished(2)] time_log [OF finished(4)] l more by simp
    then show ?thesis
      using TxFinish_link [OF finished(6)] TxFinish_log [OF finished(6)] finished(1) l k
      by (simp add: progress_def tx_wf_def)
  next
    case (block w1 w2 t w3 t' w4)
    have "sent w4 = base @ map (Pair i) (take (Suc n) (segment msg))"
      using send_log [OF block(3) length_cf_out] may_send_log [OF block(2)] time_log [OF block(4)]
        time_log [OF block(8)] l more by simp
    moreover have "tx_at (Suc k) (fst s')"
      by (rule tx_at_update [OF tx_at_sent(1) [OF k(2) block(5), of t]]) (simp_all add: block)
    ultimately show ?thesis
      using block(1,5,9) out l k by (auto simp: progress_def tx_at_def)
  next
    case (more w1 w2 t w3 bc)
    have "sent w3 = base @ map (Pair i) (take (Suc n) (segment msg))"
      using send_log [OF more(3) length_cf_out] may_send_log [OF more(2)] time_log [OF more(4)] l
        \<open>base @ map (Pair i) (take n (segment msg)) @ [(i, cf_out l)] = _\<close> by simp
    moreover have "tx_at (Suc k) (fst s')"
      by (rule tx_at_update [OF tx_at_sent(1) [OF k(2) more(5), of t]])
        (use k(2) in \<open>simp_all add: more tx_at_def\<close>)
    ultimately show ?thesis
      using more(1,5,8) out l k assms(2) s by (auto simp: progress_def tx_at_def)
  qed
qed

lemma progress_loop:
  assumes "TxCfLoop ops keep s = Some s'" "progress base msg n i s"
  shows "\<exists>n. progress base msg n i s'"
  using assms(1)
proof (rule TxCfLoop_inv)
  show "\<exists>n. progress base msg n i s" using assms(2) by blast
  show "\<exists>n. progress base msg n i s1"
    if "\<exists>n. progress base msg n i s" "txState (fst s) = ISOTP_TX_SEND_CF"
      "TxCfStep ops s = Some (k, s1)" for s k s1
    using progress_cf that by blast
qed

lemma progress_fc:
  assumes "progress base msg n i (l, w)" "TxOnFlowControl ops data dlc (l, w) = Some s'"
  shows "\<exists>n. progress base msg n i s'"
proof (cases "txState l = ISOTP_TX_WAIT_FC \<and> \<not> dlc < 3")
  case False
  with assms show ?thesis by (auto simp: TxOnFlowControl_def)
next
  case wait: True
  define fs where "fs = data ! 0 AND 0x0F"
  show ?thesis
  proof (cases "fs = FC_STATUS_CTS")
    case True
    define t where "t = fst (getTimeMs ops w)"
    define l1 where "l1 = l\<lparr>txBlockSize := data ! 1, txBlockCount := 0, txWaitCount := 0,
      txStMinMs := DecodeStMin (data ! 2), txLastCfTime := t - (DecodeStMin (data ! 2) + 1),
      txState := ISOTP_TX_SEND_CF\<rparr>"
    have loop: "TxCfLoop ops True (l1, snd (getTimeMs ops w)) = Some s'"
      using assms(2) wait True
      by (simp add: TxOnFlowControl_def TxSendConsecutiveFrames_def isotp_pairs Let_def l1_def t_def
          flip: fs_def)
    have "tx_wf l1 = tx_wf l" "tx_msg l1 = tx_msg l" "\<And>k. tx_at k l1 = tx_at k l"
      using wait by (simp_all add: l1_def tx_wf_def tx_msg_def tx_at_def)
    then have "progress base msg n i (l1, snd (getTimeMs ops w))"
      using assms(1) wait by (simp add: progress_def now_log) (simp add: l1_def)
    with loop show ?thesis by (rule progress_loop)
  next
    case False
    define l1 where "l1 = l\<lparr>txWaitCount := txWaitCount l + 1\<rparr>"
    have "progress base msg n i (l1, w)"
      by (rule progress_update [OF assms(1)]) (simp_all add: l1_def)
    moreover have "progress base msg n i (l1\<lparr>txTimerStart := t\<rparr>, snd (getTimeMs ops w))" for t
      by (rule progress_update [OF assms(1)]) (simp_all add: l1_def now_log)
    moreover have "TxFinish ops ISOTP_ERR_WFT_OVRN (l1, w) = Some s' \<or>
        s' = (l1\<lparr>txTimerStart := fst (getTimeMs ops w)\<rparr>, snd (getTimeMs ops w)) \<or>
        TxFinish ops ISOTP_ERR_OVERFLOW (l, w) = Some s' \<or> TxFinish ops ISOTP_ERR_INVALID_FS (l, w) = Some s'"
      using assms(2) wait False
      by (auto simp: TxOnFlowControl_def isotp_pairs Let_def simp flip: fs_def l1_def split: if_splits)
    ultimately show ?thesis
      using progress_abort [of base msg n i l1 w _ s'] progress_abort [OF assms(1), of _ s'] by blast
  qed
qed

lemma progress_timeout:
  assumes "progress base msg n i (l, w)" "TxTimeoutCheck ops (l, w) = Some s'"
  shows "progress base msg n i s'"
  using assms progress_abort [of base msg n i l "snd (getTimeMs ops w)" ISOTP_ERR_TIMEOUT_BS s']
    progress_env [OF assms(1) now_log]
  by (auto simp: TxTimeoutCheck_def Elapsed_pair split: if_splits)

lemma progress_main:
  assumes "progress base msg n i (l, w)" "TxMain ops (l, w) = Some s'"
  shows "\<exists>n. progress base msg n i s'"
proof (cases "txState l")
  case ISOTP_TX_SEND_FIRST
  with assms(2) obtain ok s1 where s1: "TxSendFirst ops (l, w) = Some (ok, s1)"
    "(if ok then Some s1 else TxTimeoutCheck ops s1) = Some s'"
    by (auto simp: TxMain_def split: bind_splits)
  have "progress base msg (if ok then 1 else 0) i s1"
    using progress_first [OF assms(1) ISOTP_TX_SEND_FIRST s1(1)] by simp
  with s1(2) progress_timeout [of base msg 0 i "fst s1" "snd s1"] show ?thesis
    by (auto split: if_splits)
qed (use assms progress_timeout [OF assms(1)] progress_loop [OF _ assms(1)] in
    \<open>auto simp: TxMain_def TxSendConsecutiveFrames_def\<close>)

lemma first_started:
  assumes "progress base msg n i (l, w)" "txState l = ISOTP_TX_SEND_FIRST"
    and "TxSendFirst ops (l, w) = Some (ok, s')"
  shows "if fst (sendFrame ops i (hd (segment msg)) 8 w)
    then sent (snd s') = base @ [(i, hd (segment msg))] \<and> txState (fst s') = (if length msg \<le> 7 then ISOTP_TX_IDLE else ISOTP_TX_WAIT_FC)
    else sent (snd s') = base \<and> txState (fst s') = ISOTP_TX_SEND_FIRST \<and> tx_msg (fst s') = msg"
proof -
  obtain w1 ok' where send: "sendFrame ops (txId (cfg l)) (first_out l) 8 w = (ok', w1)" by fastforce
  obtain t w2 where now: "getTimeMs ops w1 = (t, w2)" by fastforce
  note eq = TxSendFirst_eq [OF send now] and p = progress_first [OF assms]
  have l: "tx_wf l" "txId (cfg l) = i" "tx_msg l = msg" "segment msg \<noteq> []"
    using assms(1,2) by (auto simp: progress_def)
  have len: "length msg = unat (txLength l)"
    using length_tx_msg [OF l(1)] assms(2) l(3) by simp
  have hd: "hd (segment msg) = segment msg ! 0" by (rule hd_conv_nth) (rule l(4))
  then have out: "first_out l = hd (segment msg)" using first_out_segment [OF l(1)] assms(2) l(3) by simp
  have acc: "fst (sendFrame ops i (hd (segment msg)) 8 w) = ok'" using send by (simp add: l(2) flip: out)
  show ?thesis
  proof (cases ok')
    case True
    then have ok: "ok" and st: "txState (fst s') = (if length msg \<le> 7 then ISOTP_TX_IDLE else ISOTP_TX_WAIT_FC)"
      using assms(3) eq len TxFinish_link
      by (auto simp: SF_MAX_DATA_def word_le_nat_alt split: if_splits bind_splits)
    have "sent (snd s') = base @ [(i, hd (segment msg))]"
      using p(1) ok l(4) by (simp add: progress_def hd take_Suc_conv_app_nth [of 0, simplified])
    with st True show ?thesis by (simp add: acc)
  next
    case False
    then have s': "\<not> ok" "s' = (l, w1)" using assms(3) eq by auto
    with False p(1) l(3) assms(2) show ?thesis by (simp add: acc progress_def)
  qed
qed

lemma progress_transmit:
  assumes "IsoTp_Transmit ops (Some msg) len (l, w) = Some (ISOTP_OK, s')" "tx_wf l"
    and "unat len = length msg"
  shows "\<exists>n. progress (sent w) msg n (txId (cfg l)) s'"
    and "tx_started ops sent msg (txId (cfg l)) w s'"
proof -
  define l1 where "l1 t = l\<lparr>cfg := (cfg l)\<lparr>txBuffer := write_at (txBuffer (cfg l)) 0 (take (unat len) msg)\<rparr>,
    txLength := len, txOffset := 0, txState := ISOTP_TX_SEND_FIRST, txTimerStart := t\<rparr>" for t
  define w1 where "w1 = snd (getTimeMs ops w)"
  have w1: "sent w1 = sent w" by (simp add: w1_def now_log)
  obtain ok t where b: "len \<noteq> 0" "len \<le> 4095" "len \<le> txBufferSize (cfg l)"
    "TxSendFirst ops (l1 t, w1) = Some (ok, s')"
    using assms(1)
    by (auto simp: IsoTp_Transmit_def Let_def isotp_pairs ISOTP_MAX_MESSAGE_LEN_def not_less l1_def w1_def
        split: option.splits if_splits bind_splits)
  have fits: "unat len \<le> length (txBuffer (cfg l))"
    using b assms(2) by (simp add: tx_wf_def word_le_nat_alt)
  then have "tx_wf (l1 t)"
    using b assms(2,3) by (simp add: tx_wf_def l1_def word_neq_0_conv)
  moreover have "tx_msg (l1 t) = msg"
    using fits assms(3) by (simp add: tx_msg_def l1_def write_at_0)
  ultimately have "progress (sent w) msg 0 (txId (cfg l)) (l1 t, w1)"
    using b w1 by (simp add: progress_def l1_def length_segment)
  from progress_first [OF this _ b(4)] first_started [OF this _ b(4)]
  show "\<exists>n. progress (sent w) msg n (txId (cfg l)) s'"
    "tx_started ops sent msg (txId (cfg l)) w s'"
    by (auto simp: l1_def tx_started_def simp flip: w1_def)
qed

text \<open>A driver that accepts every frame: one flow control without block size and separation time releases the rest.\<close>

lemma loop_sends_all:
  assumes "\<And>f v. fst (sendFrame ops i f 8 v)"
    and "progress base msg n i s" "txState (fst s) = ISOTP_TX_SEND_CF"
    and "txStMinMs (fst s) = 0" "txBlockSize (fst s) = 0" "TxCfLoop ops True s = Some s'"
  shows "progress base msg (length (segment msg)) i s' \<and> txState (fst s') = ISOTP_TX_IDLE"
  using assms(2-6)
proof (induction "length (segment msg) - n" arbitrary: n s rule: less_induct)
  case less
  obtain l w where s: "s = (l, w)" by fastforce
  obtain k where k: "n = Suc k" "tx_at k l" "tx_msg l = msg" "n < length (segment msg)" "txId (cfg l) = i"
    using less.prems by (auto simp: progress_def s)
  note last = cf_out_segment(3) [OF k(2), unfolded k(3)]
  obtain keep s1 where step: "TxCfStep ops (l, w) = Some (keep, s1)" and loop: "TxCfLoop ops keep s1 = Some s'"
    using less.prems(2,5) by (subst (asm) TxCfLoop.simps) (auto simp: s split: bind_splits)
  note prog = progress_cf [OF less.prems(1,2), unfolded s, OF step]
  from step show ?case
  proof (cases rule: TxCfStep_cases)
    case stmin
    with less.prems(3) show ?thesis by (simp add: s)
  next
    case (refused w1 w2)
    then show ?thesis using assms(1) [of "cf_out l" w1] k(5) by simp
  next
    case (finished w1 w2 t w3)
    have idle: "txState (fst s1) = ISOTP_TX_IDLE"
      using TxFinish_link [OF finished(6)] by simp
    then have "s' = s1" using loop TxCfLoop_stop [of keep s1 ops] by simp
    moreover have "progress base msg (length (segment msg)) i s1"
      using prog finished(1,5) last k(1) by simp
    ultimately show ?thesis using idle by simp
  next
    case (block w1 w2 t w3 t' w4)
    with less.prems(4) show ?thesis by (simp add: s)
  next
    case (more w1 w2 t w3 bc)
    show ?thesis
    proof (rule less.hyps [of "Suc n"])
      show "length (segment msg) - Suc n < length (segment msg) - n" using k(4) by simp
      show "progress base msg (Suc n) i s1" using prog more(1) by simp
      show "TxCfLoop ops True s1 = Some s'" using loop more(1) by simp
    qed (use less.prems more(8) in \<open>simp_all add: s cf_sent_def\<close>)
  qed
qed

lemma flow_control_releases:
  assumes "\<And>f v. fst (sendFrame ops i f 8 v)" "progress base msg n i (l, w)" "txState l = ISOTP_TX_WAIT_FC"
    and "TxOnFlowControl ops (0x30 # 0 # 0 # rest) 8 (l, w) = Some s'"
  shows "sent (snd s') = base @ map (Pair i) (segment msg) \<and> txState (fst s') = ISOTP_TX_IDLE"
proof -
  define t where "t = fst (getTimeMs ops w)"
  define l1 where "l1 = l\<lparr>txBlockSize := 0, txBlockCount := 0, txWaitCount := 0, txStMinMs := 0,
      txLastCfTime := t - 1, txState := ISOTP_TX_SEND_CF\<rparr>"
  have loop: "TxCfLoop ops True (l1, snd (getTimeMs ops w)) = Some s'"
    using assms(3,4)
    by (simp add: TxOnFlowControl_def TxSendConsecutiveFrames_def isotp_pairs isotp_consts DecodeStMin_def Let_def l1_def t_def)
  have "tx_wf l1 = tx_wf l" "tx_msg l1 = tx_msg l" "\<And>k. tx_at k l1 = tx_at k l"
    using assms(3) by (simp_all add: l1_def tx_wf_def tx_msg_def tx_at_def)
  then have "progress base msg n i (l1, snd (getTimeMs ops w))"
    using assms(2,3) by (simp add: progress_def now_log) (simp add: l1_def)
  from loop_sends_all [OF assms(1) this _ _ _ loop] show ?thesis by (simp add: l1_def progress_def)
qed

end

subsection \<open>Calls of the interface while the receiving side rests\<close>

lemma RxFrame_FC:
  "drop_bit 4 (data ! 0) = PCI_TYPE_FC \<Longrightarrow> dlc \<noteq> 0 \<Longrightarrow> \<not> dlc > ISOTP_CAN_DL \<Longrightarrow>
   IsoTp_RxFrame ops (Some data) dlc s = TxOnFlowControl ops data dlc s"
  by (simp add: IsoTp_RxFrame_def PCI_TYPE_SF_def PCI_TYPE_FF_def PCI_TYPE_CF_def PCI_TYPE_FC_def)

lemma MainFunction_rx_idle:
  "rxState l = ISOTP_RX_IDLE \<Longrightarrow> \<not> rxFcPending l \<Longrightarrow> IsoTp_MainFunction ops (l, w) = TxMain ops (l, w)"
  by (simp add: IsoTp_MainFunction_def RxMain_def)

text \<open>
  What can happen to a link that is not receiving: time passes (the world changes, the log of
  sent frames does not), a flow control frame arrives, or the cyclic function runs.
\<close>

inductive tx_steps ::
  "'w IsoTp_Ops \<Rightarrow> ('w \<Rightarrow> (u16 \<times> u8 list) list) \<Rightarrow> 'w link_state \<Rightarrow> 'w link_state \<Rightarrow> bool"
  for ops sent where
  start: "tx_steps ops sent s s"
| time: "tx_steps ops sent s (l, w) \<Longrightarrow> sent w' = sent w \<Longrightarrow> tx_steps ops sent s (l, w')"
| flow_control: "tx_steps ops sent s s1 \<Longrightarrow> drop_bit 4 (data ! 0) = PCI_TYPE_FC \<Longrightarrow>
    IsoTp_RxFrame ops (Some data) dlc s1 = Some s2 \<Longrightarrow> tx_steps ops sent s s2"
| cyclic: "tx_steps ops sent s s1 \<Longrightarrow> IsoTp_MainFunction ops s1 = Some s2 \<Longrightarrow> tx_steps ops sent s s2"

text \<open>A link over a CAN port, with both callback contracts.\<close>

locale isotp_link = isotp_client ops + isotp_port ops sent
  for ops :: "'w IsoTp_Ops" and sent :: "'w \<Rightarrow> (u16 \<times> u8 list) list"
begin

lemma tx_steps_progress:
  assumes "tx_steps ops sent s s'" "\<exists>n. progress base msg n i s"
    and "rxState (fst s) = ISOTP_RX_IDLE" "\<not> rxFcPending (fst s)"
  shows "(\<exists>n. progress base msg n i s') \<and> rxState (fst s') = ISOTP_RX_IDLE \<and> \<not> rxFcPending (fst s')"
  using assms
proof (induction rule: tx_steps.induct)
  case (time s l w w')
  then show ?case using progress_env by fastforce
next
  case (flow_control s s1 data dlc s2)
  then obtain n where n: "progress base msg n i s1" "rxState (fst s1) = ISOTP_RX_IDLE" "\<not> rxFcPending (fst s1)"
    by blast
  obtain l w where s1: "s1 = (l, w)" by fastforce
  show ?case
  proof (cases "dlc = 0 \<or> dlc > ISOTP_CAN_DL")
    case True
    then have "s2 = s1" using flow_control.hyps(3) by (auto simp: IsoTp_RxFrame_def)
    with n show ?thesis by blast
  next
    case False
    then have fc: "TxOnFlowControl ops data dlc (l, w) = Some s2"
      using flow_control.hyps(2,3) by (simp add: RxFrame_FC s1)
    have "tx_wf l" using n(1) by (simp add: progress_def s1)
    from TxOnFlowControl_tx_wf [OF fc this] have "rx_view (fst s2) = rx_view l" by simp
    from progress_fc [OF n(1) [unfolded s1] fc] n(2,3) rx_viewD(1,12) [OF this] show ?thesis
      by (simp add: s1)
  qed
next
  case (cyclic s s1 s2)
  then obtain n where n: "progress base msg n i s1" "rxState (fst s1) = ISOTP_RX_IDLE" "\<not> rxFcPending (fst s1)"
    by blast
  obtain l w where s1: "s1 = (l, w)" by fastforce
  have main: "TxMain ops (l, w) = Some s2"
    using cyclic.hyps(2) n(2,3) by (simp add: s1 MainFunction_rx_idle)
  have "tx_wf l" using n(1) by (simp add: progress_def s1)
  from TxMain_tx_wf [OF main this] have "rx_view (fst s2) = rx_view l" by simp
  from progress_main [OF n(1) [unfolded s1] main] n(2,3) rx_viewD(1,12) [OF this] show ?case
    by (simp add: s1)
qed simp

lemma progress_sent:
  assumes "progress base msg n i (l, w)"
  shows "\<exists>n \<le> length (segment msg). sent w = base @ map (Pair i) (take n (segment msg)) \<and>
    (txState l \<noteq> ISOTP_TX_IDLE \<longrightarrow> n < length (segment msg) \<and> (n = 0) = (txState l = ISOTP_TX_SEND_FIRST))"
  using assms by (intro exI [of _ n]) (cases "txState l"; auto simp: progress_def)

lemma started_progress:
  assumes "IsoTp_Transmit ops' (Some msg) len (l, w) = Some (ISOTP_OK, s1)" "isotp_port ops' sent"
    and "link_wf l" "unat len = length msg" "rxState l = ISOTP_RX_IDLE" "\<not> rxFcPending l"
    and "tx_steps ops sent s1 s'"
  shows "\<exists>n. progress (sent w) msg n (txId (cfg l)) s'"
proof -
  have wf: "tx_wf l" using assms(3) by (simp add: link_wf_def)
  have v: "rx_view (fst s1) = rx_view l"
    using isotp_sender.IsoTp_Transmit_tx_wf [OF isotp_port.axioms(1) [OF assms(2)] assms(1) wf] assms(4) by simp
  have "rxState (fst s1) = ISOTP_RX_IDLE" "\<not> rxFcPending (fst s1)" using assms(5,6) rx_viewD(1,12) [OF v] by simp_all
  from tx_steps_progress [OF assms(7) _ this] isotp_port.progress_transmit(1) [OF assms(2,1) wf assms(4)]
  show ?thesis by (simp add: progress_def isotp_port.progress_def [OF assms(2)])
qed

lemma released:
  assumes "\<exists>n. progress base msg n i (l', w')" "\<And>f v. fst (sendFrame ops i f 8 v)" "txState l' = ISOTP_TX_WAIT_FC"
    and "IsoTp_RxFrame ops (Some (0x30 # 0 # 0 # rest)) 8 (l', w') = Some s2"
  shows "sent (snd s2) = base @ map (Pair i) (segment msg) \<and> txState (fst s2) = ISOTP_TX_IDLE"
proof -
  have "TxOnFlowControl ops (0x30 # 0 # 0 # rest) 8 (l', w') = Some s2"
    using assms(4) RxFrame_FC [of "0x30 # 0 # 0 # rest" 8 ops] by (simp add: isotp_consts)
  with flow_control_releases [OF assms(2) _ assms(3)] assms(1) show ?thesis by blast
qed

end

text \<open>When the driver accepts every frame and the callback returns, one flow control without
  block size and separation time releases the whole message.\<close>

locale isotp_link_total = isotp_link ops sent + isotp_sender_total ops
  for ops :: "'w IsoTp_Ops" and sent :: "'w \<Rightarrow> (u16 \<times> u8 list) list"
begin

lemma loop_completes:
  assumes "\<And>i f d w. fst (sendFrame ops i f d w)"
    and "progress base msg n i s" "txState (fst s) = ISOTP_TX_SEND_CF"
    and "txStMinMs (fst s) = 0" "txBlockSize (fst s) = 0"
  shows "\<exists>s'. TxCfLoop ops True s = Some s' \<and> progress base msg (length (segment msg)) i s' \<and>
    txState (fst s') = ISOTP_TX_IDLE"
proof -
  have "tx_wf (fst s)" using assms(2) by (simp add: progress_def)
  then obtain s' where "TxCfLoop ops True s = Some s'" using TxCfLoop_returns by blast
  with loop_sends_all [OF assms(1-5) this] show ?thesis by blast
qed

end

end
