(* ===== verification/IsoTpReceiver.thy ===== *)
theory IsoTpReceiver
  imports IsoTpSender
begin

section \<open>Reassembly of a message by a receiver\<close>

subsection \<open>Reading the frames of a message\<close>

lemma drop_4_low: "drop_bit 4 (x AND 0x0F :: u8) = 0"
  by (simp add: and_0x0F_mask drop_bit_take_bit)

lemma low_of_nat: "n < 16 \<Longrightarrow> of_nat n AND 0x0F = (of_nat n :: u8)"
  by (rule word_unat_eq_iff [THEN iffD2]) (simp add: unat_and_0x0F unat_of_nat)

lemma cf_first_byte:
  "drop_bit 4 (0x20 OR cf_seq k) = PCI_TYPE_CF" "(0x20 OR cf_seq k) AND 0x0F = cf_seq k"
  by (simp_all add: cf_seq_def PCI_TYPE_CF_def drop_bit_or drop_4_low bit.conj_disj_distrib2)

lemma sf_first_byte:
  assumes "n \<le> 7"
  shows "drop_bit 4 (of_nat n :: u8) = PCI_TYPE_SF" "of_nat n AND 0x0F = (of_nat n :: u8)"
proof -
  show low: "of_nat n AND 0x0F = (of_nat n :: u8)" using assms by (intro low_of_nat) simp
  show "drop_bit 4 (of_nat n :: u8) = PCI_TYPE_SF"
    using drop_4_low [of "of_nat n"] by (simp only: low PCI_TYPE_SF_def)
qed

lemma ff_first_byte:
  assumes "n \<le> 4095"
  shows "drop_bit 4 (0x10 OR of_nat (n div 256) :: u8) = PCI_TYPE_FF"
proof -
  have "of_nat (n div 256) = (of_nat (n div 256) AND 0x0F :: u8)"
    using assms by (intro low_of_nat [symmetric]) auto
  then show ?thesis
    using drop_4_low [of "of_nat (n div 256)"] by (simp add: PCI_TYPE_FF_def drop_bit_or)
qed

lemma ff_length:
  "n \<le> 4095 \<Longrightarrow> push_bit 8 (ucast (0x10 OR of_nat (n div 256) :: u8) AND 0x0F) OR ucast (of_nat n :: u8)
   = (of_nat n :: u16)"
proof -
  assume n: "n \<le> 4095"
  have h: "ucast (0x10 OR of_nat (n div 256) :: u8) AND 0x0F = (of_nat (n div 256) :: u16)"
  proof -
    have "n div 256 < 16" using n by auto
    have "ucast (0x10 OR of_nat (n div 256) :: u8) AND 0x0F = (ucast ((0x10 OR of_nat (n div 256)) AND 0x0F :: u8) :: u16)"
      by (simp add: unsigned_and_eq)
    also have "(0x10 OR of_nat (n div 256)) AND 0x0F = (of_nat (n div 256) :: u8)"
      using low_of_nat [OF \<open>n div 256 < 16\<close>] by (simp add: bit.conj_disj_distrib2)
    also have "(ucast (of_nat (n div 256) :: u8) :: u16) = of_nat (n div 256)"
      using \<open>n div 256 < 16\<close> by (intro word_unat_eq_iff [THEN iffD2]) (simp add: unsigned_ucast_eq unat_of_nat take_bit_nat_eq_self)
    finally show ?thesis .
  qed
  have "u16_of_bytes (of_nat (n div 256)) (of_nat n) = (of_nat n :: u16)"
  proof -
    have small: "n div 256 < 2 ^ 8" using n by auto
    have "byte_hi (of_nat n) = of_nat (n div 256)"
      using n small by (intro word_unat_eq_iff [THEN iffD2]) (simp add: take_bit_nat_eq_self byte_hi_def unsigned_ucast_eq unat_of_nat unat_drop_bit_eq drop_bit_eq_div unat_div)
    moreover have "byte_lo (of_nat n) = of_nat n"
      by (intro word_unat_eq_iff [THEN iffD2]) (simp add: byte_lo_def and_0xFF_mask unsigned_ucast_eq unat_of_nat unsigned_take_bit_eq take_bit_nat_def mod_mod_cancel)
    ultimately show ?thesis by (metis u16_of_bytes_split)
  qed
  moreover have "(ucast (of_nat (n div 256) :: u8) :: u16) = of_nat (n div 256)"
  proof -
    have "n div 256 < 2 ^ 8" using n by auto
    then show ?thesis
      by (intro word_unat_eq_iff [THEN iffD2])
        (simp add: unsigned_ucast_eq unat_of_nat take_bit_nat_eq_self)
  qed
  ultimately show ?thesis by (simp add: h u16_of_bytes_def)
qed

lemma nth_pad8: "i < length xs \<Longrightarrow> pad8 xs ! i = xs ! i"
  by (simp add: pad8_def nth_append)

lemma drop_pad8: "n \<le> length xs \<Longrightarrow> drop n (pad8 xs) = drop n xs @ replicate (8 - length xs) 0xCC"
  by (simp add: pad8_def)

subsection \<open>A reception\<close>

text \<open>
  A link receiving \<open>fs\<close>: frames arrive; in between time passes and the cyclic function runs,
  which does not end the reception (the timeout is a property of its own).
\<close>

inductive rx_steps :: "'w IsoTp_Ops \<Rightarrow> 'w link_state \<Rightarrow> u8 list list \<Rightarrow> 'w link_state \<Rightarrow> bool"
  for ops where
  start: "rx_steps ops s [] s"
| time: "rx_steps ops s fs (l, w) \<Longrightarrow> rx_steps ops s fs (l, w')"
| frame: "rx_steps ops s fs s1 \<Longrightarrow> IsoTp_RxFrame ops (Some f) 8 s1 = Some s2 \<Longrightarrow>
    rx_steps ops s (fs @ [f]) s2"
| cyclic: "rx_steps ops s fs s1 \<Longrightarrow> IsoTp_MainFunction ops s1 = Some s2 \<Longrightarrow>
    rxState (fst s2) = rxState (fst s1) \<Longrightarrow> rx_steps ops s fs s2"

text \<open>The link before the first frame of a message that fits.\<close>

definition rx_ready :: "u8 list \<Rightarrow> IsoTp_Link_t \<Rightarrow> bool" where
  "rx_ready msg l = (link_wf l \<and> rxState l = ISOTP_RX_IDLE \<and> length msg \<le> unat (rxBufferSize (cfg l)))"

text \<open>After \<open>Suc k\<close> frames of \<open>msg\<close>.\<close>

definition rx_prog :: "u8 list \<Rightarrow> nat \<Rightarrow> IsoTp_Link_t \<Rightarrow> bool" where
  "rx_prog msg k l = (rx_at k l \<and> tx_wf l \<and> unat (rxLength l) = length msg \<and>
     take (6 + 7 * k) (rxBuffer (cfg l)) = take (6 + 7 * k) msg)"

lemma rx_prog_fc:
  assumes "rx_prog msg k (fst s)"
  shows "rx_prog msg k (fst (RxSendFlowControl ops fs s))"
proof -
  obtain l w where s: "s = (l, w)" by fastforce
  obtain p st where "fst (RxSendFlowControl ops fs (l, w)) = l\<lparr>rxFcPending := p, rxFcStatus := st\<rparr>"
    using fst_RxSendFlowControl [of ops fs l w] by blast
  with assms show ?thesis
    by (simp add: s rx_prog_def rx_at_def rx_wf_def tx_wf_def)
qed

lemma rx_prog_view:
  assumes "rx_view l' = rx_view l" "tx_wf l'" "rx_prog msg k l"
  shows "rx_prog msg k l'"
  using assms rx_viewD [OF assms(1)] rx_wf_cong [OF assms(1)] by (simp add: rx_prog_def rx_at_def)

context isotp_client begin

lemma rx_first:
  assumes "link_wf l" "rxState l = ISOTP_RX_IDLE" "7 < length msg" "length msg \<le> 4095"
    "length msg \<le> unat (rxBufferSize (cfg l))"
  shows "\<exists>s'. IsoTp_RxFrame ops (Some (ff_frame msg)) 8 (l, w) = Some s' \<and> rx_prog msg 0 (fst s')"
proof -
  define data where "data = ff_frame msg"
  have d: "data ! 0 = 0x10 OR of_nat (length msg div 256)" "data ! Suc 0 = of_nat (length msg)"
    "take 6 (drop 2 data) = take 6 msg"
    using assms(3) by (simp_all add: data_def ff_frame_def nth_pad8 drop_pad8)
  have len: "push_bit 8 (ucast (data ! 0) AND 0x0F) OR ucast (data ! 1) = (of_nat (length msg) :: u16)"
    unfolding One_nat_def d by (rule ff_length [OF assms(4)])
  have n: "unat (of_nat (length msg) :: u16) = length msg"
    using assms(4) by (simp add: unat_of_nat)
  define l2 where "l2 t = (store_rx 0 (take (unat FF_DATA) (drop 2 data)) l)
         \<lparr>rxLength := of_nat (length msg), rxOffset := FF_DATA, rxSeq := 1, rxBlockCount := 0,
          rxState := ISOTP_RX_RECEIVING, rxTimerStart := t\<rparr>" for t
  obtain t w' where now: "getTimeMs ops w = (t, w')" by fastforce
  have "IsoTp_RxFrame ops (Some data) 8 (l, w) = RxOnFirstFrame ops data 8 (l, w)"
    using d(1) ff_first_byte [OF assms(4)]
    by (simp add: IsoTp_RxFrame_def ISOTP_CAN_DL_def PCI_TYPE_FF_def PCI_TYPE_SF_def)
  also have "\<dots> = Some (RxSendFlowControl ops FC_STATUS_CTS (l2 t, w'))"
    using assms(2,3,5) n
    unfolding RxOnFirstFrame_def len Let_def [of "of_nat (length msg)"]
    by (simp add: ISOTP_CAN_DL_def SF_MAX_DATA_def isotp_pairs now l2_def
        word_le_nat_alt word_less_nat_alt)
  finally have "IsoTp_RxFrame ops (Some data) 8 (l, w) = Some (RxSendFlowControl ops FC_STATUS_CTS (l2 t, w'))" .
  moreover have "rx_prog msg 0 (l2 t)"
  proof -
    have "length (rxBuffer (cfg l)) = unat (rxBufferSize (cfg l))"
      using assms(1) by (simp add: link_wf_def rx_wf_def)
    moreover have "cf_pos 0 FF_DATA 1 (of_nat (length msg))"
      using assms(3) n by (simp add: cf_pos_def cf_seq_def FF_DATA_def word_less_nat_alt)
    ultimately show ?thesis
      using assms n d(3)
      by (auto simp: rx_prog_def rx_at_def rx_wf_def link_wf_def tx_wf_def l2_def FF_DATA_def store_rx_def
          word_less_nat_alt word_le_nat_alt write_at_0)
  qed
  ultimately show ?thesis using rx_prog_fc data_def by fastforce
qed

lemma rx_data:
  assumes "rx_prog msg k l" "n = cf_chunk (rxLength l - rxOffset l)"
  defines "data \<equiv> cf_frame (Suc k) (cf_data msg (Suc k))"
  defines "l1 t \<equiv> (store_rx (unat (rxOffset l)) (take (unat n) (drop 1 data)) l)
      \<lparr>rxOffset := rxOffset l + n, rxSeq := (rxSeq l + 1) AND SEQ_MASK, rxTimerStart := t\<rparr>"
  shows "data ! 0 AND SEQ_MASK = rxSeq l" "drop_bit 4 (data ! 0) = PCI_TYPE_CF"
    "\<not> (ucast n :: u32) > ucast (8 :: u8) - 1"
    "rxLength l \<le> rxOffset l + n \<longleftrightarrow> length msg \<le> 13 + 7 * k"
    "take (min (length msg) (13 + 7 * k)) (rxBuffer (cfg (l1 t))) = take (13 + 7 * k) msg"
    "7 < length msg" "6 + 7 * k < length msg"
proof -
  have at: "rx_at k l" and len: "unat (rxLength l) = length msg"
    and pre: "take (6 + 7 * k) (rxBuffer (cfg l)) = take (6 + 7 * k) msg"
    using assms(1) by (auto simp: rx_prog_def)
  have pos: "cf_pos k (rxOffset l) (rxSeq l) (rxLength l)" and len4095: "unat (rxLength l) \<le> 4095"
    and size: "length msg \<le> length (rxBuffer (cfg l))"
    and "7 < length msg"
    using at len by (auto simp: rx_at_def rx_wf_def word_le_nat_alt word_less_nat_alt)
  then show "7 < length msg" by simp
  have off: "unat (rxOffset l) = 6 + 7 * k" "rxSeq l = cf_seq (Suc k)" "6 + 7 * k < length msg"
    using pos len by (auto simp: cf_pos_def word_less_nat_alt)
  then show "6 + 7 * k < length msg" by simp
  note step = cf_pos_step [OF pos len4095, folded assms(2)]
  have n: "unat n = min 7 (length msg - (6 + 7 * k))"
    using step(1) off len by simp
  show "data ! 0 AND SEQ_MASK = rxSeq l" "drop_bit 4 (data ! 0) = PCI_TYPE_CF"
    using off cf_first_byte [of "Suc k"]
    by (simp_all add: data_def cf_frame_def pad8_def SEQ_MASK_def)
  have "unat (ucast n :: u32) \<le> 7"
    using n by (simp add: unsigned_ucast_eq take_bit_nat_eq_self)
  then show "\<not> (ucast n :: u32) > ucast (8 :: u8) - 1"
    by (simp add: word_less_nat_alt not_less)
  show "rxLength l \<le> rxOffset l + n \<longleftrightarrow> length msg \<le> 13 + 7 * k"
    using step(3) off len by simp
  have chunk: "take (unat n) (drop 1 data) = take 7 (drop (6 + 7 * k) msg)"
    using n by (auto simp: data_def cf_frame_def cf_data_def pad8_def min_def)
  have "take (6 + 7 * k + length (take 7 (drop (6 + 7 * k) msg)))
      (write_at (rxBuffer (cfg l)) (6 + 7 * k) (take 7 (drop (6 + 7 * k) msg)))
      = take (6 + 7 * k) msg @ take 7 (drop (6 + 7 * k) msg)"
    using size off(3) pre by (subst take_write_at) simp_all
  also have "\<dots> = take (13 + 7 * k) msg"
    using take_add_drop [of "6 + 7 * k" msg 7] by (simp add: add.commute)
  also have "6 + 7 * k + length (take 7 (drop (6 + 7 * k) msg)) = min (length msg) (13 + 7 * k)"
    using off(3) by auto
  finally show "take (min (length msg) (13 + 7 * k)) (rxBuffer (cfg (l1 t))) = take (13 + 7 * k) msg"
    using off(1) chunk by (simp add: l1_def)
qed

lemma RxFrame_CF:
  "drop_bit 4 (data ! 0) = PCI_TYPE_CF \<Longrightarrow>
   IsoTp_RxFrame ops (Some data) 8 s = RxOnConsecutiveFrame ops data 8 s"
  by (simp add: IsoTp_RxFrame_def ISOTP_CAN_DL_def PCI_TYPE_SF_def PCI_TYPE_FF_def PCI_TYPE_CF_def)

lemma rx_next:
  assumes "rx_prog msg k l" "13 + 7 * k < length msg"
    and "IsoTp_RxFrame ops (Some (cf_frame (Suc k) (cf_data msg (Suc k)))) 8 (l, w) = Some s'"
  shows "rx_prog msg (Suc k) (fst s')"
proof -
  define data where "data = cf_frame (Suc k) (cf_data msg (Suc k))"
  note d = rx_data [OF assms(1) refl, folded data_def]
  have at: "rx_at k l" and rcv: "rxState l = ISOTP_RX_RECEIVING"
    using assms(1) by (auto simp: rx_prog_def rx_at_def)
  have fr: "RxOnConsecutiveFrame ops data 8 (l, w) = Some s'"
    using assms(3) d(2) RxFrame_CF by (simp add: data_def)
  then show ?thesis
  proof (cases rule: RxOnConsecutiveFrame_cases)
    case (more t w1 s2 bc)
    have "rx_at (Suc k) (fst s2)"
      using cf_stored(2) [OF at refl refl more(5)] more(6) by (simp add: rx_at_def rx_wf_def)
    moreover have "take (6 + 7 * Suc k) (rxBuffer (cfg (fst s2))) = take (6 + 7 * Suc k) msg"
      using d(5) [of t] assms(2) more(6) by (simp add: min_def add.commute)
    ultimately have "rx_prog msg (Suc k) (fst s2)"
      using assms(1) more(6) by (simp add: rx_prog_def)
    then show ?thesis using more(7) rx_prog_fc by blast
  qed (use rcv d assms(2) in simp_all)
qed

lemma rx_last:
  assumes "rx_prog msg k l" "length msg \<le> 13 + 7 * k"
  shows "\<exists>l2 w2. IsoTp_RxFrame ops (Some (cf_frame (Suc k) (cf_data msg (Suc k)))) 8 (l, w)
      = RxFinish ops ISOTP_OK (l2, w2) \<and>
    take (length msg) (rxBuffer (cfg l2)) = msg \<and> unat (rxLength l2) = length msg"
proof -
  define data where "data = cf_frame (Suc k) (cf_data msg (Suc k))"
  define n where "n = cf_chunk (rxLength l - rxOffset l)"
  note d = rx_data [OF assms(1) n_def, folded data_def]
  obtain t w1 where now: "getTimeMs ops w = (t, w1)" by fastforce
  define l1 where "l1 = (store_rx (unat (rxOffset l)) (take (unat n) (drop 1 data)) l)
      \<lparr>rxOffset := rxOffset l + n, rxSeq := (rxSeq l + 1) AND SEQ_MASK, rxTimerStart := t\<rparr>"
  have rcv: "rxState l = ISOTP_RX_RECEIVING"
    using assms(1) by (simp add: rx_prog_def rx_at_def)
  have "RxOnConsecutiveFrame ops data 8 (l, w) = RxFinish ops ISOTP_OK (l1, w1)"
    using rcv d(1,3,4) assms(2)
    unfolding RxOnConsecutiveFrame_def Let_def fst_conv n_def [symmetric]
    by (simp add: isotp_pairs now l1_def store_rx_def)
  moreover have "take (length msg) (rxBuffer (cfg l1)) = msg"
    using d(5) [of t] assms(2) by (simp add: l1_def min_def)
  moreover have "unat (rxLength l1) = length msg"
    using assms(1) by (simp add: l1_def rx_prog_def)
  ultimately show ?thesis
    using RxFrame_CF [OF d(2)] by (metis data_def)
qed

lemma rx_prog_cyclic:
  assumes "rx_prog msg k (fst s)" "IsoTp_MainFunction ops s = Some s'" "rxState (fst s') = rxState (fst s)"
  shows "rx_prog msg k (fst s')"
proof -
  obtain l w where s: "s = (l, w)" by fastforce
  obtain s1 where s1: "RxMain ops (l, w) = Some s1" "TxMain ops s1 = Some s'"
    using assms(2) by (auto simp: IsoTp_MainFunction_def s split: bind_splits)
  define s0 where "s0 = (if rxFcPending l then RxSendFlowControl ops (rxFcStatus l) (l, w) else (l, w))"
  have p0: "rx_prog msg k (fst s0)"
    using assms(1) rx_prog_fc [of msg k "(l, w)" ops] by (simp add: s0_def s)
  obtain l0 w0 where l0: "s0 = (l0, w0)" by fastforce
  have rcv: "rxState l0 = ISOTP_RX_RECEIVING" "rxState (fst s') = ISOTP_RX_RECEIVING"
    using p0 assms(1,3) by (auto simp: rx_prog_def rx_at_def l0 s)
  have mono: "tx_wf (fst s1) \<Longrightarrow> tx_wf (fst s') \<and> rx_view (fst s') = rx_view (fst s1)"
    using TxMain_tx_wf [of "fst s1" "snd s1" s'] s1(2) by simp
  have "s1 = (l0, snd (getTimeMs ops w0)) \<or> RxFinish ops ISOTP_ERR_TIMEOUT_CR (l0, snd (getTimeMs ops w0)) = Some s1"
    using s1(1) rcv(1) unfolding RxMain_def fst_conv s0_def [symmetric] Let_def [of s0]
    by (auto simp: l0 Elapsed_pair split: if_splits)
  then show ?thesis
  proof
    assume "s1 = (l0, snd (getTimeMs ops w0))"
    moreover have "tx_wf l0" using p0 by (simp add: rx_prog_def l0)
    ultimately show ?thesis using mono p0 rx_prog_view [of "fst s'" l0 msg k] by (simp add: l0)
  next
    assume fin: "RxFinish ops ISOTP_ERR_TIMEOUT_CR (l0, snd (getTimeMs ops w0)) = Some s1"
    have "tx_wf l0" using p0 by (simp add: rx_prog_def l0)
    from RxFinish_wf [OF fin this] mono have "rx_view (fst s') = rx_view (l0\<lparr>rxState := ISOTP_RX_IDLE\<rparr>)"
      by simp
    from rx_viewD(1) [OF this] rcv(2) show ?thesis by simp
  qed
qed

lemma rx_ready_cyclic:
  assumes "rx_ready msg (fst s)" "IsoTp_MainFunction ops s = Some s'"
  shows "rx_ready msg (fst s')"
proof -
  obtain l w where s: "s = (l, w)" by fastforce
  define s0 where "s0 = (if rxFcPending l then RxSendFlowControl ops (rxFcStatus l) (l, w) else (l, w))"
  obtain p st where "fst (RxSendFlowControl ops (rxFcStatus l) (l, w)) = l\<lparr>rxFcPending := p, rxFcStatus := st\<rparr>"
    using fst_RxSendFlowControl [of ops "rxFcStatus l" l w] by blast
  then have r0: "rx_ready msg (fst s0)"
    using assms(1) by (auto simp: rx_ready_def s0_def s link_wf_def rx_wf_def tx_wf_def)
  obtain s1 where s1: "RxMain ops (l, w) = Some s1" "TxMain ops s1 = Some s'"
    using assms(2) by (auto simp: IsoTp_MainFunction_def s split: bind_splits)
  have "s1 = s0"
    using s1(1) r0 unfolding RxMain_def fst_conv s0_def [symmetric] Let_def [of s0]
    by (simp add: rx_ready_def)
  then have v: "tx_wf (fst s') \<and> rx_view (fst s') = rx_view (fst s0)"
    using TxMain_tx_wf [of "fst s0" "snd s0" s'] s1(2) r0 by (simp add: rx_ready_def link_wf_def)
  then show ?thesis
    using r0 link_wf_tx_step [OF v] rx_viewD(1,6) [of "fst s'" "fst s0"] by (simp add: rx_ready_def)
qed

lemma snoc_take:
  assumes "fs @ [f] = take m xs" "m < length xs"
  shows "m = Suc (length fs)" "fs = take (length fs) xs" "f = xs ! length fs"
proof -
  have "length (fs @ [f]) = m" using assms by simp
  then show m: "m = Suc (length fs)" by simp
  have "fs @ [f] = take (length fs) xs @ [xs ! length fs]"
    using assms m by (simp add: take_Suc_conv_app_nth)
  then show "fs = take (length fs) xs" "f = xs ! length fs" by simp_all
qed

lemma rx_steps_prog:
  assumes "rx_steps ops s fs s'" "rx_ready msg (fst s)" "7 < length msg" "length msg \<le> 4095"
    and "fs = take m (segment msg)" "m < length (segment msg)"
  shows "if m = 0 then rx_ready msg (fst s') else rx_prog msg (m - 1) (fst s')"
  using assms(1,2,5,6)
proof (induction arbitrary: m rule: rx_steps.induct)
  case (time s fs l w w')
  from time.IH [OF time.prems] show ?case by (simp only: fst_conv)
next
  case (frame s fs s1 f s2)
  note st = snoc_take [OF frame.prems(2,3)]
  have IH: "if length fs = 0 then rx_ready msg (fst s1) else rx_prog msg (length fs - 1) (fst s1)"
    using frame.prems st(1) by (intro frame.IH st(2)) simp_all
  obtain l w where s1: "s1 = (l, w)" by fastforce
  show ?case
  proof (cases "length fs")
    case 0
    then have "rx_ready msg l" using IH s1 by simp
    with rx_first [of l msg w] assms(3,4) frame.hyps(2) st(1,3) 0 s1 show ?thesis
      by (auto simp: rx_ready_def nth_segment_0)
  next
    case (Suc k)
    have lt: "Suc k < length msg div 7"
      using frame.prems(3) st(1) Suc assms(3) by (simp add: length_segment)
    then have "13 + 7 * k < length msg"
      by (simp add: less_eq_div_iff_mult_less_eq Suc_le_eq [symmetric])
    moreover have "f = cf_frame (Suc k) (cf_data msg (Suc k))"
      using st(3) Suc lt nth_segment_Suc [OF assms(3), of k] by simp
    ultimately show ?thesis
      using rx_next [of msg k l w s2] IH frame.hyps(2) s1 st(1) Suc by simp
  qed
next
  case (cyclic s fs s1 s2)
  show ?case
    using cyclic.IH [OF cyclic.prems] rx_ready_cyclic [OF _ cyclic.hyps(2), of msg]
      rx_prog_cyclic [OF _ cyclic.hyps(2,3), of msg] by (cases "m = 0") simp_all
qed auto

lemma rx_single_eq:
  assumes "rx_ready msg l" "0 < length msg" "length msg \<le> 7"
  shows "IsoTp_RxFrame ops (Some (sf_frame msg)) 8 (l, w)
    = RxFinish ops ISOTP_OK ((store_rx 0 msg l)\<lparr>rxLength := of_nat (length msg)\<rparr>, w)"
proof -
  define data where "data = sf_frame msg"
  have d: "data ! 0 = of_nat (length msg)" "take (length msg) (drop 1 data) = msg"
    using assms(3) by (simp_all add: data_def sf_frame_def pad8_def)
  have n: "unat (of_nat (length msg) :: u8) = length msg" "ucast (of_nat (length msg) :: u8) = (of_nat (length msg) :: u16)"
    using assms(3) by (simp_all add: unat_of_nat word_unat_eq_iff unsigned_ucast_eq take_bit_nat_eq_self)
  have n': "unat (of_nat (length msg) :: u16) = length msg"
    using assms(3) by (simp add: unat_of_nat)
  have pci: "IsoTp_RxFrame ops (Some data) 8 (l, w) = RxOnSingleFrame ops data 8 (l, w)"
    using sf_first_byte(1) [OF assms(3)] by (simp add: IsoTp_RxFrame_def ISOTP_CAN_DL_def d)
  have nz: "(of_nat (length msg) :: u8) \<noteq> 0"
    using n(1) assms(2) by (metis less_numeral_extra(3) unsigned_0)
  have "RxOnSingleFrame ops data 8 (l, w) =
      RxFinish ops ISOTP_OK ((store_rx 0 msg l)\<lparr>rxLength := of_nat (length msg)\<rparr>, w)"
    unfolding RxOnSingleFrame_def d(1) sf_first_byte(2) [OF assms(3)]
    using assms n n' nz d(2)
    by (simp add: rx_ready_def SF_MAX_DATA_def word_less_nat_alt not_less upd_pair)
  then show ?thesis using pci by (simp add: data_def)
qed

lemma rx_single:
  assumes "rx_ready msg l" "0 < length msg" "length msg \<le> 7"
  shows "\<exists>l2 w2. IsoTp_RxFrame ops (Some (sf_frame msg)) 8 (l, w) = RxFinish ops ISOTP_OK (l2, w2) \<and>
    take (length msg) (rxBuffer (cfg l2)) = msg \<and> unat (rxLength l2) = length msg"
  using rx_single_eq [OF assms] assms(3) by (auto simp: write_at_0 unat_of_nat)

lemma rx_steps_ready:
  assumes "rx_steps ops s fs s'" "fs = []" "rx_ready msg (fst s)"
  shows "rx_ready msg (fst s')"
  using assms
proof (induction rule: rx_steps.induct)
  case (cyclic s fs s1 s2)
  then show ?case using rx_ready_cyclic [of msg s1 s2] by simp
qed simp_all

lemma reassembles:
  assumes "rx_ready msg l" "0 < length msg" "length msg \<le> 4095"
    and "rx_steps ops (l, w) (butlast (segment msg)) (l', w')"
  shows "\<exists>l2 w2. IsoTp_RxFrame ops (Some (last (segment msg))) 8 (l', w') = RxFinish ops ISOTP_OK (l2, w2) \<and>
    take (length msg) (rxBuffer (cfg l2)) = msg \<and> unat (rxLength l2) = length msg"
proof (cases "length msg \<le> 7")
  case True
  then have "rx_ready msg l'"
    using rx_steps_ready [OF assms(4)] assms(1) by (simp add: segment_single)
  from rx_single [OF this assms(2) True] show ?thesis by (simp add: segment_single True)
next
  case False
  define m where "m = length msg div 7"
  have m: "0 < m" using False by (simp add: m_def div_greater_zero_iff)
  have seg: "length (segment msg) = Suc m" using False by (simp add: length_segment m_def)
  have "butlast (segment msg) = take m (segment msg)"
    using seg by (simp add: butlast_conv_take)
  then have p: "rx_prog msg (m - 1) l'"
    using rx_steps_prog [OF assms(4) _ _ assms(3), of m] assms(1) False m seg by simp
  have "last (segment msg) = cf_frame (Suc (m - 1)) (cf_data msg (Suc (m - 1)))"
    using seg m False nth_segment_Suc [of msg "m - 1"] last_conv_nth [of "segment msg"]
    by (cases "segment msg = []") (simp_all add: m_def)
  moreover have "length msg \<le> 13 + 7 * (m - 1)"
    using m by (simp add: m_def)
  ultimately show ?thesis using rx_last [OF p] by simp
qed

end

end
