(* ===== verification/IsoTpTotal.thy ===== *)
theory IsoTpTotal
  imports IsoTpSender
begin

section \<open>Every call of the link returns\<close>

text \<open>
  While the guard of the caller's world holds, every operation of a well-formed link returns: the
  only loop is the one that sends consecutive frames, and it ends. When all callbacks of the client
  return (\<open>isotp_total\<close>) there is no guard. The indication of a complete message may break the guard
  and need not return: a reception returns where the indication does.
\<close>

context isotp_sender_guarded begin

lemma TxSendFirst_Q:
  assumes "Q w"
  shows "\<exists>ok s'. TxSendFirst ops (l, w) = Some (ok, s') \<and> Q (snd s')"
proof -
  obtain ok w1 where send: "sendFrame ops (txId (cfg l)) (first_out l) 8 w = (ok, w1)" by fastforce
  obtain t w2 where now: "getTimeMs ops w1 = (t, w2)" by fastforce
  have q: "Q w1" "Q w2" using send_Q [OF send assms] time_Q [OF now] by simp_all
  obtain s2 where "TxFinish ops ISOTP_OK (l, w1) = Some s2" "Q (snd s2)"
    using TxFinish_Q [of "(l, w1)" ISOTP_OK] q(1) unfolding snd_conv by blast
  then show ?thesis
    using q by (cases ok) (auto simp: TxSendFirst_eq [OF send now] simp del: split_paired_Ex)
qed

lemma TxTimeoutCheck_Q:
  assumes "Q w"
  shows "\<exists>s'. TxTimeoutCheck ops (l, w) = Some s' \<and> Q (snd s')"
proof -
  obtain t w1 where now: "getTimeMs ops w = (t, w1)" by fastforce
  show ?thesis
    using TxFinish_Q [of "(l, w1)"] time_Q [OF now assms] by (simp add: TxTimeoutCheck_def Elapsed_pair now)
qed

lemma TxMain_Q:
  assumes "tx_wf (fst s)" "Q (snd s)"
  shows "\<exists>s'. TxMain ops s = Some s' \<and> Q (snd s')"
proof -
  obtain l w where s: "s = (l, w)" by fastforce
  have q: "Q w" using assms(2) by (simp add: s)
  show ?thesis
  proof (cases "txState l")
    case ISOTP_TX_SEND_FIRST
    obtain ok l1 w1 where "TxSendFirst ops (l, w) = Some (ok, (l1, w1))" "Q w1"
      using TxSendFirst_Q [OF q, of l] by fastforce
    with ISOTP_TX_SEND_FIRST TxTimeoutCheck_Q [of w1 l1] show ?thesis
      by (simp add: TxMain_def s)
  qed (use TxCfLoop_Q [OF assms] TxTimeoutCheck_Q [OF q, of l] q in
      \<open>simp_all add: TxMain_def TxSendConsecutiveFrames_def s\<close>)
qed

lemma TxOnFlowControl_Q:
  assumes "tx_wf l" "Q w"
  shows "\<exists>s'. TxOnFlowControl ops data dlc (l, w) = Some s' \<and> Q (snd s')"
proof -
  obtain t w1 where now: "getTimeMs ops w = (t, w1)" by fastforce
  have q: "Q w1" by (rule time_Q [OF now assms(2)])
  show ?thesis
  proof (cases "txState l = ISOTP_TX_WAIT_FC \<and> \<not> dlc < 3 \<and> data ! 0 AND 0x0F = FC_STATUS_CTS")
    case True
    define l1 where "l1 = l\<lparr>txBlockSize := data ! 1, txBlockCount := 0, txWaitCount := 0,
      txStMinMs := DecodeStMin (data ! 2),
      txLastCfTime := t - (DecodeStMin (data ! 2) + 1), txState := ISOTP_TX_SEND_CF\<rparr>"
    have "tx_wf (fst (l1, w1))" using assms(1) True by (simp add: l1_def tx_wf_def)
    from TxCfLoop_Q [OF this] q True show ?thesis
      by (simp add: TxOnFlowControl_def TxSendConsecutiveFrames_def isotp_pairs Let_def l1_def now)
  next
    case False
    have "\<exists>s'. TxFinish ops r (k, w) = Some s' \<and> Q (snd s')" for r k using TxFinish_Q [of "(k, w)"] assms(2) by simp
    then show ?thesis
      using False assms(2) q by (auto simp: TxOnFlowControl_def isotp_pairs Let_def now)
  qed
qed

lemma Transmit_Q:
  assumes "Q w"
  shows "\<exists>r s'. IsoTp_Transmit ops data len (l, w) = Some (r, s') \<and> Q (snd s')"
proof -
  obtain t w1 where now: "getTimeMs ops w = (t, w1)" by fastforce
  have "\<exists>r s'. (TxSendFirst ops (k, w1) \<bind> (\<lambda>(uu, s3). Some (ISOTP_OK, s3))) = Some (r, s') \<and> Q (snd s')" for k
    using TxSendFirst_Q [OF time_Q [OF now assms], of k] by auto
  then show ?thesis
    using assms by (simp add: IsoTp_Transmit_def Let_def isotp_pairs now split: option.split)
qed

end

context isotp_sender_total begin

lemma Transmit_returns: "\<exists>r s'. IsoTp_Transmit ops data len (l, w) = Some (r, s')"
  using guarded.Transmit_Q [OF TrueI] by blast

end

locale isotp_guarded = isotp_client ops + isotp_sender_guarded ops Q for ops :: "'w IsoTp_Ops" and Q :: "'w \<Rightarrow> bool" +
  assumes abort_Q: "rxIndication ops = Some f \<Longrightarrow> r \<noteq> ISOTP_OK \<Longrightarrow> Q w \<Longrightarrow>
    \<exists>s'. f data n r (l, w) = Some s' \<and> Q (snd s')"
begin

lemma RxFinish_Q: "r \<noteq> ISOTP_OK \<Longrightarrow> Q (snd s) \<Longrightarrow> \<exists>s'. RxFinish ops r s = Some s' \<and> Q (snd s')"
  using abort_Q by (cases s) (auto simp: RxFinish_def upd_pair Let_def split: option.split)

lemma aborted_Q:
  "Q (snd s) \<Longrightarrow> \<exists>s1. (if rxState (fst s) = ISOTP_RX_RECEIVING then RxFinish ops ISOTP_ERR_UNEXP_PDU s else Some s) = Some s1 \<and>
    Q (snd s1)"
  using RxFinish_Q [of ISOTP_ERR_UNEXP_PDU s] by (cases "rxState (fst s) = ISOTP_RX_RECEIVING") auto

lemma RxSendFlowControl_Q: "Q (snd s) \<Longrightarrow> Q (snd (RxSendFlowControl ops fs s))"
  by (auto simp: RxSendFlowControl_def Let_def upd_Q split: prod.splits dest: SendFrame_Q)

text \<open>A reception returns where the indication of a complete message returns; \<open>R\<close> is what holds afterwards.\<close>

lemma RxFrame_Q:
  assumes ind: "\<And>s. Q (snd s) \<Longrightarrow> \<exists>s'. RxFinish ops ISOTP_OK s = Some s' \<and> R (snd s')"
    and R: "\<And>w. Q w \<Longrightarrow> R w" and "link_wf l" "Q w"
  shows "\<exists>s'. IsoTp_RxFrame ops data dlc (l, w) = Some s' \<and> R (snd s')"
proof -
  define P where "P x \<longleftrightarrow> (\<exists>s'. x = Some s' \<and> R (snd s'))" for x :: "(IsoTp_Link_t \<times> 'w) option"
  have same: "P (Some s)" if "Q (snd s)" for s using that R by (auto simp: P_def)
  have fin: "P (RxFinish ops ISOTP_OK s)" if "Q (snd s)" for s using ind [OF that] by (simp add: P_def)
  have wrong: "P (RxFinish ops r (l, w))" if "r \<noteq> ISOTP_OK" for r
    using RxFinish_Q [OF that, of "(l, w)"] assms(4) R unfolding P_def snd_conv by blast
  obtain s1 where s1: "(if rxState (fst (l, w)) = ISOTP_RX_RECEIVING then RxFinish ops ISOTP_ERR_UNEXP_PDU (l, w)
      else Some (l, w)) = Some s1" "Q (snd s1)" using aborted_Q [of "(l, w)"] assms(4) unfolding snd_conv by blast
  have sf: "P (RxOnSingleFrame ops bytes dlc (l, w))" for bytes
    unfolding RxOnSingleFrame_def Let_def s1(1) using fin same assms(4) s1(2) by (simp add: upd_Q)
  have ff: "P (RxOnFirstFrame ops bytes dlc (l, w))" for bytes
    unfolding RxOnFirstFrame_def Let_def s1(1) using same assms(4) s1(2)
    by (auto simp: upd_Q split: prod.split intro!: same RxSendFlowControl_Q dest: Now_Q)
  have cf: "P (RxOnConsecutiveFrame ops bytes dlc (l, w))" for bytes
    unfolding RxOnConsecutiveFrame_def Let_def using fin same wrong assms(4)
    by (auto simp: upd_Q split: prod.split intro!: same fin RxSendFlowControl_Q dest: Now_Q)
  have fc: "P (TxOnFlowControl ops bytes dlc (l, w))" for bytes
    using TxOnFlowControl_Q [of l w bytes dlc] assms(3,4) R unfolding P_def link_wf_def by blast
  have "P (IsoTp_RxFrame ops data dlc (l, w))"
    unfolding IsoTp_RxFrame_def Let_def using sf ff cf fc same assms(4) by (simp split: option.split)
  then show ?thesis by (simp add: P_def)
qed

lemma MainFunction_Q:
  assumes "link_wf l" "Q w"
  shows "\<exists>s'. IsoTp_MainFunction ops (l, w) = Some s' \<and> Q (snd s')"
proof -
  define s0 where "s0 = (if rxFcPending l then RxSendFlowControl ops (rxFcStatus l) (l, w) else (l, w))"
  obtain l0 w0 where s0: "s0 = (l0, w0)" by fastforce
  have "Q (snd s0)" using RxSendFlowControl_Q [of "(l, w)"] assms(2) by (simp add: s0_def)
  then have q0: "Q w0" by (simp add: s0)
  obtain t w1 where now: "getTimeMs ops w0 = (t, w1)" by fastforce
  have q1: "Q w1" by (rule time_Q [OF now q0])
  have "\<exists>s1. RxMain ops (l, w) = Some s1 \<and> Q (snd s1)"
    using RxFinish_Q [of ISOTP_ERR_TIMEOUT_CR "(l0, w1)"] q0 q1
    unfolding RxMain_def fst_conv s0_def [symmetric] s0 by (simp add: Elapsed_pair Let_def now)
  then obtain s1 where s1: "RxMain ops (l, w) = Some s1" "Q (snd s1)" by blast
  then have "link_wf (fst s1)" using RxMain_link_wf assms by blast
  then have "\<exists>s'. TxMain ops s1 = Some s' \<and> Q (snd s')" using TxMain_Q s1(2) by (simp add: link_wf_def)
  then show ?thesis by (simp add: IsoTp_MainFunction_def s1)
qed

end

locale isotp_total = isotp_client ops + isotp_sender_total ops for ops :: "'w IsoTp_Ops" +
  assumes ind_returns: "rxIndication ops = Some f \<Longrightarrow> f data n r s \<noteq> None"

sublocale isotp_total \<subseteq> guarded_client: isotp_guarded ops "\<lambda>_. True"
proof unfold_locales
  fix f r l w data n
  assume "rxIndication ops = Some f"
  then have "f data n r (l, w) \<noteq> None" by (rule ind_returns)
  then show "\<exists>s'. f data n r (l, w) = Some s' \<and> True" by (simp only: not_None_eq simp_thms)
qed

context isotp_total begin

lemma RxFrame_returns:
  assumes "link_wf l"
  shows "\<exists>s'. IsoTp_RxFrame ops data dlc (l, w) = Some s'"
proof -
  have "\<exists>s'. RxFinish ops ISOTP_OK s = Some s' \<and> True" for s
    using ind_returns by (auto simp: RxFinish_def Let_def split: option.split)
  from guarded_client.RxFrame_Q [OF this TrueI assms TrueI] show ?thesis by blast
qed

lemma MainFunction_returns: "link_wf l \<Longrightarrow> \<exists>s'. IsoTp_MainFunction ops (l, w) = Some s'"
  using guarded_client.MainFunction_Q [of l w] by blast

end

lemma isotp_totalI:
  assumes "isotp_client ops" "\<And>cb r s. txConfirmation ops = Some cb \<Longrightarrow> cb r s \<noteq> None"
    and "\<And>cb d n r s. rxIndication ops = Some cb \<Longrightarrow> cb d n r s \<noteq> None"
  shows "isotp_total ops"
  using assms unfolding isotp_total_def isotp_total_axioms_def isotp_sender_total_def isotp_sender_total_axioms_def
    isotp_client_def by blast

end
