(* ===== verification/IsoTpTheorems.thy ===== *)
theory IsoTpTheorems
  imports IsoTpReceiver IsoTpTotal
begin

section \<open>Properties of a link\<close>

text \<open>
  The properties of the transport layer as a whole, for any callbacks and any driver that
  satisfy the contracts of IsoTpProps and IsoTpSender, and a small bus on which they apply.
\<close>

text \<open>A driver that accepts every frame, with a clock, and a link over it, for the examples.\<close>

type_synonym bus_world = "(u16 \<times> u8 list) list \<times> u32"

definition bus_ops :: "bus_world IsoTp_Ops" where
  "bus_ops = \<lparr>sendFrame = \<lambda>i f d w. (True, (fst w @ [(i, f)], snd w)),
     getTimeMs = \<lambda>w. (snd w, w), txConfirmation = None, rxIndication = None\<rparr>"

definition bus_cfg :: IsoTp_Config_t where
  "bus_cfg = \<lparr>txId = 0x7E0, rxId = 0x7E8, rxBuffer = replicate 16 0, rxBufferSize = 16,
     txBuffer = replicate 16 0, txBufferSize = 16, blockSize = 0, stMin = 0, nBsTimeoutMs = 0,
     nCrTimeoutMs = 0\<rparr>"

definition bus_link :: IsoTp_Link_t where
  "bus_link = IsoTp_Init (Some bus_cfg) (zero_link bus_cfg)"

definition bus_msg :: "u8 list" where
  "bus_msg = [1, 2, 3, 4, 5, 6, 7, 8, 9, 10]"

lemma bus_link_total: "isotp_link_total bus_ops fst"
  by unfold_locales (auto simp: bus_ops_def)

lemma bus_client: "isotp_client bus_ops"
  by unfold_locales (auto simp: bus_ops_def)

lemma bus_cfg_link: "cfg bus_link = bus_cfg\<lparr>nBsTimeoutMs := 1000, nCrTimeoutMs := 1000\<rparr>"
  "txState bus_link = ISOTP_TX_IDLE" "rxState bus_link = ISOTP_RX_IDLE" "\<not> rxFcPending bus_link"
  by (simp_all add: bus_link_def IsoTp_Init_def zero_link_def bus_cfg_def ISOTP_DEFAULT_N_BS_MS_def
      ISOTP_DEFAULT_N_CR_MS_def)

lemma bus_link_wf: "link_wf bus_link"
  by (simp add: link_wf_def tx_wf_def rx_wf_def bus_cfg_link bus_cfg_def)

subsection \<open>Memory safety\<close>

text \<open>The states a link goes through, in any order of calls.\<close>

inductive isotp_reach :: "'w IsoTp_Ops \<Rightarrow> IsoTp_Config_t \<Rightarrow> 'w link_state \<Rightarrow> bool" for ops c where
  init: "isotp_reach ops c (IsoTp_Init (Some c) l, w)"
| time: "isotp_reach ops c (l, w) \<Longrightarrow> isotp_reach ops c (l, w')"
| rx_frame: "isotp_reach ops c s \<Longrightarrow> IsoTp_RxFrame ops data dlc s = Some s' \<Longrightarrow> isotp_reach ops c s'"
| cyclic: "isotp_reach ops c s \<Longrightarrow> IsoTp_MainFunction ops s = Some s' \<Longrightarrow> isotp_reach ops c s'"
| transmit: "isotp_reach ops c s \<Longrightarrow> unat len \<le> length bytes \<Longrightarrow>
    IsoTp_Transmit ops (Some bytes) len s = Some (r, s') \<Longrightarrow> isotp_reach ops c s'"

lemma IsoTp_Init_link_wf:
  "length (rxBuffer c) = unat (rxBufferSize c) \<Longrightarrow> length (txBuffer c) = unat (txBufferSize c) \<Longrightarrow>
   link_wf (IsoTp_Init (Some c) l)"
  by (simp add: IsoTp_Init_def zero_link_def Let_def link_wf_def tx_wf_def rx_wf_def)

text \<open>C12: in every state a link can reach through any sequence of received frames (of any
  content and length code), cyclic calls and transmissions, with callbacks that may themselves
  transmit, both buffers still have their configured size (no write went past their end), and a
  message under way sits at a frame boundary strictly inside its length, which fits the buffer.\<close>

theorem isotp_link_invariant:
  assumes "isotp_client ops" "length (rxBuffer c) = unat (rxBufferSize c)"
    "length (txBuffer c) = unat (txBufferSize c)" "isotp_reach ops c (l, w)"
  shows "link_wf l"
proof -
  have "link_wf (fst s)" if "isotp_reach ops c s" for s
    using that
  proof (induction rule: isotp_reach.induct)
    case (init l w)
    then show ?case using assms(2,3) IsoTp_Init_link_wf by simp
  next
    case (rx_frame s data dlc s')
    then show ?case
      using isotp_client.IsoTp_RxFrame_link_wf [OF assms(1), of data dlc "fst s" "snd s"] by simp
  next
    case (cyclic s s')
    then show ?case
      using isotp_client.IsoTp_MainFunction_link_wf [OF assms(1), of "fst s" "snd s"] by simp
  next
    case (transmit s len bytes r s')
    then show ?case
      using isotp_client.IsoTp_Transmit_link_wf [OF assms(1), of "Some bytes" len "fst s" "snd s"] by simp
  qed simp
  from this [OF assms(4)] show ?thesis by simp
qed

theorem isotp_link_invariant_witness:
  "\<exists>l w. IsoTp_MainFunction bus_ops (IsoTp_Init (Some bus_cfg) (zero_link bus_cfg), ([], 0)) = Some (l, w) \<and>
     link_wf l"
proof -
  have r: "isotp_reach bus_ops bus_cfg (IsoTp_Init (Some bus_cfg) (zero_link bus_cfg), ([], 0))"
    by (rule isotp_reach.init)
  have m: "IsoTp_MainFunction bus_ops (IsoTp_Init (Some bus_cfg) (zero_link bus_cfg), ([], 0))
      = Some (IsoTp_Init (Some bus_cfg) (zero_link bus_cfg), ([], 0))"
    by (simp add: IsoTp_MainFunction_def RxMain_def TxMain_def bus_cfg_link flip: bus_link_def)
  from isotp_reach.cyclic [OF r m] have "link_wf (IsoTp_Init (Some bus_cfg) (zero_link bus_cfg))"
    by (rule isotp_link_invariant [OF bus_client, rotated 2]) (simp_all add: bus_cfg_def)
  with m show ?thesis by blast
qed

subsection \<open>The sender\<close>

text \<open>C26: a link that is not receiving and accepts a message by \<open>IsoTp_Transmit\<close> puts its first frame on the bus at once if the driver
  takes it, and else holds the message to try again. While the other side only sends flow control frames (any block
  size, separation time, wait or abort) and the cyclic function runs, whatever the driver
  refuses and however the clock moves, the frames that went out are a prefix
  of the ISO 15765-2 segmentation of that message, in order, without duplicates, on the link's
  identifier; the link is busy only while frames are missing. With a driver that takes every frame, a
  flow control without block size and separation time releases the rest of the message.\<close>

theorem IsoTp_sends_segments:
  assumes "isotp_link ops sent" "link_wf l" "rxState l = ISOTP_RX_IDLE" "\<not> rxFcPending l"
    "unat len = length msg" "IsoTp_Transmit ops (Some msg) len (l, w) = Some (ISOTP_OK, s1)"
    and "tx_steps ops sent s1 (l', w')"
  shows "tx_started ops sent msg (txId (cfg l)) w s1 \<and>
    (\<exists>n \<le> length (segment msg).
      sent w' = sent w @ map (Pair (txId (cfg l))) (take n (segment msg)) \<and>
      (txState l' \<noteq> ISOTP_TX_IDLE \<longrightarrow> n < length (segment msg) \<and> (n = 0) = (txState l' = ISOTP_TX_SEND_FIRST))) \<and>
    ((\<forall>f v. fst (sendFrame ops (txId (cfg l)) f 8 v)) \<and> txState l' = ISOTP_TX_WAIT_FC \<longrightarrow>
      (\<forall>rest s2. IsoTp_RxFrame ops (Some (0x30 # 0 # 0 # rest)) 8 (l', w') = Some s2 \<longrightarrow>
         sent (snd s2) = sent w @ map (Pair (txId (cfg l))) (segment msg) \<and> txState (fst s2) = ISOTP_TX_IDLE))"
proof -
  have port: "isotp_port ops sent" using assms(1) by (simp add: isotp_link_def)
  have wf: "tx_wf l" using assms(2) by (simp add: link_wf_def)
  have p: "\<exists>n. isotp_port.progress sent (sent w) msg n (txId (cfg l)) (l', w')"
    by (rule isotp_link.started_progress [OF assms(1,6) port assms(2,5,3,4,7)])
  then obtain n where "isotp_port.progress sent (sent w) msg n (txId (cfg l)) (l', w')" by blast
  from isotp_link.progress_sent [OF assms(1) this] isotp_port.progress_transmit(2) [OF port assms(6) wf assms(5)]
    isotp_link.released [OF assms(1) p]
  show ?thesis by blast
qed

lemma bus_transmit:
  "\<exists>l1. IsoTp_Transmit bus_ops (Some bus_msg) 10 (bus_link, ([], 0)) = Some (ISOTP_OK, (l1, ([(0x7E0, ff_frame bus_msg)], 0)))"
  by (simp add: IsoTp_Transmit_def bus_cfg_link Let_def isotp_pairs isotp_consts bus_cfg_def bus_ops_def
     TxSendFirst_def bus_msg_def write_frame2 write_at_0 ff_frame_def)

context isotp_link_total begin

lemma transmit_completes:
  assumes accept: "\<And>i f d w. fst (sendFrame ops i f d w)"
    and "link_wf l" "unat len = length msg" "7 < length msg" "txState l = ISOTP_TX_IDLE"
    and "length msg \<le> 4095" "len \<le> txBufferSize (cfg l)"
  shows "\<exists>l1 w1 l2 w2.
    IsoTp_Transmit ops (Some msg) len (l, w) = Some (ISOTP_OK, (l1, w1)) \<and>
    IsoTp_RxFrame ops (Some (0x30 # 0 # 0 # rest)) 8 (l1, w1) = Some (l2, w2) \<and>
    sent w2 = sent w @ map (Pair (txId (cfg l))) (segment msg) \<and> txState l2 = ISOTP_TX_IDLE"
proof -
  define i where "i = txId (cfg l)"
  define l0 where "l0 t = l\<lparr>cfg := (cfg l)\<lparr>txBuffer := write_at (txBuffer (cfg l)) 0 (take (unat len) msg)\<rparr>,
    txLength := len, txOffset := 0, txState := ISOTP_TX_SEND_FIRST, txTimerStart := t\<rparr>" for t
  obtain t w0 where now0: "getTimeMs ops w = (t, w0)" by fastforce
  obtain ok w1 where send: "sendFrame ops (txId (cfg (l0 t))) (first_out (l0 t)) 8 w0 = (ok, w1)" by fastforce
  obtain t1 w2 where now1: "getTimeMs ops w1 = (t1, w2)" by fastforce
  have ok using accept [of "txId (cfg (l0 t))" "first_out (l0 t)" 8 w0] send by simp
  have big: "\<not> len \<le> SF_MAX_DATA" "len \<le> ISOTP_MAX_MESSAGE_LEN" "len \<noteq> 0"
    using assms(3,4,6) by (auto simp: SF_MAX_DATA_def ISOTP_MAX_MESSAGE_LEN_def word_le_nat_alt)
  define l1 where "l1 = (l0 t)\<lparr>txOffset := FF_DATA, txSeq := 1, txWaitCount := 0,
       txState := ISOTP_TX_WAIT_FC, txTimerStart := t1\<rparr>"
  have first: "TxSendFirst ops (l0 t, w0) = Some (True, (l1, w2))"
    using TxSendFirst_eq [OF send now1] \<open>ok\<close> big(1) by (simp add: l0_def l1_def)
  have tr: "IsoTp_Transmit ops (Some msg) len (l, w) = Some (ISOTP_OK, (l1, w2))"
    using big assms(5,7) first
    by (simp add: IsoTp_Transmit_def isotp_pairs now0 l0_def not_less)
  have "tx_wf l" using assms(2) by (simp add: link_wf_def)
  have fits: "unat len \<le> length (txBuffer (cfg l))"
    using assms(7) \<open>tx_wf l\<close> by (simp add: tx_wf_def word_le_nat_alt)
  have "tx_wf (l0 t)"
    using big assms(3,7) \<open>tx_wf l\<close> fits
    by (simp add: tx_wf_def l0_def word_neq_0_conv ISOTP_MAX_MESSAGE_LEN_def)
  moreover have "tx_msg (l0 t) = msg"
    using fits assms(3) by (simp add: tx_msg_def l0_def write_at_0)
  ultimately have "progress (sent w) msg 0 i (l0 t, w0)"
    using time_log [OF now0] by (simp add: progress_def l0_def length_segment i_def)
  from progress_first(1) [OF this _ first] have p1: "progress (sent w) msg 1 i (l1, w2)"
    by (simp add: l0_def)
  define t2 where "t2 = fst (getTimeMs ops w2)"
  define l2 where "l2 = l1\<lparr>txBlockSize := 0, txBlockCount := 0, txWaitCount := 0, txStMinMs := 0,
      txLastCfTime := t2 - 1, txState := ISOTP_TX_SEND_CF\<rparr>"
  have "tx_wf l2 = tx_wf l1" "tx_msg l2 = tx_msg l1" "tx_at k l2 = tx_at k l1" for k
    by (simp_all add: l2_def l1_def tx_wf_def tx_msg_def tx_at_def)
  then have "progress (sent w) msg 1 i (l2, snd (getTimeMs ops w2))"
    using p1 by (simp add: progress_def now_log) (simp add: l2_def l1_def)
  then obtain s' where s': "TxCfLoop ops True (l2, snd (getTimeMs ops w2)) = Some s'"
    "progress (sent w) msg (length (segment msg)) i s'" "txState (fst s') = ISOTP_TX_IDLE"
    using loop_completes [OF accept, of "sent w" msg 1 i "(l2, snd (getTimeMs ops w2))"]
    by (auto simp: l2_def)
  have "IsoTp_RxFrame ops (Some (0x30 # 0 # 0 # rest)) 8 (l1, w2) = Some s'"
    using s'(1)
    by (simp add: IsoTp_RxFrame_def isotp_consts TxOnFlowControl_def l1_def isotp_pairs Let_def
        TxSendConsecutiveFrames_def DecodeStMin_def l2_def t2_def)
  with tr s'(2,3) show ?thesis
    by (cases s') (auto simp: progress_def i_def)
qed

end

lemma bus_waits: "\<exists>l1. IsoTp_Transmit bus_ops (Some bus_msg) 10 (bus_link, ([], 0)) =
     Some (ISOTP_OK, (l1, ([(0x7E0, ff_frame bus_msg)], 0))) \<and> txState l1 = ISOTP_TX_WAIT_FC \<and>
   (\<exists>s2. IsoTp_RxFrame bus_ops (Some [0x30, 0, 0]) 8 (l1, ([(0x7E0, ff_frame bus_msg)], 0)) = Some s2)"
proof -
  obtain l1 where tr: "IsoTp_Transmit bus_ops (Some bus_msg) 10 (bus_link, ([], 0)) =
     Some (ISOTP_OK, (l1, ([(0x7E0, ff_frame bus_msg)], 0)))"
    using bus_transmit by blast
  have port: "isotp_port bus_ops fst" using bus_link_total by (simp add: isotp_link_total_def isotp_link_def)
  have len: "unat (10 :: u16) = length bus_msg" by (simp add: bus_msg_def)
  have wf: "tx_wf bus_link" using bus_link_wf by (simp add: link_wf_def)
  have "txState l1 = ISOTP_TX_WAIT_FC"
    using isotp_port.progress_transmit(2) [OF port tr wf len] by (simp add: tx_started_def bus_ops_def) (simp add: bus_msg_def)
  with tr show ?thesis
    using isotp_link_total.transmit_completes [OF bus_link_total, of bus_link 10 bus_msg "([], 0)" "[]"]
    by (auto simp: bus_ops_def bus_link_wf bus_msg_def bus_cfg_link) (auto simp: bus_cfg_def)
qed

theorem IsoTp_sends_segments_witness:
  "\<exists>l1 s2. IsoTp_Transmit bus_ops (Some bus_msg) 10 (bus_link, ([], 0)) =
     Some (ISOTP_OK, (l1, ([(0x7E0, ff_frame bus_msg)], 0))) \<and>
   IsoTp_RxFrame bus_ops (Some [0x30, 0, 0]) 8 (l1, ([(0x7E0, ff_frame bus_msg)], 0)) = Some s2 \<and>
   fst (snd s2) = map (Pair 0x7E0) (segment bus_msg) \<and> txState (fst s2) = ISOTP_TX_IDLE"
proof -
  obtain l1 s2 where tr: "IsoTp_Transmit bus_ops (Some bus_msg) 10 (bus_link, ([], 0)) =
     Some (ISOTP_OK, (l1, ([(0x7E0, ff_frame bus_msg)], 0)))" "txState l1 = ISOTP_TX_WAIT_FC"
    "IsoTp_RxFrame bus_ops (Some [0x30, 0, 0]) 8 (l1, ([(0x7E0, ff_frame bus_msg)], 0)) = Some s2"
    using bus_waits by blast
  have link: "isotp_link bus_ops fst" using bus_link_total by (simp add: isotp_link_total_def)
  have len: "unat (10 :: u16) = length bus_msg" by (simp add: bus_msg_def)
  have i: "txId (cfg bus_link) = 0x7E0" by (simp add: bus_cfg_link) (simp add: bus_cfg_def)
  have "\<forall>f v. fst (sendFrame bus_ops 0x7E0 f 8 v)" by (simp add: bus_ops_def)
  then have "fst (snd s2) = map (Pair 0x7E0) (segment bus_msg) \<and> txState (fst s2) = ISOTP_TX_IDLE"
    using IsoTp_sends_segments [OF link bus_link_wf bus_cfg_link(3,4) len tr(1) tx_steps.start] tr(2,3)
    unfolding i fst_conv append_Nil by blast
  with tr show ?thesis by blast
qed

text \<open>With a driver that accepts every frame and a confirmation callback that returns, the
  first flow control that clears the sender to send without block size and separation time
  releases the rest of the message at once: all frames of its segmentation are on the bus, the
  link is idle again, and the call returns (the sending loop ends).\<close>

theorem IsoTp_completes:
  assumes "isotp_link_total ops sent" "\<And>i f d w. fst (sendFrame ops i f d w)"
    and "link_wf l" "unat len = length msg" "7 < length msg" "txState l = ISOTP_TX_IDLE"
    and "length msg \<le> 4095" "len \<le> txBufferSize (cfg l)"
  shows "\<exists>l1 w1 l2 w2.
    IsoTp_Transmit ops (Some msg) len (l, w) = Some (ISOTP_OK, (l1, w1)) \<and>
    IsoTp_RxFrame ops (Some (0x30 # 0 # 0 # rest)) 8 (l1, w1) = Some (l2, w2) \<and>
    sent w2 = sent w @ map (Pair (txId (cfg l))) (segment msg) \<and> txState l2 = ISOTP_TX_IDLE"
  by (rule isotp_link_total.transmit_completes [OF assms])

theorem IsoTp_completes_witness:
  "\<exists>l1 w1 l2 w2.
    IsoTp_Transmit bus_ops (Some bus_msg) 10 (bus_link, ([], 0)) = Some (ISOTP_OK, (l1, w1)) \<and>
    IsoTp_RxFrame bus_ops (Some [0x30, 0, 0]) 8 (l1, w1) = Some (l2, w2) \<and>
    fst w2 = map (Pair 0x7E0) (segment bus_msg) \<and> txState l2 = ISOTP_TX_IDLE"
  using IsoTp_completes [OF bus_link_total, of bus_link 10 bus_msg "([], 0)" "[]"]
  by (simp add: bus_ops_def bus_link_wf bus_msg_def bus_cfg_link) (simp add: bus_cfg_def)

subsection \<open>The receiver\<close>

text \<open>a receiving link that is given the frames of the segmentation of a message of up to
  4095 bytes that fits its buffer, in order, with cyclic calls and passing time in between (and
  no timeout), hands exactly that message to its client with the last frame: the indication gets
  the buffer that starts with the message, its length, and \<open>ISOTP_OK\<close>.\<close>

theorem IsoTp_reassembles:
  assumes "isotp_client ops" "link_wf l" "rxState l = ISOTP_RX_IDLE"
    and "0 < length msg" "length msg \<le> 4095" "length msg \<le> unat (rxBufferSize (cfg l))"
    and "rx_steps ops (l, w) (butlast (segment msg)) (l', w')"
  shows "\<exists>l2 w2. IsoTp_RxFrame ops (Some (last (segment msg))) 8 (l', w') = RxFinish ops ISOTP_OK (l2, w2) \<and>
    take (unat (rxLength l2)) (rxBuffer (cfg l2)) = msg"
proof -
  have "rx_ready msg l" using assms(2,3,6) by (simp add: rx_ready_def)
  from isotp_client.reassembles [OF assms(1) this assms(4,5,7)]
  obtain l2 w2 where "IsoTp_RxFrame ops (Some (last (segment msg))) 8 (l', w') = RxFinish ops ISOTP_OK (l2, w2)"
    "take (length msg) (rxBuffer (cfg l2)) = msg" "unat (rxLength l2) = length msg" by blast
  then show ?thesis by auto
qed

theorem IsoTp_reassembles_witness:
  "\<exists>l2 w2. IsoTp_RxFrame bus_ops (Some (sf_frame [0x3E, 0])) 8 (bus_link, ([], 0))
     = RxFinish bus_ops ISOTP_OK (l2, w2) \<and> take (unat (rxLength l2)) (rxBuffer (cfg l2)) = [0x3E, 0]"
proof -
  have seg: "segment [0x3E, 0] = [sf_frame [0x3E, 0 :: u8]]" by (simp add: segment_single)
  have st: "rx_steps bus_ops (bus_link, ([], 0)) (butlast (segment [0x3E, 0])) (bus_link, ([], 0))"
    by (simp add: seg rx_steps.start)
  show ?thesis
    using IsoTp_reassembles [OF bus_client bus_link_wf bus_cfg_link(3) _ _ _ st]
    by (simp add: seg bus_cfg_link) (simp add: bus_cfg_def)
qed

text \<open>C11: round trip: what a sender over an accepting driver puts on the bus for a message, after
  one flow control, makes a receiver that is given those frames deliver the same message.\<close>

theorem isotp_round_trip:
  assumes "isotp_link_total ops sent" "\<And>i f d w. fst (sendFrame ops i f d w)"
    and "link_wf l" "txState l = ISOTP_TX_IDLE" "unat len = length msg" "len \<le> txBufferSize (cfg l)"
    and "7 < length msg" "length msg \<le> 4095"
    and "isotp_client ops'" "link_wf r" "rxState r = ISOTP_RX_IDLE" "length msg \<le> unat (rxBufferSize (cfg r))"
  shows "\<exists>s1 l2 w2 frames.
    IsoTp_Transmit ops (Some msg) len (l, w) = Some (ISOTP_OK, s1) \<and>
    IsoTp_RxFrame ops (Some [0x30, 0, 0]) 8 s1 = Some (l2, w2) \<and>
    sent w2 = sent w @ frames \<and>
    (\<forall>r' v'. rx_steps ops' (r, v) (butlast (map snd frames)) (r', v') \<longrightarrow>
      (\<exists>r2 v2. IsoTp_RxFrame ops' (Some (last (map snd frames))) 8 (r', v') = RxFinish ops' ISOTP_OK (r2, v2) \<and>
        take (unat (rxLength r2)) (rxBuffer (cfg r2)) = msg))"
proof -
  from isotp_link_total.transmit_completes [OF assms(1-3,5,7,4,8,6), of w "[]"]
  obtain s1 l2 w2 where send: "IsoTp_Transmit ops (Some msg) len (l, w) = Some (ISOTP_OK, s1)"
    "IsoTp_RxFrame ops (Some [0x30, 0, 0]) 8 s1 = Some (l2, w2)"
    "sent w2 = sent w @ map (Pair (txId (cfg l))) (segment msg)" by blast
  have ready: "rx_ready msg r" using assms(10-12) by (simp add: rx_ready_def)
  have "\<exists>r2 v2. IsoTp_RxFrame ops' (Some (last (segment msg))) 8 (r', v') = RxFinish ops' ISOTP_OK (r2, v2) \<and>
        take (unat (rxLength r2)) (rxBuffer (cfg r2)) = msg"
    if "rx_steps ops' (r, v) (butlast (segment msg)) (r', v')" for r' v'
    using isotp_client.reassembles [OF assms(9) ready _ assms(8) that] assms(7) by force
  moreover have "map snd (map (Pair (txId (cfg l))) (segment msg)) = segment msg"
    by (simp add: comp_def)
  ultimately show ?thesis using send by metis
qed

theorem isotp_round_trip_witness:
  "\<exists>s1 l2 w2. IsoTp_Transmit bus_ops (Some bus_msg) 10 (bus_link, ([], 0)) = Some (ISOTP_OK, s1) \<and>
     IsoTp_RxFrame bus_ops (Some [0x30, 0, 0]) 8 s1 = Some (l2, w2) \<and>
     (\<forall>r' v'. rx_steps bus_ops (bus_link, ([], 0)) (butlast (map snd (fst w2))) (r', v') \<longrightarrow>
      (\<exists>r2 v2. IsoTp_RxFrame bus_ops (Some (last (map snd (fst w2)))) 8 (r', v') = RxFinish bus_ops ISOTP_OK (r2, v2) \<and>
        take (unat (rxLength r2)) (rxBuffer (cfg r2)) = bus_msg))"
proof -
  have fits: "10 \<le> txBufferSize (cfg bus_link)" "length bus_msg \<le> unat (rxBufferSize (cfg bus_link))"
    by (simp_all add: bus_cfg_link) (simp_all add: bus_cfg_def bus_msg_def)
  have len: "unat (10 :: u16) = length bus_msg" "7 < length bus_msg" "length bus_msg \<le> 4095"
    by (simp_all add: bus_msg_def)
  have acc: "fst (sendFrame bus_ops i f d w)" for i f d w by (simp add: bus_ops_def)
  from isotp_round_trip [OF bus_link_total acc bus_link_wf bus_cfg_link(2) len(1) fits(1) len(2,3)
      bus_client bus_link_wf bus_cfg_link(3) fits(2), of "([], 0)" "([], 0)"]
  show ?thesis by auto
qed

subsection \<open>Timing and termination\<close>

text \<open>C27: every call of the cyclic function on a well-formed link returns, whatever the driver
  and the clock do: the loop that sends consecutive frames ends (each turn sends at least one
  byte or stops), as long as the client's callbacks return.\<close>

theorem IsoTp_MainFunction_returns:
  assumes "isotp_client ops" "link_wf l"
    and "\<And>cb r s. txConfirmation ops = Some cb \<Longrightarrow> cb r s \<noteq> None"
    and "\<And>cb d n r s. rxIndication ops = Some cb \<Longrightarrow> cb d n r s \<noteq> None"
  shows "\<exists>s'. IsoTp_MainFunction ops (l, w) = Some s'"
  by (rule isotp_total.MainFunction_returns [OF isotp_totalI]) (use assms in blast)+

theorem IsoTp_MainFunction_returns_witness:
  "\<exists>s'. IsoTp_MainFunction bus_ops (bus_link\<lparr>txLength := 12, txOffset := 6, txSeq := 1,
     txState := ISOTP_TX_SEND_CF\<rparr>, ([], 0)) = Some s'"
proof (rule IsoTp_MainFunction_returns [OF bus_client])
  have "cf_pos 0 6 1 12" by (simp add: cf_pos_def cf_seq_def)
  then show "link_wf (bus_link\<lparr>txLength := 12, txOffset := 6, txSeq := 1, txState := ISOTP_TX_SEND_CF\<rparr>)"
    using bus_link_wf by (auto simp: link_wf_def tx_wf_def rx_wf_def bus_cfg_link) (auto simp: bus_cfg_def)
qed (simp_all add: bus_ops_def)

context isotp_port begin

lemma stmin_separates:
  assumes "tx_wf l" "txState l = ISOTP_TX_SEND_CF" "0 < txStMinMs l"
    and "\<And>w. getTimeMs ops w = (T w, w)" "\<And>i f d w. T (snd (sendFrame ops i f d w)) = T w"
    and "TxSendConsecutiveFrames ops (l, w) = Some (l', w')"
  shows "sent w' = sent w \<or>
    (\<exists>f. sent w' = sent w @ [(txId (cfg l), f)] \<and> txStMinMs l < T w - txLastCfTime l \<and>
       txLastCfTime l' = T w)"
proof -
  have loop: "TxCfLoop ops True (l, w) = Some (l', w')"
    using assms(6) by (simp add: TxSendConsecutiveFrames_def)
  then obtain keep l1 w1 where step: "TxCfStep ops (l, w) = Some (keep, (l1, w1))"
    and rest: "TxCfLoop ops keep (l1, w1) = Some (l', w')"
    using assms(2) by (subst (asm) TxCfLoop.simps) (auto split: bind_splits)
  have sent1: "w2 = w' \<and> l2 = l'" if "TxCfLoop ops k (l2, w2) = Some (l', w')"
    "\<not> (k \<and> txState l2 = ISOTP_TX_SEND_CF)" for k l2 w2
    using TxCfLoop_stop [of k "(l2, w2)" ops] that by simp
  have send: "sent w2 = sent w @ [(txId (cfg l), cf_out l)]" "T w2 = T w"
    if "sendFrame ops (txId (cfg l)) (cf_out l) 8 w3 = (True, w2)" "may_send ops l w w3" for w2 w3
  proof -
    have "w3 = w" using that(2) assms(3,4) by (auto simp: may_send_def)
    then show "sent w2 = sent w @ [(txId (cfg l), cf_out l)]" "T w2 = T w"
      using send_log [OF that(1) length_cf_out] assms(5) [of "txId (cfg l)" "cf_out l" 8 w3] that(1)
      by simp_all
  qed
  have ok: "may_send ops l w w3 \<Longrightarrow> txStMinMs l < T w - txLastCfTime l" for w3
    using assms(3,4) by (auto simp: may_send_def)
  from step show ?thesis
  proof (cases rule: TxCfStep_cases)
    case stmin
    then show ?thesis using sent1 [OF rest] assms(4) by simp
  next
    case (refused v1 v2)
    have "v1 = w" using refused(3) assms(3,4) by (auto simp: may_send_def)
    then show ?thesis
      using sent1 [OF rest] refused send_log [OF refused(4) length_cf_out] by simp
  next
    case (finished v1 v2 t v3)
    have "txState l1 = ISOTP_TX_IDLE" "txLastCfTime l1 = t"
      using TxFinish_link [OF finished(6)] by simp_all
    moreover have "sent w1 = sent v3"
      using TxFinish_log [OF finished(6)] by simp
    ultimately show ?thesis
      using sent1 [OF rest] send [OF finished(3,2)] ok [OF finished(2)] finished(4) assms(4) [of v2]
      by simp
  next
    case (block v1 v2 t v3 t' v4)
    then show ?thesis
      using sent1 [OF rest] send [OF block(3,2)] ok [OF block(2)] assms(4) [of v2] assms(4) [of v3]
      by auto
  next
    case (more v1 v2 t v3 bc)
    have t: "t = T w" "v3 = v2"
      using more(4) assms(4) [of v2] send(2) [OF more(3,2)] by simp_all
    have "TxCfStep ops (l1, w1) = Some (False, (l1, w1))"
      using more(8) t send(2) [OF more(3,2)] assms(3)
      by (simp add: TxCfStep_def StMinBlocks_def Elapsed_pair assms(4))
    moreover have "txState l1 = ISOTP_TX_SEND_CF" using more(8) assms(2) by simp
    ultimately have "TxCfLoop ops True (l1, w1) = Some (l1, w1)"
      using TxCfLoop_step [of True "(l1, w1)" ops False "(l1, w1)"] TxCfLoop_stop [of False "(l1, w1)" ops]
      by simp
    with rest more(1) have "l' = l1" "w' = w1" by simp_all
    then show ?thesis
      using more(8) t send(1) [OF more(3,2)] ok [OF more(2)] by simp
  qed
qed

end

text \<open>C28: separation time: with a receiver that asked for STmin, one call sends at most one
  consecutive frame while the clock stands still, and only if more than STmin ticks passed since
  the previous one; the clock value of the frame it sent is the reference for the next.\<close>

theorem IsoTp_STmin_separates:
  assumes "isotp_port ops sent" "tx_wf l" "txState l = ISOTP_TX_SEND_CF" "0 < txStMinMs l"
    and "\<And>w. getTimeMs ops w = (T w, w)" "\<And>i f d w. T (snd (sendFrame ops i f d w)) = T w"
    and "TxSendConsecutiveFrames ops (l, w) = Some (l', w')"
  shows "sent w' = sent w \<or>
    (\<exists>f. sent w' = sent w @ [(txId (cfg l), f)] \<and> txStMinMs l < T w - txLastCfTime l \<and>
       txLastCfTime l' = T w)"
  by (rule isotp_port.stmin_separates [OF assms])

definition bus_sending :: IsoTp_Link_t where
  "bus_sending = bus_link\<lparr>txLength := 16, txOffset := 6, txSeq := 1, txStMinMs := 5,
     txLastCfTime := 100, txState := ISOTP_TX_SEND_CF\<rparr>"

lemma bus_sending_wf: "tx_wf bus_sending"
proof -
  have "cf_pos 0 6 1 16" by (simp add: cf_pos_def cf_seq_def)
  then show ?thesis
    using bus_link_wf by (auto simp: bus_sending_def link_wf_def tx_wf_def bus_cfg_link) (auto simp: bus_cfg_def)
qed

theorem IsoTp_STmin_separates_witness:
  "\<exists>l' w'. TxSendConsecutiveFrames bus_ops (bus_sending, ([], 106)) = Some (l', w') \<and>
    (fst w' = [] \<or> (\<exists>f. fst w' = [(0x7E0, f)] \<and> txLastCfTime l' = 106))"
proof -
  have "isotp_port bus_ops fst" "isotp_sender_total bus_ops"
    using bus_link_total by (simp_all add: isotp_link_total_def isotp_link_def)
  note port = this
  obtain l' w' where r: "TxSendConsecutiveFrames bus_ops (bus_sending, ([], 106)) = Some (l', w')"
    using isotp_sender_total.TxCfLoop_returns [OF port(2), of "(bus_sending, ([], 106))" True] bus_sending_wf
    by (auto simp: TxSendConsecutiveFrames_def)
  have "fst w' = fst ([], 106 :: u32) \<or>
    (\<exists>f. fst w' = fst ([], 106 :: u32) @ [(txId (cfg bus_sending), f)] \<and>
       txStMinMs bus_sending < snd ([] :: (u16 \<times> u8 list) list, 106 :: u32) - txLastCfTime bus_sending \<and>
       txLastCfTime l' = snd ([] :: (u16 \<times> u8 list) list, 106 :: u32))"
    by (rule IsoTp_STmin_separates [OF port(1) bus_sending_wf _ _ _ _ r])
      (simp_all add: bus_sending_def bus_ops_def)
  moreover have "txId (cfg bus_sending) = 0x7E0" by (simp add: bus_sending_def bus_cfg_link) (simp add: bus_cfg_def)
  ultimately show ?thesis using r by auto
qed

text \<open>C29: a sender in the middle of a message has no timeout while the driver refuses its frames:
  the cyclic call leaves the link as it was, at any time, and the link keeps answering new
  messages with \<open>ISOTP_ERR_BUSY\<close>. (N_Bs only runs in the other two busy states.)\<close>

theorem IsoTp_refused_sender_never_times_out:
  assumes "\<And>i f d w. \<not> fst (sendFrame ops i f d w)"
    and "txState l = ISOTP_TX_SEND_CF" "rxState l = ISOTP_RX_IDLE" "\<not> rxFcPending l"
    and "len \<noteq> 0" "len \<le> 4095" "len \<le> txBufferSize (cfg l)"
  shows "\<exists>w'. IsoTp_MainFunction ops (l, w) = Some (l, w') \<and>
    IsoTp_Transmit ops (Some bytes) len (l, w') = Some (ISOTP_ERR_BUSY, (l, w'))"
proof -
  have "\<exists>w'. TxCfStep ops (l, w) = Some (False, (l, w'))"
    using assms(1) by (auto simp: TxCfStep_def StMinBlocks_def Elapsed_pair SendFrame_pair Let_def)
  then obtain w' where step: "TxCfStep ops (l, w) = Some (False, (l, w'))" by blast
  have "TxCfLoop ops True (l, w) = Some (l, w')"
    using TxCfLoop_step [OF _ _ step, of True] TxCfLoop_stop [of False "(l, w')" ops] assms(2) by simp
  then have "IsoTp_MainFunction ops (l, w) = Some (l, w')"
    using assms(2-4) by (simp add: MainFunction_rx_idle TxMain_def TxSendConsecutiveFrames_def)
  moreover have "IsoTp_Transmit ops (Some bytes) len (l, w') = Some (ISOTP_ERR_BUSY, (l, w'))"
    using assms(2,5-7) by (auto simp: IsoTp_Transmit_def ISOTP_MAX_MESSAGE_LEN_def)
  ultimately show ?thesis by blast
qed

theorem IsoTp_refused_sender_never_times_out_witness:
  "\<exists>w'. IsoTp_MainFunction (bus_ops\<lparr>sendFrame := \<lambda>i f d w. (False, w)\<rparr>) (bus_sending, ([], 1000000))
     = Some (bus_sending, w')"
  using IsoTp_refused_sender_never_times_out [of "bus_ops\<lparr>sendFrame := \<lambda>i f d w. (False, w)\<rparr>"
      bus_sending 8 "([], 1000000)" bus_msg] bus_cfg_link
  by (auto simp: bus_sending_def bus_cfg_def)

text \<open>A reception whose next consecutive frame does not come is given up: the first cyclic
  call at least N_Cr after the last frame reports \<open>ISOTP_ERR_TIMEOUT_CR\<close> with the number of
  bytes received so far to the client, on a link whose receiver is idle again; an earlier call
  changes nothing on the receiving side.\<close>

theorem IsoTp_reception_timeout:
  assumes "rxState l = ISOTP_RX_RECEIVING" "\<not> rxFcPending l"
    and "getTimeMs ops w = (t, w')"
  shows "RxMain ops (l, w) =
    (if ucast (nCrTimeoutMs (cfg l)) \<le> t - rxTimerStart l
     then (case rxIndication ops of
             None \<Rightarrow> Some (l\<lparr>rxState := ISOTP_RX_IDLE\<rparr>, w')
           | Some cb \<Rightarrow> cb (rxBuffer (cfg l)) (rxOffset l) ISOTP_ERR_TIMEOUT_CR (l\<lparr>rxState := ISOTP_RX_IDLE\<rparr>, w'))
     else Some (l, w'))"
  using assms by (simp add: RxMain_def Elapsed_pair RxFinish_def upd_pair Let_def split: option.split)

text \<open>The sender waiting for a flow control, fed with flow controls that ask it to wait.\<close>

primrec wait_frames :: "('w, 'm) IsoTp_TxOps_scheme \<Rightarrow> u8 list \<Rightarrow> nat \<Rightarrow> 'w link_state \<Rightarrow> 'w link_state option" where
  "wait_frames ops data 0 s = Some s"
| "wait_frames ops data (Suc n) s = do { s1 \<leftarrow> wait_frames ops data n s; TxOnFlowControl ops data 8 s1 }"

lemma wait_frames_keep:
  assumes "data ! 0 AND 0x0F = FC_STATUS_WAIT" "txState l = ISOTP_TX_WAIT_FC" "txWaitCount l = 0" "n \<le> 10"
  shows "\<exists>t w'. wait_frames ops data n (l, w) = Some (l\<lparr>txWaitCount := of_nat n, txTimerStart := t\<rparr>, w')"
  using assms(4)
proof (induction n)
  case 0
  have "l\<lparr>txWaitCount := 0, txTimerStart := txTimerStart l\<rparr> = l" using assms(3) by simp
  then show ?case by (intro exI [of _ "txTimerStart l"] exI [of _ w]) simp
next
  case (Suc n)
  then obtain t w' where IH: "wait_frames ops data n (l, w) = Some (l\<lparr>txWaitCount := of_nat n, txTimerStart := t\<rparr>, w')"
    by auto
  have "unat (of_nat (Suc n) :: u8) = Suc n" using Suc.prems by (simp add: unat_of_nat del: of_nat_Suc)
  then have "\<not> (of_nat (Suc n) :: u8) > ISOTP_MAX_WFT"
    using Suc.prems by (simp only: ISOTP_MAX_WFT_def word_less_nat_alt) simp
  then show ?case
    using IH assms(1,2)
    by (simp add: TxOnFlowControl_def isotp_pairs Let_def FC_STATUS_WAIT_def FC_STATUS_CTS_def
        add.commute [of "of_nat n" 1]) (intro exI, simp)
qed

text \<open>A receiver may ask the sender to wait ten times in a row; each time the N_Bs timer
  restarts and the link keeps waiting. The eleventh consecutive wait aborts the message with
  \<open>ISOTP_ERR_WFT_OVRN\<close>.\<close>

theorem IsoTp_wait_frame_limit:
  assumes "data ! 0 AND 0x0F = FC_STATUS_WAIT" "txState l = ISOTP_TX_WAIT_FC" "txWaitCount l = 0"
  shows "\<exists>t w'. wait_frames ops data 10 (l, w) = Some (l\<lparr>txWaitCount := 10, txTimerStart := t\<rparr>, w') \<and>
    wait_frames ops data 11 (l, w) =
      TxFinish ops ISOTP_ERR_WFT_OVRN (l\<lparr>txWaitCount := 11, txTimerStart := t\<rparr>, w')"
proof -
  obtain t w' where ten: "wait_frames ops data 10 (l, w) = Some (l\<lparr>txWaitCount := 10, txTimerStart := t\<rparr>, w')"
    using wait_frames_keep [OF assms, of 10 ops w] by auto
  have swap: "l\<lparr>txTimerStart := t, txWaitCount := 11\<rparr> = l\<lparr>txWaitCount := 11, txTimerStart := t\<rparr>"
    by simp
  have "wait_frames ops data (Suc 10) (l, w) =
      TxOnFlowControl ops data 8 (l\<lparr>txWaitCount := 10, txTimerStart := t\<rparr>, w')"
    by (simp only: wait_frames.simps(2) ten Option.bind.simps)
  also have "\<dots> = TxFinish ops ISOTP_ERR_WFT_OVRN (l\<lparr>txWaitCount := 11, txTimerStart := t\<rparr>, w')"
    using assms(1,2)
    by (simp add: TxOnFlowControl_def isotp_pairs Let_def FC_STATUS_WAIT_def FC_STATUS_CTS_def
        ISOTP_MAX_WFT_def) (simp only: swap)
  finally have "wait_frames ops data (Suc 10) (l, w) =
      TxFinish ops ISOTP_ERR_WFT_OVRN (l\<lparr>txWaitCount := 11, txTimerStart := t\<rparr>, w')" .
  moreover have "Suc 10 = 11" by simp
  ultimately show ?thesis using ten by metis
qed

theorem IsoTp_wait_frame_limit_witness:
  "\<exists>t w'. wait_frames bus_ops [0x31, 0, 0] 11 (bus_sending\<lparr>txState := ISOTP_TX_WAIT_FC\<rparr>, ([], 7)) =
      TxFinish bus_ops ISOTP_ERR_WFT_OVRN (bus_sending\<lparr>txState := ISOTP_TX_WAIT_FC, txWaitCount := 11,
        txTimerStart := t\<rparr>, w')"
proof -
  have "[0x31, 0, 0] ! 0 AND 0x0F = FC_STATUS_WAIT" by (simp add: FC_STATUS_WAIT_def)
  moreover have "txState (bus_sending\<lparr>txState := ISOTP_TX_WAIT_FC\<rparr>) = ISOTP_TX_WAIT_FC"
    "txWaitCount (bus_sending\<lparr>txState := ISOTP_TX_WAIT_FC\<rparr>) = 0"
    by (simp_all add: bus_sending_def bus_link_def IsoTp_Init_def zero_link_def Let_def)
  ultimately show ?thesis
    using IsoTp_wait_frame_limit [of "[0x31, 0, 0]" "bus_sending\<lparr>txState := ISOTP_TX_WAIT_FC\<rparr>" bus_ops "([], 7)"]
    by blast
qed

theorem IsoTp_reception_timeout_witness:
  "RxMain bus_ops (bus_link\<lparr>rxState := ISOTP_RX_RECEIVING, rxOffset := 6\<rparr>, ([], 1000))
   = Some (bus_link\<lparr>rxState := ISOTP_RX_IDLE, rxOffset := 6\<rparr>, ([], 1000))"
  using IsoTp_reception_timeout [of "bus_link\<lparr>rxState := ISOTP_RX_RECEIVING, rxOffset := 6\<rparr>" bus_ops
      "([], 1000)" 1000 "([], 1000)"] bus_cfg_link
  by (simp add: bus_ops_def) (simp add: bus_link_def IsoTp_Init_def zero_link_def Let_def)

end
