(* ===== verification/DiagApp.thy ===== *)
theory DiagApp
  imports ControlServices UdsTheorems IsoTpTheorems
begin

section \<open>Diagnostics of the Control ECU (control_ecu/CM4/Core/App/diag_app.c, diag_app.h)\<close>

text \<open>
  The diagnostic module binds the transport layer, the server and the trouble codes to the ECU:
  a request received by the link \<open>s_ecuLink\<close> goes to the server, its response back to the link,
  and when the link confirms that the response is on the bus, a pending reset is executed. A
  second link plays the tester in the loopback self-test. A state is \<open>(s_ecuLink, s_testerLink,
  the rest)\<close>; \<open>None\<close> as the result of an operation is the hard reset, which does not return.
\<close>

definition DIAG_BUFFER_SIZE :: u16 where "DIAG_BUFFER_SIZE = 256"
definition FW_VERSION :: string where "FW_VERSION = ''CTRL-0.3.0''"
definition FW_VERSION_LEN :: u8 where "FW_VERSION_LEN = 10"

definition SELFTEST_START_DELAY_MS :: u32 where "SELFTEST_START_DELAY_MS = 3000"
definition SELFTEST_STEP_GAP_MS :: u32 where "SELFTEST_STEP_GAP_MS = 100"
definition SELFTEST_TIMEOUT_MS :: u32 where "SELFTEST_TIMEOUT_MS = 500"

definition k_dtcTable :: "DtcMgr_Config_t list" where
  "k_dtcTable =
     [\<lparr>code = 0xC10087, confirmThreshold = 1\<rparr>, \<lparr>code = 0x050100, confirmThreshold = 3\<rparr>,
      \<lparr>code = 0xC40081, confirmThreshold = 3\<rparr>, \<lparr>code = 0x050096, confirmThreshold = 3\<rparr>,
      \<lparr>code = 0x9A0011, confirmThreshold = 3\<rparr>]"

subsection \<open>Data identifiers\<close>

definition ReadVersion :: "'h Ecu \<Rightarrow> u8 list \<times> 'h Ecu" where
  "ReadVersion w = (take (unat FW_VERSION_LEN) (chars FW_VERSION), w)"

definition ReadSpeed :: "'h Ecu \<Rightarrow> u8 list \<times> 'h Ecu" where
  "ReadSpeed w = (let (speed, w1) = ControlApp_GetSpeedX10 w in ([byte_hi speed, byte_lo speed], w1))"

definition ReadFaults :: "'h Ecu \<Rightarrow> u8 list \<times> 'h Ecu" where
  "ReadFaults w = ([ControlApp_GetFaultMask w], w)"

definition k_dids :: "'h Ecu Uds_Did_t list" where
  "k_dids =
     [\<lparr>did_id = 0xF195, did_length = FW_VERSION_LEN, did_read = ReadVersion\<rparr>,
      \<lparr>did_id = 0x0100, did_length = 2, did_read = ReadSpeed\<rparr>,
      \<lparr>did_id = 0x0101, did_length = 1, did_read = ReadFaults\<rparr>]"

subsection \<open>Bindings of the ECU\<close>

definition GetTimeMs :: "('h, 'n) EcuHal_scheme \<Rightarrow> 'h Ecu \<Rightarrow> u32" where
  "GetTimeMs hal w = osKernelGetTickCount hal (hfdcan1 w)"

definition DtcLock :: "nat \<Rightarrow> nat" where "DtcLock holds = holds + 1"
definition DtcUnlock :: "nat \<Rightarrow> nat" where "DtcUnlock holds = holds - 1"

text \<open>The server's calls of the trouble code manager, on the manager's state in the ECU.\<close>

definition ecu_dtc :: "'h Ecu DtcIf" where
  "ecu_dtc = dtcMgr_on dtcs (\<lambda>d w. w\<lparr>dtcs := d\<rparr>)"

definition diag_SendFrame ::
  "('h, 'n) EcuHal_scheme \<Rightarrow> u16 \<Rightarrow> u8 list \<Rightarrow> u8 \<Rightarrow> 'h Ecu \<Rightarrow> bool \<times> 'h Ecu" where
  "diag_SendFrame hal canId data dlc w = ControlApp_CanSend hal canId (Some data) dlc w"

text \<open>The hard reset logs a line and calls \<open>SysDrv_Restart\<close>, which does not return.\<close>

definition diag_EcuReset :: "u8 \<Rightarrow> 'h Ecu \<Rightarrow> 'h Ecu option" where
  "diag_EcuReset resetType w =
     (if resetType = 0x03 then Some (ControlApp_SoftReset w)
      else None)"

definition diag_uds :: "('h, 'n) EcuHal_scheme \<Rightarrow> 'h Ecu Uds_Config_t" where
  "diag_uds hal =
     \<lparr>dids = k_dids, didCount = of_nat (length (k_dids :: 'h Ecu Uds_Did_t list)),
      uds_getTimeMs = Some (\<lambda>w. (GetTimeMs hal w, w)), ecuReset = Some diag_EcuReset\<rparr>"

definition OnEcuResponseSent ::
  "('h, 'n) EcuHal_scheme \<Rightarrow> IsoTp_Result_t \<Rightarrow> 'h Ecu link_state \<Rightarrow> 'h Ecu link_state option" where
  "OnEcuResponseSent hal result s =
     (if result = ISOTP_OK then
        (case Uds_ExecutePendingReset (diag_uds hal) (uds (snd s)) (snd s) of
           None \<Rightarrow> None | Some (u, w) \<Rightarrow> Some (fst s, w\<lparr>uds := u\<rparr>))
      else Some s)"

definition ecu_txops :: "('h, 'n) EcuHal_scheme \<Rightarrow> 'h Ecu IsoTp_TxOps" where
  "ecu_txops hal =
     \<lparr>sendFrame = diag_SendFrame hal, getTimeMs = (\<lambda>w. (GetTimeMs hal w, w)),
      txConfirmation = Some (OnEcuResponseSent hal)\<rparr>"

definition RespondTo ::
  "('h, 'n) EcuHal_scheme \<Rightarrow> u8 list \<Rightarrow> u16 \<Rightarrow> bool \<Rightarrow> 'h Ecu link_state \<Rightarrow> 'h Ecu link_state option" where
  "RespondTo hal rq len functional s =
     (case s of (l, w) \<Rightarrow>
        let (respLen, b, u, w1) =
              Uds_ProcessRequest ecu_dtc (diag_uds hal) (Some rq) len functional (Some (s_respBuf w))
                DIAG_BUFFER_SIZE (uds w) w;
            w2 = w1\<lparr>uds := u, s_respBuf := the b\<rparr>
        in if respLen > 0 then
             map_option snd (IsoTp_Transmit (ecu_txops hal) (Some (s_respBuf w2)) respLen (l, w2))
           else Some (l, w2))"

definition OnEcuRequest ::
  "('h, 'n) EcuHal_scheme \<Rightarrow> u8 list \<Rightarrow> u16 \<Rightarrow> IsoTp_Result_t \<Rightarrow> 'h Ecu link_state \<Rightarrow>
   'h Ecu link_state option" where
  "OnEcuRequest hal data len result s =
     (if result = ISOTP_OK then RespondTo hal data len False s else Some s)"

definition ecu_ops :: "('h, 'n) EcuHal_scheme \<Rightarrow> 'h Ecu IsoTp_Ops" where
  "ecu_ops hal =
     \<lparr>sendFrame = diag_SendFrame hal, getTimeMs = (\<lambda>w. (GetTimeMs hal w, w)),
      txConfirmation = Some (OnEcuResponseSent hal), rxIndication = Some (OnEcuRequest hal)\<rparr>"

subsection \<open>The loopback self-test\<close>

record TestStep_t =
  ts_name :: string
  ts_req :: "u8 list"
  ts_reqLen :: u8
  ts_expect :: "u8 list"
  ts_expectLen :: u8
  ts_injectLocal :: int

definition TEST_STEP :: "string \<Rightarrow> u8 list \<Rightarrow> u8 list \<Rightarrow> int \<Rightarrow> TestStep_t" where
  "TEST_STEP n r e v =
     \<lparr>ts_name = n, ts_req = r, ts_reqLen = of_nat (length r), ts_expect = e,
      ts_expectLen = of_nat (length e), ts_injectLocal = v\<rparr>"

definition k_steps :: "TestStep_t list" where
  "k_steps =
     [TEST_STEP ''TesterPresent'' [0x3E, 0x00] [0x7E, 0x00] (-1),
      TEST_STEP ''ReadDID F195 (ECU sends FF+CF)'' [0x22, 0xF1, 0x95]
        ([0x62, 0xF1, 0x95] @ chars ''CTRL-0.3.0'') (-1),
      TEST_STEP ''ReadDID x4 (ECU receives FF+CF)''
        [0x22, 0xF1, 0x95, 0x01, 0x00, 0x01, 0x01, 0xF1, 0x95]
        ([0x62, 0xF1, 0x95] @ chars ''CTRL-0.3.0'' @ [0x01, 0x00]) (-1),
      TEST_STEP ''Unknown service -> NRC 11'' [0x85, 0x01] [0x7F, 0x85, 0x11] (-1),
      TEST_STEP ''Unknown DID -> NRC 31'' [0x22, 0x12, 0x34] [0x7F, 0x22, 0x31] (-1),
      TEST_STEP ''Reset in default -> NRC 7E'' [0x11, 0x01] [0x7F, 0x11, 0x7E] (-1),
      TEST_STEP ''Session extended'' [0x10, 0x03] [0x50, 0x03, 0x00, 0x32, 0x01, 0xF4] (-1),
      TEST_STEP ''Confirmed DTCs = 0'' [0x19, 0x01, 0x08] [0x59, 0x01, 0x7F, 0x01, 0x00, 0x00] 1,
      TEST_STEP ''Confirmed DTCs = 1'' [0x19, 0x01, 0x08] [0x59, 0x01, 0x7F, 0x01, 0x00, 0x01] (-1),
      TEST_STEP ''DTC list B1A00-11 0x2F'' [0x19, 0x02, 0x08] [0x59, 0x02, 0x7F, 0x9A, 0x00, 0x11, 0x2F] 0,
      TEST_STEP ''Clear all DTCs'' [0x14, 0xFF, 0xFF, 0xFF] [0x54] (-1),
      TEST_STEP ''Confirmed DTCs = 0 again'' [0x19, 0x01, 0x08] [0x59, 0x01, 0x7F, 0x01, 0x00, 0x00] (-1),
      TEST_STEP ''Soft reset'' [0x11, 0x03] [0x51, 0x03] (-1),
      TEST_STEP ''Session default'' [0x10, 0x01] [0x50, 0x01] (-1)]"

definition STEP_COUNT :: u8 where "STEP_COUNT = of_nat (length k_steps)"

definition OnTesterResponse ::
  "u8 list \<Rightarrow> u16 \<Rightarrow> IsoTp_Result_t \<Rightarrow> 'h Ecu link_state \<Rightarrow> 'h Ecu link_state option" where
  "OnTesterResponse data len result s =
     (case s of (l, w) \<Rightarrow>
        if result = ISOTP_OK \<and> unat len \<le> length (s_testerResp w) then
          Some (l, w\<lparr>s_testerResp := write_at (s_testerResp w) 0 (take (unat len) data),
                     s_testerRespLen := len, s_testerGotResp := True\<rparr>)
        else Some (l, w))"

definition selftest_ops :: "('h, 'n) EcuHal_scheme \<Rightarrow> 'h Ecu IsoTp_Ops" where
  "selftest_ops hal =
     \<lparr>sendFrame = diag_SendFrame hal, getTimeMs = (\<lambda>w. (GetTimeMs hal w, w)),
      txConfirmation = None, rxIndication = Some OnTesterResponse\<rparr>"

definition LOGHEX_MAX_BYTES :: u16 where "LOGHEX_MAX_BYTES = 24"

definition LogHex :: "string \<Rightarrow> u8 list \<Rightarrow> u16 \<Rightarrow> 'h Ecu \<Rightarrow> 'h Ecu" where
  "LogHex label data len w =
     (let truncated = len > LOGHEX_MAX_BYTES;
          n = (if truncated then LOGHEX_MAX_BYTES else len);
          line = concat (map (\<lambda>i. [hex_upper ! unat (drop_bit 4 (data ! i)), hex_upper ! unat (data ! i AND 0x0F),
                                  CHR '' '']) [0..<unat n])
      in ControlApp_Log (''         '' @ label @ '' '' @ line @ (if truncated then ''...'' else []) @ crlf) w)"

definition FinishStep :: "('h, 'n) EcuHal_scheme \<Rightarrow> bool \<Rightarrow> 'h Ecu \<Rightarrow> 'h Ecu" where
  "FinishStep hal pass w =
     (let st = k_steps ! unat (s_stStep w);
          w1 = ControlApp_Log
            (''[TEST] '' @ pad_left 2 CHR '' '' (dec (unat (s_stStep w) + 1)) @ ''/'' @ dec (unat STEP_COUNT) @ '' ''
             @ pad_right 32 (ts_name st) @ '' '' @ (if pass then ''PASS'' else ''FAIL'') @ crlf) w;
          w2 = (if \<not> pass then
                  LogHex ''got :'' (s_testerResp w1) (if s_testerGotResp w1 then s_testerRespLen w1 else 0)
                    (LogHex ''exp :'' (ts_expect st) (ucast (ts_expectLen st))
                      (LogHex ''req :'' (ts_req st) (ucast (ts_reqLen st)) w1))
                else w1);
          w3 = (if pass then w2\<lparr>s_stPassed := s_stPassed w2 + 1\<rparr> else w2);
          w4 = (if ts_injectLocal st \<ge> 0 then ControlApp_SetLocalFaultInjection (ts_injectLocal st \<noteq> 0) w3
                else w3);
          w5 = w4\<lparr>s_stStep := s_stStep w4 + 1\<rparr>;
          w6 = w5\<lparr>s_stTimer := GetTimeMs hal w5\<rparr>;
          w7 = w6\<lparr>s_stState := (if s_stStep w6 < STEP_COUNT then ST_SEND else ST_DONE)\<rparr>
      in if s_stState w7 = ST_DONE then
           ControlApp_Log (''[TEST] UDS self-test finished: '' @ dec (unat (s_stPassed w7)) @ ''/''
             @ dec (unat STEP_COUNT) @ '' passed'' @ crlf) w7
         else w7)"

definition SelfTestRun ::
  "('h, 'n) EcuHal_scheme \<Rightarrow> 'h Ecu link_state \<Rightarrow> 'h Ecu link_state option" where
  "SelfTestRun hal s =
     (case s of (l, w) \<Rightarrow>
        let now = GetTimeMs hal w in
        case s_stState w of
          ST_WAIT_START \<Rightarrow>
            if now - s_stTimer w \<ge> SELFTEST_START_DELAY_MS then
              Some (l, (ControlApp_Log
                (''[TEST] UDS self-test over CAN loopback (tester 0x7E0 -> ECU 0x7E8)'' @ crlf) w)
                \<lparr>s_stState := ST_SEND\<rparr>)
            else Some s
        | ST_SEND \<Rightarrow>
            if now - s_stTimer w \<ge> SELFTEST_STEP_GAP_MS \<and> \<not> IsoTp_IsTxBusy (Some l) then
              (let st = k_steps ! unat (s_stStep w);
                   w1 = w\<lparr>s_testerGotResp := False, s_testerRespLen := 0\<rparr>
               in map_option (\<lambda>(_, l2, w2). (l2, w2\<lparr>s_stTimer := now, s_stState := ST_WAIT_RESP\<rparr>))
                    (IsoTp_Transmit (selftest_ops hal) (Some (ts_req st)) (ucast (ts_reqLen st)) (l, w1)))
            else Some s
        | ST_WAIT_RESP \<Rightarrow>
            if s_testerGotResp w then
              (let st = k_steps ! unat (s_stStep w);
                   pass = (s_testerRespLen w \<ge> ucast (ts_expectLen st) \<and>
                           take (unat (ts_expectLen st)) (s_testerResp w) = ts_expect st)
               in Some (l, FinishStep hal pass w))
            else if now - s_stTimer w \<ge> SELFTEST_TIMEOUT_MS then Some (l, FinishStep hal False w)
            else Some s
        | _ \<Rightarrow> Some s)"

subsection \<open>Public interface\<close>

type_synonym 'h diag = "IsoTp_Link_t \<times> IsoTp_Link_t \<times> 'h Ecu"

definition diag_cfg :: "u16 \<Rightarrow> u16 \<Rightarrow> u8 \<Rightarrow> u8 \<Rightarrow> IsoTp_Config_t" where
  "diag_cfg tx rx bs st =
     \<lparr>txId = tx, rxId = rx, rxBuffer = replicate 256 0, rxBufferSize = DIAG_BUFFER_SIZE,
      txBuffer = replicate 256 0, txBufferSize = DIAG_BUFFER_SIZE, blockSize = bs, stMin = st,
      nBsTimeoutMs = 0, nCrTimeoutMs = 0\<rparr>"

definition DiagApp_Init :: "('h, 'n) EcuHal_scheme \<Rightarrow> bool \<Rightarrow> 'h diag \<Rightarrow> bool \<times> 'h diag" where
  "DiagApp_Init hal loopbackSelfTest d =
     (case d of (l, tst, w) \<Rightarrow>
        let (made, h) = osMutexNew hal (hfdcan1 w); w1 = w\<lparr>hfdcan1 := h\<rparr> in
        if \<not> made then (False, (l, tst, w1))
        else
          (let (ok, dm) = DtcMgr_Init (Some k_dtcTable) (of_nat (length k_dtcTable))
                            (Some DtcLock) (Some DtcUnlock) (dtcs w1);
               w2 = w1\<lparr>dtcs := dm\<rparr>
           in if \<not> ok then (False, (l, tst, w2))
              else
                (let (_, u, w3) = Uds_Init (Some (diag_uds hal)) (diag_uds hal) (uds w2) w2;
                     l1 = IsoTp_Init (Some (diag_cfg CANID_UDS_RESP_CONTROL CANID_UDS_REQ_CONTROL 0 0)) l;
                     w4 = w3\<lparr>uds := u, s_selfTest := loopbackSelfTest\<rparr>
                 in if s_selfTest w4 then
                      (True, (l1,
                        IsoTp_Init (Some (diag_cfg CANID_UDS_REQ_CONTROL CANID_UDS_RESP_CONTROL 2 1)) tst,
                        w4\<lparr>s_stState := ST_WAIT_START, s_stTimer := GetTimeMs hal w4\<rparr>))
                    else (True, (l1, tst, w4)))))"

definition on_ecuLink ::
  "('h Ecu link_state \<Rightarrow> 'h Ecu link_state option) \<Rightarrow> 'h diag \<Rightarrow> 'h diag option" where
  "on_ecuLink f d = (case d of (l, tst, w) \<Rightarrow> map_option (\<lambda>(l', w'). (l', tst, w')) (f (l, w)))"

definition on_testerLink ::
  "('h Ecu link_state \<Rightarrow> 'h Ecu link_state option) \<Rightarrow> 'h diag \<Rightarrow> 'h diag option" where
  "on_testerLink f d = (case d of (l, tst, w) \<Rightarrow> map_option (\<lambda>(tst', w'). (l, tst', w')) (f (tst, w)))"

definition DiagApp_OnFrame ::
  "('h, 'n) EcuHal_scheme \<Rightarrow> CanDrv_Frame_t \<Rightarrow> 'h diag \<Rightarrow> 'h diag option" where
  "DiagApp_OnFrame hal frame d =
     (if frame_id frame = CANID_UDS_REQ_CONTROL then
        on_ecuLink (IsoTp_RxFrame (ecu_ops hal) (Some (frame_data frame)) (frame_dlc frame)) d
      else if frame_id frame = 0x7DF then
        (let len = (frame_data frame ! 0) AND 0x0F in
         if drop_bit 4 (frame_data frame ! 0) = 0 \<and> len > 0 \<and> len < frame_dlc frame then
           on_ecuLink (RespondTo hal (drop 1 (frame_data frame)) (ucast len) True) d
         else Some d)
      else if frame_id frame = CANID_UDS_RESP_CONTROL \<and> s_selfTest (snd (snd d)) then
        on_testerLink (IsoTp_RxFrame (selftest_ops hal) (Some (frame_data frame)) (frame_dlc frame)) d
      else Some d)"

definition DiagApp_MainFunction :: "('h, 'n) EcuHal_scheme \<Rightarrow> 'h diag \<Rightarrow> 'h diag option" where
  "DiagApp_MainFunction hal d =
     do {
       (l, tst, w) \<leftarrow> on_ecuLink (IsoTp_MainFunction (ecu_ops hal)) d;
       let (u, w1) = Uds_MainFunction (diag_uds hal) (uds w) w;
       let d1 = (l, tst, w1\<lparr>uds := u\<rparr>);
       if s_selfTest w1 then
         do {
           d2 \<leftarrow> on_testerLink (IsoTp_MainFunction (selftest_ops hal)) d1;
           on_testerLink (SelfTestRun hal) d2
         }
       else Some d1
     }"

definition DiagApp_ReportFault :: "u8 \<Rightarrow> bool \<Rightarrow> 'h Ecu \<Rightarrow> 'h Ecu" where
  "DiagApp_ReportFault index failed w = w\<lparr>dtcs := DtcMgr_ReportResult index failed (dtcs w)\<rparr>"

definition DiagApp_ConfirmedDtcCount :: "'h Ecu \<Rightarrow> u8 \<times> 'h Ecu" where
  "DiagApp_ConfirmedDtcCount w =
     (let (n, d) = DtcMgr_CountByStatusMask DTC_STATUS_CDTC (dtcs w) in (n, w\<lparr>dtcs := d\<rparr>))"

end
