(* ===== verification/ControlApp.thy ===== *)
theory ControlApp
  imports DiagApp
begin

section \<open>Tasks of the Control ECU (control_ecu/CM4/Core/App/control_app.c, control_app.h)\<close>

text \<open>
  The interrupt's indication \<open>OnCanRx\<close>, one turn of the receiving task (\<open>ComRx_step\<close>), one turn
  of the monitoring task (\<open>Monitor_step\<close>) and the initialisation. The endless loops of the tasks
  are repetitions of their steps; the tasks share the state and run interleaved.
\<close>

definition k_filters :: "CanDrv_Filter_t list" where
  "k_filters = [\<lparr>firstId = CANID_SENSOR_SPEED, lastId = CANID_SENSOR_ALIVE\<rparr>,
                \<lparr>firstId = 0x7DF, lastId = CANID_UDS_RESP_CONTROL\<rparr>]"

subsection \<open>Receive path\<close>

definition OnCanRx :: "('h, 'n) EcuHal_scheme \<Rightarrow> CanDrv_Frame_t \<Rightarrow> 'h Ecu \<Rightarrow> 'h Ecu" where
  "OnCanRx hal frame w =
     (let (ok, h) = osMessageQueuePut hal frame (hfdcan1 w); w1 = w\<lparr>hfdcan1 := h\<rparr> in
      if \<not> ok then w1\<lparr>s_rxQueueOverflow := s_rxQueueOverflow w1 + 1\<rparr> else w1)"

fun CountE2e :: "E2e_Status_t \<Rightarrow> E2eStats_t \<Rightarrow> E2eStats_t" where
  "CountE2e E2E_OK st = st\<lparr>e2e_ok := e2e_ok st + 1\<rparr>"
| "CountE2e E2E_INITIAL st = st\<lparr>e2e_ok := e2e_ok st + 1\<rparr>"
| "CountE2e E2E_OK_SOME_LOST st = st\<lparr>e2e_lost := e2e_lost st + 1\<rparr>"
| "CountE2e E2E_ERR_CRC st = st\<lparr>e2e_crc := e2e_crc st + 1\<rparr>"
| "CountE2e E2E_ERR_LENGTH st = st\<lparr>e2e_crc := e2e_crc st + 1\<rparr>"
| "CountE2e E2E_ERR_REPEATED st = st\<lparr>e2e_repeated := e2e_repeated st + 1\<rparr>"
| "CountE2e E2E_ERR_WRONG_SEQ st = st\<lparr>e2e_wrongSeq := e2e_wrongSeq st + 1\<rparr>"

text \<open>The view of the sensor after a valid and after an invalid frame.\<close>

definition accept_frame :: "u32 \<Rightarrow> CanDrv_Frame_t \<Rightarrow> SensorView_t \<Rightarrow> SensorView_t" where
  "accept_frame now frame v =
     (let v1 = v\<lparr>speedX10 := u16_of_bytes (frame_data frame ! 0) (frame_data frame ! 1),
                 adcRaw := u16_of_bytes (frame_data frame ! 2) (frame_data frame ! 3),
                 sensorStatus := frame_data frame ! 4, lastValidTick := now, received := True\<rparr>
      in if goodStreak v1 < E2E_HEAL_FRAMES then v1\<lparr>goodStreak := goodStreak v1 + 1\<rparr>
         else v1\<lparr>e2eError := False\<rparr>)"

definition reject_frame :: "SensorView_t \<Rightarrow> SensorView_t" where
  "reject_frame v = v\<lparr>e2eError := True, goodStreak := 0\<rparr>"

definition HandleSpeedFrame :: "('h, 'n) EcuHal_scheme \<Rightarrow> CanDrv_Frame_t \<Rightarrow> 'h Ecu \<Rightarrow> 'h Ecu" where
  "HandleSpeedFrame hal frame w =
     (let (status, st) = E2e_Check (Some (s_e2eSpeed w)) (Some (frame_data frame)) (frame_dlc frame);
          w1 = lock_view (w\<lparr>s_e2eSpeed := the st\<rparr>);
          w2 = w1\<lparr>s_view := (s_view w1)\<lparr>e2e := CountE2e status (e2e (s_view w1))\<rparr>\<rparr>;
          w3 = w2\<lparr>s_view := (if E2e_IsValid status then accept_frame (GetTimeMs hal w2) frame (s_view w2)
                             else reject_frame (s_view w2))\<rparr>
      in unlock_view w3)"

text \<open>One turn of the task's loop; \<open>None\<close>: a hard reset was executed.\<close>

definition ComRx_dispatch :: "('h, 'n) EcuHal_scheme \<Rightarrow> CanDrv_Frame_t \<Rightarrow> 'h diag \<Rightarrow> 'h diag option" where
  "ComRx_dispatch hal frame d =
     (case d of (l, tst, w) \<Rightarrow>
        if frame_id frame = CANID_SENSOR_SPEED then Some (l, tst, HandleSpeedFrame hal frame w)
        else if frame_id frame = CANID_SENSOR_ALIVE then
          (let (_, st) = E2e_Check (Some (s_e2eAlive w)) (Some (frame_data frame)) (frame_dlc frame);
               w1 = lock_view (w\<lparr>s_e2eAlive := the st\<rparr>);
               w2 = w1\<lparr>s_view := (s_view w1)\<lparr>aliveFrames := aliveFrames (s_view w1) + 1\<rparr>\<rparr>
           in Some (l, tst, unlock_view w2))
        else if frame_id frame = CANID_UDS_REQ_CONTROL \<or> frame_id frame = 0x7DF \<or>
                frame_id frame = CANID_UDS_RESP_CONTROL then
          map_option (\<lambda>(l1, t1, w1).
              let w2 = lock_view w1;
                  w3 = w2\<lparr>s_view := (s_view w2)\<lparr>udsRequests := udsRequests (s_view w2) + 1\<rparr>\<rparr>
              in (l1, t1, unlock_view w3))
            (DiagApp_OnFrame hal frame (l, tst, w))
        else Some (l, tst, w))"

definition ComRx_step :: "('h, 'n) EcuHal_scheme \<Rightarrow> 'h diag \<Rightarrow> 'h diag option" where
  "ComRx_step hal d =
     (case d of (l, tst, w) \<Rightarrow>
        let (got, h) = osMessageQueueGet hal 2 (hfdcan1 w); d0 = (l, tst, w\<lparr>hfdcan1 := h\<rparr>) in
        case got of
          None \<Rightarrow> DiagApp_MainFunction hal d0
        | Some frame \<Rightarrow> do { d1 \<leftarrow> ComRx_dispatch hal frame d0; DiagApp_MainFunction hal d1 })"

subsection \<open>Monitoring and output\<close>

definition SetFault :: "Fault_t \<Rightarrow> bool \<Rightarrow> 'h Ecu \<Rightarrow> 'h Ecu" where
  "SetFault fault active w =
     (if s_faults w ! fault_index fault \<noteq> active then
        ControlApp_Log (''[CTRL] fault '' @ pad_right 13 (k_faultNames ! fault_index fault) @ '' ''
            @ (if active then ''SET'' else ''cleared'') @ crlf)
          (w\<lparr>s_faults := (s_faults w)[fault_index fault := active]\<rparr>)
      else w)"

definition control_HandleButton :: "('h, 'n) EcuHal_scheme \<Rightarrow> 'h Ecu \<Rightarrow> 'h Ecu" where
  "control_HandleButton hal w =
     (if IoDrv_IsUserButtonPressed hal w then
        (if button_stableTicks w < BUTTON_DEBOUNCE_TICKS
         then w\<lparr>button_stableTicks := button_stableTicks w + 1\<rparr>
         else if \<not> button_latched w then w\<lparr>button_latched := True, s_localInject := \<not> s_localInject w\<rparr>
         else w)
      else w\<lparr>button_stableTicks := 0, button_latched := False\<rparr>)"

definition fault_bits :: "bool list \<Rightarrow> u32" where
  "fault_bits faults = foldl (\<lambda>m i. m OR push_bit i (if faults ! i then 1 else 0)) 0 [0..<FAULT_COUNT]"

definition control_LogStatus ::
  "('h, 'n) EcuHal_scheme \<Rightarrow> SensorView_t \<Rightarrow> u32 \<Rightarrow> u16 \<Rightarrow> 'h Ecu \<Rightarrow> 'h Ecu" where
  "control_LogStatus hal v ageMs duty w =
     (let bus = the (control_CanDrv_GetStats
            (Some \<lparr>txQueued = 0, txDropped = 0, rxCount = 0, busOffCount = 0, kernelClockHz = 0\<rparr>) w);
          msk = fault_bits (s_faults w);
          (confirmed, w1) = DiagApp_ConfirmedDtcCount w;
          msg = ''[CTRL] speed='' @ tenths (unat (speedX10 v)) @ '' km/h age='' @ dec (unat ageMs)
            @ ''ms pwm='' @ tenths (unat duty) @ ''% | e2e ok='' @ dec (unat (e2e_ok (e2e v)))
            @ '' lost='' @ dec (unat (e2e_lost (e2e v))) @ '' crc='' @ dec (unat (e2e_crc (e2e v)))
            @ '' rep='' @ dec (unat (e2e_repeated (e2e v))) @ '' seq='' @ dec (unat (e2e_wrongSeq (e2e v)))
            @ '' | faults=0x'' @ hex02_lower (unat msk) @ '' dtc='' @ dec (unat confirmed)
            @ '' | rx='' @ dec (unat (rxCount bus)) @ '' tx='' @ dec (unat (txQueued bus))
            @ '' busoff='' @ dec (unat (busOffCount bus)) @ '' qovf='' @ dec (unat (s_rxQueueOverflow w))
            @ '' uds='' @ dec (unat (udsRequests v)) @ '' heap=''
            @ dec (unat (xPortGetFreeHeapSize hal (hfdcan1 w))) @ crlf
      in ControlApp_Log msg w1)"

text \<open>Compiled in when \<open>CONTROL_APP_CAN_LOOPBACK\<close> is set.\<close>

definition SendFakeSensorFrame :: "('h, 'n) EcuHal_scheme \<Rightarrow> 'h Ecu \<Rightarrow> 'h Ecu" where
  "SendFakeSensorFrame hal w =
     (let w1 = w\<lparr>fake_speed := ucast ((ucast (fake_speed w) + 5) mod (SENSOR_SPEED_MAX_X10 + 1))\<rparr>;
          bytes = (replicate 8 0)[0 := byte_hi (fake_speed w1), 1 := byte_lo (fake_speed w1)];
          (bytes1, counter) = the (E2e_Protect (Some bytes) (Some (fake_counter w1)));
          w2 = w1\<lparr>fake_counter := counter\<rparr>
      in snd (ControlApp_CanSend hal CANID_SENSOR_SPEED (Some bytes1) SENSOR_SPEED_DLC w2))"

definition SendStatusFrame :: "('h, 'n) EcuHal_scheme \<Rightarrow> u16 \<Rightarrow> 'h Ecu \<Rightarrow> 'h Ecu" where
  "SendStatusFrame hal duty w =
     (let fm = ControlApp_GetFaultMask w;
          (confirmed, w1) = DiagApp_ConfirmedDtcCount w;
          data = (replicate 8 0)[0 := fm, 1 := confirmed, 2 := byte_hi duty, 3 := byte_lo duty];
          (data1, counter) = the (E2e_Protect (Some data) (Some (status_counter w1)));
          w2 = w1\<lparr>status_counter := counter\<rparr>
      in snd (ControlApp_CanSend hal CANID_CONTROL_STATUS (Some data1) CONTROL_STATUS_DLC w2))"

text \<open>The time since the last valid frame, and the four monitors of a cycle.\<close>

definition age_ms :: "u32 \<Rightarrow> u32 \<Rightarrow> SensorView_t \<Rightarrow> u32" where
  "age_ms now start v = (if received v then now - lastValidTick v else now - start)"

definition run_monitors :: "('h, 'n) EcuHal_scheme \<Rightarrow> u32 \<Rightarrow> SensorView_t \<Rightarrow> 'h Ecu \<Rightarrow> 'h Ecu" where
  "run_monitors hal now v w =
     (let age = age_ms now (s_startTick w) v;
          w1 = SetFault FAULT_SPEED_TIMEOUT
            (age > SENSOR_SPEED_TIMEOUT_MS \<and> (received v \<or> now - s_startTick w > STARTUP_GRACE_MS)) w;
          w2 = SetFault FAULT_SPEED_RANGE (received v \<and> ucast (speedX10 v) > SENSOR_SPEED_MAX_X10) w1;
          w3 = SetFault FAULT_SPEED_E2E (e2eError v) w2;
          w4 = SetFault FAULT_SENSOR_ADC (sensorStatus v AND SENSOR_STATUS_ADC_ERROR \<noteq> 0) w3;
          w5 = control_HandleButton hal w4
      in SetFault FAULT_OUTPUT_LOCAL (s_localInject w5) w5)"

definition report_faults :: "'h Ecu \<Rightarrow> 'h Ecu" where
  "report_faults w =
     fold (\<lambda>i w. DiagApp_ReportFault (of_nat i) (s_faults w ! i) w) [0..<FAULT_COUNT] w"

definition speed_fault :: "bool list \<Rightarrow> bool" where
  "speed_fault f =
     (f ! fault_index FAULT_SPEED_TIMEOUT \<or> f ! fault_index FAULT_SPEED_RANGE \<or>
      f ! fault_index FAULT_SPEED_E2E \<or> f ! fault_index FAULT_OUTPUT_LOCAL)"

definition output_duty :: "bool \<Rightarrow> u16 \<Rightarrow> u16" where
  "output_duty fault speed =
     (if fault then 0 else ucast ((ucast speed * ucast IODRV_PWM_MAX) div SENSOR_SPEED_MAX_X10 :: u32))"

text \<open>One turn of the task's loop: \<open>next\<close>, \<open>tick\<close> and the state.\<close>

definition Monitor_step ::
  "('h, 'n) EcuHal_scheme \<Rightarrow> u32 \<times> u32 \<times> 'h Ecu \<Rightarrow> u32 \<times> u32 \<times> 'h Ecu" where
  "Monitor_step hal m =
     (case m of (next, tick, w) \<Rightarrow>
        let next1 = next + MONITOR_PERIOD_MS;
            w0 = w\<lparr>hfdcan1 := osDelayUntil hal next1 (hfdcan1 w)\<rparr>;
            tick1 = tick + 1;
            w1 = (if CONTROL_APP_CAN_LOOPBACK then SendFakeSensorFrame hal w0 else w0);
            view = s_view (lock_view w1);
            w2 = unlock_view (lock_view w1);
            now = GetTimeMs hal w2;
            ageMs = age_ms now (s_startTick w2) view;
            w3 = run_monitors hal now view w2;
            w4 = report_faults w3;
            duty = output_duty (speed_fault (s_faults w4)) (speedX10 view);
            w5 = IoDrv_SetPwm duty w4;
            w6 = control_CanDrv_MainFunction hal w5;
            w7 = (if tick1 mod (CONTROL_STATUS_CYCLE_MS div MONITOR_PERIOD_MS) = 0
                  then SendStatusFrame hal duty w6 else w6);
            w8 = (if tick1 mod LOG_PERIOD_TICKS = 0 then control_LogStatus hal view ageMs duty w7 else w7)
        in (next1, tick1, w8))"

subsection \<open>Initialisation\<close>

definition print :: "string \<Rightarrow> 'h Ecu \<Rightarrow> 'h Ecu" where
  "print msg w = w\<lparr>log := log w @ [msg]\<rparr>"

text \<open>The creation of an RTOS object.\<close>

definition create :: "('h \<Rightarrow> bool \<times> 'h) \<Rightarrow> 'h Ecu \<Rightarrow> bool \<times> 'h Ecu" where
  "create f w = (let (ok, h) = f (hfdcan1 w) in (ok, w\<lparr>hfdcan1 := h\<rparr>))"

definition ControlApp_Init :: "('h, 'n) EcuHal_scheme \<Rightarrow> 'h diag \<Rightarrow> bool \<times> 'h diag" where
  "ControlApp_Init hal d =
     (case d of (l, tst, w) \<Rightarrow>
        let mode = (if CONTROL_APP_CAN_LOOPBACK then CANDRV_MODE_INTERNAL_LOOPBACK else CANDRV_MODE_NORMAL);
            w1 = w\<lparr>s_e2eSpeed := the (E2e_InitRx (Some (s_e2eSpeed w)))\<rparr>;
            w2 = w1\<lparr>s_e2eAlive := the (E2e_InitRx (Some (s_e2eAlive w1)))\<rparr>;
            w3 = w2\<lparr>s_startTick := GetTimeMs hal w2\<rparr>;
            (q, w4) = create (osMessageQueueNew hal RX_QUEUE_LEN) w3;
            (m1, w5) = create (osMutexNew hal) w4;
            (m2, w6) = create (osMutexNew hal) w5;
            (m3, w7) = create (osMutexNew hal) w6
        in if \<not> (q \<and> m1 \<and> m2 \<and> m3) then
             (False, (l, tst, print (''[CTRL] RTOS object creation failed (heap too small?)'' @ crlf) w7))
           else
             (let (io, w8) = IoDrv_Init hal w7 in
              if \<not> io then (False, (l, tst, print (''[CTRL] PWM init failed'' @ crlf) w8))
              else
                (let (can, w9) = control_CanDrv_Init hal mode (Some k_filters) (of_nat (length k_filters)) w8 in
                 if can \<noteq> CANDRV_OK then (False, (l, tst, print (''[CTRL] CAN init failed'' @ crlf) w9))
                 else
                   (let (diag, l1, t1, w10) = DiagApp_Init hal CONTROL_APP_CAN_LOOPBACK (l, tst, w9) in
                    if \<not> diag then
                      (False, (l1, t1, print (''[CTRL] diagnostics init failed'' @ crlf) w10))
                    else
                      (let (t_rx, w11) = create (osThreadNew hal ''ComRx'') w10;
                           (t_mon, w12) = (if t_rx then create (osThreadNew hal ''Monitor'') w11 else (False, w11))
                       in if \<not> (t_rx \<and> t_mon) then
                            (False, (l1, t1, print (''[CTRL] task creation failed (heap too small?)'' @ crlf) w12))
                          else
                            (True, (l1, t1, print
                              (''[CTRL] start, CAN '' @ (if CONTROL_APP_CAN_LOOPBACK then ''INTERNAL LOOPBACK'' else ''NORMAL'')
                               @ '', FDCAN clock '' @ dec (unat (stats_kernelClockHz w12)) @ '' Hz, heap free ''
                               @ dec (unat (xPortGetFreeHeapSize hal (hfdcan1 w12))) @ crlf) w12)))))))"

end
