(* ===== verification/IsoTpWorld.thy ===== *)
theory IsoTpWorld
  imports IsoTpProps
begin

section \<open>What a link keeps of the world around it\<close>

text \<open>
  A property of the caller's world that the driver, the clock and the callbacks keep is kept by
  every operation of the link.
\<close>

locale isotp_tx_world =
  fixes ops :: "('w, 'm) IsoTp_TxOps_scheme" and P :: "'w \<Rightarrow> bool"
  assumes send_P: "sendFrame ops i f dlc w = (ok, w') \<Longrightarrow> P w \<Longrightarrow> P w'"
    and time_P: "getTimeMs ops w = (t, w') \<Longrightarrow> P w \<Longrightarrow> P w'"
    and conf_P: "txConfirmation ops = Some cb \<Longrightarrow> cb r (l, w) = Some s' \<Longrightarrow> P w \<Longrightarrow> P (snd s')"
begin

lemma Now_P: "Now ops s = (t, s') \<Longrightarrow> P (snd s) \<Longrightarrow> P (snd s')"
  by (auto simp: Now_def split: prod.splits dest: time_P)

lemma Elapsed_P: "Elapsed ops start s = (t, s') \<Longrightarrow> P (snd s) \<Longrightarrow> P (snd s')"
  by (auto simp: Elapsed_def split: prod.splits dest: Now_P)

lemma SendFrame_P: "SendFrame ops f s = (ok, s') \<Longrightarrow> P (snd s) \<Longrightarrow> P (snd s')"
  by (auto simp: SendFrame_def split: prod.splits dest: send_P)

lemma upd_P [simp]: "P (snd (upd g s)) = P (snd s)"
  by (simp add: upd_def)

lemma TxFinish_P: "TxFinish ops r s = Some s' \<Longrightarrow> P (snd s) \<Longrightarrow> P (snd s')"
  by (cases s) (auto simp: TxFinish_def upd_pair Let_def split: option.splits dest: conf_P)

lemma TxSendFirst_P: "TxSendFirst ops s = Some (ok, s') \<Longrightarrow> P (snd s) \<Longrightarrow> P (snd s')"
  by (auto simp: TxSendFirst_def Let_def split: if_splits prod.splits bind_splits
      dest!: SendFrame_P TxFinish_P Now_P)

lemma StMinBlocks_P: "StMinBlocks ops s = (b, s') \<Longrightarrow> P (snd s) \<Longrightarrow> P (snd s')"
  by (auto simp: StMinBlocks_def split: if_splits prod.splits dest: Elapsed_P)

lemma TxCfStep_P: "TxCfStep ops s = Some (k, s') \<Longrightarrow> P (snd s) \<Longrightarrow> P (snd s')"
  by (auto simp: TxCfStep_def Let_def split: if_splits prod.splits bind_splits
      dest!: StMinBlocks_P SendFrame_P TxFinish_P Now_P)

lemma TxSendConsecutiveFrames_P: "TxSendConsecutiveFrames ops s = Some s' \<Longrightarrow> P (snd s) \<Longrightarrow> P (snd s')"
  unfolding TxSendConsecutiveFrames_def
  by (rule TxCfLoop_inv [where P = "\<lambda>s. P (snd s)"]) (auto dest: TxCfStep_P)

lemma TxOnFlowControl_P: "TxOnFlowControl ops data dlc s = Some s' \<Longrightarrow> P (snd s) \<Longrightarrow> P (snd s')"
  by (auto simp: TxOnFlowControl_def Let_def split: if_splits prod.splits
      dest!: Now_P TxFinish_P TxSendConsecutiveFrames_P)

lemma TxTimeoutCheck_P: "TxTimeoutCheck ops s = Some s' \<Longrightarrow> P (snd s) \<Longrightarrow> P (snd s')"
  by (auto simp: TxTimeoutCheck_def split: if_splits prod.splits dest!: Elapsed_P TxFinish_P)

lemma TxMain_P: "TxMain ops s = Some s' \<Longrightarrow> P (snd s) \<Longrightarrow> P (snd s')"
  by (auto simp: TxMain_def split: IsoTp_TxState_t.splits if_splits bind_splits
      dest!: TxSendFirst_P TxTimeoutCheck_P TxSendConsecutiveFrames_P)

lemma IsoTp_Transmit_P: "IsoTp_Transmit ops data len s = Some (r, s') \<Longrightarrow> P (snd s) \<Longrightarrow> P (snd s')"
  by (auto simp: IsoTp_Transmit_def Let_def split: option.splits if_splits prod.splits bind_splits
      dest!: Now_P TxSendFirst_P)

lemma RxSendFlowControl_P: "P (snd s) \<Longrightarrow> P (snd (RxSendFlowControl ops fs s))"
  by (auto simp: RxSendFlowControl_def Let_def split: prod.splits dest: SendFrame_P)

end

locale isotp_world = isotp_tx_world ops P for ops :: "'w IsoTp_Ops" and P :: "'w \<Rightarrow> bool" +
  assumes ind_P: "rxIndication ops = Some f \<Longrightarrow> f data n r (l, w) = Some s' \<Longrightarrow> P w \<Longrightarrow> P (snd s')"
begin

lemma RxFinish_P: "RxFinish ops r s = Some s' \<Longrightarrow> P (snd s) \<Longrightarrow> P (snd s')"
  by (cases s) (auto simp: RxFinish_def upd_pair Let_def split: option.splits dest: ind_P)

lemma RxOnSingleFrame_P: "RxOnSingleFrame ops data dlc s = Some s' \<Longrightarrow> P (snd s) \<Longrightarrow> P (snd s')"
  by (auto simp: RxOnSingleFrame_def Let_def split: if_splits bind_splits dest!: RxFinish_P)

lemma RxOnFirstFrame_P: "RxOnFirstFrame ops data dlc s = Some s' \<Longrightarrow> P (snd s) \<Longrightarrow> P (snd s')"
  by (auto simp: RxOnFirstFrame_def Let_def split: if_splits bind_splits prod.splits
      intro!: RxSendFlowControl_P dest!: RxFinish_P Now_P)

lemma RxOnConsecutiveFrame_P: "RxOnConsecutiveFrame ops data dlc s = Some s' \<Longrightarrow> P (snd s) \<Longrightarrow> P (snd s')"
  by (auto simp: RxOnConsecutiveFrame_def Let_def split: if_splits prod.splits
      intro!: RxSendFlowControl_P dest!: RxFinish_P Now_P)

lemma IsoTp_RxFrame_P: "IsoTp_RxFrame ops data dlc s = Some s' \<Longrightarrow> P (snd s) \<Longrightarrow> P (snd s')"
  by (auto simp: IsoTp_RxFrame_def Let_def split: option.splits if_splits
      dest!: RxOnSingleFrame_P RxOnFirstFrame_P RxOnConsecutiveFrame_P TxOnFlowControl_P)

lemma RxMain_P: "RxMain ops s = Some s' \<Longrightarrow> P (snd s) \<Longrightarrow> P (snd s')"
  by (auto simp: RxMain_def Let_def split: if_splits prod.splits
      dest!: RxFinish_P Elapsed_P intro: RxSendFlowControl_P)

lemma IsoTp_MainFunction_P: "IsoTp_MainFunction ops s = Some s' \<Longrightarrow> P (snd s) \<Longrightarrow> P (snd s')"
  by (auto simp: IsoTp_MainFunction_def split: bind_splits dest!: RxMain_P TxMain_P)

end

end
