(* ===== verification/DiagLink.thy ===== *)
theory DiagLink
  imports DiagApp IsoTpWorld
begin

section \<open>The diagnostic module provides the contracts of the stack\<close>

text \<open>
  The locales of the transport layer and of the server, interpreted on the ECU: its link
  (\<open>ecu_link\<close>), the self-test's link (\<open>selftest_link\<close>), its trouble codes (\<open>ecu_store\<close>) and its
  identifiers (\<open>ecu_server\<close>).
\<close>

subsection \<open>Frames on the bus\<close>

declare hal_call_trace [simp]

lemma control_Write_trace:
  "control_CanDrv_Write hal (Some frame) w = (st, w') \<Longrightarrow>
   tx_trace w' = (if st = CANDRV_OK then tx_trace w @ [frame] else tx_trace w)"
  by (auto simp: control_CanDrv_Write_def Let_def count_dropped_def count_queued_def
      split: if_splits prod.splits)

lemma diag_SendFrame_log:
  assumes "diag_SendFrame hal i f 8 w = (ok, w')" "length f = 8"
  shows "can_sent w' = (if ok then can_sent w @ [(i, f)] else can_sent w)"
  using assms
  by (auto simp: diag_SendFrame_def ControlApp_CanSend_def CANDRV_MAX_DLC_def can_sent_def
      write_at_same_tail split: prod.splits dest!: control_Write_trace)

lemma ControlApp_Log_keeps [simp]:
  "tx_trace (ControlApp_Log m w) = tx_trace w" "dtcs (ControlApp_Log m w) = dtcs w"
  "s_respBuf (ControlApp_Log m w) = s_respBuf w" "s_faults (ControlApp_Log m w) = s_faults w"
  "hfdcan1 (ControlApp_Log m w) = hfdcan1 w" "s_view (ControlApp_Log m w) = s_view w"
  "uds (ControlApp_Log m w) = uds w" "tim1_CCR2 (ControlApp_Log m w) = tim1_CCR2 w"
  "s_localInject (ControlApp_Log m w) = s_localInject w"
  "s_startTick (ControlApp_Log m w) = s_startTick w"
  "button_stableTicks (ControlApp_Log m w) = button_stableTicks w"
  "button_latched (ControlApp_Log m w) = button_latched w"
  by (simp_all add: ControlApp_Log_def Let_def)

lemma diag_EcuReset_keeps: "diag_EcuReset t w = Some w' \<Longrightarrow> tx_trace w' = tx_trace w"
  by (auto simp: diag_EcuReset_def ControlApp_SoftReset_def Let_def split: if_splits)

lemma ExecutePendingReset_keeps:
  "Uds_ExecutePendingReset (diag_uds hal) u w = Some (u', w') \<Longrightarrow> tx_trace w' = tx_trace w"
  by (auto simp: Uds_ExecutePendingReset_def diag_uds_def Let_def split: if_splits dest: diag_EcuReset_keeps)

lemma OnEcuResponseSent_keeps:
  "OnEcuResponseSent hal r s = Some s' \<Longrightarrow> fst s' = fst s \<and> tx_trace (snd s') = tx_trace (snd s)"
  by (auto simp: OnEcuResponseSent_def split: if_splits option.splits dest: ExecutePendingReset_keeps)

subsection \<open>The ECU's link\<close>

interpretation ecu_sender: isotp_sender "ecu_txops hal" for hal :: "('h, 'n) EcuHal_scheme"
  by unfold_locales (auto simp: ecu_txops_def dest: OnEcuResponseSent_keeps)

lemma OnEcuRequest_keeps:
  assumes "OnEcuRequest hal data n r (l, w) = Some s'" "tx_wf l"
  shows "tx_wf (fst s') \<and> rx_view (fst s') = rx_view l"
  using assms ecu_sender.IsoTp_Transmit_tx_wf [of hal _ _ l]
  by (fastforce simp: OnEcuRequest_def RespondTo_def Let_def split: if_splits prod.splits)

interpretation ecu_client: isotp_client "ecu_ops hal" for hal :: "('h, 'n) EcuHal_scheme"
  by unfold_locales (auto simp: ecu_ops_def dest: OnEcuResponseSent_keeps OnEcuRequest_keeps)

interpretation ecu_port: isotp_port "ecu_ops hal" can_sent for hal :: "('h, 'n) EcuHal_scheme"
proof
  fix i f w ok w'
  assume "sendFrame (ecu_ops hal) i f 8 w = (ok, w')" "length f = 8"
  then show "can_sent w' = (if ok then can_sent w @ [(i, f)] else can_sent w)"
    by (simp add: ecu_ops_def diag_SendFrame_log)
qed (auto simp: ecu_ops_def can_sent_def dest: OnEcuResponseSent_keeps)

interpretation ecu_link: isotp_link "ecu_ops hal" can_sent for hal :: "('h, 'n) EcuHal_scheme"
  by unfold_locales

subsection \<open>The self-test's link\<close>

lemma OnTesterResponse_keeps: "OnTesterResponse data n r (l, w) = Some s' \<Longrightarrow> fst s' = l"
  by (auto simp: OnTesterResponse_def split: if_splits)

interpretation selftest_link: isotp_link_total "selftest_ops hal" can_sent
  for hal :: "('h, 'n) EcuHal_scheme"
proof
  fix i f w ok w'
  assume "sendFrame (selftest_ops hal) i f 8 w = (ok, w')" "length f = 8"
  then show "can_sent w' = (if ok then can_sent w @ [(i, f)] else can_sent w)"
    by (simp add: selftest_ops_def diag_SendFrame_log)
qed (auto simp: selftest_ops_def dest!: OnTesterResponse_keeps)

subsection \<open>The server and its store\<close>

lemma length_ReadVersion [simp]: "length (fst (ReadVersion w)) = 10"
  by (simp add: ReadVersion_def chars_def FW_VERSION_def FW_VERSION_LEN_def)

interpretation ecu_store: dtc_store ecu_dtc "\<lambda>w. dtc_ok (dtcs w)" "\<lambda>m w. dtc_hits m (dtcs w)"
  unfolding ecu_dtc_def by (rule dtcMgr_on_store) simp_all

interpretation ecu_server: uds_server ecu_dtc "\<lambda>w. dtc_ok (dtcs w)" "\<lambda>m w. dtc_hits m (dtcs w)" "diag_uds hal"
  for hal :: "('h, 'n) EcuHal_scheme"
  by unfold_locales
    (auto simp: diag_uds_def k_dids_def ReadSpeed_def ReadFaults_def ControlApp_GetSpeedX10_def Let_def
      ReadVersion_def FW_VERSION_LEN_def FW_VERSION_def chars_def)

end
