(* ===== verification/DiagProps.thy ===== *)
theory DiagProps
  imports DiagLink
begin

text \<open>
  What the diagnostics of the control ECU (\<open>diag_app.c\<close>) do with a request, over the composition of the
  server, the trouble code store, the transport and the CAN driver. The first part computes the
  answer (\<open>ecu_reply\<close>) and the ECU after the request (\<open>ecu_after\<close>) from the server's specification;
  the last part shows which facts about the ECU (\<open>ecu_ok\<close>) every link operation, request and
  callback keeps.
\<close>

section \<open>The diagnostics of the control ECU\<close>

subsection \<open>The answer of the ECU\<close>

definition ecu_value :: "'h Ecu \<Rightarrow> u16 \<Rightarrow> u8 list option" where
  "ecu_value w did =
     (if did = 0xF195 then Some (chars ''CTRL-0.3.0'')
      else if did = 0x0100 then Some [byte_hi (speedX10 (s_view w)), byte_lo (speedX10 (s_view w))]
      else if did = 0x0101 then Some [ControlApp_GetFaultMask w] else None)"

lemma ecu_did_val: "uds_server.did_val (diag_uds hal) w = ecu_value w"
  by (rule ext, simp only: ecu_server.did_val_def) (simp add: FindDid_def diag_uds_def k_dids_def ecu_value_def ReadVersion_def
      ReadSpeed_def ReadFaults_def ControlApp_GetSpeedX10_def lock_view_def FW_VERSION_LEN_def
      FW_VERSION_def chars_def)

definition ecu_reply :: "'h Ecu \<Rightarrow> u8 list \<Rightarrow> uds_reply" where
  "ecu_reply w rq = spec_reply 256 (\<lambda>m. dtc_hits m (dtcs w)) (ecu_value w) (s_session (uds w)) rq"

text \<open>The server's state after a request, and the ECU with it.\<close>

definition uds_after :: "('h, 'n) EcuHal_scheme \<Rightarrow> 'h Ecu \<Rightarrow> u8 list \<Rightarrow> Uds_State" where
  "uds_after hal w rq =
     (if \<not> positive (ecu_reply w rq) then uds w
      else if hd rq = 0x10 then (uds w)\<lparr>s_session := rq ! 1 AND 0x7F\<rparr>
      else if hd rq = 0x11 then (uds w)\<lparr>s_pendingReset := rq ! 1 AND 0x7F\<rparr> else uds w)
       \<lparr>s_lastRequestMs := GetTimeMs hal w\<rparr>"

definition ecu_after :: "('h, 'n) EcuHal_scheme \<Rightarrow> 'h Ecu \<Rightarrow> u8 list \<Rightarrow> u8 list \<Rightarrow> 'h Ecu" where
  "ecu_after hal w rq buf =
     (if positive (ecu_reply w rq) \<and> hd rq = 0x14 then w\<lparr>dtcs := DtcMgr_ClearAll (dtcs w)\<rparr> else w)
       \<lparr>uds := uds_after hal w rq, s_respBuf := buf\<rparr>"

lemma s_respBuf_after [simp]: "s_respBuf (ecu_after hal w rq buf) = buf"
  by (simp add: ecu_after_def)

lemma unat_256: "unat (256 :: u16) = 256"
  by simp

lemma Transmit_take:
  "IsoTp_Transmit ops (Some bytes) len s = IsoTp_Transmit ops (Some (take (unat len) bytes)) len s"
  by (simp add: IsoTp_Transmit_def)

lemma RespondTo_eq:
  assumes "dtc_ok (dtcs w)" "length (s_respBuf w) = 256" "len \<noteq> 0"
    and "rq = map ((!) data) [0..<unat len]" "bytes = encode_reply functional (hd rq) (ecu_reply w rq)"
  shows "\<exists>buf. length buf = 256 \<and> length bytes \<le> 256 \<and>
    RespondTo hal data len functional (l, w) =
      (if bytes = [] then Some (l, ecu_after hal w rq buf)
       else map_option snd (IsoTp_Transmit (ecu_txops hal) (Some bytes) (of_nat (length bytes))
              (l, ecu_after hal w rq buf)))"
proof -
  have rq: "rq \<noteq> []" "unat len = length rq"
    using assms(3,4) by (auto simp: unat_eq_0)
  have now: "fst (uds_now (diag_uds hal) w) = GetTimeMs hal w"
    by (simp add: uds_now_def diag_uds_def)
  obtain n buf where pr: "Uds_ProcessRequest ecu_dtc (diag_uds hal) (Some rq) len functional
      (Some (s_respBuf w)) 256 (uds w) w = (n, Some buf, uds_after hal w rq,
        if positive (ecu_reply w rq) \<and> hd rq = 0x14 then dtc_ClearAll ecu_dtc w else w)"
    and buf: "take (unat n) buf = bytes" "n \<le> 256" "length buf = 256"
    using ecu_server.process_refines [OF assms(1) rq, of 256 "s_respBuf w" hal functional "uds w",
        unfolded ecu_did_val now, simplified unat_256, folded ecu_reply_def, folded uds_after_def] assms(2)
    unfolding assms(5) by auto
  have n: "length bytes = unat n" using buf by (auto simp: word_le_nat_alt)
  then have n': "n = of_nat (length bytes)" by simp
  have empty: "bytes = [] \<longleftrightarrow> n = 0" using n by (metis length_0_conv unat_eq_0)
  define w1 where "w1 = (if positive (ecu_reply w rq) \<and> hd rq = 0x14 then dtc_ClearAll ecu_dtc w else w)"
  have w2: "w1\<lparr>uds := uds_after hal w rq, s_respBuf := buf\<rparr> = ecu_after hal w rq buf"
    by (simp add: ecu_after_def w1_def ecu_dtc_def dtcMgr_on_def)
  have "Uds_ProcessRequest ecu_dtc (diag_uds hal) (Some data) len functional
      (Some (s_respBuf w)) 256 (uds w) w = (n, Some buf, uds_after hal w rq, w1)"
    using pr ProcessRequest_prefix [of ecu_dtc "diag_uds hal" data len functional "Some (s_respBuf w)" 256 "uds w" w]
    by (simp only: assms(4) w1_def)
  then have "RespondTo hal data len functional (l, w) =
      (if n > 0 then map_option snd (IsoTp_Transmit (ecu_txops hal) (Some buf) n (l, ecu_after hal w rq buf))
       else Some (l, ecu_after hal w rq buf))"
    by (simp add: RespondTo_def DIAG_BUFFER_SIZE_def Let_def w2)
  moreover have "IsoTp_Transmit (ecu_txops hal) (Some buf) n s = IsoTp_Transmit (ecu_txops hal) (Some bytes) n s" for s
    using Transmit_take [of "ecu_txops hal" buf n s] buf(1) by simp
  ultimately have "RespondTo hal data len functional (l, w) =
      (if bytes = [] then Some (l, ecu_after hal w rq buf)
       else map_option snd (IsoTp_Transmit (ecu_txops hal) (Some bytes) n (l, ecu_after hal w rq buf)))"
    using empty by (cases "n = 0") (simp_all add: word_gt_0)
  moreover have "length bytes \<le> 256" using n buf(2) by (simp add: word_le_nat_alt)
  ultimately show ?thesis
    using buf(3) unfolding n' by blast
qed

interpretation ecu_txport: isotp_port "ecu_txops hal" can_sent for hal :: "('h, 'n) EcuHal_scheme"
proof
  fix i f w ok w'
  assume "sendFrame (ecu_txops hal) i f 8 w = (ok, w')" "length f = 8"
  then show "can_sent w' = (if ok then can_sent w @ [(i, f)] else can_sent w)"
    by (simp add: ecu_txops_def diag_SendFrame_log)
qed (auto simp: ecu_txops_def can_sent_def dest: OnEcuResponseSent_keeps)

text \<open>The link is idle on both sides, the buffers have their sizes and the store is in order.\<close>

definition diag_ready :: "IsoTp_Link_t \<Rightarrow> 'h Ecu \<Rightarrow> bool" where
  "diag_ready l w =
     (link_wf l \<and> txState l = ISOTP_TX_IDLE \<and> rxState l = ISOTP_RX_IDLE \<and> \<not> rxFcPending l \<and>
      txId (cfg l) = 0x7E8 \<and> txBufferSize (cfg l) = 256 \<and> rxBufferSize (cfg l) = 256 \<and>
      dtc_ok (dtcs w) \<and> length (s_respBuf w) = 256)"

lemma can_sent_after [simp]: "can_sent (ecu_after hal w rq buf) = can_sent w"
  by (simp add: ecu_after_def can_sent_def)

lemma ecu_ops_calls [simp]:
  "sendFrame (ecu_ops hal) = diag_SendFrame hal" "sendFrame (ecu_txops hal) = diag_SendFrame hal"
  "getTimeMs (ecu_ops hal) w = (GetTimeMs hal w, w)" "getTimeMs (ecu_txops hal) w = (GetTimeMs hal w, w)"
  by (simp_all add: ecu_ops_def ecu_txops_def)

lemma transmit_answer:
  assumes "IsoTp_Transmit (ecu_txops hal) (Some bytes) (of_nat (length bytes)) (l, w) = Some (r, s1)"
    and "link_wf l" "txState l = ISOTP_TX_IDLE" "rxState l = ISOTP_RX_IDLE" "\<not> rxFcPending l"
    and "txBufferSize (cfg l) = 256" "bytes \<noteq> []" "length bytes \<le> 256"
  shows "tx_started (ecu_ops hal) can_sent bytes (txId (cfg l)) w s1"
    and "tx_steps (ecu_ops hal) can_sent s1 s' \<Longrightarrow>
      \<exists>n. isotp_port.progress can_sent (can_sent w) bytes n (txId (cfg l)) s'"
proof -
  define len :: u16 where "len = of_nat (length bytes)"
  have len: "unat len = length bytes" using assms(8) by (simp add: len_def unat_of_nat)
  then have "len \<noteq> 0" "\<not> len > ISOTP_MAX_MESSAGE_LEN" "\<not> len > 256"
    using assms(7,8) by (auto simp: ISOTP_MAX_MESSAGE_LEN_def word_less_nat_alt)
  then have "r = ISOTP_OK"
    using assms(1,3,6)
    by (auto simp: IsoTp_Transmit_def Let_def isotp_pairs simp flip: len_def split: bind_splits)
  with assms(1) have tr: "IsoTp_Transmit (ecu_txops hal) (Some bytes) len (l, w) = Some (ISOTP_OK, s1)"
    by (simp add: len_def)
  have wf: "tx_wf l" using assms(2) by (simp add: link_wf_def)
  show "tx_started (ecu_ops hal) can_sent bytes (txId (cfg l)) w s1"
    using ecu_txport.progress_transmit(2) [OF tr wf len] by (simp add: tx_started_def)
  show "\<exists>n. isotp_port.progress can_sent (can_sent w) bytes n (txId (cfg l)) s'"
    if "tx_steps (ecu_ops hal) can_sent s1 s'"
    by (rule ecu_link.started_progress [OF tr ecu_txport.isotp_port_axioms assms(2) len assms(4,5) that])
qed

subsection \<open>A platform for the examples\<close>

text \<open>The peripheral state is the kernel tick; every HAL call succeeds, nothing is received.\<close>

definition demo_hal :: "u32 EcuHal" where
  "demo_hal =
     \<lparr>HAL_FDCAN_Init = \<lambda>_ h. (HAL_OK, h), HAL_FDCAN_ConfigFilter = \<lambda>_ h. (HAL_OK, h),
      HAL_FDCAN_ConfigGlobalFilter = \<lambda>_ _ _ _ h. (HAL_OK, h),
      HAL_FDCAN_ActivateNotification = \<lambda>_ _ h. (HAL_OK, h), HAL_FDCAN_Start = \<lambda>h. (HAL_OK, h),
      HAL_FDCAN_GetTxFifoFreeLevel = \<lambda>h. 3, HAL_FDCAN_AddMessageToTxFifoQ = \<lambda>_ _ h. (HAL_OK, h),
      HAL_FDCAN_GetRxFifoFillLevel = \<lambda>h. 0,
      HAL_FDCAN_GetRxMessage = \<lambda>h. (HAL_ERROR, \<lparr>rxIdentifier = 0, rxDataLength = 0\<rparr>, [], h),
      read_CCCR = \<lambda>h. 0, write_CCCR = \<lambda>_ h. h, read_PSR = \<lambda>h. 0,
      read_rcc = \<lambda>_ h. 0, write_rcc = \<lambda>_ _ h. h, HAL_Delay = \<lambda>_ h. h,
      GetPeriphCLKFreq_FDCAN = \<lambda>h. 24000000, HAL_TIM_PWM_Start = \<lambda>h. (HAL_OK, h), user1_pin = \<lambda>h. True,
      osKernelGetTickCount = \<lambda>h. h, osMessageQueuePut = \<lambda>_ h. (True, h),
      osMessageQueueGet = \<lambda>_ h. (None, h), osDelayUntil = \<lambda>t h. t,
      osMessageQueueNew = \<lambda>_ h. (True, h), osMutexNew = \<lambda>h. (True, h), osThreadNew = \<lambda>_ h. (True, h),
      xPortGetFreeHeapSize = \<lambda>h. 0\<rparr>"

definition demo_dtcs :: DtcMgr_State where
  "demo_dtcs = snd (DtcMgr_Init (Some k_dtcTable) 5 (Some DtcLock) (Some DtcUnlock) DtcMgr_static)"

definition demo_view :: SensorView_t where
  "demo_view = \<lparr>speedX10 = 0, adcRaw = 0, sensorStatus = 0, lastValidTick = 0, received = False,
     e2eError = False, goodStreak = 0,
     e2e = \<lparr>e2e_ok = 0, e2e_lost = 0, e2e_crc = 0, e2e_repeated = 0, e2e_wrongSeq = 0\<rparr>,
     aliveFrames = 0, udsRequests = 0\<rparr>"

definition demo_ecu :: "u32 Ecu" where
  "demo_ecu =
     \<lparr>hfdcan1 = 0, hfdcan1_Init = \<lparr>initMode = 0, NominalPrescaler = 3, NominalTimeSeg1 = 13,
        NominalTimeSeg2 = 2, NominalSyncJumpWidth = 2\<rparr>,
      s_busOffPending = False, s_busOffTimer = 0,
      s_stats = \<lparr>txQueued = 0, txDropped = 0, rxCount = 0, busOffCount = 0\<rparr>, tx_trace = [],
      s_kernelClockHz = 24000000, stats_kernelClockHz = 0, tim1_ARR = 0, tim1_Period = 0, tim1_CCR2 = 0,
      s_view = demo_view, s_e2eSpeed = \<lparr>lastCounter = 0, synced = False\<rparr>,
      s_e2eAlive = \<lparr>lastCounter = 0, synced = False\<rparr>, s_rxQueueOverflow = 0,
      s_viewMutex = 0, s_txMutex = 0, s_logMutex = 0, s_localInject = False,
      s_faults = replicate 5 False, s_startTick = 0, button_stableTicks = 0, button_latched = False,
      status_counter = 0, fake_counter = 0, fake_speed = 0, log = [], dtcs = demo_dtcs,
      uds = Uds_static, s_respBuf = replicate 256 0, s_selfTest = False, s_stState = ST_OFF,
      s_stStep = 0, s_stPassed = 0, s_stTimer = 0, s_testerResp = replicate 256 0, s_testerRespLen = 0,
      s_testerGotResp = False\<rparr>"

definition demo_link :: IsoTp_Link_t where
  "demo_link = IsoTp_Init (Some (diag_cfg 0x7E8 0x7E0 0 0)) (zero_link (diag_cfg 0x7E8 0x7E0 0 0))"

lemma demo_dtcs_ok: "dtc_ok demo_dtcs" "s_table demo_dtcs = k_dtcTable" "s_count demo_dtcs = 5"
  "s_lock demo_dtcs = Some DtcLock" "s_unlock demo_dtcs = Some DtcUnlock" "mutex demo_dtcs = 0"
  by (simp_all add: dtc_ok_def dtc_wf_def lock_balanced_def demo_dtcs_def DtcMgr_Init_def
      DtcMgr_static_def DTC_MAX_ENTRIES_def ResetAll_def k_dtcTable_def DtcLock_def DtcUnlock_def)

lemma demo_ready: "diag_ready demo_link demo_ecu"
  by (simp add: diag_ready_def demo_link_def IsoTp_Init_link_wf diag_cfg_def DIAG_BUFFER_SIZE_def demo_dtcs_ok)
    (simp add: IsoTp_Init_def zero_link_def demo_ecu_def demo_dtcs_ok)

subsection \<open>What the diagnostics keep of the ECU\<close>

text \<open>The trouble code store of the ECU after \<open>DiagApp_Init\<close>.\<close>

definition ecu_dtcs :: "DtcMgr_State \<Rightarrow> bool" where
  "ecu_dtcs d = (dtc_ok d \<and> s_table d = k_dtcTable \<and> s_count d = 5 \<and> s_lock d = Some DtcLock \<and>
     s_unlock d = Some DtcUnlock \<and> mutex d = 0)"

definition ecu_ok :: "'h Ecu \<Rightarrow> bool" where
  "ecu_ok w =
     (ecu_dtcs (dtcs w) \<and> length (s_respBuf w) = 256 \<and> length (s_testerResp w) = 256 \<and>
      length (s_faults w) = 5 \<and> s_viewMutex w = 0 \<and> s_txMutex w = 0 \<and> s_logMutex w = 0 \<and>
      s_session (uds w) \<in> {0x01, 0x03} \<and> s_pendingReset (uds w) \<in> {0, 0x01, 0x03} \<and>
      s_stPassed w \<le> s_stStep w \<and> s_stStep w \<le> 14 \<and>
      (s_stState w \<in> {ST_SEND, ST_WAIT_RESP} \<longrightarrow> s_stStep w < 14) \<and>
      (s_stState w = ST_WAIT_START \<longrightarrow> s_stStep w = 0) \<and>
      tim1_CCR2 w \<le> 1000 \<and> button_stableTicks w \<le> 3 \<and> goodStreak (s_view w) \<le> 10 \<and>
      lastCounter (s_e2eSpeed w) \<le> 15 \<and> lastCounter (s_e2eAlive w) \<le> 15 \<and> status_counter w \<le> 15)"

lemma ecu_dtcs_step: "ecu_dtcs d \<Longrightarrow> ecu_dtcs (dtc_step d ev)"
  by (simp add: ecu_dtcs_def dtc_ok_step mutex_dtc_step dtc_ok_def lock_balanced_step)

lemma ecu_dtcs_ops:
  assumes "ecu_dtcs d"
  shows "ecu_dtcs (DtcMgr_ReportResult i f d)" "ecu_dtcs (DtcMgr_StartOperationCycle d)" "ecu_dtcs (DtcMgr_ClearAll d)"
  using ecu_dtcs_step [OF assms, of "Report i f"] ecu_dtcs_step [OF assms, of OperationCycle]
    ecu_dtcs_step [OF assms, of ClearAll]
  by (simp_all add: dtc_step_def)

text \<open>The driver changes only its own part of the state.\<close>

lemma hal_call_more: "hal_call f s = (st, s') \<Longrightarrow> CanDrv.more s' = CanDrv.more s"
  by (auto simp: hal_call_def split: prod.splits)

lemma control_Write_more: "control_CanDrv_Write hal f s = (st, s') \<Longrightarrow> CanDrv.more s' = CanDrv.more s"
  by (auto simp: control_CanDrv_Write_def Let_def count_dropped_def count_queued_def
      split: option.splits if_splits prod.splits dest: hal_call_more)

lemma ecu_ok_more: "CanDrv.more w' = CanDrv.more w \<Longrightarrow> ecu_ok w' = ecu_ok (w :: 'h Ecu)"
  by (cases w; cases w') (simp add: ecu_ok_def)

lemma tx_unlocked_more:
  "CanDrv.more x = CanDrv.more (w\<lparr>s_txMutex := Suc (s_txMutex w)\<rparr>) \<Longrightarrow>
   CanDrv.more (x\<lparr>s_txMutex := s_txMutex x - Suc 0\<rparr>) = CanDrv.more (w :: 'h Ecu)"
  by (cases w; cases x) simp

lemma CanSend_more: "ControlApp_CanSend hal i data dlc w = (ok, w') \<Longrightarrow> CanDrv.more w' = CanDrv.more w"
  by (auto simp: ControlApp_CanSend_def Let_def split: option.splits if_splits prod.splits
      dest!: control_Write_more intro: tx_unlocked_more)

lemma diag_SendFrame_ok: "diag_SendFrame hal i f dlc w = (ok, w') \<Longrightarrow> ecu_ok w \<Longrightarrow> ecu_ok w'"
  using ecu_ok_more CanSend_more by (metis diag_SendFrame_def)

lemma Log_ok [simp]: "ecu_ok (ControlApp_Log msg w) = ecu_ok w"
  by (simp add: ControlApp_Log_def Let_def ecu_ok_def)

lemma diag_EcuReset_ok: "diag_EcuReset t w = Some w' \<Longrightarrow> ecu_ok w \<Longrightarrow> ecu_ok w' \<and> uds w' = uds w"
proof -
  assume "diag_EcuReset t w = Some w'" "ecu_ok w"
  then have w': "w' = ControlApp_SoftReset w" and d: "ecu_dtcs (DtcMgr_StartOperationCycle (dtcs w))"
    by (auto simp: diag_EcuReset_def ecu_ok_def ecu_dtcs_ops split: if_splits)
  show "ecu_ok w' \<and> uds w' = uds w"
    using \<open>ecu_ok w\<close> d by (simp add: w' ControlApp_SoftReset_def Let_def) (simp add: ecu_ok_def E2e_InitRx_def)
qed

lemma OnEcuResponseSent_ok:
  assumes "OnEcuResponseSent hal r (l, w) = Some s'" "ecu_ok w"
  shows "ecu_ok (snd s')"
proof (cases "r = ISOTP_OK \<and> s_pendingReset (uds w) \<noteq> RESET_NONE")
  case False
  then show ?thesis
    using assms by (auto simp: OnEcuResponseSent_def Uds_ExecutePendingReset_def Let_def split: if_splits)
next
  case True
  then obtain w1 where w1: "diag_EcuReset (s_pendingReset (uds w)) w = Some w1"
    "s' = (l, w1\<lparr>uds := (uds w)\<lparr>s_pendingReset := RESET_NONE, s_session := UDS_SESSION_DEFAULT\<rparr>\<rparr>)"
    using assms(1)
    by (auto simp: OnEcuResponseSent_def Uds_ExecutePendingReset_def diag_uds_def Let_def split: option.splits)
  then show ?thesis
    using diag_EcuReset_ok [OF w1(1) assms(2)] by (simp add: ecu_ok_def uds_consts)
qed

text \<open>Every binding of the link keeps it.\<close>

interpretation ecu_txworld: isotp_tx_world "ecu_txops hal" ecu_ok for hal :: "('h, 'n) EcuHal_scheme"
  by unfold_locales (auto simp: ecu_txops_def dest: diag_SendFrame_ok OnEcuResponseSent_ok)

lemma uds_after_ok:
  assumes "ecu_ok w" "rq \<noteq> []"
  shows "s_session (uds_after hal w rq) \<in> {0x01, 0x03} \<and> s_pendingReset (uds_after hal w rq) \<in> {0, 0x01, 0x03}"
proof -
  have "positive (ecu_reply w rq) \<Longrightarrow> hd rq = 0x10 \<Longrightarrow> rq ! 1 AND 0x7F \<in> {0x01, 0x03}"
    "positive (ecu_reply w rq) \<Longrightarrow> hd rq = 0x11 \<Longrightarrow> rq ! 1 AND 0x7F \<in> {0x01, 0x03}"
    unfolding ecu_reply_def using positive_session positive_reset assms(2) by fastforce+
  then show ?thesis
    using assms(1) by (auto simp: uds_after_def ecu_ok_def)
qed

lemma ecu_after_ok:
  assumes "ecu_ok w" "rq \<noteq> []" "length buf = 256"
  shows "ecu_ok (ecu_after hal w rq buf)"
  using assms uds_after_ok [OF assms(1,2), of hal]
  by (auto simp: ecu_after_def ecu_ok_def ecu_dtcs_ops)

lemma RespondTo_ok:
  assumes "RespondTo hal data len functional (l, w) = Some s'" "ecu_ok w"
  shows "ecu_ok (snd s')"
proof (cases "len = 0")
  case True
  then have "s' = (l, w)"
    using assms(1) by (simp add: RespondTo_def Uds_ProcessRequest_def)
  then show ?thesis using assms(2) by simp
next
  case False
  define rq where "rq = map ((!) data) [0..<unat len]"
  define bytes where "bytes = encode_reply functional (hd rq) (ecu_reply w rq)"
  have rq: "rq \<noteq> []" using False by (simp add: rq_def unat_gt_0)
  obtain buf where buf: "length buf = 256" "RespondTo hal data len functional (l, w) =
      (if bytes = [] then Some (l, ecu_after hal w rq buf)
       else map_option snd (IsoTp_Transmit (ecu_txops hal) (Some bytes) (of_nat (length bytes))
              (l, ecu_after hal w rq buf)))"
    using RespondTo_eq [OF _ _ False rq_def bytes_def] assms(2) by (auto simp: ecu_ok_def ecu_dtcs_def)
  have "ecu_ok (ecu_after hal w rq buf)" using ecu_after_ok [OF assms(2) rq buf(1)] .
  then show ?thesis
    using assms(1) buf(2)
    by (cases "IsoTp_Transmit (ecu_txops hal) (Some bytes) (of_nat (length bytes)) (l, ecu_after hal w rq buf)")
      (auto split: if_splits dest: ecu_txworld.IsoTp_Transmit_P)
qed

interpretation ecu_world: isotp_world "ecu_ops hal" ecu_ok for hal :: "('h, 'n) EcuHal_scheme"
proof
  fix f data n r l w s'
  assume "rxIndication (ecu_ops hal) = Some f" "f data n r (l, w) = Some s'" "ecu_ok w"
  then show "ecu_ok (snd s')"
    using RespondTo_ok [of hal data n False l w s'] by (auto simp: ecu_ops_def OnEcuRequest_def split: if_splits)
qed (auto simp: ecu_ops_def dest: diag_SendFrame_ok OnEcuResponseSent_ok)

lemma OnTesterResponse_ok: "OnTesterResponse data n r (l, w) = Some s' \<Longrightarrow> ecu_ok w \<Longrightarrow> ecu_ok (snd s')"
proof -
  have len: "unat n \<le> length b \<Longrightarrow> length (write_at b 0 (take (unat n) data)) = length b" for b :: "u8 list"
    by (rule length_write_at) simp
  show "OnTesterResponse data n r (l, w) = Some s' \<Longrightarrow> ecu_ok w \<Longrightarrow> ecu_ok (snd s')"
    using len [of "s_testerResp w"] by (auto simp: OnTesterResponse_def split: if_splits) (simp add: ecu_ok_def)
qed

interpretation selftest_world: isotp_world "selftest_ops hal" ecu_ok for hal :: "('h, 'n) EcuHal_scheme"
  by unfold_locales (auto simp: selftest_ops_def dest: diag_SendFrame_ok OnTesterResponse_ok)

subsection \<open>The diagnostic module as a whole\<close>

definition diag_inv :: "'h diag \<Rightarrow> bool" where
  "diag_inv d = (case d of (l, tst, w) \<Rightarrow> link_wf l \<and> link_wf tst \<and> ecu_ok w)"

lemma on_ecuLink_inv:
  assumes "on_ecuLink f d = Some d'" "diag_inv d"
    and "\<And>l w s'. f (l, w) = Some s' \<Longrightarrow> link_wf l \<Longrightarrow> ecu_ok w \<Longrightarrow> link_wf (fst s') \<and> ecu_ok (snd s')"
  shows "diag_inv d'"
  using assms by (fastforce simp: on_ecuLink_def diag_inv_def split: prod.splits)

lemma on_testerLink_inv:
  assumes "on_testerLink f d = Some d'" "diag_inv d"
    and "\<And>l w s'. f (l, w) = Some s' \<Longrightarrow> link_wf l \<Longrightarrow> ecu_ok w \<Longrightarrow> link_wf (fst s') \<and> ecu_ok (snd s')"
  shows "diag_inv d'"
  using assms by (fastforce simp: on_testerLink_def diag_inv_def split: prod.splits)

lemma RespondTo_link_wf:
  assumes "RespondTo hal data len functional (l, w) = Some s'" "link_wf l"
  shows "link_wf (fst s')"
proof -
  have "tx_wf l" using assms(2) by (simp add: link_wf_def)
  then have "tx_wf (fst s') \<and> rx_view (fst s') = rx_view l"
    using assms(1) ecu_sender.IsoTp_Transmit_tx_wf [of hal _ _ l]
    by (fastforce simp: RespondTo_def Let_def split: if_splits prod.splits)
  then show ?thesis using ecu_client.link_wf_tx_step assms(2) by blast
qed

lemma DiagApp_OnFrame_inv:
  assumes "DiagApp_OnFrame hal frame d = Some d'" "diag_inv d"
  shows "diag_inv d'"
proof -
  have ecu: "link_wf (fst s') \<and> ecu_ok (snd s')"
    if "IsoTp_RxFrame (ecu_ops hal) data dlc (l, w) = Some s'" "link_wf l" "ecu_ok w" for data dlc l w s'
    using that ecu_client.IsoTp_RxFrame_link_wf [OF that(1)] ecu_world.IsoTp_RxFrame_P [OF that(1)] by simp
  have tst: "link_wf (fst s') \<and> ecu_ok (snd s')"
    if "IsoTp_RxFrame (selftest_ops hal) data dlc (l, w) = Some s'" "link_wf l" "ecu_ok w" for data dlc l w s'
    using that selftest_link.IsoTp_RxFrame_link_wf [OF that(1)] selftest_world.IsoTp_RxFrame_P [OF that(1)] by simp
  have resp: "link_wf (fst s') \<and> ecu_ok (snd s')"
    if "RespondTo hal data len functional (l, w) = Some s'" "link_wf l" "ecu_ok w" for data len functional l w s'
    using that RespondTo_link_wf RespondTo_ok by blast
  show ?thesis
    using assms
    by (auto simp: DiagApp_OnFrame_def Let_def split: if_splits
        dest: on_ecuLink_inv [OF _ _ ecu] on_ecuLink_inv [OF _ _ resp] on_testerLink_inv [OF _ _ tst])
qed


text \<open>The trace only extends the log.\<close>

lemma ControlApp_Log_eq: "ControlApp_Log msg w = w\<lparr>log := log w @ [msg]\<rparr>"
  by (simp add: ControlApp_Log_def Let_def)

lemma ecu_ok_log [simp]: "ecu_ok (w\<lparr>log := lg\<rparr>) = ecu_ok w"
  by (simp add: ecu_ok_def)

lemma LogHex_keeps [simp]:
  "ecu_ok (LogHex label data len w) = ecu_ok w"
  "s_stStep (LogHex label data len w) = s_stStep w" "s_stPassed (LogHex label data len w) = s_stPassed w"
  "s_stState (LogHex label data len w) = s_stState w"
  by (simp_all add: LogHex_def ControlApp_Log_eq Let_def)

lemma STEP_COUNT_14: "STEP_COUNT = 14"
  by (simp add: STEP_COUNT_def k_steps_def)

lemma next_step_ok:
  fixes p s :: u8
  assumes "p \<le> s" "s < 14"
  shows "p \<le> s + 1" "p + 1 \<le> s + 1" "s + 1 \<le> 14"
proof -
  have "unat (s + 1) = Suc (unat s)" "unat (14 :: u8) = 14" using unat_inc_of_less [OF assms(2)] by simp_all
  moreover have "unat p \<le> unat s" "unat s < 14"
    using assms by (simp_all add: word_le_nat_alt word_less_nat_alt)
  moreover from this have "unat (p + 1) = Suc (unat p)" by (intro unat_Suc_word) simp
  ultimately show "p \<le> s + 1" "p + 1 \<le> s + 1" "s + 1 \<le> 14" by (simp_all add: word_le_nat_alt)
qed

lemma FinishStep_tail_ok:
  assumes "ecu_ok w" "s_stStep w < 14" "st = ST_DONE \<or> s_stStep w + 1 < STEP_COUNT \<and> st = ST_SEND"
  shows "ecu_ok (w\<lparr>s_stPassed := s_stPassed w + 1, s_localInject := i, s_stStep := s_stStep w + 1,
           s_stTimer := t, s_stState := st\<rparr>)"
    "ecu_ok (w\<lparr>s_localInject := i, s_stStep := s_stStep w + 1, s_stTimer := t, s_stState := st\<rparr>)"
    "ecu_ok (w\<lparr>s_stPassed := s_stPassed w + 1, s_stStep := s_stStep w + 1, s_stTimer := t, s_stState := st\<rparr>)"
    "ecu_ok (w\<lparr>s_stStep := s_stStep w + 1, s_stTimer := t, s_stState := st\<rparr>)"
  using assms next_step_ok [of "s_stPassed w" "s_stStep w"] by (auto simp: ecu_ok_def STEP_COUNT_14)

lemma FinishStep_ok:
  assumes "ecu_ok w" "s_stStep w < 14"
  shows "ecu_ok (FinishStep hal pass w)"
proof -
  define st where "st = k_steps ! unat (s_stStep w)"
  define w1 where "w1 = ControlApp_Log
            (''[TEST] '' @ pad_left 2 CHR '' '' (dec (unat (s_stStep w) + 1)) @ ''/'' @ dec (unat STEP_COUNT) @ '' ''
             @ pad_right 32 (ts_name st) @ '' '' @ (if pass then ''PASS'' else ''FAIL'') @ crlf) w"
  define w2 where "w2 = (if \<not> pass then
                  LogHex ''got :'' (s_testerResp w1) (if s_testerGotResp w1 then s_testerRespLen w1 else 0)
                    (LogHex ''exp :'' (ts_expect st) (ucast (ts_expectLen st))
                      (LogHex ''req :'' (ts_req st) (ucast (ts_reqLen st)) w1))
                else w1)"
  have "ecu_ok w2" "s_stStep w2 < 14"
    using assms by (simp_all add: w2_def w1_def ControlApp_Log_eq)
  note tail = FinishStep_tail_ok [OF this]
  show ?thesis
    unfolding FinishStep_def Let_def st_def [symmetric]
    unfolding w1_def [symmetric] unfolding w2_def [symmetric]
    by (simp add: ControlApp_SetLocalFaultInjection_def ControlApp_Log_eq tail)
qed

text \<open>A transmission of the self-test leaves the step alone.\<close>

lemma diag_SendFrame_step: "diag_SendFrame hal i f dlc w = (ok, w') \<Longrightarrow> s_stStep w' = s_stStep (w :: 'h Ecu)"
  by (cases w; cases w') (auto simp: diag_SendFrame_def dest: CanSend_more)

interpretation selftest_step: isotp_tx_world "selftest_ops hal" "\<lambda>w. s_stStep w = k"
  for hal :: "('h, 'n) EcuHal_scheme" and k
  by unfold_locales (auto simp: selftest_ops_def dest: diag_SendFrame_step)

lemma SelfTestRun_ok:
  assumes "SelfTestRun hal (l, w) = Some s'" "link_wf l" "ecu_ok w"
  shows "link_wf (fst s') \<and> ecu_ok (snd s')"
proof (cases "s_stState w")
  case ST_SEND
  then have send: "ecu_ok (w\<lparr>s_testerGotResp := False, s_testerRespLen := 0\<rparr>)"
    using assms(3) by (simp add: ecu_ok_def)
  show ?thesis
  proof (cases "s' = (l, w)")
    case False
    then obtain r l2 w2 where tr: "IsoTp_Transmit (selftest_ops hal) (Some (ts_req (k_steps ! unat (s_stStep w))))
        (ucast (ts_reqLen (k_steps ! unat (s_stStep w))))
        (l, w\<lparr>s_testerGotResp := False, s_testerRespLen := 0\<rparr>) = Some (r, l2, w2)"
      and s': "s' = (l2, w2\<lparr>s_stTimer := GetTimeMs hal w, s_stState := ST_WAIT_RESP\<rparr>)"
      using assms(1) ST_SEND by (auto simp: SelfTestRun_def Let_def split: if_splits)
    have "link_wf l2" "ecu_ok w2"
      using selftest_link.IsoTp_Transmit_link_wf [OF tr assms(2)] selftest_world.IsoTp_Transmit_P [OF tr] send
      by simp_all
    moreover have "s_stStep w2 = s_stStep w"
      using selftest_step.IsoTp_Transmit_P [OF tr, of "s_stStep w"] by simp
    ultimately show ?thesis using s' ST_SEND assms(3) by (simp add: ecu_ok_def)
  qed (use assms in simp)
next
  case ST_WAIT_RESP
  then have "s_stStep w < 14" using assms(3) by (simp add: ecu_ok_def)
  then show ?thesis
    using assms ST_WAIT_RESP by (auto simp: SelfTestRun_def Let_def FinishStep_ok split: if_splits)
next
  case ST_WAIT_START
  then have "ecu_ok (w\<lparr>log := lg, s_stState := ST_SEND\<rparr>)" for lg
    using assms(3) by (auto simp: ecu_ok_def)
  then show ?thesis
    using assms ST_WAIT_START by (auto simp: SelfTestRun_def Let_def ControlApp_Log_eq split: if_splits)
qed (use assms in \<open>auto simp: SelfTestRun_def\<close>)

lemma SelfTestRun_inv: "on_testerLink (SelfTestRun hal) d = Some d' \<Longrightarrow> diag_inv d \<Longrightarrow> diag_inv d'"
  using on_testerLink_inv SelfTestRun_ok by blast

lemma diag_inv_uds:
  "diag_inv (l, tst, w) \<Longrightarrow> s_session u \<in> {0x01, 0x03} \<Longrightarrow> s_pendingReset u \<in> {0, 0x01, 0x03} \<Longrightarrow>
   diag_inv (l, tst, w\<lparr>uds := u\<rparr>)"
  by (simp add: diag_inv_def ecu_ok_def)

lemma Uds_MainFunction_ok:
  assumes "Uds_MainFunction (diag_uds hal) (uds w) w = (u, w1)" "ecu_ok w"
  shows "w1 = w \<and> s_session u \<in> {0x01, 0x03} \<and> s_pendingReset u \<in> {0, 0x01, 0x03}"
  using assms by (auto simp: Uds_MainFunction_def diag_uds_def uds_now_def ecu_ok_def uds_consts Let_def split: if_splits)

lemma DiagApp_MainFunction_inv:
  assumes "DiagApp_MainFunction hal d = Some d'" "diag_inv d"
  shows "diag_inv d'"
proof -
  have ecu: "link_wf (fst s') \<and> ecu_ok (snd s')"
    if "IsoTp_MainFunction (ecu_ops hal) (l, w) = Some s'" "link_wf l" "ecu_ok w" for l w s'
    using that ecu_client.IsoTp_MainFunction_link_wf [OF that(1)] ecu_world.IsoTp_MainFunction_P [OF that(1)] by simp
  have tst: "link_wf (fst s') \<and> ecu_ok (snd s')"
    if "IsoTp_MainFunction (selftest_ops hal) (l, w) = Some s'" "link_wf l" "ecu_ok w" for l w s'
    using that selftest_link.IsoTp_MainFunction_link_wf [OF that(1)] selftest_world.IsoTp_MainFunction_P [OF that(1)] by simp
  then have test_inv: "diag_inv d2" if "on_testerLink (IsoTp_MainFunction (selftest_ops hal)) d1 = Some d2" "diag_inv d1"
    for d1 d2 using on_testerLink_inv that by blast
  obtain l tst w u w1 where m: "on_ecuLink (IsoTp_MainFunction (ecu_ops hal)) d = Some (l, tst, w)"
    "Uds_MainFunction (diag_uds hal) (uds w) w = (u, w1)"
    "(if s_selfTest w1 then
        do { d2 \<leftarrow> on_testerLink (IsoTp_MainFunction (selftest_ops hal)) (l, tst, w1\<lparr>uds := u\<rparr>);
             on_testerLink (SelfTestRun hal) d2 }
      else Some (l, tst, w1\<lparr>uds := u\<rparr>)) = Some d'"
    using assms(1) by (auto simp: DiagApp_MainFunction_def Let_def split: bind_splits prod.splits)
  have inv: "diag_inv (l, tst, w)" using on_ecuLink_inv [OF m(1) assms(2) ecu] .
  then have "diag_inv (l, tst, w1\<lparr>uds := u\<rparr>)"
    using Uds_MainFunction_ok [OF m(2)] diag_inv_uds [OF inv, of u] by (auto simp: diag_inv_def)
  then show ?thesis
    using m(3) test_inv SelfTestRun_inv [of hal]
    by (auto split: if_splits bind_splits)
qed

subsection \<open>Properties of the diagnostics\<close>

lemma RespondTo_answers:
  assumes "diag_ready l w" "len \<noteq> 0" "rq = map ((!) data) [0..<unat len]"
    and "bytes = encode_reply functional (hd rq) (ecu_reply w rq)"
    and "RespondTo hal data len functional (l, w) = Some s1"
  shows "bytes = [] \<Longrightarrow> fst s1 = l \<and> can_sent (snd s1) = can_sent w"
    and "bytes \<noteq> [] \<Longrightarrow> \<exists>buf. tx_started (ecu_ops hal) can_sent bytes 0x7E8 (ecu_after hal w rq buf) s1"
    and "bytes \<noteq> [] \<Longrightarrow> tx_steps (ecu_ops hal) can_sent s1 s' \<Longrightarrow>
      \<exists>n. isotp_port.progress can_sent (can_sent w) bytes n 0x7E8 s'"
proof -
  note ready = assms(1) [unfolded diag_ready_def]
  obtain buf where buf: "length bytes \<le> 256" "RespondTo hal data len functional (l, w) =
      (if bytes = [] then Some (l, ecu_after hal w rq buf)
       else map_option snd (IsoTp_Transmit (ecu_txops hal) (Some bytes) (of_nat (length bytes))
              (l, ecu_after hal w rq buf)))"
    using RespondTo_eq [OF _ _ assms(2,3,4)] ready by blast
  show "fst s1 = l \<and> can_sent (snd s1) = can_sent w" if "bytes = []" using buf(2) assms(5) that by auto
  have tr: "\<exists>r. IsoTp_Transmit (ecu_txops hal) (Some bytes) (of_nat (length bytes)) (l, ecu_after hal w rq buf) = Some (r, s1)"
    if "bytes \<noteq> []"
    using buf(2) assms(5) that
    by (cases "IsoTp_Transmit (ecu_txops hal) (Some bytes) (of_nat (length bytes)) (l, ecu_after hal w rq buf)") auto
  have id: "txId (cfg l) = 0x7E8" using ready by simp
  show "\<exists>buf. tx_started (ecu_ops hal) can_sent bytes 0x7E8 (ecu_after hal w rq buf) s1" if "bytes \<noteq> []"
    using tr [OF that] transmit_answer(1) [OF _ _ _ _ _ _ that buf(1), of hal l "ecu_after hal w rq buf" _ s1] ready
    unfolding id by blast
  show "\<exists>n. isotp_port.progress can_sent (can_sent w) bytes n 0x7E8 s'"
    if "bytes \<noteq> []" "tx_steps (ecu_ops hal) can_sent s1 s'"
    using tr [OF that(1)] transmit_answer(2) [OF _ _ _ _ _ _ that(1) buf(1) that(2), of l "ecu_after hal w rq buf"] ready
    unfolding id can_sent_after by blast
qed

text \<open>Sending a response returns, unless it executes a pending hard reset.\<close>

lemma diag_SendFrame_uds:
  assumes "diag_SendFrame hal i f n w = (ok, w')"
  shows "uds w' = uds w"
proof -
  show ?thesis
    using assms by (cases w; cases w') (auto simp: diag_SendFrame_def dest!: CanSend_more)
qed

lemma Transmit_returns_unless_reset:
  assumes "IsoTp_Transmit (ecu_txops hal) d n (l, w) = None"
  shows "s_pendingReset (uds w) \<notin> {0, 0x03}"
proof -
  have fin: "s_pendingReset (uds w) \<notin> {0, 0x03}" if "TxFinish (ecu_txops hal) r (l, w) = None" for r l and w :: "'a Ecu"
    using that by (auto simp: TxFinish_def ecu_txops_def OnEcuResponseSent_def Uds_ExecutePendingReset_def upd_def
        diag_uds_def diag_EcuReset_def RESET_NONE_def Let_def split: if_splits option.splits)
  have snd: "s_pendingReset (uds w) \<notin> {0, 0x03}" if t: "TxSendFirst (ecu_txops hal) (l, w) = None" for l and w :: "'a Ecu"
  proof -
    obtain ok w' where f: "sendFrame (ecu_txops hal) (txId (cfg l)) (first_out l) 8 w = (ok, w')" by fastforce
    obtain t' w2 where "getTimeMs (ecu_txops hal) w' = (t', w2)" by fastforce
    from TxSendFirst_eq [OF f this] t have "TxFinish (ecu_txops hal) ISOTP_OK (l, w') = None"
      by (cases "TxFinish (ecu_txops hal) ISOTP_OK (l, w')") (auto split: if_splits)
    from fin [OF this] show ?thesis using f diag_SendFrame_uds [of hal] by (simp add: ecu_txops_def)
  qed
  obtain l1 where "TxSendFirst (ecu_txops hal) (l1, snd (getTimeMs (ecu_txops hal) w)) = None"
    using assms by (auto simp: IsoTp_Transmit_def Let_def isotp_pairs split: option.splits if_splits prod.splits bind_splits)
  with snd [of l1 "snd (getTimeMs (ecu_txops hal) w)"] show ?thesis by (simp add: ecu_txops_def)
qed

lemma RespondTo_returns:
  assumes "diag_ready l w" "len \<noteq> 0" "rq = map ((!) data) [0..<unat len]" "RespondTo hal data len functional (l, w) = None"
  shows "s_pendingReset (uds_after hal w rq) \<notin> {0, 0x03}"
proof -
  define bytes where "bytes = encode_reply functional (hd rq) (ecu_reply w rq)"
  have "dtc_ok (dtcs w)" "length (s_respBuf w) = 256" using assms(1) by (simp_all add: diag_ready_def)
  from RespondTo_eq [OF this assms(2,3) bytes_def, of hal l] obtain buf where
    "RespondTo hal data len functional (l, w) =
      (if bytes = [] then Some (l, ecu_after hal w rq buf)
       else map_option snd (IsoTp_Transmit (ecu_txops hal) (Some bytes) (of_nat (length bytes)) (l, ecu_after hal w rq buf)))"
    by blast
  with assms(4) have "IsoTp_Transmit (ecu_txops hal) (Some bytes) (of_nat (length bytes)) (l, ecu_after hal w rq buf) = None"
    by (auto split: if_splits)
  from Transmit_returns_unless_reset [OF this] show ?thesis by (simp add: ecu_after_def)
qed

text \<open>C4: a ready ECU handles any complete request (any bytes, any length, physical or functional) and
  returns, unless its answer completes a hard reset. When the answer the server's specification gives for its own trouble codes,
  identifiers and session is suppressed, it puts nothing on the bus and leaves the link alone. Otherwise the ISO-TP segmentation of
  this answer is started on 0x7E8: its first frame (a short answer as a whole) is on the bus if the driver takes
  it in the ECU the request leaves, and else held by the link. Whatever flow control, refusals
  and cyclic calls follow, exactly the frames of that segmentation go out, in order; and with a driver that takes every frame, a
  flow control that clears the ECU to send puts the whole answer on the bus.\<close>

theorem Diag_answers_request:
  assumes "diag_ready l w" "len \<noteq> 0" "rq = map ((!) data) [0..<unat len]"
    and "bytes = encode_reply functional (hd rq) (ecu_reply w rq)"
  shows "(RespondTo hal data len functional (l, w) = None \<longrightarrow> s_pendingReset (uds_after hal w rq) \<notin> {0, 0x03}) \<and>
    (\<forall>s1. RespondTo hal data len functional (l, w) = Some s1 \<longrightarrow>
      (if bytes = [] then fst s1 = l \<and> can_sent (snd s1) = can_sent w
       else (\<exists>buf. tx_started (ecu_ops hal) can_sent bytes 0x7E8 (ecu_after hal w rq buf) s1) \<and>
         (\<forall>l' w'. tx_steps (ecu_ops hal) can_sent s1 (l', w') \<longrightarrow>
           (\<exists>n \<le> length (segment bytes).
              can_sent w' = can_sent w @ map (Pair 0x7E8) (take n (segment bytes)) \<and>
              (txState l' \<noteq> ISOTP_TX_IDLE \<longrightarrow> n < length (segment bytes) \<and> (n = 0) = (txState l' = ISOTP_TX_SEND_FIRST))) \<and>
           ((\<forall>f v. fst (diag_SendFrame hal 0x7E8 f 8 v)) \<and> txState l' = ISOTP_TX_WAIT_FC \<longrightarrow>
             (\<forall>rest s2. IsoTp_RxFrame (ecu_ops hal) (Some (0x30 # 0 # 0 # rest)) 8 (l', w') = Some s2 \<longrightarrow>
                can_sent (snd s2) = can_sent w @ map (Pair 0x7E8) (segment bytes) \<and> txState (fst s2) = ISOTP_TX_IDLE)))))"
proof (intro conjI allI impI)
  assume "RespondTo hal data len functional (l, w) = None"
  then show "s_pendingReset (uds_after hal w rq) \<notin> {0, 0x03}" by (rule RespondTo_returns [OF assms(1-3)])
next
  fix s1 assume run: "RespondTo hal data len functional (l, w) = Some s1"
  note answers = RespondTo_answers [OF assms run]
  show "if bytes = [] then fst s1 = l \<and> can_sent (snd s1) = can_sent w
       else (\<exists>buf. tx_started (ecu_ops hal) can_sent bytes 0x7E8 (ecu_after hal w rq buf) s1) \<and>
         (\<forall>l' w'. tx_steps (ecu_ops hal) can_sent s1 (l', w') \<longrightarrow>
           (\<exists>n \<le> length (segment bytes).
              can_sent w' = can_sent w @ map (Pair 0x7E8) (take n (segment bytes)) \<and>
              (txState l' \<noteq> ISOTP_TX_IDLE \<longrightarrow> n < length (segment bytes) \<and> (n = 0) = (txState l' = ISOTP_TX_SEND_FIRST))) \<and>
           ((\<forall>f v. fst (diag_SendFrame hal 0x7E8 f 8 v)) \<and> txState l' = ISOTP_TX_WAIT_FC \<longrightarrow>
             (\<forall>rest s2. IsoTp_RxFrame (ecu_ops hal) (Some (0x30 # 0 # 0 # rest)) 8 (l', w') = Some s2 \<longrightarrow>
                can_sent (snd s2) = can_sent w @ map (Pair 0x7E8) (segment bytes) \<and> txState (fst s2) = ISOTP_TX_IDLE)))"
    using answers(1,2) ecu_link.progress_sent [of "can_sent w" bytes _ "0x7E8"] answers(3) ecu_link.released [OF answers(3)]
    by (simp only: ecu_ops_calls split: if_split) blast
qed

lemma demo_sends: "fst (diag_SendFrame demo_hal 0x7E8 f 8 w)"
  by (simp add: diag_SendFrame_def ControlApp_CanSend_def CANDRV_MAX_DLC_def control_CanDrv_Write_def CANDRV_MAX_STD_ID_def
      hal_call_def demo_hal_def Let_def)

lemma demo_version:
  "encode_reply False 0x22 (ecu_reply demo_ecu [0x22, 0xF1, 0x95]) = 0x62 # 0xF1 # 0x95 # chars ''CTRL-0.3.0''"
proof -
  have rq: "requested_dids [0x22, 0xF1, 0x95] = [0xF195]"
    by (simp add: requested_dids_def u16_of_bytes_def)
  show ?thesis
    by (simp add: ecu_reply_def spec_reply_def spec_ReadDid_def rq did_bytes_def ecu_value_def
        encode_reply_def byte_hi_def byte_lo_def chars_def)
qed

theorem Diag_answers_request_witness:
  "\<exists>l w. RespondTo demo_hal [0x22, 0xF1, 0x95] 3 False (demo_link, demo_ecu) = Some (l, w) \<and>
     can_sent w = [(0x7E8, ff_frame (0x62 # 0xF1 # 0x95 # chars ''CTRL-0.3.0''))] \<and> txState l = ISOTP_TX_WAIT_FC"
proof -
  define bytes where "bytes = 0x62 # 0xF1 # 0x95 # chars ''CTRL-0.3.0''"
  have rq: "[0x22, 0xF1, 0x95] = map ((!) [0x22, 0xF1, 0x95 :: u8]) [0..<unat (3 :: u16)]"
    by (simp add: upt_rec)
  have answer: "bytes = encode_reply False (hd [0x22, 0xF1, 0x95]) (ecu_reply demo_ecu [0x22, 0xF1, 0x95])"
    using demo_version by (simp add: bytes_def)
  have calm: "s_pendingReset (uds_after demo_hal demo_ecu [0x22, 0xF1, 0x95]) = 0"
    by (simp add: uds_after_def) (simp add: demo_ecu_def Uds_static_def RESET_NONE_def)
  have long: "7 < length bytes" "bytes \<noteq> []" by (simp_all add: bytes_def chars_def)
  note all = Diag_answers_request [OF demo_ready _ rq answer, of demo_hal]
  then obtain l w where run: "RespondTo demo_hal [0x22, 0xF1, 0x95] 3 False (demo_link, demo_ecu) = Some (l, w)"
    using calm by (cases "RespondTo demo_hal [0x22, 0xF1, 0x95] 3 False (demo_link, demo_ecu)") auto
  then obtain buf where "tx_started (ecu_ops demo_hal) can_sent bytes 0x7E8 (ecu_after demo_hal demo_ecu [0x22, 0xF1, 0x95] buf) (l, w)"
    using all long(2) by auto
  moreover have "can_sent demo_ecu = []" by (simp add: can_sent_def demo_ecu_def)
  moreover have "hd (segment bytes) = ff_frame bytes"
    using long(1) by (simp add: segment_def)
  ultimately show ?thesis
    using run long(1) by (auto simp: tx_started_def demo_sends bytes_def)
qed

end
