(* ===== verification/DiagReturns.thy ===== *)
theory DiagReturns
  imports DiagProps
begin

section \<open>The diagnostics of the Control ECU return\<close>

text \<open>
  A hard reset is the only way in which a call of the diagnostic module does not return. While none is
  pending the cyclic function returns; outside the extended session no frame can make one pending, so
  the frame handler returns too. Both follow from the guarded totality of the link (IsoTpTotal).
\<close>

text \<open>No hard reset is pending.\<close>

definition calm :: "'h Ecu \<Rightarrow> bool" where
  "calm w \<longleftrightarrow> ecu_ok w \<and> s_pendingReset (uds w) \<noteq> 0x01"

lemma OnEcuResponseSent_calm:
  assumes "calm w"
  shows "\<exists>s'. OnEcuResponseSent hal r (l, w) = Some s' \<and> calm (snd s') \<and>
    (s_session (uds w) \<noteq> 0x03 \<longrightarrow> s_session (uds (snd s')) \<noteq> 0x03)"
proof -
  have p: "s_pendingReset (uds w) \<in> {0, 0x03}" using assms by (auto simp: calm_def ecu_ok_def)
  then have "\<exists>s'. OnEcuResponseSent hal r (l, w) = Some s' \<and> s_pendingReset (uds (snd s')) \<in> {0, 0x03} \<and>
      (s_session (uds w) \<noteq> 0x03 \<longrightarrow> s_session (uds (snd s')) \<noteq> 0x03)"
    by (auto simp: OnEcuResponseSent_def Uds_ExecutePendingReset_def diag_uds_def diag_EcuReset_def
        uds_consts Let_def simp del: split_paired_Ex)
  then obtain s' where s': "OnEcuResponseSent hal r (l, w) = Some s'"
    "s_pendingReset (uds (snd s')) \<in> {0, 0x03}" "s_session (uds w) \<noteq> 0x03 \<longrightarrow> s_session (uds (snd s')) \<noteq> 0x03"
    by blast
  moreover have "ecu_ok (snd s')" using OnEcuResponseSent_ok [OF s'(1)] assms by (simp add: calm_def)
  ultimately show ?thesis by (auto simp: calm_def)
qed

definition calm_default :: "'h Ecu \<Rightarrow> bool" where
  "calm_default w \<longleftrightarrow> calm w \<and> s_session (uds w) \<noteq> 0x03"

lemma SendFrame_calm:
  assumes "diag_SendFrame hal i f n w = (ok, w')"
  shows "calm w \<Longrightarrow> calm w'" "calm_default w \<Longrightarrow> calm_default w'"
  using diag_SendFrame_ok [OF assms] diag_SendFrame_uds [OF assms] by (simp_all add: calm_def calm_default_def)

interpretation ecu_guarded: isotp_guarded "ecu_ops hal" calm for hal :: "('h, 'n) EcuHal_scheme"
proof unfold_locales
  fix cb r l w
  assume "txConfirmation (ecu_ops hal) = Some cb" "calm (w :: 'h Ecu)"
  then show "\<exists>s'. cb r (l, w) = Some s' \<and> calm (snd s')"
    using OnEcuResponseSent_calm [of w hal r l] by (simp only: ecu_ops_def) auto
qed (auto simp: ecu_ops_def OnEcuRequest_def dest: SendFrame_calm)

interpretation ecu_guarded_default: isotp_guarded "ecu_ops hal" calm_default for hal :: "('h, 'n) EcuHal_scheme"
proof unfold_locales
  fix cb r l w
  assume "txConfirmation (ecu_ops hal) = Some cb" "calm_default (w :: 'h Ecu)"
  then show "\<exists>s'. cb r (l, w) = Some s' \<and> calm_default (snd s')"
    using OnEcuResponseSent_calm [of w hal r l] unfolding calm_default_def by (simp only: ecu_ops_def) auto
qed (auto simp: ecu_ops_def OnEcuRequest_def dest: SendFrame_calm)

interpretation ecu_guarded_tx: isotp_sender_guarded "ecu_txops hal" calm for hal :: "('h, 'n) EcuHal_scheme"
proof unfold_locales
  fix cb r l w
  assume "txConfirmation (ecu_txops hal) = Some cb" "calm (w :: 'h Ecu)"
  then show "\<exists>s'. cb r (l, w) = Some s' \<and> calm (snd s')"
    using OnEcuResponseSent_calm [of w hal r l] by (simp only: ecu_txops_def) auto
qed (auto simp: ecu_txops_def dest: SendFrame_calm)

interpretation selftest_total: isotp_total "selftest_ops hal" for hal :: "('h, 'n) EcuHal_scheme"
  by unfold_locales (auto simp: selftest_ops_def OnTesterResponse_def split: if_splits)

lemma OnTesterResponse_uds: "OnTesterResponse data n r (l, w) = Some s' \<Longrightarrow> uds (snd s') = uds w"
  by (auto simp: OnTesterResponse_def split: if_splits)

interpretation selftest_uds: isotp_world "selftest_ops hal" "\<lambda>w. uds w = u" for hal :: "('h, 'n) EcuHal_scheme" and u
  by unfold_locales (auto simp: selftest_ops_def dest: diag_SendFrame_uds OnTesterResponse_uds)

text \<open>Outside the extended session no request makes a hard reset pending.\<close>

lemma RespondTo_calm:
  assumes "calm_default w"
  shows "\<exists>s'. RespondTo hal data len functional (l, w) = Some s' \<and> calm (snd s')"
proof (cases "len = 0")
  case True
  then have "RespondTo hal data len functional (l, w) = Some (l, w\<lparr>s_respBuf := s_respBuf w\<rparr>)"
    by (simp add: RespondTo_def Uds_ProcessRequest_def)
  then show ?thesis using assms by (simp add: calm_default_def)
next
  case False
  have ok: "dtc_ok (dtcs w)" "length (s_respBuf w) = 256"
    using assms by (simp_all add: calm_default_def calm_def ecu_ok_def ecu_dtcs_def)
  define rq where "rq = map ((!) data) [0..<unat len]"
  define bytes where "bytes = encode_reply functional (hd rq) (ecu_reply w rq)"
  from RespondTo_eq [OF ok False rq_def bytes_def, of hal l] obtain buf where
    buf: "length buf = 256" "RespondTo hal data len functional (l, w) =
      (if bytes = [] then Some (l, ecu_after hal w rq buf)
       else map_option snd (IsoTp_Transmit (ecu_txops hal) (Some bytes) (of_nat (length bytes)) (l, ecu_after hal w rq buf)))"
    by blast
  have "\<not> (positive (ecu_reply w rq) \<and> hd rq = 0x11)"
    using assms by (auto simp: ecu_reply_def spec_reply_def spec_EcuReset_def positive_def calm_default_def split: if_splits)
  then have "s_pendingReset (uds (ecu_after hal w rq buf)) \<noteq> 0x01"
    using assms by (auto simp: ecu_after_def uds_after_def calm_default_def calm_def)
  moreover have "ecu_ok (ecu_after hal w rq buf)"
    using ecu_after_ok [of w rq buf hal] assms False buf(1) by (simp add: rq_def unat_gt_0 calm_default_def calm_def)
  ultimately have "calm (ecu_after hal w rq buf)" by (simp add: calm_def)
  then show ?thesis
    using buf(2) ecu_guarded_tx.Transmit_Q [of "ecu_after hal w rq buf" hal "Some bytes" "of_nat (length bytes)" l] by auto
qed

lemma OnFrame_calm:
  assumes "diag_inv (l, tst, w)" "calm_default w"
  shows "\<exists>l' tst' w'. DiagApp_OnFrame hal frame (l, tst, w) = Some (l', tst', w') \<and> calm w'"
proof -
  have links: "link_wf l" "link_wf tst" using assms(1) by (simp_all add: diag_inv_def)
  have "\<exists>s'. RxFinish (ecu_ops hal) ISOTP_OK s = Some s' \<and> calm (snd s')" if "calm_default (snd s)" for s
  proof -
    obtain k v where s: "s = (k, v)" by fastforce
    have "RxFinish (ecu_ops hal) ISOTP_OK s = RespondTo hal (rxBuffer (cfg k)) (rxLength k) False (k\<lparr>rxState := ISOTP_RX_IDLE\<rparr>, v)"
      by (simp add: s RxFinish_def upd_def ecu_ops_def OnEcuRequest_def Let_def)
    then show ?thesis using RespondTo_calm [of v hal "rxBuffer (cfg k)" "rxLength k" False] that by (simp add: s)
  qed
  from ecu_guarded_default.RxFrame_Q [OF this _ links(1) assms(2)]
  have phys: "\<exists>s'. IsoTp_RxFrame (ecu_ops hal) data dlc (l, w) = Some s' \<and> calm (snd s')" for data dlc
    by (simp add: calm_default_def)
  have tst: "\<exists>s'. IsoTp_RxFrame (selftest_ops hal) data dlc (tst, w) = Some s' \<and> calm (snd s')" for data dlc
  proof -
    obtain s' where s': "IsoTp_RxFrame (selftest_ops hal) data dlc (tst, w) = Some s'"
      using selftest_total.RxFrame_returns [OF links(2)] by blast
    have "ecu_ok w" using assms(2) by (simp add: calm_default_def calm_def)
    then have "ecu_ok (snd s')" "uds (snd s') = uds w"
      using selftest_world.IsoTp_RxFrame_P [OF s'] selftest_uds.IsoTp_RxFrame_P [OF s', of "uds w"] by simp_all
    then show ?thesis using s' assms(2) by (auto simp: calm_default_def calm_def)
  qed
  show ?thesis
    using phys [of "Some (frame_data frame)" "frame_dlc frame"] tst [of "Some (frame_data frame)" "frame_dlc frame"]
      RespondTo_calm [OF assms(2), of hal "drop 1 (frame_data frame)" "ucast (frame_data frame ! 0 AND 0x0F)" True l] assms(2)
    by (auto simp: DiagApp_OnFrame_def on_ecuLink_def on_testerLink_def Let_def calm_default_def)
qed

lemma MainFunction_calm:
  assumes "diag_inv (l, tst, w)" "calm w"
  shows "\<exists>d. DiagApp_MainFunction hal (l, tst, w) = Some d"
proof -
  have links: "link_wf l" "link_wf tst" using assms(1) by (simp_all add: diag_inv_def)
  obtain l1 w1 where m: "IsoTp_MainFunction (ecu_ops hal) (l, w) = Some (l1, w1)"
    using ecu_guarded.MainFunction_Q [OF links(1) assms(2), of hal] by auto
  obtain u w2 where u: "Uds_MainFunction (diag_uds hal) (uds w1) w1 = (u, w2)" by fastforce
  obtain t3 w3 where t: "IsoTp_MainFunction (selftest_ops hal) (tst, w2\<lparr>uds := u\<rparr>) = Some (t3, w3)"
    using selftest_total.MainFunction_returns [OF links(2)] by fastforce
  have "\<exists>s. SelfTestRun hal (t3, w3) = Some s"
  proof -
    obtain r s' where "IsoTp_Transmit (selftest_ops hal) (Some (ts_req (k_steps ! unat (s_stStep w3))))
        (ucast (ts_reqLen (k_steps ! unat (s_stStep w3)))) (t3, w3\<lparr>s_testerGotResp := False, s_testerRespLen := 0\<rparr>) = Some (r, s')"
      using selftest_link.Transmit_returns by blast
    then show ?thesis
      by (cases "s_stState w3"; cases s') (simp_all add: SelfTestRun_def Let_def)
  qed
  then show ?thesis
    using m u t by (auto simp: DiagApp_MainFunction_def on_ecuLink_def on_testerLink_def Let_def)
qed

end
