(* ===== verification/ControlInvariant.thy ===== *)
theory ControlInvariant
  imports ControlApp DiagReturns
begin

section \<open>The invariant of the Control ECU\<close>

text \<open>
  Every turn of a task, every interrupt and the initialisation keep \<open>ecu_ok\<close> (DiagProps) and the
  well-formedness of both transport links; \<open>ecu_run\<close> is the set of states the ECU reaches, for
  any interleaving and any behaviour of its environment.
\<close>

subsection \<open>The tasks keep the invariant\<close>

lemma E2e_Check_counter:
  assumes "E2e_Check (Some s) (Some f) dlc = (v, st)" "lastCounter s \<le> 15"
  shows "lastCounter (the st) \<le> 15"
proof -
  show ?thesis
    using assms mask_le_15
    by (auto simp: E2e_Check_def Let_def E2E_COUNTER_MASK_def split: if_splits)
qed

lemma goodStreak_accept: "goodStreak v \<le> 10 \<Longrightarrow> goodStreak (accept_frame now frame v) \<le> 10"
  by (simp add: accept_frame_def Let_def E2E_HEAL_FRAMES_def word_inc_le)

lemma HandleSpeedFrame_ok:
  assumes "ecu_ok w"
  shows "ecu_ok (HandleSpeedFrame hal frame w)"
proof -
  obtain v st where c: "E2e_Check (Some (s_e2eSpeed w)) (Some (frame_data frame)) (frame_dlc frame) = (v, st)"
    by fastforce
  have "lastCounter (the st) \<le> 15" using E2e_Check_counter [OF c] assms by (simp add: ecu_ok_def)
  then show ?thesis
    using assms goodStreak_accept
    by (auto simp: HandleSpeedFrame_def c Let_def ecu_ok_def lock_view_def unlock_view_def reject_frame_def)
qed

lemma s_view_ok: "ecu_ok w \<Longrightarrow> goodStreak v \<le> 10 \<Longrightarrow> ecu_ok (w\<lparr>s_view := v\<rparr>)"
  by (simp add: ecu_ok_def)

lemma hfdcan1_ok [simp]: "ecu_ok (w\<lparr>hfdcan1 := h\<rparr>) = ecu_ok w"
  by (simp add: ecu_ok_def)

lemma SetFault_ok: "ecu_ok w \<Longrightarrow> ecu_ok (SetFault f active w)"
  by (simp add: SetFault_def) (simp add: ecu_ok_def)

lemma HandleButton_ok: "ecu_ok w \<Longrightarrow> ecu_ok (control_HandleButton hal w)"
  by (auto simp: control_HandleButton_def BUTTON_DEBOUNCE_TICKS_def ecu_ok_def word_inc_le)

lemma run_monitors_ok: "ecu_ok w \<Longrightarrow> ecu_ok (run_monitors hal now v w)"
  by (simp add: run_monitors_def Let_def SetFault_ok HandleButton_ok)

lemma ReportFault_ok: "ecu_ok w \<Longrightarrow> ecu_ok (DiagApp_ReportFault i failed w)"
  by (simp add: DiagApp_ReportFault_def ecu_ok_def ecu_dtcs_ops)

lemma report_faults_ok: "ecu_ok w \<Longrightarrow> ecu_ok (report_faults w)"
  unfolding report_faults_def by (rule fold_invariant [where Q = "\<lambda>_. True"]) (simp_all add: ReportFault_ok)

lemma SetPwm_ok: "ecu_ok w \<Longrightarrow> ecu_ok (IoDrv_SetPwm duty w)"
  by (simp add: IoDrv_SetPwm_def Let_def IODRV_PWM_MAX_def ecu_ok_def word_le_nat_alt word_less_nat_alt unat_u32_of_u16)

lemma CanDrv_MainFunction_ok: "ecu_ok (control_CanDrv_MainFunction hal w) = ecu_ok w"
  by (rule ecu_ok_more) (simp add: control_CanDrv_MainFunction_def Let_def)

lemma ConfirmedDtcCount_same:
  assumes "ecu_ok w"
  shows "DiagApp_ConfirmedDtcCount w = (of_nat (length (matching DTC_STATUS_CDTC (dtcs w))), w)"
proof -
  have "dtc_wf (dtcs w)" "lock_balanced (dtcs w)"
    using assms by (simp_all add: ecu_ok_def ecu_dtcs_def dtc_ok_def)
  then show ?thesis
    by (simp add: DiagApp_ConfirmedDtcCount_def CountByStatusMask_eq)
qed

lemma CanSend_ok: "ecu_ok w \<Longrightarrow> ecu_ok (snd (ControlApp_CanSend hal i data dlc w))"
  using ecu_ok_more CanSend_more by (metis prod.collapse)

lemma SendStatusFrame_ok: "ecu_ok w \<Longrightarrow> ecu_ok (SendStatusFrame hal duty w)"
proof -
  have counter: "ecu_ok (w\<lparr>status_counter := x AND 0x0F\<rparr>)" if "ecu_ok w" for x
    using that mask_le_15 [of x] by (simp add: ecu_ok_def)
  show "ecu_ok w \<Longrightarrow> ecu_ok (SendStatusFrame hal duty w)"
    by (auto simp: SendStatusFrame_def Let_def ConfirmedDtcCount_same E2e_Protect_def E2E_COUNTER_MASK_def
      intro: CanSend_ok counter)
qed

lemma LogStatus_ok: "ecu_ok w \<Longrightarrow> ecu_ok (control_LogStatus hal v age duty w)"
  by (simp add: control_LogStatus_def Let_def ConfirmedDtcCount_same)

lemma Monitor_step_ok:
  assumes "Monitor_step hal (n, t, w) = (n', t', w')" "ecu_ok w"
  shows "ecu_ok w'"
  using assms
  by (auto simp: Monitor_step_def Let_def CONTROL_APP_CAN_LOOPBACK_def CanDrv_MainFunction_ok SetPwm_ok
      report_faults_ok run_monitors_ok SendStatusFrame_ok LogStatus_ok)


lemma diag_inv_lock:
  "diag_inv (l, tst, w) \<Longrightarrow> goodStreak v \<le> 10 \<Longrightarrow>
   diag_inv (l, tst, unlock_view (lock_view w\<lparr>s_view := v\<rparr>))"
  by (simp add: diag_inv_def ecu_ok_def lock_view_def unlock_view_def)

lemma alive_frame_ok:
  assumes "ecu_ok w" "E2e_Check (Some (s_e2eAlive w)) (Some f) dlc = (v, st)"
  shows "ecu_ok (unlock_view (lock_view (w\<lparr>s_e2eAlive := the st\<rparr>)
    \<lparr>s_view := (s_view w)\<lparr>aliveFrames := n\<rparr>\<rparr>))"
  using E2e_Check_counter [OF assms(2)] assms(1)
  by (simp add: ecu_ok_def lock_view_def unlock_view_def)

lemma ComRx_dispatch_inv:
  assumes "ComRx_dispatch hal frame (l, tst, w) = Some d'" "diag_inv (l, tst, w)"
  shows "diag_inv d'"
proof -
  obtain v st where a: "E2e_Check (Some (s_e2eAlive w)) (Some (frame_data frame)) (frame_dlc frame) = (v, st)"
    by fastforce
  have "diag_inv (l1, t1, unlock_view (lock_view w1\<lparr>s_view := (s_view w1)\<lparr>udsRequests := n\<rparr>\<rparr>))"
    if "DiagApp_OnFrame hal frame (l, tst, w) = Some (l1, t1, w1)" for l1 t1 w1 n
    using DiagApp_OnFrame_inv [OF that assms(2)] by (intro diag_inv_lock) (simp_all add: diag_inv_def ecu_ok_def)
  then show ?thesis
    using assms HandleSpeedFrame_ok [of w hal frame] alive_frame_ok [OF _ a]
    by (auto simp: ComRx_dispatch_def a Let_def lock_view_def diag_inv_def split: if_splits)
qed

lemma ComRx_step_inv:
  assumes "ComRx_step hal (l, tst, w) = Some d'" "diag_inv (l, tst, w)"
  shows "diag_inv d'"
proof -
  obtain got h where q: "osMessageQueueGet hal 2 (hfdcan1 w) = (got, h)" by fastforce
  have w0: "diag_inv (l, tst, w\<lparr>hfdcan1 := h\<rparr>)" using assms(2) by (simp add: diag_inv_def)
  then show ?thesis
    using assms(1)
    by (auto simp: ComRx_step_def q Let_def split: option.splits bind_splits
        dest: ComRx_dispatch_inv DiagApp_MainFunction_inv)
qed


text \<open>A turn of the receive task returns in the default session with no hard reset pending.\<close>

lemma ComRx_calm:
  assumes "diag_inv (l, tst, w)" "calm_default w"
  shows "\<exists>d. ComRx_step hal (l, tst, w) = Some d"
proof -
  obtain got h where q: "osMessageQueueGet hal 2 (hfdcan1 w) = (got, h)" by fastforce
  define w0 where "w0 = w\<lparr>hfdcan1 := h\<rparr>"
  have w0: "diag_inv (l, tst, w0)" "calm_default w0"
    using assms by (simp_all add: w0_def diag_inv_def calm_default_def calm_def)
  have disp: "\<exists>l' tst' w'. ComRx_dispatch hal frame (l, tst, w0) = Some (l', tst', w') \<and> calm w'" for frame
  proof -
    obtain l1 t1 w1 where f: "DiagApp_OnFrame hal frame (l, tst, w0) = Some (l1, t1, w1)" "calm w1"
      using OnFrame_calm [OF w0, of hal frame] by blast
    have keep: "uds (HandleSpeedFrame hal frame w0) = uds w0"
      by (simp add: HandleSpeedFrame_def Let_def lock_view_def unlock_view_def split: prod.split)
    have "\<exists>d. ComRx_dispatch hal frame (l, tst, w0) = Some d \<and> s_pendingReset (uds (snd (snd d))) \<noteq> 0x01"
      using f w0(2) keep
      by (auto simp: ComRx_dispatch_def Let_def lock_view_def unlock_view_def calm_default_def calm_def
          simp del: split_paired_Ex split: prod.split)
    then obtain d where d: "ComRx_dispatch hal frame (l, tst, w0) = Some d" "s_pendingReset (uds (snd (snd d))) \<noteq> 0x01"
      by blast
    have "diag_inv d" using ComRx_dispatch_inv [OF d(1) w0(1)] .
    then show ?thesis using d by (cases d) (auto simp: diag_inv_def calm_def)
  qed
  show ?thesis
  proof (cases got)
    case None
    then show ?thesis
      using MainFunction_calm [OF w0(1), of hal] w0(2) by (simp add: ComRx_step_def q w0_def [symmetric] calm_default_def)
  next
    case (Some frame)
    obtain l1 t1 w1 where d: "ComRx_dispatch hal frame (l, tst, w0) = Some (l1, t1, w1)" "calm w1" using disp by blast
    have "diag_inv (l1, t1, w1)" using ComRx_dispatch_inv [OF d(1) w0(1)] .
    from MainFunction_calm [OF this d(2), of hal] show ?thesis
      using d(1) by (simp add: ComRx_step_def q w0_def [symmetric] Some)
  qed
qed

subsection \<open>The initialisation establishes it\<close>

text \<open>The static variables as the startup code leaves them.\<close>

definition ecu_static :: "'h Ecu \<Rightarrow> bool" where
  "ecu_static w = (dtcs w = DtcMgr_static \<and> uds w = Uds_static \<and> ecu_ok (w\<lparr>dtcs := demo_dtcs\<rparr>))"

lemma ecu_static_more:
  "ControlCan.more w' = ControlCan.more w \<Longrightarrow> tim1_CCR2 w' \<le> 1000 \<Longrightarrow> ecu_static (w :: 'h Ecu) \<Longrightarrow> ecu_static w'"
  by (cases w; cases w') (simp add: ecu_static_def ecu_ok_def)

lemma hal_call_control:
  "hal_call f s = (st, s') \<Longrightarrow> ControlCan.more s' = ControlCan.more s \<and> tim1_CCR2 s' = tim1_CCR2 s"
  by (auto simp: hal_call_def split: prod.splits)

lemma config_filters_control:
  "config_filters hal i fs s = (st, s') \<Longrightarrow> ControlCan.more s' = ControlCan.more s \<and> tim1_CCR2 s' = tim1_CCR2 s"
  by (induction hal i fs s rule: config_filters.induct)
    (auto split: prod.splits if_splits dest!: hal_call_control)

lemma CanDrv_Init_control:
  "control_CanDrv_Init hal m fs n s = (st, s') \<Longrightarrow> ControlCan.more s' = ControlCan.more s \<and> tim1_CCR2 s' = tim1_CCR2 s"
  by (auto simp: control_CanDrv_Init_def ApplyBitTiming_def control_ConfigureFilters_def Let_def
      split: prod.splits if_splits option.splits dest!: hal_call_control config_filters_control)

lemma ecu_static_hfdcan1 [simp]: "ecu_static (w\<lparr>hfdcan1 := h\<rparr>) = ecu_static w"
  by (simp add: ecu_static_def) (simp add: ecu_ok_def)

lemma create_static: "create f w = (ok, w') \<Longrightarrow> ecu_static w \<Longrightarrow> ecu_static w'"
  by (auto simp: create_def split: prod.splits)

lemma ecu_static_duty: "ecu_static w \<Longrightarrow> tim1_CCR2 w \<le> 1000"
  by (simp add: ecu_static_def ecu_ok_def)

lemma CanDrv_Init_static:
  assumes "control_CanDrv_Init hal m fs n w = (st, w')" "ecu_static w"
  shows "ecu_static w'"
  using CanDrv_Init_control [OF assms(1)] ecu_static_duty [OF assms(2)] assms(2)
  by (intro ecu_static_more [of w' w]) simp_all

lemma IoDrv_Init_static: "IoDrv_Init hal w = (st, w') \<Longrightarrow> ecu_static w \<Longrightarrow> ecu_static w'"
  by (rule ecu_static_more) (auto simp: IoDrv_Init_def Let_def dest!: hal_call_control split: prod.splits)

lemma demo_dtcs_init:
  "DtcMgr_Init (Some k_dtcTable) (of_nat (length k_dtcTable)) (Some DtcLock) (Some DtcUnlock) DtcMgr_static
   = (True, demo_dtcs)"
  by (simp add: demo_dtcs_def DtcMgr_Init_def k_dtcTable_def DTC_MAX_ENTRIES_def)

lemma DiagApp_Init_inv:
  assumes "DiagApp_Init hal False (l, tst, w) = (True, d)" "ecu_static w" "link_wf tst"
  shows "diag_inv d"
proof -
  obtain h t where d: "d = (IsoTp_Init (Some (diag_cfg CANID_UDS_RESP_CONTROL CANID_UDS_REQ_CONTROL 0 0)) l, tst,
     w\<lparr>hfdcan1 := h, dtcs := demo_dtcs, uds := Uds_static\<lparr>s_session := UDS_SESSION_DEFAULT,
        s_pendingReset := RESET_NONE, s_lastRequestMs := t\<rparr>, s_selfTest := False\<rparr>)"
    using assms(1,2) demo_dtcs_init
    by (auto simp: DiagApp_Init_def Let_def Uds_Init_def uds_now_def diag_uds_def ecu_static_def split: prod.splits if_splits)
  show ?thesis
    using assms(2,3)
    by (simp add: d diag_inv_def IsoTp_Init_link_wf diag_cfg_def DIAG_BUFFER_SIZE_def ecu_static_def ecu_ok_def uds_consts
        Uds_static_def)
qed

lemma print_inv: "diag_inv (l, tst, print m w) = diag_inv (l, tst, w)"
  by (simp add: diag_inv_def print_def)

lemma create_inv: "create f w = (ok, w') \<Longrightarrow> diag_inv (l, tst, w) \<Longrightarrow> diag_inv (l, tst, w')"
  by (auto simp: create_def diag_inv_def split: prod.splits)

lemma ControlApp_Init_inv:
  assumes "ControlApp_Init hal (l, tst, w) = (True, d)" "ecu_static w" "link_wf tst"
  shows "diag_inv d"
proof -
  define w3 where "w3 = w\<lparr>s_e2eSpeed := the (E2e_InitRx (Some (s_e2eSpeed w))),
    s_e2eAlive := the (E2e_InitRx (Some (s_e2eAlive w))), s_startTick := GetTimeMs hal w\<rparr>"
  have w3: "ecu_static w3"
    using assms(2) by (simp add: w3_def ecu_static_def ecu_ok_def E2e_InitRx_def Uds_static_def uds_consts)
  obtain w4 w5 w6 w7 w8 w9 l1 t1 w10 w11 w12 where
    c: "create (osMessageQueueNew hal RX_QUEUE_LEN) w3 = (True, w4)" "create (osMutexNew hal) w4 = (True, w5)"
      "create (osMutexNew hal) w5 = (True, w6)" "create (osMutexNew hal) w6 = (True, w7)"
    and i: "IoDrv_Init hal w7 = (True, w8)"
      "control_CanDrv_Init hal CANDRV_MODE_NORMAL (Some k_filters) (of_nat (length k_filters)) w8 = (CANDRV_OK, w9)"
    and dg: "DiagApp_Init hal False (l, tst, w9) = (True, l1, t1, w10)"
    and th: "create (osThreadNew hal ''ComRx'') w10 = (True, w11)" "create (osThreadNew hal ''Monitor'') w11 = (True, w12)"
    and d: "\<exists>m. d = (l1, t1, print m w12)"
    using assms(1) unfolding ControlApp_Init_def CONTROL_APP_CAN_LOOPBACK_def
    by (simp add: Let_def GetTimeMs_def split: prod.splits if_splits)
      (rule that [unfolded w3_def GetTimeMs_def], assumption+, blast)
  have "ecu_static w9"
    using w3 create_static [OF c(1)] create_static [OF c(2)] create_static [OF c(3)] create_static [OF c(4)]
      IoDrv_Init_static [OF i(1)] CanDrv_Init_static [OF i(2)] by blast
  from DiagApp_Init_inv [OF dg this assms(3)]
  show ?thesis using d create_inv [OF th(1)] create_inv [OF th(2)] by (auto simp: print_inv)
qed


subsection \<open>The interrupts\<close>

lemma RxLoop_inv_aux:
  assumes "control_RxLoop hal cb s = Some s'" "\<forall>s h. P s \<longrightarrow> P (s\<lparr>hfdcan1 := h\<rparr>)" "\<forall>s. P s \<longrightarrow> P (count_received s)"
  shows "P s \<longrightarrow> (\<forall>f frame s. cb = Some f \<longrightarrow> P s \<longrightarrow> P (f frame s)) \<longrightarrow> P s'"
proof (rule control_RxLoop.raw_induct [OF _ assms(1), where P = "\<lambda>hal cb s s'. P s \<longrightarrow>
    (\<forall>f frame s. cb = Some f \<longrightarrow> P s \<longrightarrow> P (f frame s)) \<longrightarrow> P s'"])
  fix loop and hal :: "('a, 'c) FdcanHal_scheme" and cb and s s' :: "('a, 'b) CanDrv_scheme"
  assume IH: "\<And>hal cb s s'. loop hal cb s = Some s' \<Longrightarrow>
      P s \<longrightarrow> (\<forall>f frame s. cb = Some f \<longrightarrow> P s \<longrightarrow> P (f frame s)) \<longrightarrow> P s'"
    and body: "(if HAL_FDCAN_GetRxFifoFillLevel hal (hfdcan1 s) > 0 then
        (let (st, header, bytes, h) = HAL_FDCAN_GetRxMessage hal (hfdcan1 s);
             s1 = s\<lparr>hfdcan1 := h\<rparr>
         in if st \<noteq> HAL_OK then Some s1
            else
              (let s2 = count_received s1;
                   s3 = (case cb of None \<Rightarrow> s2 | Some f \<Rightarrow> f (control_rx_frame header bytes) s2)
               in loop hal cb s3))
      else Some s) = Some s'"
  show "P s \<longrightarrow> (\<forall>f frame s. cb = Some f \<longrightarrow> P s \<longrightarrow> P (f frame s)) \<longrightarrow> P s'"
    using body assms(2,3)
    by (auto simp: Let_def split: if_splits prod.splits option.splits dest!: IH)
qed

lemma RxLoop_inv:
  assumes "control_RxLoop hal cb s = Some s'" "P s"
    and "\<And>s h. P s \<Longrightarrow> P (s\<lparr>hfdcan1 := h\<rparr>)" "\<And>s. P s \<Longrightarrow> P (count_received s)"
    and "\<And>f frame s. cb = Some f \<Longrightarrow> P s \<Longrightarrow> P (f frame s)"
  shows "P s'"
  using RxLoop_inv_aux [OF assms(1), of P] assms(2-5) by blast

lemma count_received_ok: "ecu_ok w \<Longrightarrow> ecu_ok (count_received w)"
  by (simp add: count_received_def ecu_ok_def)

lemma OnCanRx_ok: "ecu_ok w \<Longrightarrow> ecu_ok (OnCanRx hal frame w)"
  by (simp add: OnCanRx_def Let_def split: prod.split) (simp add: ecu_ok_def)

lemma RxFifo0_ok:
  "control_RxFifo0Callback hal (Some (OnCanRx hal)) its w = Some w' \<Longrightarrow> ecu_ok w \<Longrightarrow> ecu_ok w'"
  by (auto simp: control_RxFifo0Callback_def count_received_ok OnCanRx_ok split: if_splits
      elim!: RxLoop_inv [where P = ecu_ok])

lemma ErrorStatus_ok: "ecu_ok (control_ErrorStatusCallback its w) = ecu_ok w"
  by (rule ecu_ok_more) (simp add: control_ErrorStatusCallback_def)

subsection \<open>Reachable states\<close>

text \<open>A run of the ECU from its start: turns of the two tasks and interrupts in any order, and
  between them any change of the peripherals, of the kernel's queue and of the time. A hard
  reset (\<open>None\<close>) ends a run.\<close>

inductive ecu_run :: "('h, 'n) EcuHal_scheme \<Rightarrow> u32 \<times> u32 \<times> 'h diag \<Rightarrow> bool" for hal where
  boot: "ControlApp_Init hal (l0, tst, w) = (True, d) \<Longrightarrow> ecu_static w \<Longrightarrow> link_wf tst \<Longrightarrow> ecu_run hal (start, 0, d)"
| com_rx: "ecu_run hal (next, tick, d) \<Longrightarrow> ComRx_step hal d = Some d' \<Longrightarrow> ecu_run hal (next, tick, d')"
| monitor: "ecu_run hal (next, tick, l, tst, w) \<Longrightarrow> Monitor_step hal (next, tick, w) = (next', tick', w') \<Longrightarrow>
    ecu_run hal (next', tick', l, tst, w')"
| rx_irq: "ecu_run hal (next, tick, l, tst, w) \<Longrightarrow>
    control_RxFifo0Callback hal (Some (OnCanRx hal)) its w = Some w' \<Longrightarrow> ecu_run hal (next, tick, l, tst, w')"
| error_irq: "ecu_run hal (next, tick, l, tst, w) \<Longrightarrow>
    ecu_run hal (next, tick, l, tst, control_ErrorStatusCallback its w)"
| hardware: "ecu_run hal (next, tick, l, tst, w) \<Longrightarrow> ecu_run hal (next, tick, l, tst, w\<lparr>hfdcan1 := h\<rparr>)"

text \<open>C1: in every state the control ECU can reach, under any traffic, interleaving of its tasks
  and interrupts, and behaviour of the peripherals: both transport links are well formed (no
  write went past a buffer); the response and self-test buffers and the fault array keep their
  sizes; the trouble code store is in order; every mutex is released; the session is default or
  extended and a pending reset is a hard or a soft one; the PWM compare value is at most full
  scale; the button, streak and alive counters stay in their ranges; and the self-test never
  passes its table. While no hard reset is pending the cyclic diagnostic function returns, and outside the
  extended session so does every turn of the receive task, whatever frame it takes: only a hard reset, which
  the extended session alone accepts, ends the task.\<close>

theorem ControlEcu_invariant:
  assumes "ecu_run hal (next, tick, l, tst, w)"
  shows "link_wf l \<and> link_wf tst \<and> ecu_ok w \<and>
    (s_pendingReset (uds w) \<noteq> 0x01 \<longrightarrow> (\<exists>d. DiagApp_MainFunction hal (l, tst, w) = Some d)) \<and>
    (s_pendingReset (uds w) \<noteq> 0x01 \<and> s_session (uds w) \<noteq> 0x03 \<longrightarrow> (\<exists>d. ComRx_step hal (l, tst, w) = Some d))"
proof -
  have inv: "diag_inv d" if "ecu_run hal (n, k, d)" for n k d
    using that
  proof (induction "(n, k, d)" arbitrary: n k d rule: ecu_run.induct)
    case (boot l0 tst w d)
    then show ?case by (cases d) (simp add: ControlApp_Init_inv)
  next
    case (com_rx n k d d')
    then show ?case by (cases d) (auto dest: ComRx_step_inv)
  qed (auto simp: diag_inv_def ErrorStatus_ok dest: Monitor_step_ok RxFifo0_ok)
  then have "diag_inv (l, tst, w)" using assms by blast
  then show ?thesis
    using MainFunction_calm [of l tst w hal] ComRx_calm [of l tst w hal]
    by (simp add: diag_inv_def calm_def calm_default_def)
qed

definition boot_ecu :: "u32 Ecu" where
  "boot_ecu = demo_ecu\<lparr>dtcs := DtcMgr_static\<rparr>"

lemma boot_ecu_static: "ecu_static boot_ecu"
  by (simp add: ecu_static_def boot_ecu_def ecu_ok_def ecu_dtcs_def demo_dtcs_ok demo_ecu_def demo_view_def
      Uds_static_def uds_consts)

lemma create_demo [simp]:
  "create (osMessageQueueNew demo_hal n) w = (True, w)" "create (osMutexNew demo_hal) w = (True, w)"
  "create (osThreadNew demo_hal s) w = (True, w)"
  by (simp_all add: create_def demo_hal_def)

lemma IoDrv_Init_demo [simp]:
  "fst (IoDrv_Init demo_hal w)" "s_kernelClockHz (snd (IoDrv_Init demo_hal w)) = s_kernelClockHz w"
  "dtcs (snd (IoDrv_Init demo_hal w)) = dtcs w"
  by (simp_all add: IoDrv_Init_def hal_call_def demo_hal_def Let_def)

lemma CanDrv_Init_demo:
  "s_kernelClockHz w = 24000000 \<Longrightarrow>
     fst (control_CanDrv_Init demo_hal m (Some k_filters) (of_nat (length k_filters)) w) = CANDRV_OK \<and>
     dtcs (snd (control_CanDrv_Init demo_hal m (Some k_filters) (of_nat (length k_filters)) w)) = dtcs w"
  by (simp add: control_CanDrv_Init_def ApplyBitTiming_def KERNEL_CLOCK_HSE_HZ_def control_ConfigureFilters_def
        k_filters_def MAX_STD_FILTERS_def hal_call_def demo_hal_def Let_def)

lemma DiagApp_Init_demo: "dtcs w = DtcMgr_static \<Longrightarrow> fst (DiagApp_Init demo_hal False (l, t, w))"
  using demo_dtcs_init by (simp add: DiagApp_Init_def demo_hal_def Let_def split: prod.split)

lemma boot_ecu_starts: "fst (ControlApp_Init demo_hal (demo_link, demo_link, boot_ecu))"
proof -
  have "s_kernelClockHz boot_ecu = 24000000" "dtcs boot_ecu = DtcMgr_static"
    by (simp_all add: boot_ecu_def demo_ecu_def)
  then show ?thesis
    by (simp add: ControlApp_Init_def CONTROL_APP_CAN_LOOPBACK_def Let_def case_prod_unfold
        CanDrv_Init_demo DiagApp_Init_demo)
qed

theorem ControlEcu_invariant_witness:
  "\<exists>l tst w. ControlApp_Init demo_hal (demo_link, demo_link, boot_ecu) = (True, l, tst, w) \<and>
     link_wf l \<and> ecu_ok (snd (snd (Monitor_step demo_hal (0, 0, w))))"
proof -
  obtain l tst w where i: "ControlApp_Init demo_hal (demo_link, demo_link, boot_ecu) = (True, l, tst, w)"
    using boot_ecu_starts by (metis prod_cases3 fst_conv)
  obtain n k w' where m: "Monitor_step demo_hal (0, 0, w) = (n, k, w')" by (metis prod_cases3)
  have "link_wf demo_link" using demo_ready by (simp add: diag_ready_def)
  then have "ecu_run demo_hal (0, 0, l, tst, w)" using ecu_run.boot [OF i boot_ecu_static] by blast
  from ControlEcu_invariant [OF ecu_run.monitor [OF this m]] show ?thesis using i m by auto
qed

end
