(* ===== verification/Debounce.thy ===== *)
theory Debounce
  imports Prelude
begin

section \<open>A debounced push button\<close>

text \<open>
  Both ECUs poll a push button every 10 ms and act once when it has been pressed for more than
  three polls in a row. \<open>debounce\<close> is the contract of such a polling function over the samples
  \<open>'e\<close> it reads: how it moves the counter \<open>ticks\<close>, the latch and the value \<open>out\<close> it acts on. The
  reference is \<open>presses\<close>: the number of fourth consecutive pressed samples. ControlProps and
  SensorProps interpret the contract on the buttons of the two ECUs.
\<close>

text \<open>\<open>r\<close> is the number of pressed samples just before the list.\<close>

fun presses :: "nat \<Rightarrow> bool list \<Rightarrow> nat" where
  "presses r [] = 0"
| "presses r (p # ps) = (if p then (if r = 3 then 1 else 0) + presses (r + 1) ps else presses 0 ps)"

locale debounce =
  fixes poll :: "'e \<Rightarrow> 's \<Rightarrow> 's" and pressed :: "'e \<Rightarrow> bool"
    and ticks :: "'s \<Rightarrow> u8" and latched :: "'s \<Rightarrow> bool" and out :: "'s \<Rightarrow> 'o" and act :: "'o \<Rightarrow> 'o"
  assumes released: "\<not> pressed e \<Longrightarrow> ticks (poll e s) = 0 \<and> \<not> latched (poll e s) \<and> out (poll e s) = out s"
    and counting: "pressed e \<Longrightarrow> ticks s < 3 \<Longrightarrow>
      ticks (poll e s) = ticks s + 1 \<and> latched (poll e s) = latched s \<and> out (poll e s) = out s"
    and firing: "pressed e \<Longrightarrow> \<not> ticks s < 3 \<Longrightarrow> \<not> latched s \<Longrightarrow>
      ticks (poll e s) = ticks s \<and> latched (poll e s) \<and> out (poll e s) = act (out s)"
    and held: "pressed e \<Longrightarrow> \<not> ticks s < 3 \<Longrightarrow> latched s \<Longrightarrow>
      ticks (poll e s) = ticks s \<and> latched (poll e s) \<and> out (poll e s) = out s"
begin

definition after :: "nat \<Rightarrow> 's \<Rightarrow> bool" where
  "after r s \<longleftrightarrow> unat (ticks s) = min r 3 \<and> (latched s \<longleftrightarrow> 4 \<le> r)"

lemma after_poll:
  assumes "after r s"
  shows "after (if pressed e then r + 1 else 0) (poll e s) \<and>
    out (poll e s) = (if pressed e \<and> r = 3 then act (out s) else out s)"
proof (cases "pressed e")
  case False
  then show ?thesis using released [OF False, of s] by (simp add: after_def)
next
  case True
  have less: "ticks s < 3 \<longleftrightarrow> r < 3" using assms by (auto simp: after_def word_less_nat_alt)
  show ?thesis
  proof (cases "r < 3")
    case lt: True
    then have "unat (ticks s + 1) = Suc (unat (ticks s))"
      using less by (intro unat_inc_of_less [of _ 3]) simp
    then show ?thesis
      using counting [OF True, of s] less lt assms True by (auto simp: after_def)
  next
    case False
    then show ?thesis
      using firing [OF True, of s] held [OF True, of s] less assms True by (cases "r = 3") (auto simp: after_def)
  qed
qed

lemma polls:
  assumes "after r s"
  shows "out (fold poll es s) = (act ^^ presses r (map pressed es)) (out s)"
  using assms
proof (induction es arbitrary: r s)
  case (Cons e es)
  show ?case
    using Cons.IH [of "if pressed e then r + 1 else 0" "poll e s"] after_poll [OF Cons.prems, of e]
    by (simp add: funpow_swap1)
qed simp

end

end
