(* ===== verification/ControlProps.thy ===== *)
theory ControlProps
  imports ControlInvariant Debounce
begin

section \<open>What the Control ECU does\<close>

text \<open>
  The monitoring cycle (faults, safe state of the output, reports to the trouble code manager),
  the view of the sensor after any sequence of frames, the status frame and the button.
\<close>

subsection \<open>A monitoring cycle\<close>

text \<open>The faults of a cycle, from the time, the view and the injection switch.\<close>

definition spec_faults :: "u32 \<Rightarrow> u32 \<Rightarrow> SensorView_t \<Rightarrow> bool \<Rightarrow> bool list" where
  "spec_faults now start v inject =
     [if received v then now - lastValidTick v > 100 else now - start > 500,
      received v \<and> speedX10 v > 2500, e2eError v, sensorStatus v AND 0x02 \<noteq> 0, inject]"

definition spec_duty :: "bool list \<Rightarrow> SensorView_t \<Rightarrow> nat" where
  "spec_duty fs v = (if fs ! 0 \<or> fs ! 1 \<or> fs ! 2 \<or> fs ! 4 then 0 else min 1000 (unat (speedX10 v) * 1000 div 2500))"

lemma SetFault_faults: "s_faults (SetFault f a w) = (s_faults w)[fault_index f := a]"
  by (auto simp: SetFault_def) (metis (full_types) list_update_id)+

lemma SetFault_keeps [simp]:
  "s_view (SetFault f a w) = s_view w" "s_startTick (SetFault f a w) = s_startTick w"
  "hfdcan1 (SetFault f a w) = hfdcan1 w" "s_localInject (SetFault f a w) = s_localInject w"
  "dtcs (SetFault f a w) = dtcs w" "button_stableTicks (SetFault f a w) = button_stableTicks w"
  "button_latched (SetFault f a w) = button_latched w"
  by (simp_all add: SetFault_def)

lemma HandleButton_keeps [simp]:
  "s_view (control_HandleButton hal w) = s_view w" "s_faults (control_HandleButton hal w) = s_faults w"
  "dtcs (control_HandleButton hal w) = dtcs w" "hfdcan1 (control_HandleButton hal w) = hfdcan1 w"
  by (simp_all add: control_HandleButton_def)

lemma run_monitors_keeps [simp]:
  "s_view (run_monitors hal now v w) = s_view w" "dtcs (run_monitors hal now v w) = dtcs w"
  "hfdcan1 (run_monitors hal now v w) = hfdcan1 w"
  by (simp_all add: run_monitors_def Let_def)

lemma five: "length xs = 5 \<Longrightarrow> xs[0 := a, 1 := b, 2 := c, 3 := d, 4 := e] = [a, b, c, d, e]"
  by (cases xs; simp add: length_Suc_conv numeral_eq_Suc) (auto simp: length_Suc_conv)

lemma run_monitors_faults:
  assumes "length (s_faults w) = 5"
  shows "s_faults (run_monitors hal now v w)
       = spec_faults now (s_startTick w) v (s_localInject (run_monitors hal now v w))"
proof -
  have "ucast (speedX10 v) > (2500 :: u32) \<longleftrightarrow> speedX10 v > 2500"
    by (simp add: word_less_nat_alt unat_u32_of_u16)
  moreover have "(age_ms now (s_startTick w) v > 100 \<and> (received v \<or> now - s_startTick w > 500)) \<longleftrightarrow>
      (if received v then now - lastValidTick v > 100 else now - s_startTick w > 500)"
    by (auto simp: age_ms_def word_less_nat_alt)
  ultimately show ?thesis
    using five [OF assms]
    by (simp add: run_monitors_def Let_def SetFault_faults spec_faults_def SENSOR_SPEED_TIMEOUT_MS_def
        STARTUP_GRACE_MS_def SENSOR_SPEED_MAX_X10_def SENSOR_STATUS_ADC_ERROR_def)
qed

lemma output_duty_unat:
  "unat (output_duty f s) = (if f then 0 else unat s * 1000 div 2500)"
proof -
  have small: "unat s < 65536" using unsigned_less [of s] by simp
  then have "unat (ucast s * ucast IODRV_PWM_MAX :: u32) = unat s * 1000"
    by (simp add: unat_word_ariths unat_u32_of_u16 IODRV_PWM_MAX_def)
  then have "unat ((ucast s * ucast IODRV_PWM_MAX) div SENSOR_SPEED_MAX_X10 :: u32) = unat s * 1000 div 2500"
    by (simp add: unat_div SENSOR_SPEED_MAX_X10_def)
  then show ?thesis
    using small by (simp add: output_duty_def unsigned_ucast_eq take_bit_nat_eq_self)
qed

lemma report_faults_dtcs:
  "dtcs (report_faults w) = foldl dtc_step (dtcs w) (map (\<lambda>i. Report (of_nat i) (s_faults w ! i)) [0..<5])"
  by (simp add: report_faults_def FAULT_COUNT_def upt_rec DiagApp_ReportFault_def dtc_step_def)

lemma report_faults_keeps [simp]:
  "s_view (report_faults w) = s_view w" "s_faults (report_faults w) = s_faults w"
  "s_localInject (report_faults w) = s_localInject w" "hfdcan1 (report_faults w) = hfdcan1 w"
  by (simp_all add: report_faults_def FAULT_COUNT_def upt_rec DiagApp_ReportFault_def)


lemma CanDrv_more_fields:
  assumes "CanDrv.more w' = CanDrv.more (w :: 'h Ecu)"
  shows "s_view w' = s_view w" "s_faults w' = s_faults w" "s_localInject w' = s_localInject w"
    "dtcs w' = dtcs w" "tim1_CCR2 w' = tim1_CCR2 w" "s_startTick w' = s_startTick w" "log w' = log w"
  using assms by (cases w; cases w'; simp)+

lemma SendStatusFrame_keeps:
  assumes "ecu_ok w"
  shows "s_view (SendStatusFrame hal duty w) = s_view w" "s_faults (SendStatusFrame hal duty w) = s_faults w"
    "s_localInject (SendStatusFrame hal duty w) = s_localInject w" "dtcs (SendStatusFrame hal duty w) = dtcs w"
    "tim1_CCR2 (SendStatusFrame hal duty w) = tim1_CCR2 w"
proof -
  obtain bytes c where "E2e_Protect (Some ((replicate 8 0)[0 := ControlApp_GetFaultMask w, 1 :=
      of_nat (length (matching DTC_STATUS_CDTC (dtcs w))), 2 := byte_hi duty, 3 := byte_lo duty])) (Some (status_counter w))
      = Some (bytes, c)" by (simp add: E2e_Protect_def Let_def)
  then have "CanDrv.more (SendStatusFrame hal duty w) = CanDrv.more (w\<lparr>status_counter := c\<rparr>)"
    using CanSend_more [OF surjective_pairing]
    by (simp add: SendStatusFrame_def Let_def ConfirmedDtcCount_same [OF assms])
  from CanDrv_more_fields [OF this]
  show "s_view (SendStatusFrame hal duty w) = s_view w" "s_faults (SendStatusFrame hal duty w) = s_faults w"
    "s_localInject (SendStatusFrame hal duty w) = s_localInject w" "dtcs (SendStatusFrame hal duty w) = dtcs w"
    "tim1_CCR2 (SendStatusFrame hal duty w) = tim1_CCR2 w" by simp_all
qed

lemma LogStatus_keeps:
  assumes "ecu_ok w"
  shows "\<exists>m. control_LogStatus hal v age duty w = ControlApp_Log m w"
  by (simp add: control_LogStatus_def Let_def ConfirmedDtcCount_same [OF assms]) blast

lemma CanDrv_MainFunction_keeps:
  "CanDrv.more (control_CanDrv_MainFunction hal w) = CanDrv.more w"
  by (simp add: control_CanDrv_MainFunction_def Let_def)

lemmas CanDrv_MainFunction_fields = CanDrv_more_fields [OF CanDrv_MainFunction_keeps]

lemma Monitor_step_eq:
  assumes "Monitor_step hal (n, k, w) = (n', k', w')" "ecu_ok w"
    and "h = osDelayUntil hal (n + 10) (hfdcan1 w)" "now = osKernelGetTickCount hal h"
    and "w4 = report_faults (run_monitors hal now (s_view w) (w\<lparr>hfdcan1 := h\<rparr>))"
  shows "n' = n + 10" "k' = k + 1" "s_view w' = s_view w" "s_faults w' = s_faults w4"
    "s_localInject w' = s_localInject w4" "dtcs w' = dtcs w4"
    "tim1_CCR2 w' = tim1_CCR2 (IoDrv_SetPwm (output_duty (speed_fault (s_faults w4)) (speedX10 (s_view w))) w4)"
proof -
  define w5 where "w5 = control_CanDrv_MainFunction hal
    (IoDrv_SetPwm (output_duty (speed_fault (s_faults w4)) (speedX10 (s_view w))) w4)"
  have w5: "ecu_ok w5"
    using assms(2) by (simp add: w5_def assms(5) CanDrv_MainFunction_ok SetPwm_ok report_faults_ok run_monitors_ok)
  have "s_view w5 = s_view w4" "s_faults w5 = s_faults w4" "s_localInject w5 = s_localInject w4"
    "dtcs w5 = dtcs w4"
    "tim1_CCR2 w5 = tim1_CCR2 (IoDrv_SetPwm (output_duty (speed_fault (s_faults w4)) (speedX10 (s_view w))) w4)"
    by (simp_all add: w5_def CanDrv_MainFunction_fields IoDrv_SetPwm_def Let_def)
  note w5' = this
  define duty where "duty = output_duty (speed_fault (s_faults w4)) (speedX10 (s_view w))"
  define w7 where "w7 = (if (k + 1) mod (CONTROL_STATUS_CYCLE_MS div MONITOR_PERIOD_MS) = 0
    then SendStatusFrame hal duty w5 else w5)"
  have w7: "ecu_ok w7" using w5 by (simp add: w7_def SendStatusFrame_ok)
  have lock: "s_view (lock_view x) = s_view x" for x :: "'a Ecu" by (simp add: lock_view_def)
  have clock: "s_startTick (x\<lparr>hfdcan1 := h\<rparr>) = s_startTick x" "hfdcan1 (x\<lparr>hfdcan1 := h\<rparr>) = h"
    "s_view (x\<lparr>hfdcan1 := h\<rparr>) = s_view x" for x :: "'a Ecu" and h by simp_all
  have "Monitor_step hal (n, k, w) = (n + 10, k + 1, if (k + 1) mod LOG_PERIOD_TICKS = 0
      then control_LogStatus hal (s_view w) (age_ms now (s_startTick w) (s_view w)) duty w7 else w7)"
    unfolding Monitor_step_def CONTROL_APP_CAN_LOOPBACK_def Let_def MONITOR_PERIOD_MS_def GetTimeMs_def
      w7_def duty_def w5_def assms(3-5)
    by (simp only: prod.case unlock_lock_view lock clock if_False)
  note step = this [unfolded assms(1) prod.inject]
  obtain m where "control_LogStatus hal (s_view w) (age_ms now (s_startTick w) (s_view w)) duty w7 = ControlApp_Log m w7"
    using LogStatus_keeps [OF w7] by blast
  with step have "n' = n + 10" "k' = k + 1" "w' = w7 \<or> w' = ControlApp_Log m w7"
    by (simp_all split: if_splits)
  moreover have "s_view w7 = s_view w5" "s_faults w7 = s_faults w5" "s_localInject w7 = s_localInject w5"
    "dtcs w7 = dtcs w5" "tim1_CCR2 w7 = tim1_CCR2 w5"
    using SendStatusFrame_keeps [OF w5, of hal duty] by (simp_all add: w7_def)
  moreover have "s_view w4 = s_view w" by (simp add: assms(5))
  ultimately show "n' = n + 10" "k' = k + 1" "s_view w' = s_view w" "s_faults w' = s_faults w4"
    "s_localInject w' = s_localInject w4" "dtcs w' = dtcs w4"
    "tim1_CCR2 w' = tim1_CCR2 (IoDrv_SetPwm (output_duty (speed_fault (s_faults w4)) (speedX10 (s_view w))) w4)"
    using w5' by auto
qed


subsection \<open>Properties of the monitoring task\<close>

lemma Monitor_step_faults:
  assumes "Monitor_step hal (n, k, w) = (n', k', w')" "ecu_ok w"
    and "now = osKernelGetTickCount hal (osDelayUntil hal (n + 10) (hfdcan1 w))"
  shows "s_faults w' = spec_faults now (s_startTick w) (s_view w) (s_localInject w')"
  using run_monitors_faults [of "w\<lparr>hfdcan1 := osDelayUntil hal (n + 10) (hfdcan1 w)\<rparr>" hal now "s_view w"]
    Monitor_step_eq(4,5) [OF assms(1,2) refl assms(3) refl] assms(2)
  by (simp add: ecu_ok_def)

lemma Monitor_step_output:
  assumes "Monitor_step hal (n, k, w) = (n', k', w')" "ecu_ok w"
  shows "unat (tim1_CCR2 w') = spec_duty (s_faults w') (s_view w)"
  using Monitor_step_eq(4,7) [OF assms refl refl refl]
  by (simp add: IoDrv_SetPwm_def IODRV_PWM_MAX_def Let_def word_less_nat_alt unat_u32_of_u16
      output_duty_unat spec_duty_def speed_fault_def)

text \<open>C19: after any monitoring cycle from a state of the invariant the fault flags are those the time since
  the last valid frame, the sensor's view and the injection switch determine, and the PWM
  output is in the safe state (compare value 0) as soon as the speed is missing, out of range,
  not trusted, or the local fault is injected; otherwise it is the speed scaled to full scale,
  saturated at 1000 and computed without overflow.\<close>

theorem Monitor_output:
  assumes "Monitor_step hal (n, k, w) = (n', k', w')" "ecu_ok w"
    and "now = osKernelGetTickCount hal (osDelayUntil hal (n + 10) (hfdcan1 w))"
  shows "s_faults w' = spec_faults now (s_startTick w) (s_view w) (s_localInject w') \<and>
    unat (tim1_CCR2 w') = spec_duty (s_faults w') (s_view w) \<and> unat (tim1_CCR2 w') \<le> 1000"
  using Monitor_step_faults [OF assms] Monitor_step_output [OF assms(1,2)] by (simp add: spec_duty_def)


lemma demo_ecu_ok: "ecu_ok demo_ecu"
  using boot_ecu_static by (simp add: ecu_static_def boot_ecu_def) (simp add: demo_ecu_def)

definition demo_driving :: "u32 Ecu" where
  "demo_driving = demo_ecu\<lparr>s_view := demo_view\<lparr>received := True, speedX10 := 1200\<rparr>\<rparr>"

lemma demo_driving_ok: "ecu_ok demo_driving"
  unfolding demo_driving_def by (rule s_view_ok) (simp_all add: demo_ecu_ok demo_view_def)

theorem Monitor_output_witness:
  "unat (tim1_CCR2 (snd (snd (Monitor_step demo_hal (0, 0, demo_driving))))) = 480"
proof -
  obtain n k w' where m: "Monitor_step demo_hal (0, 0, demo_driving) = (n, k, w')" by (metis prod_cases3)
  have "\<not> s_localInject w'"
    unfolding Monitor_step_eq(5) [OF m demo_driving_ok refl refl refl]
    by (simp add: run_monitors_def Let_def control_HandleButton_def IoDrv_IsUserButtonPressed_def
        demo_hal_def demo_driving_def demo_ecu_def)
  moreover have "osKernelGetTickCount demo_hal (osDelayUntil demo_hal t h) = t" for t h
    by (simp add: demo_hal_def)
  ultimately have "s_faults w' = [False, False, False, False, False]"
    "unat (tim1_CCR2 w') = spec_duty (s_faults w') (s_view demo_driving)"
    using Monitor_output [OF m demo_driving_ok refl]
    by (simp_all add: spec_faults_def) (simp_all add: demo_driving_def demo_view_def)
  then show ?thesis
    by (simp add: m spec_duty_def) (simp add: demo_driving_def)
qed

subsection \<open>Monitoring and trouble codes\<close>

text \<open>A sequence of cycles, each from the view and the peripherals the other tasks and the
  hardware have left; the faults after each of them.\<close>

fun monitor_run ::
  "('h, 'n) EcuHal_scheme \<Rightarrow> u32 \<times> u32 \<times> 'h Ecu \<Rightarrow> (SensorView_t \<times> 'h) list \<Rightarrow>
   (u32 \<times> u32 \<times> 'h Ecu) \<times> bool list list" where
  "monitor_run hal m [] = (m, [])"
| "monitor_run hal (n, k, w) ((v, h) # env) =
     (let m = Monitor_step hal (n, k, w\<lparr>s_view := v, hfdcan1 := h\<rparr>);
          (m', fs) = monitor_run hal m env
      in (m', s_faults (snd (snd m)) # fs))"

definition fault_events :: "bool list \<Rightarrow> dtc_event list" where
  "fault_events fs = map (\<lambda>i. Report (of_nat i) (fs ! i)) [0..<5]"

lemma Monitor_step_dtcs:
  assumes "Monitor_step hal (n, k, w) = (n', k', w')" "ecu_ok w"
  shows "dtcs w' = foldl dtc_step (dtcs w) (fault_events (s_faults w'))"
  using Monitor_step_eq(4,6) [OF assms refl refl refl]
  by (simp add: report_faults_dtcs fault_events_def)

lemma monitor_run_dtcs:
  assumes "monitor_run hal (n, k, w) env = ((n', k', w'), fs)" "ecu_ok w" "\<forall>(v, h) \<in> set env. goodStreak v \<le> 10"
  shows "ecu_ok w' \<and> dtcs w' = foldl dtc_step (dtcs w) (concat (map fault_events fs)) \<and> length fs = length env"
  using assms
proof (induction env arbitrary: n k w fs)
  case (Cons e env)
  obtain v h where e: "e = (v, h)" by fastforce
  obtain n1 k1 w1 where m: "Monitor_step hal (n, k, w\<lparr>s_view := v, hfdcan1 := h\<rparr>) = (n1, k1, w1)"
    by (metis prod_cases3)
  obtain fs1 where r: "monitor_run hal (n1, k1, w1) env = ((n', k', w'), fs1)" "fs = s_faults w1 # fs1"
    using Cons.prems(1) by (auto simp: e m Let_def split: prod.splits)
  have ok: "ecu_ok (w\<lparr>s_view := v, hfdcan1 := h\<rparr>)" using Cons.prems(2,3) by (simp add: e s_view_ok)
  have "ecu_ok w1" using Monitor_step_ok [OF m ok] .
  with Cons.IH [OF r(1)] Cons.prems(3) Monitor_step_dtcs [OF m ok] r(2) show ?case by simp
qed simp

lemma upt_5: "[0..<5] = [0, 1, 2, 3, 4]"
  by (simp add: upt_rec numeral_nat)

lemma less_5_cases: "j < 5 \<Longrightarrow> j = 0 \<or> j = 1 \<or> j = 2 \<or> j = 3 \<or> j = (4 :: nat)"
  by auto

lemma fault_events_history:
  assumes "j < 5"
  shows "foldl (history_step (of_nat j)) h (concat (map fault_events fs)) = h @ map (\<lambda>f. Tested (f ! j)) fs"
proof (induction fs arbitrary: h)
  case (Cons f fs)
  have "foldl (history_step (of_nat j)) h (fault_events f) = h @ [Tested (f ! j)]"
    using less_5_cases [OF assms] by (elim disjE) (simp_all add: fault_events_def history_step_def upt_5)
  then show ?case by (simp add: Cons.IH)
qed simp

lemma monitor_run_e2e:
  assumes "monitor_run hal (n, k, w) env = (m', fs)" "ecu_ok w" "\<forall>(v, h) \<in> set env. goodStreak v \<le> 10"
  shows "map (\<lambda>f. f ! 2) fs = map (\<lambda>(v, h). e2eError v) env"
  using assms
proof (induction env arbitrary: n k w fs)
  case (Cons e env)
  obtain v h where e: "e = (v, h)" by fastforce
  obtain n1 k1 w1 where m: "Monitor_step hal (n, k, w\<lparr>s_view := v, hfdcan1 := h\<rparr>) = (n1, k1, w1)"
    by (metis prod_cases3)
  obtain fs1 where r: "monitor_run hal (n1, k1, w1) env = (m', fs1)" "fs = s_faults w1 # fs1"
    using Cons.prems(1) by (auto simp: e m Let_def split: prod.splits)
  have ok: "ecu_ok (w\<lparr>s_view := v, hfdcan1 := h\<rparr>)" using Cons.prems(2,3) by (simp add: e s_view_ok)
  show ?case
    using Cons.IH [OF r(1) Monitor_step_ok [OF m ok]] Cons.prems(3) Monitor_step_faults [OF m ok refl]
    by (simp add: r(2) e spec_faults_def)
qed simp

text \<open>C20: however long the ECU runs and whatever its tasks and the hardware leave in the sensor's view
  between the cycles, the status byte the manager keeps for a fault is the ISO 14229-1 byte of
  the sequence of that fault's flags, cycle by cycle, with the confirmation threshold of the
  ECU's table; every fault is reported exactly once in a cycle.\<close>

theorem Monitor_dtc_status:
  assumes "monitor_run hal (n, k, w) env = ((n', k', w'), fs)"
    and "ecu_ok w" "dtcs w = demo_dtcs" "\<forall>(v, h) \<in> set env. goodStreak v \<le> 10" "j < 5"
  shows "DtcMgr_GetStatus (of_nat j) (dtcs w')
       = (spec_status (confirmThreshold (k_dtcTable ! j)) (map (\<lambda>f. Tested (f ! j)) fs), dtcs w')"
proof -
  have j: "of_nat j < s_count demo_dtcs" "unat (of_nat j :: u8) = j"
    using assms(5) by (simp_all add: demo_dtcs_ok word_less_nat_alt unat_of_nat)
  have init: "s_entries demo_dtcs ! unat (of_nat j :: u8) = spec_entry (dtc_threshold demo_dtcs (of_nat j)) []"
    by (rule dtc_init_history [OF demo_dtcs_init]) (use j in \<open>simp_all add: demo_dtcs_ok DtcMgr_static_def k_dtcTable_def DTC_MAX_ENTRIES_def\<close>)
  have thr: "dtc_threshold demo_dtcs (of_nat j) = confirmThreshold (k_dtcTable ! j)"
    using less_5_cases [OF assms(5)]
    by (auto simp: dtc_threshold_def demo_dtcs_ok effective_threshold_def k_dtcTable_def)
  have "dtc_wf demo_dtcs" "lock_balanced demo_dtcs" using demo_dtcs_ok(1) by (simp_all add: dtc_ok_def)
  from GetStatus_history [OF this j(1) init, of "concat (map fault_events fs)"]
  show ?thesis
    using monitor_run_dtcs [OF assms(1,2,4)] assms(5) by (simp add: assms(3) thr fault_events_history)
qed


text \<open>Three cycles without a trusted speed confirm the plausibility code (threshold 3).\<close>

theorem Monitor_dtc_status_witness:
  "\<exists>n' k' w' fs. monitor_run demo_hal (0, 0, demo_ecu) (replicate 3 (demo_view\<lparr>e2eError := True\<rparr>, 0)) = ((n', k', w'), fs) \<and>
     fst (DtcMgr_GetStatus (of_nat 2) (dtcs w')) = 0x2F"
proof -
  define env where "env = replicate 3 (demo_view\<lparr>e2eError := True\<rparr>, 0 :: u32)"
  have env: "\<forall>(v, h) \<in> set env. goodStreak v \<le> 10" by (simp add: env_def demo_view_def)
  have d: "dtcs demo_ecu = demo_dtcs" by (simp add: demo_ecu_def)
  obtain n k w' fs where r: "monitor_run demo_hal (0, 0, demo_ecu) env = ((n, k, w'), fs)"
    by (metis prod_cases3 prod.collapse)
  have "map (\<lambda>f. f ! 2) fs = [True, True, True]"
    using monitor_run_e2e [OF r demo_ecu_ok env] by (simp add: env_def numeral_eq_Suc demo_view_def)
  then have "map (\<lambda>f. Tested (f ! 2)) fs = map Tested [True, True, True]"
    by (metis (no_types, lifting) map_map comp_def map_eq_conv)
  moreover have "confirmed 3 [True, True, True]" by (simp add: confirmed_def numeral_3_eq_3)
  ultimately have "fst (DtcMgr_GetStatus (of_nat 2) (dtcs w')) = 0x2F"
    using Monitor_dtc_status [OF r demo_ecu_ok d env, of 2]
    by (simp add: k_dtcTable_def spec_status_def this_cycle_def last_cycle_def dtc_status_defs)
  then show ?thesis using r by (auto simp: env_def)
qed

subsection \<open>The view of the sensor\<close>

text \<open>Which frames of a sequence the receiver accepts, from the state of its end-to-end check.\<close>

definition speed_valid :: "E2e_RxState_t \<Rightarrow> CanDrv_Frame_t \<Rightarrow> bool" where
  "speed_valid s f = E2e_IsValid (fst (E2e_Check (Some s) (Some (frame_data f)) (frame_dlc f)))"

definition speed_next :: "E2e_RxState_t \<Rightarrow> CanDrv_Frame_t \<Rightarrow> E2e_RxState_t" where
  "speed_next s f = the (snd (E2e_Check (Some s) (Some (frame_data f)) (frame_dlc f)))"

fun speed_verdicts :: "E2e_RxState_t \<Rightarrow> CanDrv_Frame_t list \<Rightarrow> bool list" where
  "speed_verdicts s [] = []"
| "speed_verdicts s (f # fs) = speed_valid s f # speed_verdicts (speed_next s f) fs"

definition speed_run :: "('h, 'n) EcuHal_scheme \<Rightarrow> CanDrv_Frame_t list \<Rightarrow> 'h Ecu \<Rightarrow> 'h Ecu" where
  "speed_run hal fs w = foldl (\<lambda>w f. HandleSpeedFrame hal f w) w fs"

text \<open>The length of the last run of accepted frames.\<close>

definition good_run :: "bool list \<Rightarrow> nat" where
  "good_run vs = length (takeWhile id (rev vs))"

lemma speed_verdicts_snoc:
  "speed_verdicts s (fs @ [f]) = speed_verdicts s fs @ [speed_valid (foldl speed_next s fs) f]"
  by (induction fs arbitrary: s) simp_all

lemma length_speed_verdicts [simp]: "length (speed_verdicts s fs) = length fs"
  by (induction fs arbitrary: s) simp_all

lemma HandleSpeedFrame_view:
  "s_e2eSpeed (HandleSpeedFrame hal f w) = speed_next (s_e2eSpeed w) f"
  "s_startTick (HandleSpeedFrame hal f w) = s_startTick w" "hfdcan1 (HandleSpeedFrame hal f w) = hfdcan1 w"
  "\<exists>st. s_view (HandleSpeedFrame hal f w) =
     (if speed_valid (s_e2eSpeed w) f
      then accept_frame (osKernelGetTickCount hal (hfdcan1 w)) f ((s_view w)\<lparr>e2e := st\<rparr>)
      else reject_frame ((s_view w)\<lparr>e2e := st\<rparr>))"
  "\<exists>now st. s_view (HandleSpeedFrame hal f w) =
     (if speed_valid (s_e2eSpeed w) f then accept_frame now f ((s_view w)\<lparr>e2e := st\<rparr>)
      else reject_frame ((s_view w)\<lparr>e2e := st\<rparr>))"
  by (auto simp: HandleSpeedFrame_def speed_next_def speed_valid_def Let_def lock_view_def unlock_view_def GetTimeMs_def
      split: prod.split)

lemma speed_run_e2e: "s_e2eSpeed (speed_run hal fs w) = foldl speed_next (s_e2eSpeed w) fs"
  by (induction fs rule: rev_induct) (simp_all add: speed_run_def HandleSpeedFrame_view)

lemma unat_goodStreak:
  "unat (goodStreak v) \<le> 10 \<Longrightarrow> unat (goodStreak (accept_frame now f v)) = min 10 (Suc (unat (goodStreak v)))"
  by (auto simp: accept_frame_def Let_def E2E_HEAL_FRAMES_def word_less_nat_alt unat_Suc_word)

lemma accept_error:
  "e2eError (accept_frame now f v) \<longleftrightarrow> e2eError v \<and> unat (goodStreak v) < 10"
  by (simp add: accept_frame_def Let_def E2E_HEAL_FRAMES_def word_less_nat_alt)

text \<open>The data of the last accepted frame.\<close>

definition accepted :: "E2e_RxState_t \<Rightarrow> CanDrv_Frame_t list \<Rightarrow> CanDrv_Frame_t list" where
  "accepted s fs = map fst (filter snd (zip fs (speed_verdicts s fs)))"

lemma accepted_snoc:
  "accepted s (fs @ [f]) = accepted s fs @ (if speed_valid (foldl speed_next s fs) f then [f] else [])"
  by (simp add: accepted_def speed_verdicts_snoc)

lemma speed_run_view:
  assumes "goodStreak (s_view w) \<le> 10" "\<not> e2eError (s_view w)"
  shows "(e2eError (s_view (speed_run hal fs w)) \<longleftrightarrow>
      False \<in> set (speed_verdicts (s_e2eSpeed w) fs) \<and> good_run (speed_verdicts (s_e2eSpeed w) fs) \<le> 10) \<and>
    unat (goodStreak (s_view (speed_run hal fs w))) =
      min 10 (if False \<in> set (speed_verdicts (s_e2eSpeed w) fs) then good_run (speed_verdicts (s_e2eSpeed w) fs)
              else unat (goodStreak (s_view w)) + length fs)"
proof (induction fs rule: rev_induct)
  case Nil
  then show ?case using assms(1,2) by (simp add: speed_run_def word_le_nat_alt)
next
  case (snoc f fs)
  define w1 where "w1 = speed_run hal fs w"
  have run: "speed_run hal (fs @ [f]) w = HandleSpeedFrame hal f w1"
    by (simp add: speed_run_def w1_def)
  have e: "s_e2eSpeed w1 = foldl speed_next (s_e2eSpeed w) fs" by (simp add: w1_def speed_run_e2e)
  obtain now st where v: "s_view (HandleSpeedFrame hal f w1) =
     (if speed_valid (s_e2eSpeed w1) f then accept_frame now f ((s_view w1)\<lparr>e2e := st\<rparr>)
      else reject_frame ((s_view w1)\<lparr>e2e := st\<rparr>))" using HandleSpeedFrame_view(5) by blast
  show ?case
  proof (cases "speed_valid (s_e2eSpeed w1) f")
    case True
    have "good_run (speed_verdicts (s_e2eSpeed w) fs @ [True]) = Suc (good_run (speed_verdicts (s_e2eSpeed w) fs))"
      by (simp add: good_run_def)
    moreover have "unat (goodStreak (s_view w1)) \<le> 10" using snoc by (simp add: w1_def)
    ultimately show ?thesis
      using snoc True unat_goodStreak [of "(s_view w1)\<lparr>e2e := st\<rparr>" now f]
      by (auto simp: run v speed_verdicts_snoc accept_error simp flip: e w1_def)
  next
    case False
    then show ?thesis by (simp add: run v speed_verdicts_snoc flip: e) (simp add: reject_frame_def good_run_def)
  qed
qed


definition frame_speed :: "CanDrv_Frame_t \<Rightarrow> u16" where
  "frame_speed f = u16_of_bytes (frame_data f ! 0) (frame_data f ! 1)"

lemma speed_run_data:
  "(let v' = s_view (speed_run hal fs w); ok = accepted (s_e2eSpeed w) fs
    in if ok = [] then speedX10 v' = speedX10 (s_view w) \<and> received v' = received (s_view w)
       else speedX10 v' = frame_speed (last ok) \<and> sensorStatus v' = frame_data (last ok) ! 4 \<and> received v')"
proof (induction fs rule: rev_induct)
  case Nil
  then show ?case by (simp add: speed_run_def accepted_def)
next
  case (snoc f fs)
  define w1 where "w1 = speed_run hal fs w"
  have run: "speed_run hal (fs @ [f]) w = HandleSpeedFrame hal f w1"
    by (simp add: speed_run_def w1_def)
  have e: "s_e2eSpeed w1 = foldl speed_next (s_e2eSpeed w) fs" by (simp add: w1_def speed_run_e2e)
  obtain now st where v: "s_view (HandleSpeedFrame hal f w1) =
     (if speed_valid (s_e2eSpeed w1) f then accept_frame now f ((s_view w1)\<lparr>e2e := st\<rparr>)
      else reject_frame ((s_view w1)\<lparr>e2e := st\<rparr>))" using HandleSpeedFrame_view(5) by blast
  show ?case
    using snoc
    by (cases "speed_valid (s_e2eSpeed w1) f")
      (simp_all add: run v accepted_snoc Let_def accept_frame_def reject_frame_def frame_speed_def flip: e w1_def)
qed

text \<open>C21: for any sequence of received speed frames, of any content: the speed and the sensor status
  the ECU works with are those of the last frame its end-to-end check accepted, and rejected
  frames change neither; the speed counts as not plausible exactly when some frame was rejected and
  at most ten frames have been accepted since (so it is the eleventh good frame that heals it).\<close>

theorem Speed_frames_view:
  assumes "ecu_ok w" "\<not> e2eError (s_view w)"
    and "vs = speed_verdicts (s_e2eSpeed w) fs" "ok = accepted (s_e2eSpeed w) fs" "v' = s_view (speed_run hal fs w)"
  shows "(e2eError v' \<longleftrightarrow> False \<in> set vs \<and> good_run vs \<le> 10) \<and>
    (if ok = [] then speedX10 v' = speedX10 (s_view w) \<and> received v' = received (s_view w)
     else speedX10 v' = frame_speed (last ok) \<and> sensorStatus v' = frame_data (last ok) ! 4 \<and> received v')"
  using speed_run_view [of w hal fs] speed_run_data [where hal = hal and fs = fs and w = w] assms
  by (simp add: ecu_ok_def Let_def)

text \<open>A frame with a wrong checksum, then eleven frames of the sender.\<close>

definition demo_frame :: "u8 list \<Rightarrow> CanDrv_Frame_t" where
  "demo_frame bytes = \<lparr>frame_id = CANID_SENSOR_SPEED, frame_dlc = 8, frame_data = bytes\<rparr>"

lemma speed_verdicts_stream:
  "speed_verdicts s (map demo_frame fs) = map E2e_IsValid (e2e_recv (Some s) fs)"
proof (induction fs arbitrary: s)
  case (Cons f fs)
  obtain st s' where "E2e_Check (Some s) (Some f) 8 = (st, Some s')"
    using E2e_Check_Some by blast
  with Cons show ?case
    by (simp add: speed_valid_def speed_next_def demo_frame_def E2E_FRAME_LEN_def)
qed simp

definition demo_synced :: "u32 Ecu" where
  "demo_synced = demo_ecu\<lparr>s_e2eSpeed := \<lparr>lastCounter = 15, synced = True\<rparr>\<rparr>"

lemma demo_synced_ok: "ecu_ok demo_synced" "\<not> e2eError (s_view demo_synced)"
  using demo_ecu_ok by (simp_all add: demo_synced_def ecu_ok_def) (simp add: demo_ecu_def demo_view_def)

definition demo_repair :: "nat \<Rightarrow> CanDrv_Frame_t list" where
  "demo_repair n = (demo_frame (replicate 8 0))\<lparr>frame_dlc := 7\<rparr> # map demo_frame (e2e_send 0 (replicate n (replicate 8 0)))"

theorem Speed_frames_view_witness:
  "e2eError (s_view (speed_run demo_hal (demo_repair 10) demo_synced)) \<and>
   \<not> e2eError (s_view (speed_run demo_hal (demo_repair 11) demo_synced))"
proof -
  have "speed_verdicts (s_e2eSpeed demo_synced) (demo_repair n) = False # replicate n True" for n
    using e2e_recv_synced [of "replicate n (replicate 8 0)" "s_e2eSpeed demo_synced" 0]
    by (simp add: demo_repair_def speed_verdicts_stream)
      (simp add: demo_synced_def speed_valid_def speed_next_def demo_frame_def E2e_Check_def E2E_FRAME_LEN_def
        E2e_IsValid_def)
  moreover have "good_run (False # replicate n True) = n" for n
    by (simp add: good_run_def takeWhile_append)
  ultimately show ?thesis
    using Speed_frames_view [OF demo_synced_ok refl refl refl, of demo_hal "demo_repair 10"]
      Speed_frames_view [OF demo_synced_ok refl refl refl, of demo_hal "demo_repair 11"]
    by simp
qed

subsection \<open>The status frame\<close>

lemma foldl_mask_bit:
  "bit (foldl (\<lambda>m i. if f ! i then m OR push_bit i 1 else m) (m :: u8) xs) n \<longleftrightarrow>
     bit m n \<or> n < 8 \<and> n \<in> set xs \<and> f ! n"
  by (induction xs arbitrary: m) (auto simp: bit_simps)

lemma FaultMask_bit: "bit (ControlApp_GetFaultMask w) i \<longleftrightarrow> i < 5 \<and> s_faults w ! i"
  by (auto simp: ControlApp_GetFaultMask_def FAULT_COUNT_def foldl_mask_bit)


lemma CanSend_trace:
  assumes "ControlApp_CanSend hal i (Some bytes) 8 w = (ok, w')" "length bytes = 8"
  shows "can_sent w' = (if ok then can_sent w @ [(i, bytes)] else can_sent w)"
  using diag_SendFrame_log [of hal i bytes w ok w'] assms by (simp add: diag_SendFrame_def)

text \<open>C37: the status frame the ECU broadcasts, when the controller takes it, carries in its first four bytes the
  fault mask (bit \<open>i\<close> is fault \<open>i\<close>), the number of confirmed trouble codes and the duty, most
  significant byte first; and a receiver that has seen the previous status frame accepts it with
  \<open>E2E_OK\<close> and stays in step for the next one.\<close>

theorem Status_frame:
  assumes "ecu_ok w" "SendStatusFrame hal duty w = w'" "length (can_sent w') > length (can_sent w)"
    and "synced s" "lastCounter s = (status_counter w - 1) AND 0x0F"
  shows "\<exists>bytes s'. can_sent w' = can_sent w @ [(0x200, bytes)] \<and>
     (\<forall>i < 8. bit (bytes ! 0) i \<longleftrightarrow> i < 5 \<and> s_faults w ! i) \<and>
     unat (bytes ! 1) = length (matching DTC_STATUS_CDTC (dtcs w)) \<and>
     u16_of_bytes (bytes ! 2) (bytes ! 3) = duty \<and>
     E2e_Check (Some s) (Some bytes) 8 = (E2E_OK, Some s') \<and>
     lastCounter s' = (status_counter w' - 1) AND 0x0F"
proof -
  define p where "p = (replicate 8 0)[0 := ControlApp_GetFaultMask w, 1 :=
      of_nat (length (matching DTC_STATUS_CDTC (dtcs w))), 2 := byte_hi duty, 3 := byte_lo duty]"
  have p: "length p = 8" by (simp add: p_def)
  obtain f c' where f: "E2e_Protect (Some p) (Some (status_counter w)) = Some (f, c')"
    using p by (rule E2e_Protect_Some) blast
  note chk = E2e_Check_next [OF f p assms(4,5)]
  define w2 where "w2 = w\<lparr>status_counter := c'\<rparr>"
  have "snd (ControlApp_CanSend hal 0x200 (Some f) 8 w2) = w'"
    using assms(2) by (auto simp: SendStatusFrame_def ConfirmedDtcCount_same [OF assms(1)] Let_def w2_def
        CANID_CONTROL_STATUS_def CONTROL_STATUS_DLC_def f [unfolded p_def, simplified])
  then obtain ok where s: "ControlApp_CanSend hal 0x200 (Some f) 8 w2 = (ok, w')"
    by (metis prod.collapse)
  have "can_sent w2 = can_sent w" by (simp add: w2_def can_sent_def)
  then have sent: "can_sent w' = can_sent w @ [(0x200, f)]"
    using CanSend_trace [OF s chk(4)] assms(3) by (auto split: if_splits)
  have counter: "status_counter w' = c'"
    using CanSend_more [OF s] by (cases w'; cases w) (simp add: w2_def)
  have "f ! i = p ! i" if "i < 6" for i
    using chk(5) that by (metis nth_take)
  then have "f ! 0 = ControlApp_GetFaultMask w" "f ! 1 = of_nat (length (matching DTC_STATUS_CDTC (dtcs w)))"
    "f ! 2 = byte_hi duty" "f ! 3 = byte_lo duty" by (simp_all add: p_def)
  moreover have "length (matching DTC_STATUS_CDTC (dtcs w)) \<le> 16"
    using assms(1) by (intro matching_bound) (simp add: ecu_ok_def ecu_dtcs_def dtc_ok_def)
  ultimately show ?thesis
    using sent chk(1,3) counter by (auto simp: FaultMask_bit unat_of_nat intro!: exI [of _ f])
qed

theorem Status_frame_witness:
  "\<exists>bytes. can_sent (SendStatusFrame demo_hal 400 demo_ecu) = [(0x200, bytes)] \<and>
     u16_of_bytes (bytes ! 2) (bytes ! 3) = 400"
proof -
  have "\<exists>w'. ControlApp_CanSend demo_hal 0x200 (Some b) 8 w = (True, w')" for b and w :: "u32 Ecu"
    by (simp add: ControlApp_CanSend_def CANDRV_MAX_DLC_def control_CanDrv_Write_def CANDRV_MAX_STD_ID_def
        hal_call_def demo_hal_def Let_def)
  moreover obtain f c where "E2e_Protect (Some ((replicate 8 0)[0 := ControlApp_GetFaultMask demo_ecu, 1 :=
      of_nat (length (matching DTC_STATUS_CDTC (dtcs demo_ecu))), 2 := byte_hi 400, 3 := byte_lo 400]))
      (Some (status_counter demo_ecu)) = Some (f, c)" "length f = 8"
    by (rule E2e_Protect_Some) auto
  ultimately obtain w' where s: "ControlApp_CanSend demo_hal 0x200 (Some f) 8 (demo_ecu\<lparr>status_counter := c\<rparr>) = (True, w')"
    and len: "length f = 8" and w': "SendStatusFrame demo_hal 400 demo_ecu = w'"
    by (fastforce simp: SendStatusFrame_def ConfirmedDtcCount_same [OF demo_ecu_ok] Let_def
        CANID_CONTROL_STATUS_def CONTROL_STATUS_DLC_def)
  have "can_sent (demo_ecu\<lparr>status_counter := c\<rparr>) = can_sent demo_ecu" by (simp add: can_sent_def)
  then have "length (can_sent (SendStatusFrame demo_hal 400 demo_ecu)) > length (can_sent demo_ecu)"
    using CanSend_trace [OF s len] w' by simp
  moreover have "can_sent demo_ecu = []" "status_counter demo_ecu = 0"
    by (simp_all add: demo_ecu_def can_sent_def)
  ultimately show ?thesis
    using Status_frame [OF demo_ecu_ok refl, of demo_hal 400 "\<lparr>lastCounter = 15, synced = True\<rparr>"] by auto
qed

subsection \<open>The button\<close>

interpretation control_button: debounce
  "\<lambda>h w. control_HandleButton hal (w\<lparr>hfdcan1 := h\<rparr>)" "\<lambda>h. \<not> user1_pin hal h"
  button_stableTicks button_latched s_localInject Not
  for hal :: "('h, 'n) EcuHal_scheme"
  by unfold_locales
    (auto simp: control_HandleButton_def IoDrv_IsUserButtonPressed_def BUTTON_DEBOUNCE_TICKS_def)

lemma Not_funpow: "(Not ^^ n) b \<longleftrightarrow> (b \<noteq> odd n)"
  by (induction n) auto

text \<open>Over any sequence of polls of the pin, from a released button, the injection switch has been
  toggled once for every fourth consecutive poll that found the button pressed: contact bounce
  shorter than that and a button held down change nothing more.\<close>

theorem Button_toggles_injection:
  assumes "button_stableTicks w = 0" "\<not> button_latched w"
  shows "s_localInject (fold (\<lambda>h w. control_HandleButton hal (w\<lparr>hfdcan1 := h\<rparr>)) hs w)
       = (s_localInject w \<noteq> odd (presses 0 (map (\<lambda>h. \<not> user1_pin hal h) hs)))"
  using control_button.polls [of 0 w hal hs] assms by (simp add: control_button.after_def Not_funpow)

theorem Button_toggles_injection_witness:
  "s_localInject (fold (\<lambda>h w. control_HandleButton (demo_hal\<lparr>user1_pin := \<lambda>h. h = 0\<rparr>) (w\<lparr>hfdcan1 := h\<rparr>))
     [1, 1, 0, 1, 1, 1, 1, 1, 1, 0] demo_ecu)"
  using Button_toggles_injection [of demo_ecu "demo_hal\<lparr>user1_pin := \<lambda>h. h = 0\<rparr>" "[1, 1, 0, 1, 1, 1, 1, 1, 1, 0]"]
  by (simp add: demo_ecu_def)

end
