(* ===== verification/SensorMcal.thy ===== *)
theory SensorMcal
  imports CanDrv
begin

section \<open>Drivers of the Sensor ECU (sensor_ecu/Core/Mcal)\<close>

text \<open>
  The CAN driver on FDCAN1 of the STM32G431, and the ADC, GPIO, time base and UART drivers. The
  HAL calls and registers they use are the fields of \<open>SensorHal\<close>.
\<close>

record 'h SensorHal = "'h FdcanHal" +
  HAL_ADCEx_Calibration_Start :: "'h \<Rightarrow> HAL_Status \<times> 'h"
  HAL_ADC_Start :: "'h \<Rightarrow> HAL_Status \<times> 'h"
  HAL_ADC_PollForConversion :: "u32 \<Rightarrow> 'h \<Rightarrow> HAL_Status \<times> 'h"
  HAL_ADC_GetValue :: "'h \<Rightarrow> u32"
  HAL_ADC_Stop :: "'h \<Rightarrow> HAL_Status \<times> 'h"
  write_led :: "bool \<Rightarrow> 'h \<Rightarrow> 'h"
  toggle_led :: "'h \<Rightarrow> 'h"
  button_pin :: "'h \<Rightarrow> bool"
  HAL_GetTick :: "'h \<Rightarrow> u32"
  uart_overrun :: "'h \<Rightarrow> bool"
  uart_clear_overrun :: "'h \<Rightarrow> 'h"
  uart_rxne :: "'h \<Rightarrow> bool"
  uart_RDR :: "'h \<Rightarrow> u32 \<times> 'h"

subsection \<open>CAN driver (sensor_ecu/Core/Mcal/can_drv.c)\<close>

definition sensor_IT_BUS_OFF :: u32 where "sensor_IT_BUS_OFF = 0x00080000"

definition sensor_ConfigureFilters ::
  "('h, 'n) FdcanHal_scheme \<Rightarrow> ('h, 'm) CanDrv_scheme \<Rightarrow> CanDrv_Status_t \<times> ('h, 'm) CanDrv_scheme" where
  "sensor_ConfigureFilters hal s =
     (let f = \<lparr>filterIdType = FDCAN_STANDARD_ID, FilterIndex = 0, FilterType = FDCAN_FILTER_RANGE,
               FilterConfig = FDCAN_FILTER_TO_RXFIFO0, FilterID1 = 0x000,
               FilterID2 = ucast CANDRV_MAX_STD_ID\<rparr>;
          (st, s1) = hal_call (HAL_FDCAN_ConfigFilter hal f) s
      in if st \<noteq> HAL_OK then (CANDRV_ERROR, s1)
         else
           (let (st2, s2) = hal_call (HAL_FDCAN_ConfigGlobalFilter hal FDCAN_REJECT FDCAN_REJECT
                                        FDCAN_REJECT_REMOTE FDCAN_REJECT_REMOTE) s1
            in if st2 \<noteq> HAL_OK then (CANDRV_ERROR, s2) else (CANDRV_OK, s2)))"

definition sensor_CanDrv_Init ::
  "('h, 'n) FdcanHal_scheme \<Rightarrow> CanDrv_Mode_t \<Rightarrow> ('h, 'm) CanDrv_scheme \<Rightarrow>
   CanDrv_Status_t \<times> ('h, 'm) CanDrv_scheme" where
  "sensor_CanDrv_Init hal mode s =
     (let (st, s1) =
            (if mode = CANDRV_MODE_INTERNAL_LOOPBACK then
               (let s0 = s\<lparr>hfdcan1_Init := (hfdcan1_Init s)\<lparr>initMode := FDCAN_MODE_INTERNAL_LOOPBACK\<rparr>\<rparr>
                in hal_call (HAL_FDCAN_Init hal (hfdcan1_Init s0)) s0)
             else (HAL_OK, s))
      in if st \<noteq> HAL_OK then (CANDRV_ERROR, s1)
         else
           (let (cs, s2) = sensor_ConfigureFilters hal s1 in
            if cs \<noteq> CANDRV_OK then (CANDRV_ERROR, s2)
            else
              (let (st3, s3) = hal_call (HAL_FDCAN_ActivateNotification hal
                  (FDCAN_IT_RX_FIFO0_NEW_MESSAGE OR sensor_IT_BUS_OFF) 0) s2 in
               if st3 \<noteq> HAL_OK then (CANDRV_ERROR, s3)
               else
                 (let (st4, s4) = hal_call (HAL_FDCAN_Start hal) s3 in
                  if st4 \<noteq> HAL_OK then (CANDRV_ERROR, s4) else (CANDRV_OK, s4)))))"

definition sensor_CanDrv_Write ::
  "('h, 'n) FdcanHal_scheme \<Rightarrow> CanDrv_Frame_t option \<Rightarrow> ('h, 'm) CanDrv_scheme \<Rightarrow>
   CanDrv_Status_t \<times> ('h, 'm) CanDrv_scheme" where
  "sensor_CanDrv_Write hal f s =
     (case f of
        None \<Rightarrow> (CANDRV_ERROR, s)
      | Some frame \<Rightarrow>
          if frame_dlc frame > CANDRV_MAX_DLC \<or> frame_id frame > CANDRV_MAX_STD_ID then (CANDRV_ERROR, s)
          else if HAL_FDCAN_GetTxFifoFreeLevel hal (hfdcan1 s) = 0 then (CANDRV_TX_FULL, count_dropped s)
          else
            (let header = frame_header frame (ucast (frame_dlc frame));
                 (st, s1) = hal_call (HAL_FDCAN_AddMessageToTxFifoQ hal header (frame_data frame)) s
             in if st \<noteq> HAL_OK then (CANDRV_ERROR, count_dropped s1)
                else (CANDRV_OK, count_queued frame s1)))"

definition sensor_CanDrv_MainFunction ::
  "('h, 'n) FdcanHal_scheme \<Rightarrow> ('h, 'm) CanDrv_scheme \<Rightarrow> ('h, 'm) CanDrv_scheme" where
  "sensor_CanDrv_MainFunction hal s =
     (if \<not> s_busOffPending s then s
      else
        (let s1 = s\<lparr>s_busOffTimer := s_busOffTimer s + 1\<rparr> in
         if s_busOffTimer s1 \<ge> BUSOFF_RECOVERY_DELAY_TICKS then
           s1\<lparr>s_busOffTimer := 0, s_busOffPending := False,
              hfdcan1 := write_CCCR hal (read_CCCR hal (hfdcan1 s1) AND NOT FDCAN_CCCR_INIT) (hfdcan1 s1)\<rparr>
         else s1))"

definition sensor_CanDrv_IsBusOff :: "('h, 'n) FdcanHal_scheme \<Rightarrow> ('h, 'm) CanDrv_scheme \<Rightarrow> bool" where
  "sensor_CanDrv_IsBusOff hal s = (read_PSR hal (hfdcan1 s) AND FDCAN_PSR_BO \<noteq> 0)"

definition sensor_CanDrv_GetStats ::
  "CanDrv_Stats_t option \<Rightarrow> ('h, 'm) CanDrv_scheme \<Rightarrow> CanDrv_Stats_t option" where
  "sensor_CanDrv_GetStats stats s =
     (case stats of
        None \<Rightarrow> None
      | Some st \<Rightarrow> Some (st\<lparr>txQueued := txQueued (s_stats s), txDropped := txDropped (s_stats s),
                           rxCount := rxCount (s_stats s), busOffCount := busOffCount (s_stats s)\<rparr>))"

definition sensor_rx_frame :: "FDCAN_RxHeader \<Rightarrow> u8 list \<Rightarrow> CanDrv_Frame_t" where
  "sensor_rx_frame header bytes =
     \<lparr>frame_id = ucast (rxIdentifier header),
      frame_dlc = (if rxDataLength header > ucast CANDRV_MAX_DLC then CANDRV_MAX_DLC
                   else ucast (rxDataLength header)),
      frame_data = bytes\<rparr>"

text \<open>\<open>None\<close>: the FIFO never empties (the hardware keeps filling it).\<close>

partial_function (option) sensor_RxLoop ::
  "('h, 'n) FdcanHal_scheme \<Rightarrow>
   (CanDrv_Frame_t \<Rightarrow> ('h, 'm) CanDrv_scheme \<Rightarrow> ('h, 'm) CanDrv_scheme) option \<Rightarrow>
   ('h, 'm) CanDrv_scheme \<Rightarrow> ('h, 'm) CanDrv_scheme option" where
  "sensor_RxLoop hal rxIndication s =
     (if HAL_FDCAN_GetRxFifoFillLevel hal (hfdcan1 s) > 0 then
        (let (st, header, bytes, h) = HAL_FDCAN_GetRxMessage hal (hfdcan1 s);
             s1 = s\<lparr>hfdcan1 := h\<rparr>
         in if st \<noteq> HAL_OK then Some s1
            else
              (let s2 = count_received s1;
                   s3 = (case rxIndication of None \<Rightarrow> s2 | Some f \<Rightarrow> f (sensor_rx_frame header bytes) s2)
               in sensor_RxLoop hal rxIndication s3))
      else Some s)"

definition sensor_RxFifo0Callback ::
  "('h, 'n) FdcanHal_scheme \<Rightarrow>
   (CanDrv_Frame_t \<Rightarrow> ('h, 'm) CanDrv_scheme \<Rightarrow> ('h, 'm) CanDrv_scheme) option \<Rightarrow> u32 \<Rightarrow>
   ('h, 'm) CanDrv_scheme \<Rightarrow> ('h, 'm) CanDrv_scheme option" where
  "sensor_RxFifo0Callback hal rxIndication its s =
     (if its AND FDCAN_IT_RX_FIFO0_NEW_MESSAGE = 0 then Some s else sensor_RxLoop hal rxIndication s)"

definition sensor_ErrorStatusCallback ::
  "u32 \<Rightarrow> ('h, 'm) CanDrv_scheme \<Rightarrow> ('h, 'm) CanDrv_scheme" where
  "sensor_ErrorStatusCallback its s =
     (if its AND sensor_IT_BUS_OFF \<noteq> 0 then
        s\<lparr>s_stats := (s_stats s)\<lparr>busOffCount := busOffCount (s_stats s) + 1\<rparr>,
          s_busOffTimer := 0, s_busOffPending := True\<rparr>
      else s)"

subsection \<open>ADC (adc_drv.c)\<close>

definition ADCDRV_MAX_VALUE :: u32 where "ADCDRV_MAX_VALUE = 4095"
definition ADC_POLL_TIMEOUT_MS :: u32 where "ADC_POLL_TIMEOUT_MS = 1"

datatype AdcDrv_Status_t = ADCDRV_OK | ADCDRV_ERROR

definition AdcDrv_Init ::
  "('h, 'n) SensorHal_scheme \<Rightarrow> ('h, 'm) CanDrv_scheme \<Rightarrow> AdcDrv_Status_t \<times> ('h, 'm) CanDrv_scheme" where
  "AdcDrv_Init hal s =
     (let (st, s1) = hal_call (HAL_ADCEx_Calibration_Start hal) s
      in if st \<noteq> HAL_OK then (ADCDRV_ERROR, s1) else (ADCDRV_OK, s1))"

text \<open>The output parameter is the value read; it is unchanged when the read fails.\<close>

definition AdcDrv_Read ::
  "('h, 'n) SensorHal_scheme \<Rightarrow> u16 option \<Rightarrow> ('h, 'm) CanDrv_scheme \<Rightarrow>
   AdcDrv_Status_t \<times> u16 option \<times> ('h, 'm) CanDrv_scheme" where
  "AdcDrv_Read hal val s =
     (case val of
        None \<Rightarrow> (ADCDRV_ERROR, None, s)
      | Some v \<Rightarrow>
          (let (st, s1) = hal_call (HAL_ADC_Start hal) s in
           if st = HAL_OK then
             (let (st2, s2) = hal_call (HAL_ADC_PollForConversion hal ADC_POLL_TIMEOUT_MS) s1;
                  (status, v') = (if st2 = HAL_OK then (ADCDRV_OK, ucast (HAL_ADC_GetValue hal (hfdcan1 s2)))
                                  else (ADCDRV_ERROR, v));
                  (_, s3) = hal_call (HAL_ADC_Stop hal) s2
              in (status, Some v', s3))
           else (ADCDRV_ERROR, Some v, s1)))"

subsection \<open>Digital I/O (gpio_drv.c)\<close>

definition GpioDrv_SetLed ::
  "('h, 'n) SensorHal_scheme \<Rightarrow> bool \<Rightarrow> ('h, 'm) CanDrv_scheme \<Rightarrow> ('h, 'm) CanDrv_scheme" where
  "GpioDrv_SetLed hal on s = s\<lparr>hfdcan1 := write_led hal on (hfdcan1 s)\<rparr>"

definition GpioDrv_ToggleLed ::
  "('h, 'n) SensorHal_scheme \<Rightarrow> ('h, 'm) CanDrv_scheme \<Rightarrow> ('h, 'm) CanDrv_scheme" where
  "GpioDrv_ToggleLed hal s = s\<lparr>hfdcan1 := toggle_led hal (hfdcan1 s)\<rparr>"

text \<open>\<open>button_pin\<close> is the level of the pin; the button is active high.\<close>

definition GpioDrv_IsButtonPressed ::
  "('h, 'n) SensorHal_scheme \<Rightarrow> ('h, 'm) CanDrv_scheme \<Rightarrow> bool" where
  "GpioDrv_IsButtonPressed hal s = button_pin hal (hfdcan1 s)"

subsection \<open>Time base and UART (time_drv.c, uart_drv.c)\<close>

definition TimeDrv_GetMs :: "('h, 'n) SensorHal_scheme \<Rightarrow> ('h, 'm) CanDrv_scheme \<Rightarrow> u32" where
  "TimeDrv_GetMs hal s = HAL_GetTick hal (hfdcan1 s)"

text \<open>The character read, if any; the caller's pointer is not null.\<close>

definition UartDrv_ReadChar ::
  "('h, 'n) SensorHal_scheme \<Rightarrow> ('h, 'm) CanDrv_scheme \<Rightarrow> u8 option \<times> ('h, 'm) CanDrv_scheme" where
  "UartDrv_ReadChar hal s =
     (let s1 = (if uart_overrun hal (hfdcan1 s)
                then s\<lparr>hfdcan1 := uart_clear_overrun hal (hfdcan1 s)\<rparr> else s)
      in if uart_rxne hal (hfdcan1 s1) then
           (let (v, h) = uart_RDR hal (hfdcan1 s1) in (Some (ucast (v AND 0xFF)), s1\<lparr>hfdcan1 := h\<rparr>))
         else (None, s1))"

end
