(* ===== verification/SensorApp.thy ===== *)
theory SensorApp
  imports SensorMcal E2e Printf IsoTp
begin

section \<open>Application of the Sensor ECU (sensor_ecu/Core/App/sensor_app.c)\<close>

text \<open>
  Sampling and filtering of the speed sensor, the fault injection button, the cyclic frames.
  The static variables of \<open>sensor_app.c\<close> and \<open>tester_app.c\<close> are the fields of \<open>Sensor\<close> (the
  tester's ISO-TP link is kept beside it); the output of \<open>printf\<close> is the list \<open>uart\<close>.
\<close>

definition TASK_PERIOD_MS :: u32 where "TASK_PERIOD_MS = 10"
definition ALIVE_PERIOD_TICKS :: u32 where "ALIVE_PERIOD_TICKS = SENSOR_ALIVE_CYCLE_MS div TASK_PERIOD_MS"
definition sensor_LOG_PERIOD_TICKS :: u32 where "sensor_LOG_PERIOD_TICKS = 1000 div TASK_PERIOD_MS"
definition TICKS_PER_SECOND :: u32 where "TICKS_PER_SECOND = 1000 div TASK_PERIOD_MS"
definition LED_SLOW_TOGGLE_TICKS :: u32 where "LED_SLOW_TOGGLE_TICKS = 50"
definition LED_FAST_TOGGLE_TICKS :: u32 where "LED_FAST_TOGGLE_TICKS = 10"
definition sensor_BUTTON_DEBOUNCE_TICKS :: u8 where "sensor_BUTTON_DEBOUNCE_TICKS = 3"
definition FILTER_SIZE :: u8 where "FILTER_SIZE = 8"
definition FILTER_SHIFT :: nat where "FILTER_SHIFT = 3"
definition FAULT_SPEED_OUT_OF_RANGE :: u16 where "FAULT_SPEED_OUT_OF_RANGE = 3000"

definition SENSOR_APP_CAN_LOOPBACK :: bool where "SENSOR_APP_CAN_LOOPBACK = False"

datatype FaultMode_t = FAULT_NONE | FAULT_SILENT | FAULT_OUT_OF_RANGE

fun fault_mode_number :: "FaultMode_t \<Rightarrow> nat" where
  "fault_mode_number FAULT_NONE = 0"
| "fault_mode_number FAULT_SILENT = 1"
| "fault_mode_number FAULT_OUT_OF_RANGE = 2"

record Step_t =
  sq_name :: string
  sq_req :: "u8 list"
  sq_reqLen :: u8
  sq_expect :: "u8 list option"
  sq_expectLen :: u8
  sq_delayMs :: u16
  sq_functional :: bool

datatype State_t = SQ_IDLE | SQ_DELAY | SQ_SEND | SQ_WAIT

record 'h Sensor = "'h CanDrv" +
  s_filterBuf :: "u16 list"
  s_filterSum :: u32
  s_filterIdx :: u8
  s_adcFiltered :: u16
  s_adcError :: bool
  s_faultMode :: FaultMode_t
  s_btnStableTicks :: u8
  s_btnLatched :: bool
  s_speedAlive :: u8
  s_aliveAlive :: u8
  s_tick :: u32
  s_rxSpeedFrames :: u32
  uart :: "string list"
  s_ring :: "CanDrv_Frame_t list"
  s_head :: u8
  s_tail :: u8
  s_ringOverflow :: u32
  s_resp :: "u8 list"
  s_respLen :: u16
  s_gotResp :: bool
  s_seq :: "Step_t list"
  s_seqLen :: u8
  s_step :: u8
  s_passed :: u8
  s_state :: State_t
  s_timer :: u32

definition printf :: "string \<Rightarrow> 'h Sensor \<Rightarrow> 'h Sensor" where
  "printf msg w = w\<lparr>uart := uart w @ [msg]\<rparr>"

subsection \<open>Helpers\<close>

definition PutU16Be :: "nat \<Rightarrow> u16 \<Rightarrow> u8 list \<Rightarrow> u8 list" where
  "PutU16Be i v dst = dst[i := ucast (drop_bit 8 v), Suc i := ucast (v AND 0xFF)]"

definition PutU32Be :: "nat \<Rightarrow> u32 \<Rightarrow> u8 list \<Rightarrow> u8 list" where
  "PutU32Be i v dst =
     dst[i := ucast (drop_bit 24 v), i + 1 := ucast (drop_bit 16 v AND 0xFF),
         i + 2 := ucast (drop_bit 8 v AND 0xFF), i + 3 := ucast (v AND 0xFF)]"

definition FilterReset :: "u16 \<Rightarrow> 'h Sensor \<Rightarrow> 'h Sensor" where
  "FilterReset sample w =
     w\<lparr>s_filterBuf := replicate (unat FILTER_SIZE) sample,
       s_filterSum := ucast sample * ucast FILTER_SIZE, s_filterIdx := 0\<rparr>"

definition FilterUpdate :: "u16 \<Rightarrow> 'h Sensor \<Rightarrow> u16 \<times> 'h Sensor" where
  "FilterUpdate sample w =
     (let w1 = w\<lparr>s_filterSum := s_filterSum w - ucast (s_filterBuf w ! unat (s_filterIdx w))\<rparr>;
          w2 = w1\<lparr>s_filterSum := s_filterSum w1 + ucast sample\<rparr>;
          w3 = w2\<lparr>s_filterBuf := (s_filterBuf w2)[unat (s_filterIdx w2) := sample]\<rparr>;
          w4 = w3\<lparr>s_filterIdx := (s_filterIdx w3 + 1) AND (FILTER_SIZE - 1)\<rparr>
      in (ucast (drop_bit FILTER_SHIFT (s_filterSum w4)), w4))"

definition AdcToSpeedX10 :: "u16 \<Rightarrow> u16" where
  "AdcToSpeedX10 adc =
     ucast ((ucast adc * SENSOR_SPEED_MAX_X10 + ADCDRV_MAX_VALUE div 2) div ADCDRV_MAX_VALUE)"

definition SampleInput :: "('h, 'n) SensorHal_scheme \<Rightarrow> 'h Sensor \<Rightarrow> 'h Sensor" where
  "SampleInput hal w =
     (let (st, raw, w1) = AdcDrv_Read hal (Some 0) w in
      if st = ADCDRV_OK then
        (let w2 = w1\<lparr>s_adcError := False\<rparr>; (avg, w3) = FilterUpdate (the raw) w2
         in w3\<lparr>s_adcFiltered := avg\<rparr>)
      else w1\<lparr>s_adcError := True\<rparr>)"

fun next_fault_mode :: "FaultMode_t \<Rightarrow> FaultMode_t" where
  "next_fault_mode FAULT_NONE = FAULT_SILENT"
| "next_fault_mode FAULT_SILENT = FAULT_OUT_OF_RANGE"
| "next_fault_mode FAULT_OUT_OF_RANGE = FAULT_NONE"

definition sensor_HandleButton :: "('h, 'n) SensorHal_scheme \<Rightarrow> 'h Sensor \<Rightarrow> 'h Sensor" where
  "sensor_HandleButton hal w =
     (if GpioDrv_IsButtonPressed hal w then
        (if s_btnStableTicks w < sensor_BUTTON_DEBOUNCE_TICKS
         then w\<lparr>s_btnStableTicks := s_btnStableTicks w + 1\<rparr>
         else if \<not> s_btnLatched w then
           (let w1 = w\<lparr>s_btnLatched := True, s_faultMode := next_fault_mode (s_faultMode w)\<rparr>
            in printf (''[SENSOR] fault mode -> '' @ dec (fault_mode_number (s_faultMode w1)) @ crlf) w1)
         else w)
      else w\<lparr>s_btnStableTicks := 0, s_btnLatched := False\<rparr>)"

definition frame0 :: CanDrv_Frame_t where
  "frame0 = \<lparr>frame_id = 0, frame_dlc = 0, frame_data = replicate 8 0\<rparr>"

definition speed_payload :: "u16 \<Rightarrow> u16 \<Rightarrow> u8 \<Rightarrow> u8 list" where
  "speed_payload speed adc status =
     (PutU16Be 2 adc (PutU16Be 0 speed (replicate 8 0)))[4 := status]"

definition SendSpeedFrame :: "('h, 'n) SensorHal_scheme \<Rightarrow> 'h Sensor \<Rightarrow> 'h Sensor" where
  "SendSpeedFrame hal w =
     (if s_faultMode w = FAULT_SILENT then w
      else
        (let speed = (if s_faultMode w = FAULT_OUT_OF_RANGE then FAULT_SPEED_OUT_OF_RANGE
                      else AdcToSpeedX10 (s_adcFiltered w));
             status = (if s_faultMode w \<noteq> FAULT_NONE then SENSOR_STATUS_FAULT_INJ else 0)
                      OR (if s_adcError w then SENSOR_STATUS_ADC_ERROR else 0);
             (bytes, counter) = the (E2e_Protect (Some (speed_payload speed (s_adcFiltered w) status))
                                  (Some (s_speedAlive w)));
             w1 = w\<lparr>s_speedAlive := counter\<rparr>
         in snd (sensor_CanDrv_Write hal
              (Some (frame0\<lparr>frame_id := CANID_SENSOR_SPEED, frame_dlc := SENSOR_SPEED_DLC,
                            frame_data := bytes\<rparr>)) w1)))"

definition SendAliveFrame :: "('h, 'n) SensorHal_scheme \<Rightarrow> 'h Sensor \<Rightarrow> 'h Sensor" where
  "SendAliveFrame hal w =
     (let stats = the (sensor_CanDrv_GetStats
            (Some \<lparr>txQueued = 0, txDropped = 0, rxCount = 0, busOffCount = 0\<rparr>) w);
          data = (PutU32Be 1 (s_tick w div TICKS_PER_SECOND)
                    ((replicate 8 0)[0 := if s_faultMode w = FAULT_NONE then 0 else 1]))
                 [5 := if busOffCount stats > 255 then 255 else ucast (busOffCount stats)];
          (bytes, counter) = the (E2e_Protect (Some data) (Some (s_aliveAlive w)));
          w1 = w\<lparr>s_aliveAlive := counter\<rparr>
      in snd (sensor_CanDrv_Write hal
           (Some (frame0\<lparr>frame_id := CANID_SENSOR_ALIVE, frame_dlc := SENSOR_ALIVE_DLC,
                         frame_data := bytes\<rparr>)) w1))"

definition UpdateLed :: "('h, 'n) SensorHal_scheme \<Rightarrow> 'h Sensor \<Rightarrow> 'h Sensor" where
  "UpdateLed hal w =
     (let period = (if s_faultMode w = FAULT_NONE then LED_SLOW_TOGGLE_TICKS else LED_FAST_TOGGLE_TICKS)
      in if s_tick w mod period = 0 then GpioDrv_ToggleLed hal w else w)"

definition sensor_LogStatus :: "'h Sensor \<Rightarrow> 'h Sensor" where
  "sensor_LogStatus w =
     (let speed = AdcToSpeedX10 (s_adcFiltered w);
          stats = the (sensor_CanDrv_GetStats
            (Some \<lparr>txQueued = 0, txDropped = 0, rxCount = 0, busOffCount = 0\<rparr>) w)
      in printf (''[SENSOR] speed='' @ tenths (unat speed) @ '' km/h adc='' @ dec (unat (s_adcFiltered w))
           @ '' mode='' @ dec (fault_mode_number (s_faultMode w)) @ '' | tx='' @ dec (unat (txQueued stats))
           @ '' drop='' @ dec (unat (txDropped stats)) @ '' rx='' @ dec (unat (rxCount stats))
           @ '' rx100='' @ dec (unat (s_rxSpeedFrames w)) @ '' busoff='' @ dec (unat (busOffCount stats)) @ crlf) w)"

subsection \<open>Public interface\<close>

definition SensorApp_Init :: "('h, 'n) SensorHal_scheme \<Rightarrow> 'h Sensor \<Rightarrow> bool \<times> 'h Sensor" where
  "SensorApp_Init hal w =
     (let mode = (if SENSOR_APP_CAN_LOOPBACK then CANDRV_MODE_INTERNAL_LOOPBACK else CANDRV_MODE_NORMAL);
          w1 = GpioDrv_SetLed hal False w;
          (ad, w2) = AdcDrv_Init hal w1
      in if ad \<noteq> ADCDRV_OK then (False, w2)
         else
           (let (_, first, w3) = AdcDrv_Read hal (Some 0) w2;
                w4 = (FilterReset (the first) w3)\<lparr>s_adcFiltered := the first\<rparr>;
                (can, w5) = sensor_CanDrv_Init hal mode w4
            in if can \<noteq> CANDRV_OK then (False, w5)
               else
                 (True, printf (crlf @ ''[SENSOR] start, CAN ''
                    @ (if SENSOR_APP_CAN_LOOPBACK then ''INTERNAL LOOPBACK'' else ''NORMAL'')
                    @ '', 500 kbit/s'' @ crlf) w5)))"

definition SensorApp_Task10ms :: "('h, 'n) SensorHal_scheme \<Rightarrow> 'h Sensor \<Rightarrow> 'h Sensor" where
  "SensorApp_Task10ms hal w =
     (let w1 = w\<lparr>s_tick := s_tick w + 1\<rparr>;
          w2 = SendSpeedFrame hal (SampleInput hal (sensor_HandleButton hal w1));
          w3 = (if s_tick w2 mod ALIVE_PERIOD_TICKS = 0 then SendAliveFrame hal w2 else w2);
          w4 = UpdateLed hal (sensor_CanDrv_MainFunction hal w3)
      in if s_tick w4 mod sensor_LOG_PERIOD_TICKS = 0 then sensor_LogStatus w4 else w4)"

definition SensorApp_GetSpeedX10 :: "'h Sensor \<Rightarrow> u16" where
  "SensorApp_GetSpeedX10 w = AdcToSpeedX10 (s_adcFiltered w)"

end
