(* ===== verification/SensorProps.thy ===== *)
theory SensorProps
  imports SensorApp Debounce
begin

section \<open>What the Sensor ECU does\<close>

text \<open>
  The filter against the window of the last eight samples, the conversion to a speed, the speed
  frame and the fault injection button.
\<close>

subsection \<open>A platform for the examples\<close>

text \<open>The peripheral state is the time and the level of the button.\<close>

definition bench_hal :: "(u32 \<times> bool) SensorHal" where
  "bench_hal =
     \<lparr>HAL_FDCAN_Init = \<lambda>_ h. (HAL_OK, h), HAL_FDCAN_ConfigFilter = \<lambda>_ h. (HAL_OK, h),
      HAL_FDCAN_ConfigGlobalFilter = \<lambda>_ _ _ _ h. (HAL_OK, h),
      HAL_FDCAN_ActivateNotification = \<lambda>_ _ h. (HAL_OK, h), HAL_FDCAN_Start = \<lambda>h. (HAL_OK, h),
      HAL_FDCAN_GetTxFifoFreeLevel = \<lambda>h. 3, HAL_FDCAN_AddMessageToTxFifoQ = \<lambda>_ _ h. (HAL_OK, h),
      HAL_FDCAN_GetRxFifoFillLevel = \<lambda>h. 0,
      HAL_FDCAN_GetRxMessage = \<lambda>h. (HAL_ERROR, \<lparr>rxIdentifier = 0, rxDataLength = 0\<rparr>, [], h),
      read_CCCR = \<lambda>h. 0, write_CCCR = \<lambda>_ h. h, read_PSR = \<lambda>h. 0,
      HAL_ADCEx_Calibration_Start = \<lambda>h. (HAL_OK, h), HAL_ADC_Start = \<lambda>h. (HAL_OK, h),
      HAL_ADC_PollForConversion = \<lambda>_ h. (HAL_OK, h), HAL_ADC_GetValue = \<lambda>h. 2000,
      HAL_ADC_Stop = \<lambda>h. (HAL_OK, h), write_led = \<lambda>_ h. h, toggle_led = \<lambda>h. h, button_pin = snd,
      HAL_GetTick = fst, uart_overrun = \<lambda>h. False, uart_clear_overrun = \<lambda>h. h, uart_rxne = \<lambda>h. False,
      uart_RDR = \<lambda>h. (0, h)\<rparr>"

definition bench :: "(u32 \<times> bool) Sensor" where
  "bench =
     \<lparr>hfdcan1 = (0, False), hfdcan1_Init = \<lparr>initMode = 0, NominalPrescaler = 3, NominalTimeSeg1 = 13,
        NominalTimeSeg2 = 2, NominalSyncJumpWidth = 2\<rparr>,
      s_busOffPending = False, s_busOffTimer = 0,
      s_stats = \<lparr>txQueued = 0, txDropped = 0, rxCount = 0, busOffCount = 0\<rparr>, tx_trace = [],
      s_filterBuf = replicate 8 0, s_filterSum = 0, s_filterIdx = 0, s_adcFiltered = 0, s_adcError = False,
      s_faultMode = FAULT_NONE, s_btnStableTicks = 0, s_btnLatched = False, s_speedAlive = 0, s_aliveAlive = 0,
      s_tick = 0, s_rxSpeedFrames = 0, uart = [], s_ring = replicate 32 frame0, s_head = 0, s_tail = 0,
      s_ringOverflow = 0, s_resp = replicate 128 0, s_respLen = 0, s_gotResp = False, s_seq = [], s_seqLen = 0,
      s_step = 0, s_passed = 0, s_state = SQ_IDLE, s_timer = 0\<rparr>"

subsection \<open>The filter\<close>

text \<open>The last eight samples, oldest first: the abstract state of the filter is this window.\<close>

definition window :: "'h Sensor \<Rightarrow> u16 list" where
  "window w = drop (unat (s_filterIdx w)) (s_filterBuf w) @ take (unat (s_filterIdx w)) (s_filterBuf w)"

definition filter_ok :: "'h Sensor \<Rightarrow> bool" where
  "filter_ok w \<longleftrightarrow> length (s_filterBuf w) = 8 \<and> unat (s_filterIdx w) < 8 \<and>
     unat (s_filterSum w) = sum_list (map unat (s_filterBuf w))"

lemma sum_le_8:
  assumes "length xs = 8"
  shows "sum_list (map unat (xs :: u16 list)) \<le> 524280"
proof -
  have "unat x \<le> 65535" for x :: u16
    using unsigned_less [of x, where 'a = nat] by simp
  then have "sum_list (map unat xs) \<le> sum_list (map (\<lambda>_. 65535) xs)" by (intro sum_list_mono)
  then show ?thesis using assms by (simp add: sum_list_triv)
qed

lemma and_7_mod: "unat (x AND 7 :: u8) = unat x mod 8"
proof -
  have "x AND 7 = take_bit 3 x" by (simp add: take_bit_eq_mask mask_eq_exp_minus_1)
  then show ?thesis by (simp only: unsigned_take_bit_eq) (simp add: take_bit_eq_mod)
qed

lemma sum_window: "sum_list (map unat (window w)) = sum_list (map unat (s_filterBuf w))"
  unfolding window_def map_append sum_list_append drop_map [symmetric] take_map [symmetric]
  by (metis add.commute append_take_drop_id sum_list_append)

lemma sum_list_update_nat:
  "i < length xs \<Longrightarrow> sum_list (xs[i := x]) + xs ! i = sum_list xs + (x :: nat)"
proof (induction xs arbitrary: i)
  case (Cons a xs)
  then show ?case by (cases i) auto
qed simp

lemma FilterUpdate_ok:
  assumes "filter_ok w" "FilterUpdate sample w = (avg, w')"
  shows "filter_ok w'" "window w' = tl (window w) @ [sample]" "unat avg = sum_list (map unat (window w')) div 8"
proof -
  define i where "i = unat (s_filterIdx w)"
  define buf where "buf = (s_filterBuf w)[i := sample]"
  note ok = assms(1) [unfolded filter_ok_def]
  have i: "i < length (s_filterBuf w)" using ok by (simp add: i_def)
  have idx: "unat ((s_filterIdx w + 1) AND 7) = Suc i mod 8"
    using ok by (simp add: and_7_mod unat_Suc_word i_def)
  have sum: "unat (s_filterSum w - ucast (s_filterBuf w ! i) + ucast sample) = sum_list (map unat buf)"
  proof -
    have upd: "sum_list (map unat buf) + unat (s_filterBuf w ! i) = unat (s_filterSum w) + unat sample"
      using sum_list_update_nat [of i "map unat (s_filterBuf w)" "unat sample"] i ok
      by (simp add: buf_def map_update)
    have bound: "sum_list (map unat buf) \<le> 524280"
      using sum_le_8 [of buf] ok by (simp add: buf_def)
    have le: "unat (s_filterBuf w ! i) \<le> unat (s_filterSum w)"
      using member_le_sum_list [of "unat (s_filterBuf w ! i)" "map unat (s_filterBuf w)"] i ok by simp
    then have "unat (s_filterSum w - ucast (s_filterBuf w ! i)) = unat (s_filterSum w) - unat (s_filterBuf w ! i)"
      by (simp add: unat_minus_le word_le_nat_alt unat_u32_of_u16)
    then show ?thesis
      using upd bound le by (simp add: unat_plus_no_wrap unat_u32_of_u16)
  qed
  have w': "s_filterBuf w' = buf" "s_filterIdx w' = (s_filterIdx w + 1) AND 7"
    "s_filterSum w' = s_filterSum w - ucast (s_filterBuf w ! i) + ucast sample"
    "avg = ucast (drop_bit 3 (s_filterSum w'))"
    using assms(2) by (auto simp: FilterUpdate_def Let_def i_def buf_def FILTER_SIZE_def FILTER_SHIFT_def)
  show ok': "filter_ok w'"
    using ok sum idx by (simp add: filter_ok_def w') (simp add: buf_def)
  show "window w' = tl (window w) @ [sample]"
  proof (cases "i = 7")
    case True
    obtain b xs where xs: "s_filterBuf w = xs @ [b]" "length xs = 7"
      using ok by (cases "s_filterBuf w" rule: rev_cases) auto
    then show ?thesis using True idx by (simp add: window_def w' buf_def list_update_append i_def [symmetric])
  next
    case False
    then have "Suc i mod 8 = Suc i" using i ok by simp
    moreover have "drop i (s_filterBuf w) = s_filterBuf w ! i # drop (Suc i) (s_filterBuf w)"
      using i by (simp add: Cons_nth_drop_Suc)
    ultimately show ?thesis
      using i idx by (simp add: window_def w' buf_def take_Suc_conv_app_nth i_def [symmetric])
  qed
  have "unat (s_filterSum w') = sum_list (map unat (window w'))" "unat (s_filterSum w') \<le> 524280"
    using ok' sum_le_8 [of "s_filterBuf w'"] by (simp_all add: sum_window filter_ok_def)
  then show "unat avg = sum_list (map unat (window w')) div 8"
    by (simp add: w'(4) unsigned_ucast_eq unat_drop_bit_eq) (simp add: drop_bit_eq_div take_bit_nat_eq_self)
qed


lemma FilterReset_ok: "filter_ok (FilterReset s w)" "window (FilterReset s w) = replicate 8 s"
proof -
  have "unat (ucast s * ucast FILTER_SIZE :: u32) = unat s * 8"
    using unsigned_less [of s, where 'a = nat] by (simp add: unat_word_ariths unat_u32_of_u16 FILTER_SIZE_def)
  then show "filter_ok (FilterReset s w)"
    by (simp add: filter_ok_def FilterReset_def FILTER_SIZE_def sum_list_replicate mult.commute)
  show "window (FilterReset s w) = replicate 8 s"
    by (simp add: window_def FilterReset_def FILTER_SIZE_def)
qed

definition filter_run :: "u16 list \<Rightarrow> 'h Sensor \<Rightarrow> u16 \<times> 'h Sensor" where
  "filter_run samples w = foldl (\<lambda>(_, w) s. FilterUpdate s w) (0, w) samples"

lemma tl_drop_snoc: "n < length xs \<Longrightarrow> tl (drop n xs) @ [x] = drop (Suc n) (xs @ [x])"
  by (simp add: drop_Suc tl_drop)

lemma filter_run_window:
  assumes "filter_ok w" "filter_run samples w = (avg, w')"
  shows "filter_ok w' \<and> window w' = drop (length samples) (window w @ samples) \<and>
    (samples \<noteq> [] \<longrightarrow> unat avg = sum_list (map unat (window w')) div 8)"
  using assms
proof (induction samples arbitrary: avg w' rule: rev_induct)
  case Nil
  then show ?case by (simp add: filter_run_def)
next
  case (snoc s samples)
  obtain a1 w1 where r: "filter_run samples w = (a1, w1)" by fastforce
  then have u: "FilterUpdate s w1 = (avg, w')" using snoc.prems(2) by (simp add: filter_run_def)
  note IH = snoc.IH [OF snoc.prems(1) r]
  note up = FilterUpdate_ok [OF conjunct1 [OF IH] u]
  have "length (window w) = 8" using snoc.prems(1) by (simp add: window_def filter_ok_def)
  then have "window w' = drop (length (samples @ [s])) (window w @ samples @ [s])"
    using tl_drop_snoc [of "length samples" "window w @ samples" s] up(2) IH by simp
  with up(1,3) show ?case by blast
qed

text \<open>C39: after a reset with the first sample and any number of further samples, the filtered value is the average
  (rounded down) of the last eight samples, the first one standing for those before it; the
  running sum the code keeps never overflows and never drifts from the buffer.\<close>

theorem Filter_average:
  assumes "filter_run samples (FilterReset s w) = (avg, w')" "samples \<noteq> []"
  shows "unat avg = sum_list (map unat (drop (length samples) (replicate 8 s @ samples))) div 8 \<and>
    unat (s_filterSum w') = sum_list (map unat (s_filterBuf w')) \<and> unat (s_filterSum w') \<le> 8 * 65535"
  using filter_run_window [OF FilterReset_ok(1) assms(1)] assms(2) sum_le_8 [of "s_filterBuf w'"]
  by (auto simp: FilterReset_ok(2) filter_ok_def)

theorem Filter_average_witness:
  "unat (fst (filter_run [100, 200, 300] (FilterReset 1000 bench))) = (5 * 1000 + 100 + 200 + 300) div 8"
proof -
  obtain avg w' where r: "filter_run [100, 200, 300] (FilterReset 1000 bench) = (avg, w')" by fastforce
  show ?thesis using Filter_average [OF r] by (simp add: r sum_list_replicate)
qed

subsection \<open>The speed\<close>

lemma AdcToSpeedX10_eq: "unat (AdcToSpeedX10 adc) = (unat adc * 2500 + 2047) div 4095"
proof -
  have a: "unat adc < 65536" using unsigned_less [of adc, where 'a = nat] by simp
  then have "unat (ucast adc * SENSOR_SPEED_MAX_X10 + ADCDRV_MAX_VALUE div 2 :: u32) = unat adc * 2500 + 2047"
    by (simp add: unat_word_ariths unat_u32_of_u16 SENSOR_SPEED_MAX_X10_def ADCDRV_MAX_VALUE_def unat_div)
  then have "unat ((ucast adc * SENSOR_SPEED_MAX_X10 + ADCDRV_MAX_VALUE div 2) div ADCDRV_MAX_VALUE :: u32)
      = (unat adc * 2500 + 2047) div 4095"
    by (simp add: unat_div ADCDRV_MAX_VALUE_def)
  then show ?thesis
    using a by (simp add: AdcToSpeedX10_def unsigned_ucast_eq take_bit_nat_eq_self)
qed

text \<open>C40: the conversion of an ADC value to a speed never overflows; a 12-bit value gives at most 250.0 km/h, more
  input never gives less speed, and the result is the exact ratio rounded to the nearest tenth.\<close>

theorem AdcToSpeedX10_bounds:
  "unat (AdcToSpeedX10 adc) = (unat adc * 2500 + 2047) div 4095 \<and>
   (adc \<le> 4095 \<longrightarrow> AdcToSpeedX10 adc \<le> 2500) \<and> (adc \<le> adc' \<longrightarrow> AdcToSpeedX10 adc \<le> AdcToSpeedX10 adc') \<and>
   \<bar>int (unat (AdcToSpeedX10 adc)) * 4095 - int (unat adc) * 2500\<bar> \<le> 2047"
proof (intro conjI impI)
  show "adc \<le> 4095 \<Longrightarrow> AdcToSpeedX10 adc \<le> 2500"
    by (simp add: word_le_nat_alt AdcToSpeedX10_eq)
  show "adc \<le> adc' \<Longrightarrow> AdcToSpeedX10 adc \<le> AdcToSpeedX10 adc'"
    by (simp add: word_le_nat_alt AdcToSpeedX10_eq div_le_mono)
  have "(unat adc * 2500 + 2047) div 4095 * 4095 + (unat adc * 2500 + 2047) mod 4095 = unat adc * 2500 + 2047"
    by (rule div_mult_mod_eq)
  moreover have "(unat adc * 2500 + 2047) mod 4095 < 4095" by simp
  ultimately show "\<bar>int (unat (AdcToSpeedX10 adc)) * 4095 - int (unat adc) * 2500\<bar> \<le> 2047"
    unfolding AdcToSpeedX10_eq by linarith
qed (rule AdcToSpeedX10_eq)


theorem AdcToSpeedX10_bounds_witness:
  "AdcToSpeedX10 4095 \<le> 2500 \<and> AdcToSpeedX10 1000 \<le> AdcToSpeedX10 4095"
  using AdcToSpeedX10_bounds [of 4095 0] AdcToSpeedX10_bounds [of 1000 4095] by simp

subsection \<open>The speed frame\<close>

lemma speed_payload_bytes:
  "length (speed_payload v a st) = 8" "speed_payload v a st ! 0 = byte_hi v" "speed_payload v a st ! 1 = byte_lo v"
  "speed_payload v a st ! 2 = byte_hi a" "speed_payload v a st ! 3 = byte_lo a" "speed_payload v a st ! 4 = st"
  by (simp_all add: speed_payload_def PutU16Be_def byte_hi_def byte_lo_def)

text \<open>The speed and the status a frame carries in a fault mode.\<close>

definition sent_speed :: "'h Sensor \<Rightarrow> u16" where
  "sent_speed w = (if s_faultMode w = FAULT_OUT_OF_RANGE then FAULT_SPEED_OUT_OF_RANGE
     else AdcToSpeedX10 (s_adcFiltered w))"

definition sent_status :: "'h Sensor \<Rightarrow> u8" where
  "sent_status w = (if s_faultMode w \<noteq> FAULT_NONE then SENSOR_STATUS_FAULT_INJ else 0)
     OR (if s_adcError w then SENSOR_STATUS_ADC_ERROR else 0)"

lemma SendSpeedFrame_cases:
  assumes "s_faultMode w \<noteq> FAULT_SILENT"
  obtains f where "E2e_Protect (Some (speed_payload (sent_speed w) (s_adcFiltered w) (sent_status w))) (Some (s_speedAlive w))
      = Some (f, (s_speedAlive w + 1) AND 0x0F)"
    "SendSpeedFrame hal w = snd (sensor_CanDrv_Write hal
       (Some \<lparr>frame_id = 0x100, frame_dlc = 8, frame_data = f\<rparr>) (w\<lparr>s_speedAlive := (s_speedAlive w + 1) AND 0x0F\<rparr>))"
proof -
  obtain f where f: "E2e_Protect (Some (speed_payload (sent_speed w) (s_adcFiltered w) (sent_status w))) (Some (s_speedAlive w))
      = Some (f, (s_speedAlive w + 1) AND 0x0F)"
    using speed_payload_bytes(1) by (rule E2e_Protect_Some)
  have "SendSpeedFrame hal w = snd (sensor_CanDrv_Write hal
       (Some \<lparr>frame_id = 0x100, frame_dlc = 8, frame_data = f\<rparr>) (w\<lparr>s_speedAlive := (s_speedAlive w + 1) AND 0x0F\<rparr>))"
    using assms unfolding SendSpeedFrame_def Let_def sent_speed_def [symmetric] sent_status_def [symmetric]
    by (simp add: f frame0_def CANID_SENSOR_SPEED_def SENSOR_SPEED_DLC_def)
  with f show ?thesis by (rule that)
qed


lemma sensor_Write_trace:
  "sensor_CanDrv_Write hal (Some frame) w = (st, w') \<Longrightarrow>
   tx_trace w' = (if st = CANDRV_OK then tx_trace w @ [frame] else tx_trace w) \<and>
   CanDrv.more w' = CanDrv.more w"
  by (auto simp: sensor_CanDrv_Write_def Let_def count_dropped_def count_queued_def hal_call_def
      split: if_splits prod.splits)

lemma sensor_more_fields:
  assumes "CanDrv.more w' = CanDrv.more (w :: 'h Sensor)"
  shows "s_speedAlive w' = s_speedAlive w" "s_tick w' = s_tick w" "s_faultMode w' = s_faultMode w"
    "s_adcFiltered w' = s_adcFiltered w" "s_adcError w' = s_adcError w"
  using assms by (cases w; cases w'; simp)+

lemma SendSpeedFrame_frame:
  assumes "SendSpeedFrame hal w = w'" "s_faultMode w \<noteq> FAULT_SILENT" "synced s" "lastCounter s = (s_speedAlive w - 1) AND 0x0F"
  shows "s_speedAlive w' = (s_speedAlive w + 1) AND 0x0F"
    and "tx_trace w' = tx_trace w \<or>
      (\<exists>f. tx_trace w' = tx_trace w @ [\<lparr>frame_id = 0x100, frame_dlc = 8, frame_data = f\<rparr>] \<and>
        take 5 f = [byte_hi (sent_speed w), byte_lo (sent_speed w), byte_hi (s_adcFiltered w),
                    byte_lo (s_adcFiltered w), sent_status w] \<and>
        E2e_Check (Some s) (Some f) 8 = (E2E_OK, Some (s\<lparr>lastCounter := (s_speedAlive w' - 1) AND 0x0F\<rparr>)))"
proof -
  obtain f where f: "E2e_Protect (Some (speed_payload (sent_speed w) (s_adcFiltered w) (sent_status w))) (Some (s_speedAlive w))
      = Some (f, (s_speedAlive w + 1) AND 0x0F)"
    "w' = snd (sensor_CanDrv_Write hal (Some \<lparr>frame_id = 0x100, frame_dlc = 8, frame_data = f\<rparr>)
       (w\<lparr>s_speedAlive := (s_speedAlive w + 1) AND 0x0F\<rparr>))"
    using SendSpeedFrame_cases [OF assms(2), of hal] assms(1) by metis
  note chk = E2e_Check_next [OF f(1) speed_payload_bytes(1) assms(3,4)]
  have "take 5 f = take 5 (take 6 f)" by simp
  also have "\<dots> = take 5 (speed_payload (sent_speed w) (s_adcFiltered w) (sent_status w))"
    unfolding chk(5) by simp
  also have "\<dots> = [byte_hi (sent_speed w), byte_lo (sent_speed w), byte_hi (s_adcFiltered w), byte_lo (s_adcFiltered w), sent_status w]"
    by (simp add: speed_payload_def PutU16Be_def byte_hi_def byte_lo_def numeral_eq_Suc)
  finally have data: "take 5 f = [byte_hi (sent_speed w), byte_lo (sent_speed w), byte_hi (s_adcFiltered w), byte_lo (s_adcFiltered w), sent_status w]" .
  obtain st where wr: "sensor_CanDrv_Write hal (Some \<lparr>frame_id = 0x100, frame_dlc = 8, frame_data = f\<rparr>)
       (w\<lparr>s_speedAlive := (s_speedAlive w + 1) AND 0x0F\<rparr>) = (st, w')"
    using f(2) by (metis prod.collapse)
  note tr = sensor_Write_trace [OF wr]
  show alive: "s_speedAlive w' = (s_speedAlive w + 1) AND 0x0F"
    using sensor_more_fields(1) [OF conjunct2 [OF tr]] by simp
  show "tx_trace w' = tx_trace w \<or>
      (\<exists>f. tx_trace w' = tx_trace w @ [\<lparr>frame_id = 0x100, frame_dlc = 8, frame_data = f\<rparr>] \<and>
        take 5 f = [byte_hi (sent_speed w), byte_lo (sent_speed w), byte_hi (s_adcFiltered w),
                    byte_lo (s_adcFiltered w), sent_status w] \<and>
        E2e_Check (Some s) (Some f) 8 = (E2E_OK, Some (s\<lparr>lastCounter := (s_speedAlive w' - 1) AND 0x0F\<rparr>)))"
    unfolding alive using tr data chk(1,3) by auto
qed

lemma bench_sends:
  assumes "s_faultMode w \<noteq> FAULT_SILENT"
  obtains frame where "tx_trace (SendSpeedFrame bench_hal w) = tx_trace w @ [frame]"
proof -
  have ok: "\<exists>w'. sensor_CanDrv_Write bench_hal (Some \<lparr>frame_id = 0x100, frame_dlc = 8, frame_data = f\<rparr>) x = (CANDRV_OK, w')"
    for f and x :: "(u32 \<times> bool) Sensor"
    by (simp add: sensor_CanDrv_Write_def CANDRV_MAX_DLC_def CANDRV_MAX_STD_ID_def hal_call_def bench_hal_def)
  obtain f where "SendSpeedFrame bench_hal w = snd (sensor_CanDrv_Write bench_hal
       (Some \<lparr>frame_id = 0x100, frame_dlc = 8, frame_data = f\<rparr>) (w\<lparr>s_speedAlive := (s_speedAlive w + 1) AND 0x0F\<rparr>))"
    using SendSpeedFrame_cases [OF assms, of bench_hal] by metis
  moreover obtain w'' where "sensor_CanDrv_Write bench_hal (Some \<lparr>frame_id = 0x100, frame_dlc = 8, frame_data = f\<rparr>)
      (w\<lparr>s_speedAlive := (s_speedAlive w + 1) AND 0x0F\<rparr>) = (CANDRV_OK, w'')"
    using ok by blast
  ultimately show ?thesis using sensor_Write_trace by (intro that) fastforce
qed

text \<open>C38: the frame the sensor puts on the bus carries the speed computed from the filtered value (or the out of
  range value of the injected fault), the filtered value and the status bits; its counter and checksum are
  accepted as the next frame by a receiver that has followed the sender; and in the silent mode
  nothing is sent and the alive counter stands still, so the gap is invisible to the sequence check.\<close>

theorem SendSpeedFrame_sends:
  assumes "SendSpeedFrame hal w = w'" "synced s" "lastCounter s = (s_speedAlive w - 1) AND 0x0F"
  shows "(if s_faultMode w = FAULT_SILENT then w' = w
     else s_speedAlive w' = (s_speedAlive w + 1) AND 0x0F \<and>
       (tx_trace w' = tx_trace w \<or>
        (\<exists>f. tx_trace w' = tx_trace w @ [\<lparr>frame_id = 0x100, frame_dlc = 8, frame_data = f\<rparr>] \<and>
          take 5 f = [byte_hi (sent_speed w), byte_lo (sent_speed w), byte_hi (s_adcFiltered w),
                      byte_lo (s_adcFiltered w), sent_status w] \<and>
          E2e_Check (Some s) (Some f) 8 = (E2E_OK, Some (s\<lparr>lastCounter := (s_speedAlive w' - 1) AND 0x0F\<rparr>)))))"
  using SendSpeedFrame_frame [OF assms(1) _ assms(2,3)] assms(1) by (auto simp: SendSpeedFrame_def)


theorem SendSpeedFrame_sends_witness:
  "\<exists>w' f. SendSpeedFrame bench_hal (bench\<lparr>s_adcFiltered := 2000\<rparr>) = w' \<and>
     tx_trace w' = [\<lparr>frame_id = 0x100, frame_dlc = 8, frame_data = f\<rparr>] \<and> hd f = byte_hi (AdcToSpeedX10 2000)"
proof -
  define w where "w = bench\<lparr>s_adcFiltered := 2000\<rparr>"
  have w: "s_faultMode w = FAULT_NONE" "s_speedAlive w = 0" "tx_trace w = []" "sent_speed w = AdcToSpeedX10 2000"
    by (simp_all add: w_def bench_def sent_speed_def)
  have "\<exists>f. tx_trace (SendSpeedFrame bench_hal w) = tx_trace w @ [f]"
    using bench_sends [of w] w(1) by (metis FaultMode_t.distinct(1))
  then obtain f' where f': "tx_trace (SendSpeedFrame bench_hal w) = [\<lparr>frame_id = 0x100, frame_dlc = 8, frame_data = f'\<rparr>]"
    "take 5 f' = [byte_hi (sent_speed w), byte_lo (sent_speed w), byte_hi (s_adcFiltered w), byte_lo (s_adcFiltered w), sent_status w]"
    using SendSpeedFrame_sends [of bench_hal w _ "\<lparr>lastCounter = 15, synced = True\<rparr>", OF refl] by (auto simp: w)
  have "hd f' = hd (take 5 f')" by (simp add: hd_take)
  then show ?thesis using f' by (auto simp: w w_def [symmetric])
qed

subsection \<open>The fault injection button\<close>

interpretation sensor_button: debounce
  "\<lambda>h w. sensor_HandleButton hal (w\<lparr>hfdcan1 := h\<rparr>)" "button_pin hal"
  s_btnStableTicks s_btnLatched s_faultMode next_fault_mode
  for hal :: "('h, 'n) SensorHal_scheme"
  by unfold_locales
    (auto simp: sensor_HandleButton_def GpioDrv_IsButtonPressed_def sensor_BUTTON_DEBOUNCE_TICKS_def printf_def Let_def)

text \<open>Over any sequence of polls from a released button the fault mode has gone through the cycle normal, silent,
  out of range by one place for every fourth consecutive poll that found the button pressed; three presses lead
  back to where it started.\<close>

theorem Button_cycles_fault_mode:
  assumes "s_btnStableTicks w = 0" "\<not> s_btnLatched w"
  shows "s_faultMode (fold (\<lambda>h w. sensor_HandleButton hal (w\<lparr>hfdcan1 := h\<rparr>)) hs w)
       = (next_fault_mode ^^ (presses 0 (map (button_pin hal) hs) mod 3)) (s_faultMode w)"
proof -
  have three: "(next_fault_mode ^^ 3) m = m" for m
    by (cases m) (simp_all add: numeral_3_eq_3)
  have "(next_fault_mode ^^ n) m = (next_fault_mode ^^ (n mod 3)) m" for n m
    by (rule funpow_mod_eq [OF three, symmetric])
  then show ?thesis
    using sensor_button.polls [of 0 w hal hs] assms by (simp add: sensor_button.after_def)
qed

theorem Button_cycles_fault_mode_witness:
  "s_faultMode (fold (\<lambda>h w. sensor_HandleButton bench_hal (w\<lparr>hfdcan1 := h\<rparr>))
     (map (Pair 0) [True, True, True, True, True, False, True, True, True, True]) bench) = FAULT_OUT_OF_RANGE"
  using Button_cycles_fault_mode [of bench bench_hal
      "map (Pair 0) [True, True, True, True, True, False, True, True, True, True]"]
  by (simp add: bench_def bench_hal_def numeral_2_eq_2)

end
