(* ===== verification/Network.thy ===== *)
theory Network
  imports ControlProps SensorProps
begin

section \<open>The two ECUs on one bus\<close>

text \<open>
  What the control ECU makes of a frame the sensor has sent, and the two platforms of the examples
  side by side; the properties that span both ECUs are in the root theory.
\<close>

lemma speed_frame_received:
  assumes "SendSpeedFrame hal w = w'" "tx_trace w' = tx_trace w @ [frame]" "s_faultMode w \<noteq> FAULT_SILENT"
    and "synced (s_e2eSpeed e)" "lastCounter (s_e2eSpeed e) = (s_speedAlive w - 1) AND 0x0F"
    and "HandleSpeedFrame ehal frame e = e1"
  shows "speedX10 (s_view e1) = sent_speed w" "sensorStatus (s_view e1) = sent_status w"
    "received (s_view e1)" "lastValidTick (s_view e1) = osKernelGetTickCount ehal (hfdcan1 e)"
    "e2eError (s_view e1) \<Longrightarrow> e2eError (s_view e)"
    "synced (s_e2eSpeed e1)" "lastCounter (s_e2eSpeed e1) = (s_speedAlive w' - 1) AND 0x0F"
proof -
  from SendSpeedFrame_frame [OF assms(1,3-5)] assms(2) obtain f where
    frame: "frame = \<lparr>frame_id = 0x100, frame_dlc = 8, frame_data = f\<rparr>" and
    data: "take 5 f = [byte_hi (sent_speed w), byte_lo (sent_speed w), byte_hi (s_adcFiltered w),
                    byte_lo (s_adcFiltered w), sent_status w]" and
    chk: "E2e_Check (Some (s_e2eSpeed e)) (Some f) 8
      = (E2E_OK, Some ((s_e2eSpeed e)\<lparr>lastCounter := (s_speedAlive w' - 1) AND 0x0F\<rparr>))"
    by auto
  have "f ! i = take 5 f ! i" if "i < 5" for i using that by simp
  then have bytes: "f ! 0 = byte_hi (sent_speed w)" "f ! 1 = byte_lo (sent_speed w)" "f ! 4 = sent_status w"
    by (simp_all add: data)
  have valid: "speed_valid (s_e2eSpeed e) frame"
    by (simp add: speed_valid_def frame chk E2e_IsValid_def)
  obtain st where v: "s_view e1 = accept_frame (osKernelGetTickCount ehal (hfdcan1 e)) frame ((s_view e)\<lparr>e2e := st\<rparr>)"
    using HandleSpeedFrame_view(4) [of ehal frame e] valid assms(6) by auto
  show "speedX10 (s_view e1) = sent_speed w" "sensorStatus (s_view e1) = sent_status w"
    "received (s_view e1)" "lastValidTick (s_view e1) = osKernelGetTickCount ehal (hfdcan1 e)"
    by (simp_all add: v accept_frame_def Let_def frame bytes [simplified])
  show "e2eError (s_view e1) \<Longrightarrow> e2eError (s_view e)"
    by (simp add: v accept_error)
  have "s_e2eSpeed e1 = (s_e2eSpeed e)\<lparr>lastCounter := (s_speedAlive w' - 1) AND 0x0F\<rparr>"
    using HandleSpeedFrame_view(1) [of ehal frame e] assms(6) by (simp add: speed_next_def frame chk)
  with assms(4) show "synced (s_e2eSpeed e1)" "lastCounter (s_e2eSpeed e1) = (s_speedAlive w' - 1) AND 0x0F"
    by simp_all
qed

lemma sent_speed_range: "s_adcFiltered w \<le> 4095 \<Longrightarrow> sent_speed w > 2500 \<longleftrightarrow> s_faultMode w = FAULT_OUT_OF_RANGE"
  using AdcToSpeedX10_eq [of "s_adcFiltered w"]
  by (auto simp: sent_speed_def FAULT_SPEED_OUT_OF_RANGE_def word_less_nat_alt word_le_nat_alt)

lemma sent_status_adc: "sent_status w AND 0x02 \<noteq> 0 \<longleftrightarrow> s_adcError w"
  by (simp add: sent_status_def SENSOR_STATUS_FAULT_INJ_def SENSOR_STATUS_ADC_ERROR_def)

lemma demo_no_injection:
  assumes "Monitor_step demo_hal (n, k, w) = (n', k', w')" "ecu_ok w" "\<not> s_localInject w"
  shows "\<not> s_localInject w'"
  using assms(3) unfolding Monitor_step_eq(5) [OF assms(1,2) refl refl refl]
  by (simp add: run_monitors_def Let_def control_HandleButton_def IoDrv_IsUserButtonPressed_def demo_hal_def)

end
