(* ===== verification/DiagRequests.thy ===== *)
theory DiagRequests
  imports DiagProps
begin

section \<open>Diagnostic requests on the CAN bus\<close>

text \<open>
  From a CAN frame with a request to the CAN frames of its answer, and the reset whose response
  is suppressed.
\<close>

subsection \<open>Requests in a single CAN frame\<close>

lemma OnFrame_physical:
  assumes "diag_ready l w" "frame_id frame = CANID_UDS_REQ_CONTROL"
    and "frame_dlc frame = 8" "frame_data frame = sf_frame msg" "0 < length msg" "length msg \<le> 7"
  obtains l2 where "diag_ready l2 w"
    "DiagApp_OnFrame hal frame (l, tst, w)
     = map_option (\<lambda>(l', w'). (l', tst, w')) (RespondTo hal (rxBuffer (cfg l2)) (of_nat (length msg)) False (l2, w))"
    "map ((!) (rxBuffer (cfg l2))) [0..<length msg] = msg"
proof -
  note ready = assms(1) [unfolded diag_ready_def]
  define l2 where "l2 = (store_rx 0 msg l)\<lparr>rxLength := of_nat (length msg), rxState := ISOTP_RX_IDLE\<rparr>"
  have size: "length (rxBuffer (cfg l)) = 256" using ready by (simp add: link_wf_def rx_wf_def)
  have "rx_ready msg l" using ready assms(6) size by (simp add: rx_ready_def)
  from ecu_client.rx_single_eq [OF this assms(5,6), of hal w]
  have rx: "IsoTp_RxFrame (ecu_ops hal) (Some (sf_frame msg)) 8 (l, w)
      = RespondTo hal (rxBuffer (cfg l2)) (of_nat (length msg)) False (l2, w)"
    by (simp add: RxFinish_def upd_def ecu_ops_def OnEcuRequest_def l2_def Let_def)
  have buf: "rxBuffer (cfg l2) = msg @ drop (length msg) (rxBuffer (cfg l))"
    by (simp add: l2_def store_rx_def write_at_0)
  have "link_wf l2"
    using ready size assms(6) by (simp add: l2_def store_rx_def link_wf_def rx_wf_def tx_wf_def)
  then have "diag_ready l2 w"
    using ready by (simp add: diag_ready_def) (simp add: l2_def store_rx_def)
  moreover have "map ((!) (rxBuffer (cfg l2))) [0..<length msg] = msg"
    by (intro nth_equalityI) (simp_all add: buf nth_append)
  ultimately show ?thesis
    using rx assms(2-4) by (intro that [of l2]) (simp_all add: DiagApp_OnFrame_def on_ecuLink_def)
qed

lemma OnFrame_functional:
  assumes "frame_id frame = 0x7DF" "frame_dlc frame = 8" "frame_data frame = sf_frame msg" "0 < length msg" "length msg \<le> 7"
  shows "DiagApp_OnFrame hal frame (l, tst, w)
     = map_option (\<lambda>(l', w'). (l', tst, w')) (RespondTo hal (drop 1 (sf_frame msg)) (of_nat (length msg)) True (l, w))"
    "map ((!) (drop 1 (sf_frame msg))) [0..<length msg] = msg"
proof -
  have b: "sf_frame msg ! 0 = of_nat (length msg)" "drop 1 (sf_frame msg) = msg @ replicate (7 - length msg) 0xCC"
    using assms(5) by (simp_all add: sf_frame_def pad8_def)
  have n: "unat (of_nat (length msg) :: u8) = length msg"
    "ucast (of_nat (length msg) :: u8) = (of_nat (length msg) :: u16)"
    using assms(5) by (simp_all add: unat_of_nat word_unat_eq_iff unsigned_ucast_eq take_bit_nat_eq_self)
  then have "(of_nat (length msg) :: u8) > 0" "(of_nat (length msg) :: u8) < 8"
    using assms(4,5) by (simp_all add: word_less_nat_alt)
  note n = n this
  show "DiagApp_OnFrame hal frame (l, tst, w)
     = map_option (\<lambda>(l', w'). (l', tst, w')) (RespondTo hal (drop 1 (sf_frame msg)) (of_nat (length msg)) True (l, w))"
    using assms sf_first_byte [OF assms(5)] n
    by (simp add: DiagApp_OnFrame_def CANID_UDS_REQ_CONTROL_def b(1) PCI_TYPE_SF_def on_ecuLink_def Let_def)
  show "map ((!) (drop 1 (sf_frame msg))) [0..<length msg] = msg"
    unfolding b(2) by (intro nth_equalityI) (simp_all add: nth_append)
qed


text \<open>A diagnostic request of one to seven bytes in a CAN frame, on the ECU's own identifier 0x7E0 or
  on the functional identifier 0x7DF, is answered on the bus by the ISO-TP segmentation of exactly the answer
  the server's specification gives (functional requests without the negative responses the
  standard suppresses), and by nothing else.\<close>

theorem Diag_answers_frame:
  assumes "diag_ready l w" "frame_id frame = (if functional then 0x7DF else CANID_UDS_REQ_CONTROL)"
    and "frame_dlc frame = 8" "frame_data frame = sf_frame msg" "0 < length msg" "length msg \<le> 7"
    and "bytes = encode_reply functional (hd msg) (ecu_reply w msg)"
    and "DiagApp_OnFrame hal frame (l, tst, w) = Some (l1, tst1, w1)"
    and "tx_steps (ecu_ops hal) can_sent (l1, w1) (l', w')"
  shows "tst1 = tst \<and> (if bytes = [] then can_sent w1 = can_sent w
     else \<exists>n \<le> length (segment bytes).
       can_sent w' = can_sent w @ map (Pair 0x7E8) (take n (segment bytes)) \<and>
       (txState l' \<noteq> ISOTP_TX_IDLE \<longrightarrow> n < length (segment bytes)))"
proof -
  have len: "unat (of_nat (length msg) :: u16) = length msg" "(of_nat (length msg) :: u16) \<noteq> 0"
    using assms(5,6) by (simp_all add: unat_of_nat word_unat_eq_iff)
  obtain l2 data where l2: "diag_ready l2 w" "msg = map ((!) data) [0..<unat (of_nat (length msg) :: u16)]"
    "DiagApp_OnFrame hal frame (l, tst, w)
      = map_option (\<lambda>(l', w'). (l', tst, w')) (RespondTo hal data (of_nat (length msg)) functional (l2, w))"
  proof (cases functional)
    case True
    then show ?thesis
      using OnFrame_functional(1) [OF _ assms(3-6), of hal l tst w] OnFrame_functional(2) [OF _ assms(3-6)]
        assms(1,2) len(1) by (intro that [of l]) simp_all
  next
    case False
    then have "frame_id frame = CANID_UDS_REQ_CONTROL" using assms(2) by simp
    with OnFrame_physical [OF assms(1) this assms(3-6)] obtain k where "diag_ready k w"
      "DiagApp_OnFrame hal frame (l, tst, w)
        = map_option (\<lambda>(l', w'). (l', tst, w')) (RespondTo hal (rxBuffer (cfg k)) (of_nat (length msg)) False (k, w))"
      "map ((!) (rxBuffer (cfg k))) [0..<length msg] = msg" by metis
    then show ?thesis using False len(1) by (intro that [of k "rxBuffer (cfg k)"]) simp_all
  qed
  then have "RespondTo hal data (of_nat (length msg)) functional (l2, w) = Some (l1, w1)" "tst1 = tst"
    using assms(8) by (cases "RespondTo hal data (of_nat (length msg)) functional (l2, w)"; auto)+
  note answers = RespondTo_answers [OF l2(1) len(2) l2(2) assms(7) this(1)]
  show ?thesis
    using \<open>tst1 = tst\<close> answers(1) ecu_link.progress_sent answers(3) [OF _ assms(9)] by (auto split: if_splits; blast)
qed


text \<open>A functional TesterPresent and a functional request for an unknown identifier.\<close>

theorem Diag_answers_frame_witness:
  "\<exists>l w. DiagApp_OnFrame demo_hal \<lparr>frame_id = 0x7DF, frame_dlc = 8, frame_data = sf_frame [0x22, 0x12, 0x34]\<rparr>
      (demo_link, demo_link, demo_ecu) = Some (l, demo_link, w) \<and> can_sent w = []"
proof -
  have val: "ecu_reply demo_ecu [0x22, 0x12, 0x34] = NegativeReply 0x31"
    by (simp add: ecu_reply_def spec_reply_def spec_ReadDid_def requested_dids_def did_bytes_def ecu_value_def
        u16_of_bytes_def)
  then have silent: "encode_reply True (hd [0x22, 0x12, 0x34]) (ecu_reply demo_ecu [0x22, 0x12, 0x34]) = []"
    by (simp add: encode_reply_def)
  define frame where "frame = \<lparr>frame_id = 0x7DF, frame_dlc = 8, frame_data = sf_frame [0x22, 0x12, 0x34]\<rparr>"
  have f: "frame_id frame = 0x7DF" "frame_dlc frame = 8" "frame_data frame = sf_frame [0x22, 0x12, 0x34]"
    by (simp_all add: frame_def)
  have rq: "[0x22, 0x12, 0x34] = map ((!) (drop 1 (sf_frame [0x22, 0x12, 0x34])))
      [0..<unat (of_nat (length [0x22, 0x12, 0x34 :: u8]) :: u16)]"
    using OnFrame_functional(2) [OF f] by (simp add: upt_rec)
  have "\<exists>s'. RespondTo demo_hal (drop 1 (sf_frame [0x22, 0x12, 0x34])) (of_nat (length [0x22, 0x12, 0x34 :: u8])) True
      (demo_link, demo_ecu) = Some s'"
    using RespondTo_eq [OF _ _ _ rq silent [symmetric], of demo_hal demo_link] demo_ready
    by (auto simp: diag_ready_def)
  then obtain l w where run: "DiagApp_OnFrame demo_hal frame (demo_link, demo_link, demo_ecu) = Some (l, demo_link, w)"
    using OnFrame_functional(1) [OF f, of demo_hal demo_link demo_link demo_ecu] by auto
  have "can_sent demo_ecu = []" by (simp add: can_sent_def demo_ecu_def)
  then show ?thesis
    using Diag_answers_frame [OF demo_ready _ f(2,3) _ _ silent [symmetric] run tx_steps.start] f(1) run
    by (auto simp: frame_def)
qed


subsection \<open>A reset without a response\<close>

text \<open>The cyclic function at successive states of the peripherals (and times).\<close>

fun idle_run :: "('h, 'n) EcuHal_scheme \<Rightarrow> 'h list \<Rightarrow> 'h diag \<Rightarrow> 'h diag option" where
  "idle_run hal [] d = Some d"
| "idle_run hal (h # hs) (l, tst, w) =
     do { d \<leftarrow> DiagApp_MainFunction hal (l, tst, w\<lparr>hfdcan1 := h\<rparr>); idle_run hal hs d }"

definition reset_waits :: "u8 \<Rightarrow> DtcMgr_State \<Rightarrow> (u16 \<times> u8 list) list \<Rightarrow> 'h diag \<Rightarrow> bool" where
  "reset_waits t ds sent d = (case d of (l, tst, w) \<Rightarrow>
     txState l = ISOTP_TX_IDLE \<and> rxState l = ISOTP_RX_IDLE \<and> \<not> rxFcPending l \<and> \<not> s_selfTest w \<and>
     s_pendingReset (uds w) = t \<and> dtcs w = ds \<and> can_sent w = sent)"

lemma idle_MainFunction:
  "txState l = ISOTP_TX_IDLE \<Longrightarrow> rxState l = ISOTP_RX_IDLE \<Longrightarrow> \<not> rxFcPending l \<Longrightarrow>
   IsoTp_MainFunction ops (l, w) = Some (l, w)"
  by (simp add: IsoTp_MainFunction_def RxMain_def TxMain_def)

lemma pending_MainFunction:
  "\<exists>u'. Uds_MainFunction (diag_uds hal) u w = (u', w) \<and> s_pendingReset u' = s_pendingReset u"
  by (simp add: Uds_MainFunction_def diag_uds_def Let_def)

lemma reset_waits_idle:
  assumes "reset_waits t ds sent d"
  shows "\<exists>d'. idle_run hal hs d = Some d' \<and> reset_waits t ds sent d'"
  using assms
proof (induction hs arbitrary: d)
  case (Cons h hs)
  obtain l tst w where d: "d = (l, tst, w)" by (metis prod_cases3)
  obtain u where u: "Uds_MainFunction (diag_uds hal) (uds w) (w\<lparr>hfdcan1 := h\<rparr>) = (u, w\<lparr>hfdcan1 := h\<rparr>)"
    "s_pendingReset u = s_pendingReset (uds w)"
    using pending_MainFunction [of hal "uds w" "w\<lparr>hfdcan1 := h\<rparr>"] by blast
  have "DiagApp_MainFunction hal (l, tst, w\<lparr>hfdcan1 := h\<rparr>) = Some (l, tst, w\<lparr>hfdcan1 := h, uds := u\<rparr>)"
    using Cons.prems u(1) by (simp add: DiagApp_MainFunction_def on_ecuLink_def reset_waits_def d idle_MainFunction Let_def)
  moreover have "reset_waits t ds sent (l, tst, w\<lparr>hfdcan1 := h, uds := u\<rparr>)"
    using Cons.prems u(2) by (simp add: reset_waits_def d can_sent_def)
  ultimately show ?case using Cons.IH by (simp add: d)
qed auto

text \<open>C36: a reset requested with the suppress bit in an extended session is accepted, sends nothing, and is
  not executed: however often the cyclic function runs afterwards, at whatever times, the reset
  stays pending and the trouble code store sees no new operation cycle (it is executed when
  some later response has been sent).\<close>

theorem Diag_suppressed_reset_waits:
  assumes "diag_ready l w" "s_session (uds w) = 0x03" "\<not> s_selfTest w" "t \<in> {0x01, 0x03}"
    and "frame_id frame = CANID_UDS_REQ_CONTROL" "frame_dlc frame = 8" "frame_data frame = sf_frame [0x11, 0x80 OR t]"
  shows "\<exists>d. DiagApp_OnFrame hal frame (l, tst, w) = Some d \<and>
     (\<exists>d'. idle_run hal hs d = Some d' \<and> reset_waits t (dtcs w) (can_sent w) d')"
proof -
  have reply: "ecu_reply w [0x11, 0x80 OR t] = Positive True [0x51, t]"
    using assms(2,4) by (auto simp: ecu_reply_def spec_reply_def spec_EcuReset_def)
  obtain l2 where l2: "diag_ready l2 w" "DiagApp_OnFrame hal frame (l, tst, w)
      = map_option (\<lambda>(l', w'). (l', tst, w')) (RespondTo hal (rxBuffer (cfg l2)) (of_nat (length [0x11, 0x80 OR t])) False (l2, w))"
    "map ((!) (rxBuffer (cfg l2))) [0..<length [0x11, 0x80 OR t]] = [0x11, 0x80 OR t]"
    by (rule OnFrame_physical [OF assms(1,5-7), of hal tst]) auto
  have rq: "[0x11, 0x80 OR t] = map ((!) (rxBuffer (cfg l2))) [0..<unat (of_nat (length [0x11, 0x80 OR t]) :: u16)]"
    using l2(3) by (simp add: upt_rec)
  have silent: "[] = encode_reply False (hd [0x11, 0x80 OR t]) (ecu_reply w [0x11, 0x80 OR t])"
    by (simp add: reply encode_reply_def)
  obtain buf where "RespondTo hal (rxBuffer (cfg l2)) (of_nat (length [0x11, 0x80 OR t])) False (l2, w)
      = Some (l2, ecu_after hal w [0x11, 0x80 OR t] buf)"
    using RespondTo_eq [OF _ _ _ rq silent, of hal l2] l2(1) by (auto simp: diag_ready_def)
  then have "DiagApp_OnFrame hal frame (l, tst, w) = Some (l2, tst, ecu_after hal w [0x11, 0x80 OR t] buf)"
    using l2(2) by simp
  moreover have "reset_waits t (dtcs w) (can_sent w) (l2, tst, ecu_after hal w [0x11, 0x80 OR t] buf)"
    using l2(1) assms(3,4) by (auto simp: reset_waits_def diag_ready_def ecu_after_def uds_after_def reply can_sent_def)
  ultimately show ?thesis using reset_waits_idle by blast
qed

theorem Diag_suppressed_reset_waits_witness:
  "\<exists>d. DiagApp_OnFrame demo_hal \<lparr>frame_id = CANID_UDS_REQ_CONTROL, frame_dlc = 8, frame_data = sf_frame [0x11, 0x83]\<rparr>
      (demo_link, demo_link, demo_ecu\<lparr>uds := Uds_static\<lparr>s_session := 0x03\<rparr>\<rparr>) = Some d \<and>
     (\<exists>d'. idle_run demo_hal [10, 20, 100000] d = Some d' \<and> reset_waits 0x03 demo_dtcs [] d')"
proof -
  define w where "w = demo_ecu\<lparr>uds := Uds_static\<lparr>s_session := 0x03\<rparr>\<rparr>"
  have w: "diag_ready demo_link w" "s_session (uds w) = 0x03" "\<not> s_selfTest w" "dtcs w = demo_dtcs" "can_sent w = []"
    using demo_ready by (simp_all add: w_def diag_ready_def) (simp_all add: demo_ecu_def can_sent_def)
  show ?thesis
    using Diag_suppressed_reset_waits [OF w(1-3), of "0x03"
        "\<lparr>frame_id = CANID_UDS_REQ_CONTROL, frame_dlc = 8, frame_data = sf_frame [0x11, 0x83]\<rparr>"
        demo_hal demo_link "[10, 20, 100000]"] w(4,5)
    by (simp add: w_def)
qed

end
