(* ===== verification/TesterApp.thy ===== *)
theory TesterApp
  imports SensorApp
begin

section \<open>Diagnostic tester on the Sensor ECU (sensor_ecu/Core/App/tester_app.c)\<close>

text \<open>
  Frames from the interrupt go through a ring buffer of 32 slots to the tester's ISO-TP link;
  a sequencer sends the requests of a test sequence and compares the responses. A state is
  \<open>(s_link, the rest)\<close>.
\<close>

definition RING_LEN :: u8 where "RING_LEN = 32"
definition TESTER_BUFFER_SIZE :: u16 where "TESTER_BUFFER_SIZE = 128"
definition RESPONSE_TIMEOUT_MS :: u32 where "RESPONSE_TIMEOUT_MS = 1000"
definition NO_RESPONSE_WAIT_MS :: u32 where "NO_RESPONSE_WAIT_MS = 300"
definition FUNCTIONAL_ID :: u16 where "FUNCTIONAL_ID = 0x7DF"
definition PRINTHEX_MAX_BYTES :: u16 where "PRINTHEX_MAX_BYTES = 20"

definition STEP :: "string \<Rightarrow> u8 list \<Rightarrow> u8 list \<Rightarrow> Step_t" where
  "STEP n r e =
     \<lparr>sq_name = n, sq_req = r, sq_reqLen = of_nat (length r), sq_expect = Some e,
      sq_expectLen = of_nat (length e), sq_delayMs = 0, sq_functional = False\<rparr>"

definition STEP_D :: "string \<Rightarrow> u8 list \<Rightarrow> u8 list \<Rightarrow> u16 \<Rightarrow> Step_t" where
  "STEP_D n r e d = (STEP n r e)\<lparr>sq_delayMs := d\<rparr>"

definition STEP_F :: "string \<Rightarrow> u8 list \<Rightarrow> u8 list \<Rightarrow> Step_t" where
  "STEP_F n r e = (STEP n r e)\<lparr>sq_functional := True\<rparr>"

definition STEP_F_SILENT :: "string \<Rightarrow> u8 list \<Rightarrow> Step_t" where
  "STEP_F_SILENT n r =
     \<lparr>sq_name = n, sq_req = r, sq_reqLen = of_nat (length r), sq_expect = None,
      sq_expectLen = 0, sq_delayMs = 0, sq_functional = True\<rparr>"

definition k_seqTest :: "Step_t list" where
  "k_seqTest =
     [STEP ''TesterPresent'' [0x3E, 0x00] [0x7E, 0x00],
      STEP ''ReadDID F195 version'' [0x22, 0xF1, 0x95] [0x62, 0xF1, 0x95],
      STEP ''ReadDID 0100 speed'' [0x22, 0x01, 0x00] [0x62, 0x01, 0x00],
      STEP ''ReadDID x3 (tester sends FF+CF)'' [0x22, 0xF1, 0x95, 0x01, 0x00, 0x01, 0x01] [0x62, 0xF1, 0x95],
      STEP ''Unknown service -> NRC 11'' [0x85, 0x01] [0x7F, 0x85, 0x11],
      STEP ''Unknown DID -> NRC 31'' [0x22, 0x12, 0x34] [0x7F, 0x22, 0x31],
      STEP ''Reset in default -> NRC 7E'' [0x11, 0x01] [0x7F, 0x11, 0x7E],
      STEP ''Read all DTCs'' [0x19, 0x02, 0xFF] [0x59, 0x02, 0x7F],
      STEP ''Session extended'' [0x10, 0x03] [0x50, 0x03, 0x00, 0x32, 0x01, 0xF4],
      STEP ''Clear all DTCs'' [0x14, 0xFF, 0xFF, 0xFF] [0x54],
      STEP ''Confirmed DTCs = 0'' [0x19, 0x01, 0x08] [0x59, 0x01, 0x7F, 0x01, 0x00, 0x00],
      STEP ''Session default'' [0x10, 0x01] [0x50, 0x01]]"

definition k_seqDtc :: "Step_t list" where
  "k_seqDtc = [STEP ''Read all DTCs'' [0x19, 0x02, 0xFF] [0x59, 0x02, 0x7F]]"

definition k_seqClear :: "Step_t list" where
  "k_seqClear = [STEP ''Clear all DTCs'' [0x14, 0xFF, 0xFF, 0xFF] [0x54]]"

definition k_seqVer :: "Step_t list" where
  "k_seqVer =
     [STEP ''ReadDID F195 version'' [0x22, 0xF1, 0x95] [0x62, 0xF1, 0x95],
      STEP ''ReadDID 0100 speed'' [0x22, 0x01, 0x00] [0x62, 0x01, 0x00]]"

definition k_seqFunc :: "Step_t list" where
  "k_seqFunc =
     [STEP_F ''Functional TesterPresent'' [0x3E, 0x00] [0x7E, 0x00],
      STEP_F_SILENT ''Functional unknown service: silent'' [0x85, 0x01]]"

definition k_seqReset :: "Step_t list" where
  "k_seqReset =
     [STEP ''Session extended'' [0x10, 0x03] [0x50, 0x03, 0x00, 0x32, 0x01, 0xF4],
      STEP ''ECUReset hard'' [0x11, 0x01] [0x51, 0x01],
      STEP_D ''ECU back: TesterPresent (after 3 s)'' [0x3E, 0x00] [0x7E, 0x00] 3000,
      STEP ''ECU back: ReadDID F195'' [0x22, 0xF1, 0x95] [0x62, 0xF1, 0x95]]"

subsection \<open>Helpers\<close>

definition tester_SendFrame ::
  "('h, 'n) SensorHal_scheme \<Rightarrow> u16 \<Rightarrow> u8 list \<Rightarrow> u8 \<Rightarrow> 'h Sensor \<Rightarrow> bool \<times> 'h Sensor" where
  "tester_SendFrame hal canId data dlc w =
     (let (st, w1) = sensor_CanDrv_Write hal
            (Some \<lparr>frame_id = canId, frame_dlc = dlc,
                   frame_data = write_at (replicate 8 0) 0 (take (unat dlc) data)\<rparr>) w
      in (st = CANDRV_OK, w1))"

fun result_number :: "IsoTp_Result_t \<Rightarrow> nat" where
  "result_number ISOTP_OK = 0"
| "result_number ISOTP_ERR_BUSY = 1"
| "result_number ISOTP_ERR_PARAM = 2"
| "result_number ISOTP_ERR_TIMEOUT_BS = 3"
| "result_number ISOTP_ERR_TIMEOUT_CR = 4"
| "result_number ISOTP_ERR_WRONG_SN = 5"
| "result_number ISOTP_ERR_OVERFLOW = 6"
| "result_number ISOTP_ERR_WFT_OVRN = 7"
| "result_number ISOTP_ERR_UNEXP_PDU = 8"
| "result_number ISOTP_ERR_INVALID_FS = 9"

definition OnResponse ::
  "u8 list \<Rightarrow> u16 \<Rightarrow> IsoTp_Result_t \<Rightarrow> 'h Sensor link_state \<Rightarrow> 'h Sensor link_state option" where
  "OnResponse data len result s =
     (case s of (l, w) \<Rightarrow>
        if result = ISOTP_OK \<and> unat len \<le> length (s_resp w) then
          Some (l, w\<lparr>s_resp := write_at (s_resp w) 0 (take (unat len) data), s_respLen := len,
                     s_gotResp := True\<rparr>)
        else Some (l, printf (''[TESTER] ISO-TP receive error '' @ dec (result_number result) @ crlf) w))"

definition tester_ops :: "('h, 'n) SensorHal_scheme \<Rightarrow> 'h Sensor IsoTp_Ops" where
  "tester_ops hal =
     \<lparr>sendFrame = tester_SendFrame hal, getTimeMs = (\<lambda>w. (TimeDrv_GetMs hal w, w)),
      txConfirmation = None, rxIndication = Some OnResponse\<rparr>"

definition NrcName :: "u8 \<Rightarrow> string" where
  "NrcName nrc =
     (if nrc = 0x11 then ''serviceNotSupported''
      else if nrc = 0x12 then ''subFunctionNotSupported''
      else if nrc = 0x13 then ''incorrectMessageLength''
      else if nrc = 0x14 then ''responseTooLong''
      else if nrc = 0x31 then ''requestOutOfRange''
      else if nrc = 0x7E then ''subFunctionNotSupportedInActiveSession''
      else if nrc = 0x7F then ''serviceNotSupportedInActiveSession''
      else ''?'')"

definition indent :: string where "indent = replicate 8 CHR '' ''"

definition PrintHex :: "u8 list \<Rightarrow> u16 \<Rightarrow> 'h Sensor \<Rightarrow> 'h Sensor" where
  "PrintHex data len w =
     (let truncated = len > PRINTHEX_MAX_BYTES;
          n = (if truncated then PRINTHEX_MAX_BYTES else len);
          w1 = printf indent w;
          w2 = fold (\<lambda>i. printf (hex02 (unat (data ! i)) @ '' '')) [0..<unat n] w1
      in printf ((if truncated then ''...'' else []) @ crlf) w2)"

definition dtc_text :: "u8 list \<Rightarrow> string" where
  "dtc_text rec =
     [''PCBU'' ! unat (drop_bit 6 (rec ! 0) AND 0x03)] @ dec (unat (drop_bit 4 (rec ! 0) AND 0x03))
     @ hex (unat (rec ! 0 AND 0x0F)) @ hex02 (unat (rec ! 1)) @ ''-'' @ hex02 (unat (rec ! 2))"

definition PrintDtc :: "u8 list \<Rightarrow> 'h Sensor \<Rightarrow> 'h Sensor" where
  "PrintDtc rec w =
     (let status = rec ! 3 in
      printf (indent @ dtc_text rec @ ''  status 0x'' @ hex02 (unat status)
        @ (if status AND 0x01 \<noteq> 0 then '' testFailed'' else [])
        @ (if status AND 0x04 \<noteq> 0 then '' pending'' else [])
        @ (if status AND 0x08 \<noteq> 0 then '' confirmed'' else []) @ crlf) w)"

text \<open>\<open>%s\<close> prints a string up to its first null byte.\<close>

definition c_string :: "u8 list \<Rightarrow> string" where
  "c_string bytes = map (\<lambda>b. char_of (unat b)) (takeWhile (\<lambda>b. b \<noteq> 0) bytes)"

definition Decode :: "'h Sensor \<Rightarrow> 'h Sensor" where
  "Decode w =
     (let r = s_resp w; n = s_respLen w in
      if n \<ge> 3 \<and> r ! 0 = 0x7F then
        printf (indent @ ''NRC 0x'' @ hex02 (unat (r ! 2)) @ '' '' @ NrcName (r ! 2) @ crlf) w
      else if n \<ge> 3 \<and> r ! 0 = 0x59 \<and> r ! 1 = 0x02 then
        (let count = (n - 3) div 4;
             w1 = printf (indent @ dec (unat count) @ '' DTC(s)'' @ crlf) w
         in fold (\<lambda>i. PrintDtc (drop (3 + 4 * i) r)) [0..<unat count] w1)
      else if n \<ge> 5 \<and> r ! 0 = 0x62 \<and> r ! 1 = 0x01 \<and> r ! 2 = 0x00 then
        (let ecu = u16_of_bytes (r ! 3) (r ! 4); own = SensorApp_GetSpeedX10 w
         in printf (indent @ ''Control ECU speed '' @ tenths (unat ecu) @ '' km/h, Sensor ECU sends ''
              @ tenths (unat own) @ '' km/h'' @ crlf) w)
      else if n > 3 \<and> r ! 0 = 0x62 \<and> r ! 1 = 0xF1 \<and> r ! 2 = 0x95 then
        (let k = (if n - 3 > 10 then 10 else n - 3)
         in printf (indent @ ''version '' @ [CHR 0x22] @ c_string (take (unat k) (drop 3 r)) @ [CHR 0x22] @ crlf) w)
      else w)"

subsection \<open>The sequencer\<close>

definition Finish :: "('h, 'n) SensorHal_scheme \<Rightarrow> bool \<Rightarrow> 'h Sensor \<Rightarrow> 'h Sensor" where
  "Finish hal pass w =
     (let st = s_seq w ! unat (s_step w);
          w1 = printf (''[TESTER] '' @ pad_left 2 CHR '' '' (dec (unat (s_step w) + 1)) @ ''/''
             @ dec (unat (s_seqLen w)) @ '' '' @ pad_right 38 (sq_name st) @ '' ''
             @ (if pass then ''PASS'' else ''FAIL'') @ crlf) w;
          w2 = (if s_gotResp w1 then Decode (PrintHex (s_resp w1) (s_respLen w1) w1)
                else if sq_expect st \<noteq> None then printf (indent @ ''no response'' @ crlf) w1
                else w1);
          w3 = (if pass then w2\<lparr>s_passed := s_passed w2 + 1\<rparr> else w2);
          w4 = w3\<lparr>s_step := s_step w3 + 1\<rparr>
      in if s_step w4 < s_seqLen w4 then w4\<lparr>s_state := SQ_DELAY, s_timer := TimeDrv_GetMs hal w4\<rparr>
         else (printf (''[TESTER] done: '' @ dec (unat (s_passed w4)) @ ''/'' @ dec (unat (s_seqLen w4))
                @ '' passed'' @ crlf) w4)\<lparr>s_state := SQ_IDLE\<rparr>)"

definition Start :: "('h, 'n) SensorHal_scheme \<Rightarrow> Step_t list \<Rightarrow> u8 \<Rightarrow> 'h Sensor \<Rightarrow> 'h Sensor" where
  "Start hal steps len w =
     (if s_state w \<noteq> SQ_IDLE then printf (''[TESTER] busy'' @ crlf) w
      else w\<lparr>s_seq := steps, s_seqLen := len, s_step := 0, s_passed := 0, s_state := SQ_DELAY,
             s_timer := TimeDrv_GetMs hal w\<rparr>)"

definition SendStep ::
  "('h, 'n) SensorHal_scheme \<Rightarrow> 'h Sensor link_state \<Rightarrow> 'h Sensor link_state option" where
  "SendStep hal s =
     (case s of (l, w) \<Rightarrow>
        let st = s_seq w ! unat (s_step w);
            w1 = w\<lparr>s_gotResp := False, s_respLen := 0\<rparr>;
            sent = (if sq_functional st then
                      (let sf = (replicate (unat ISOTP_CAN_DL) ISOTP_PADDING_BYTE)[0 := sq_reqLen st];
                           sf1 = write_at sf 1 (take (unat (sq_reqLen st)) (sq_req st))
                       in Some (l, snd (tester_SendFrame hal FUNCTIONAL_ID sf1 ISOTP_CAN_DL w1)))
                    else map_option snd (IsoTp_Transmit (tester_ops hal) (Some (sq_req st))
                           (ucast (sq_reqLen st)) (l, w1)))
        in map_option (\<lambda>(l2, w2). (l2, w2\<lparr>s_timer := TimeDrv_GetMs hal w2, s_state := SQ_WAIT\<rparr>)) sent)"

definition RunSequence ::
  "('h, 'n) SensorHal_scheme \<Rightarrow> 'h Sensor link_state \<Rightarrow> 'h Sensor link_state option" where
  "RunSequence hal s =
     (case s of (l, w) \<Rightarrow>
        let now = TimeDrv_GetMs hal w in
        case s_state w of
          SQ_DELAY \<Rightarrow>
            if now - s_timer w \<ge> ucast (sq_delayMs (s_seq w ! unat (s_step w)))
            then Some (l, w\<lparr>s_state := SQ_SEND\<rparr>) else Some s
        | SQ_SEND \<Rightarrow> if \<not> IsoTp_IsTxBusy (Some l) then SendStep hal s else Some s
        | SQ_WAIT \<Rightarrow>
            (let st = s_seq w ! unat (s_step w) in
             case sq_expect st of
               None \<Rightarrow>
                 if s_gotResp w then Some (l, Finish hal False w)
                 else if now - s_timer w \<ge> NO_RESPONSE_WAIT_MS then Some (l, Finish hal True w)
                 else Some s
             | Some expected \<Rightarrow>
                 if s_gotResp w then
                   Some (l, Finish hal (s_respLen w \<ge> ucast (sq_expectLen st) \<and>
                     take (unat (sq_expectLen st)) (s_resp w) = take (unat (sq_expectLen st)) expected) w)
                 else if now - s_timer w \<ge> RESPONSE_TIMEOUT_MS then Some (l, Finish hal False w)
                 else Some s)
        | SQ_IDLE \<Rightarrow> Some s)"

definition PrintHelp :: "'h Sensor \<Rightarrow> 'h Sensor" where
  "PrintHelp w =
     printf (''[TESTER] UDS tester -> Control ECU (0x7E0/0x7E8). Keys:'' @ crlf
       @ ''         t test  d DTCs  c clear  v version+speed  f functional  r hard reset  ? help'' @ crlf) w"

definition HandleKey :: "('h, 'n) SensorHal_scheme \<Rightarrow> u8 \<Rightarrow> 'h Sensor \<Rightarrow> 'h Sensor" where
  "HandleKey hal key w =
     (if key = of_char CHR ''t'' then Start hal k_seqTest (of_nat (length k_seqTest)) w
      else if key = of_char CHR ''d'' then Start hal k_seqDtc (of_nat (length k_seqDtc)) w
      else if key = of_char CHR ''c'' then Start hal k_seqClear (of_nat (length k_seqClear)) w
      else if key = of_char CHR ''v'' then Start hal k_seqVer (of_nat (length k_seqVer)) w
      else if key = of_char CHR ''f'' then Start hal k_seqFunc (of_nat (length k_seqFunc)) w
      else if key = of_char CHR ''r'' then Start hal k_seqReset (of_nat (length k_seqReset)) w
      else if key = of_char CHR ''?'' then PrintHelp w
      else w)"

subsection \<open>Public interface\<close>

definition tester_cfg :: IsoTp_Config_t where
  "tester_cfg =
     \<lparr>txId = CANID_UDS_REQ_CONTROL, rxId = CANID_UDS_RESP_CONTROL,
      rxBuffer = replicate 128 0, rxBufferSize = TESTER_BUFFER_SIZE,
      txBuffer = replicate 128 0, txBufferSize = TESTER_BUFFER_SIZE, blockSize = 0, stMin = 0,
      nBsTimeoutMs = 0, nCrTimeoutMs = 0\<rparr>"

definition TesterApp_Init :: "'h Sensor link_state \<Rightarrow> 'h Sensor link_state" where
  "TesterApp_Init s = (IsoTp_Init (Some tester_cfg) (fst s), PrintHelp (snd s))"

definition ring_next :: "u8 \<Rightarrow> u8" where
  "ring_next i = ucast ((ucast i + 1 :: u32) mod ucast RING_LEN)"

definition TesterApp_OnCanFrameIsr :: "CanDrv_Frame_t \<Rightarrow> 'h Sensor \<Rightarrow> 'h Sensor" where
  "TesterApp_OnCanFrameIsr frame w =
     (if frame_id frame \<noteq> CANID_UDS_RESP_CONTROL then w
      else if ring_next (s_head w) = s_tail w then w\<lparr>s_ringOverflow := s_ringOverflow w + 1\<rparr>
      else w\<lparr>s_ring := (s_ring w)[unat (s_head w) := frame], s_head := ring_next (s_head w)\<rparr>)"

text \<open>The interrupt's indication of \<open>sensor_app.c\<close>.\<close>

definition sensor_OnCanRx :: "CanDrv_Frame_t \<Rightarrow> 'h Sensor \<Rightarrow> 'h Sensor" where
  "sensor_OnCanRx frame w =
     TesterApp_OnCanFrameIsr frame
       (if frame_id frame = CANID_SENSOR_SPEED then w\<lparr>s_rxSpeedFrames := s_rxSpeedFrames w + 1\<rparr> else w)"

text \<open>Emptying the ring; the frame is passed on before its slot is released.\<close>

partial_function (option) drain ::
  "('h, 'n) SensorHal_scheme \<Rightarrow> 'h Sensor link_state \<Rightarrow> 'h Sensor link_state option" where
  "drain hal s =
     (if s_tail (snd s) \<noteq> s_head (snd s) then
        do {
          let frame = s_ring (snd s) ! unat (s_tail (snd s));
          (l, w) \<leftarrow> IsoTp_RxFrame (tester_ops hal) (Some (frame_data frame)) (frame_dlc frame) s;
          drain hal (l, w\<lparr>s_tail := ring_next (s_tail w)\<rparr>)
        }
      else Some s)"

definition TesterApp_Task ::
  "('h, 'n) SensorHal_scheme \<Rightarrow> 'h Sensor link_state \<Rightarrow> 'h Sensor link_state option" where
  "TesterApp_Task hal s =
     do {
       (l, w) \<leftarrow> drain hal s;
       let (key, w1) = UartDrv_ReadChar hal w;
       let w2 = (case key of None \<Rightarrow> w1 | Some k \<Rightarrow> HandleKey hal k w1);
       s3 \<leftarrow> IsoTp_MainFunction (tester_ops hal) (l, w2);
       RunSequence hal s3
     }"

end
