(* ===== verification/BoundedQueue.thy ===== *)
theory BoundedQueue
  imports Prelude
begin

section \<open>A bounded queue between an interrupt and a task\<close>

text \<open>
  The contract of a queue the interrupt puts frames into and the task takes them out of: elements
  come out in the order they went in, a full queue refuses an element and counts it. \<open>contents\<close>
  is the abstraction to a list. The clients' lemmas follow; TesterProps interprets the contract
  on the ring buffer of the tester.
\<close>

locale bounded_queue =
  fixes accepts :: "'x \<Rightarrow> bool" and put :: "'x \<Rightarrow> 's \<Rightarrow> 's" and pop :: "'s \<Rightarrow> 's" and front :: "'s \<Rightarrow> 'x" and is_empty :: "'s \<Rightarrow> bool"
    and ok :: "'s \<Rightarrow> bool" and contents :: "'s \<Rightarrow> 'x list" and refused :: "'s \<Rightarrow> u32" and cap :: nat
  assumes bound: "ok s \<Longrightarrow> length (contents s) \<le> cap"
    and empty: "ok s \<Longrightarrow> is_empty s \<longleftrightarrow> contents s = []"
    and put_ok: "ok s \<Longrightarrow> ok (put x s)"
    and ignored: "\<not> accepts x \<Longrightarrow> put x s = s"
    and put_room: "ok s \<Longrightarrow> accepts x \<Longrightarrow> length (contents s) < cap \<Longrightarrow>
      contents (put x s) = contents s @ [x] \<and> refused (put x s) = refused s"
    and put_full: "ok s \<Longrightarrow> accepts x \<Longrightarrow> length (contents s) = cap \<Longrightarrow>
      contents (put x s) = contents s \<and> refused (put x s) = refused s + 1"
    and pop: "ok s \<Longrightarrow> \<not> is_empty s \<Longrightarrow> ok (pop s) \<and> contents s = front s # contents (pop s)"
begin

text \<open>A burst of arrivals: of those it accepts, the first that fit are kept, in order, and the others
  are counted.\<close>

lemma burst:
  assumes "ok s"
  shows "ok (fold put xs s) \<and> contents (fold put xs s) = take cap (contents s @ filter accepts xs) \<and>
    refused (fold put xs s) = refused s + of_nat (length (contents s) + length (filter accepts xs) - cap)"
  using assms
proof (induction xs arbitrary: s)
  case Nil
  then show ?case using bound [of s] by simp
next
  case (Cons x xs)
  note IH = Cons.IH [OF put_ok [OF Cons.prems]]
  have le: "length (contents s) \<le> cap" using bound Cons.prems by blast
  show ?case
  proof (cases "accepts x")
    case False
    then show ?thesis using IH [of x] by (simp add: ignored)
  next
    case acc: True
    show ?thesis
    proof (cases "length (contents s) = cap")
      case True
      then show ?thesis using IH put_full [OF Cons.prems acc] acc by (simp add: add.assoc)
    next
      case False
      with le have "length (contents s) < cap" by simp
      then show ?thesis using IH put_room [OF Cons.prems acc] acc by (simp add: take_Cons')
    qed
  qed
qed

text \<open>The number of elements taken out until the queue is empty.\<close>

lemma pops:
  assumes "ok s" "n \<le> length (contents s)"
  shows "ok ((pop ^^ n) s) \<and> contents ((pop ^^ n) s) = drop n (contents s)"
  using assms(2)
proof (induction n)
  case 0
  then show ?case using assms(1) by simp
next
  case (Suc n)
  then have IH: "ok ((pop ^^ n) s)" "contents ((pop ^^ n) s) = drop n (contents s)" by simp_all
  then have "\<not> is_empty ((pop ^^ n) s)" using empty [OF IH(1)] Suc.prems by simp
  from pop [OF IH(1) this] IH(2) show ?case by (metis drop_Suc_Cons drop_drop add.commute plus_1_eq_Suc drop0 funpow.simps(2) o_apply)
qed

end

end
