(* ===== verification/TesterProps.thy ===== *)
theory TesterProps
  imports TesterApp SensorProps IsoTpWorld BoundedQueue
begin

section \<open>The tester: what its ring buffer promises\<close>

text \<open>
  The single-producer single-consumer ring between the receive interrupt and the task of
  \<open>tester_app.c\<close> is a bounded queue: the interface of BoundedQueue, interpreted on the model of the
  interrupt's callback and of the task's pop.
\<close>

subsection \<open>The ring buffer\<close>

definition ring_len :: "'h Sensor \<Rightarrow> nat" where
  "ring_len w = (unat (s_head w) + 32 - unat (s_tail w)) mod 32"

definition ring_contents :: "'h Sensor \<Rightarrow> CanDrv_Frame_t list" where
  "ring_contents w = map (\<lambda>i. s_ring w ! ((unat (s_tail w) + i) mod 32)) [0..<ring_len w]"

definition ring_ok :: "'h Sensor \<Rightarrow> bool" where
  "ring_ok w \<longleftrightarrow> length (s_ring w) = 32 \<and> unat (s_head w) < 32 \<and> unat (s_tail w) < 32"

definition ring_pop :: "'h Sensor \<Rightarrow> 'h Sensor" where
  "ring_pop w = w\<lparr>s_tail := ring_next (s_tail w)\<rparr>"

lemma unat_ring_next: "unat i < 32 \<Longrightarrow> unat (ring_next i) = (unat i + 1) mod 32"
proof -
  assume i: "unat i < 32"
  have "unat (ucast i + 1 :: u32) = unat i + 1"
    using i by (simp add: unat_Suc_word unsigned_ucast_eq take_bit_nat_eq_self)
  then have "unat ((ucast i + 1 :: u32) mod ucast RING_LEN) = (unat i + 1) mod 32"
    by (simp add: RING_LEN_def unat_mod)
  then show ?thesis
    using i by (simp add: ring_next_def unsigned_ucast_eq take_bit_nat_eq_self)
qed

lemma mod_32_if: "x < 64 \<Longrightarrow> x mod 32 = (if x < 32 then x else x - 32 :: nat)"
  by (simp add: le_mod_geq)

lemma ring_arith:
  fixes h t :: nat
  assumes "h < 32" "t < 32"
  shows "(h + 1) mod 32 = t \<longleftrightarrow> (h + 32 - t) mod 32 = 31"
    "(h + 1) mod 32 \<noteq> t \<Longrightarrow> ((h + 1) mod 32 + 32 - t) mod 32 = (h + 32 - t) mod 32 + 1"
    "h \<noteq> t \<Longrightarrow> (h + 32 - (t + 1) mod 32) mod 32 + 1 = (h + 32 - t) mod 32"
    "(t + (h + 32 - t) mod 32) mod 32 = h" "(h + 32 - t) mod 32 = 0 \<longleftrightarrow> h = t"
  using assms by (auto simp: mod_32_if split: if_splits)

lemma ring_next_eq: "unat i < 32 \<Longrightarrow> ring_next i = j \<longleftrightarrow> (unat i + 1) mod 32 = unat j"
  by (metis unat_ring_next word_unat_eq_iff)

lemma ring_put_contents:
  assumes "ring_ok w" "ring_next (s_head w) \<noteq> s_tail w"
    and "w' = w\<lparr>s_ring := (s_ring w)[unat (s_head w) := f], s_head := ring_next (s_head w)\<rparr>"
  shows "ring_contents w' = ring_contents w @ [f]" "ring_ok w'"
proof -
  note ok = assms(1) [unfolded ring_ok_def]
  note ar = ring_arith [of "unat (s_head w)" "unat (s_tail w)"]
  have len: "ring_len w' = ring_len w + 1"
    using ok ar(2) assms(2) ring_next_eq [of "s_head w" "s_tail w"] by (simp add: ring_len_def assms(3) unat_ring_next)
  have "(s_ring w)[unat (s_head w) := f] ! ((unat (s_tail w) + i) mod 32) = s_ring w ! ((unat (s_tail w) + i) mod 32)"
    if "i < ring_len w" for i
  proof (rule nth_list_update_neq)
    have "ring_len w < 32" by (simp add: ring_len_def)
    then show "unat (s_head w) \<noteq> (unat (s_tail w) + i) mod 32" using that ok ar(4) by (auto simp: ring_len_def mod_32_if split: if_splits)
  qed
  moreover have "(unat (s_tail w) + ring_len w) mod 32 = unat (s_head w)"
    using ar(4) ok by (simp add: ring_len_def)
  ultimately show "ring_contents w' = ring_contents w @ [f]"
    using ok by (simp add: ring_contents_def len) (simp add: assms(3))
  show "ring_ok w'" using ok unat_ring_next [of "s_head w"] by (simp add: ring_ok_def assms(3))
qed

lemma ring_pop_contents:
  assumes "ring_ok w" "s_tail w \<noteq> s_head w"
  shows "ring_ok (ring_pop w)" "ring_contents w = s_ring w ! unat (s_tail w) # ring_contents (ring_pop w)"
proof -
  note ok = assms(1) [unfolded ring_ok_def]
  have ne: "unat (s_head w) \<noteq> unat (s_tail w)" using assms(2) by (simp add: word_unat_eq_iff)
  have t: "unat (s_tail (ring_pop w)) = (unat (s_tail w) + 1) mod 32"
    using ok by (simp add: ring_pop_def unat_ring_next)
  then show "ring_ok (ring_pop w)" using ok by (simp add: ring_ok_def) (simp add: ring_pop_def)
  have len: "ring_len w = Suc (ring_len (ring_pop w))"
    using ring_arith(3) [OF _ _ ne] ok t by (simp add: ring_len_def) (simp add: ring_pop_def)
  have "((unat (s_tail w) + 1) mod 32 + i) mod 32 = (unat (s_tail w) + Suc i) mod 32" for i
    by (simp add: mod_add_left_eq)
  then show "ring_contents w = s_ring w ! unat (s_tail w) # ring_contents (ring_pop w)"
    using ok by (simp add: ring_contents_def len t upt_conv_Cons map_Suc_upt [symmetric] del: upt_Suc)
      (simp add: ring_pop_def)
qed


interpretation ring: bounded_queue "\<lambda>f. frame_id f = CANID_UDS_RESP_CONTROL" TesterApp_OnCanFrameIsr ring_pop
  "\<lambda>w. s_ring w ! unat (s_tail w)" "\<lambda>w. s_tail w = s_head w" ring_ok ring_contents s_ringOverflow 31
proof
  fix w :: "'h Sensor" and f :: CanDrv_Frame_t
  assume ok: "ring_ok w"
  note ok' = ok [unfolded ring_ok_def]
  have full: "ring_next (s_head w) = s_tail w \<longleftrightarrow> ring_len w = 31"
    using ring_arith(1) [of "unat (s_head w)" "unat (s_tail w)"] ok' by (simp add: ring_next_eq ring_len_def)
  have len: "length (ring_contents w) = ring_len w" by (simp add: ring_contents_def)
  have "ring_len w < 32" by (simp add: ring_len_def)
  then show "length (ring_contents w) \<le> 31" by (simp add: len)
  show "s_tail w = s_head w \<longleftrightarrow> ring_contents w = []"
    using ring_arith(5) [of "unat (s_head w)" "unat (s_tail w)"] ok'
    by (auto simp: ring_contents_def ring_len_def word_unat_eq_iff)
  show "ring_ok (TesterApp_OnCanFrameIsr f w)"
    using ring_put_contents(2) [OF ok _ refl, of f] ok by (auto simp: TesterApp_OnCanFrameIsr_def ring_ok_def)
  show "frame_id f = CANID_UDS_RESP_CONTROL \<Longrightarrow> length (ring_contents w) < 31 \<Longrightarrow>
      ring_contents (TesterApp_OnCanFrameIsr f w) = ring_contents w @ [f] \<and>
      s_ringOverflow (TesterApp_OnCanFrameIsr f w) = s_ringOverflow w"
    using ring_put_contents(1) [OF ok _ refl, of f] full len by (auto simp: TesterApp_OnCanFrameIsr_def)
  show "frame_id f = CANID_UDS_RESP_CONTROL \<Longrightarrow> length (ring_contents w) = 31 \<Longrightarrow>
      ring_contents (TesterApp_OnCanFrameIsr f w) = ring_contents w \<and>
      s_ringOverflow (TesterApp_OnCanFrameIsr f w) = s_ringOverflow w + 1"
    using full len by (simp add: TesterApp_OnCanFrameIsr_def) (simp add: ring_contents_def ring_len_def)
  show "s_tail w \<noteq> s_head w \<Longrightarrow> ring_ok (ring_pop w) \<and>
      ring_contents w = s_ring w ! unat (s_tail w) # ring_contents (ring_pop w)"
    using ring_pop_contents [OF ok] by blast
next
  fix f and w :: "'h Sensor"
  show "frame_id f \<noteq> CANID_UDS_RESP_CONTROL \<Longrightarrow> TesterApp_OnCanFrameIsr f w = w"
    by (simp add: TesterApp_OnCanFrameIsr_def)
qed

text \<open>Between two turns of the tester's task the ring buffer keeps, of all frames the interrupt delivers, the
  diagnostic responses, in order, as long as they fit its 31 usable slots, and counts the others; no write
  leaves the buffer.\<close>

theorem Ring_keeps_responses:
  assumes "ring_ok w"
  shows "ring_ok (fold TesterApp_OnCanFrameIsr fs w) \<and>
    ring_contents (fold TesterApp_OnCanFrameIsr fs w)
      = take 31 (ring_contents w @ filter (\<lambda>f. frame_id f = CANID_UDS_RESP_CONTROL) fs) \<and>
    s_ringOverflow (fold TesterApp_OnCanFrameIsr fs w) = s_ringOverflow w +
      of_nat (length (ring_contents w) + length (filter (\<lambda>f. frame_id f = CANID_UDS_RESP_CONTROL) fs) - 31)"
  using ring.burst [OF assms] .

lemma bench_ring: "ring_ok bench" "ring_contents bench = []"
  by (simp_all add: ring_ok_def ring_contents_def ring_len_def bench_def)

theorem Ring_keeps_responses_witness:
  "ring_contents (fold TesterApp_OnCanFrameIsr
     [frame0\<lparr>frame_id := CANID_UDS_RESP_CONTROL\<rparr>, frame0, frame0\<lparr>frame_id := CANID_UDS_RESP_CONTROL, frame_dlc := 3\<rparr>] bench)
   = [frame0\<lparr>frame_id := CANID_UDS_RESP_CONTROL\<rparr>, frame0\<lparr>frame_id := CANID_UDS_RESP_CONTROL, frame_dlc := 3\<rparr>]"
  using Ring_keeps_responses [OF bench_ring(1), of "[frame0\<lparr>frame_id := CANID_UDS_RESP_CONTROL\<rparr>, frame0,
      frame0\<lparr>frame_id := CANID_UDS_RESP_CONTROL, frame_dlc := 3\<rparr>]"]
  by (simp add: bench_ring frame0_def CANID_UDS_RESP_CONTROL_def)

end
