(* ===== verification/SensorMain.thy ===== *)
theory SensorMain
  imports TesterApp
begin

section \<open>Start-up and main loop of the Sensor ECU (sensor_ecu/Core/Src/main.c)\<close>

text \<open>
  The clock tree, the CAN controller and the tick timer are configured with the numbers of the
  generated code; the generated functions that only set up pins, the ADC and the UART are fields
  of \<open>SensorMainHal\<close>. \<open>Error_Handler\<close> disables the interrupts and never returns: \<open>None\<close>.
\<close>

record RCC_PLLInit =
  PLLM :: nat
  PLLN :: nat
  PLLP :: nat
  PLLQ :: nat
  PLLR :: nat

record RCC_ClkInit =
  AHBCLKDivider :: nat
  APB1CLKDivider :: nat
  APB2CLKDivider :: nat

record TIM_Init =
  Prescaler :: u32
  Period :: u32

record 'h SensorMainHal = "'h SensorHal" +
  HAL_Init :: "'h \<Rightarrow> 'h"
  HAL_PWREx_ControlVoltageScaling_BOOST :: "'h \<Rightarrow> 'h"
  HAL_RCC_OscConfig :: "RCC_PLLInit \<Rightarrow> 'h \<Rightarrow> HAL_Status \<times> 'h"
  HAL_RCC_ClockConfig :: "RCC_ClkInit \<Rightarrow> 'h \<Rightarrow> HAL_Status \<times> 'h"
  HAL_TIM_Base_Init :: "TIM_Init \<Rightarrow> 'h \<Rightarrow> HAL_Status \<times> 'h"
  HAL_TIMEx_MasterConfigSynchronization :: "'h \<Rightarrow> HAL_Status \<times> 'h"
  HAL_TIM_Base_Start_IT :: "'h \<Rightarrow> HAL_Status \<times> 'h"
  MX_GPIO_Init :: "'h \<Rightarrow> 'h"
  MX_ADC1_Init :: "'h \<Rightarrow> 'h option"
  MX_USART2_UART_Init :: "'h \<Rightarrow> 'h option"

text \<open>The flag and the counter of the tick, beside the link and the state of the applications.\<close>

record 'h SensorMain =
  main_link :: IsoTp_Link_t
  main_app :: "'h Sensor"
  s_tick10ms :: bool
  s_tickOverruns :: u32

definition sensor_PeriodElapsedCallback :: "bool \<Rightarrow> 'h SensorMain \<Rightarrow> 'h SensorMain" where
  "sensor_PeriodElapsedCallback tim6 m =
     (if tim6 then
        (let m1 = (if s_tick10ms m then m\<lparr>s_tickOverruns := s_tickOverruns m + 1\<rparr> else m)
         in m1\<lparr>s_tick10ms := True\<rparr>)
      else m)"

subsection \<open>Configuration\<close>

text \<open>A HAL call whose failure ends in \<open>Error_Handler\<close>.\<close>

definition or_error :: "('h \<Rightarrow> HAL_Status \<times> 'h) \<Rightarrow> 'h \<Rightarrow> 'h option" where
  "or_error f h = (case f h of (st, h1) \<Rightarrow> if st \<noteq> HAL_OK then None else Some h1)"

definition sensor_pll :: RCC_PLLInit where
  "sensor_pll = \<lparr>PLLM = 6, PLLN = 85, PLLP = 2, PLLQ = 2, PLLR = 2\<rparr>"

definition sensor_clk :: RCC_ClkInit where
  "sensor_clk = \<lparr>AHBCLKDivider = 1, APB1CLKDivider = 1, APB2CLKDivider = 1\<rparr>"

definition sensor_SystemClock_Config :: "('h, 'n) SensorMainHal_scheme \<Rightarrow> 'h \<Rightarrow> 'h option" where
  "sensor_SystemClock_Config hal h =
     do {
       h1 \<leftarrow> or_error (HAL_RCC_OscConfig hal sensor_pll) (HAL_PWREx_ControlVoltageScaling_BOOST hal h);
       or_error (HAL_RCC_ClockConfig hal sensor_clk) h1
     }"

definition FDCAN_MODE_NORMAL :: u32 where "FDCAN_MODE_NORMAL = 0"

definition sensor_can_init :: FDCAN_Init where
  "sensor_can_init =
     \<lparr>initMode = FDCAN_MODE_NORMAL, NominalPrescaler = 10, NominalTimeSeg1 = 29, NominalTimeSeg2 = 4,
      NominalSyncJumpWidth = 4\<rparr>"

definition sensor_MX_FDCAN1_Init :: "('h, 'n) FdcanHal_scheme \<Rightarrow> 'h Sensor \<Rightarrow> 'h Sensor option" where
  "sensor_MX_FDCAN1_Init hal w =
     map_option (\<lambda>h. w\<lparr>hfdcan1_Init := sensor_can_init, hfdcan1 := h\<rparr>)
       (or_error (HAL_FDCAN_Init hal sensor_can_init) (hfdcan1 w))"

definition tim6_init :: TIM_Init where
  "tim6_init = \<lparr>Prescaler = 16999, Period = 99\<rparr>"

definition MX_TIM6_Init :: "('h, 'n) SensorMainHal_scheme \<Rightarrow> 'h \<Rightarrow> 'h option" where
  "MX_TIM6_Init hal h =
     do { h1 \<leftarrow> or_error (HAL_TIM_Base_Init hal tim6_init) h;
          or_error (HAL_TIMEx_MasterConfigSynchronization hal) h1 }"

subsection \<open>main\<close>

definition on_peripherals :: "('h \<Rightarrow> 'h option) \<Rightarrow> 'h Sensor \<Rightarrow> 'h Sensor option" where
  "on_peripherals f w = map_option (\<lambda>h. w\<lparr>hfdcan1 := h\<rparr>) (f (hfdcan1 w))"

definition sensor_main_init :: "('h, 'n) SensorMainHal_scheme \<Rightarrow> 'h SensorMain \<Rightarrow> 'h SensorMain option" where
  "sensor_main_init hal m =
     do {
       w1 \<leftarrow> on_peripherals (sensor_SystemClock_Config hal) ((main_app m)\<lparr>hfdcan1 := HAL_Init hal (hfdcan1 (main_app m))\<rparr>);
       w2 \<leftarrow> sensor_MX_FDCAN1_Init hal (w1\<lparr>hfdcan1 := MX_GPIO_Init hal (hfdcan1 w1)\<rparr>);
       w3 \<leftarrow> on_peripherals (MX_ADC1_Init hal) w2;
       w4 \<leftarrow> on_peripherals (MX_TIM6_Init hal) w3;
       w5 \<leftarrow> on_peripherals (MX_USART2_UART_Init hal) w4;
       let (ok, w6) = SensorApp_Init hal w5;
       if \<not> ok then None
       else
         (let (l, w7) = TesterApp_Init (main_link m, w6)
          in map_option (\<lambda>w8. m\<lparr>main_link := l, main_app := w8\<rparr>)
               (on_peripherals (or_error (HAL_TIM_Base_Start_IT hal)) w7))
     }"

text \<open>
  The endless loop, in the steps an interrupt can fall between: the test of the flag, its reset,
  the two tasks.
\<close>

datatype main_pc = At_test | At_reset | At_tasks

definition sensor_main_step ::
  "('h, 'n) SensorHal_scheme \<Rightarrow> main_pc \<times> 'h SensorMain \<Rightarrow> (main_pc \<times> 'h SensorMain) option" where
  "sensor_main_step hal s =
     (case s of (pc, m) \<Rightarrow>
        case pc of
          At_test \<Rightarrow> Some (if s_tick10ms m then At_reset else At_test, m)
        | At_reset \<Rightarrow> Some (At_tasks, m\<lparr>s_tick10ms := False\<rparr>)
        | At_tasks \<Rightarrow>
            map_option (\<lambda>(l, w). (At_test, m\<lparr>main_link := l, main_app := w\<rparr>))
              (TesterApp_Task hal (main_link m, SensorApp_Task10ms hal (main_app m))))"

end
