(* ===== verification/SensorInvariant.thy ===== *)
theory SensorInvariant
  imports TesterProps SensorMain IsoTpTotal IsoTpTheorems
begin

section \<open>The Sensor ECU as a whole\<close>

text \<open>
  The invariant of everything that runs on the Sensor ECU (the filter, the ring, the tester's link and
  its sequencer, the tick), under the main loop of \<open>main.c\<close> interleaved with its interrupts.
\<close>

subsection \<open>The invariant of the applications\<close>

text \<open>A step of a sequence: the lengths it states are those of its arrays, and a functional request fits
  a single frame.\<close>

definition seq_step_ok :: "Step_t \<Rightarrow> bool" where
  "seq_step_ok st \<longleftrightarrow> length (sq_req st) = unat (sq_reqLen st) \<and> 0 < sq_reqLen st \<and>
     (sq_functional st \<longrightarrow> sq_reqLen st \<le> 7) \<and>
     (\<forall>e. sq_expect st = Some e \<longrightarrow> length e = unat (sq_expectLen st))"

definition tester_ok :: "'h Sensor \<Rightarrow> bool" where
  "tester_ok w \<longleftrightarrow> length (s_resp w) = 128 \<and> s_respLen w \<le> 128 \<and>
     list_all seq_step_ok (s_seq w) \<and> length (s_seq w) = unat (s_seqLen w) \<and>
     s_passed w \<le> s_step w \<and> s_step w \<le> s_seqLen w \<and> (s_state w \<noteq> SQ_IDLE \<longrightarrow> s_step w < s_seqLen w)"

definition sensor_ok :: "'h Sensor \<Rightarrow> bool" where
  "sensor_ok w \<longleftrightarrow> filter_ok w \<and> ring_ok w \<and> tester_ok w \<and> s_btnStableTicks w \<le> 3 \<and>
     s_speedAlive w \<le> 15 \<and> s_aliveAlive w \<le> 15"

text \<open>What the operations of the link leave alone: the ring and the sequencer.\<close>

definition task_view :: "'h Sensor \<Rightarrow> (CanDrv_Frame_t list \<times> u8 \<times> u8) \<times> Step_t list \<times> u8 \<times> u8 \<times> u8 \<times> State_t" where
  "task_view w = ((s_ring w, s_head w, s_tail w), s_seq w, s_seqLen w, s_step w, s_passed w, s_state w)"

lemmas sensor_ok_defs = sensor_ok_def filter_ok_def ring_ok_def tester_ok_def

lemma sensor_ok_more:
  assumes "CanDrv.more w' = CanDrv.more (w :: 'h Sensor)"
  shows "sensor_ok w' = sensor_ok w" "task_view w' = task_view w"
  using assms by (cases w; cases w'; simp add: sensor_ok_defs task_view_def)+

lemma sensor_ok_hfdcan1 [simp]: "sensor_ok (w\<lparr>hfdcan1 := h\<rparr>) = sensor_ok w"
  by (rule sensor_ok_more) simp

lemma sensor_ok_printf [simp]: "sensor_ok (printf m w) = sensor_ok w"
  by (simp add: printf_def sensor_ok_defs)

lemma printf_fields [simp]:
  "s_ring (printf m w) = s_ring w" "s_head (printf m w) = s_head w" "s_tail (printf m w) = s_tail w"
  "s_resp (printf m w) = s_resp w" "s_respLen (printf m w) = s_respLen w" "s_seq (printf m w) = s_seq w"
  "s_seqLen (printf m w) = s_seqLen w" "s_step (printf m w) = s_step w" "s_passed (printf m w) = s_passed w"
  "s_state (printf m w) = s_state w" "s_gotResp (printf m w) = s_gotResp w" "s_tick (printf m w) = s_tick w"
  "hfdcan1 (printf m w) = hfdcan1 w" "s_timer (printf m w) = s_timer w"
  by (simp_all add: printf_def)

subsection \<open>The drivers\<close>

lemma hal_call_sensor_more: "CanDrv.more (snd (hal_call f w)) = CanDrv.more w"
  by (simp add: hal_call_def split: prod.split)

lemma sensor_Write_more: "CanDrv.more (snd (sensor_CanDrv_Write hal f w)) = CanDrv.more w"
  by (cases f) (auto simp: sensor_CanDrv_Write_def Let_def count_dropped_def count_queued_def hal_call_def
      split: prod.split)

lemma sensor_MainFunction_more: "CanDrv.more (sensor_CanDrv_MainFunction hal w) = CanDrv.more w"
  by (simp add: sensor_CanDrv_MainFunction_def Let_def)

lemma AdcDrv_Read_more: "CanDrv.more (snd (snd (AdcDrv_Read hal v w))) = CanDrv.more w"
  by (cases v) (auto simp: AdcDrv_Read_def Let_def hal_call_def split: prod.split)

lemma ReadChar_more: "CanDrv.more (snd (UartDrv_ReadChar hal w)) = CanDrv.more w"
  by (simp add: UartDrv_ReadChar_def Let_def split: prod.split)

lemmas driver_ok = sensor_Write_more [THEN sensor_ok_more(1)] sensor_MainFunction_more [THEN sensor_ok_more(1)]
  AdcDrv_Read_more [THEN sensor_ok_more(1)] ReadChar_more [THEN sensor_ok_more(1)]

subsection \<open>The 10 ms task\<close>

lemma and_15_le: "x AND 15 \<le> (15 :: u8)"
  by (rule word_and_le1)

lemma HandleButton_sensor_ok: "sensor_ok w \<Longrightarrow> sensor_ok (sensor_HandleButton hal w)"
  by (auto simp: sensor_HandleButton_def Let_def sensor_BUTTON_DEBOUNCE_TICKS_def)
    (auto simp: sensor_ok_defs word_inc_le)

lemma SampleInput_ok:
  assumes "sensor_ok w"
  shows "sensor_ok (SampleInput hal w)"
proof -
  obtain st raw w1 where r: "AdcDrv_Read hal (Some 0) w = (st, raw, w1)" by (metis prod_cases3)
  have w1: "sensor_ok w1" using driver_ok(3) [of hal "Some 0" w] assms r by simp
  obtain avg w3 where f: "FilterUpdate (the raw) (w1\<lparr>s_adcError := False\<rparr>) = (avg, w3)" by fastforce
  have "filter_ok (w1\<lparr>s_adcError := False\<rparr>)" using w1 by (simp add: sensor_ok_def filter_ok_def)
  from FilterUpdate_ok(1) [OF this f] have "filter_ok w3" .
  then have "sensor_ok (w3\<lparr>s_adcFiltered := avg\<rparr>)"
    using w1 f by (auto simp: sensor_ok_defs FilterUpdate_def Let_def)
  moreover have "sensor_ok (w1\<lparr>s_adcError := True\<rparr>)" using w1 by (simp add: sensor_ok_defs)
  ultimately show ?thesis by (simp add: SampleInput_def r f Let_def)
qed

lemma SendSpeedFrame_ok:
  assumes "sensor_ok w"
  shows "sensor_ok (SendSpeedFrame hal w)"
proof (cases "s_faultMode w = FAULT_SILENT")
  case True
  then show ?thesis using assms by (simp add: SendSpeedFrame_def)
next
  case False
  obtain f where "SendSpeedFrame hal w = snd (sensor_CanDrv_Write hal
       (Some \<lparr>frame_id = 0x100, frame_dlc = 8, frame_data = f\<rparr>) (w\<lparr>s_speedAlive := (s_speedAlive w + 1) AND 0x0F\<rparr>))"
    using SendSpeedFrame_cases [OF False, of hal] by metis
  then show ?thesis using assms and_15_le by (simp add: driver_ok) (simp add: sensor_ok_defs)
qed

lemma SendAliveFrame_ok:
  assumes "sensor_ok w"
  shows "sensor_ok (SendAliveFrame hal w)"
proof -
  have len: "length (PutU32Be i v xs) = length xs" for i v xs by (simp add: PutU32Be_def)
  define stats where "stats = the (sensor_CanDrv_GetStats (Some \<lparr>txQueued = 0, txDropped = 0, rxCount = 0, busOffCount = 0\<rparr>) w)"
  define data where "data = (PutU32Be 1 (s_tick w div TICKS_PER_SECOND)
                    ((replicate 8 0)[0 := if s_faultMode w = FAULT_NONE then 0 else 1]))
                 [5 := if busOffCount stats > 255 then 255 else ucast (busOffCount stats)]"
  have "length data = 8" by (simp add: data_def len)
  then obtain f where f: "E2e_Protect (Some data) (Some (s_aliveAlive w)) = Some (f, (s_aliveAlive w + 1) AND 0x0F)"
    by (rule E2e_Protect_Some)
  show ?thesis
    unfolding SendAliveFrame_def Let_def stats_def [symmetric] data_def [symmetric] f option.sel prod.case driver_ok(1)
    using assms and_15_le by (simp add: sensor_ok_defs)
qed

lemma Task10ms_ok:
  assumes "sensor_ok w"
  shows "sensor_ok (SensorApp_Task10ms hal w)"
proof -
  have "sensor_ok (w\<lparr>s_tick := t\<rparr>)" for t using assms by (simp add: sensor_ok_defs)
  then have w2: "sensor_ok (SendSpeedFrame hal (SampleInput hal (sensor_HandleButton hal (w\<lparr>s_tick := t\<rparr>))))" for t
    by (intro SendSpeedFrame_ok SampleInput_ok HandleButton_sensor_ok)
  show ?thesis
    using w2 by (simp add: SensorApp_Task10ms_def Let_def UpdateLed_def GpioDrv_ToggleLed_def sensor_LogStatus_def
        driver_ok SendAliveFrame_ok)
qed

subsection \<open>The tester's link\<close>

lemma OnResponse_keeps: "OnResponse data n r (l, w) = Some s' \<Longrightarrow> fst s' = l"
  by (auto simp: OnResponse_def split: if_splits)

lemma tester_SendFrame_more: "CanDrv.more (snd (tester_SendFrame hal i d n w)) = CanDrv.more w"
  unfolding tester_SendFrame_def by (simp add: sensor_Write_more split_beta Let_def)

lemma tester_SendFrame_log:
  assumes "tester_SendFrame hal i f 8 w = (ok, w')" "length f = 8"
  shows "can_sent w' = (if ok then can_sent w @ [(i, f)] else can_sent w)"
  using assms by (auto simp: tester_SendFrame_def can_sent_def write_at_same_tail split: prod.splits
      dest!: sensor_Write_trace)

interpretation tester_link: isotp_link_total "tester_ops hal" can_sent for hal :: "('h, 'n) SensorHal_scheme"
proof
  fix i f w ok w'
  assume "sendFrame (tester_ops hal) i f 8 w = (ok, w')" "length f = 8"
  then show "can_sent w' = (if ok then can_sent w @ [(i, f)] else can_sent w)"
    by (simp add: tester_ops_def tester_SendFrame_log)
qed (auto simp: tester_ops_def dest!: OnResponse_keeps)

interpretation tester_total: isotp_total "tester_ops hal" for hal :: "('h, 'n) SensorHal_scheme"
  by unfold_locales (auto simp: tester_ops_def OnResponse_def split: if_splits)

lemma OnResponse_ok:
  assumes "OnResponse data n r (l, w) = Some (l', w')" "sensor_ok w"
  shows "sensor_ok w' \<and> task_view w' = task_view w"
proof -
  have "length (s_resp w) = 128" using assms(2) by (simp add: sensor_ok_defs)
  then have "sensor_ok (w\<lparr>s_resp := write_at (s_resp w) 0 (take (unat n) data), s_respLen := n, s_gotResp := True\<rparr>)"
    if "unat n \<le> length (s_resp w)"
    using assms(2) that by (simp add: sensor_ok_defs word_le_nat_alt) 
  then show ?thesis using assms by (auto simp: OnResponse_def task_view_def split: if_splits)
qed

interpretation tester_world: isotp_world "tester_ops hal"
    "\<lambda>w. sensor_ok w \<and> task_view w = r" for hal :: "('h, 'n) SensorHal_scheme" and r
proof
  fix i f dlc ok and w w' :: "'h Sensor"
  assume s: "sendFrame (tester_ops hal) i f dlc w = (ok, w')" and p: "sensor_ok w \<and> task_view w = r"
  then have "CanDrv.more w' = CanDrv.more w"
    using tester_SendFrame_more [of hal i f dlc w] by (simp add: tester_ops_def)
  from sensor_ok_more [OF this] p show "sensor_ok w' \<and> task_view w' = r" by simp
next
  fix f data n r' l s' and w :: "'h Sensor"
  assume "rxIndication (tester_ops hal) = Some f" "f data n r' (l, w) = Some s'"
    and p: "sensor_ok w \<and> task_view w = r"
  then have "OnResponse data n r' (l, w) = Some (fst s', snd s')" by (simp add: tester_ops_def)
  from OnResponse_ok [OF this] p show "sensor_ok (snd s') \<and> task_view (snd s') = r"
    by simp
qed (auto simp: tester_ops_def)

subsection \<open>Emptying the ring\<close>

primrec deliver ::
  "('h, 'n) SensorHal_scheme \<Rightarrow> CanDrv_Frame_t list \<Rightarrow> 'h Sensor link_state \<Rightarrow> 'h Sensor link_state option" where
  "deliver hal [] s = Some s"
| "deliver hal (f # fs) s =
     do { (l, w) \<leftarrow> IsoTp_RxFrame (tester_ops hal) (Some (frame_data f)) (frame_dlc f) s;
          deliver hal fs (l, ring_pop w) }"

lemma ring_contents_cong:
  "task_view w' = task_view w \<Longrightarrow> ring_contents w' = ring_contents w"
  by (simp add: ring_contents_def ring_len_def task_view_def)

lemma ring_pop_sensor_ok: "sensor_ok w \<Longrightarrow> s_tail w \<noteq> s_head w \<Longrightarrow> sensor_ok (ring_pop w)"
  using ring_pop_contents(1) [of w] by (simp add: sensor_ok_def) (simp add: ring_pop_def filter_ok_def tester_ok_def)

lemma drain_delivers:
  assumes "link_wf l" "sensor_ok w"
  shows "\<exists>l' w'. drain hal (l, w) = Some (l', w') \<and> deliver hal (ring_contents w) (l, w) = Some (l', w') \<and>
    link_wf l' \<and> sensor_ok w' \<and> ring_contents w' = []"
  using assms
proof (induction "length (ring_contents w)" arbitrary: l w)
  case 0
  then have "s_tail w = s_head w" using ring.empty [of w] by (simp add: sensor_ok_def)
  then show ?case using 0 by (subst drain.simps) simp
next
  case (Suc n)
  have ok: "ring_ok w" using Suc.prems(2) by (simp add: sensor_ok_def)
  then have ne: "s_tail w \<noteq> s_head w" using ring.empty [of w] Suc.hyps(2) by auto
  define f where "f = s_ring w ! unat (s_tail w)"
  obtain l1 w1 where rx: "IsoTp_RxFrame (tester_ops hal) (Some (frame_data f)) (frame_dlc f) (l, w) = Some (l1, w1)"
    using tester_total.RxFrame_returns [OF Suc.prems(1)] by fastforce
  have l1: "link_wf l1" using tester_link.IsoTp_RxFrame_link_wf [OF rx Suc.prems(1)] by simp
  have w1: "sensor_ok w1" "task_view w1 = task_view w"
    using tester_world.IsoTp_RxFrame_P [OF rx, of "task_view w"] Suc.prems(2) by simp_all
  have c: "ring_contents w = f # ring_contents (ring_pop w1)"
    using ring_pop_contents(2) [of w1] ring_contents_cong [OF w1(2)] w1 ne by (simp add: sensor_ok_def f_def task_view_def)
  have "sensor_ok (ring_pop w1)" using ring_pop_sensor_ok [of w1] w1 ne by (simp add: task_view_def)
  moreover have "n = length (ring_contents (ring_pop w1))" using c Suc.hyps(2) by simp
  ultimately obtain l' w' where "drain hal (l1, ring_pop w1) = Some (l', w')"
    "deliver hal (ring_contents (ring_pop w1)) (l1, ring_pop w1) = Some (l', w')"
    "link_wf l'" "sensor_ok w'" "ring_contents w' = []"
    using Suc.hyps(1) [OF _ l1] by blast
  moreover have "drain hal (l, w) = drain hal (l1, ring_pop w1)"
    using ne rx by (subst drain.simps) (simp add: f_def [symmetric] ring_pop_def)
  ultimately show ?case by (simp add: c rx)
qed

subsection \<open>The sequencer\<close>

lemma PrintHex_ok:
  "sensor_ok w \<Longrightarrow> sensor_ok (PrintHex d n w) \<and> s_seq (PrintHex d n w) = s_seq w \<and>
    s_seqLen (PrintHex d n w) = s_seqLen w \<and> s_step (PrintHex d n w) = s_step w \<and> s_passed (PrintHex d n w) = s_passed w"
proof -
  have "sensor_ok (fold (\<lambda>i. printf (m i)) xs w) = sensor_ok w \<and> s_seq (fold (\<lambda>i. printf (m i)) xs w) = s_seq w \<and>
      s_seqLen (fold (\<lambda>i. printf (m i)) xs w) = s_seqLen w \<and> s_step (fold (\<lambda>i. printf (m i)) xs w) = s_step w \<and>
      s_passed (fold (\<lambda>i. printf (m i)) xs w) = s_passed w" for m and xs :: "nat list" and w :: "'a Sensor"
    by (induction xs arbitrary: w) simp_all
  then show "sensor_ok w \<Longrightarrow> ?thesis" by (simp add: PrintHex_def Let_def)
qed

lemma Decode_ok:
  "sensor_ok w \<Longrightarrow> sensor_ok (Decode w) \<and> s_seq (Decode w) = s_seq w \<and>
    s_seqLen (Decode w) = s_seqLen w \<and> s_step (Decode w) = s_step w \<and> s_passed (Decode w) = s_passed w"
proof -
  have "sensor_ok (fold (\<lambda>i. PrintDtc (m i)) xs w) = sensor_ok w \<and> s_seq (fold (\<lambda>i. PrintDtc (m i)) xs w) = s_seq w \<and>
      s_seqLen (fold (\<lambda>i. PrintDtc (m i)) xs w) = s_seqLen w \<and> s_step (fold (\<lambda>i. PrintDtc (m i)) xs w) = s_step w \<and>
      s_passed (fold (\<lambda>i. PrintDtc (m i)) xs w) = s_passed w" for m and xs :: "nat list" and w :: "'a Sensor"
    by (induction xs arbitrary: w) (simp_all add: PrintDtc_def Let_def)
  then show "sensor_ok w \<Longrightarrow> ?thesis" by (simp add: Decode_def Let_def)
qed

lemma Finish_ok:
  assumes "sensor_ok w" "s_state w \<noteq> SQ_IDLE"
  shows "sensor_ok (Finish hal pass w)"
proof -
  define w1 where "w1 = printf (''[TESTER] '' @ pad_left 2 CHR '' '' (dec (unat (s_step w) + 1)) @ ''/''
             @ dec (unat (s_seqLen w)) @ '' '' @ pad_right 38 (sq_name (s_seq w ! unat (s_step w))) @ '' ''
             @ (if pass then ''PASS'' else ''FAIL'') @ crlf) w"
  define w2 where "w2 = (if s_gotResp w1 then Decode (PrintHex (s_resp w1) (s_respLen w1) w1)
                else if sq_expect (s_seq w ! unat (s_step w)) \<noteq> None then printf (indent @ ''no response'' @ crlf) w1
                else w1)"
  have w1: "sensor_ok w1" using assms by (simp add: w1_def)
  have w2: "sensor_ok w2" "s_seqLen w2 = s_seqLen w" "s_step w2 = s_step w" "s_passed w2 = s_passed w"
    using Decode_ok [OF conjunct1 [OF PrintHex_ok [OF w1]]] PrintHex_ok [OF w1] w1 by (auto simp: w2_def) (simp_all add: w1_def)
  have lt: "s_step w < s_seqLen w" "s_passed w \<le> s_step w" using assms by (simp_all add: sensor_ok_defs)
  then have inc: "s_step w + 1 \<le> s_seqLen w" "s_passed w + 1 \<le> s_step w + 1" "s_passed w \<le> s_step w + 1"
    by (simp_all add: word_le_nat_alt word_less_nat_alt unat_Suc_word)
      (unat_arith)+
  define w3 where "w3 = (if pass then w2\<lparr>s_passed := s_passed w2 + 1\<rparr> else w2)"
  define w4 where "w4 = w3\<lparr>s_step := s_step w3 + 1\<rparr>"
  have delay: "s_step w4 < s_seqLen w4 \<Longrightarrow> sensor_ok (w4\<lparr>s_state := SQ_DELAY, s_timer := t\<rparr>)" for t
    using w2 inc by (auto simp: sensor_ok_defs w3_def w4_def)
  have idle: "sensor_ok ((printf m w4)\<lparr>s_state := SQ_IDLE\<rparr>)" for m
    using w2 inc by (auto simp: sensor_ok_defs w3_def w4_def) (auto simp: printf_def)
  show ?thesis
    unfolding Finish_def Let_def w1_def [symmetric] w2_def [symmetric] w3_def [symmetric] w4_def [symmetric]
    using delay idle by simp
qed

lemma SendStep_ok:
  assumes "link_wf l" "sensor_ok w" "s_state w \<noteq> SQ_IDLE"
  shows "\<exists>l' w'. SendStep hal (l, w) = Some (l', w') \<and> link_wf l' \<and> sensor_ok w'"
proof -
  define w1 where "w1 = w\<lparr>s_gotResp := False, s_respLen := 0\<rparr>"
  have w1: "sensor_ok w1" "s_step w1 < s_seqLen w1" using assms(2,3) by (simp_all add: w1_def sensor_ok_defs)
  have fin: "sensor_ok (w2\<lparr>s_timer := t, s_state := SQ_WAIT\<rparr>)"
    if "sensor_ok w2" "task_view w2 = task_view w1" for w2 :: "'a Sensor" and t
    using that w1 by (simp add: sensor_ok_defs task_view_def)
  obtain r l2 w2 where tr: "IsoTp_Transmit (tester_ops hal) (Some (sq_req (s_seq w ! unat (s_step w))))
      (ucast (sq_reqLen (s_seq w ! unat (s_step w)))) (l, w1) = Some (r, l2, w2)"
    using tester_link.Transmit_returns by fastforce
  have "link_wf l2" using tester_link.IsoTp_Transmit_link_wf [OF tr assms(1)] by simp
  moreover have "sensor_ok w2" "task_view w2 = task_view w1"
    using tester_world.IsoTp_Transmit_P [OF tr, of "task_view w1"] w1(1) by simp_all
  moreover have "sensor_ok (snd (tester_SendFrame hal i d n w1))" "task_view (snd (tester_SendFrame hal i d n w1)) = task_view w1"
    for i d n using sensor_ok_more [OF tester_SendFrame_more [of hal i d n w1]] w1(1) by simp_all
  ultimately show ?thesis
    using fin assms(1) tr unfolding SendStep_def prod.case Let_def w1_def [symmetric] by auto
qed

lemma RunSequence_ok:
  assumes "link_wf l" "sensor_ok w"
  shows "\<exists>l' w'. RunSequence hal (l, w) = Some (l', w') \<and> link_wf l' \<and> sensor_ok w'"
proof (cases "s_state w")
  case SQ_SEND
  then show ?thesis
    using SendStep_ok [OF assms, of hal] assms by (cases "IsoTp_IsTxBusy (Some l)") (simp_all add: RunSequence_def Let_def)
next
  case SQ_WAIT
  then show ?thesis
    using Finish_ok [OF assms(2), of hal] assms by (simp add: RunSequence_def Let_def split: option.split)
qed (use assms in \<open>auto simp: RunSequence_def Let_def sensor_ok_defs\<close>)

lemma sequences_ok:
  "list_all seq_step_ok k_seqTest" "list_all seq_step_ok k_seqDtc" "list_all seq_step_ok k_seqClear"
  "list_all seq_step_ok k_seqVer" "list_all seq_step_ok k_seqFunc" "list_all seq_step_ok k_seqReset"
  by (simp_all add: k_seqTest_def k_seqDtc_def k_seqClear_def k_seqVer_def k_seqFunc_def k_seqReset_def
      STEP_def STEP_D_def STEP_F_def STEP_F_SILENT_def seq_step_ok_def)

lemma Start_ok:
  assumes "sensor_ok w" "list_all seq_step_ok steps" "0 < length steps" "length steps < 256"
  shows "sensor_ok (Start hal steps (of_nat (length steps)) w)"
proof -
  have n: "unat (of_nat (length steps) :: u8) = length steps" using assms(4) by (simp add: unat_of_nat)
  then have "0 < (of_nat (length steps) :: u8)" using assms(3) by (simp add: word_less_nat_alt)
  then have "sensor_ok (w\<lparr>s_seq := steps, s_seqLen := of_nat (length steps), s_step := 0, s_passed := 0,
      s_state := SQ_DELAY, s_timer := t\<rparr>)" for t
    using assms(1,2) n by (simp add: sensor_ok_defs)
  then show ?thesis using assms(1) by (simp add: Start_def)
qed

lemma HandleKey_ok: "sensor_ok w \<Longrightarrow> sensor_ok (HandleKey hal key w)"
proof -
  note short = k_seqTest_def k_seqDtc_def k_seqClear_def k_seqVer_def k_seqFunc_def k_seqReset_def
  have "length ss < 256 \<and> 0 < length ss" if "ss \<in> {k_seqTest, k_seqDtc, k_seqClear, k_seqVer, k_seqFunc, k_seqReset}" for ss
    using that by (auto simp: short)
  then show "sensor_ok w \<Longrightarrow> ?thesis"
    using Start_ok [of w _ hal] sequences_ok by (simp add: HandleKey_def PrintHelp_def)
qed

lemma TesterApp_Task_ok:
  assumes "link_wf l" "sensor_ok w"
  shows "\<exists>l' w'. TesterApp_Task hal (l, w) = Some (l', w') \<and> link_wf l' \<and> sensor_ok w'"
proof -
  obtain l1 w1 where d: "drain hal (l, w) = Some (l1, w1)" "link_wf l1" "sensor_ok w1"
    using drain_delivers [OF assms] by blast
  obtain key w2 where k: "UartDrv_ReadChar hal w1 = (key, w2)" by fastforce
  have w2: "sensor_ok w2" using driver_ok(4) [of hal w1] d(3) k by simp
  define w3 where "w3 = (case key of None \<Rightarrow> w2 | Some k \<Rightarrow> HandleKey hal k w2)"
  have w3: "sensor_ok w3" using w2 HandleKey_ok by (auto simp: w3_def split: option.split)
  obtain l4 w4 where m: "IsoTp_MainFunction (tester_ops hal) (l1, w3) = Some (l4, w4)"
    using tester_total.MainFunction_returns [OF d(2)] by fastforce
  have "link_wf l4" using tester_link.IsoTp_MainFunction_link_wf [OF m d(2)] by simp
  moreover have "sensor_ok w4"
    using tester_world.IsoTp_MainFunction_P [OF m, of "task_view w3"] w3 by simp
  ultimately show ?thesis
    using RunSequence_ok d(1) m by (simp add: TesterApp_Task_def k w3_def)
qed

subsection \<open>Start-up\<close>

text \<open>The static variables before \<open>main\<close>.\<close>

definition sensor_static :: "'h Sensor \<Rightarrow> bool" where
  "sensor_static w \<longleftrightarrow> s_btnStableTicks w = 0 \<and> \<not> s_btnLatched w \<and> s_faultMode w = FAULT_NONE \<and>
     s_speedAlive w = 0 \<and> s_aliveAlive w = 0 \<and> length (s_ring w) = 32 \<and> s_head w = 0 \<and> s_tail w = 0 \<and>
     length (s_resp w) = 128 \<and> s_respLen w = 0 \<and> s_seq w = [] \<and> s_seqLen w = 0 \<and> s_step w = 0 \<and>
     s_passed w = 0 \<and> s_state w = SQ_IDLE"

lemma sensor_static_more: "CanDrv.more w' = CanDrv.more (w :: 'h Sensor) \<Longrightarrow> sensor_static w' = sensor_static w"
  by (cases w; cases w'; simp add: sensor_static_def)

lemma sensor_static_hfdcan1 [simp]: "sensor_static (w\<lparr>hfdcan1 := h\<rparr>) = sensor_static w"
  by (rule sensor_static_more) simp

lemma ConfigureFilters_more: "CanDrv.more (snd (sensor_ConfigureFilters hal w)) = CanDrv.more w"
  by (simp add: sensor_ConfigureFilters_def Let_def split_beta hal_call_sensor_more)

lemma sensor_Init_more: "CanDrv.more (snd (sensor_CanDrv_Init hal mode w)) = CanDrv.more w"
  by (simp add: sensor_CanDrv_Init_def Let_def split_beta hal_call_sensor_more ConfigureFilters_more)

lemma SensorApp_Init_ok:
  assumes "SensorApp_Init hal w = (True, w')" "sensor_static w"
  shows "sensor_ok w'"
proof -
  obtain st w2 where ad: "AdcDrv_Init hal (GpioDrv_SetLed hal False w) = (st, w2)" by fastforce
  have "CanDrv.more w2 = CanDrv.more w"
    using ad by (auto simp: AdcDrv_Init_def Let_def split_beta hal_call_sensor_more GpioDrv_SetLed_def split: if_splits)
  then have w2: "sensor_static w2" using assms(2) sensor_static_more by blast
  obtain st' first w3 where rd: "AdcDrv_Read hal (Some 0) w2 = (st', first, w3)" by (metis prod_cases3)
  then have w3: "sensor_static w3" using w2 sensor_static_more [of w3 w2] AdcDrv_Read_more [of hal "Some 0" w2] by simp
  define w4 where "w4 = (FilterReset (the first) w3)\<lparr>s_adcFiltered := the first\<rparr>"
  have "sensor_ok w4"
    using w3 FilterReset_ok(1) [of "the first" w3]
    by (simp add: w4_def sensor_ok_defs sensor_static_def) (simp add: FilterReset_def)
  moreover obtain can w5 where i: "sensor_CanDrv_Init hal CANDRV_MODE_NORMAL w4 = (can, w5)" by fastforce
  ultimately have "sensor_ok w5"
    using sensor_ok_more(1) [OF sensor_Init_more [of hal CANDRV_MODE_NORMAL w4]] by simp
  then show ?thesis
    using assms(1) ad rd i by (auto simp: SensorApp_Init_def Let_def SENSOR_APP_CAN_LOOPBACK_def w4_def split: if_splits)
qed

lemma main_init_chain:
  assumes "sensor_main_init hal m = Some m'"
  obtains w1 w2 w3 w4 w5 w6 w8 where
    "on_peripherals (sensor_SystemClock_Config hal) ((main_app m)\<lparr>hfdcan1 := HAL_Init hal (hfdcan1 (main_app m))\<rparr>) = Some w1"
    "sensor_MX_FDCAN1_Init hal (w1\<lparr>hfdcan1 := MX_GPIO_Init hal (hfdcan1 w1)\<rparr>) = Some w2"
    "on_peripherals (MX_ADC1_Init hal) w2 = Some w3" "on_peripherals (MX_TIM6_Init hal) w3 = Some w4"
    "on_peripherals (MX_USART2_UART_Init hal) w4 = Some w5" "SensorApp_Init hal w5 = (True, w6)"
    "on_peripherals (or_error (HAL_TIM_Base_Start_IT hal)) (PrintHelp w6) = Some w8"
    "m' = m\<lparr>main_link := IsoTp_Init (Some tester_cfg) (main_link m), main_app := w8\<rparr>"
proof -
  from assms obtain w1 w2 w3 w4 w5 w8 where chain:
    "on_peripherals (sensor_SystemClock_Config hal) ((main_app m)\<lparr>hfdcan1 := HAL_Init hal (hfdcan1 (main_app m))\<rparr>) = Some w1"
    "sensor_MX_FDCAN1_Init hal (w1\<lparr>hfdcan1 := MX_GPIO_Init hal (hfdcan1 w1)\<rparr>) = Some w2"
    "on_peripherals (MX_ADC1_Init hal) w2 = Some w3" "on_peripherals (MX_TIM6_Init hal) w3 = Some w4"
    "on_peripherals (MX_USART2_UART_Init hal) w4 = Some w5" "fst (SensorApp_Init hal w5)"
    "on_peripherals (or_error (HAL_TIM_Base_Start_IT hal)) (PrintHelp (snd (SensorApp_Init hal w5))) = Some w8"
    "m' = m\<lparr>main_link := IsoTp_Init (Some tester_cfg) (main_link m), main_app := w8\<rparr>"
    by (auto simp: sensor_main_init_def TesterApp_Init_def Let_def bind_eq_Some_conv split_beta split: if_splits)
  moreover have "SensorApp_Init hal w5 = (True, snd (SensorApp_Init hal w5))"
    using chain(6) by (simp add: prod_eq_iff)
  ultimately show ?thesis using that by blast
qed

lemma main_init_ok:
  assumes "sensor_main_init hal m = Some m'" "sensor_static (main_app m)"
  shows "link_wf (main_link m') \<and> sensor_ok (main_app m') \<and> s_tick10ms m' = s_tick10ms m \<and>
    s_tickOverruns m' = s_tickOverruns m"
proof (rule main_init_chain [OF assms(1)])
  fix w1 w2 w3 w4 w5 w6 w8
  assume chain:
    "on_peripherals (sensor_SystemClock_Config hal) ((main_app m)\<lparr>hfdcan1 := HAL_Init hal (hfdcan1 (main_app m))\<rparr>) = Some w1"
    "sensor_MX_FDCAN1_Init hal (w1\<lparr>hfdcan1 := MX_GPIO_Init hal (hfdcan1 w1)\<rparr>) = Some w2"
    "on_peripherals (MX_ADC1_Init hal) w2 = Some w3" "on_peripherals (MX_TIM6_Init hal) w3 = Some w4"
    "on_peripherals (MX_USART2_UART_Init hal) w4 = Some w5" "SensorApp_Init hal w5 = (True, w6)"
    "on_peripherals (or_error (HAL_TIM_Base_Start_IT hal)) (PrintHelp w6) = Some w8"
    "m' = m\<lparr>main_link := IsoTp_Init (Some tester_cfg) (main_link m), main_app := w8\<rparr>"
  have per: "sensor_static w' = sensor_static w" "sensor_ok w' = sensor_ok w" if "on_peripherals f w = Some w'" for f and w w' :: "'a Sensor"
    using that by (auto simp: on_peripherals_def)
  have fd: "sensor_static w' = sensor_static w" if "sensor_MX_FDCAN1_Init hal w = Some w'" for w w' :: "'a Sensor"
    using that sensor_static_more [of w' w] by (auto simp: sensor_MX_FDCAN1_Init_def)
  have tc: "link_wf (IsoTp_Init (Some tester_cfg) l)" for l
    by (rule IsoTp_Init_link_wf) (simp_all add: tester_cfg_def TESTER_BUFFER_SIZE_def)
  have "sensor_static w5"
    using per(1) [OF chain(1)] fd [OF chain(2)] per(1) [OF chain(3)] per(1) [OF chain(4)] per(1) [OF chain(5)] assms(2) by simp
  then have "sensor_ok w6" by (rule SensorApp_Init_ok [OF chain(6)])
  then have "sensor_ok w8" using per(2) [OF chain(7)] by (simp add: PrintHelp_def)
  then show ?thesis using tc by (simp add: chain(8))
qed

subsection \<open>Interrupts\<close>

lemma count_received_sensor_ok [simp]: "sensor_ok (count_received w) = sensor_ok w"
  by (rule sensor_ok_more) (simp add: count_received_def)

lemma sensor_OnCanRx_ok: "sensor_ok w \<Longrightarrow> sensor_ok (sensor_OnCanRx f w)"
proof -
  have "sensor_ok (TesterApp_OnCanFrameIsr f w)" if "sensor_ok w" for w :: "'a Sensor"
    using that ring.put_ok [of w f]
    by (simp add: sensor_ok_def) (simp add: TesterApp_OnCanFrameIsr_def filter_ok_def tester_ok_def)
  moreover have "sensor_ok (w\<lparr>s_rxSpeedFrames := n\<rparr>) = sensor_ok w" for n and w :: "'a Sensor"
    by (simp add: sensor_ok_defs)
  ultimately show "sensor_ok w \<Longrightarrow> ?thesis" by (simp add: sensor_OnCanRx_def)
qed

lemma sensor_RxLoop_inv_aux:
  assumes "sensor_RxLoop hal cb s = Some s'" "\<forall>s h. P s \<longrightarrow> P (s\<lparr>hfdcan1 := h\<rparr>)" "\<forall>s. P s \<longrightarrow> P (count_received s)"
  shows "P s \<longrightarrow> (\<forall>f frame s. cb = Some f \<longrightarrow> P s \<longrightarrow> P (f frame s)) \<longrightarrow> P s'"
proof (rule sensor_RxLoop.raw_induct [OF _ assms(1), where P = "\<lambda>hal cb s s'. P s \<longrightarrow>
    (\<forall>f frame s. cb = Some f \<longrightarrow> P s \<longrightarrow> P (f frame s)) \<longrightarrow> P s'"])
  fix loop and hal :: "('a, 'c) FdcanHal_scheme" and cb and s s' :: "('a, 'b) CanDrv_scheme"
  assume IH: "\<And>hal cb s s'. loop hal cb s = Some s' \<Longrightarrow>
      P s \<longrightarrow> (\<forall>f frame s. cb = Some f \<longrightarrow> P s \<longrightarrow> P (f frame s)) \<longrightarrow> P s'"
    and body: "(if HAL_FDCAN_GetRxFifoFillLevel hal (hfdcan1 s) > 0 then
        (let (st, header, bytes, h) = HAL_FDCAN_GetRxMessage hal (hfdcan1 s);
             s1 = s\<lparr>hfdcan1 := h\<rparr>
         in if st \<noteq> HAL_OK then Some s1
            else
              (let s2 = count_received s1;
                   s3 = (case cb of None \<Rightarrow> s2 | Some f \<Rightarrow> f (sensor_rx_frame header bytes) s2)
               in loop hal cb s3))
      else Some s) = Some s'"
  show "P s \<longrightarrow> (\<forall>f frame s. cb = Some f \<longrightarrow> P s \<longrightarrow> P (f frame s)) \<longrightarrow> P s'"
    using body assms(2,3)
    by (auto simp: Let_def split: if_splits prod.splits option.splits dest!: IH)
qed

lemma sensor_RxFifo0_ok:
  assumes "sensor_RxFifo0Callback hal (Some sensor_OnCanRx) its w = Some w'" "sensor_ok w"
  shows "sensor_ok w'"
proof (cases "its AND FDCAN_IT_RX_FIFO0_NEW_MESSAGE = 0")
  case False
  then have "sensor_RxLoop hal (Some sensor_OnCanRx) w = Some w'"
    using assms(1) by (simp add: sensor_RxFifo0Callback_def)
  from sensor_RxLoop_inv_aux [OF this, of sensor_ok] assms(2) show ?thesis by (simp add: sensor_OnCanRx_ok)
qed (use assms in \<open>simp add: sensor_RxFifo0Callback_def\<close>)

lemma sensor_ErrorStatus_ok: "sensor_ok (sensor_ErrorStatusCallback its w) = sensor_ok w"
  by (rule sensor_ok_more) (simp add: sensor_ErrorStatusCallback_def)

subsection \<open>Reachable states\<close>

text \<open>A run of the ECU from the end of its start-up: steps of the main loop, and between them interrupts of
  the tick timer and of the CAN controller, and any change of the peripherals and of the time. \<open>T\<close>
  counts the timer's interrupts and \<open>R\<close> the turns of the 10 ms tasks.\<close>

inductive sensor_run :: "('h, 'n) SensorMainHal_scheme \<Rightarrow> nat \<Rightarrow> nat \<Rightarrow> main_pc \<times> 'h SensorMain \<Rightarrow> bool"
  for hal where
  start: "sensor_static (main_app m) \<Longrightarrow> \<not> s_tick10ms m \<Longrightarrow> s_tickOverruns m = 0 \<Longrightarrow>
    sensor_main_init hal m = Some m' \<Longrightarrow> sensor_run hal 0 0 (At_test, m')"
| loop: "sensor_run hal T R (pc, m) \<Longrightarrow> sensor_main_step hal (pc, m) = Some (pc', m') \<Longrightarrow>
    sensor_run hal T (if pc = At_tasks then Suc R else R) (pc', m')"
| timer: "sensor_run hal T R (pc, m) \<Longrightarrow> sensor_run hal (Suc T) R (pc, sensor_PeriodElapsedCallback True m)"
| can_rx: "sensor_run hal T R (pc, m) \<Longrightarrow>
    sensor_RxFifo0Callback hal (Some sensor_OnCanRx) its (main_app m) = Some w \<Longrightarrow>
    sensor_run hal T R (pc, m\<lparr>main_app := w\<rparr>)"
| can_error: "sensor_run hal T R (pc, m) \<Longrightarrow>
    sensor_run hal T R (pc, m\<lparr>main_app := sensor_ErrorStatusCallback its (main_app m)\<rparr>)"
| hardware: "sensor_run hal T R (pc, m) \<Longrightarrow> sensor_run hal T R (pc, m\<lparr>main_app := (main_app m)\<lparr>hfdcan1 := h\<rparr>\<rparr>)"


inductive_cases sensor_runE: "sensor_run hal T R (pc, m)"

definition ticks_ok :: "nat \<Rightarrow> nat \<Rightarrow> main_pc \<Rightarrow> 'h SensorMain \<Rightarrow> bool" where
  "ticks_ok T R pc m \<longleftrightarrow> (pc = At_reset \<longrightarrow> s_tick10ms m) \<and>
     (\<exists>n. T = R + (if pc = At_tasks then 1 else 0) + (if s_tick10ms m then 1 else 0) + n \<and> s_tickOverruns m = of_nat n)"

lemma main_step_ok:
  assumes "link_wf (main_link m)" "sensor_ok (main_app m)" "ticks_ok T R pc m"
  shows "\<exists>pc' m'. sensor_main_step hal (pc, m) = Some (pc', m') \<and> link_wf (main_link m') \<and> sensor_ok (main_app m') \<and>
    ticks_ok T (if pc = At_tasks then Suc R else R) pc' m'"
proof (cases pc)
  case At_tasks
  obtain l w where "TesterApp_Task hal (main_link m, SensorApp_Task10ms hal (main_app m)) = Some (l, w)"
    "link_wf l" "sensor_ok w"
    using TesterApp_Task_ok [OF assms(1) Task10ms_ok [OF assms(2)]] by blast
  then show ?thesis using assms(3) At_tasks by (auto simp: sensor_main_step_def ticks_ok_def)
qed (use assms in \<open>auto simp: sensor_main_step_def ticks_ok_def\<close>)

lemma sensor_run_ok:
  assumes "sensor_run hal T R s"
  shows "link_wf (main_link (snd s)) \<and> sensor_ok (main_app (snd s)) \<and> ticks_ok T R (fst s) (snd s)"
  using assms
proof (induction rule: sensor_run.induct)
  case (start m m')
  then show ?case using main_init_ok [OF start(4,1)] by (simp add: ticks_ok_def)
next
  case (loop T R pc m pc' m')
  then show ?case using main_step_ok [of m T R pc hal] by auto
next
  case (timer T R pc m)
  then show ?case by (auto simp: sensor_PeriodElapsedCallback_def ticks_ok_def Let_def)
next
  case (can_rx T R pc m its w)
  then show ?case using sensor_RxFifo0_ok [OF can_rx(2)] by (simp add: ticks_ok_def)
qed (simp_all add: ticks_ok_def sensor_ErrorStatus_ok)

subsection \<open>The properties\<close>

text \<open>C2: in every state the Sensor ECU can reach after its start-up, under any traffic, interrupts between the
  steps of the main loop, keys and behaviour of the peripherals: the tester's link is well formed; the
  filter's sum is that of its buffer; the ring's indices, the response length and the sequencer's
  step are within their arrays; the alive counters have four bits; and the main loop goes on (the
  next step returns: in particular emptying the ring and sending end).\<close>

theorem SensorEcu_invariant:
  assumes "sensor_run hal T R (pc, m)"
  shows "link_wf (main_link m) \<and> sensor_ok (main_app m) \<and> (\<exists>s. sensor_main_step hal (pc, m) = Some s)"
  using sensor_run_ok [OF assms] main_step_ok [of m T R pc hal] by auto

text \<open>C31: no tick of the 10 ms timer is lost without a trace, wherever in the main loop its interrupt falls: the
  interrupts that have occurred are the turns of the tasks done, the one under way, the one the flag
  announces, and those the overrun counter has counted (modulo 2^32).\<close>

theorem Sensor_ticks_accounted:
  assumes "sensor_run hal T R (pc, m)"
  shows "\<exists>n. T = R + (if pc = At_tasks then 1 else 0) + (if s_tick10ms m then 1 else 0) + n \<and>
    s_tickOverruns m = of_nat n"
  using sensor_run_ok [OF assms] by (simp add: ticks_ok_def)

text \<open>the tester's task empties the ring and returns: the frames that were in it are given to the transport
  layer once each, oldest first, each slot being released after its frame, and whatever the frames are the
  loop ends with the ring empty.\<close>

theorem Tester_drains_ring:
  assumes "link_wf l" "sensor_ok w"
  shows "\<exists>l' w'. drain hal (l, w) = Some (l', w') \<and> deliver hal (ring_contents w) (l, w) = Some (l', w') \<and>
    link_wf l' \<and> ring_contents w' = []"
  using drain_delivers [OF assms] by blast

subsection \<open>Examples\<close>

definition bench_main :: "(u32 \<times> bool) SensorMainHal" where
  "bench_main = SensorHal.extend bench_hal
     \<lparr>HAL_Init = \<lambda>h. h, HAL_PWREx_ControlVoltageScaling_BOOST = \<lambda>h. h, HAL_RCC_OscConfig = \<lambda>_ h. (HAL_OK, h),
      HAL_RCC_ClockConfig = \<lambda>_ h. (HAL_OK, h), HAL_TIM_Base_Init = \<lambda>_ h. (HAL_OK, h),
      HAL_TIMEx_MasterConfigSynchronization = \<lambda>h. (HAL_OK, h), HAL_TIM_Base_Start_IT = \<lambda>h. (HAL_OK, h),
      MX_GPIO_Init = \<lambda>h. h, MX_ADC1_Init = Some, MX_USART2_UART_Init = Some\<rparr>"

definition bench_reset :: "(u32 \<times> bool) SensorMain" where
  "bench_reset = \<lparr>main_link = zero_link tester_cfg, main_app = bench, s_tick10ms = False, s_tickOverruns = 0\<rparr>"

lemma bench_starts: "\<exists>m. sensor_main_init bench_main bench_reset = Some m"
  by (simp add: sensor_main_init_def bench_reset_def on_peripherals_def sensor_SystemClock_Config_def or_error_def
      bench_main_def bench_hal_def SensorHal.defs sensor_MX_FDCAN1_Init_def MX_TIM6_Init_def SensorApp_Init_def
      AdcDrv_Init_def AdcDrv_Read_def GpioDrv_SetLed_def hal_call_def sensor_CanDrv_Init_def SENSOR_APP_CAN_LOOPBACK_def
      sensor_ConfigureFilters_def TesterApp_Init_def Let_def)

lemma bench_static: "sensor_static bench"
  by (simp add: sensor_static_def bench_def)

lemma bench_ok: "sensor_ok bench"
  by (simp add: sensor_ok_defs) (simp add: bench_def)

text \<open>Two ticks before the main loop looks: one turn is announced, one overrun counted.\<close>

lemma bench_two_ticks:
  obtains m where "sensor_run bench_main 2 0 (At_test, m)" "s_tick10ms m"
proof -
  obtain m where m: "sensor_main_init bench_main bench_reset = Some m" using bench_starts by blast
  have "sensor_run bench_main 0 0 (At_test, m)"
    by (rule sensor_run.start [OF _ _ _ m]) (simp_all add: bench_reset_def bench_static)
  then have "sensor_run bench_main (Suc (Suc 0)) 0
      (At_test, sensor_PeriodElapsedCallback True (sensor_PeriodElapsedCallback True m))"
    by (intro sensor_run.timer)
  moreover have "s_tick10ms (sensor_PeriodElapsedCallback True x)" for x :: "(u32 \<times> bool) SensorMain"
    by (simp add: sensor_PeriodElapsedCallback_def Let_def)
  ultimately show ?thesis by (intro that) (simp_all add: numeral_2_eq_2)
qed

theorem SensorEcu_invariant_witness:
  "\<exists>m s. sensor_run bench_main 2 0 (At_test, m) \<and> sensor_ok (main_app m) \<and>
     sensor_main_step bench_main (At_test, m) = Some s"
  using bench_two_ticks SensorEcu_invariant by metis

theorem Sensor_ticks_accounted_witness:
  "\<exists>m. sensor_run bench_main 2 0 (At_test, m) \<and> s_tickOverruns m = 1"
proof -
  obtain m where m: "sensor_run bench_main 2 0 (At_test, m)" "s_tick10ms m" using bench_two_ticks .
  from Sensor_ticks_accounted [OF m(1)] m show ?thesis by auto
qed

theorem Tester_drains_ring_witness:
  "\<exists>l w. drain bench_hal (IsoTp_Init (Some tester_cfg) (zero_link tester_cfg),
     TesterApp_OnCanFrameIsr (frame0\<lparr>frame_id := CANID_UDS_RESP_CONTROL\<rparr>) bench) = Some (l, w) \<and> ring_contents w = []"
proof -
  have "link_wf (IsoTp_Init (Some tester_cfg) (zero_link tester_cfg))"
    by (rule IsoTp_Init_link_wf) (simp_all add: tester_cfg_def TESTER_BUFFER_SIZE_def)
  moreover have "sensor_ok (TesterApp_OnCanFrameIsr (frame0\<lparr>frame_id := CANID_UDS_RESP_CONTROL\<rparr>) bench)"
    using sensor_OnCanRx_ok [OF bench_ok, of "frame0\<lparr>frame_id := CANID_UDS_RESP_CONTROL\<rparr>"]
    by (simp add: sensor_OnCanRx_def CANID_SENSOR_SPEED_def CANID_UDS_RESP_CONTROL_def)
  ultimately show ?thesis using Tester_drains_ring by blast
qed

end
