(* ===== verification/DiagNetwork.thy ===== *)
theory DiagNetwork
  imports DiagRequests SensorInvariant
begin

section \<open>A diagnostic exchange between the two ECUs\<close>

text \<open>
  A step of the tester's sequence on the Sensor ECU, from the request its sequencer sends, through
  the server of the Control ECU, to the frames of the answer in the tester's interrupt, ring buffer and
  link, and the verdict of the step.
\<close>

subsection \<open>The request\<close>

lemma tester_SendFrame_trace:
  "length f = 8 \<Longrightarrow> tx_trace (snd (tester_SendFrame hal i f 8 w)) =
    (if fst (tester_SendFrame hal i f 8 w) then tx_trace w @ [\<lparr>frame_id = i, frame_dlc = 8, frame_data = f\<rparr>]
     else tx_trace w)"
  by (auto simp: tester_SendFrame_def write_at_0 split: prod.splits dest!: sensor_Write_trace)

lemma tester_Transmit_single:
  assumes "IsoTp_Transmit (tester_ops hal) (Some msg) (of_nat (length msg)) (l, w) = Some (r, l1, w1)"
    and "link_wf l" "txState l = ISOTP_TX_IDLE" "txBufferSize (cfg l) = 128" "0 < length msg" "length msg \<le> 7"
  shows "w1 = snd (tester_SendFrame hal (txId (cfg l)) (sf_frame msg) 8 w)" "rx_view l1 = rx_view l"
proof -
  have "tx_wf l" "7 \<le> txBufferSize (cfg l)" using assms(2,4) by (simp_all add: link_wf_def)
  note eq = Transmit_single_eq [OF this(1) assms(3,5,6) this(2) refl, of "tester_ops hal" w]
  show "w1 = snd (tester_SendFrame hal (txId (cfg l)) (sf_frame msg) 8 w)" "rx_view l1 = rx_view l"
    using assms(1) unfolding eq
    by (auto simp: tester_ops_def TxFinish_def upd_def rx_view_def split: prod.splits if_splits)
qed

text \<open>The state of the tester's sequencer, without the ring and the response.\<close>

definition seq_view :: "'h Sensor \<Rightarrow> Step_t list \<times> u8 \<times> u8 \<times> u8 \<times> State_t" where
  "seq_view w = (s_seq w, s_seqLen w, s_step w, s_passed w, s_state w)"

lemma task_view_seq: "task_view w' = task_view w \<Longrightarrow> seq_view w' = seq_view w"
  by (simp add: task_view_def seq_view_def)

definition tester_ready :: "IsoTp_Link_t \<Rightarrow> 'h Sensor \<Rightarrow> bool" where
  "tester_ready l w \<longleftrightarrow> link_wf l \<and> sensor_ok w \<and> txState l = ISOTP_TX_IDLE \<and> rxState l = ISOTP_RX_IDLE \<and>
     txId (cfg l) = CANID_UDS_REQ_CONTROL \<and> txBufferSize (cfg l) = 128 \<and> rxBufferSize (cfg l) = 128 \<and>
     ring_contents w = [] \<and> s_state w = SQ_SEND"

definition current_step :: "'h Sensor \<Rightarrow> Step_t" where
  "current_step w = s_seq w ! unat (s_step w)"

lemma SendStep_frame:
  assumes "tester_ready l w" "st = current_step w" "length (sq_req st) \<le> 7" "SendStep hal (l, w) = Some (l1, w1)"
    and "i = (if sq_functional st then 0x7DF else 0x7E0)"
  shows "tx_trace w1 = tx_trace w \<or>
    tx_trace w1 = tx_trace w @ [\<lparr>frame_id = i, frame_dlc = 8, frame_data = sf_frame (sq_req st)\<rparr>]"
    "(\<And>w. fst (tester_SendFrame hal i (sf_frame (sq_req st)) 8 w)) \<Longrightarrow>
    tx_trace w1 = tx_trace w @ [\<lparr>frame_id = i, frame_dlc = 8, frame_data = sf_frame (sq_req st)\<rparr>]"
    "link_wf l1" "sensor_ok w1" "rx_view l1 = rx_view l" "ring_contents w1 = []"
    "seq_view w1 = (s_seq w, s_seqLen w, s_step w, s_passed w, SQ_WAIT)"
proof -
  note ready = assms(1) [unfolded tester_ready_def]
  have step: "seq_step_ok st"
    using ready assms(2) by (auto simp: sensor_ok_def tester_ok_def current_step_def list_all_length word_less_nat_alt)
  then have req: "length (sq_req st) = unat (sq_reqLen st)" "0 < length (sq_req st)"
    by (simp_all add: seq_step_ok_def word_less_nat_alt)
  have len: "(of_nat (length (sq_req st)) :: u16) = ucast (sq_reqLen st)"
    unfolding req(1) by simp
  define w0 where "w0 = w\<lparr>s_gotResp := False, s_respLen := 0\<rparr>"
  have w0: "sensor_ok w0" "task_view w0 = task_view w" "tx_trace w0 = tx_trace w"
    using ready by (simp_all add: w0_def sensor_ok_defs task_view_def)
  define w2 where "w2 = snd (tester_SendFrame hal i (sf_frame (sq_req st)) 8 w0)"
  have w2: "sensor_ok w2" "task_view w2 = task_view w"
    using sensor_ok_more [OF tester_SendFrame_more [of hal i "sf_frame (sq_req st)" 8 w0]] w0 by (simp_all add: w2_def)
  have out: "w1 = w2\<lparr>s_timer := TimeDrv_GetMs hal w2, s_state := SQ_WAIT\<rparr> \<and> link_wf l1 \<and> rx_view l1 = rx_view l"
  proof (cases "sq_functional st")
    case True
    define f where "f = write_at ((replicate (unat ISOTP_CAN_DL) ISOTP_PADDING_BYTE)[0 := sq_reqLen st]) 1
       (take (unat (sq_reqLen st)) (sq_req st))"
    have "replicate 8 (204 :: u8) = 204 # replicate 7 204" by (simp flip: replicate_Suc)
    then have f: "f = sf_frame (sq_req st)"
      using assms(3) req(1) by (simp add: f_def sf_frame_def pad8_def write_at_def isotp_consts)
    show ?thesis
      using assms(4,5) True ready unfolding SendStep_def prod.case Let_def w0_def [symmetric] current_step_def [symmetric]
        assms(2) [symmetric] f_def [symmetric] by (simp add: w2_def f FUNCTIONAL_ID_def ISOTP_CAN_DL_def)
  next
    case False
    then obtain r w3 where tr: "IsoTp_Transmit (tester_ops hal) (Some (sq_req st)) (ucast (sq_reqLen st)) (l, w0) = Some (r, l1, w3)"
      "w1 = w3\<lparr>s_timer := TimeDrv_GetMs hal w3, s_state := SQ_WAIT\<rparr>"
      using assms(4) unfolding SendStep_def prod.case Let_def w0_def [symmetric] current_step_def [symmetric]
        assms(2) [symmetric] by auto
    have "w3 = w2" "rx_view l1 = rx_view l"
      using tester_Transmit_single [OF tr(1) [folded len] _ _ _ req(2) assms(3)] ready False
      by (simp_all add: w2_def assms(5) CANID_UDS_REQ_CONTROL_def)
    then show ?thesis using tr(2) tester_link.IsoTp_Transmit_link_wf [OF tr(1)] ready by simp
  qed
  have w1: "tx_trace w1 = tx_trace w2" "ring_contents w1 = ring_contents w2"
    using out by (simp_all add: ring_contents_def ring_len_def)
  show "tx_trace w1 = tx_trace w \<or>
    tx_trace w1 = tx_trace w @ [\<lparr>frame_id = i, frame_dlc = 8, frame_data = sf_frame (sq_req st)\<rparr>]"
    using tester_SendFrame_trace [OF length_sf_frame [OF assms(3)], of hal i w0]
    by (auto simp: w1 w0(3) simp flip: w2_def)
  show "tx_trace w1 = tx_trace w @ [\<lparr>frame_id = i, frame_dlc = 8, frame_data = sf_frame (sq_req st)\<rparr>]"
    if "\<And>w. fst (tester_SendFrame hal i (sf_frame (sq_req st)) 8 w)"
    using tester_SendFrame_trace [OF length_sf_frame [OF assms(3)], of hal i w0] that
    by (simp add: w1 w0(3) flip: w2_def)
  show "link_wf l1" "rx_view l1 = rx_view l" using out by simp_all
  show "sensor_ok w1" using w2 out ready by (simp add: sensor_ok_defs task_view_def)
  show "ring_contents w1 = []" using w1(2) ring_contents_cong [OF w2(2)] ready by simp
  show "seq_view w1 = (s_seq w, s_seqLen w, s_step w, s_passed w, SQ_WAIT)"
    using w2(2) out by (simp add: seq_view_def task_view_def)
qed

subsection \<open>The answer\<close>

text \<open>What happens on the Sensor ECU while the tester waits: frames arrive on the bus (into the ring, which is emptied
  before it overflows), turns of the tasks, cyclic calls of the link that do not end a reception by its
  timeout, and changes of the hardware and of the time. \<open>bus\<close> are the frames received.\<close>

inductive tester_hears ::
  "('h, 'n) SensorHal_scheme \<Rightarrow> 'h Sensor link_state \<Rightarrow> CanDrv_Frame_t list \<Rightarrow> 'h Sensor link_state \<Rightarrow> bool"
  for hal s0 where
  start: "tester_hears hal s0 [] s0"
| isr: "tester_hears hal s0 bus (l, w) \<Longrightarrow> length (ring_contents w) < 31 \<Longrightarrow>
    tester_hears hal s0 (bus @ [f]) (l, sensor_OnCanRx f w)"
| empty_ring: "tester_hears hal s0 bus s \<Longrightarrow> drain hal s = Some s' \<Longrightarrow> tester_hears hal s0 bus s'"
| cyclic: "tester_hears hal s0 bus s \<Longrightarrow> IsoTp_MainFunction (tester_ops hal) s = Some s' \<Longrightarrow>
    rxState (fst s') = rxState (fst s) \<Longrightarrow> tester_hears hal s0 bus s'"
| sensor: "tester_hears hal s0 bus (l, w) \<Longrightarrow> tester_hears hal s0 bus (l, SensorApp_Task10ms hal w)"
| hardware: "tester_hears hal s0 bus (l, w) \<Longrightarrow> tester_hears hal s0 bus (l, w\<lparr>hfdcan1 := h\<rparr>)"

definition responses :: "CanDrv_Frame_t list \<Rightarrow> CanDrv_Frame_t list" where
  "responses = filter (\<lambda>f. frame_id f = CANID_UDS_RESP_CONTROL)"

lemma deliver_rx_steps:
  assumes "deliver hal fs s = Some s'" "\<forall>f \<in> set fs. frame_dlc f = 8" "rx_steps (tester_ops hal) s0 ds s"
  shows "rx_steps (tester_ops hal) s0 (ds @ map frame_data fs) s'"
  using assms
proof (induction fs arbitrary: ds s)
  case (Cons f fs)
  obtain l w where rx: "IsoTp_RxFrame (tester_ops hal) (Some (frame_data f)) 8 s = Some (l, w)"
    "deliver hal fs (l, ring_pop w) = Some s'"
    using Cons.prems(1,2) by (auto split: bind_splits)
  have "rx_steps (tester_ops hal) s0 (ds @ [frame_data f]) (l, ring_pop w)"
    by (rule rx_steps.time [OF rx_steps.frame [OF Cons.prems(3) rx(1)]])
  from Cons.IH [OF rx(2) _ this] Cons.prems(2) show ?case by simp
qed simp

lemma deliver_append:
  "deliver hal (fs @ gs) s = do { s1 \<leftarrow> deliver hal fs s; deliver hal gs s1 }"
  by (induction fs arbitrary: s) (auto split: bind_splits prod.splits)

lemma deliver_ok:
  assumes "deliver hal fs (l, w) = Some (l', w')" "link_wf l" "sensor_ok w" "length fs \<le> length (ring_contents w)"
  shows "link_wf l' \<and> sensor_ok w' \<and> seq_view w' = seq_view w \<and>
    length (ring_contents w') = length (ring_contents w) - length fs"
  using assms
proof (induction fs arbitrary: l w)
  case (Cons f fs)
  obtain l1 w1 where rx: "IsoTp_RxFrame (tester_ops hal) (Some (frame_data f)) (frame_dlc f) (l, w) = Some (l1, w1)"
    "deliver hal fs (l1, ring_pop w1) = Some (l', w')"
    using Cons.prems(1) by (auto split: bind_splits)
  have l1: "link_wf l1" using tester_link.IsoTp_RxFrame_link_wf [OF rx(1) Cons.prems(2)] by simp
  have w1: "sensor_ok w1" "task_view w1 = task_view w"
    using tester_world.IsoTp_RxFrame_P [OF rx(1), of "task_view w"] Cons.prems(3) by simp_all
  have ok: "ring_ok w1" using w1(1) by (simp add: sensor_ok_def)
  have ne: "s_tail w1 \<noteq> s_head w1"
    using ring.empty [OF ok] ring_contents_cong [OF w1(2)] Cons.prems(4) by auto
  have "length (ring_contents (ring_pop w1)) = length (ring_contents w) - 1"
    using ring_pop_contents(2) [OF ok ne] ring_contents_cong [OF w1(2)] by simp
  moreover have "seq_view (ring_pop w1) = seq_view w"
    using task_view_seq [OF w1(2)] by (simp add: seq_view_def ring_pop_def)
  ultimately show ?case
    using Cons.IH [OF rx(2) l1 ring_pop_sensor_ok [OF w1(1) ne]] Cons.prems(4) by auto
qed simp

lemma sensor_OnCanRx_view: "seq_view (sensor_OnCanRx f w) = seq_view w"
  by (simp add: sensor_OnCanRx_def TesterApp_OnCanFrameIsr_def seq_view_def)

lemma sensor_OnCanRx_ring:
  assumes "sensor_ok w" "length (ring_contents w) < 31"
  shows "ring_contents (sensor_OnCanRx f w) = ring_contents w @ responses [f]"
proof -
  define w1 where "w1 = (if frame_id f = CANID_SENSOR_SPEED then w\<lparr>s_rxSpeedFrames := s_rxSpeedFrames w + 1\<rparr> else w)"
  have "ring_contents w1 = ring_contents w" "ring_ok w1"
    using assms(1) by (simp_all add: w1_def ring_contents_def ring_len_def sensor_ok_def ring_ok_def)
  then show ?thesis
    using ring.burst [of w1 "[f]"] assms(2) by (auto simp: sensor_OnCanRx_def responses_def simp flip: w1_def)
qed

lemmas driver_view = sensor_Write_more [THEN sensor_ok_more(2)] sensor_MainFunction_more [THEN sensor_ok_more(2)]
  AdcDrv_Read_more [THEN sensor_ok_more(2)]

lemma SampleInput_view: "task_view (SampleInput hal w) = task_view w"
proof -
  have upd: "task_view (w\<lparr>s_adcError := e\<rparr>) = task_view w" "task_view (w\<lparr>s_adcFiltered := a\<rparr>) = task_view w"
    "task_view (w\<lparr>s_filterBuf := b, s_filterSum := c, s_filterIdx := d\<rparr>) = task_view w" for a b c d e and w :: "'a Sensor"
    by (simp_all add: task_view_def)
  obtain st raw w1 where r: "AdcDrv_Read hal (Some 0) w = (st, raw, w1)" by (metis prod_cases3)
  have "task_view (snd (FilterUpdate x w)) = task_view w" for x and w :: "'a Sensor"
    by (simp add: FilterUpdate_def Let_def task_view_def)
  then show ?thesis
    using driver_view(3) [of hal "Some 0" w] by (simp add: SampleInput_def r Let_def upd split_beta)
qed

lemma SendSpeedFrame_view: "task_view (SendSpeedFrame hal w) = task_view w"
proof (cases "s_faultMode w = FAULT_SILENT")
  case False
  obtain f where "SendSpeedFrame hal w = snd (sensor_CanDrv_Write hal
       (Some \<lparr>frame_id = 0x100, frame_dlc = 8, frame_data = f\<rparr>) (w\<lparr>s_speedAlive := (s_speedAlive w + 1) AND 0x0F\<rparr>))"
    using SendSpeedFrame_cases [OF False, of hal] by metis
  then show ?thesis by (simp add: driver_view) (simp add: task_view_def)
qed (simp add: SendSpeedFrame_def)

lemma SendAliveFrame_view: "task_view (SendAliveFrame hal w) = task_view w"
proof -
  have "task_view (w\<lparr>s_aliveAlive := c\<rparr>) = task_view w" for c by (simp add: task_view_def)
  then show ?thesis unfolding SendAliveFrame_def Let_def split_beta driver_view(1) by simp
qed

lemma Task10ms_view: "task_view (SensorApp_Task10ms hal w) = task_view w"
proof -
  have pr: "task_view (printf m w) = task_view w" for m and w :: "'a Sensor" by (simp add: task_view_def)
  have hb: "task_view (sensor_HandleButton hal w) = task_view w" for w
    by (simp add: sensor_HandleButton_def Let_def pr) (simp add: task_view_def)
  have "task_view (w\<lparr>s_tick := t\<rparr>) = task_view w" for t by (simp add: task_view_def)
  moreover have "task_view (UpdateLed hal w) = task_view w" for w
    by (simp add: UpdateLed_def GpioDrv_ToggleLed_def Let_def) (simp add: task_view_def)
  ultimately show ?thesis
    unfolding SensorApp_Task10ms_def Let_def
    by (simp add: sensor_LogStatus_def Let_def pr hb SampleInput_view SendSpeedFrame_view SendAliveFrame_view driver_view)
qed

lemma hears_inv:
  assumes "tester_hears hal (l0, w0) bus s" "link_wf l0" "sensor_ok w0" "ring_contents w0 = []"
    and "\<forall>f \<in> set (responses bus). frame_dlc f = 8"
  shows "link_wf (fst s) \<and> sensor_ok (snd s) \<and> seq_view (snd s) = seq_view w0 \<and>
    (\<exists>taken. rx_steps (tester_ops hal) (l0, w0) (map frame_data taken) s \<and>
      responses bus = taken @ ring_contents (snd s))"
  using assms
proof (induction rule: tester_hears.induct)
  case start
  then show ?case using rx_steps.start [of "tester_ops hal" "(l0, w0)"] by (auto simp: responses_def)
next
  case (isr bus l w f)
  then obtain taken where IH: "link_wf l" "sensor_ok w" "seq_view w = seq_view w0"
    "rx_steps (tester_ops hal) (l0, w0) (map frame_data taken) (l, w)" "responses bus = taken @ ring_contents w"
    by (auto simp: responses_def)
  have "rx_steps (tester_ops hal) (l0, w0) (map frame_data taken) (l, sensor_OnCanRx f w)"
    by (rule rx_steps.time [OF IH(4)])
  moreover have "responses (bus @ [f]) = taken @ ring_contents (sensor_OnCanRx f w)"
    using sensor_OnCanRx_ring [OF IH(2) isr.hyps(2), of f] IH(5) by (simp add: responses_def)
  ultimately show ?case using IH sensor_OnCanRx_ok [OF IH(2), of f] sensor_OnCanRx_view [of f w] by auto
next
  case (empty_ring bus s s')
  then obtain taken where IH: "link_wf (fst s)" "sensor_ok (snd s)" "seq_view (snd s) = seq_view w0"
    "rx_steps (tester_ops hal) (l0, w0) (map frame_data taken) s" "responses bus = taken @ ring_contents (snd s)"
    by auto
  obtain l' w' where d: "s' = (l', w')" "deliver hal (ring_contents (snd s)) s = Some (l', w')"
    "link_wf l'" "sensor_ok w'" "ring_contents w' = []"
    using drain_delivers [OF IH(1,2), of hal] empty_ring.hyps(2) by auto
  have dlc: "\<forall>f \<in> set (ring_contents (snd s)). frame_dlc f = 8" using empty_ring.prems(4) IH(5) by auto
  have "rx_steps (tester_ops hal) (l0, w0) (map frame_data (taken @ ring_contents (snd s))) s'"
    using deliver_rx_steps [OF d(2) dlc IH(4)] by (simp add: d(1))
  moreover have "seq_view w' = seq_view w0"
    using deliver_ok [of hal "ring_contents (snd s)" "fst s" "snd s" l' w'] d(2) IH by simp
  ultimately show ?case using d IH(5) by (intro conjI exI [of _ "taken @ ring_contents (snd s)"]) simp_all
next
  case (cyclic bus s s')
  then obtain taken where IH: "link_wf (fst s)" "sensor_ok (snd s)" "seq_view (snd s) = seq_view w0"
    "rx_steps (tester_ops hal) (l0, w0) (map frame_data taken) s" "responses bus = taken @ ring_contents (snd s)"
    by auto
  have "link_wf (fst s')"
    using tester_link.IsoTp_MainFunction_link_wf [of hal "fst s" "snd s" s'] cyclic.hyps(2) IH(1) by simp
  moreover have v: "sensor_ok (snd s')" "task_view (snd s') = task_view (snd s)"
    using tester_world.IsoTp_MainFunction_P [of hal s s' "task_view (snd s)"] cyclic.hyps(2) IH(2) by simp_all
  ultimately show ?case
    using rx_steps.cyclic [OF IH(4) cyclic.hyps(2,3)] task_view_seq [OF v(2)] ring_contents_cong [OF v(2)] IH(3,5) by auto
next
  case (sensor bus l w)
  then obtain taken where IH: "link_wf l" "sensor_ok w" "seq_view w = seq_view w0"
    "rx_steps (tester_ops hal) (l0, w0) (map frame_data taken) (l, w)" "responses bus = taken @ ring_contents w"
    by auto
  then show ?case
    using rx_steps.time [OF IH(4), of "SensorApp_Task10ms hal w"] Task10ms_ok [OF IH(2), of hal]
      task_view_seq [OF Task10ms_view [of hal w]] ring_contents_cong [OF Task10ms_view [of hal w]] by auto
next
  case (hardware bus l w h)
  then obtain taken where IH: "link_wf l" "sensor_ok w" "seq_view w = seq_view w0"
    "rx_steps (tester_ops hal) (l0, w0) (map frame_data taken) (l, w)" "responses bus = taken @ ring_contents w"
    by auto
  have v: "task_view (w\<lparr>hfdcan1 := h\<rparr>) = task_view w" by (simp add: task_view_def)
  show ?case
    using rx_steps.time [OF IH(4), of "w\<lparr>hfdcan1 := h\<rparr>"] IH task_view_seq [OF v] ring_contents_cong [OF v] by auto
qed

lemma last_response:
  assumes "tester_hears hal (l0, w0) bus (l, w)" "link_wf l0" "sensor_ok w0" "ring_contents w0 = []"
    and "rxState l0 = ISOTP_RX_IDLE" "rxBufferSize (cfg l0) = 128" "0 < length bytes" "length bytes \<le> 128"
    and "map frame_data (responses bus) = segment bytes" "\<forall>f \<in> set (responses bus). frame_dlc f = 8"
    and "ring_contents w \<noteq> []" "drain hal (l, w) = Some (l', w')"
  shows "s_gotResp w' \<and> take (unat (s_respLen w')) (s_resp w') = bytes \<and> unat (s_respLen w') = length bytes \<and>
    seq_view w' = seq_view w0 \<and> sensor_ok w' \<and> link_wf l'"
proof -
  from hears_inv [OF assms(1-4,10)] obtain taken where inv: "link_wf l" "sensor_ok w" "seq_view w = seq_view w0"
    "rx_steps (tester_ops hal) (l0, w0) (map frame_data taken) (l, w)" "responses bus = taken @ ring_contents w"
    by auto
  define fs where "fs = butlast (ring_contents w)"
  define f where "f = last (ring_contents w)"
  have c: "ring_contents w = fs @ [f]" using assms(11) by (simp add: fs_def f_def)
  have seg: "map frame_data (taken @ fs) = butlast (segment bytes)" "frame_data f = last (segment bytes)" "frame_dlc f = 8"
    using assms(9,10) inv(5) c by (simp_all flip: assms(9) add: butlast_append map_butlast)
  have "deliver hal (fs @ [f]) (l, w) = Some (l', w')"
    using drain_delivers [OF inv(1,2), of hal] assms(12) c by auto
  then obtain l1 w1 l2 w2 where d: "deliver hal fs (l, w) = Some (l1, w1)"
    "IsoTp_RxFrame (tester_ops hal) (Some (last (segment bytes))) 8 (l1, w1) = Some (l2, w2)" "l' = l2" "w' = ring_pop w2"
    unfolding deliver_append by (auto simp: seg(2,3) split: bind_splits prod.splits)
  have d1: "link_wf l1" "sensor_ok w1" "seq_view w1 = seq_view w0" "length (ring_contents w1) = 1"
    using deliver_ok [OF d(1) inv(1,2)] inv(3) by (simp_all add: c)
  have dlc: "\<forall>f \<in> set fs. frame_dlc f = 8" using assms(10) inv(5) c by auto
  from deliver_rx_steps [OF d(1) dlc inv(4)] seg(1)
  have "rx_steps (tester_ops hal) (l0, w0) (butlast (segment bytes)) (l1, w1)" by simp
  from tester_link.reassembles [OF _ assms(7) _ this] assms(2,5,6,8)
  obtain l3 w3 where fin: "RxFinish (tester_ops hal) ISOTP_OK (l3, w3) = Some (l2, w2)"
    "take (length bytes) (rxBuffer (cfg l3)) = bytes" "unat (rxLength l3) = length bytes"
    unfolding rx_ready_def d(2) by auto
  have w2: "sensor_ok w2" "task_view w2 = task_view w1"
    using tester_world.IsoTp_RxFrame_P [OF d(2), of "task_view w1"] d1(2) by simp_all
  have "OnResponse (rxBuffer (cfg l3)) (rxLength l3) ISOTP_OK (l3\<lparr>rxState := ISOTP_RX_IDLE\<rparr>, w3) = Some (l2, w2)"
    using fin(1) by (simp add: RxFinish_def tester_ops_def upd_def)
  moreover have "length (s_resp w2) = 128" using w2(1) by (simp add: sensor_ok_defs)
  ultimately have "w2 = w3\<lparr>s_resp := write_at (s_resp w3) 0 bytes, s_respLen := rxLength l3, s_gotResp := True\<rparr>"
    using assms(8) fin(2,3) by (auto simp: OnResponse_def split: if_splits)
  then have "s_gotResp w2 \<and> take (unat (s_respLen w2)) (s_resp w2) = bytes \<and> unat (s_respLen w2) = length bytes"
    by (simp add: fin(3) write_at_0)
  moreover have ne: "s_tail w2 \<noteq> s_head w2"
    using ring.empty [of w2] w2 d1(4) ring_contents_cong [OF w2(2)] by (auto simp: sensor_ok_def)
  ultimately show ?thesis
    using d(3,4) ring_pop_sensor_ok [OF w2(1) ne] task_view_seq [OF w2(2)] d1(3)
      tester_link.IsoTp_RxFrame_link_wf [OF d(2) d1(1)]
    by (auto simp: seq_view_def ring_pop_def)
qed

lemma RunSequence_verdict:
  assumes "s_gotResp w" "take (unat (s_respLen w)) (s_resp w) = bytes" "unat (s_respLen w) = length bytes"
    and "s_state w = SQ_WAIT" "seq_step_ok (current_step w)"
  shows "RunSequence hal (l, w) = Some (l, Finish hal
    (case sq_expect (current_step w) of None \<Rightarrow> False | Some e \<Rightarrow> take (length e) bytes = e) w)"
proof (cases "sq_expect (current_step w)")
  case (Some e)
  then have e: "length e = unat (sq_expectLen (current_step w))" using assms(5) by (simp add: seq_step_ok_def)
  have expect: "unat (ucast n :: u16) = unat n" for n :: u8
    using unsigned_less [of n, where 'a = nat] by (simp add: unsigned_ucast_eq take_bit_nat_eq_self)
  have "(s_respLen w \<ge> ucast (sq_expectLen (current_step w)) \<and>
      take (unat (sq_expectLen (current_step w))) (s_resp w) = take (unat (sq_expectLen (current_step w))) e) =
     (take (length e) bytes = e)"
  proof (cases "length e \<le> length bytes")
    case True
    then have "take (length e) bytes = take (length e) (s_resp w)"
      using assms(2,3) by (metis min.absorb1 take_take)
    moreover have "s_respLen w \<ge> ucast (sq_expectLen (current_step w))"
      using True e assms(3) expect by (simp add: word_le_nat_alt)
    ultimately show ?thesis using e by simp
  next
    case False
    then have "\<not> s_respLen w \<ge> ucast (sq_expectLen (current_step w))"
      using e assms(3) expect by (simp add: word_le_nat_alt)
    moreover have "take (length e) bytes \<noteq> e" using False by auto
    ultimately show ?thesis by simp
  qed
  then show ?thesis
    using assms(1,4) Some by (simp add: RunSequence_def Let_def current_step_def)
qed (use assms in \<open>simp add: RunSequence_def Let_def current_step_def\<close>)

subsection \<open>The exchange\<close>

text \<open>C6: a diagnostic exchange over both ECUs: the tester's sequencer sends the request of its current step, the
  Control ECU receives that frame, and the frames it answers with reach the tester through its interrupt and ring
  buffer, in any batches, between turns of the sensor's own task. Then the bytes the tester has stored are
  the answer the server's specification gives for the state of the Control ECU, and the step passes exactly when the
  bytes it expects are the beginning of that answer.\<close>

theorem Tester_request_answered:
  fixes wt :: "'t Sensor" and we :: "'e Ecu"
  assumes "tester_ready lt wt" "st = current_step wt" "length (sq_req st) \<le> 7"
    and "RunSequence thal (lt, wt) = Some (lt1, wt1)" "tx_trace wt1 = tx_trace wt @ [request]"
    and "diag_ready le we" "DiagApp_OnFrame ehal request (le, tst, we) = Some (le1, tst1, we1)"
    and "tx_steps (ecu_ops ehal) can_sent (le1, we1) (le2, we2)" "can_sent we2 = can_sent we @ answer"
    and "bytes = encode_reply (sq_functional st) (hd (sq_req st)) (ecu_reply we (sq_req st))"
    and "bytes \<noteq> []" "length bytes \<le> 128" "length answer = length (segment bytes)"
    and "tester_hears thal (lt1, wt1) bus (l, w)"
    and "responses bus = map (\<lambda>(i, d). \<lparr>frame_id = i, frame_dlc = 8, frame_data = d\<rparr>) answer"
    and "ring_contents w \<noteq> []" "drain thal (l, w) = Some (l', w')"
  shows "take (unat (s_respLen w')) (s_resp w') = bytes \<and> RunSequence thal (l', w') = Some (l', Finish thal
    (case sq_expect st of None \<Rightarrow> False | Some e \<Rightarrow> take (length e) bytes = e) w')"
proof -
  note ready = assms(1) [unfolded tester_ready_def]
  have step: "seq_step_ok st"
    using ready assms(2) by (auto simp: sensor_ok_def tester_ok_def current_step_def list_all_length word_less_nat_alt)
  then have req: "0 < length (sq_req st)" by (simp add: seq_step_ok_def word_less_nat_alt)
  have "SendStep thal (lt, wt) = Some (lt1, wt1)"
    using assms(4) ready by (simp add: RunSequence_def Let_def IsoTp_IsTxBusy_def)
  note sent = SendStep_frame [OF assms(1-3) this refl]
  have rq: "request = \<lparr>frame_id = if sq_functional st then 0x7DF else 0x7E0, frame_dlc = 8,
      frame_data = sf_frame (sq_req st)\<rparr>" using sent(1) assms(5) by simp
  have "tst1 = tst \<and> (\<exists>n. can_sent we2 = can_sent we @ map (Pair 0x7E8) (take n (segment bytes)))"
    using Diag_answers_frame [OF assms(6) _ _ _ req assms(3,10,7,8)] assms(11)
    unfolding rq CANID_UDS_REQ_CONTROL_def by auto
  then obtain n where "answer = map (Pair 0x7E8) (take n (segment bytes))" using assms(9) by auto
  with assms(13) have "answer = map (Pair 0x7E8) (segment bytes)" by simp
  then have resp: "responses bus = map (\<lambda>d. \<lparr>frame_id = 0x7E8, frame_dlc = 8, frame_data = d\<rparr>) (segment bytes)"
    using assms(15) by simp
  have rx: "rxState lt1 = ISOTP_RX_IDLE" "rxBufferSize (cfg lt1) = 128"
    using rx_viewD(1,6) [OF sent(5)] ready by simp_all
  have got: "s_gotResp w'" "take (unat (s_respLen w')) (s_resp w') = bytes" "unat (s_respLen w') = length bytes"
    "seq_view w' = seq_view wt1"
    using last_response [OF assms(14) sent(3,4,6) rx _ assms(12) _ _ assms(16,17)] assms(11)
    by (auto simp: resp comp_def)
  have "s_state w' = SQ_WAIT" "current_step w' = st"
    using got(4) sent(7) assms(2) by (simp_all add: seq_view_def current_step_def)
  with RunSequence_verdict [OF got(1-3), of thal l'] step got(2) show ?thesis by simp
qed

text \<open>Every request of the tester's sequences fits a single frame, also the one labelled as sent in several.\<close>

lemma tester_requests_single:
  "st \<in> set (k_seqTest @ k_seqDtc @ k_seqClear @ k_seqVer @ k_seqFunc @ k_seqReset) \<Longrightarrow>
   seq_step_ok st \<and> length (sq_req st) \<le> 7 \<and> segment (sq_req st) = [sf_frame (sq_req st)]"
  by (auto simp: k_seqTest_def k_seqDtc_def k_seqClear_def k_seqVer_def k_seqFunc_def k_seqReset_def seq_step_ok_def
      STEP_def STEP_D_def STEP_F_def STEP_F_SILENT_def segment_single)

subsection \<open>Examples\<close>

definition bench_link :: IsoTp_Link_t where
  "bench_link = IsoTp_Init (Some tester_cfg) (zero_link tester_cfg)"

definition bench_test :: "(u32 \<times> bool) Sensor" where
  "bench_test = bench\<lparr>s_seq := k_seqTest, s_seqLen := of_nat (length k_seqTest), s_state := SQ_SEND\<rparr>"

lemma bench_tester_ready: "tester_ready bench_link bench_test"
proof -
  have "link_wf bench_link"
    unfolding bench_link_def by (rule IsoTp_Init_link_wf) (simp_all add: tester_cfg_def TESTER_BUFFER_SIZE_def)
  moreover have "list_all seq_step_ok k_seqTest" by (simp add: list_all_iff tester_requests_single)
  moreover have "length k_seqTest = 12" by (simp add: k_seqTest_def)
  ultimately show ?thesis
    using bench_ok by (simp add: tester_ready_def sensor_ok_defs ring_contents_def ring_len_def bench_test_def)
      (simp add: bench_def bench_link_def IsoTp_Init_def zero_link_def tester_cfg_def TESTER_BUFFER_SIZE_def)
qed

lemma bench_current: "current_step bench_test = STEP ''TesterPresent'' [0x3E, 0x00] [0x7E, 0x00]"
  by (simp add: current_step_def bench_test_def k_seqTest_def) (simp add: bench_def)

lemma bench_sends_tester: "fst (tester_SendFrame bench_hal 0x7E0 f 8 w)"
  by (simp add: tester_SendFrame_def sensor_CanDrv_Write_def CANDRV_MAX_DLC_def CANDRV_MAX_STD_ID_def hal_call_def bench_hal_def)

lemma demo_idle: "can_sent demo_ecu = []" "s_pendingReset (uds demo_ecu) = 0"
  by (simp_all add: can_sent_def demo_ecu_def Uds_static_def RESET_NONE_def)

lemma demo_answers:
  assumes "frame_id frame = CANID_UDS_REQ_CONTROL" "frame_dlc frame = 8" "frame_data frame = sf_frame msg"
    and "0 < length msg" "length msg \<le> 7" "bytes = encode_reply False (hd msg) (ecu_reply demo_ecu msg)"
    and "bytes \<noteq> []" "length bytes \<le> 7" "hd msg \<noteq> 0x11"
  shows "\<exists>l w. DiagApp_OnFrame demo_hal frame (demo_link, demo_link, demo_ecu) = Some (l, demo_link, w) \<and>
    can_sent w = [(0x7E8, sf_frame bytes)]"
proof -
  obtain l2 where l2: "diag_ready l2 demo_ecu" "DiagApp_OnFrame demo_hal frame (demo_link, demo_link, demo_ecu)
     = map_option (\<lambda>(l', w'). (l', demo_link, w')) (RespondTo demo_hal (rxBuffer (cfg l2)) (of_nat (length msg)) False (l2, demo_ecu))"
    "map ((!) (rxBuffer (cfg l2))) [0..<length msg] = msg"
    using OnFrame_physical [OF demo_ready assms(1-5)] .
  note ready = l2(1) [unfolded diag_ready_def]
  have n: "unat (of_nat (length msg) :: u16) = length msg" "(of_nat (length msg) :: u16) \<noteq> 0"
    using assms(4,5) by (simp_all add: unat_of_nat word_unat_eq_iff)
  obtain buf where eq: "RespondTo demo_hal (rxBuffer (cfg l2)) (of_nat (length msg)) False (l2, demo_ecu) =
     map_option snd (IsoTp_Transmit (ecu_txops demo_hal) (Some bytes) (of_nat (length bytes)) (l2, ecu_after demo_hal demo_ecu msg buf))"
    using RespondTo_eq [of demo_ecu "of_nat (length msg)" msg "rxBuffer (cfg l2)" bytes False demo_hal l2] ready n l2(3) assms(6,7)
    by auto
  define w0 where "w0 = ecu_after demo_hal demo_ecu msg buf"
  have w0: "can_sent w0 = []" "s_pendingReset (uds w0) = 0"
    using assms(9) demo_idle by (simp_all add: w0_def) (simp add: ecu_after_def uds_after_def)
  obtain w1 where w1: "diag_SendFrame demo_hal 0x7E8 (sf_frame bytes) 8 w0 = (True, w1)"
    using demo_sends [of "sf_frame bytes" w0] by (metis prod.collapse)
  have log: "can_sent w1 = [(0x7E8, sf_frame bytes)]"
    using diag_SendFrame_log [OF w1 length_sf_frame [OF assms(8)]] w0(1) by simp
  have "CanDrv.more w1 = CanDrv.more w0" 
    using w1 CanSend_more [of demo_hal "0x7E8" "Some (sf_frame bytes)" 8 w0 True w1] by (simp add: diag_SendFrame_def)
  then have pend: "s_pendingReset (uds w1) = 0" using w0(2) by (cases w1; cases w0) simp
  then have "\<exists>l. IsoTp_Transmit (ecu_txops demo_hal) (Some bytes) (of_nat (length bytes)) (l2, w0) = Some (ISOTP_OK, l, w1)"
    using Transmit_single_eq [of l2 bytes, OF _ _ _ assms(8) _ refl, of "ecu_txops demo_hal" w0] ready w1 assms(7)
    by (auto simp: link_wf_def ecu_txops_def TxFinish_def upd_def OnEcuResponseSent_def Uds_ExecutePendingReset_def
        pend RESET_NONE_def Let_def)
  then show ?thesis
    using l2(2) log by (auto simp: eq w0_def [symmetric] can_sent_def)
qed

text \<open>The first step of the test sequence, TesterPresent, against the Control ECU after its start: it passes.\<close>

theorem Tester_request_answered_witness:
  "\<exists>lt1 wt1 request le1 we1 l' w'. RunSequence bench_hal (bench_link, bench_test) = Some (lt1, wt1) \<and> tx_trace wt1 = [request] \<and>
     DiagApp_OnFrame demo_hal request (demo_link, demo_link, demo_ecu) = Some (le1, demo_link, we1) \<and>
     can_sent we1 = [(0x7E8, sf_frame [0x7E, 0x00])] \<and>
     drain bench_hal (lt1, sensor_OnCanRx \<lparr>frame_id = 0x7E8, frame_dlc = 8, frame_data = sf_frame [0x7E, 0x00]\<rparr> wt1) = Some (l', w') \<and>
     RunSequence bench_hal (l', w') = Some (l', Finish bench_hal True w')"
proof -
  note rd = bench_tester_ready [unfolded tester_ready_def]
  obtain lt1 wt1 where run: "RunSequence bench_hal (bench_link, bench_test) = Some (lt1, wt1)"
    using RunSequence_ok [of bench_link bench_test bench_hal] rd by auto
  then have send: "SendStep bench_hal (bench_link, bench_test) = Some (lt1, wt1)"
    using rd by (simp add: RunSequence_def Let_def IsoTp_IsTxBusy_def)
  have st: "sq_req (current_step bench_test) = [0x3E, 0x00]" "\<not> sq_functional (current_step bench_test)"
    "sq_expect (current_step bench_test) = Some [0x7E, 0x00]"
    by (simp_all add: bench_current STEP_def)
  define request where "request = \<lparr>frame_id = 0x7E0, frame_dlc = 8, frame_data = sf_frame [0x3E, 0x00]\<rparr>"
  note sent = SendStep_frame [OF bench_tester_ready refl _ send refl]
  have tr: "tx_trace wt1 = tx_trace bench_test @ [request]"
    using sent(2) st bench_sends_tester by (simp add: request_def)
  have answer: "[0x7E, 0x00] = encode_reply False (hd [0x3E, 0x00]) (ecu_reply demo_ecu [0x3E, 0x00])"
    by (simp add: ecu_reply_def spec_reply_def spec_TesterPresent_def encode_reply_def)
  obtain le1 we1 where ecu: "DiagApp_OnFrame demo_hal request (demo_link, demo_link, demo_ecu) = Some (le1, demo_link, we1)"
    "can_sent we1 = [(0x7E8, sf_frame [0x7E, 0x00])]"
    using demo_answers [of request "[0x3E, 0x00]", OF _ _ _ _ _ answer] by (auto simp: request_def CANID_UDS_REQ_CONTROL_def)
  define f where "f = \<lparr>frame_id = 0x7E8, frame_dlc = 8, frame_data = sf_frame [0x7E, 0x00]\<rparr>"
  have idle: "ring_contents wt1 = []" "sensor_ok wt1" "link_wf lt1" using sent(3,4,6) st by simp_all
  then have ring: "ring_contents (sensor_OnCanRx f wt1) = [f]"
    using sensor_OnCanRx_ring [of wt1 f] by (simp add: responses_def f_def CANID_UDS_RESP_CONTROL_def)
  obtain l' w' where dr: "drain bench_hal (lt1, sensor_OnCanRx f wt1) = Some (l', w')"
    using drain_delivers [OF idle(3) sensor_OnCanRx_ok [OF idle(2)], of bench_hal f] by blast
  have "tester_hears bench_hal (lt1, wt1) ([] @ [f]) (lt1, sensor_OnCanRx f wt1)"
    by (rule tester_hears.isr [OF tester_hears.start]) (simp add: idle)
  note hears = this
  have rq: "length (sq_req (current_step bench_test)) \<le> 7" by (simp add: st)
  have reply: "[0x7E, 0x00] = encode_reply (sq_functional (current_step bench_test)) (hd (sq_req (current_step bench_test)))
      (ecu_reply demo_ecu (sq_req (current_step bench_test)))"
    using answer by (simp only: st)
  have bus: "can_sent we1 = can_sent demo_ecu @ [(0x7E8, sf_frame [0x7E, 0x00])]"
    "responses ([] @ [f]) = map (\<lambda>(i, d). \<lparr>frame_id = i, frame_dlc = 8, frame_data = d\<rparr>) [(0x7E8, sf_frame [0x7E, 0x00])]"
    by (simp_all add: ecu demo_idle responses_def f_def CANID_UDS_RESP_CONTROL_def)
  have "RunSequence bench_hal (l', w') = Some (l', Finish bench_hal True w')"
    using Tester_request_answered [OF bench_tester_ready refl rq run tr demo_ready ecu(1) tx_steps.start bus(1) reply
        _ _ _ hears bus(2) _ dr] ring by (simp add: st segment_single)
  moreover have "tx_trace bench_test = []" by (simp add: bench_test_def bench_def)
  ultimately show ?thesis using run tr ecu dr by (auto simp: f_def)
qed

end
