(* ===== verification/CanDriver.thy ===== *)
theory CanDriver
  imports SensorMcal ControlMcal
begin

section \<open>The contract of the CAN drivers\<close>

text \<open>
  The two CAN drivers promise their clients the same (\<open>can_driver\<close>): which frames a write takes and
  how it accounts for them, and how the cyclic function recovers from bus-off. The clients'
  lemmas are proved from these laws; the interpretations \<open>sensor_can\<close> and \<open>control_can\<close> discharge
  them for the two drivers.
\<close>

text \<open>A sequence of writes, and the status of each.\<close>

fun writes ::
  "(CanDrv_Frame_t option \<Rightarrow> 's \<Rightarrow> CanDrv_Status_t \<times> 's) \<Rightarrow> CanDrv_Frame_t list \<Rightarrow> 's \<Rightarrow> CanDrv_Status_t list \<times> 's" where
  "writes wr [] s = ([], s)"
| "writes wr (f # fs) s =
     (let (st, s1) = wr (Some f) s; (sts, s2) = writes wr fs s1 in (st # sts, s2))"

definition can_valid :: "CanDrv_Frame_t \<Rightarrow> bool" where
  "can_valid f \<longleftrightarrow> frame_dlc f \<le> 8 \<and> frame_id f \<le> 0x7FF"

text \<open>The frames taken, and the valid frames not taken.\<close>

definition taken :: "CanDrv_Frame_t list \<Rightarrow> CanDrv_Status_t list \<Rightarrow> CanDrv_Frame_t list" where
  "taken fs sts = map fst (filter (\<lambda>(f, st). st = CANDRV_OK) (zip fs sts))"

definition dropped :: "CanDrv_Frame_t list \<Rightarrow> CanDrv_Status_t list \<Rightarrow> nat" where
  "dropped fs sts = length (filter (\<lambda>(f, st). can_valid f \<and> st \<noteq> CANDRV_OK) (zip fs sts))"

locale can_driver =
  fixes wr :: "CanDrv_Frame_t option \<Rightarrow> ('h, 'm) CanDrv_scheme \<Rightarrow> CanDrv_Status_t \<times> ('h, 'm) CanDrv_scheme"
    and main :: "('h, 'm) CanDrv_scheme \<Rightarrow> ('h, 'm) CanDrv_scheme"
    and bus_off :: "('h, 'm) CanDrv_scheme \<Rightarrow> ('h, 'm) CanDrv_scheme"
    and leave_init :: "'h \<Rightarrow> 'h"
  assumes null: "wr None s = (CANDRV_ERROR, s)"
    and invalid: "\<not> can_valid f \<Longrightarrow> wr (Some f) s = (CANDRV_ERROR, s)"
    and write_ok: "wr (Some f) s = (CANDRV_OK, s') \<Longrightarrow>
      tx_trace s' = tx_trace s @ [f] \<and> txQueued (s_stats s') = txQueued (s_stats s) + 1 \<and>
      txDropped (s_stats s') = txDropped (s_stats s) \<and> can_valid f"
    and write_failed: "can_valid f \<Longrightarrow> wr (Some f) s = (st, s') \<Longrightarrow> st \<noteq> CANDRV_OK \<Longrightarrow>
      tx_trace s' = tx_trace s \<and> txQueued (s_stats s') = txQueued (s_stats s) \<and>
      txDropped (s_stats s') = txDropped (s_stats s) + 1"
    and idle: "\<not> s_busOffPending s \<Longrightarrow> main s = s"
    and waiting: "s_busOffPending s \<Longrightarrow> s_busOffTimer s + 1 < 10 \<Longrightarrow>
      main s = s\<lparr>s_busOffTimer := s_busOffTimer s + 1\<rparr>"
    and recovering: "s_busOffPending s \<Longrightarrow> \<not> s_busOffTimer s + 1 < 10 \<Longrightarrow>
      main s = s\<lparr>s_busOffTimer := 0, s_busOffPending := False, hfdcan1 := leave_init (hfdcan1 s)\<rparr>"
    and event: "s_busOffPending (bus_off s)" "s_busOffTimer (bus_off s) = 0" "hfdcan1 (bus_off s) = hfdcan1 s"
      "busOffCount (s_stats (bus_off s)) = busOffCount (s_stats s) + 1"
begin

lemma writes_account:
  assumes "writes wr fs s = (sts, s')"
  shows "length sts = length fs \<and> tx_trace s' = tx_trace s @ taken fs sts \<and>
    txQueued (s_stats s') = txQueued (s_stats s) + of_nat (length (taken fs sts)) \<and>
    txDropped (s_stats s') = txDropped (s_stats s) + of_nat (dropped fs sts)"
  using assms
proof (induction fs arbitrary: s sts)
  case Nil
  then show ?case by (simp add: taken_def dropped_def)
next
  case (Cons f fs)
  obtain st s1 where w: "wr (Some f) s = (st, s1)" by fastforce
  obtain sts1 where r: "writes wr fs s1 = (sts1, s')" "sts = st # sts1"
    using Cons.prems by (auto simp: w split: prod.splits)
  note IH = Cons.IH [OF r(1)]
  show ?case
  proof (cases "st = CANDRV_OK")
    case True
    then show ?thesis using IH write_ok [of f s s1] w by (simp add: r(2) taken_def dropped_def)
  next
    case False
    show ?thesis
    proof (cases "can_valid f")
      case True
      then show ?thesis using IH write_failed [OF True w False] False by (simp add: r(2) taken_def dropped_def)
    next
      case invalid': False
      then show ?thesis using IH invalid [OF invalid', of s] False w by (simp add: r(2) taken_def dropped_def)
    qed
  qed
qed

lemma main_waits:
  assumes "s_busOffPending s" "s_busOffTimer s = 0" "n < 10"
  shows "(main ^^ n) s = s\<lparr>s_busOffTimer := of_nat n\<rparr>"
  using assms(3)
proof (induction n)
  case 0
  then show ?case using assms(2) by simp
next
  case (Suc n)
  have "unat (of_nat n :: u32) = n" using Suc.prems by (simp add: unat_of_nat)
  then have "of_nat n + 1 < (10 :: u32)"
    using Suc.prems unat_Suc_word [of "of_nat n :: u32"] by (simp add: word_less_nat_alt)
  then show ?case using Suc assms(1) by (simp add: waiting)
qed

lemma main_recovers:
  assumes "s_busOffPending s" "s_busOffTimer s = 0"
  shows "(main ^^ 10) s = s\<lparr>s_busOffTimer := 0, s_busOffPending := False, hfdcan1 := leave_init (hfdcan1 s)\<rparr>"
proof -
  have "(main ^^ 10) s = main ((main ^^ 9) s)" by (simp add: eval_nat_numeral)
  also have "\<dots> = main (s\<lparr>s_busOffTimer := 9\<rparr>)" using main_waits [OF assms, of 9] by simp
  finally show ?thesis using assms(1) by (simp add: recovering)
qed

lemma main_idle: "\<not> s_busOffPending s \<Longrightarrow> (main ^^ k) s = s"
  by (induction k) (simp_all add: idle)

lemma bus_off_recovery:
  "n < 10 \<Longrightarrow> (main ^^ n) (bus_off s) = (bus_off s)\<lparr>s_busOffTimer := of_nat n\<rparr>"
  "(main ^^ (k + 10)) (bus_off s)
     = (bus_off s)\<lparr>s_busOffTimer := 0, s_busOffPending := False, hfdcan1 := leave_init (hfdcan1 s)\<rparr>"
  using main_waits [OF event(1,2), of n] main_recovers [OF event(1,2)] event(3)
  by (simp_all add: funpow_add main_idle)

end


lemmas can_defs = can_valid_def CANDRV_MAX_DLC_def CANDRV_MAX_STD_ID_def

definition clear_CCCR_INIT :: "('h, 'n) FdcanHal_scheme \<Rightarrow> 'h \<Rightarrow> 'h" where
  "clear_CCCR_INIT hal h = write_CCCR hal (read_CCCR hal h AND NOT FDCAN_CCCR_INIT) h"

lemma hal_call_stats:
  "hal_call f s = (st, s') \<Longrightarrow> s_stats s' = s_stats s \<and> tx_trace s' = tx_trace s"
  by (auto simp: hal_call_def split: prod.splits)

interpretation sensor_can: can_driver "sensor_CanDrv_Write hal" "sensor_CanDrv_MainFunction hal"
  "sensor_ErrorStatusCallback sensor_IT_BUS_OFF" "clear_CCCR_INIT hal"
  for hal :: "('h, 'n) FdcanHal_scheme"
proof
  fix s s' :: "('h, 'm) CanDrv_scheme" and f st
  show "sensor_CanDrv_Write hal (Some f) s = (CANDRV_OK, s') \<Longrightarrow>
      tx_trace s' = tx_trace s @ [f] \<and> txQueued (s_stats s') = txQueued (s_stats s) + 1 \<and>
      txDropped (s_stats s') = txDropped (s_stats s) \<and> can_valid f"
    by (auto simp: sensor_CanDrv_Write_def can_defs count_queued_def Let_def not_less split: if_splits prod.splits
        dest!: hal_call_stats)
  show "can_valid f \<Longrightarrow> sensor_CanDrv_Write hal (Some f) s = (st, s') \<Longrightarrow> st \<noteq> CANDRV_OK \<Longrightarrow>
      tx_trace s' = tx_trace s \<and> txQueued (s_stats s') = txQueued (s_stats s) \<and>
      txDropped (s_stats s') = txDropped (s_stats s) + 1"
    by (auto simp: sensor_CanDrv_Write_def can_defs count_dropped_def Let_def not_less split: if_splits prod.splits
        dest!: hal_call_stats)
  show "\<not> can_valid f \<Longrightarrow> sensor_CanDrv_Write hal (Some f) s = (CANDRV_ERROR, s)"
    by (simp add: sensor_CanDrv_Write_def can_defs not_le)
  show "s_busOffPending s \<Longrightarrow> s_busOffTimer s + 1 < 10 \<Longrightarrow>
      sensor_CanDrv_MainFunction hal s = s\<lparr>s_busOffTimer := s_busOffTimer s + 1\<rparr>"
    by (simp add: sensor_CanDrv_MainFunction_def BUSOFF_RECOVERY_DELAY_TICKS_def leD Let_def)
qed (simp_all add: sensor_CanDrv_Write_def sensor_CanDrv_MainFunction_def sensor_ErrorStatusCallback_def
    sensor_IT_BUS_OFF_def BUSOFF_RECOVERY_DELAY_TICKS_def clear_CCCR_INIT_def Let_def not_less)

interpretation control_can: can_driver "control_CanDrv_Write hal" "control_CanDrv_MainFunction hal"
  "control_ErrorStatusCallback control_IT_BUS_OFF" "clear_CCCR_INIT hal"
  for hal :: "('h, 'n) FdcanHal_scheme"
proof
  fix s s' :: "('h, 'm) CanDrv_scheme" and f st
  show "control_CanDrv_Write hal (Some f) s = (CANDRV_OK, s') \<Longrightarrow>
      tx_trace s' = tx_trace s @ [f] \<and> txQueued (s_stats s') = txQueued (s_stats s) + 1 \<and>
      txDropped (s_stats s') = txDropped (s_stats s) \<and> can_valid f"
    by (auto simp: control_CanDrv_Write_def can_defs count_queued_def Let_def not_less split: if_splits prod.splits
        dest!: hal_call_stats)
  show "can_valid f \<Longrightarrow> control_CanDrv_Write hal (Some f) s = (st, s') \<Longrightarrow> st \<noteq> CANDRV_OK \<Longrightarrow>
      tx_trace s' = tx_trace s \<and> txQueued (s_stats s') = txQueued (s_stats s) \<and>
      txDropped (s_stats s') = txDropped (s_stats s) + 1"
    by (auto simp: control_CanDrv_Write_def can_defs count_dropped_def Let_def not_less split: if_splits prod.splits
        dest!: hal_call_stats)
  show "\<not> can_valid f \<Longrightarrow> control_CanDrv_Write hal (Some f) s = (CANDRV_ERROR, s)"
    by (simp add: control_CanDrv_Write_def can_defs not_le)
  show "s_busOffPending s \<Longrightarrow> s_busOffTimer s + 1 < 10 \<Longrightarrow>
      control_CanDrv_MainFunction hal s = s\<lparr>s_busOffTimer := s_busOffTimer s + 1\<rparr>"
    by (simp add: control_CanDrv_MainFunction_def control_BUSOFF_RECOVERY_DELAY_TICKS_def leD Let_def)
qed (simp_all add: control_CanDrv_Write_def control_CanDrv_MainFunction_def control_ErrorStatusCallback_def
    control_IT_BUS_OFF_def control_BUSOFF_RECOVERY_DELAY_TICKS_def clear_CCCR_INIT_def Let_def not_less)

subsection \<open>An example controller\<close>

text \<open>The peripheral state is the number of free elements of the transmit FIFO and the register CCCR.\<close>

definition fifo_hal :: "(u32 \<times> u32) FdcanHal" where
  "fifo_hal =
     \<lparr>HAL_FDCAN_Init = \<lambda>_ h. (HAL_OK, h), HAL_FDCAN_ConfigFilter = \<lambda>_ h. (HAL_OK, h),
      HAL_FDCAN_ConfigGlobalFilter = \<lambda>_ _ _ _ h. (HAL_OK, h),
      HAL_FDCAN_ActivateNotification = \<lambda>_ _ h. (HAL_OK, h), HAL_FDCAN_Start = \<lambda>h. (HAL_OK, h),
      HAL_FDCAN_GetTxFifoFreeLevel = fst, HAL_FDCAN_AddMessageToTxFifoQ = \<lambda>_ _ (n, c). (HAL_OK, (n - 1, c)),
      HAL_FDCAN_GetRxFifoFillLevel = \<lambda>h. 0,
      HAL_FDCAN_GetRxMessage = \<lambda>h. (HAL_ERROR, \<lparr>rxIdentifier = 0, rxDataLength = 0\<rparr>, [], h),
      read_CCCR = snd, write_CCCR = \<lambda>v (n, c). (n, v), read_PSR = \<lambda>h. 0\<rparr>"

definition fifo_state :: "(u32 \<times> u32) CanDrv" where
  "fifo_state =
     \<lparr>hfdcan1 = (2, 1), hfdcan1_Init = \<lparr>initMode = 0, NominalPrescaler = 3, NominalTimeSeg1 = 13,
        NominalTimeSeg2 = 2, NominalSyncJumpWidth = 2\<rparr>,
      s_busOffPending = False, s_busOffTimer = 0,
      s_stats = \<lparr>txQueued = 0, txDropped = 0, rxCount = 0, busOffCount = 0\<rparr>, tx_trace = []\<rparr>"

definition fifo_frame :: "u16 \<Rightarrow> CanDrv_Frame_t" where
  "fifo_frame i = \<lparr>frame_id = i, frame_dlc = 8, frame_data = replicate 8 0\<rparr>"

text \<open>in both CAN drivers, over any sequence of writes and any behaviour of the controller: the
  frames in the transmit FIFO are exactly those whose write reported success, in order; the
  counter of queued frames has moved by their number, and the counter of dropped frames by
  the number of valid frames refused (both modulo 2^32), frames with a DLC over 8 or an
  identifier over 0x7FF being refused without being counted.\<close>

theorem CanDrv_Write_accounts:
  assumes "writes (sensor_CanDrv_Write hal) fs s = (sts, s1)"
    and "writes (control_CanDrv_Write hal) fs s = (sts', s1')"
  shows "tx_trace s1 = tx_trace s @ taken fs sts \<and> tx_trace s1' = tx_trace s @ taken fs sts' \<and>
    txQueued (s_stats s1) = txQueued (s_stats s) + of_nat (length (taken fs sts)) \<and>
    txQueued (s_stats s1') = txQueued (s_stats s) + of_nat (length (taken fs sts')) \<and>
    txDropped (s_stats s1) = txDropped (s_stats s) + of_nat (dropped fs sts) \<and>
    txDropped (s_stats s1') = txDropped (s_stats s) + of_nat (dropped fs sts')"
  using sensor_can.writes_account [OF assms(1)] control_can.writes_account [OF assms(2)] by simp

text \<open>Two free elements and four frames, one of them with an extended identifier.\<close>

theorem CanDrv_Write_accounts_witness:
  "\<exists>s1 s1'. snd (writes (sensor_CanDrv_Write fifo_hal) (map fifo_frame [1, 0x800, 2, 3]) fifo_state) = s1 \<and>
     snd (writes (control_CanDrv_Write fifo_hal) (map fifo_frame [1, 0x800, 2, 3]) fifo_state) = s1' \<and>
     tx_trace s1 = [fifo_frame 1, fifo_frame 2] \<and> tx_trace s1' = [fifo_frame 1, fifo_frame 2] \<and>
     txDropped (s_stats s1) = 1 \<and> txDropped (s_stats s1') = 1"
proof -
  define fs where "fs = map fifo_frame [1, 0x800, 2, 3]"
  define sts where "sts = [CANDRV_OK, CANDRV_ERROR, CANDRV_OK, CANDRV_TX_FULL]"
  have eval: "fst (writes (sensor_CanDrv_Write fifo_hal) fs fifo_state) = sts"
    "fst (writes (control_CanDrv_Write fifo_hal) fs fifo_state) = sts"
    by (simp_all add: fs_def sts_def fifo_frame_def fifo_state_def sensor_CanDrv_Write_def control_CanDrv_Write_def
        can_defs hal_call_def fifo_hal_def count_dropped_def count_queued_def)
  then obtain s1 s1' where w: "writes (sensor_CanDrv_Write fifo_hal) fs fifo_state = (sts, s1)"
    "writes (control_CanDrv_Write fifo_hal) fs fifo_state = (sts, s1')" by (metis prod.collapse)
  have "taken fs sts = [fifo_frame 1, fifo_frame 2]" "dropped fs sts = 1"
    "tx_trace fifo_state = []" "txDropped (s_stats fifo_state) = 0"
    by (simp_all add: taken_def dropped_def fs_def sts_def fifo_state_def can_valid_def fifo_frame_def)
  then show ?thesis
    using CanDrv_Write_accounts [OF w] w by (simp add: fs_def)
qed

text \<open>in both CAN drivers the bus-off event is answered by leaving the initialisation mode (clearing
  INIT of CCCR) at the tenth call of the cyclic function after the last event, not before and
  only once: until then nothing but the timer changes, and a new event starts the wait again.\<close>

theorem CanDrv_bus_off_recovery:
  "n < 10 \<Longrightarrow>
     (sensor_CanDrv_MainFunction hal ^^ n) (sensor_ErrorStatusCallback sensor_IT_BUS_OFF s)
       = (sensor_ErrorStatusCallback sensor_IT_BUS_OFF s)\<lparr>s_busOffTimer := of_nat n\<rparr> \<and>
     (control_CanDrv_MainFunction hal ^^ n) (control_ErrorStatusCallback control_IT_BUS_OFF s)
       = (control_ErrorStatusCallback control_IT_BUS_OFF s)\<lparr>s_busOffTimer := of_nat n\<rparr> \<and>
     (sensor_CanDrv_MainFunction hal ^^ (k + 10)) (sensor_ErrorStatusCallback sensor_IT_BUS_OFF s)
       = (sensor_ErrorStatusCallback sensor_IT_BUS_OFF s)
          \<lparr>s_busOffTimer := 0, s_busOffPending := False, hfdcan1 := clear_CCCR_INIT hal (hfdcan1 s)\<rparr> \<and>
     (control_CanDrv_MainFunction hal ^^ (k + 10)) (control_ErrorStatusCallback control_IT_BUS_OFF s)
       = (control_ErrorStatusCallback control_IT_BUS_OFF s)
          \<lparr>s_busOffTimer := 0, s_busOffPending := False, hfdcan1 := clear_CCCR_INIT hal (hfdcan1 s)\<rparr>"
  using sensor_can.bus_off_recovery(1) [of n hal s] sensor_can.bus_off_recovery(2) [of k hal s] control_can.bus_off_recovery(1) [of n hal s] control_can.bus_off_recovery(2) [of k hal s] by simp


theorem CanDrv_bus_off_recovery_witness:
  "hfdcan1 ((control_CanDrv_MainFunction fifo_hal ^^ 9) (control_ErrorStatusCallback control_IT_BUS_OFF fifo_state)) = (2, 1) \<and>
   hfdcan1 ((control_CanDrv_MainFunction fifo_hal ^^ 10) (control_ErrorStatusCallback control_IT_BUS_OFF fifo_state)) = (2, 0)"
  using CanDrv_bus_off_recovery [of 9 fifo_hal fifo_state 0]
  by (simp add: control_ErrorStatusCallback_def control_IT_BUS_OFF_def)
    (simp add: fifo_state_def fifo_hal_def clear_CCCR_INIT_def FDCAN_CCCR_INIT_def)

subsection \<open>The receive interrupt\<close>

text \<open>A controller that hands out its messages: every read succeeds and lowers the fill level; and an
  indication that leaves the controller's FIFO alone.\<close>

definition rx_fair :: "('h, 'n) FdcanHal_scheme \<Rightarrow> bool" where
  "rx_fair hal \<longleftrightarrow> (\<forall>h. HAL_FDCAN_GetRxFifoFillLevel hal h > 0 \<longrightarrow>
     (case HAL_FDCAN_GetRxMessage hal h of (st, _, _, h') \<Rightarrow>
        st = HAL_OK \<and> HAL_FDCAN_GetRxFifoFillLevel hal h' = HAL_FDCAN_GetRxFifoFillLevel hal h - 1))"

definition rx_level :: "('h, 'n) FdcanHal_scheme \<Rightarrow> ('h, 'm) CanDrv_scheme \<Rightarrow> u32" where
  "rx_level hal s = HAL_FDCAN_GetRxFifoFillLevel hal (hfdcan1 s)"

definition ind_quiet ::
  "('h, 'n) FdcanHal_scheme \<Rightarrow> (CanDrv_Frame_t \<Rightarrow> ('h, 'm) CanDrv_scheme \<Rightarrow> ('h, 'm) CanDrv_scheme) option \<Rightarrow> bool" where
  "ind_quiet hal cb \<longleftrightarrow> (\<forall>f frame s. cb = Some f \<longrightarrow> rx_level hal (f frame s) = rx_level hal s \<and>
     rxCount (s_stats (f frame s)) = rxCount (s_stats s))"

lemma count_received_simps [simp]:
  "hfdcan1 (count_received s) = hfdcan1 s" "rxCount (s_stats (count_received s)) = rxCount (s_stats s) + 1"
  by (simp_all add: count_received_def)

lemma rx_one:
  assumes "rx_fair hal" "rx_level hal s > 0" "HAL_FDCAN_GetRxMessage hal (hfdcan1 s) = (st, header, bytes, h)"
  shows "st = HAL_OK" "HAL_FDCAN_GetRxFifoFillLevel hal h = rx_level hal s - 1"
    "unat (HAL_FDCAN_GetRxFifoFillLevel hal h) < unat (rx_level hal s)"
proof -
  have "st = HAL_OK \<and> HAL_FDCAN_GetRxFifoFillLevel hal h = rx_level hal s - 1"
    using assms by (fastforce simp: rx_fair_def rx_level_def)
  moreover have "unat (rx_level hal s - 1) < unat (rx_level hal s)"
    using assms(2) by (simp add: unat_minus_one word_gt_0 unat_gt_0)
  ultimately show "st = HAL_OK" "HAL_FDCAN_GetRxFifoFillLevel hal h = rx_level hal s - 1"
    "unat (HAL_FDCAN_GetRxFifoFillLevel hal h) < unat (rx_level hal s)" by simp_all
qed

lemma control_RxLoop_drains:
  assumes "rx_fair hal" "ind_quiet hal cb"
  shows "\<exists>s'. control_RxLoop hal cb s = Some s' \<and> rx_level hal s' = 0 \<and>
    rxCount (s_stats s') = rxCount (s_stats s) + rx_level hal s"
proof (induction "unat (rx_level hal s)" arbitrary: s rule: less_induct)
  case less
  show ?case
  proof (cases "rx_level hal s = 0")
    case True
    then show ?thesis by (subst control_RxLoop.simps) (simp add: rx_level_def)
  next
    case False
    then have pos: "rx_level hal s > 0" by (simp add: word_gt_0)
    obtain st header bytes h where m: "HAL_FDCAN_GetRxMessage hal (hfdcan1 s) = (st, header, bytes, h)"
      by (metis prod_cases4)
    note one = rx_one [OF assms(1) pos m]
    define s3 where "s3 = (case cb of None \<Rightarrow> count_received (s\<lparr>hfdcan1 := h\<rparr>)
      | Some f \<Rightarrow> f (control_rx_frame header bytes) (count_received (s\<lparr>hfdcan1 := h\<rparr>)))"
    have s3: "rx_level hal s3 = HAL_FDCAN_GetRxFifoFillLevel hal h" "rxCount (s_stats s3) = rxCount (s_stats s) + 1"
      using assms(2) by (auto simp: s3_def ind_quiet_def rx_level_def split: option.split)
    have "control_RxLoop hal cb s = control_RxLoop hal cb s3"
      using pos m one(1) by (subst control_RxLoop.simps) (simp add: s3_def rx_level_def Let_def)
    with less [of s3] one(2,3) s3 show ?thesis by auto
  qed
qed

lemma sensor_RxLoop_drains:
  assumes "rx_fair hal" "ind_quiet hal cb"
  shows "\<exists>s'. sensor_RxLoop hal cb s = Some s' \<and> rx_level hal s' = 0 \<and>
    rxCount (s_stats s') = rxCount (s_stats s) + rx_level hal s"
proof (induction "unat (rx_level hal s)" arbitrary: s rule: less_induct)
  case less
  show ?case
  proof (cases "rx_level hal s = 0")
    case True
    then show ?thesis by (subst sensor_RxLoop.simps) (simp add: rx_level_def)
  next
    case False
    then have pos: "rx_level hal s > 0" by (simp add: word_gt_0)
    obtain st header bytes h where m: "HAL_FDCAN_GetRxMessage hal (hfdcan1 s) = (st, header, bytes, h)"
      by (metis prod_cases4)
    note one = rx_one [OF assms(1) pos m]
    define s3 where "s3 = (case cb of None \<Rightarrow> count_received (s\<lparr>hfdcan1 := h\<rparr>)
      | Some f \<Rightarrow> f (sensor_rx_frame header bytes) (count_received (s\<lparr>hfdcan1 := h\<rparr>)))"
    have s3: "rx_level hal s3 = HAL_FDCAN_GetRxFifoFillLevel hal h" "rxCount (s_stats s3) = rxCount (s_stats s) + 1"
      using assms(2) by (auto simp: s3_def ind_quiet_def rx_level_def split: option.split)
    have "sensor_RxLoop hal cb s = sensor_RxLoop hal cb s3"
      using pos m one(1) by (subst sensor_RxLoop.simps) (simp add: s3_def rx_level_def Let_def)
    with less [of s3] one(2,3) s3 show ?thesis by auto
  qed
qed


text \<open>On a controller that hands out its messages, with an indication that leaves the FIFO alone, the
  receive interrupt of both drivers returns, with the FIFO empty and every message that was in
  it counted (and handed to the indication).\<close>

theorem CanDrv_Rx_interrupt_returns:
  assumes "rx_fair hal" "ind_quiet hal cb"
  shows "(\<exists>s'. control_RxFifo0Callback hal cb FDCAN_IT_RX_FIFO0_NEW_MESSAGE s = Some s' \<and> rx_level hal s' = 0 \<and>
      rxCount (s_stats s') = rxCount (s_stats s) + rx_level hal s) \<and>
    (\<exists>s'. sensor_RxFifo0Callback hal cb FDCAN_IT_RX_FIFO0_NEW_MESSAGE s = Some s' \<and> rx_level hal s' = 0 \<and>
      rxCount (s_stats s') = rxCount (s_stats s) + rx_level hal s)"
  using control_RxLoop_drains [OF assms] sensor_RxLoop_drains [OF assms]
  by (simp add: control_RxFifo0Callback_def sensor_RxFifo0Callback_def FDCAN_IT_RX_FIFO0_NEW_MESSAGE_def)

theorem CanDrv_Rx_interrupt_returns_witness:
  "\<exists>s'. control_RxFifo0Callback (fifo_hal\<lparr>HAL_FDCAN_GetRxFifoFillLevel := fst, HAL_FDCAN_GetRxMessage :=
        \<lambda>(n, c). (HAL_OK, \<lparr>rxIdentifier = 1, rxDataLength = 8\<rparr>, replicate 8 0, (n - 1, c))\<rparr>)
      None FDCAN_IT_RX_FIFO0_NEW_MESSAGE fifo_state = Some s' \<and> rxCount (s_stats s') = 2"
proof -
  define hal where "hal = fifo_hal\<lparr>HAL_FDCAN_GetRxFifoFillLevel := fst, HAL_FDCAN_GetRxMessage :=
        \<lambda>(n, c). (HAL_OK, \<lparr>rxIdentifier = 1, rxDataLength = 8\<rparr>, replicate 8 0, (n - 1, c))\<rparr>"
  have "rx_fair hal" "ind_quiet hal None" "rx_level hal fifo_state = 2" "rxCount (s_stats fifo_state) = 0"
    by (simp_all add: rx_fair_def ind_quiet_def rx_level_def hal_def fifo_state_def)
  then show ?thesis
    using CanDrv_Rx_interrupt_returns [of hal None fifo_state] by (auto simp: hal_def)
qed

end
