(* ===== verification/ControlMcalProps.thy ===== *)
theory ControlMcalProps
  imports ControlMcal
begin

section \<open>Kernel clock and restart of the Control ECU\<close>

text \<open>
  What the switch of the CAN controller's kernel clock leaves in the clock registers, and the
  state in which the restart of the core hands over to the reset handler.
\<close>

subsection \<open>The kernel clock\<close>

text \<open>What the driver relies on: the registers it reads back hold what was written to them, and
  neither the other registers nor the delay change them.\<close>

definition clock_regs :: "rcc_reg set" where
  "clock_regs = {FDCANCKSELR, PLL3CR, PLL4CR}"

definition rcc_registers :: "('h, 'n) ControlHal_scheme \<Rightarrow> bool" where
  "rcc_registers hal \<longleftrightarrow>
     (\<forall>r r' v h. r \<in> clock_regs \<longrightarrow> read_rcc hal r (write_rcc hal r' v h) = (if r = r' then v else read_rcc hal r h)) \<and>
     (\<forall>r n h. read_rcc hal r (HAL_Delay hal n h) = read_rcc hal r h)"

lemma gate_restored: "x AND m = 0 \<Longrightarrow> (x OR m) AND NOT m = (x :: u32)"
proof (rule bit_word_eqI)
  fix n assume z: "x AND m = 0" and "n < LENGTH(32)"
  show "bit ((x OR m) AND NOT m) n = bit x n"
    using arg_cong [OF z, of "\<lambda>w. bit w n"] \<open>n < LENGTH(32)\<close> by (auto simp: bit_simps)
qed

text \<open>Whatever clock the controller ran on, after \<open>CanDrv_PrepareKernelClock\<close> its kernel clock source is HSE,
  the other bits of the selection register are as before, and both PLL registers are exactly as
  before: a gate of the old source that had to be opened for the switch is closed again.\<close>

theorem PrepareKernelClock_restores:
  assumes "rcc_registers hal" "CanDrv_PrepareKernelClock hal s = (hz, s')"
  shows "read_rcc hal FDCANCKSELR (hfdcan1 s') AND RCC_FDCANCKSELR_FDCANSRC = RCC_FDCANCLKSOURCE_HSE \<and>
     read_rcc hal FDCANCKSELR (hfdcan1 s') AND NOT RCC_FDCANCKSELR_FDCANSRC
       = read_rcc hal FDCANCKSELR (hfdcan1 s) AND NOT RCC_FDCANCKSELR_FDCANSRC \<and>
     read_rcc hal PLL3CR (hfdcan1 s') = read_rcc hal PLL3CR (hfdcan1 s) \<and>
     read_rcc hal PLL4CR (hfdcan1 s') = read_rcc hal PLL4CR (hfdcan1 s)"
proof -
  have rw: "read_rcc hal r (write_rcc hal r' v h) = (if r = r' then v else read_rcc hal r h)" if "r \<in> clock_regs" for r r' v h
    using assms(1) that by (simp add: rcc_registers_def)
  have delay: "read_rcc hal r (HAL_Delay hal n h) = read_rcc hal r h" for r n h
    using assms(1) by (simp add: rcc_registers_def)
  have regs: "FDCANCKSELR \<in> clock_regs" "PLL3CR \<in> clock_regs" "PLL4CR \<in> clock_regs"
    by (simp_all add: clock_regs_def)
  have masks: "(x AND NOT m) AND m = 0" "(x AND NOT m) AND NOT m = x AND NOT m" for x m :: u32
    by (rule bit_word_eqI; simp add: bit_simps)+
  have s': "hfdcan1 s' = PrepareKernelClock_regs hal (hfdcan1 s)"
    using assms(2) by (auto simp: CanDrv_PrepareKernelClock_def Let_def)
  show ?thesis
    unfolding s' PrepareKernelClock_regs_def OldSourceGate_def Let_def modify_rcc_def
    by (auto simp: rw regs delay masks gate_restored RCC_FDCANCLKSOURCE_HSE_def RCC_FDCANCLKSOURCE_PLL3_def
        RCC_FDCANCLKSOURCE_PLL4_Q_def RCC_FDCANCLKSOURCE_PLL4_R_def and.assoc)
qed


text \<open>The registers as a function; the old source is output R of PLL4 with its gate closed.\<close>

definition regs_hal :: "(rcc_reg \<Rightarrow> u32) ControlHal" where
  "regs_hal =
     \<lparr>HAL_FDCAN_Init = \<lambda>_ h. (HAL_OK, h), HAL_FDCAN_ConfigFilter = \<lambda>_ h. (HAL_OK, h),
      HAL_FDCAN_ConfigGlobalFilter = \<lambda>_ _ _ _ h. (HAL_OK, h),
      HAL_FDCAN_ActivateNotification = \<lambda>_ _ h. (HAL_OK, h), HAL_FDCAN_Start = \<lambda>h. (HAL_OK, h),
      HAL_FDCAN_GetTxFifoFreeLevel = \<lambda>h. 0, HAL_FDCAN_AddMessageToTxFifoQ = \<lambda>_ _ h. (HAL_OK, h),
      HAL_FDCAN_GetRxFifoFillLevel = \<lambda>h. 0,
      HAL_FDCAN_GetRxMessage = \<lambda>h. (HAL_ERROR, \<lparr>rxIdentifier = 0, rxDataLength = 0\<rparr>, [], h),
      read_CCCR = \<lambda>h. 0, write_CCCR = \<lambda>_ h. h, read_PSR = \<lambda>h. 0,
      read_rcc = \<lambda>r h. h r, write_rcc = \<lambda>r v h. h(r := v), HAL_Delay = \<lambda>_ h. h,
      GetPeriphCLKFreq_FDCAN = \<lambda>h. 24000000, HAL_TIM_PWM_Start = \<lambda>h. (HAL_OK, h), user1_pin = \<lambda>h. True\<rparr>"

definition regs_state :: "(rcc_reg \<Rightarrow> u32) ControlCan" where
  "regs_state =
     \<lparr>hfdcan1 = (\<lambda>r. 0)(FDCANCKSELR := 3, PLL4CR := 0x11), hfdcan1_Init = \<lparr>initMode = 0, NominalPrescaler = 3,
        NominalTimeSeg1 = 13, NominalTimeSeg2 = 2, NominalSyncJumpWidth = 2\<rparr>,
      s_busOffPending = False, s_busOffTimer = 0,
      s_stats = \<lparr>txQueued = 0, txDropped = 0, rxCount = 0, busOffCount = 0\<rparr>, tx_trace = [],
      s_kernelClockHz = 0, stats_kernelClockHz = 0, tim1_ARR = 0, tim1_Period = 0, tim1_CCR2 = 0\<rparr>"

theorem PrepareKernelClock_restores_witness:
  "hfdcan1 (snd (CanDrv_PrepareKernelClock regs_hal regs_state)) PLL4CR = 0x11 \<and>
   hfdcan1 (snd (CanDrv_PrepareKernelClock regs_hal regs_state)) FDCANCKSELR AND 3 = 0"
proof -
  have "rcc_registers regs_hal" by (auto simp: rcc_registers_def regs_hal_def)
  moreover have "read_rcc regs_hal r h = h r" for r h by (simp add: regs_hal_def)
  ultimately show ?thesis
    using PrepareKernelClock_restores [of regs_hal regs_state, OF _ prod.collapse [symmetric]]
    by (simp add: RCC_FDCANCKSELR_FDCANSRC_def RCC_FDCANCLKSOURCE_HSE_def regs_state_def)
qed

subsection \<open>Restart of the core\<close>

text \<open>What the restart leaves to the code that starts next: the interrupt enables and pending bits, the
  SysTick, the stack and the peripherals.\<close>

record core =
  irq_on :: bool
  systick :: u32
  nvic_enabled :: "nat \<Rightarrow> u32"
  nvic_pending :: "nat \<Rightarrow> u32"
  in_reset :: "peripheral set"
  was_reset :: "peripheral set"
  CONTROL :: u32
  msp :: u32
  pc :: "u32 option"

fun core_exec :: "core \<Rightarrow> core_step \<Rightarrow> core" where
  "core_exec c Disable_irq = c\<lparr>irq_on := False\<rparr>"
| "core_exec c Enable_irq = c\<lparr>irq_on := True\<rparr>"
| "core_exec c (SysTick_CTRL v) = c\<lparr>systick := v\<rparr>"
| "core_exec c (ICER i v) = c\<lparr>nvic_enabled := (nvic_enabled c)(i := nvic_enabled c i AND NOT v)\<rparr>"
| "core_exec c (ICPR i v) = c\<lparr>nvic_pending := (nvic_pending c)(i := nvic_pending c i AND NOT v)\<rparr>"
| "core_exec c (Force_reset p) = c\<lparr>in_reset := insert p (in_reset c), was_reset := insert p (was_reset c)\<rparr>"
| "core_exec c (Release_reset p) = c\<lparr>in_reset := in_reset c - {p}\<rparr>"
| "core_exec c (Set_CONTROL v) = c\<lparr>CONTROL := v\<rparr>"
| "core_exec c (Set_MSP v) = c\<lparr>msp := v\<rparr>"
| "core_exec c Barrier_ISB = c"
| "core_exec c Barrier_DSB = c"
| "core_exec c (Jump a) = c\<lparr>pc := Some a\<rparr>"

lemma irq_stays_off: "Enable_irq \<notin> set xs \<Longrightarrow> \<not> irq_on c \<Longrightarrow> \<not> irq_on (foldl core_exec c xs)"
proof (induction xs arbitrary: c)
  case (Cons x xs)
  then have "\<not> irq_on (core_exec c x)" by (cases x) auto
  with Cons show ?case by simp
qed simp

lemma upt_8: "[0..<8] = [0, 1, 2, 3, 4, 5, 6, 7]"
  by (simp add: upt_rec numeral_nat)

lemma and_not_all: "x AND - 4294967296 = (0 :: u32)"
proof -
  have "(4294967296 :: u32) = 0" by (simp add: word_unat_eq_iff)
  then show ?thesis by (simp only: minus_zero and_zero_eq)
qed

text \<open>From any state of the core, \<open>SysDrv_Restart\<close> ends by jumping to the reset handler of the vector table
  with the initial stack pointer on the main stack, every interrupt of the eight registers
  disabled and none pending, the SysTick stopped, the four peripherals of the application
  having been reset and out of reset again; and it has enabled interrupts again only after that.\<close>

theorem SysDrv_Restart_state:
  assumes "foldl core_exec c (SysDrv_Restart vectors) = c'" "steps = SysDrv_Restart vectors"
  shows "pc c' = Some (vectors 1) \<and> msp c' = vectors 0 \<and> CONTROL c' = 0 \<and> systick c' = 0 \<and> irq_on c' \<and>
     (\<forall>i < NVIC_REGISTER_COUNT. nvic_enabled c' i = 0 \<and> nvic_pending c' i = 0) \<and>
     {FDCAN, TIM1, TIM7, UART7} \<subseteq> was_reset c' \<and> in_reset c' \<subseteq> in_reset c - {FDCAN, TIM1, TIM7, UART7} \<and>
     (\<forall>n < length steps - 1. 1 \<le> n \<longrightarrow> \<not> irq_on (foldl core_exec c (take n steps)))"
proof -
  define mid where "mid = tl (butlast (butlast steps))"
  have steps: "steps = Disable_irq # mid @ [Enable_irq, Jump (vectors 1)]" "Enable_irq \<notin> set mid"
    by (simp_all add: mid_def assms(2) SysDrv_Restart_def NVIC_REGISTER_COUNT_def upt_8 Let_def butlast_append)
  have "\<not> irq_on (foldl core_exec c (take n steps))" if "1 \<le> n" "n < length steps - 1" for n
  proof -
    have "take n steps = Disable_irq # take (n - 1) mid" using that by (simp add: steps take_Cons')
    moreover have "Enable_irq \<notin> set (take (n - 1) mid)" using steps(2) in_set_takeD by fastforce
    ultimately show ?thesis using irq_stays_off [of "take (n - 1) mid" "core_exec c Disable_irq"] by simp
  qed
  moreover note run = assms(1) [symmetric, unfolded SysDrv_Restart_def NVIC_REGISTER_COUNT_def upt_8 Let_def]
  have "pc c' = Some (vectors 1)" "msp c' = vectors 0" "CONTROL c' = 0" "systick c' = 0" "irq_on c'"
    "was_reset c' = {UART7, TIM7, TIM1, FDCAN} \<union> was_reset c"
    "in_reset c' = in_reset c - {FDCAN, TIM1, TIM7, UART7}"
    by (auto simp: run)
  moreover have "nvic_enabled c' i = 0 \<and> nvic_pending c' i = 0" if "i < 8" for i
  proof -
    have "i \<in> set [0..<8]" using that by simp
    then show ?thesis unfolding upt_8 by (auto simp: run and_not_all)
  qed
  ultimately show ?thesis by (auto simp: NVIC_REGISTER_COUNT_def)
qed


theorem SysDrv_Restart_state_witness:
  "pc (foldl core_exec \<lparr>irq_on = True, systick = 7, nvic_enabled = \<lambda>_. 0xFF, nvic_pending = \<lambda>_. 1,
      in_reset = {}, was_reset = {}, CONTROL = 2, msp = 0, pc = None\<rparr> (SysDrv_Restart (\<lambda>i. of_nat (100 * i))))
   = Some 100"
  using SysDrv_Restart_state [OF refl refl] by simp

end
