(* ===== verification/ControlMain.thy ===== *)
theory ControlMain
  imports ControlApp
begin

section \<open>Start-up of the Control ECU (control_ecu/CM4/Core/Src/main.c)\<close>

text \<open>
  The part of \<open>main\<close> the application depends on: the kernel clock of the CAN controller is set
  before the controller is configured, then the application is initialised. \<open>Error_Handler\<close> of
  this ECU prints a message and returns. The generated functions that only call the HAL are
  fields of \<open>ControlMainHal\<close>.
\<close>

record 'h ControlMainHal = "'h EcuHal" +
  HAL_Init :: "'h \<Rightarrow> 'h"
  IS_ENGINEERING_BOOT_MODE :: "'h \<Rightarrow> bool"
  SystemClock_Config :: "'h \<Rightarrow> 'h"
  MX_IPCC_Init :: "'h \<Rightarrow> 'h"
  MX_OPENAMP_Init :: "'h \<Rightarrow> 'h"
  MX_UART7_Init :: "'h \<Rightarrow> 'h"
  MX_GPIO_Init :: "'h \<Rightarrow> 'h"
  MX_TIM1_Init :: "'h \<Rightarrow> 'h"
  osKernelInitialize :: "'h \<Rightarrow> 'h"
  osThreadNew_default :: "'h \<Rightarrow> 'h"

definition control_Error_Handler :: "'h Ecu \<Rightarrow> 'h Ecu" where
  "control_Error_Handler w = print (''[CTRL] Error_Handler'' @ crlf) w"

definition control_can_init :: FDCAN_Init where
  "control_can_init =
     \<lparr>initMode = 0, NominalPrescaler = 3, NominalTimeSeg1 = 13, NominalTimeSeg2 = 2,
      NominalSyncJumpWidth = 2\<rparr>"

definition control_MX_FDCAN1_Init :: "('h, 'n) EcuHal_scheme \<Rightarrow> 'h Ecu \<Rightarrow> 'h Ecu" where
  "control_MX_FDCAN1_Init hal w =
     (let (st, w1) = hal_call (HAL_FDCAN_Init hal control_can_init) (w\<lparr>hfdcan1_Init := control_can_init\<rparr>)
      in if st \<noteq> HAL_OK then control_Error_Handler w1 else w1)"

definition at_peripherals :: "('h \<Rightarrow> 'h) \<Rightarrow> 'h Ecu \<Rightarrow> 'h Ecu" where
  "at_peripherals f w = w\<lparr>hfdcan1 := f (hfdcan1 w)\<rparr>"

text \<open>From the reset to \<open>osKernelStart\<close>; the result tells whether the application was initialised.\<close>

definition control_main_init :: "('h, 'n) ControlMainHal_scheme \<Rightarrow> 'h diag \<Rightarrow> bool \<times> 'h diag" where
  "control_main_init hal d =
     (case d of (l, tst, w) \<Rightarrow>
        let w1 = at_peripherals (HAL_Init hal) w;
            engineering = IS_ENGINEERING_BOOT_MODE hal (hfdcan1 w1);
            w2 = (if engineering then at_peripherals (SystemClock_Config hal) w1
                  else at_peripherals (MX_OPENAMP_Init hal) (at_peripherals (MX_IPCC_Init hal) w1));
            w3 = print (crlf @ ''[CTRL] Control ECU boot ('' @ (if IS_ENGINEERING_BOOT_MODE hal (hfdcan1 w2)
                   then ''engineering'' else ''production'') @ '' mode)'' @ crlf)
                   (at_peripherals (MX_UART7_Init hal) w2);
            (hz, w4) = CanDrv_PrepareKernelClock hal w3;
            w5 = print (''[CTRL] FDCAN kernel clock: '' @ dec (unat hz) @ '' Hz'' @ crlf) w4;
            w6 = control_MX_FDCAN1_Init hal (at_peripherals (MX_GPIO_Init hal) w5);
            w7 = at_peripherals (MX_UART7_Init hal) (at_peripherals (MX_TIM1_Init hal) w6);
            w8 = at_peripherals (osThreadNew_default hal) (at_peripherals (osKernelInitialize hal) w7);
            (ok, l1, t1, w9) = ControlApp_Init hal (l, tst, w8)
        in (ok, l1, t1, if ok then w9 else control_Error_Handler w9))"

end
