(* ===== verification/BitTiming.thy ===== *)
theory BitTiming
  imports Complex_Main SensorInvariant ControlMain ControlInvariant
begin

section \<open>Bit timing\<close>

text \<open>
  Bit rate, sample point and timer rate of the settings both ECUs start with, as the reference manuals
  of the controllers define them.
\<close>

text \<open>The bit rate and the sample point of a CAN controller with a kernel clock of \<open>hz\<close>: a bit has one
  synchronisation quantum and the two segments.\<close>

definition bit_rate :: "nat \<Rightarrow> FDCAN_Init \<Rightarrow> real" where
  "bit_rate hz i = real hz / (real (unat (NominalPrescaler i)) * real (1 + unat (NominalTimeSeg1 i) + unat (NominalTimeSeg2 i)))"

definition sample_point :: "FDCAN_Init \<Rightarrow> real" where
  "sample_point i = real (1 + unat (NominalTimeSeg1 i)) / real (1 + unat (NominalTimeSeg1 i) + unat (NominalTimeSeg2 i))"

text \<open>The clock the PLL of the Sensor ECU makes of its 24 MHz crystal, which is also the clock of its CAN controller
  and of its timers (all dividers are 1).\<close>

definition pll_clock :: "nat \<Rightarrow> RCC_PLLInit \<Rightarrow> nat" where
  "pll_clock hse p = hse * PLLN p div (PLLM p * PLLR p)"

definition timer_rate :: "nat \<Rightarrow> TIM_Init \<Rightarrow> real" where
  "timer_rate hz t = real hz / (real (unat (Prescaler t) + 1) * real (unat (Period t) + 1))"

text \<open>What the bit timing of the Control ECU depends on.\<close>

definition can_timing :: "('h, 'm) ControlCan_scheme \<Rightarrow> u32 \<times> u32 \<times> u32 \<times> u32" where
  "can_timing s = (s_kernelClockHz s, NominalPrescaler (hfdcan1_Init s), NominalTimeSeg1 (hfdcan1_Init s),
     NominalTimeSeg2 (hfdcan1_Init s))"

lemma hal_call_timing: "hal_call f s = (st, s') \<Longrightarrow> can_timing s' = can_timing s"
  by (auto simp: hal_call_def can_timing_def split: prod.splits)

lemma config_filters_timing: "config_filters hal i fs s = (st, s') \<Longrightarrow> can_timing s' = can_timing s"
  by (induction hal i fs s rule: config_filters.induct) (auto split: prod.splits if_splits dest!: hal_call_timing)

lemma ConfigureFilters_timing: "control_ConfigureFilters hal fs n s = (st, s') \<Longrightarrow> can_timing s' = can_timing s"
  by (auto simp: control_ConfigureFilters_def Let_def split: prod.splits if_splits option.splits
      dest!: hal_call_timing config_filters_timing)

lemma ApplyBitTiming_timing:
  assumes "ApplyBitTiming hal s = (CANDRV_OK, s')"
  shows "can_timing s' = (if s_kernelClockHz s = 24000000 then can_timing s else (74250000, 1, 128, 19))"
  using assms
  by (auto simp: ApplyBitTiming_def KERNEL_CLOCK_HSE_HZ_def KERNEL_CLOCK_PLL4R_HZ_def Let_def can_timing_def
      split: if_splits prod.splits dest!: hal_call_timing)

lemma CanDrv_Init_timing:
  assumes "control_CanDrv_Init hal mode fs n s = (CANDRV_OK, s')"
  shows "can_timing s' = (if s_kernelClockHz s = 24000000 then can_timing s else (74250000, 1, 128, 19))"
proof -
  obtain bt s1 where bt: "ApplyBitTiming hal (s\<lparr>stats_kernelClockHz := s_kernelClockHz s\<rparr>) = (bt, s1)" by fastforce
  have loop: "can_timing (s1\<lparr>hfdcan1_Init := (hfdcan1_Init s1)\<lparr>initMode := x\<rparr>\<rparr>) = can_timing s1" for x
    by (simp add: can_timing_def)
  have "bt = CANDRV_OK \<and> can_timing s' = can_timing s1"
    using assms loop
    by (auto simp: control_CanDrv_Init_def bt Let_def split: prod.splits if_splits
      dest!: hal_call_timing ConfigureFilters_timing)
  then show ?thesis
    using ApplyBitTiming_timing [of hal _ s1] bt by (auto simp: can_timing_def)
qed

lemma control_rates:
  assumes "control_CanDrv_Init hal mode fs n (control_MX_FDCAN1_Init hal w) = (CANDRV_OK, w')"
  shows "can_timing w' \<in> {(24000000, 3, 13, 2), (74250000, 1, 128, 19)}"
proof -
  have "can_timing (control_MX_FDCAN1_Init hal w) = (s_kernelClockHz w, 3, 13, 2)"
    by (auto simp: control_MX_FDCAN1_Init_def control_can_init_def control_Error_Handler_def print_def can_timing_def
        hal_call_def Let_def split: prod.split)
  then show ?thesis using CanDrv_Init_timing [OF assms] by (auto simp: can_timing_def split: if_splits)
qed

lemma sensor_Init_init:
  assumes "sensor_CanDrv_Init hal CANDRV_MODE_NORMAL s = (st, s')"
  shows "hfdcan1_Init s' = hfdcan1_Init s"
proof -
  have c: "hfdcan1_Init (snd (hal_call f x)) = hfdcan1_Init x" for f and x :: "('a, 'b) CanDrv_scheme"
    by (simp add: hal_call_def split: prod.split)
  have "hfdcan1_Init (snd (sensor_CanDrv_Init hal CANDRV_MODE_NORMAL s)) = hfdcan1_Init s"
    by (simp add: sensor_CanDrv_Init_def sensor_ConfigureFilters_def Let_def split_beta c)
  then show ?thesis using assms by simp
qed

lemma main_init_can:
  assumes "sensor_main_init hal m = Some m'"
  shows "hfdcan1_Init (main_app m') = sensor_can_init"
proof (rule main_init_chain [OF assms])
  fix w1 w2 w3 w4 w5 w6 w8
  assume chain: "sensor_MX_FDCAN1_Init hal (w1\<lparr>hfdcan1 := SensorMain.MX_GPIO_Init hal (hfdcan1 w1)\<rparr>) = Some w2"
    "on_peripherals (MX_ADC1_Init hal) w2 = Some w3" "on_peripherals (MX_TIM6_Init hal) w3 = Some w4"
    "on_peripherals (MX_USART2_UART_Init hal) w4 = Some w5" "SensorApp_Init hal w5 = (True, w6)"
    "on_peripherals (or_error (HAL_TIM_Base_Start_IT hal)) (PrintHelp w6) = Some w8"
    "m' = m\<lparr>main_link := IsoTp_Init (Some tester_cfg) (main_link m), main_app := w8\<rparr>"
  have per: "hfdcan1_Init w' = hfdcan1_Init w" if "on_peripherals f w = Some w'" for f and w w' :: "'a Sensor"
    using that by (auto simp: on_peripherals_def)
  have c: "hfdcan1_Init (snd (hal_call f x)) = hfdcan1_Init x" for f and x :: "'a Sensor"
    by (simp add: hal_call_def split: prod.split)
  have rd: "hfdcan1_Init (snd (snd (AdcDrv_Read hal v x))) = hfdcan1_Init x" for v and x :: "'a Sensor"
    by (cases v) (simp_all add: AdcDrv_Read_def Let_def split_beta c)
  have can: "hfdcan1_Init (snd (sensor_CanDrv_Init hal CANDRV_MODE_NORMAL x)) = hfdcan1_Init x" for x :: "'a Sensor"
    by (rule sensor_Init_init [OF surjective_pairing])
  have "hfdcan1_Init w6 = hfdcan1_Init w5"
    using chain(5) can rd
    by (auto simp: SensorApp_Init_def SENSOR_APP_CAN_LOOPBACK_def Let_def split_beta AdcDrv_Init_def c printf_def
        FilterReset_def GpioDrv_SetLed_def split: if_splits)
  then show ?thesis
    using per [OF chain(2)] per [OF chain(3)] per [OF chain(4)] per [OF chain(6)] chain(1,7)
    by (auto simp: sensor_MX_FDCAN1_Init_def PrintHelp_def printf_def)
qed

end
