(* ===== verification/OpenAmp.thy ===== *)
theory OpenAmp
  imports CanDrv "HOL-Library.Monad_Syntax"
begin

section \<open>The mailbox and the start of OpenAMP (control_ecu/CM4/OPENAMP)\<close>

text \<open>
  The glue between the OpenAMP middleware and the mailbox (IPCC) to the Linux side: \<open>mbox_ipcc.c\<close>,
  \<open>rsc_table.c\<close> and \<open>openamp.c\<close>, which \<open>main\<close> runs when Linux has started the core. The middleware and the
  HAL are vendored: their functions are the fields of \<open>OpenAmpHal\<close>, over a state \<open>'h\<close> and handles
  \<open>'p\<close>; a null pointer is \<open>None\<close>. The log macros are empty in this build.
\<close>

datatype ipcc_dir = IPCC_CHANNEL_DIR_TX | IPCC_CHANNEL_DIR_RX
datatype ipcc_callback = Channel1_callback | Channel2_callback

definition IPCC_CHANNEL_1 :: u32 where "IPCC_CHANNEL_1 = 0"
definition IPCC_CHANNEL_2 :: u32 where "IPCC_CHANNEL_2 = 1"
definition MBOX_NO_MSG :: int where "MBOX_NO_MSG = 0"
definition MBOX_NEW_MSG :: int where "MBOX_NEW_MSG = 1"
definition MBOX_BUF_FREE :: int where "MBOX_BUF_FREE = 2"
definition VRING0_ID :: u32 where "VRING0_ID = 0"
definition VRING1_ID :: u32 where "VRING1_ID = 1"
definition VDEV_ID :: u32 where "VDEV_ID = 0xFF"
definition VRING_RX_ADDRESS :: u32 where "VRING_RX_ADDRESS = - 1"
definition VRING_TX_ADDRESS :: u32 where "VRING_TX_ADDRESS = - 1"
definition VRING_BUFF_ADDRESS :: u32 where "VRING_BUFF_ADDRESS = - 1"
definition VRING_ALIGNMENT :: u32 where "VRING_ALIGNMENT = 16"
definition VRING_NUM_BUFFS :: u32 where "VRING_NUM_BUFFS = 16"
definition VRING_COUNT :: u8 where "VRING_COUNT = 2"

subsection \<open>The resource table (rsc_table.c, rsc_table.h)\<close>

record fw_rsc_vdev_vring =
  da :: u32
  align :: u32
  num :: u32
  notifyid :: u32

record fw_rsc_vdev =
  vdev_type :: u32
  vdev_id :: u32
  vdev_notifyid :: u32
  dfeatures :: u32
  gfeatures :: u32
  config_len :: u32
  vdev_status :: u8
  num_of_vrings :: u8

record shared_resource_table =
  version :: u32
  entries :: u32
  offset :: "u32 list"
  vdev :: fw_rsc_vdev
  vring0 :: fw_rsc_vdev_vring
  vring1 :: fw_rsc_vdev_vring

definition RSC_VDEV :: u32 where "RSC_VDEV = 3"
definition VIRTIO_ID_RPMSG :: u32 where "VIRTIO_ID_RPMSG = 7"
definition RPMSG_IPU_C0_FEATURES :: u32 where "RPMSG_IPU_C0_FEATURES = 1"

text \<open>The table in the image, without the reserved words and the trace entry, which are 0 in this build; Linux writes the addresses of the rings into its copy in memory.\<close>

definition resource_table :: shared_resource_table where
  "resource_table =
     \<lparr>version = 1, entries = 1, offset = [24, 92],
      vdev = \<lparr>vdev_type = RSC_VDEV, vdev_id = VIRTIO_ID_RPMSG, vdev_notifyid = 0,
        dfeatures = RPMSG_IPU_C0_FEATURES, gfeatures = 0, config_len = 0, vdev_status = 0,
        num_of_vrings = VRING_COUNT\<rparr>,
      vring0 = \<lparr>da = VRING_TX_ADDRESS, align = VRING_ALIGNMENT, num = VRING_NUM_BUFFS, notifyid = VRING0_ID\<rparr>,
      vring1 = \<lparr>da = VRING_RX_ADDRESS, align = VRING_ALIGNMENT, num = VRING_NUM_BUFFS, notifyid = VRING1_ID\<rparr>\<rparr>"

subsection \<open>The middleware and the HAL\<close>

record ('h, 'p) OpenAmpHal =
  HAL_IPCC_ActivateNotification :: "u32 \<Rightarrow> ipcc_dir \<Rightarrow> ipcc_callback \<Rightarrow> 'h \<Rightarrow> HAL_Status \<times> 'h"
  channel_occupied :: "u32 \<Rightarrow> ipcc_dir \<Rightarrow> 'h \<Rightarrow> bool \<times> 'h"
  HAL_IPCC_NotifyCPU :: "u32 \<Rightarrow> ipcc_dir \<Rightarrow> 'h \<Rightarrow> 'h"
  rproc_virtio_notified :: "'p option \<Rightarrow> u32 \<Rightarrow> 'h \<Rightarrow> 'h"
  metal_init :: "'h \<Rightarrow> 'h"
  metal_register_generic_device :: "'h \<Rightarrow> int \<times> 'h"
  metal_device_open :: "string \<Rightarrow> string \<Rightarrow> 'h \<Rightarrow> int \<times> 'p option \<times> 'h"
  metal_io_init :: "'p option \<Rightarrow> nat \<Rightarrow> u32 \<Rightarrow> u32 \<Rightarrow> 'h \<Rightarrow> 'h"
  metal_device_io_region :: "'p option \<Rightarrow> nat \<Rightarrow> 'h \<Rightarrow> 'p option"
  rproc_virtio_create_vdev :: "int \<Rightarrow> u32 \<Rightarrow> 'p option \<Rightarrow> 'h \<Rightarrow> 'p option \<times> 'h"
  rproc_virtio_wait_remote_ready :: "'p option \<Rightarrow> 'h \<Rightarrow> 'h option"
  table_in_memory :: "'h \<Rightarrow> shared_resource_table"
  rproc_virtio_init_vring :: "'p option \<Rightarrow> nat \<Rightarrow> fw_rsc_vdev_vring \<Rightarrow> 'p option \<Rightarrow> 'h \<Rightarrow> int \<times> 'h"
  rpmsg_virtio_init_shm_pool :: "u32 \<Rightarrow> u32 \<Rightarrow> 'h \<Rightarrow> 'h"
  rpmsg_init_vdev :: "'p option \<Rightarrow> 'p option \<Rightarrow> 'h \<Rightarrow> int \<times> 'h"
  rpmsg_deinit_vdev :: "'h \<Rightarrow> 'h"
  metal_finish :: "'h \<Rightarrow> 'h"
  rpmsg_create_ept :: "string \<Rightarrow> u32 \<Rightarrow> u32 \<Rightarrow> 'h \<Rightarrow> int \<times> 'h"
  is_rpmsg_ept_ready :: "'h \<Rightarrow> bool"
  SHM_START_ADDRESS :: u32
  SHM_SIZE :: u32
  resource_table_address :: u32

record ('h, 'p) OpenAmp =
  amp :: 'h
  msg_received_ch1 :: int
  msg_received_ch2 :: int
  shm_io :: "'p option"
  rsc_io :: "'p option"
  shm_physmap :: u32
  rsc_table :: u32
  rvdev_vdev :: "'p option"

definition with_amp :: "('h \<Rightarrow> 'h) \<Rightarrow> ('h, 'p) OpenAmp \<Rightarrow> ('h, 'p) OpenAmp" where
  "with_amp f m = m\<lparr>amp := f (amp m)\<rparr>"

subsection \<open>The mailbox (mbox_ipcc.c)\<close>

definition MAILBOX_Init :: "('h, 'p) OpenAmpHal \<Rightarrow> ('h, 'p) OpenAmp \<Rightarrow> int \<times> ('h, 'p) OpenAmp" where
  "MAILBOX_Init hal m =
     (let (st, h) = HAL_IPCC_ActivateNotification hal IPCC_CHANNEL_1 IPCC_CHANNEL_DIR_RX Channel1_callback (amp m) in
      if st \<noteq> HAL_OK then (-1, m\<lparr>amp := h\<rparr>)
      else
        (let (st2, h2) = HAL_IPCC_ActivateNotification hal IPCC_CHANNEL_2 IPCC_CHANNEL_DIR_RX Channel2_callback h in
         if st2 \<noteq> HAL_OK then (-1, m\<lparr>amp := h2\<rparr>) else (0, m\<lparr>amp := h2\<rparr>)))"

definition MAILBOX_Poll ::
  "('h, 'p) OpenAmpHal \<Rightarrow> 'p option \<Rightarrow> ('h, 'p) OpenAmp \<Rightarrow> int \<times> ('h, 'p) OpenAmp" where
  "MAILBOX_Poll hal vd m =
     (let (ret, m1) = (if msg_received_ch1 m = MBOX_BUF_FREE
            then (0, (with_amp (rproc_virtio_notified hal vd VRING0_ID) m)\<lparr>msg_received_ch1 := MBOX_NO_MSG\<rparr>)
            else (-1, m))
      in if msg_received_ch2 m1 = MBOX_NEW_MSG
         then (0, (with_amp (rproc_virtio_notified hal vd VRING1_ID) m1)\<lparr>msg_received_ch2 := MBOX_NO_MSG\<rparr>)
         else (ret, m1))"

text \<open>The busy wait for the channel: \<open>None\<close> while it stays occupied for ever.\<close>

partial_function (option) wait_channel_free :: "('h, 'p) OpenAmpHal \<Rightarrow> u32 \<Rightarrow> 'h \<Rightarrow> 'h option" where
  "wait_channel_free hal ch h =
     (let (occupied, h1) = channel_occupied hal ch IPCC_CHANNEL_DIR_TX h
      in if occupied then wait_channel_free hal ch h1 else Some h1)"

definition MAILBOX_Notify ::
  "('h, 'p) OpenAmpHal \<Rightarrow> u32 \<Rightarrow> ('h, 'p) OpenAmp \<Rightarrow> (int \<times> ('h, 'p) OpenAmp) option" where
  "MAILBOX_Notify hal vring m =
     (if vring \<noteq> VRING0_ID \<and> vring \<noteq> VRING1_ID then Some (-1, m)
      else
        (let ch = (if vring = VRING0_ID then IPCC_CHANNEL_1 else IPCC_CHANNEL_2);
             (occupied, h) = channel_occupied hal ch IPCC_CHANNEL_DIR_TX (amp m)
         in do {
              h1 \<leftarrow> (if occupied then wait_channel_free hal ch h else Some h);
              Some (0, m\<lparr>amp := HAL_IPCC_NotifyCPU hal ch IPCC_CHANNEL_DIR_TX h1\<rparr>)
            }))"

definition IPCC_channel1_callback ::
  "('h, 'p) OpenAmpHal \<Rightarrow> u32 \<Rightarrow> ('h, 'p) OpenAmp \<Rightarrow> ('h, 'p) OpenAmp" where
  "IPCC_channel1_callback hal ch m =
     with_amp (HAL_IPCC_NotifyCPU hal ch IPCC_CHANNEL_DIR_RX) (m\<lparr>msg_received_ch1 := MBOX_BUF_FREE\<rparr>)"

definition IPCC_channel2_callback ::
  "('h, 'p) OpenAmpHal \<Rightarrow> u32 \<Rightarrow> ('h, 'p) OpenAmp \<Rightarrow> ('h, 'p) OpenAmp" where
  "IPCC_channel2_callback hal ch m =
     with_amp (HAL_IPCC_NotifyCPU hal ch IPCC_CHANNEL_DIR_RX) (m\<lparr>msg_received_ch2 := MBOX_NEW_MSG\<rparr>)"

subsection \<open>The start (openamp.c)\<close>

definition SHM_DEVICE_NAME :: string where "SHM_DEVICE_NAME = ''STM32_SHM''"

text \<open>\<open>resource_table_init\<close>: the address and the size of the table.\<close>

definition resource_table_init :: "('h, 'p) OpenAmpHal \<Rightarrow> u32 \<times> u32" where
  "resource_table_init hal = (resource_table_address hal, 140)"

definition OPENAMP_shmem_init ::
  "('h, 'p) OpenAmpHal \<Rightarrow> ('h, 'p) OpenAmp \<Rightarrow> int \<times> ('h, 'p) OpenAmp" where
  "OPENAMP_shmem_init hal m =
     (let m0 = with_amp (metal_init hal) m;
          (st, h1) = metal_register_generic_device hal (amp m0); m1 = m0\<lparr>amp := h1\<rparr>
      in if st \<noteq> 0 then (st, m1)
         else
           (let (st2, dev, h2) = metal_device_open hal ''generic'' SHM_DEVICE_NAME h1; m2 = m1\<lparr>amp := h2\<rparr>
            in if st2 \<noteq> 0 then (st2, m2)
               else
                 (let m3 = with_amp (metal_io_init hal dev 0 (SHM_START_ADDRESS hal) (SHM_SIZE hal))
                             (m2\<lparr>shm_physmap := SHM_START_ADDRESS hal\<rparr>);
                      m4 = m3\<lparr>shm_io := metal_device_io_region hal dev 0 (amp m3)\<rparr>
                  in if shm_io m4 = None then (-1, m4)
                     else
                       (let (table, size) = resource_table_init hal; m5 = m4\<lparr>rsc_table := table\<rparr>
                        in if rsc_table m5 = 0 then (-1, m5)
                           else
                             (let m6 = with_amp (metal_io_init hal dev 1 (rsc_table m5) size) m5;
                                  m7 = m6\<lparr>rsc_io := metal_device_io_region hal dev 1 (amp m6)\<rparr>
                              in if rsc_io m7 = None then (-1, m7) else (0, m7))))))"

definition MX_OPENAMP_Init ::
  "('h, 'p) OpenAmpHal \<Rightarrow> int \<Rightarrow> ('h, 'p) OpenAmp \<Rightarrow> (int \<times> ('h, 'p) OpenAmp) option" where
  "MX_OPENAMP_Init hal role m =
     (let (_, m0) = MAILBOX_Init hal m; (st, m1) = OPENAMP_shmem_init hal m0 in
      if st \<noteq> 0 then Some (st, m1)
      else
        (let (vd, h2) = rproc_virtio_create_vdev hal role VDEV_ID (rsc_io m1) (amp m1); m2 = m1\<lparr>amp := h2\<rparr>
         in if vd = None then Some (-1, m2)
            else
              do {
                h3 \<leftarrow> rproc_virtio_wait_remote_ready hal vd h2;
                let (st4, h4) = rproc_virtio_init_vring hal vd 0 (vring0 (table_in_memory hal h3)) (shm_io m2) h3;
                if st4 \<noteq> 0 then Some (st4, m2\<lparr>amp := h4\<rparr>)
                else
                  (let (st5, h5) = rproc_virtio_init_vring hal vd 1 (vring1 (table_in_memory hal h4)) (shm_io m2) h4
                   in if st5 \<noteq> 0 then Some (st5, m2\<lparr>amp := h5\<rparr>)
                      else
                        (let h6 = rpmsg_virtio_init_shm_pool hal VRING_BUFF_ADDRESS (SHM_SIZE hal) h5;
                             (_, h7) = rpmsg_init_vdev hal vd (shm_io m2) h6
                         in Some (0, m2\<lparr>amp := h7, rvdev_vdev := vd\<rparr>)))
              }))"

definition OPENAMP_DeInit :: "('h, 'p) OpenAmpHal \<Rightarrow> ('h, 'p) OpenAmp \<Rightarrow> ('h, 'p) OpenAmp" where
  "OPENAMP_DeInit hal m = with_amp (metal_finish hal) (with_amp (rpmsg_deinit_vdev hal) m)"

definition RPMSG_ADDR_ANY :: u32 where "RPMSG_ADDR_ANY = 0xFFFFFFFF"

text \<open>The endpoint and its callbacks are in the state of the middleware.\<close>

definition OPENAMP_create_endpoint ::
  "('h, 'p) OpenAmpHal \<Rightarrow> string \<Rightarrow> u32 \<Rightarrow> ('h, 'p) OpenAmp \<Rightarrow> int \<times> ('h, 'p) OpenAmp" where
  "OPENAMP_create_endpoint hal name dest m =
     (let (ret, h) = rpmsg_create_ept hal name RPMSG_ADDR_ANY dest (amp m) in (ret, m\<lparr>amp := h\<rparr>))"

definition OPENAMP_check_for_message :: "('h, 'p) OpenAmpHal \<Rightarrow> ('h, 'p) OpenAmp \<Rightarrow> ('h, 'p) OpenAmp" where
  "OPENAMP_check_for_message hal m = snd (MAILBOX_Poll hal (rvdev_vdev m) m)"

partial_function (option) OPENAMP_Wait_EndPointready ::
  "('h, 'p) OpenAmpHal \<Rightarrow> ('h, 'p) OpenAmp \<Rightarrow> ('h, 'p) OpenAmp option" where
  "OPENAMP_Wait_EndPointready hal m =
     (if is_rpmsg_ept_ready hal (amp m) then Some m
      else OPENAMP_Wait_EndPointready hal (snd (MAILBOX_Poll hal (rvdev_vdev m) m)))"

end
