(* ===== verification/OpenAmpProps.thy ===== *)
theory OpenAmpProps
  imports OpenAmp
begin

section \<open>What the mailbox promises\<close>

text \<open>
  Notifications from Linux arrive in an interrupt and are processed when the application polls. The
  poll in its steps, with interrupts between them; the wait for a free channel; the outcome of
  the start.
\<close>

subsection \<open>Waiting for the channel\<close>

definition occupied_at :: "('h, 'p) OpenAmpHal \<Rightarrow> u32 \<Rightarrow> nat \<Rightarrow> 'h \<Rightarrow> bool" where
  "occupied_at hal ch n h =
     fst (channel_occupied hal ch IPCC_CHANNEL_DIR_TX (((\<lambda>h. snd (channel_occupied hal ch IPCC_CHANNEL_DIR_TX h)) ^^ n) h))"

lemma occupied_at_Suc:
  "channel_occupied hal ch IPCC_CHANNEL_DIR_TX h = (b, h1) \<Longrightarrow> occupied_at hal ch (Suc n) h = occupied_at hal ch n h1"
  by (simp add: occupied_at_def funpow_Suc_right del: funpow.simps)

lemma wait_free_returns: "\<not> occupied_at hal ch n h \<Longrightarrow> wait_channel_free hal ch h \<noteq> None"
proof (induction n arbitrary: h)
  case 0
  then show ?case by (subst wait_channel_free.simps) (simp add: occupied_at_def split_beta)
next
  case (Suc n)
  obtain b h1 where c: "channel_occupied hal ch IPCC_CHANNEL_DIR_TX h = (b, h1)" by fastforce
  show ?case
    using Suc.IH [of h1] Suc.prems occupied_at_Suc [OF c, of n] by (subst wait_channel_free.simps) (simp add: c)
qed

lemma wait_free_ends:
  assumes "wait_channel_free hal ch h = Some h'"
  shows "\<exists>n. \<not> occupied_at hal ch n h"
proof (rule wait_channel_free.raw_induct [OF _ assms, where P = "\<lambda>hal ch h h'. \<exists>n. \<not> occupied_at hal ch n h"])
  fix wait and hal :: "('a, 'b) OpenAmpHal" and ch h h'
  assume IH: "\<And>hal ch h h'. wait hal ch h = Some h' \<Longrightarrow> \<exists>n. \<not> occupied_at hal ch n h"
    and body: "(let (occupied, h1) = channel_occupied hal ch IPCC_CHANNEL_DIR_TX h
      in if occupied then wait hal ch h1 else Some h1) = Some h'"
  obtain b h1 where c: "channel_occupied hal ch IPCC_CHANNEL_DIR_TX h = (b, h1)" by fastforce
  show "\<exists>n. \<not> occupied_at hal ch n h"
  proof (cases b)
    case True
    then show ?thesis using body IH [of hal ch h1 h'] occupied_at_Suc [OF c] by (auto simp: c)
  next
    case False
    then show ?thesis using c by (intro exI [of _ 0]) (simp add: occupied_at_def)
  qed
qed

text \<open>\<open>MAILBOX_Notify\<close> returns exactly when some read of the status finds the channel free.\<close>

theorem Mailbox_notify_returns:
  assumes "ch = (if vring = VRING0_ID then IPCC_CHANNEL_1 else IPCC_CHANNEL_2)" "vring \<in> {VRING0_ID, VRING1_ID}"
  shows "(\<exists>m'. MAILBOX_Notify hal vring m = Some (0, m')) \<longleftrightarrow> (\<exists>n. \<not> occupied_at hal ch n (amp m))"
proof -
  obtain b h where c: "channel_occupied hal ch IPCC_CHANNEL_DIR_TX (amp m) = (b, h)" by fastforce
  have "(\<exists>n. \<not> occupied_at hal ch n (amp m)) \<longleftrightarrow> (b \<longrightarrow> (\<exists>n. \<not> occupied_at hal ch n h))"
  proof -
    have "(\<exists>n. P n) \<longleftrightarrow> P 0 \<or> (\<exists>n. P (Suc n))" for P :: "nat \<Rightarrow> bool" by (metis not0_implies_Suc)
    from this [of "\<lambda>n. \<not> occupied_at hal ch n (amp m)"] show ?thesis
      using occupied_at_Suc [OF c] c by (auto simp: occupied_at_def)
  qed
  moreover have "(\<exists>n. \<not> occupied_at hal ch n h) \<longleftrightarrow> wait_channel_free hal ch h \<noteq> None"
    using wait_free_returns wait_free_ends by fast
  moreover have "MAILBOX_Notify hal vring m = (do {
      h1 \<leftarrow> (if b then wait_channel_free hal ch h else Some h);
      Some (0, m\<lparr>amp := HAL_IPCC_NotifyCPU hal ch IPCC_CHANNEL_DIR_TX h1\<rparr>) })"
    using assms(2) c unfolding MAILBOX_Notify_def assms(1) [symmetric] Let_def by auto
  ultimately show ?thesis by (cases "wait_channel_free hal ch h") auto
qed

subsection \<open>The poll and the interrupts\<close>

datatype poll_pc = P_out | P_test1 | P_run1 | P_clear1 | P_test2 | P_run2 | P_clear2

fun poll_step :: "('h, 'p) OpenAmpHal \<Rightarrow> 'p option \<Rightarrow> poll_pc \<times> ('h, 'p) OpenAmp \<Rightarrow> poll_pc \<times> ('h, 'p) OpenAmp" where
  "poll_step hal vd (P_out, m) = (P_out, m)"
| "poll_step hal vd (P_test1, m) = (if msg_received_ch1 m = MBOX_BUF_FREE then P_run1 else P_test2, m)"
| "poll_step hal vd (P_run1, m) = (P_clear1, with_amp (rproc_virtio_notified hal vd VRING0_ID) m)"
| "poll_step hal vd (P_clear1, m) = (P_test2, m\<lparr>msg_received_ch1 := MBOX_NO_MSG\<rparr>)"
| "poll_step hal vd (P_test2, m) = (if msg_received_ch2 m = MBOX_NEW_MSG then P_run2 else P_out, m)"
| "poll_step hal vd (P_run2, m) = (P_clear2, with_amp (rproc_virtio_notified hal vd VRING1_ID) m)"
| "poll_step hal vd (P_clear2, m) = (P_out, m\<lparr>msg_received_ch2 := MBOX_NO_MSG\<rparr>)"

text \<open>Without interrupts the steps are the function.\<close>

lemma poll_steps:
  "(poll_step hal vd ^^ 6) (P_test1, m) = (P_out, snd (MAILBOX_Poll hal vd m))"
  by (simp add: eval_nat_numeral MAILBOX_Poll_def Let_def with_amp_def)

datatype mbox_ev = Arrived | Processed

definition unprocessed :: "mbox_ev list \<Rightarrow> bool" where
  "unprocessed es \<longleftrightarrow> es \<noteq> [] \<and> last es = Arrived"

text \<open>A run of the mailbox: polls in their steps and the two interrupts, with the events of each channel.
  With \<open>masked\<close>, no interrupt of a channel falls between the processing and the clearing of its flag.\<close>

inductive mbox_run ::
  "('h, 'p) OpenAmpHal \<Rightarrow> bool \<Rightarrow> poll_pc \<Rightarrow> ('h, 'p) OpenAmp \<Rightarrow> mbox_ev list \<Rightarrow> mbox_ev list \<Rightarrow> bool"
  for hal masked where
  boot: "msg_received_ch1 m = MBOX_NO_MSG \<Longrightarrow> msg_received_ch2 m = MBOX_NO_MSG \<Longrightarrow> mbox_run hal masked P_out m [] []"
| poll: "mbox_run hal masked P_out m e1 e2 \<Longrightarrow> mbox_run hal masked P_test1 m e1 e2"
| step: "mbox_run hal masked pc m e1 e2 \<Longrightarrow> poll_step hal vd (pc, m) = (pc', m') \<Longrightarrow>
    mbox_run hal masked pc' m' (if pc = P_run1 then e1 @ [Processed] else e1) (if pc = P_run2 then e2 @ [Processed] else e2)"
| irq1: "mbox_run hal masked pc m e1 e2 \<Longrightarrow> (masked \<Longrightarrow> pc \<noteq> P_clear1) \<Longrightarrow>
    mbox_run hal masked pc (IPCC_channel1_callback hal IPCC_CHANNEL_1 m) (e1 @ [Arrived]) e2"
| irq2: "mbox_run hal masked pc m e1 e2 \<Longrightarrow> (masked \<Longrightarrow> pc \<noteq> P_clear2) \<Longrightarrow>
    mbox_run hal masked pc (IPCC_channel2_callback hal IPCC_CHANNEL_2 m) e1 (e2 @ [Arrived])"
| hardware: "mbox_run hal masked pc m e1 e2 \<Longrightarrow> mbox_run hal masked pc (m\<lparr>amp := h\<rparr>) e1 e2"

lemmas mbox_defs = unprocessed_def with_amp_def IPCC_channel1_callback_def IPCC_channel2_callback_def
  MBOX_NO_MSG_def MBOX_NEW_MSG_def MBOX_BUF_FREE_def

text \<open>The flag of a channel tells whether a notification waits; \<open>run\<close> and \<open>clear\<close> are its points of the poll.\<close>

definition flag_ok :: "poll_pc \<Rightarrow> poll_pc \<Rightarrow> int \<Rightarrow> poll_pc \<Rightarrow> int \<Rightarrow> mbox_ev list \<Rightarrow> bool" where
  "flag_ok run clear raised pc flag es \<longleftrightarrow> flag \<in> {MBOX_NO_MSG, raised} \<and> (pc = run \<longrightarrow> flag = raised) \<and>
     (if pc = clear then \<not> unprocessed es else unprocessed es \<longleftrightarrow> flag = raised)"

lemma mbox_flags:
  assumes "mbox_run hal True pc m e1 e2"
  shows "flag_ok P_run1 P_clear1 MBOX_BUF_FREE pc (msg_received_ch1 m) e1 \<and>
    flag_ok P_run2 P_clear2 MBOX_NEW_MSG pc (msg_received_ch2 m) e2"
  using assms
proof (induction rule: mbox_run.induct)
  case (step pc m e1 e2 vd pc' m')
  then show ?case by (cases pc) (auto simp: flag_ok_def mbox_defs split: if_splits)
qed (auto simp: flag_ok_def mbox_defs split: if_splits)

lemma lost_notification:
  fixes m :: "('h, 'p) OpenAmp" and hal :: "('h, 'p) OpenAmpHal"
  assumes "msg_received_ch1 m = MBOX_NO_MSG" "msg_received_ch2 m = MBOX_NO_MSG"
  shows "\<exists>m' e2. mbox_run hal False P_out m' [] e2 \<and> unprocessed e2 \<and> msg_received_ch2 m' = MBOX_NO_MSG"
proof -
  define irq where "irq = IPCC_channel2_callback hal IPCC_CHANNEL_2"
  define m1 where "m1 = irq m"
  define m2 where "m2 = with_amp (rproc_virtio_notified hal None VRING1_ID) m1"
  note flags = assms m1_def m2_def irq_def mbox_defs
  have "mbox_run hal False P_out m1 [] [Arrived]"
    using mbox_run.irq2 [OF mbox_run.boot [OF assms], of False hal] by (simp add: m1_def irq_def)
  note r = mbox_run.step [OF mbox_run.poll [OF this], of None P_test2 m1]
  have "mbox_run hal False P_test2 m1 [] [Arrived]" using r by (simp add: flags)
  from mbox_run.step [OF this, of None P_run2 m1] have "mbox_run hal False P_run2 m1 [] [Arrived]" by (simp add: flags)
  from mbox_run.step [OF this, of None P_clear2 m2] have "mbox_run hal False P_clear2 m2 [] [Arrived, Processed]"
    by (simp add: m2_def)
  from mbox_run.irq2 [OF this] have "mbox_run hal False P_clear2 (irq m2) [] [Arrived, Processed, Arrived]"
    by (simp add: irq_def)
  from mbox_run.step [OF this, of None P_out "(irq m2)\<lparr>msg_received_ch2 := MBOX_NO_MSG\<rparr>"]
  have "mbox_run hal False P_out ((irq m2)\<lparr>msg_received_ch2 := MBOX_NO_MSG\<rparr>) [] [Arrived, Processed, Arrived]" by simp
  then show ?thesis by (intro exI conjI) (auto simp: unprocessed_def)
qed

subsection \<open>The start\<close>

lemma shmem_init_ok:
  assumes "OPENAMP_shmem_init hal m = (st, m1)"
  shows "rvdev_vdev m1 = rvdev_vdev m \<and> msg_received_ch1 m1 = msg_received_ch1 m \<and> msg_received_ch2 m1 = msg_received_ch2 m \<and>
    (st = 0 \<longrightarrow> shm_io m1 \<noteq> None \<and> rsc_io m1 \<noteq> None \<and> rsc_table m1 = resource_table_address hal \<and> rsc_table m1 \<noteq> 0)"
  using assms
  by (auto simp: OPENAMP_shmem_init_def with_amp_def resource_table_init_def Let_def split: prod.splits if_splits)

lemma MAILBOX_Init_keeps: "MAILBOX_Init hal m = (st, m1) \<Longrightarrow> m1 = m\<lparr>amp := amp m1\<rparr>"
  by (auto simp: MAILBOX_Init_def Let_def split: prod.splits if_splits)

text \<open>Success of the start means that the device exists and both regions are mapped; a failure of any step but those
  of the mailbox and of the last two calls is its result, and leaves the device unset.\<close>

theorem Openamp_init_outcome:
  assumes "MX_OPENAMP_Init hal role m = Some (st, m')"
  shows "if st = 0 then shm_io m' \<noteq> None \<and> rsc_io m' \<noteq> None \<and> rsc_table m' \<noteq> 0 \<and> rvdev_vdev m' \<noteq> None
    else rvdev_vdev m' = rvdev_vdev m"
proof -
  obtain st0 m0 where m0: "MAILBOX_Init hal m = (st0, m0)" by fastforce
  obtain st1 m1 where m1: "OPENAMP_shmem_init hal m0 = (st1, m1)" by fastforce
  note i = MAILBOX_Init_keeps [OF m0] shmem_init_ok [OF m1]
  have v: "rvdev_vdev m0 = rvdev_vdev m" using arg_cong [OF i(1), of rvdev_vdev] by simp
  obtain vd h2 where vd: "rproc_virtio_create_vdev hal role VDEV_ID (rsc_io m1) (amp m1) = (vd, h2)" by fastforce
  note def = assms [unfolded MX_OPENAMP_Init_def m0 m1 prod.case Let_def vd]
  show ?thesis
  proof (cases "st1 = 0 \<and> vd \<noteq> None")
    case True
    then obtain h3 where h3: "rproc_virtio_wait_remote_ready hal vd h2 = Some h3"
      using def by (cases "rproc_virtio_wait_remote_ready hal vd h2") auto
    obtain st4 h4 where h4: "rproc_virtio_init_vring hal vd 0 (vring0 (table_in_memory hal h3)) (shm_io m1) h3 = (st4, h4)"
      by fastforce
    obtain st5 h5 where h5: "rproc_virtio_init_vring hal vd 1 (vring1 (table_in_memory hal h4)) (shm_io m1) h4 = (st5, h5)"
      by fastforce
    show ?thesis using def True h3 h4 h5 i(2) v by (auto split: if_splits prod.splits)
  qed (use def i(2) v in \<open>auto split: if_splits\<close>)
qed

subsection \<open>Notifications\<close>

definition amp_bench :: "(nat, unit) OpenAmpHal" where
  "amp_bench =
     \<lparr>HAL_IPCC_ActivateNotification = \<lambda>_ _ _ h. (HAL_OK, h), channel_occupied = \<lambda>_ _ h. (h > 0, h - 1),
      HAL_IPCC_NotifyCPU = \<lambda>_ _ h. h, rproc_virtio_notified = \<lambda>_ _ h. h, metal_init = \<lambda>h. h,
      metal_register_generic_device = \<lambda>h. (0, h), metal_device_open = \<lambda>_ _ h. (0, Some (), h),
      metal_io_init = \<lambda>_ _ _ _ h. h, metal_device_io_region = \<lambda>_ _ _. Some (),
      rproc_virtio_create_vdev = \<lambda>_ _ _ h. (Some (), h), rproc_virtio_wait_remote_ready = \<lambda>_ h. Some h,
      table_in_memory = \<lambda>_. resource_table, rproc_virtio_init_vring = \<lambda>_ _ _ _ h. (0, h),
      rpmsg_virtio_init_shm_pool = \<lambda>_ _ h. h, rpmsg_init_vdev = \<lambda>_ _ h. (0, h), rpmsg_deinit_vdev = \<lambda>h. h,
      metal_finish = \<lambda>h. h, rpmsg_create_ept = \<lambda>_ _ _ h. (0, h), is_rpmsg_ept_ready = \<lambda>_. True, SHM_START_ADDRESS = 0x10040000,
      SHM_SIZE = 0x8000, resource_table_address = 0x10000000\<rparr>"

definition amp_boot :: "(nat, unit) OpenAmp" where
  "amp_boot = \<lparr>amp = 3, msg_received_ch1 = MBOX_NO_MSG, msg_received_ch2 = MBOX_NO_MSG, shm_io = None, rsc_io = None,
     shm_physmap = 0, rsc_table = 0, rvdev_vdev = None\<rparr>"

text \<open>C32: the mailbox between polls: as long as no interrupt of a channel falls between the processing of its ring and
  the clearing of its flag, the flags tell exactly which channels have a notification that waits, and the
  next poll processes them. Without that, a notification can be lost: the poll clears the flag after it has
  processed the ring, and with it a notification that came in between, which stays unprocessed while the flag says that
  there is none.\<close>

theorem Mailbox_notifications:
  assumes "mbox_run hal True P_out m e1 e2"
  shows "(unprocessed e1 \<longleftrightarrow> msg_received_ch1 m = MBOX_BUF_FREE) \<and> (unprocessed e2 \<longleftrightarrow> msg_received_ch2 m = MBOX_NEW_MSG) \<and>
    (fst (MAILBOX_Poll hal vd m) = 0 \<longleftrightarrow> unprocessed e1 \<or> unprocessed e2) \<and>
    (\<exists>m' e. mbox_run hal False P_out m' [] e \<and> unprocessed e \<and> msg_received_ch2 m' = MBOX_NO_MSG)"
proof -
  have f: "unprocessed e1 \<longleftrightarrow> msg_received_ch1 m = MBOX_BUF_FREE" "unprocessed e2 \<longleftrightarrow> msg_received_ch2 m = MBOX_NEW_MSG"
    using mbox_flags [OF assms] by (simp_all add: flag_ok_def)
  have "fst (MAILBOX_Poll hal vd m) = 0 \<longleftrightarrow> unprocessed e1 \<or> unprocessed e2"
    unfolding f by (simp add: MAILBOX_Poll_def with_amp_def Let_def)
  then show ?thesis
    using f lost_notification [of "m\<lparr>msg_received_ch1 := MBOX_NO_MSG, msg_received_ch2 := MBOX_NO_MSG\<rparr>" hal] by simp
qed

theorem Mailbox_notifications_witness:
  "mbox_run amp_bench True P_out (IPCC_channel2_callback amp_bench IPCC_CHANNEL_2 amp_boot) [] [Arrived] \<and>
   fst (MAILBOX_Poll amp_bench None (IPCC_channel2_callback amp_bench IPCC_CHANNEL_2 amp_boot)) = 0"
proof -
  have "mbox_run amp_bench True P_out amp_boot [] []" by (rule mbox_run.boot) (simp_all add: amp_boot_def)
  then have "mbox_run amp_bench True P_out (IPCC_channel2_callback amp_bench IPCC_CHANNEL_2 amp_boot) [] ([] @ [Arrived])"
    by (rule mbox_run.irq2) simp
  with Mailbox_notifications [OF this, of None] show ?thesis by (simp add: unprocessed_def)
qed

text \<open>The start on this platform succeeds, and \<open>MAILBOX_Notify\<close> waits for three reads.\<close>

lemma amp_bench_starts:
  "\<exists>m. MX_OPENAMP_Init amp_bench 1 amp_boot = Some (0, m)" "\<exists>m. MAILBOX_Notify amp_bench VRING0_ID amp_boot = Some (0, m)"
proof -
  show "\<exists>m. MX_OPENAMP_Init amp_bench 1 amp_boot = Some (0, m)"
    by (simp add: MX_OPENAMP_Init_def MAILBOX_Init_def OPENAMP_shmem_init_def with_amp_def resource_table_init_def
        amp_bench_def amp_boot_def Let_def)
  have "\<not> occupied_at amp_bench IPCC_CHANNEL_1 3 (amp amp_boot)"
    by (simp add: occupied_at_def amp_bench_def amp_boot_def eval_nat_numeral)
  then show "\<exists>m. MAILBOX_Notify amp_bench VRING0_ID amp_boot = Some (0, m)"
    using Mailbox_notify_returns [of IPCC_CHANNEL_1 VRING0_ID amp_bench amp_boot] by auto
qed

end
