(* ===== verification/UdsClient.thy ===== *)
theory UdsClient
  imports Printf
begin

section \<open>ISO 14229-1 client (tester/src/uds_client.cpp, protocol.cpp, dtc.cpp)\<close>

text \<open>
  The diagnostic client of the tester that runs on a PC. A \<open>Result\<close> is a value or an \<open>Error\<close>. The
  transport is an object with two virtual methods: a record of functions on the state \<open>'w\<close> behind it,
  which the operations of the client thread. Times are milliseconds; sizes and positions
  (\<open>std::size_t\<close>) are natural numbers.
\<close>

subsection \<open>Hex digits and names (protocol.cpp)\<close>

definition kDigits :: string where "kDigits = ''0123456789ABCDEF''"

definition hex2 :: "u8 \<Rightarrow> string" where
  "hex2 v = [kDigits ! unat (drop_bit 4 v), kDigits ! unat (v AND 0x0F)]"

definition hexDump :: "u8 list \<Rightarrow> string" where
  "hexDump bytes = foldl (\<lambda>s b. (if s \<noteq> [] then s @ '' '' else s) @ hex2 b) [] bytes"

datatype Nrc =
    ServiceNotSupported | SubFunctionNotSupported | IncorrectMessageLength | ResponseTooLong
  | RequestOutOfRange | ResponsePending | SubFunctionNotSupportedInSession | ServiceNotSupportedInSession

fun nrc_byte :: "Nrc \<Rightarrow> u8" where
  "nrc_byte ServiceNotSupported = 0x11"
| "nrc_byte SubFunctionNotSupported = 0x12"
| "nrc_byte IncorrectMessageLength = 0x13"
| "nrc_byte ResponseTooLong = 0x14"
| "nrc_byte RequestOutOfRange = 0x31"
| "nrc_byte ResponsePending = 0x78"
| "nrc_byte SubFunctionNotSupportedInSession = 0x7E"
| "nrc_byte ServiceNotSupportedInSession = 0x7F"

definition nrcName :: "u8 \<Rightarrow> string" where
  "nrcName nrc =
     (if nrc = nrc_byte ServiceNotSupported then ''serviceNotSupported''
      else if nrc = nrc_byte SubFunctionNotSupported then ''subFunctionNotSupported''
      else if nrc = nrc_byte IncorrectMessageLength then ''incorrectMessageLengthOrInvalidFormat''
      else if nrc = nrc_byte ResponseTooLong then ''responseTooLong''
      else if nrc = nrc_byte RequestOutOfRange then ''requestOutOfRange''
      else if nrc = nrc_byte ResponsePending then ''requestCorrectlyReceived-ResponsePending''
      else if nrc = nrc_byte SubFunctionNotSupportedInSession then ''subFunctionNotSupportedInActiveSession''
      else if nrc = nrc_byte ServiceNotSupportedInSession then ''serviceNotSupportedInActiveSession''
      else ''unknown'')"

subsection \<open>Trouble codes (dtc.cpp)\<close>

record Dtc =
  dtc_code :: u32
  dtc_status :: u8

definition kTestFailed :: u8 where "kTestFailed = 0x01"
definition kPending :: u8 where "kPending = 0x04"
definition kConfirmed :: u8 where "kConfirmed = 0x08"
definition kAll :: u8 where "kAll = 0xFF"

definition formatDtc :: "u32 \<Rightarrow> string" where
  "formatDtc c =
     (let b0 = ucast (drop_bit 16 c) :: u8; b1 = ucast (drop_bit 8 c) :: u8; b2 = ucast c :: u8
      in [''PCBU'' ! unat (drop_bit 6 b0)] @ [char_of (48 + unat (drop_bit 4 b0 AND 0x03))] @
         [last (hex2 b0)] @ hex2 b1 @ ''-'' @ hex2 b2)"

definition add_word :: "string \<Rightarrow> string \<Rightarrow> string" where
  "add_word s word = (if s \<noteq> [] then s @ '' '' else s) @ word"

definition summarizeStatus :: "u8 \<Rightarrow> string" where
  "summarizeStatus st =
     (let s0 = [];
          s1 = (if st AND kTestFailed \<noteq> 0 then add_word s0 ''failed'' else s0);
          s2 = (if st AND kPending \<noteq> 0 then add_word s1 ''pending'' else s1)
      in if st AND kConfirmed \<noteq> 0 then add_word s2 ''confirmed'' else s2)"

fun parse_records :: "u8 list \<Rightarrow> Dtc list" where
  "parse_records (a # b # c # st # rest) =
     \<lparr>dtc_code = push_bit 16 (ucast a) OR push_bit 8 (ucast b) OR ucast c, dtc_status = st\<rparr> # parse_records rest"
| "parse_records _ = []"

definition parseDtcRecords :: "u8 list \<Rightarrow> Dtc list option" where
  "parseDtcRecords records = (if length records mod 4 \<noteq> 0 then None else Some (parse_records records))"

subsection \<open>Results (result.hpp)\<close>

datatype Kind = Timeout | NegativeNrc | Malformed | SendFailed

record Error =
  kind :: Kind
  nrc :: u8

datatype 'a Result = Ok 'a | Err Error

definition isNrc :: "Error \<Rightarrow> u8 \<Rightarrow> bool" where
  "isNrc e c = (kind e = NegativeNrc \<and> nrc e = c)"

fun res_ok :: "'a Result \<Rightarrow> bool" where
  "res_ok (Ok _) = True"
| "res_ok (Err _) = False"

text \<open>\<open>Error{kind}\<close> leaves the code at its initial value.\<close>

definition error :: "Kind \<Rightarrow> 'a Result" where
  "error k = Err \<lparr>kind = k, nrc = 0\<rparr>"

definition malformed :: "'a Result" where
  "malformed = error Malformed"

definition describe :: "Error \<Rightarrow> string" where
  "describe e =
     (case kind e of
        Timeout \<Rightarrow> ''no response''
      | NegativeNrc \<Rightarrow> ''NRC '' @ hex2 (nrc e) @ '' '' @ nrcName (nrc e)
      | Malformed \<Rightarrow> ''unexpected response''
      | SendFailed \<Rightarrow> ''send failed'')"

subsection \<open>Transport and client (transport.hpp, uds_client.hpp)\<close>

datatype Addressing = Physical | Functional

record 'w ITransport =
  send :: "u8 list \<Rightarrow> Addressing \<Rightarrow> 'w \<Rightarrow> bool \<times> 'w"
  receive :: "int \<Rightarrow> 'w \<Rightarrow> u8 list option \<times> 'w"

record ClientTiming =
  p2 :: int
  p2Star :: int
  maxPending :: int

definition default_timing :: ClientTiming where
  "default_timing = \<lparr>p2 = 150, p2Star = 5500, maxPending = 10\<rparr>"

record 'w UdsClient =
  m_transport :: "'w ITransport"
  m_timing :: ClientTiming

datatype Session = Session_Default | Session_Extended
datatype ResetType = Reset_Hard | Reset_Soft

fun session_byte :: "Session \<Rightarrow> u8" where
  "session_byte Session_Default = 0x01"
| "session_byte Session_Extended = 0x03"

fun reset_byte :: "ResetType \<Rightarrow> u8" where
  "reset_byte Reset_Hard = 0x01"
| "reset_byte Reset_Soft = 0x03"

record SessionTiming =
  session_p2 :: int
  session_p2Star :: int

record DidSpec =
  spec_id :: u16
  spec_length :: nat

record DidValue =
  value_id :: u16
  value_data :: "u8 list"

text \<open>The loop of \<open>request\<close>: the \<open>pending\<close>-th wait for a response.\<close>

function await_response ::
  "'w UdsClient \<Rightarrow> u8 \<Rightarrow> int \<Rightarrow> int \<Rightarrow> 'w \<Rightarrow> u8 list Result \<times> 'w" where
  "await_response c sid timeout pending w =
     (if pending \<le> maxPending (m_timing c) then
        (case receive (m_transport c) timeout w of
           (None, w1) \<Rightarrow> (error Timeout, w1)
         | (Some r, w1) \<Rightarrow>
             if length r = 3 \<and> r ! 0 = 0x7F \<and> r ! 1 = sid then
               (if r ! 2 \<noteq> nrc_byte ResponsePending then (Err \<lparr>kind = NegativeNrc, nrc = r ! 2\<rparr>, w1)
                else await_response c sid (p2Star (m_timing c)) (pending + 1) w1)
             else if r \<noteq> [] \<and> r ! 0 = sid + 0x40 then (Ok r, w1)
             else (malformed, w1))
      else (error Timeout, w))"
  by pat_completeness auto
termination by (relation "measure (\<lambda>(c, _, _, pending, _). nat (maxPending (m_timing c) + 1 - pending))") auto

declare await_response.simps [simp del]

definition request :: "'w UdsClient \<Rightarrow> u8 list \<Rightarrow> Addressing \<Rightarrow> 'w \<Rightarrow> u8 list Result \<times> 'w" where
  "request c rq addressing w =
     (if rq = [] then (malformed, w)
      else
        (let (sent, w1) = send (m_transport c) rq addressing w in
         if \<not> sent then (error SendFailed, w1)
         else await_response c (rq ! 0) (p2 (m_timing c)) 0 w1))"

text \<open>\<open>if (!r) return r.error();\<close> before the decoding of the response.\<close>

definition and_then :: "'a Result \<times> 'w \<Rightarrow> ('a \<Rightarrow> 'b Result) \<Rightarrow> 'b Result \<times> 'w" where
  "and_then res f = (case res of (Ok b, w) \<Rightarrow> (f b, w) | (Err e, w) \<Rightarrow> (Err e, w))"

subsection \<open>Services\<close>

definition startSession :: "'w UdsClient \<Rightarrow> Session \<Rightarrow> 'w \<Rightarrow> SessionTiming Result \<times> 'w" where
  "startSession c s w =
     and_then (request c [0x10, session_byte s] Physical w)
       (\<lambda>b. if length b \<noteq> 6 \<or> b ! 1 \<noteq> session_byte s then malformed
            else Ok \<lparr>session_p2 = uint (u16_of_bytes (b ! 2) (b ! 3)),
                     session_p2Star = uint (u16_of_bytes (b ! 4) (b ! 5)) * 10\<rparr>)"

definition testerPresent :: "'w UdsClient \<Rightarrow> Addressing \<Rightarrow> 'w \<Rightarrow> unit Result \<times> 'w" where
  "testerPresent c addressing w =
     and_then (request c [0x3E, 0x00] addressing w)
       (\<lambda>b. if length b \<noteq> 2 \<or> b ! 1 \<noteq> 0x00 then malformed else Ok ())"

definition testerPresentSuppressed :: "'w UdsClient \<Rightarrow> Addressing \<Rightarrow> 'w \<Rightarrow> bool \<times> 'w" where
  "testerPresentSuppressed c addressing w = send (m_transport c) [0x3E, 0x80] addressing w"

definition ecuReset_client :: "'w UdsClient \<Rightarrow> ResetType \<Rightarrow> 'w \<Rightarrow> unit Result \<times> 'w" where
  "ecuReset_client c t w =
     and_then (request c [0x11, reset_byte t] Physical w)
       (\<lambda>b. if length b < 2 \<or> b ! 1 \<noteq> reset_byte t then malformed else Ok ())"

definition readDid :: "'w UdsClient \<Rightarrow> u16 \<Rightarrow> 'w \<Rightarrow> u8 list Result \<times> 'w" where
  "readDid c did w =
     and_then (request c [0x22, byte_hi did, byte_lo did] Physical w)
       (\<lambda>b. if length b < 3 \<or> u16_of_bytes (b ! 1) (b ! 2) \<noteq> did then malformed else Ok (drop 3 b))"

text \<open>The loop that splits the response of a read of several identifiers.\<close>

function split_dids :: "DidSpec list \<Rightarrow> u8 list \<Rightarrow> nat \<Rightarrow> DidValue list \<Rightarrow> DidValue list Result" where
  "split_dids dids b pos vals =
     (if pos < length b then
        (if pos + 2 > length b then malformed
         else
           (let did = u16_of_bytes (b ! pos) (b ! (pos + 1)); pos1 = pos + 2 in
            case find (\<lambda>d. spec_id d = did) dids of
              None \<Rightarrow> malformed
            | Some spec \<Rightarrow>
                if pos1 + spec_length spec > length b then malformed
                else split_dids dids b (pos1 + spec_length spec)
                       (vals @ [\<lparr>value_id = did, value_data = take (spec_length spec) (drop pos1 b)\<rparr>])))
      else Ok vals)"
  by pat_completeness auto
termination by (relation "measure (\<lambda>(_, b, pos, _). length b - pos)") auto

declare split_dids.simps [simp del]

definition readDids :: "'w UdsClient \<Rightarrow> DidSpec list \<Rightarrow> 'w \<Rightarrow> DidValue list Result \<times> 'w" where
  "readDids c dids w =
     and_then (request c (0x22 # concat (map (\<lambda>d. [byte_hi (spec_id d), byte_lo (spec_id d)]) dids)) Physical w)
       (\<lambda>b. split_dids dids b 1 [])"

definition readDtcCount :: "'w UdsClient \<Rightarrow> u8 \<Rightarrow> 'w \<Rightarrow> u16 Result \<times> 'w" where
  "readDtcCount c statusMask w =
     and_then (request c [0x19, 0x01, statusMask] Physical w)
       (\<lambda>b. if length b \<noteq> 6 \<or> b ! 1 \<noteq> 0x01 then malformed else Ok (u16_of_bytes (b ! 4) (b ! 5)))"

definition readDtcs :: "'w UdsClient \<Rightarrow> u8 \<Rightarrow> 'w \<Rightarrow> Dtc list Result \<times> 'w" where
  "readDtcs c statusMask w =
     and_then (request c [0x19, 0x02, statusMask] Physical w)
       (\<lambda>b. if length b < 3 \<or> b ! 1 \<noteq> 0x02 then malformed
            else (case parseDtcRecords (drop 3 b) of None \<Rightarrow> malformed | Some dtcs \<Rightarrow> Ok dtcs))"

definition clearAllDtcs :: "'w UdsClient \<Rightarrow> 'w \<Rightarrow> unit Result \<times> 'w" where
  "clearAllDtcs c w =
     and_then (request c [0x14, 0xFF, 0xFF, 0xFF] Physical w)
       (\<lambda>b. if length b \<noteq> 1 then malformed else Ok ())"

end
