(* ===== verification/SimulatedEcu.thy ===== *)
theory SimulatedEcu
  imports UdsClient UdsTheorems
begin

section \<open>The Control ECU on a PC (tester/src/simulated_ecu.cpp)\<close>

text \<open>
  The server and the trouble code manager of \<open>common/\<close>, behind the transport interface of the client.
  The two C modules keep their state in static variables, \<open>c_dtc\<close> and \<open>c_uds\<close>, so only one object may
  exist: \<open>s_active\<close>. The callbacks reach the object through \<open>s_active\<close>; here they are functions on the
  record that holds the object and the statics. Time is simulated.
\<close>

datatype Monitor = SpeedTimeout | SpeedRange | E2e | SensorAdc | OutputLocal

fun monitor_index :: "Monitor \<Rightarrow> nat" where
  "monitor_index SpeedTimeout = 0"
| "monitor_index SpeedRange = 1"
| "monitor_index E2e = 2"
| "monitor_index SensorAdc = 3"
| "monitor_index OutputLocal = 4"

definition kMonitorCount :: nat where "kMonitorCount = 5"

definition kDidSoftwareVersion :: u16 where "kDidSoftwareVersion = 0xF195"
definition kDidVehicleSpeed :: u16 where "kDidVehicleSpeed = 0x0100"
definition kDidActiveFaults :: u16 where "kDidActiveFaults = 0x0101"
definition kSoftwareVersionLength :: nat where "kSoftwareVersionLength = 10"

definition kAllDids :: "DidSpec list" where
  "kAllDids =
     [\<lparr>spec_id = kDidSoftwareVersion, spec_length = kSoftwareVersionLength\<rparr>,
      \<lparr>spec_id = kDidVehicleSpeed, spec_length = 2\<rparr>, \<lparr>spec_id = kDidActiveFaults, spec_length = 1\<rparr>]"

lemmas kDid_defs = kDidSoftwareVersion_def kDidVehicleSpeed_def kDidActiveFaults_def kSoftwareVersionLength_def

definition kVersion :: string where "kVersion = ''CTRL-0.3.0''"
definition kMaxResponseLen :: nat where "kMaxResponseLen = 4095"

definition kDtcTable :: "DtcMgr_Config_t list" where
  "kDtcTable =
     [\<lparr>code = 0xC10087, confirmThreshold = 1\<rparr>, \<lparr>code = 0x050100, confirmThreshold = 3\<rparr>,
      \<lparr>code = 0xC40081, confirmThreshold = 3\<rparr>, \<lparr>code = 0x050096, confirmThreshold = 3\<rparr>,
      \<lparr>code = 0x9A0011, confirmThreshold = 3\<rparr>]"

record SimulatedEcu =
  s_active :: bool
  c_dtc :: DtcMgr_State
  c_uds :: Uds_State
  m_responses :: "u8 list list"
  m_faults :: "bool list"
  m_nowMs :: u32
  m_speedX10 :: u16
  m_pendingReset :: "u8 option"
  m_hardResets :: int
  m_softResets :: int

subsection \<open>Callbacks\<close>

definition cbGetTimeMs :: "SimulatedEcu \<Rightarrow> u32 \<times> SimulatedEcu" where
  "cbGetTimeMs w = (m_nowMs w, w)"

definition cbEcuReset :: "u8 \<Rightarrow> SimulatedEcu \<Rightarrow> SimulatedEcu option" where
  "cbEcuReset type w = Some (w\<lparr>m_pendingReset := Some type\<rparr>)"

definition cbReadVersion :: "SimulatedEcu \<Rightarrow> u8 list \<times> SimulatedEcu" where
  "cbReadVersion w = (take kSoftwareVersionLength (chars kVersion), w)"

definition cbReadSpeed :: "SimulatedEcu \<Rightarrow> u8 list \<times> SimulatedEcu" where
  "cbReadSpeed w = ([byte_hi (m_speedX10 w), byte_lo (m_speedX10 w)], w)"

definition fault_mask :: "bool list \<Rightarrow> u8" where
  "fault_mask fs = foldl (\<lambda>m i. if fs ! i then m OR push_bit i 1 else m) 0 [0..<length fs]"

definition cbReadFaults :: "SimulatedEcu \<Rightarrow> u8 list \<times> SimulatedEcu" where
  "cbReadFaults w = ([fault_mask (m_faults w)], w)"

subsection \<open>The configuration of the server\<close>

definition kDids :: "SimulatedEcu Uds_Did_t list" where
  "kDids =
     [\<lparr>did_id = kDidSoftwareVersion, did_length = of_nat kSoftwareVersionLength, did_read = cbReadVersion\<rparr>,
      \<lparr>did_id = kDidVehicleSpeed, did_length = 2, did_read = cbReadSpeed\<rparr>,
      \<lparr>did_id = kDidActiveFaults, did_length = 1, did_read = cbReadFaults\<rparr>]"

definition kUds :: "SimulatedEcu Uds_Config_t" where
  "kUds = \<lparr>dids = kDids, didCount = 3, uds_getTimeMs = Some cbGetTimeMs, ecuReset = Some cbEcuReset\<rparr>"

definition sim_dtc :: "SimulatedEcu DtcIf" where
  "sim_dtc = dtcMgr_on c_dtc (\<lambda>d w. w\<lparr>c_dtc := d\<rparr>)"

subsection \<open>Life of the object\<close>

definition powerOn :: "SimulatedEcu \<Rightarrow> SimulatedEcu" where
  "powerOn w =
     (let (ok, d) = DtcMgr_Init (Some kDtcTable) (of_nat kMonitorCount) None None (c_dtc w);
          w1 = w\<lparr>c_dtc := d\<rparr>;
          (cfg, u, w2) = Uds_Init (Some kUds) kUds (c_uds w1) w1
      in w2\<lparr>c_uds := u, m_faults := replicate kMonitorCount False\<rparr>)"

text \<open>The constructor; \<open>None\<close> is the exception.\<close>

definition construct :: "SimulatedEcu \<Rightarrow> SimulatedEcu option" where
  "construct w =
     (if s_active w then None
      else Some (powerOn (w\<lparr>s_active := True, m_responses := [], m_faults := replicate kMonitorCount False, m_nowMs := 0,
        m_speedX10 := 0, m_pendingReset := None, m_hardResets := 0, m_softResets := 0\<rparr>)))"

definition destruct :: "SimulatedEcu \<Rightarrow> SimulatedEcu" where
  "destruct w = w\<lparr>s_active := False\<rparr>"

definition setSpeedX10 :: "u16 \<Rightarrow> SimulatedEcu \<Rightarrow> SimulatedEcu" where
  "setSpeedX10 speed w = w\<lparr>m_speedX10 := speed\<rparr>"

definition reportMonitor :: "Monitor \<Rightarrow> bool \<Rightarrow> SimulatedEcu \<Rightarrow> SimulatedEcu" where
  "reportMonitor m failed w =
     (let w1 = w\<lparr>m_faults := (m_faults w)[monitor_index m := failed]\<rparr>
      in w1\<lparr>c_dtc := DtcMgr_ReportResult (of_nat (monitor_index m)) failed (c_dtc w1)\<rparr>)"

definition advanceTime :: "int \<Rightarrow> SimulatedEcu \<Rightarrow> SimulatedEcu" where
  "advanceTime dt w =
     (let w1 = w\<lparr>m_nowMs := m_nowMs w + of_int dt\<rparr>;
          (u, w2) = Uds_MainFunction kUds (c_uds w1) w1
      in w2\<lparr>c_uds := u\<rparr>)"

definition sim_session :: "SimulatedEcu \<Rightarrow> u8" where
  "sim_session w = Uds_GetSession (c_uds w)"

subsection \<open>Transport\<close>

text \<open>The reset callback returns (\<open>cbEcuReset\<close>), so the execution of a pending reset does.\<close>

definition execute_reset :: "SimulatedEcu \<Rightarrow> SimulatedEcu" where
  "execute_reset w =
     (case Uds_ExecutePendingReset kUds (c_uds w) w of
        None \<Rightarrow> w
      | Some (u, w1) \<Rightarrow>
          (let w2 = w1\<lparr>c_uds := u\<rparr> in
           case m_pendingReset w2 of
             None \<Rightarrow> w2
           | Some type \<Rightarrow>
               (let w3 = (if type = 0x01 then powerOn (w2\<lparr>m_hardResets := m_hardResets w2 + 1\<rparr>)
                          else (w2\<lparr>m_softResets := m_softResets w2 + 1,
                                   c_dtc := DtcMgr_StartOperationCycle (c_dtc w2)\<rparr>))
                in w3\<lparr>m_pendingReset := None\<rparr>)))"

definition sim_send :: "u8 list \<Rightarrow> Addressing \<Rightarrow> SimulatedEcu \<Rightarrow> bool \<times> SimulatedEcu" where
  "sim_send rq addressing w =
     (if rq = [] \<or> length rq > kMaxResponseLen then (False, w)
      else
        (let (len, response, u, w1) =
               Uds_ProcessRequest sim_dtc kUds (Some rq) (of_nat (length rq)) (addressing = Functional)
                 (Some (replicate kMaxResponseLen 0)) (of_nat kMaxResponseLen) (c_uds w) w;
             w2 = w1\<lparr>c_uds := u\<rparr>;
             w3 = (if len > 0 then w2\<lparr>m_responses := m_responses w2 @ [take (unat len) (the response)]\<rparr> else w2)
         in (True, execute_reset w3)))"

definition sim_receive :: "int \<Rightarrow> SimulatedEcu \<Rightarrow> u8 list option \<times> SimulatedEcu" where
  "sim_receive timeout w =
     (case m_responses w of
        [] \<Rightarrow> (None, w)
      | r # rest \<Rightarrow> (Some r, w\<lparr>m_responses := rest\<rparr>))"

definition sim_transport :: "SimulatedEcu ITransport" where
  "sim_transport = \<lparr>send = sim_send, receive = sim_receive\<rparr>"

text \<open>The static variables before the first object.\<close>

definition sim_statics :: SimulatedEcu where
  "sim_statics =
     \<lparr>s_active = False, c_dtc = DtcMgr_static, c_uds = Uds_static, m_responses = [], m_faults = [],
      m_nowMs = 0, m_speedX10 = 0, m_pendingReset = None, m_hardResets = 0, m_softResets = 0\<rparr>"

end
