(* ===== verification/Scenario.thy ===== *)
theory Scenario
  imports SimulatedEcu
begin

section \<open>The regression scenarios of the PC tester (tester/src/scenario.cpp, apps/uds_tester.cpp)\<close>

text \<open>
  A scenario is a sequence of requests of the client; each records whether the outcome was the
  expected one and a text for the report. The steps thread the state behind the transport.
\<close>

subsection \<open>Texts\<close>

definition asText :: "u8 list \<Rightarrow> string" where
  "asText b = map (\<lambda>x. char_of (unat x)) b"

definition speedText :: "u8 list \<Rightarrow> string" where
  "speedText b =
     (if length b \<noteq> 2 then ''?'' else tenths (unat (u16_of_bytes (b ! 0) (b ! 1))) @ '' km/h'')"

definition dtc_text :: "Dtc \<Rightarrow> string" where
  "dtc_text d =
     (let summary = summarizeStatus (dtc_status d)
      in formatDtc (dtc_code d) @ '' '' @ hex2 (dtc_status d) @ (if summary \<noteq> [] then '' '' @ summary else []))"

definition dtcListText :: "Dtc list \<Rightarrow> string" where
  "dtcListText dtcs =
     (if dtcs = [] then ''no DTC''
      else foldl (\<lambda>s d. (if s \<noteq> [] then s @ '', '' else s) @ dtc_text d) [] dtcs)"

subsection \<open>Reports\<close>

record StepResult =
  step_name :: string
  passed :: bool
  detail :: string

type_synonym ScenarioReport = "StepResult list"

definition add_step :: "string \<Rightarrow> bool \<Rightarrow> string \<Rightarrow> ScenarioReport \<Rightarrow> ScenarioReport" where
  "add_step n p d rep = rep @ [\<lparr>step_name = n, passed = p, detail = d\<rparr>]"

definition expectOk :: "string \<Rightarrow> 'a Result \<Rightarrow> ('a \<Rightarrow> string) \<Rightarrow> ScenarioReport \<Rightarrow> ScenarioReport" where
  "expectOk n r text = add_step n (res_ok r) (case r of Ok v \<Rightarrow> text v | Err e \<Rightarrow> describe e)"

definition expectNrc :: "string \<Rightarrow> 'a Result \<Rightarrow> Nrc \<Rightarrow> ScenarioReport \<Rightarrow> ScenarioReport" where
  "expectNrc n r c =
     add_step n (case r of Ok _ \<Rightarrow> False | Err e \<Rightarrow> isNrc e (nrc_byte c))
       (case r of Ok _ \<Rightarrow> ''positive response'' | Err e \<Rightarrow> describe e)"

definition expectSilence :: "string \<Rightarrow> 'a Result \<Rightarrow> ScenarioReport \<Rightarrow> ScenarioReport" where
  "expectSilence n r =
     (let pass = (case r of Ok _ \<Rightarrow> False | Err e \<Rightarrow> kind e = Timeout)
      in add_step n pass (if pass then ''no response'' else ''ECU answered''))"

definition kNoDetail :: "'a \<Rightarrow> string" where "kNoDetail v = []"

definition passedCount :: "ScenarioReport \<Rightarrow> nat" where
  "passedCount rep = length (filter passed rep)"

definition allPassed :: "ScenarioReport \<Rightarrow> bool" where
  "allPassed rep = (passedCount rep = length rep)"

subsection \<open>Scenarios\<close>

definition unknownService :: "u8 list" where "unknownService = [0x85, 0x01]"

definition count_text :: "u16 Result \<Rightarrow> string" where
  "count_text r = (case r of Ok n \<Rightarrow> dec (unat n) @ '' confirmed'' | Err e \<Rightarrow> describe e)"

definition int_text :: "int \<Rightarrow> string" where
  "int_text i = (if i < 0 then ''-'' @ dec (nat (- i)) else dec (nat i))"

definition runRegressionScenario :: "'w UdsClient \<Rightarrow> 'w \<Rightarrow> ScenarioReport \<times> 'w" where
  "runRegressionScenario c w0 =
     (let (r1, w1) = testerPresent c Physical w0;
          rep1 = expectOk ''TesterPresent'' r1 kNoDetail [];
          (r2, w2) = readDid c kDidSoftwareVersion w1;
          rep2 = expectOk ''ReadDID F195 version'' r2 (\<lambda>b. [CHR 0x22] @ asText b @ [CHR 0x22]) rep1;
          (r3, w3) = readDid c kDidVehicleSpeed w2;
          rep3 = expectOk ''ReadDID 0100 speed'' r3 speedText rep2;
          (r4, w4) = readDids c kAllDids w3;
          rep4 = expectOk ''ReadDID F195 + 0100 + 0101'' r4 (\<lambda>v. dec (length v) @ '' DIDs'') rep3;
          (r5, w5) = request c unknownService Physical w4;
          rep5 = expectNrc ''Unknown service -> NRC 11'' r5 ServiceNotSupported rep4;
          (r6, w6) = readDid c 0x1234 w5;
          rep6 = expectNrc ''Unknown DID -> NRC 31'' r6 RequestOutOfRange rep5;
          (r7, w7) = ecuReset_client c Reset_Hard w6;
          rep7 = expectNrc ''Reset in default session -> NRC 7E'' r7 SubFunctionNotSupportedInSession rep6;
          (r8, w8) = readDtcs c kAll w7;
          rep8 = expectOk ''Read all DTCs'' r8 dtcListText rep7;
          (r9, w9) = startSession c Session_Extended w8;
          rep9 = expectOk ''Session extended'' r9 (\<lambda>t. ''P2 '' @ int_text (session_p2 t) @ '' ms, P2* '' @
                   int_text (session_p2Star t) @ '' ms'') rep8;
          (r10, w10) = clearAllDtcs c w9;
          rep10 = expectOk ''Clear all DTCs'' r10 kNoDetail rep9;
          (r11, w11) = readDtcCount c kConfirmed w10;
          rep11 = add_step ''Confirmed DTCs = 0 after clear'' (r11 = Ok 0) (count_text r11) rep10;
          (r12, w12) = startSession c Session_Default w11;
          rep12 = expectOk ''Session default'' r12 kNoDetail rep11;
          (r13, w13) = testerPresent c Functional w12;
          rep13 = expectOk ''Functional TesterPresent'' r13 kNoDetail rep12;
          (r14, w14) = request c unknownService Functional w13;
          rep14 = expectSilence ''Functional unknown service: silent'' r14 rep13
      in (rep14, w14))"

definition runResetScenario :: "'w UdsClient \<Rightarrow> 'w \<Rightarrow> ScenarioReport \<times> 'w" where
  "runResetScenario c w0 =
     (let (r1, w1) = startSession c Session_Extended w0;
          rep1 = expectOk ''Session extended'' r1 kNoDetail [];
          (r2, w2) = ecuReset_client c Reset_Hard w1;
          rep2 = expectOk ''ECUReset hard'' r2 kNoDetail rep1
      in (rep2, w2))"

subsection \<open>The program (apps/uds_tester.cpp)\<close>

definition newline :: string where "newline = [CHR 0x0A]"

definition step_lines :: "nat \<Rightarrow> nat \<times> StepResult \<Rightarrow> string" where
  "step_lines n is =
     (case is of (i, s) \<Rightarrow>
        ''[TESTER] '' @ pad_left 2 CHR '' '' (dec (i + 1)) @ ''/'' @ dec n @ '' '' @ pad_right 38 (step_name s) @
        '' '' @ (if passed s then ''PASS'' else ''FAIL'') @ newline @
        (if detail s \<noteq> [] then ''         '' @ detail s @ newline else []))"

text \<open>The text printed and the value returned.\<close>

definition printReport :: "string \<Rightarrow> ScenarioReport \<Rightarrow> string \<times> int" where
  "printReport title rep =
     (newline @ title @ newline @ concat (map (step_lines (length rep)) (enumerate 0 rep)) @
        ''[TESTER] '' @ dec (passedCount rep) @ ''/'' @ dec (length rep) @ '' passed'' @ newline,
      if allPassed rep then 0 else 1)"

definition monitor_list :: "Monitor list" where
  "monitor_list = [SpeedTimeout, SpeedRange, E2e, SensorAdc, OutputLocal]"

definition sim_client :: "SimulatedEcu UdsClient" where
  "sim_client = \<lparr>m_transport = sim_transport, m_timing = default_timing\<rparr>"

text \<open>\<open>None\<close>: the constructor throws.\<close>

definition runSimulation :: "SimulatedEcu \<Rightarrow> (string \<times> int \<times> SimulatedEcu) option" where
  "runSimulation w =
     (case construct w of
        None \<Rightarrow> None
      | Some e0 \<Rightarrow>
          (let e1 = setSpeedX10 1613 e0;
               e2 = reportMonitor SpeedTimeout True e1;
               e3 = fold (\<lambda>_. reportMonitor E2e True) [0..<(3 :: nat)] e2;
               e4 = fold (\<lambda>m. reportMonitor m False) monitor_list e3;
               (rep1, e5) = runRegressionScenario sim_client e4;
               (out1, f1) = printReport ''Regression scenario (simulated Control ECU)'' rep1;
               (rep2, e6) = runResetScenario sim_client e5;
               (out2, f2) = printReport ''ECU reset'' rep2;
               out3 = newline @ ''simulated ECU: '' @ int_text (m_hardResets e6) @ '' hard reset(s), session 0x'' @
                 hex02 (unat (sim_session e6)) @ '' after reset'' @ newline
           in Some (out1 @ out2 @ out3, if f1 + f2 = 0 then 0 else 1, destruct e6)))"

definition tester_main :: "string list \<Rightarrow> SimulatedEcu \<Rightarrow> (string \<times> int \<times> SimulatedEcu) option" where
  "tester_main argv w =
     (if length argv = 2 \<and> argv ! 1 = ''--sim'' then runSimulation w
      else Some (''usage: uds_tester --sim'' @ newline, 2, w))"

end
