(* ===== verification/ClientProps.thy ===== *)
theory ClientProps
  imports Scenario
begin

section \<open>Properties of the diagnostic client\<close>

text \<open>
  The waiting loop over any list of responses; the contract between the client and a peer that answers
  each request at once (\<open>uds_peer\<close>), or answers as ISO 14229-1 asks (\<open>iso_peer\<close>), and what each service of the
  client returns over such a peer.
\<close>

subsection \<open>Texts\<close>

lemma kDigits_inj: "i < 16 \<Longrightarrow> j < 16 \<Longrightarrow> kDigits ! i = kDigits ! j \<longleftrightarrow> i = j"
  by (rule nth_eq_iff_index_eq) (simp_all add: kDigits_def)

lemma unat_high_nibble: "unat (drop_bit 4 v) = unat (v :: u8) div 16"
  by (subst unat_drop_bit_eq) (simp add: drop_bit_eq_div)

lemma hex2_inj: "hex2 v = hex2 w \<longleftrightarrow> v = w"
proof
  assume eq: "hex2 v = hex2 w"
  have "unat v < 2 ^ LENGTH(8)" "unat w < 2 ^ LENGTH(8)" by (rule unsigned_less)+
  then have "unat v div 16 = unat w div 16 \<and> unat v mod 16 = unat w mod 16"
    using eq by (simp add: hex2_def kDigits_inj unat_high_nibble unat_and_0x0F)
  then have "unat v = unat w" by (metis div_mult_mod_eq)
  then show "v = w" by (simp add: word_unat_eq_iff)
qed simp

lemma last_hex2: "last (hex2 v) = kDigits ! (unat v mod 16)"
  by (simp add: hex2_def unat_and_0x0F)

lemma system_char_inj: "i < 4 \<Longrightarrow> j < 4 \<Longrightarrow> ''PCBU'' ! i = ''PCBU'' ! j \<longleftrightarrow> i = j"
  by (rule nth_eq_iff_index_eq) simp_all

lemma first_byte_inj:
  fixes v w :: u8
  assumes "''PCBU'' ! unat (drop_bit 6 v) = ''PCBU'' ! unat (drop_bit 6 w)"
    and "(char_of (48 + unat (drop_bit 4 v AND 0x03)) :: char) = char_of (48 + unat (drop_bit 4 w AND 0x03))"
    and "last (hex2 v) = last (hex2 w)"
  shows "v = w"
proof -
  have b: "unat v < 2 ^ LENGTH(8)" "unat w < 2 ^ LENGTH(8)" by (rule unsigned_less)+
  have u: "unat (drop_bit 6 x) = unat x div 64" "unat (drop_bit 4 x AND 0x03) = unat x div 16 mod 4" for x :: u8
  proof -
    show "unat (drop_bit 6 x) = unat x div 64" by (subst unat_drop_bit_eq) (simp add: drop_bit_eq_div)
    show "unat (drop_bit 4 x AND 0x03) = unat x div 16 mod 4"
    proof -
      have "y AND 0x03 = take_bit 2 y" for y :: u8 by (simp only: take_bit_eq_mask) (simp add: mask_eq_exp_minus_1)
      then have "unat (y AND 0x03) = unat y mod 4" for y :: u8 by (simp only: unsigned_take_bit_eq) (simp add: take_bit_eq_mod)
      then show ?thesis by (simp only: unat_high_nibble)
    qed
  qed
  have "unat v div 16 div 4 = unat w div 16 div 4" using assms(1) b by (simp add: u system_char_inj flip: div_mult2_eq)
  moreover have "unat v div 16 mod 4 = unat w div 16 mod 4"
  proof -
    have "of_char (char_of (48 + unat v div 16 mod 4) :: char) = (of_char (char_of (48 + unat w div 16 mod 4) :: char) :: nat)"
      using assms(2) by (simp only: u)
    then show ?thesis by (simp add: take_bit_eq_mod)
  qed
  ultimately have "unat v div 16 = unat w div 16" by (metis div_mult_mod_eq)
  moreover have "unat v mod 16 = unat w mod 16" using assms(3) by (simp add: last_hex2 kDigits_inj)
  ultimately have "unat v = unat w" by (metis div_mult_mod_eq)
  then show ?thesis by (simp add: word_unat_eq_iff)
qed

text \<open>Different trouble codes of three bytes have different texts.\<close>

lemma formatDtc_inj: "formatDtc a = formatDtc b \<longleftrightarrow> take_bit 24 a = take_bit 24 b"
proof
  assume eq: "formatDtc a = formatDtc b"
  have h: "\<exists>x y. hex2 v = [x, y]" for v by (simp add: hex2_def)
  have "ucast (drop_bit 16 a) = (ucast (drop_bit 16 b) :: u8)"
    by (rule first_byte_inj) (use eq in \<open>simp_all add: formatDtc_def Let_def\<close>)
  moreover have "hex2 (ucast (drop_bit 8 a)) = hex2 (ucast (drop_bit 8 b))" "hex2 (ucast a) = hex2 (ucast b)"
    using eq h [of "ucast (drop_bit 8 a)"] h [of "ucast (drop_bit 8 b)"] by (auto simp: formatDtc_def Let_def)
  ultimately have e: "ucast (drop_bit 16 a) = (ucast (drop_bit 16 b) :: u8)" "ucast (drop_bit 8 a) = (ucast (drop_bit 8 b) :: u8)"
    "ucast a = (ucast b :: u8)"
    by (simp_all add: hex2_inj)
  have bits: "bit (ucast (drop_bit k a) :: u8) n = bit (ucast (drop_bit k b) :: u8) n" if "k \<in> {0, 8, 16}" for k n
    using that e by auto
  show "take_bit 24 a = take_bit 24 b"
  proof (rule bit_word_eqI)
    fix n :: nat assume "n < LENGTH(32)"
    consider "n < 8" | "8 \<le> n" "n < 16" | "16 \<le> n" "n < 24" | "24 \<le> n" by linarith
    then show "bit (take_bit 24 a) n = bit (take_bit 24 b) n"
      using bits [of 0 n] bits [of 8 "n - 8"] bits [of 16 "n - 16"] by cases (auto simp: bit_simps)
  qed
next
  assume "take_bit 24 a = take_bit 24 b"
  then have "bit a n = bit b n" if "n < 24" for n using that by (metis bit_take_bit_iff)
  then have "ucast (drop_bit k a) = (ucast (drop_bit k b) :: u8)" if "k \<le> 16" for k
    using that by (auto intro!: bit_word_eqI simp: bit_simps)
  from this [of 0] this [of 8] this [of 16] show "formatDtc a = formatDtc b" by (simp add: formatDtc_def)
qed

subsection \<open>Waiting for a response\<close>

definition is_pending :: "u8 \<Rightarrow> u8 list \<Rightarrow> bool" where
  "is_pending sid r = (r = [0x7F, sid, 0x78])"

definition verdict :: "u8 \<Rightarrow> u8 list \<Rightarrow> u8 list Result" where
  "verdict sid r =
     (if length r = 3 \<and> r ! 0 = 0x7F \<and> r ! 1 = sid then Err \<lparr>kind = NegativeNrc, nrc = r ! 2\<rparr>
      else if r \<noteq> [] \<and> r ! 0 = sid + 0x40 then Ok r else malformed)"

definition scripted :: "(u8 list list \<times> int list) ITransport" where
  "scripted =
     \<lparr>send = \<lambda>rq a w. (True, w),
      receive = \<lambda>t (rs, ts). case rs of [] \<Rightarrow> (None, [], ts @ [t]) | r # rest \<Rightarrow> (Some r, rest, ts @ [t])\<rparr>"

lemma list3_eq: "length r = 3 \<and> r ! 0 = a \<and> r ! 1 = b \<and> r ! 2 = c \<longleftrightarrow> r = [a, b, c]"
  by (auto simp: numeral_eq_Suc length_Suc_conv)

lemma is_pending_iff: "is_pending sid r \<longleftrightarrow> length r = 3 \<and> r ! 0 = 0x7F \<and> r ! 1 = sid \<and> r ! 2 = 0x78"
  using list3_eq [of r "0x7F" sid "0x78"] by (simp add: is_pending_def)

lemma await_step:
  assumes "receive (m_transport c) t w = (r, w1)"
  shows "await_response c sid t k w =
    (if k > maxPending (m_timing c) then (error Timeout, w)
     else case r of None \<Rightarrow> (error Timeout, w1)
       | Some b \<Rightarrow> if is_pending sid b then await_response c sid (p2Star (m_timing c)) (k + 1) w1 else (verdict sid b, w1))"
  by (subst await_response.simps) (auto simp: assms is_pending_iff verdict_def split: option.split)

lemma await_scripted:
  assumes "m_transport c = scripted" "n = length (takeWhile (is_pending sid) rs)"
    and "m = nat (maxPending (m_timing c) + 1 - k)"
  shows "await_response c sid t k (rs, ts) =
    (if n < m \<and> n < length rs then verdict sid (rs ! n) else error Timeout,
     drop (min (Suc n) m) rs, ts @ take m (t # replicate n (p2Star (m_timing c))))"
  using assms(2-)
proof (induction rs arbitrary: k t ts n m)
  case Nil
  have "receive (m_transport c) t ([], ts) = (None, [], ts @ [t])" by (simp add: assms(1) scripted_def)
  from await_step [OF this] Nil show ?case by (cases m) auto
next
  case (Cons r rs)
  have rc: "receive (m_transport c) t (r # rs, ts) = (Some r, rs, ts @ [t])" by (simp add: assms(1) scripted_def)
  show ?case
  proof (cases "k > maxPending (m_timing c) \<or> \<not> is_pending sid r")
    case True
    with await_step [OF rc] Cons.prems show ?thesis by (cases m) auto
  next
    case False
    define m' where "m' = nat (maxPending (m_timing c) + 1 - (k + 1))"
    have m: "m = Suc m'" using Cons.prems(2) False unfolding m'_def by linarith
    define n' where "n' = length (takeWhile (is_pending sid) rs)"
    have n: "n = Suc n'" using Cons.prems False by (simp add: n'_def)
    have "await_response c sid t k (r # rs, ts) = await_response c sid (p2Star (m_timing c)) (k + 1) (rs, ts @ [t])"
      using await_step [OF rc] False by simp
    also note Cons.IH [OF n'_def m'_def]
    finally show ?thesis by (simp add: n m)
  qed
qed

text \<open>C10: whatever responses wait at a transport, a request of the client returns: it takes every leading "response
  pending" (7F service 78) of the service, at most \<open>maxPending\<close> of them, and decides by the next response, the
  first positive or negative answer or anything malformed, or reports a timeout; it waits P2 for the first response
  and P2* for each further one, so for at most P2 + maxPending * P2* in all, and takes no response it did not wait for.\<close>

theorem Client_request_verdict:
  assumes "rq \<noteq> []" "0 \<le> maxPending tm"
    and "c = \<lparr>m_transport = scripted, m_timing = tm\<rparr>" "n = length (takeWhile (is_pending (hd rq)) rs)"
    and "request c rq a (rs, []) = (r, rest, waits)"
  shows "r = (if int n \<le> maxPending tm \<and> n < length rs then verdict (hd rq) (rs ! n) else error Timeout) \<and>
    length waits = min (n + 1) (nat (maxPending tm) + 1) \<and> rest = drop (length waits) rs \<and>
    waits = p2 tm # replicate (length waits - 1) (p2Star tm) \<and>
    (0 \<le> p2Star tm \<longrightarrow> sum_list waits \<le> p2 tm + maxPending tm * p2Star tm)"
proof -
  define m where "m = nat (maxPending tm + 1 - 0)"
  have m: "m = Suc (nat (maxPending tm))" using assms(2) by (simp add: m_def)
  have tr: "m_transport c = scripted" "m_timing c = tm" by (simp_all add: assms(3))
  have "await_response c (hd rq) (p2 tm) 0 (rs, []) = (r, rest, waits)"
    using assms(1,5) by (simp add: request_def hd_conv_nth) (simp add: tr scripted_def)
  then have run: "r = (if n < m \<and> n < length rs then verdict (hd rq) (rs ! n) else error Timeout)"
    "rest = drop (min (Suc n) m) rs" "waits = take m (p2 tm # replicate n (p2Star tm))"
    using await_scripted [OF tr(1) assms(4), of m 0 "p2 tm" "[]"] by (simp_all add: tr(2) m_def)
  have n: "int n \<le> maxPending tm \<longleftrightarrow> n < m" using assms(2) by (auto simp: m_def)
  have w: "waits = p2 tm # replicate (min n (nat (maxPending tm))) (p2Star tm)"
    by (simp add: run(3) m take_Cons' min.commute)
  have l: "length waits = min (Suc n) m" by (simp add: w m)
  have "int (min n (nat (maxPending tm))) * p2Star tm \<le> maxPending tm * p2Star tm" if "0 \<le> p2Star tm"
    using assms(2) that by (intro mult_right_mono) auto
  then have "0 \<le> p2Star tm \<longrightarrow> sum_list waits \<le> p2 tm + maxPending tm * p2Star tm"
    by (simp add: w sum_list_replicate)
  moreover have "waits = p2 tm # replicate (length waits - 1) (p2Star tm)" by (simp add: w)
  ultimately show ?thesis using run(1,2) n m l by simp
qed

theorem Client_request_verdict_witness:
  "fst (request \<lparr>m_transport = scripted, m_timing = \<lparr>p2 = 100, p2Star = 5000, maxPending = 3\<rparr>\<rparr> [0x14, 0xFF, 0xFF, 0xFF]
      Physical ([[0x7F, 0x14, 0x78], [0x7F, 0x14, 0x78], [0x54]], [])) = Ok [0x54]"
proof -
  define c :: "(u8 list list \<times> int list) UdsClient" where
    "c = \<lparr>m_transport = scripted, m_timing = \<lparr>p2 = 100, p2Star = 5000, maxPending = 3\<rparr>\<rparr>"
  obtain r rest waits where run: "request c [0x14, 0xFF, 0xFF, 0xFF] Physical ([[0x7F, 0x14, 0x78], [0x7F, 0x14, 0x78], [0x54]], [])
      = (r, rest, waits)" by (metis prod_cases3)
  show ?thesis
    using Client_request_verdict [OF _ _ c_def refl run] run by (simp add: is_pending_def verdict_def flip: c_def)
qed

subsection \<open>Peers\<close>

text \<open>A peer that has the answer ready when the client waits for it.\<close>

locale uds_peer =
  fixes c :: "'w UdsClient" and ready :: "'w \<Rightarrow> bool"
    and answer :: "bool \<Rightarrow> u8 list \<Rightarrow> 'w \<Rightarrow> u8 list" and after :: "u8 list \<Rightarrow> 'w \<Rightarrow> 'w"
  assumes exchange: "ready w \<Longrightarrow> rq \<noteq> [] \<Longrightarrow> length rq \<le> 4095 \<Longrightarrow> \<exists>w1. send (m_transport c) rq a w = (True, w1) \<and>
      (\<forall>t. receive (m_transport c) t w1 =
        (if answer (a = Functional) rq w = [] then None else Some (answer (a = Functional) rq w), after rq w))"
    and ready_after: "ready w \<Longrightarrow> rq \<noteq> [] \<Longrightarrow> length rq \<le> 4095 \<Longrightarrow> ready (after rq w)"
    and never_pending: "ready w \<Longrightarrow> rq \<noteq> [] \<Longrightarrow> \<not> is_pending (hd rq) (answer f rq w)"
    and patient: "0 \<le> maxPending (m_timing c)"
begin

lemma request_peer:
  assumes "ready w" "rq \<noteq> []" "length rq \<le> 4095" "b = answer (a = Functional) rq w"
  shows "request c rq a w = (if b = [] then error Timeout else verdict (hd rq) b, after rq w)"
proof -
  obtain w1 where s: "send (m_transport c) rq a w = (True, w1)"
    and r: "receive (m_transport c) t w1 = (if b = [] then None else Some b, after rq w)" for t
    using exchange [OF assms(1-3)] unfolding assms(4) by blast
  have "\<not> is_pending (hd rq) b" using never_pending [OF assms(1,2)] assms(4) by simp
  then show ?thesis
    using await_step [OF r, of "hd rq" "p2 (m_timing c)" 0] patient assms(2) by (simp add: request_def s hd_conv_nth not_less)
qed

end

text \<open>A peer that answers as ISO 14229-1 asks.\<close>

locale iso_peer =
  fixes c :: "'w UdsClient" and ready :: "'w \<Rightarrow> bool" and after :: "u8 list \<Rightarrow> 'w \<Rightarrow> 'w"
    and maxLen :: nat and recs :: "'w \<Rightarrow> u8 \<Rightarrow> u8 list" and val :: "'w \<Rightarrow> u16 \<Rightarrow> u8 list option" and session :: "'w \<Rightarrow> u8"
  assumes exchange: "ready w \<Longrightarrow> rq \<noteq> [] \<Longrightarrow> length rq \<le> 4095 \<Longrightarrow>
      b = encode_reply (a = Functional) (hd rq) (spec_reply maxLen (recs w) (val w) (session w) rq) \<Longrightarrow>
      \<exists>w1. send (m_transport c) rq a w = (True, w1) \<and>
        (\<forall>t. receive (m_transport c) t w1 = (if b = [] then None else Some b, after rq w))"
    and ready_after: "ready w \<Longrightarrow> rq \<noteq> [] \<Longrightarrow> length rq \<le> 4095 \<Longrightarrow> ready (after rq w)"
    and records: "ready w \<Longrightarrow> length (recs w m) \<le> 64 \<and> 4 dvd length (recs w m)"
    and room: "67 \<le> maxLen"
    and patient: "0 \<le> maxPending (m_timing c)"

lemma positive_not_7F:
  assumes "spec_reply maxLen r v s rq = Positive supp bytes"
  shows "hd bytes \<noteq> 0x7F"
proof
  assume "hd bytes = 0x7F"
  then have "hd rq + 0x40 = 0x7F" using spec_reply_sid [OF assms] by simp
  then have "hd rq = 0x7F - 0x40" by (simp add: eq_diff_eq)
  then have "hd rq = 0x3F" by simp
  then show False using assms by (simp add: spec_reply_def)
qed

lemma not_pending_encode: "\<not> is_pending (hd rq) (encode_reply f (hd rq) (spec_reply maxLen r v s rq))"
proof (cases "spec_reply maxLen r v s rq")
  case (Positive supp bytes)
  then show ?thesis using positive_not_7F [OF Positive] by (auto simp: is_pending_def encode_reply_def)
next
  case (NegativeReply n)
  then have "n \<in> {0x11, 0x12, 0x13, 0x14, 0x31, 0x7E}" using spec_reply_nrc by metis
  then show ?thesis by (auto simp: is_pending_def encode_reply_def NegativeReply split: if_splits)
qed

sublocale iso_peer \<subseteq> peer: uds_peer c ready
  "\<lambda>f rq w. encode_reply f (hd rq) (spec_reply maxLen (recs w) (val w) (session w) rq)" after
proof
  fix w and rq :: "u8 list" and f :: bool and a :: Addressing
  assume w: "ready w" "rq \<noteq> []"
  show "\<not> is_pending (hd rq) (encode_reply f (hd rq) (spec_reply maxLen (recs w) (val w) (session w) rq))"
    by (rule not_pending_encode)
  assume l: "length rq \<le> 4095"
  show "ready (after rq w)" by (rule ready_after [OF w l])
  show "\<exists>w1. send (m_transport c) rq a w = (True, w1) \<and> (\<forall>t. receive (m_transport c) t w1 =
      (if encode_reply (a = Functional) (hd rq) (spec_reply maxLen (recs w) (val w) (session w) rq) = [] then None
       else Some (encode_reply (a = Functional) (hd rq) (spec_reply maxLen (recs w) (val w) (session w) rq)), after rq w))"
    by (rule exchange [OF w l refl])
qed (rule patient)

subsection \<open>What the services return\<close>

definition did_values :: "(u16 \<Rightarrow> u8 list option) \<Rightarrow> DidSpec list \<Rightarrow> DidValue list" where
  "did_values v ds = concat (map (\<lambda>d. case v (spec_id d) of None \<Rightarrow> [] | Some x \<Rightarrow> [\<lparr>value_id = spec_id d, value_data = x\<rparr>]) ds)"

definition lengths_known :: "(u16 \<Rightarrow> u8 list option) \<Rightarrow> DidSpec list \<Rightarrow> bool" where
  "lengths_known v ds = (\<forall>d \<in> set ds. \<forall>x. v (spec_id d) = Some x \<longrightarrow> length x = spec_length d)"

lemma find_spec:
  assumes "lengths_known v ds" "d \<in> set ds" "v (spec_id d) = Some x"
  shows "\<exists>d'. find (\<lambda>d'. spec_id d' = spec_id d) ds = Some d' \<and> spec_length d' = length x"
proof -
  have "find (\<lambda>d'. spec_id d' = spec_id d) ds \<noteq> None" using assms(2) by (auto simp: find_None_iff)
  then obtain d' where d': "find (\<lambda>d'. spec_id d' = spec_id d) ds = Some d'" by blast
  then have "d' \<in> set ds" "spec_id d' = spec_id d" by (auto simp: find_Some_iff)
  then show ?thesis using assms(1,3) d' by (auto simp: lengths_known_def)
qed

lemma split_dids_body:
  assumes "lengths_known v ds" "set ds' \<subseteq> set ds"
    and "b = pre @ concat (map (\<lambda>d. did_bytes v (spec_id d)) ds')"
  shows "split_dids ds b (length pre) vals = Ok (vals @ did_values v ds')"
  using assms(2,3)
proof (induction ds' arbitrary: pre vals)
  case Nil
  then show ?case by (subst split_dids.simps) (simp add: did_values_def)
next
  case (Cons d ds')
  show ?case
  proof (cases "v (spec_id d)")
    case None
    then show ?thesis using Cons by (simp add: did_bytes_def did_values_def)
  next
    case (Some x)
    define b0 where "b0 = pre @ byte_hi (spec_id d) # byte_lo (spec_id d) # x"
    have b: "b = b0 @ concat (map (\<lambda>d. did_bytes v (spec_id d)) ds')"
      using Cons.prems(2) Some by (simp add: did_bytes_def b0_def)
    have n: "b ! length pre = byte_hi (spec_id d)" "b ! Suc (length pre) = byte_lo (spec_id d)"
      "drop (Suc (Suc (length pre))) b = x @ concat (map (\<lambda>d. did_bytes v (spec_id d)) ds')"
      by (simp_all add: b b0_def nth_append)
    obtain d' where d': "find (\<lambda>d'. spec_id d' = spec_id d) ds = Some d'" "spec_length d' = length x"
      using find_spec [OF assms(1) _ Some] Cons.prems(1) by auto
    have len: "length pre < length b" "length pre + 2 \<le> length b" "length pre + 2 + length x = length b0" "length b0 \<le> length b"
      by (simp_all add: b b0_def)
    have "split_dids ds b (length pre) vals =
        split_dids ds b (length b0) (vals @ [\<lparr>value_id = spec_id d, value_data = x\<rparr>])"
      using len by (subst split_dids.simps) (simp add: n d' Let_def del: length_append)
    also have "\<dots> = Ok ((vals @ [\<lparr>value_id = spec_id d, value_data = x\<rparr>]) @ did_values v ds')"
      by (rule Cons.IH [OF _ b]) (use Cons.prems(1) in simp)
    finally show ?thesis by (simp add: did_values_def Some)
  qed
qed

lemma pairs_nth:
  "i < length xs \<Longrightarrow> concat (map (\<lambda>x. [f x, g x]) xs) ! (2 * i) = f (xs ! i) \<and>
     concat (map (\<lambda>x. [f x, g x]) xs) ! (Suc (2 * i)) = g (xs ! i)"
  by (induction xs arbitrary: i) (auto simp: nth_Cons' less_Suc_eq_0_disj)

lemma length_pairs: "length (concat (map (\<lambda>x. [f x, g x]) xs)) = 2 * length xs"
  by (induction xs) auto

lemma requested_dids_pairs:
  "requested_dids (0x22 # concat (map (\<lambda>d. [byte_hi (spec_id d), byte_lo (spec_id d)]) ds)) = map spec_id ds"
  by (rule nth_equalityI) (simp_all add: requested_dids_def length_pairs pairs_nth)

lemma parse_encode:
  assumes "\<forall>(cfg, e) \<in> set xs. code cfg < 0x1000000"
  shows "parse_records (record_bytes xs) =
    map (\<lambda>(cfg, e). \<lparr>dtc_code = code cfg, dtc_status = status e AND 0x7F\<rparr>) xs"
  using assms
proof (induction xs)
  case Nil
  then show ?case by (simp add: record_bytes_def)
next
  case (Cons x xs)
  obtain cfg e where x: "x = (cfg, e)" by (cases x)
  define w where "w = code cfg"
  have "unat w < 2 ^ 24" using Cons.prems x by (simp add: w_def word_less_nat_alt)
  then have "unat (take_bit 24 w) = unat w" by (simp add: unsigned_take_bit_eq take_bit_nat_eq_self)
  then have small: "take_bit 24 w = w" by (simp only: word_unat_eq_iff)
  have "push_bit 16 (ucast (ucast (drop_bit 16 w AND 0xFF) :: u8)) OR push_bit 8 (ucast (ucast (drop_bit 8 w AND 0xFF) :: u8)) OR
     ucast (ucast (w AND 0xFF) :: u8) = take_bit 24 w"
  proof (rule bit_word_eqI)
    fix n :: nat
    show "bit (push_bit 16 (ucast (ucast (drop_bit 16 w AND 0xFF) :: u8)) OR push_bit 8 (ucast (ucast (drop_bit 8 w AND 0xFF) :: u8)) OR
     ucast (ucast (w AND 0xFF) :: u8) :: u32) n = bit (take_bit 24 w) n" if "n < LENGTH(32)"
      using that by (cases "n < 8"; cases "n < 16") (auto simp: bit_simps and_0xFF_mask)
  qed
  then show ?case using Cons by (simp add: x record_bytes_def dtc_record_def small DTC_STATUS_AVAILABILITY_MASK_def DTC_STATUS_WIR_def flip: w_def)
qed

subsection \<open>The services over such a peer\<close>

context iso_peer begin

definition reply :: "'w \<Rightarrow> u8 list \<Rightarrow> uds_reply" where
  "reply w rq = spec_reply maxLen (recs w) (val w) (session w) rq"

lemma request_reply:
  assumes "ready w" "rq \<noteq> []" "length rq \<le> 4095"
  shows "request c rq a w =
    (case reply w rq of
       Positive supp b \<Rightarrow> if supp then error Timeout else Ok b
     | NegativeReply n \<Rightarrow> if a = Functional \<and> n \<in> {0x11, 0x12, 0x31, 0x7E, 0x7F} then error Timeout
         else Err \<lparr>kind = NegativeNrc, nrc = n\<rparr>, after rq w)"
proof (cases "reply w rq")
  case (Positive supp b)
  then have "b \<noteq> [] \<and> hd b = hd rq + 0x40 \<and> hd b \<noteq> 0x7F"
    using spec_reply_sid positive_not_7F unfolding reply_def by metis
  then show ?thesis
    using Positive peer.request_peer [OF assms refl, of a]
    by (auto simp: reply_def encode_reply_def verdict_def hd_conv_nth)
next
  case (NegativeReply n)
  then show ?thesis
    using peer.request_peer [OF assms refl, of a]
    by (auto simp: reply_def encode_reply_def verdict_def)
qed

lemma peer_testerPresent: "ready w \<Longrightarrow> testerPresent c a w = (Ok (), after [0x3E, 0x00] w)"
  by (simp add: testerPresent_def request_reply reply_def spec_reply_def spec_TesterPresent_def and_then_def)

lemma peer_unknown_service:
  assumes "ready w" "hd rq \<notin> {0x10, 0x11, 0x14, 0x19, 0x22, 0x3E}" "rq \<noteq> []" "length rq \<le> 4095"
  shows "request c rq a w =
    (if a = Functional then error Timeout else Err \<lparr>kind = NegativeNrc, nrc = 0x11\<rparr>, after rq w)"
  using assms(2) by (simp add: request_reply [OF assms(1,3,4)] reply_def spec_reply_def)

lemma peer_startSession:
  "ready w \<Longrightarrow> startSession c s w = (Ok \<lparr>session_p2 = 50, session_p2Star = 5000\<rparr>, after [0x10, session_byte s] w)"
  by (cases s) (simp_all add: startSession_def request_reply reply_def spec_reply_def spec_SessionControl_def
      and_then_def u16_of_bytes_def)

lemma peer_ecuReset:
  "ready w \<Longrightarrow> ecuReset_client c t w =
    (if session w = 0x03 then Ok () else Err \<lparr>kind = NegativeNrc, nrc = 0x7E\<rparr>, after [0x11, reset_byte t] w)"
  by (cases t) (simp_all add: ecuReset_client_def request_reply reply_def spec_reply_def spec_EcuReset_def and_then_def)

lemma peer_clearAllDtcs: "ready w \<Longrightarrow> clearAllDtcs c w = (Ok (), after [0x14, 0xFF, 0xFF, 0xFF] w)"
  by (simp add: clearAllDtcs_def request_reply reply_def spec_reply_def spec_ClearDtc_def and_then_def)

lemma peer_readDtcCount:
  assumes "ready w"
  shows "readDtcCount c m w = (Ok (of_nat (length (recs w m) div 4)), after [0x19, 0x01, m] w)"
proof -
  have "length (recs w m) div 4 < 256" using records [OF assms, of m] by auto
  then have "u16_of_bytes 0 (of_nat (length (recs w m) div 4)) = of_nat (length (recs w m) div 4)"
    by (simp add: u16_of_bytes_def word_unat_eq_iff unsigned_ucast_eq unat_of_nat take_bit_nat_eq_self)
  then show ?thesis
    by (simp add: readDtcCount_def request_reply assms reply_def spec_reply_def spec_ReadDtc_def and_then_def)
qed

lemma peer_readDtcs:
  assumes "ready w"
  shows "readDtcs c m w = (Ok (parse_records (recs w m)), after [0x19, 0x02, m] w)"
proof -
  have "length (recs w m) \<le> 64" "length (recs w m) mod 4 = 0" using records [OF assms, of m] by (auto elim: dvdE)
  then show ?thesis
    using room
    by (simp add: readDtcs_def request_reply assms reply_def spec_reply_def spec_ReadDtc_def and_then_def parseDtcRecords_def)
qed

lemma peer_readDids:
  assumes "ready w" "lengths_known (val w) ds" "length ds \<le> 2047"
    and "rq = 0x22 # concat (map (\<lambda>d. [byte_hi (spec_id d), byte_lo (spec_id d)]) ds)"
    and "n = 1 + length (concat (map (\<lambda>d. did_bytes (val w) (spec_id d)) ds))"
  shows "readDids c ds w =
    (if ds = [] then Err \<lparr>kind = NegativeNrc, nrc = 0x13\<rparr>
     else if n > maxLen then Err \<lparr>kind = NegativeNrc, nrc = 0x14\<rparr>
     else if did_values (val w) ds = [] then Err \<lparr>kind = NegativeNrc, nrc = 0x31\<rparr>
     else Ok (did_values (val w) ds), after rq w)"
proof -
  have rq: "rq \<noteq> []" "length rq = Suc (2 * length ds)" "hd rq = 0x22" by (simp_all add: assms(4) length_pairs)
  then have len: "length rq \<le> 4095" using assms(3) by simp
  define body where "body = concat (map (\<lambda>d. did_bytes (val w) (spec_id d)) ds)"
  have rd: "requested_dids rq = map spec_id ds" by (simp add: assms(4) requested_dids_pairs)
  have b: "concat (map (did_bytes (val w)) (requested_dids rq)) = body" by (simp add: rd body_def comp_def)
  have none: "(\<forall>did \<in> set (requested_dids rq). val w did = None) \<longleftrightarrow> did_values (val w) ds = []"
    by (auto simp: rd did_values_def split: option.splits)
  have r: "reply w rq = (if ds = [] then NegativeReply 0x13 else if n > maxLen then NegativeReply 0x14
      else if did_values (val w) ds = [] then NegativeReply 0x31 else Positive False (0x62 # body))"
    using rq(2) by (simp add: reply_def spec_reply_def rq(3) spec_ReadDid_def b none) (simp add: body_def assms(5))
  have "split_dids ds (0x62 # body) (length [0x62 :: u8]) [] = Ok ([] @ did_values (val w) ds)"
    by (rule split_dids_body [OF assms(2) order_refl]) (simp add: body_def)
  then have s: "split_dids ds (0x62 # body) 1 [] = Ok (did_values (val w) ds)" by simp
  have "readDids c ds w = and_then (request c rq Physical w) (\<lambda>b. split_dids ds b 1 [])"
    by (simp add: readDids_def assms(4))
  then show ?thesis
    using s by (simp add: request_reply [OF assms(1) rq(1) len] r and_then_def)
qed

lemma peer_readDid:
  assumes "ready w" "\<And>x. val w did = Some x \<Longrightarrow> 3 + length x \<le> maxLen"
  shows "readDid c did w = (case val w did of None \<Rightarrow> Err \<lparr>kind = NegativeNrc, nrc = 0x31\<rparr> | Some x \<Rightarrow> Ok x,
    after [0x22, byte_hi did, byte_lo did] w)"
proof -
  have rd: "requested_dids [0x22, byte_hi did, byte_lo did] = [did]" by (simp add: requested_dids_def)
  show ?thesis
    using assms room
    by (auto simp: readDid_def request_reply reply_def spec_reply_def spec_ReadDid_def rd did_bytes_def and_then_def split: option.split)
qed

end

end
