(* ===== verification/SimProps.thy ===== *)
theory SimProps
  imports ClientProps
begin

section \<open>Properties of the simulated ECU and of the scenarios\<close>

text \<open>
  The simulated ECU provides the contract of the client (\<open>sim_peer\<close>): its answer to a request is the
  specified one (\<open>sim_reply\<close>), its state after it is \<open>sim_after\<close>. \<open>sim_run\<close> are the states it can reach.
\<close>

subsection \<open>The server and its store\<close>

definition sim_val :: "SimulatedEcu \<Rightarrow> u16 \<Rightarrow> u8 list option" where
  "sim_val w did =
     (if did = 0xF195 then Some (chars ''CTRL-0.3.0'')
      else if did = 0x0100 then Some [byte_hi (m_speedX10 w), byte_lo (m_speedX10 w)]
      else if did = 0x0101 then Some [fault_mask (m_faults w)] else None)"

definition sim_hits :: "SimulatedEcu \<Rightarrow> u8 \<Rightarrow> u8 list" where
  "sim_hits w m = dtc_hits m (c_dtc w)"

interpretation sim_store: dtc_store sim_dtc "\<lambda>w. dtc_ok (c_dtc w)" "\<lambda>m w. sim_hits w m"
  unfolding sim_dtc_def sim_hits_def by (rule dtcMgr_on_store) simp_all

interpretation sim_server: uds_server sim_dtc "\<lambda>w. dtc_ok (c_dtc w)" "\<lambda>m w. sim_hits w m" kUds
  by (intro uds_server.intro sim_store.dtc_store_axioms uds_server_axioms.intro)
     (auto simp: kUds_def kDids_def cbReadVersion_def cbReadSpeed_def cbReadFaults_def kVersion_def chars_def
        kSoftwareVersionLength_def cbGetTimeMs_def)

lemma sim_did_val: "uds_server.did_val kUds w = sim_val w"
  by (rule ext, simp only: sim_server.did_val_def)
     (simp add: FindDid_def kUds_def kDids_def kDid_defs sim_val_def cbReadVersion_def cbReadSpeed_def cbReadFaults_def
        kVersion_def chars_def)

definition sim_reply :: "SimulatedEcu \<Rightarrow> u8 list \<Rightarrow> uds_reply" where
  "sim_reply w rq = spec_reply 4095 (sim_hits w) (sim_val w) (s_session (c_uds w)) rq"

definition sim_uds_after :: "SimulatedEcu \<Rightarrow> u8 list \<Rightarrow> Uds_State" where
  "sim_uds_after w rq =
     (if \<not> positive (sim_reply w rq) then c_uds w
      else if hd rq = 0x10 then (c_uds w)\<lparr>s_session := rq ! 1 AND 0x7F\<rparr>
      else if hd rq = 0x11 then (c_uds w)\<lparr>s_pendingReset := rq ! 1 AND 0x7F\<rparr> else c_uds w)
       \<lparr>s_lastRequestMs := m_nowMs w\<rparr>"

definition sim_after :: "u8 list \<Rightarrow> SimulatedEcu \<Rightarrow> SimulatedEcu" where
  "sim_after rq w =
     execute_reset ((if positive (sim_reply w rq) \<and> hd rq = 0x14 then w\<lparr>c_dtc := DtcMgr_ClearAll (c_dtc w)\<rparr> else w)
       \<lparr>c_uds := sim_uds_after w rq\<rparr>)"

lemma powerOn_eq:
  "powerOn w = w\<lparr>c_dtc := snd (DtcMgr_Init (Some kDtcTable) 5 None None (c_dtc w)),
     c_uds := \<lparr>s_session = 0x01, s_lastRequestMs = m_nowMs w, s_pendingReset = 0\<rparr>,
     m_faults := [False, False, False, False, False]\<rparr>"
  by (simp add: powerOn_def Uds_Init_def uds_now_def kUds_def cbGetTimeMs_def kMonitorCount_def uds_consts
      eval_nat_numeral split: prod.split)

lemma execute_reset_responses [simp]:
  "m_responses (execute_reset w) = m_responses w"
  "execute_reset (w\<lparr>m_responses := rs\<rparr>) = (execute_reset w)\<lparr>m_responses := rs\<rparr>"
  by (auto simp: execute_reset_def Uds_ExecutePendingReset_def kUds_def cbEcuReset_def Let_def powerOn_eq
      split: option.splits)

subsection \<open>What every operation keeps\<close>

definition sim_dtc_ok :: "DtcMgr_State \<Rightarrow> bool" where
  "sim_dtc_ok d = (dtc_ok d \<and> s_table d = kDtcTable \<and> s_count d = 5)"

definition sim_ok :: "SimulatedEcu \<Rightarrow> bool" where
  "sim_ok w = (sim_dtc_ok (c_dtc w) \<and> length (m_faults w) = 5 \<and> m_pendingReset w = None \<and>
     s_pendingReset (c_uds w) = 0 \<and> s_session (c_uds w) \<in> {0x01, 0x03})"

definition sim_ready :: "SimulatedEcu \<Rightarrow> bool" where
  "sim_ready w = (sim_ok w \<and> m_responses w = [])"

lemma sim_dtc_init:
  assumes "length (s_entries d) = 16"
  shows "sim_dtc_ok (snd (DtcMgr_Init (Some kDtcTable) 5 None None d))"
proof -
  have "fst (DtcMgr_Init (Some kDtcTable) 5 None None d)" by (simp add: DtcMgr_Init_def DTC_MAX_ENTRIES_def)
  then obtain d' where d': "DtcMgr_Init (Some kDtcTable) 5 None None d = (True, d')"
    by (metis eq_fst_iff)
  note DtcMgr_InitD [OF this]
  moreover have "dtc_wf d'" by (rule dtc_init_wf [OF d' assms]) (simp add: kDtcTable_def)
  ultimately show ?thesis by (simp add: d' sim_dtc_ok_def dtc_ok_def lock_balanced_def)
qed

lemma sim_dtc_ok_entries: "sim_dtc_ok d \<Longrightarrow> length (s_entries d) = 16"
  by (simp add: sim_dtc_ok_def dtc_ok_def dtc_wf_def)

lemma sim_dtc_ok_step: "sim_dtc_ok d \<Longrightarrow> sim_dtc_ok (dtc_step d ev)"
  by (simp add: sim_dtc_ok_def dtc_ok_step)

lemma sim_dtc_ok_ops:
  "sim_dtc_ok d \<Longrightarrow> sim_dtc_ok (DtcMgr_ClearAll d)"
  "sim_dtc_ok d \<Longrightarrow> sim_dtc_ok (DtcMgr_StartOperationCycle d)"
  "sim_dtc_ok d \<Longrightarrow> sim_dtc_ok (DtcMgr_ReportResult i f d)"
  using sim_dtc_ok_step [of d ClearAll] sim_dtc_ok_step [of d OperationCycle] sim_dtc_ok_step [of d "Report i f"]
  by (simp_all add: dtc_step_def)

lemma execute_no_reset:
  assumes "s_pendingReset (c_uds w) = 0" "m_pendingReset w = None"
  shows "execute_reset w = w"
  using assms by (simp add: execute_reset_def Uds_ExecutePendingReset_def uds_consts Let_def)

lemma execute_reset_eq:
  assumes "s_pendingReset (c_uds w) = t" "t \<noteq> 0" "m_pendingReset w = None"
    and "w1 = w\<lparr>c_uds := (c_uds w)\<lparr>s_pendingReset := 0, s_session := 0x01\<rparr>\<rparr>"
  shows "execute_reset w =
    (if t = 0x01 then powerOn (w1\<lparr>m_hardResets := m_hardResets w + 1\<rparr>)
     else w1\<lparr>m_softResets := m_softResets w + 1, c_dtc := DtcMgr_StartOperationCycle (c_dtc w)\<rparr>)"
  using assms(1-3) unfolding assms(4)
  by (simp add: execute_reset_def Uds_ExecutePendingReset_def uds_consts Let_def kUds_def cbEcuReset_def powerOn_eq)

lemma execute_reset_ok:
  assumes "sim_dtc_ok (c_dtc w)" "length (m_faults w) = 5" "m_pendingReset w = None" "s_session (c_uds w) \<in> {0x01, 0x03}"
  shows "sim_ok (execute_reset w)"
  using assms execute_no_reset [of w] execute_reset_eq [of w _ "w\<lparr>c_uds := (c_uds w)\<lparr>s_pendingReset := 0, s_session := 0x01\<rparr>\<rparr>"]
    sim_dtc_init [OF sim_dtc_ok_entries] sim_dtc_ok_ops(2)
  by (cases "s_pendingReset (c_uds w) = 0") (simp_all add: sim_ok_def powerOn_eq)

lemma sim_session_after:
  assumes "sim_ok w" "rq \<noteq> []"
  shows "s_session (sim_uds_after w rq) \<in> {0x01, 0x03}"
  using assms positive_session [of 4095 "sim_hits w" "sim_val w" "s_session (c_uds w)" rq]
  by (auto simp: sim_uds_after_def sim_ok_def sim_reply_def)

lemma sim_after_ok: "sim_ok w \<Longrightarrow> rq \<noteq> [] \<Longrightarrow> sim_ok (sim_after rq w)"
  unfolding sim_after_def
  by (rule execute_reset_ok) (use sim_session_after [of w rq] sim_dtc_ok_ops(1) in \<open>auto simp: sim_ok_def\<close>)

lemma sim_after_responses [simp]: "m_responses (sim_after rq w) = m_responses w"
  by (simp add: sim_after_def)

lemma sim_send_eq:
  assumes "sim_ok w" "rq \<noteq> []" "length rq \<le> 4095"
    and "b = encode_reply (a = Functional) (hd rq) (sim_reply w rq)"
  shows "sim_send rq a w = (True, (sim_after rq w)\<lparr>m_responses := m_responses w @ (if b = [] then [] else [b])\<rparr>)"
proof -
  have ok: "dtc_ok (c_dtc w)" using assms(1) by (simp add: sim_ok_def sim_dtc_ok_def)
  have len: "unat (of_nat (length rq) :: u16) = length rq" using assms(3) by (simp add: unat_of_nat)
  have now: "fst (uds_now kUds w) = m_nowMs w" by (simp add: uds_now_def kUds_def cbGetTimeMs_def)
  have max: "(of_nat kMaxResponseLen :: u16) = 4095" "kMaxResponseLen = 4095" by (simp_all add: kMaxResponseLen_def)
  have n4095: "unat (4095 :: u16) = 4095" by simp
  obtain n buf where pr: "Uds_ProcessRequest sim_dtc kUds (Some rq) (of_nat (length rq)) (a = Functional)
      (Some (replicate 4095 0)) 4095 (c_uds w) w = (n, Some buf, sim_uds_after w rq,
        if positive (sim_reply w rq) \<and> hd rq = 0x14 then dtc_ClearAll sim_dtc w else w)"
    and buf: "take (unat n) buf = b" "n \<le> 4095" "length buf = 4095"
    using sim_server.process_refines [OF ok assms(2) len, of 4095 "replicate 4095 0" "a = Functional" "c_uds w",
        unfolded sim_did_val now, simplified n4095, folded sim_reply_def, folded sim_uds_after_def]
    unfolding assms(4) by auto
  have empty: "b = [] \<longleftrightarrow> n = 0" using buf by (auto simp: word_le_nat_alt unat_eq_0)
  have pos: "n > 0 \<longleftrightarrow> b \<noteq> []" by (simp add: empty word_neq_0_conv)
  have clear: "dtc_ClearAll sim_dtc w = w\<lparr>c_dtc := DtcMgr_ClearAll (c_dtc w)\<rparr>" by (simp add: sim_dtc_def dtcMgr_on_def)
  have "\<not> kMaxResponseLen < length rq" using assms(3) by (simp add: max)
  then show ?thesis
    using assms(2) pr buf(1)
    by (auto simp: sim_send_def max pos sim_after_def clear Let_def)
qed

lemma sim_exchange:
  assumes "sim_ready w" "rq \<noteq> []" "length rq \<le> 4095"
    and "b = encode_reply (a = Functional) (hd rq) (spec_reply 4095 (sim_hits w) (sim_val w) (s_session (c_uds w)) rq)"
  shows "\<exists>w1. send (m_transport sim_client) rq a w = (True, w1) \<and>
        (\<forall>t. receive (m_transport sim_client) t w1 = (if b = [] then None else Some b, sim_after rq w))"
proof -
  have ok: "sim_ok w" "m_responses w = []" using assms(1) by (simp_all add: sim_ready_def)
  define w1 where "w1 = (sim_after rq w)\<lparr>m_responses := m_responses w @ (if b = [] then [] else [b])\<rparr>"
  have s: "sim_send rq a w = (True, w1)"
    unfolding w1_def by (rule sim_send_eq [OF ok(1) assms(2,3)]) (simp add: assms(4) sim_reply_def)
  have "m_responses (sim_after rq w) = []" by (simp add: ok(2))
  then have same: "(sim_after rq w)\<lparr>m_responses := []\<rparr> = sim_after rq w" by (cases "sim_after rq w") simp
  have "sim_receive t w1 = (if b = [] then None else Some b, sim_after rq w)" for t
    by (simp add: sim_receive_def w1_def ok(2) same)
  with s show ?thesis by (simp add: sim_client_def sim_transport_def)
qed

interpretation sim_peer: iso_peer sim_client sim_ready sim_after 4095 sim_hits sim_val "\<lambda>w. s_session (c_uds w)"
proof
  fix w m and rq :: "u8 list"
  assume w: "sim_ready w"
  show "length (sim_hits w m) \<le> 64 \<and> 4 dvd length (sim_hits w m)"
    using sim_store.hits_bound w by (simp add: sim_ready_def sim_ok_def sim_dtc_ok_def)
  assume rq: "rq \<noteq> []" "length rq \<le> 4095"
  show "sim_ready (sim_after rq w)" using sim_after_ok w rq by (simp add: sim_ready_def)
  show "\<exists>w1. send (m_transport sim_client) rq a w = (True, w1) \<and>
        (\<forall>t. receive (m_transport sim_client) t w1 = (if b = [] then None else Some b, sim_after rq w))"
    if "b = encode_reply (a = Functional) (hd rq) (spec_reply 4095 (sim_hits w) (sim_val w) (s_session (c_uds w)) rq)" for a b
    using sim_exchange [OF w rq that] .
qed (simp_all add: sim_client_def default_timing_def)

subsection \<open>The services of the client on the simulated ECU\<close>

text \<open>The state with another session and other trouble codes, just asked.\<close>

definition sim_set :: "u8 \<Rightarrow> DtcMgr_State \<Rightarrow> SimulatedEcu \<Rightarrow> SimulatedEcu" where
  "sim_set s d w = w\<lparr>c_dtc := d, c_uds := (c_uds w)\<lparr>s_session := s, s_lastRequestMs := m_nowMs w\<rparr>\<rparr>"

lemma sim_set_simps [simp]:
  "s_session (c_uds (sim_set s d w)) = s" "c_dtc (sim_set s d w) = d" "sim_val (sim_set s d w) = sim_val w"
  "sim_set s d (sim_set s' d' w) = sim_set s d w" "sim_hits (sim_set s d w) m = dtc_hits m d"
  "m_hardResets (sim_set s d w) = m_hardResets w"
  by (simp_all add: sim_set_def sim_val_def sim_hits_def fun_eq_iff)

lemma sim_set_ready [simp]:
  "sim_ready w \<Longrightarrow> sim_dtc_ok d \<Longrightarrow> s \<in> {0x01, 0x03} \<Longrightarrow> sim_ready (sim_set s d w)"
  by (auto simp: sim_ready_def sim_ok_def sim_set_def)

lemma sim_readyD: "sim_ready w \<Longrightarrow> sim_dtc_ok (c_dtc w)" "sim_ready w \<Longrightarrow> s_pendingReset (c_uds w) = 0"
  "sim_ready w \<Longrightarrow> m_pendingReset w = None" "sim_ready w \<Longrightarrow> s_session (c_uds w) \<in> {0x01, 0x03}"
  "sim_ready w \<Longrightarrow> length (m_faults w) = 5"
  by (simp_all add: sim_ready_def sim_ok_def)

lemma sim_after_quiet:
  assumes "sim_ready w" "hd rq \<notin> {0x10, 0x11, 0x14} \<or> \<not> positive (sim_reply w rq)"
  shows "sim_after rq w = sim_set (s_session (c_uds w)) (c_dtc w) w"
proof -
  have "sim_after rq w = execute_reset (sim_set (s_session (c_uds w)) (c_dtc w) w)"
    using assms(2) by (auto simp: sim_after_def sim_uds_after_def sim_set_def)
  also have "\<dots> = sim_set (s_session (c_uds w)) (c_dtc w) w"
    by (rule execute_no_reset) (use sim_readyD [OF assms(1)] in \<open>simp_all add: sim_set_def\<close>)
  finally show ?thesis .
qed

lemma sim_after_session:
  assumes "sim_ready w" "a AND 0x7F \<in> {0x01, 0x03}"
  shows "sim_after [0x10, a] w = sim_set (a AND 0x7F) (c_dtc w) w"
proof -
  have p: "positive (sim_reply w [0x10, a])"
    using assms(2) by (auto simp: sim_reply_def spec_reply_def spec_SessionControl_def)
  have "sim_after [0x10, a] w = execute_reset (sim_set (a AND 0x7F) (c_dtc w) w)"
    using p by (simp add: sim_after_def sim_uds_after_def sim_set_def)
  also have "\<dots> = sim_set (a AND 0x7F) (c_dtc w) w"
    by (rule execute_no_reset) (use sim_readyD [OF assms(1)] in \<open>simp_all add: sim_set_def\<close>)
  finally show ?thesis .
qed

lemma sim_after_clear:
  assumes "sim_ready w"
  shows "sim_after [0x14, 0xFF, 0xFF, 0xFF] w = sim_set (s_session (c_uds w)) (DtcMgr_ClearAll (c_dtc w)) w"
proof -
  have p: "positive (sim_reply w [0x14, 0xFF, 0xFF, 0xFF])"
    by (simp add: sim_reply_def spec_reply_def spec_ClearDtc_def)
  have "sim_after [0x14, 0xFF, 0xFF, 0xFF] w = execute_reset (sim_set (s_session (c_uds w)) (DtcMgr_ClearAll (c_dtc w)) w)"
    using p by (simp add: sim_after_def sim_uds_after_def sim_set_def)
  also have "\<dots> = sim_set (s_session (c_uds w)) (DtcMgr_ClearAll (c_dtc w)) w"
    by (rule execute_no_reset) (use sim_readyD [OF assms(1)] in \<open>simp_all add: sim_set_def\<close>)
  finally show ?thesis .
qed

lemma cleared_hits:
  assumes "sim_dtc_ok d"
  shows "dtc_hits 0x08 (DtcMgr_ClearAll d) = []"
proof -
  have wf: "dtc_wf (DtcMgr_ClearAll d)" using sim_dtc_ok_ops(1) [OF assms] by (simp add: sim_dtc_ok_def dtc_ok_def)
  have "\<not> status_matches 0x08 e" if "e \<in> set (take (unat (s_count d)) (s_entries (DtcMgr_ClearAll d)))" for e
    using that sim_dtc_ok_entries [OF assms] assms
    by (auto simp: DtcMgr_ClearAll_def ResetAll_def for_entries_def status_matches_def STATUS_INITIAL_def
        dtc_status_defs DTC_STATUS_AVAILABILITY_MASK_def sim_dtc_ok_def)
  then have "filter (status_matches 0x08) (take (unat (s_count d)) (s_entries (DtcMgr_ClearAll d))) = []"
    by (auto simp: filter_empty_conv)
  moreover have "s_count (DtcMgr_ClearAll d) = s_count d" by (simp add: DtcMgr_ClearAll_def ResetAll_def)
  ultimately have "length (matching 0x08 (DtcMgr_ClearAll d)) = 0" using length_matching [OF wf] by simp
  then show ?thesis by (simp add: dtc_hits_def record_bytes_def)
qed

lemma sim_lengths: "lengths_known (sim_val w) kAllDids"
  by (auto simp: lengths_known_def kAllDids_def kDid_defs sim_val_def chars_def)

lemma sim_all_dids:
  "length (concat (map (\<lambda>d. did_bytes (sim_val w) (spec_id d)) kAllDids)) = 19"
  "did_values (sim_val w) kAllDids =
     [\<lparr>value_id = 0xF195, value_data = chars ''CTRL-0.3.0''\<rparr>,
      \<lparr>value_id = 0x0100, value_data = [byte_hi (m_speedX10 w), byte_lo (m_speedX10 w)]\<rparr>,
      \<lparr>value_id = 0x0101, value_data = [fault_mask (m_faults w)]\<rparr>]"
  by (simp_all add: kAllDids_def kDid_defs sim_val_def chars_def did_bytes_def did_values_def)

lemma sim_readDids:
  assumes "sim_ready w"
  shows "readDids sim_client kAllDids w =
     (Ok (did_values (sim_val w) kAllDids), sim_set (s_session (c_uds w)) (c_dtc w) w)"
proof -
  have "kAllDids \<noteq> []" "length kAllDids \<le> 2047" "did_values (sim_val w) kAllDids \<noteq> []"
    by (simp_all add: sim_all_dids) (simp_all add: kAllDids_def)
  then show ?thesis
    using sim_peer.peer_readDids [OF assms sim_lengths _ refl refl] assms by (simp add: sim_all_dids(1) sim_after_quiet)
qed

lemma sim_readDid:
  "sim_ready w \<Longrightarrow> readDid sim_client did w =
     (case sim_val w did of None \<Rightarrow> Err \<lparr>kind = NegativeNrc, nrc = 0x31\<rparr> | Some x \<Rightarrow> Ok x,
      sim_set (s_session (c_uds w)) (c_dtc w) w)"
  by (subst sim_peer.peer_readDid) (auto simp: sim_after_quiet sim_val_def chars_def split: if_splits)

lemma sim_unknown_service:
  "sim_ready w \<Longrightarrow> request sim_client unknownService a w =
     (if a = Functional then error Timeout else Err \<lparr>kind = NegativeNrc, nrc = 0x11\<rparr>,
      sim_set (s_session (c_uds w)) (c_dtc w) w)"
  using sim_peer.peer_unknown_service [of w unknownService a]
  by (simp add: unknownService_def sim_after_quiet)

lemma sim_testerPresent:
  "sim_ready w \<Longrightarrow> testerPresent sim_client a w = (Ok (), sim_set (s_session (c_uds w)) (c_dtc w) w)"
  by (simp add: sim_peer.peer_testerPresent sim_after_quiet)

lemma sim_refused_reset:
  "sim_ready w \<Longrightarrow> s_session (c_uds w) = 0x01 \<Longrightarrow> ecuReset_client sim_client t w =
     (Err \<lparr>kind = NegativeNrc, nrc = 0x7E\<rparr>, sim_set 0x01 (c_dtc w) w)"
  using sim_after_quiet [of w "[0x11, reset_byte t]"]
  by (cases t) (simp_all add: sim_peer.peer_ecuReset sim_reply_def spec_reply_def spec_EcuReset_def)

lemma sim_readDtcs:
  "sim_ready w \<Longrightarrow> readDtcs sim_client m w = (Ok (parse_records (sim_hits w m)), sim_set (s_session (c_uds w)) (c_dtc w) w)"
  by (simp add: sim_peer.peer_readDtcs sim_after_quiet)

lemma sim_readDtcCount:
  "sim_ready w \<Longrightarrow> readDtcCount sim_client m w =
     (Ok (of_nat (length (sim_hits w m) div 4)), sim_set (s_session (c_uds w)) (c_dtc w) w)"
  by (simp add: sim_peer.peer_readDtcCount sim_after_quiet)

lemma sim_startSession:
  "sim_ready w \<Longrightarrow> startSession sim_client s w =
     (Ok \<lparr>session_p2 = 50, session_p2Star = 5000\<rparr>, sim_set (session_byte s) (c_dtc w) w)"
  using sim_after_session [of w "session_byte s"] by (cases s) (simp_all add: sim_peer.peer_startSession)

lemma sim_clearAllDtcs:
  "sim_ready w \<Longrightarrow> clearAllDtcs sim_client w =
     (Ok (), sim_set (s_session (c_uds w)) (DtcMgr_ClearAll (c_dtc w)) w)"
  by (simp add: sim_peer.peer_clearAllDtcs sim_after_clear)

lemmas sim_services = sim_readDids sim_readDid sim_unknown_service sim_testerPresent sim_refused_reset sim_readDtcs
  sim_readDtcCount sim_startSession sim_clearAllDtcs

lemma regression_scenario:
  assumes "sim_ready w" "s_session (c_uds w) = 0x01"
  shows "\<exists>rep. runRegressionScenario sim_client w = (rep, sim_set 0x01 (DtcMgr_ClearAll (c_dtc w)) w) \<and>
    length rep = 14 \<and> allPassed rep"
proof -
  note d = sim_readyD(1) [OF assms(1)]
  have v: "sim_val w 0x1234 = None" "sim_val w kDidSoftwareVersion \<noteq> None" "sim_val w kDidVehicleSpeed \<noteq> None"
    by (simp_all add: sim_val_def kDid_defs)
  note hits = cleared_hits [OF d]
  show ?thesis
    using v
    by (auto simp: runRegressionScenario_def Let_def sim_services assms d sim_dtc_ok_ops hits kConfirmed_def
        expectOk_def expectNrc_def expectSilence_def add_step_def isNrc_def error_def allPassed_def passedCount_def)
qed

subsection \<open>Reachable states and the scenarios\<close>

inductive sim_run :: "SimulatedEcu \<Rightarrow> bool" where
  start: "length (s_entries (c_dtc w)) = 16 \<Longrightarrow> construct w = Some w' \<Longrightarrow> sim_run w'"
| speed: "sim_run w \<Longrightarrow> sim_run (setSpeedX10 v w)"
| report: "sim_run w \<Longrightarrow> sim_run (reportMonitor m failed w)"
| time: "sim_run w \<Longrightarrow> sim_run (advanceTime dt w)"
| send: "sim_run w \<Longrightarrow> sim_send rq a w = (b, w') \<Longrightarrow> sim_run w'"
| receive: "sim_run w \<Longrightarrow> sim_receive t w = (r, w') \<Longrightarrow> sim_run w'"

lemma construct_ready:
  assumes "length (s_entries (c_dtc w)) = 16" "construct w = Some w'"
  shows "sim_ready w'" "s_session (c_uds w') = 0x01" "m_hardResets w' = 0"
  using assms sim_dtc_init [OF assms(1)]
  by (auto simp: construct_def sim_ready_def sim_ok_def powerOn_eq split: if_splits)

lemma sim_run_ok: "sim_run w \<Longrightarrow> sim_ok w"
proof (induction rule: sim_run.induct)
  case (start w w')
  then show ?case using construct_ready by (auto simp: sim_ready_def)
next
  case (time w dt)
  then show ?case
    by (auto simp: advanceTime_def Uds_MainFunction_def kUds_def cbGetTimeMs_def uds_consts sim_ok_def Let_def)
next
  case (send w rq a b w')
  show ?case
  proof (cases "rq = [] \<or> length rq > 4095")
    case True
    then show ?thesis using send by (auto simp: sim_send_def kMaxResponseLen_def)
  next
    case False
    then show ?thesis
      using sim_send_eq [OF send.IH _ _ refl, of rq a] sim_after_ok [OF send.IH, of rq] send.hyps(2)
      by (auto simp: sim_ok_def)
  qed
next
  case (report w m failed)
  then show ?case by (simp add: reportMonitor_def sim_ok_def sim_dtc_ok_ops)
qed (auto simp: setSpeedX10_def sim_ok_def sim_receive_def split: list.splits)

lemma sim_run_ready: "sim_run w \<Longrightarrow> m_responses w = [] \<Longrightarrow> sim_ready w"
  by (simp add: sim_ready_def sim_run_ok)

text \<open>C7: from every state the simulated ECU can reach, with no response waiting and the default session, the
  regression scenario passes: all of its fourteen steps have the expected outcome, whatever faults were reported
  before; it leaves the trouble codes cleared, the default session, no response waiting, and executes no reset.\<close>

theorem Regression_scenario_passes:
  assumes "sim_run w" "m_responses w = []" "sim_session w = 0x01"
    and "runRegressionScenario sim_client w = (rep, w')"
  shows "length rep = 14 \<and> allPassed rep \<and> m_responses w' = [] \<and> sim_session w' = 0x01 \<and>
    c_dtc w' = DtcMgr_ClearAll (c_dtc w) \<and> m_hardResets w' = m_hardResets w \<and> m_softResets w' = m_softResets w \<and>
    m_faults w' = m_faults w"
  using regression_scenario [OF sim_run_ready [OF assms(1,2)]] assms(2-4)
  by (auto simp: sim_session_def Uds_GetSession_def sim_set_def)

text \<open>A simulated ECU after its construction, and one with a fault.\<close>

definition sim_start :: SimulatedEcu where
  "sim_start = the (construct sim_statics)"

lemma sim_start: "construct sim_statics = Some sim_start" "sim_run sim_start" "sim_ready sim_start"
  "s_session (c_uds sim_start) = 0x01"
proof -
  have len: "length (s_entries (c_dtc sim_statics)) = 16"
    by (simp add: sim_statics_def DtcMgr_static_def DTC_MAX_ENTRIES_def)
  show c: "construct sim_statics = Some sim_start" by (simp add: sim_start_def construct_def sim_statics_def)
  show "sim_run sim_start" by (rule sim_run.start [OF len c])
  show "sim_ready sim_start" "s_session (c_uds sim_start) = 0x01" by (rule construct_ready [OF len c])+
qed

definition sim_faulty :: SimulatedEcu where
  "sim_faulty = reportMonitor SpeedTimeout True sim_start"

lemma sim_faulty: "sim_run sim_faulty" "m_responses sim_faulty = []" "sim_session sim_faulty = 0x01"
proof -
  show "sim_run sim_faulty" unfolding sim_faulty_def by (rule sim_run.report [OF sim_start(2)])
  show "m_responses sim_faulty = []" "sim_session sim_faulty = 0x01" using sim_start(3,4)
    by (simp_all add: sim_faulty_def reportMonitor_def sim_session_def Uds_GetSession_def sim_ready_def)
qed

theorem Regression_scenario_passes_witness:
  "\<exists>rep w'. runRegressionScenario sim_client sim_faulty = (rep, w') \<and> length rep = 14 \<and> allPassed rep \<and>
     c_dtc w' = DtcMgr_ClearAll (c_dtc sim_faulty)"
proof -
  obtain rep w' where run: "runRegressionScenario sim_client sim_faulty = (rep, w')" by fastforce
  show ?thesis using Regression_scenario_passes [OF sim_faulty run] run by blast
qed

lemma sim_after_hard_reset:
  assumes "sim_ready w" "s_session (c_uds w) = 0x03"
  shows "sim_after [0x11, 0x01] w = powerOn (w\<lparr>m_hardResets := m_hardResets w + 1\<rparr>)"
proof -
  have p: "positive (sim_reply w [0x11, 0x01])"
    using assms(2) by (simp add: sim_reply_def spec_reply_def spec_EcuReset_def)
  define w0 where "w0 = w\<lparr>c_uds := (c_uds w)\<lparr>s_pendingReset := 0x01, s_lastRequestMs := m_nowMs w\<rparr>\<rparr>"
  have "sim_after [0x11, 0x01] w = execute_reset w0" using p by (simp add: sim_after_def sim_uds_after_def w0_def)
  also have "\<dots> = powerOn (w\<lparr>m_hardResets := m_hardResets w + 1\<rparr>)"
    using execute_reset_eq [of w0 1, OF _ _ _ refl] sim_readyD(3) [OF assms(1)]
    by (simp add: w0_def powerOn_eq)
  finally show ?thesis .
qed

lemma reset_scenario:
  assumes "sim_ready w"
  shows "\<exists>rep. runResetScenario sim_client w = (rep, powerOn (w\<lparr>m_hardResets := m_hardResets w + 1\<rparr>)) \<and>
    length rep = 2 \<and> allPassed rep"
proof -
  define w1 where "w1 = sim_set 0x03 (c_dtc w) w"
  have w1: "sim_ready w1" "s_session (c_uds w1) = 0x03" using assms sim_readyD(1) by (simp_all add: w1_def)
  have "powerOn (w1\<lparr>m_hardResets := m_hardResets w1 + 1\<rparr>) = powerOn (w\<lparr>m_hardResets := m_hardResets w + 1\<rparr>)"
    by (simp add: powerOn_eq w1_def sim_set_def)
  then show ?thesis
    using sim_peer.peer_ecuReset [OF w1(1), of Reset_Hard] sim_after_hard_reset [OF w1] w1(2)
    by (auto simp: runResetScenario_def sim_startSession assms expectOk_def add_step_def allPassed_def passedCount_def
        simp flip: w1_def)
qed

lemma reportMonitor_keeps: "sim_ready w \<Longrightarrow> sim_ready (reportMonitor m f w)"
  "c_uds (reportMonitor m f w) = c_uds w" "m_hardResets (reportMonitor m f w) = m_hardResets w"
  by (simp_all add: reportMonitor_def sim_ready_def sim_ok_def sim_dtc_ok_ops)

lemma reports_keep:
  "sim_ready w \<Longrightarrow> sim_ready (fold (\<lambda>x. reportMonitor (m x) (f x)) xs w) \<and>
    c_uds (fold (\<lambda>x. reportMonitor (m x) (f x)) xs w) = c_uds w \<and>
    m_hardResets (fold (\<lambda>x. reportMonitor (m x) (f x)) xs w) = m_hardResets w"
  by (induction xs arbitrary: w) (simp_all add: reportMonitor_keeps)

lemma printReport_passed: "allPassed rep \<Longrightarrow> snd (printReport t rep) = 0"
  by (simp add: printReport_def)

text \<open>The program run with \<open>--sim\<close>: both scenarios pass, it returns 0, and reports the one reset.\<close>

theorem Tester_program:
  assumes "length (s_entries (c_dtc w)) = 16" "\<not> s_active w" "argv ! 1 = ''--sim''" "length argv = 2"
  shows "\<exists>out w'. tester_main argv w = Some (out, 0, w') \<and> \<not> s_active w' \<and> m_hardResets w' = 1 \<and> sim_session w' = 0x01 \<and>
    suffix (''simulated ECU: 1 hard reset(s), session 0x01 after reset'' @ newline) out"
proof -
  obtain e0 where c: "construct w = Some e0" using assms(2) by (auto simp: construct_def)
  note e0 = construct_ready [OF assms(1) c]
  define e2 where "e2 = reportMonitor SpeedTimeout True (setSpeedX10 1613 e0)"
  define e3 where "e3 = fold (\<lambda>_. reportMonitor E2e True) [0..<(3 :: nat)] e2"
  define e4 where "e4 = fold (\<lambda>m. reportMonitor m False) monitor_list e3"
  have "sim_ready (setSpeedX10 1613 e0)" "c_uds (setSpeedX10 1613 e0) = c_uds e0" "m_hardResets (setSpeedX10 1613 e0) = 0"
    using e0 by (simp_all add: setSpeedX10_def sim_ready_def sim_ok_def)
  then have "sim_ready e2" "c_uds e2 = c_uds e0" "m_hardResets e2 = 0"
    by (simp_all add: e2_def reportMonitor_keeps)
  then have "sim_ready e3" "c_uds e3 = c_uds e0" "m_hardResets e3 = 0"
    using reports_keep [of e2 "\<lambda>_. E2e" "\<lambda>_. True" "[0..<(3 :: nat)]"] by (simp_all add: e3_def)
  then have e4: "sim_ready e4" "s_session (c_uds e4) = 0x01" "m_hardResets e4 = 0"
    using reports_keep [of e3 "\<lambda>m. m" "\<lambda>_. False" monitor_list] e0(2) by (simp_all add: e4_def)
  define e5 where "e5 = sim_set 0x01 (DtcMgr_ClearAll (c_dtc e4)) e4"
  obtain rep1 where r1: "runRegressionScenario sim_client e4 = (rep1, e5)" "allPassed rep1"
    using regression_scenario [OF e4(1,2)] by (auto simp: e5_def)
  have e5: "sim_ready e5" "m_hardResets e5 = 0" using e4 sim_readyD(1) [OF e4(1)] sim_dtc_ok_ops(1) by (simp_all add: e5_def)
  define e6 where "e6 = powerOn (e5\<lparr>m_hardResets := 1\<rparr>)"
  obtain rep2 where r2: "runResetScenario sim_client e5 = (rep2, e6)" "allPassed rep2"
    using reset_scenario [OF e5(1)] e5(2) by (auto simp: e6_def)
  obtain o1 o2 where o: "printReport ''Regression scenario (simulated Control ECU)'' rep1 = (o1, 0)" "printReport ''ECU reset'' rep2 = (o2, 0)"
    using printReport_passed r1(2) r2(2) by (metis prod.collapse)
  have e6: "m_hardResets e6 = 1" "sim_session e6 = 0x01"
    by (simp_all add: e6_def powerOn_eq sim_session_def Uds_GetSession_def)
  have "digits 16 (Suc 0) = [Suc 0]" "digits 10 (Suc 0) = [Suc 0]" by (subst digits.simps, simp)+
  then have texts: "int_text 1 = ''1''" "hex02 (Suc 0) = ''01''"
    by (simp_all add: int_text_def dec_def hex02_def hex_def pad_left_def hex_upper_def digit_char_def)
  have "runSimulation w = Some ((o1 @ o2 @ newline) @ ''simulated ECU: 1 hard reset(s), session 0x01 after reset'' @ newline, 0, destruct e6)"
    by (simp add: runSimulation_def c Let_def r1 r2 o e6 texts flip: e2_def e3_def e4_def)
  then show ?thesis
    using assms(3,4) e6 by (auto simp: tester_main_def destruct_def sim_session_def suffix_def)
qed

subsection \<open>Reading\<close>

text \<open>C9: in every state the simulated ECU can reach, with no response waiting, what the client decodes is what the
  ECU holds: a read of any list of identifiers returns exactly the known ones with their values, in the order asked,
  and the codes 13 and 31 for an empty list and for one without a known identifier; a read of the trouble
  codes by status mask returns exactly the codes that match, in table order, with their status bytes; the
  count is their number.\<close>

theorem Client_reads:
  assumes "sim_run w" "m_responses w = []" "lengths_known (sim_val w) ds" "length ds \<le> 300"
  shows "fst (readDids sim_client ds w) =
      (if ds = [] then Err \<lparr>kind = NegativeNrc, nrc = 0x13\<rparr>
       else if did_values (sim_val w) ds = [] then Err \<lparr>kind = NegativeNrc, nrc = 0x31\<rparr>
       else Ok (did_values (sim_val w) ds)) \<and>
    fst (readDtcs sim_client m w) =
      Ok (map (\<lambda>(cfg, e). \<lparr>dtc_code = code cfg, dtc_status = status e AND 0x7F\<rparr>) (matching m (c_dtc w))) \<and>
    fst (readDtcCount sim_client m w) = Ok (of_nat (length (matching m (c_dtc w))))"
proof (intro conjI)
  have r: "sim_ready w" by (rule sim_run_ready [OF assms(1,2)])
  have "length (did_bytes (sim_val w) d) \<le> 12" for d
    by (simp add: did_bytes_def sim_val_def chars_def)
  then have "length (concat (map (\<lambda>d. did_bytes (sim_val w) (spec_id d)) xs)) \<le> 12 * length xs" for xs
    by (induction xs) (simp_all add: add_le_mono)
  from this [of ds] assms(4) have "1 + length (concat (map (\<lambda>d. did_bytes (sim_val w) (spec_id d)) ds)) \<le> 4095" by linarith
  then show "fst (readDids sim_client ds w) =
      (if ds = [] then Err \<lparr>kind = NegativeNrc, nrc = 0x13\<rparr>
       else if did_values (sim_val w) ds = [] then Err \<lparr>kind = NegativeNrc, nrc = 0x31\<rparr>
       else Ok (did_values (sim_val w) ds))"
    using assms(4) by (simp add: sim_peer.peer_readDids [OF r assms(3) _ refl refl])
  have tab: "s_table (c_dtc w) = kDtcTable" "s_count (c_dtc w) = 5" using sim_readyD(1) [OF r] by (simp_all add: sim_dtc_ok_def)
  have "code cfg < 0x1000000" if "(cfg, e) \<in> set (matching m (c_dtc w))" for cfg e
  proof -
    have "cfg \<in> set kDtcTable" using that tab by (auto simp: matching_def dest!: in_set_takeD set_zip_leftD)
    then show ?thesis by (auto simp: kDtcTable_def)
  qed
  then have "parse_records (record_bytes (matching m (c_dtc w))) =
      map (\<lambda>(cfg, e). \<lparr>dtc_code = code cfg, dtc_status = status e AND 0x7F\<rparr>) (matching m (c_dtc w))"
    by (intro parse_encode) auto
  then show "fst (readDtcs sim_client m w) =
      Ok (map (\<lambda>(cfg, e). \<lparr>dtc_code = code cfg, dtc_status = status e AND 0x7F\<rparr>) (matching m (c_dtc w)))"
    using r by (simp add: sim_readDtcs sim_hits_def dtc_hits_def)
  show "fst (readDtcCount sim_client m w) = Ok (of_nat (length (matching m (c_dtc w))))"
    using r by (simp add: sim_readDtcCount sim_hits_def dtc_hits_def)
qed

text \<open>The time-out of the speed frames, confirmed at its first failure, is the one code read.\<close>

theorem Client_reads_witness:
  "fst (readDids sim_client kAllDids sim_faulty) = Ok (did_values (sim_val sim_faulty) kAllDids) \<and>
   fst (readDtcs sim_client 0x08 sim_faulty) = Ok [\<lparr>dtc_code = 0xC10087, dtc_status = 0x2F\<rparr>]"
proof -
  have ne: "kAllDids \<noteq> []" "length kAllDids \<le> 300" "did_values (sim_val sim_faulty) kAllDids \<noteq> []"
    by (simp_all add: sim_all_dids) (simp_all add: kAllDids_def)
  have d: "s_table (c_dtc sim_faulty) = kDtcTable" "s_count (c_dtc sim_faulty) = 5"
    using sim_run_ok [OF sim_faulty(1)] by (simp_all add: sim_ok_def sim_dtc_ok_def)
  have r5: "replicate 5 x = x # replicate 4 x" and r4: "replicate 4 x = [x, x, x, x]" for x :: DtcEntry_t
    by (simp_all add: numeral_eq_Suc)
  have "s_entries (c_dtc sim_faulty) = \<lparr>status = 0x2F, failCount = 1\<rparr> # replicate 4 \<lparr>status = 0x50, failCount = 0\<rparr> @
      replicate 11 \<lparr>status = 0, failCount = 0\<rparr>"
    by (simp add: sim_faulty_def sim_start_def construct_def sim_statics_def reportMonitor_def powerOn_eq DtcMgr_Init_def
        DTC_MAX_ENTRIES_def DtcMgr_static_def ResetAll_def for_entries_def kDtcTable_def DtcMgr_ReportResult_def Lock_def
        Unlock_def report_entry_def effective_threshold_def STATUS_INITIAL_def dtc_status_defs Let_def r5)
  then have m: "map (\<lambda>(cfg, e). \<lparr>dtc_code = code cfg, dtc_status = status e AND 0x7F\<rparr>) (matching 0x08 (c_dtc sim_faulty)) =
      [\<lparr>dtc_code = 0xC10087, dtc_status = 0x2F\<rparr>]"
    by (simp add: d matching_def kDtcTable_def status_matches_def DTC_STATUS_AVAILABILITY_MASK_def dtc_status_defs r4)
  show ?thesis
    using Client_reads [OF sim_faulty(1,2) sim_lengths, of "0x08"] ne m by simp
qed

end
