(* ===== verification/SimEquivalence.thy ===== *)
theory SimEquivalence
  imports SimProps DiagProps
begin

section \<open>The simulated ECU and the Control ECU\<close>

text \<open>
  Both run the server of \<open>common/\<close> on the same tables, with buffers of different size: what the answers have in
  common. \<open>spec_reply_room\<close> compares the specified answers for two buffer sizes.
\<close>

lemma spec_reply_room:
  assumes "length (recs (rq ! 2)) \<le> 64" "256 \<le> maxLen"
    and "r = spec_reply maxLen recs v s rq"
  shows "spec_reply 256 recs v s rq =
    (case r of Positive q b \<Rightarrow> if length b \<le> 256 then r else NegativeReply 0x14
     | NegativeReply n \<Rightarrow> r)"
proof (cases "hd rq \<in> {0x10, 0x11, 0x14, 0x19, 0x3E}")
  case True
  then show ?thesis
    using assms
    by (auto simp: spec_reply_def spec_SessionControl_def spec_EcuReset_def spec_ClearDtc_def spec_ReadDtc_def
        spec_TesterPresent_def)
next
  case False
  have "length (concat (map (did_bytes v) ds)) = 0" if "\<forall>did \<in> set ds. v did = None" for ds
    using that by (induction ds) (simp_all add: did_bytes_def)
  then have "\<not> (\<forall>did \<in> set ds. v did = None)" if "255 < length (concat (map (did_bytes v) ds))" for ds
    using that by (metis not_less_zero)
  from this [of "requested_dids rq"] show ?thesis
    using assms(2) False by (auto simp: assms(3) spec_reply_def spec_ReadDid_def Let_def)
qed

lemma encode_room:
  assumes "length (recs (rq ! 2)) \<le> 64" "256 \<le> maxLen"
    and "b = encode_reply f (hd rq) (spec_reply maxLen recs v s rq)"
  shows "encode_reply f (hd rq) (spec_reply 256 recs v s rq) = (if length b \<le> 256 then b else [0x7F, hd rq, 0x14])"
proof (cases "spec_reply maxLen recs v s rq")
  case (Positive q bytes)
  have "length bytes \<le> 256" if q
    using that assms(1) Positive
    by (auto simp: spec_reply_def spec_SessionControl_def spec_EcuReset_def spec_ClearDtc_def spec_ReadDtc_def
        spec_TesterPresent_def spec_ReadDid_def Let_def split: if_splits)
  then show ?thesis
    using spec_reply_room [of recs rq maxLen _ v s, OF assms(1,2) refl] by (auto simp: assms(3) Positive encode_reply_def)
next
  case (NegativeReply n)
  then show ?thesis
    using spec_reply_room [of recs rq maxLen _ v s, OF assms(1,2) refl] by (simp add: assms(3) encode_reply_def)
qed

text \<open>What the simulation and the ECU have in common.\<close>

definition same_diagnosis :: "SimulatedEcu \<Rightarrow> 'h Ecu \<Rightarrow> bool" where
  "same_diagnosis w e =
     (s_entries (c_dtc w) = s_entries (dtcs e) \<and> s_session (c_uds w) = s_session (uds e) \<and>
      m_speedX10 w = speedX10 (s_view e) \<and> m_faults w = s_faults e)"

lemma same_diagnosis_values:
  assumes "same_diagnosis w e" "sim_ok w" "ecu_ok e"
  shows "sim_val w = ecu_value e" "sim_hits w = (\<lambda>m. dtc_hits m (dtcs e))"
proof -
  have "length (s_faults e) = 5" using assms(3) by (simp add: ecu_ok_def)
  then have "fault_mask (m_faults w) = ControlApp_GetFaultMask e"
    using assms(1) by (simp add: same_diagnosis_def fault_mask_def ControlApp_GetFaultMask_def FAULT_COUNT_def)
  then show "sim_val w = ecu_value e"
    using assms(1) by (simp add: fun_eq_iff sim_val_def ecu_value_def same_diagnosis_def)
  show "sim_hits w = (\<lambda>m. dtc_hits m (dtcs e))"
    using assms by (simp add: fun_eq_iff sim_hits_def dtc_hits_def matching_def same_diagnosis_def sim_ok_def sim_dtc_ok_def
      ecu_ok_def ecu_dtcs_def kDtcTable_def k_dtcTable_def)
qed

text \<open>C8: the simulated ECU stands for the real one: when both hold the same trouble codes, session, speed and
  faults, the Control ECU answers any request with the bytes the simulation answers with (or is silent when it
  is), with one difference: an answer of more than 256 bytes, the ECU's buffer, which the simulation sends, is refused
  by the ECU with code 14.\<close>

theorem Sim_answers_as_ecu:
  assumes "sim_run w" "m_responses w = []" "ecu_ok e" "same_diagnosis w e"
    and "len \<noteq> 0" "rq = map ((!) data) [0..<unat len]" "length rq \<le> 4095"
    and "sim_send rq a w = (True, w')" "b = concat (m_responses w')"
    and "b' = (if length b \<le> 256 then b else [0x7F, hd rq, 0x14])"
  shows "\<exists>buf. RespondTo hal data len (a = Functional) (l, e) =
    (if b' = [] then Some (l, ecu_after hal e rq buf)
     else map_option snd (IsoTp_Transmit (ecu_txops hal) (Some b') (of_nat (length b')) (l, ecu_after hal e rq buf)))"
proof -
  have ok: "sim_ok w" by (rule sim_run_ok [OF assms(1)])
  have rq: "rq \<noteq> []" using assms(5,6) by (simp add: unat_eq_0)
  have "b = encode_reply (a = Functional) (hd rq) (sim_reply w rq)"
    using sim_send_eq [OF ok rq assms(7) refl, of a] assms(2,8,9) by (auto split: if_splits)
  then have b: "b = encode_reply (a = Functional) (hd rq) (spec_reply 4095 (\<lambda>m. dtc_hits m (dtcs e)) (ecu_value e) (s_session (uds e)) rq)"
    using assms(4) by (simp add: sim_reply_def same_diagnosis_values [OF assms(4) ok assms(3)]) (simp add: same_diagnosis_def)
  have e: "dtc_ok (dtcs e)" "length (s_respBuf e) = 256" using assms(3) by (simp_all add: ecu_ok_def ecu_dtcs_def)
  have "length (dtc_hits (rq ! 2) (dtcs e)) \<le> 64" using ecu_store.hits_bound [OF e(1)] by simp
  then have b': "b' = encode_reply (a = Functional) (hd rq) (ecu_reply e rq)"
    using encode_room [where recs = "\<lambda>m. dtc_hits m (dtcs e)" and rq = rq and maxLen = 4095, OF _ _ b]
    by (simp add: assms(10) ecu_reply_def)
  show ?thesis using RespondTo_eq [OF e assms(5,6) b'] by blast
qed

theorem Sim_answers_as_ecu_witness:
  "\<exists>buf. RespondTo demo_hal [0x22, 0xF1, 0x95] 3 False (demo_link, demo_ecu) =
    map_option snd (IsoTp_Transmit (ecu_txops demo_hal) (Some ([0x62, 0xF1, 0x95] @ chars ''CTRL-0.3.0'')) 13
      (demo_link, ecu_after demo_hal demo_ecu [0x22, 0xF1, 0x95] buf))"
proof -
  have e: "ecu_ok demo_ecu"
    by (simp add: ecu_ok_def ecu_dtcs_def demo_ecu_def demo_dtcs_ok demo_view_def Uds_static_def uds_consts)
  have same: "same_diagnosis sim_start demo_ecu"
    by (simp add: same_diagnosis_def sim_start_def construct_def sim_statics_def powerOn_eq demo_ecu_def demo_dtcs_def
        DtcMgr_Init_def DTC_MAX_ENTRIES_def ResetAll_def for_entries_def Uds_static_def uds_consts demo_view_def numeral_eq_Suc)
  have m: "m_responses sim_start = []" using sim_start(3) by (simp add: sim_ready_def)
  have rd: "requested_dids [0x22, 0xF1, 0x95] = [0xF195]" by (simp add: requested_dids_def u16_of_bytes_def)
  define b where "b = [0x62, 0xF1, 0x95] @ chars ''CTRL-0.3.0''"
  have r: "encode_reply (Physical = Functional) (hd [0x22, 0xF1, 0x95]) (sim_reply sim_start [0x22, 0xF1, 0x95]) = b"
    by (simp add: sim_reply_def spec_reply_def spec_ReadDid_def rd did_bytes_def sim_val_def byte_hi_def byte_lo_def
        encode_reply_def b_def chars_def)
  have len: "length b = 13" "b \<noteq> []" by (simp_all add: b_def chars_def)
  have s: "sim_send [0x22, 0xF1, 0x95] Physical sim_start = (True, (sim_after [0x22, 0xF1, 0x95] sim_start)\<lparr>m_responses := [b]\<rparr>)"
    using sim_send_eq [OF sim_run_ok [OF sim_start(2)] _ _ r [symmetric]] m len by simp
  show ?thesis
    using Sim_answers_as_ecu [OF sim_start(2) m e same _ _ _ s, of 3 "[0x22, 0xF1, 0x95]" b b demo_hal demo_link] len
    by (simp add: upt_rec b_def chars_def)
qed

end
