(* ===== verification/Fdcan.thy ===== *)
theory Fdcan
  imports CanDriver SensorMain ControlInvariant
begin

section \<open>The FDCAN HAL: what both controllers share\<close>

text \<open>
  The functions of the vendored FDCAN HAL the two CAN drivers call (SensorFdcan for the STM32G4, ControlFdcan
  for the STM32MP1), so that the drivers can be followed down to the message RAM of the controller. The state
  \<open>Fdcan\<close> is the handle, the registers and the message RAM, a map from the byte addresses of its words. What the
  controller does when a trigger register is written, and what happens while the code polls the tick,
  is hardware: the fields of \<open>FdcanCtrl\<close>. The parameter checks (\<open>assert_param\<close>) are empty in this build.
\<close>

datatype HAL_FDCAN_State =
  HAL_FDCAN_STATE_RESET | HAL_FDCAN_STATE_READY | HAL_FDCAN_STATE_BUSY | HAL_FDCAN_STATE_ERROR

record FDCAN_MsgRamAddress =
  StandardFilterSA :: u32
  ExtendedFilterSA :: u32
  RxFIFO0SA :: u32
  RxFIFO1SA :: u32
  RxBufferSA :: u32
  TxEventFIFOSA :: u32
  TxBufferSA :: u32
  TxFIFOQSA :: u32
  EndAddress :: u32

text \<open>The handle's settings beside the bit timing (\<open>FDCAN_Init\<close>, which the driver holds), the handle and the registers.\<close>

record Fdcan =
  FrameFormat :: u32
  AutoRetransmission :: bool
  TransmitPause :: bool
  ProtocolException :: bool
  DataPrescaler :: u32
  DataSyncJumpWidth :: u32
  DataTimeSeg1 :: u32
  DataTimeSeg2 :: u32
  StdFiltersNbr :: u32
  ExtFiltersNbr :: u32
  TxFifoQueueMode :: u32
  hal_State :: HAL_FDCAN_State
  ErrorCode :: u32
  LatestTxFifoQRequest :: u32
  msgRam :: FDCAN_MsgRamAddress
  message_RAM :: "u32 \<Rightarrow> u32"
  CCCR :: u32
  TEST :: u32
  PSR :: u32
  NBTP :: u32
  DBTP :: u32
  TXBC :: u32
  TXFQS :: u32
  RXF0S :: u32
  RXF1S :: u32
  ILS :: u32
  ILE :: u32
  IE :: u32
  TXBTIE :: u32
  TXBCIE :: u32

text \<open>
  \<open>poll\<close> is \<open>HAL_GetTick\<close>: the tick, and the state after the time that has passed.
\<close>

record 's FdcanCtrl =
  write_TXBAR :: "u32 \<Rightarrow> 's \<Rightarrow> 's"
  write_RXF0A :: "u32 \<Rightarrow> 's \<Rightarrow> 's"
  write_RXF1A :: "u32 \<Rightarrow> 's \<Rightarrow> 's"
  write_NDAT1 :: "u32 \<Rightarrow> 's \<Rightarrow> 's"
  write_NDAT2 :: "u32 \<Rightarrow> 's \<Rightarrow> 's"
  poll :: "'s \<Rightarrow> u32 \<times> 's"
  HAL_FDCAN_MspInit :: "'s \<Rightarrow> 's"

definition HAL_FDCAN_ERROR_NONE :: u32 where "HAL_FDCAN_ERROR_NONE = 0x00000000"
definition HAL_FDCAN_ERROR_TIMEOUT :: u32 where "HAL_FDCAN_ERROR_TIMEOUT = 0x00000001"
definition HAL_FDCAN_ERROR_NOT_INITIALIZED :: u32 where "HAL_FDCAN_ERROR_NOT_INITIALIZED = 0x00000002"
definition HAL_FDCAN_ERROR_NOT_READY :: u32 where "HAL_FDCAN_ERROR_NOT_READY = 0x00000004"
definition HAL_FDCAN_ERROR_NOT_STARTED :: u32 where "HAL_FDCAN_ERROR_NOT_STARTED = 0x00000008"
definition HAL_FDCAN_ERROR_PARAM :: u32 where "HAL_FDCAN_ERROR_PARAM = 0x00000020"
definition HAL_FDCAN_ERROR_FIFO_EMPTY :: u32 where "HAL_FDCAN_ERROR_FIFO_EMPTY = 0x00000100"
definition HAL_FDCAN_ERROR_FIFO_FULL :: u32 where "HAL_FDCAN_ERROR_FIFO_FULL = 0x00000200"

text \<open>A call that fails: the error code gets a bit.\<close>

definition hal_error :: "u32 \<Rightarrow> 'm Fdcan_scheme \<Rightarrow> 'm Fdcan_scheme" where
  "hal_error e s = s\<lparr>ErrorCode := ErrorCode s OR e\<rparr>"

definition set_bits :: "u32 \<Rightarrow> u32 \<Rightarrow> u32" where "set_bits b r = r OR b"
definition clear_bits :: "u32 \<Rightarrow> u32 \<Rightarrow> u32" where "clear_bits b r = r AND NOT b"
definition modify_reg :: "u32 \<Rightarrow> u32 \<Rightarrow> u32 \<Rightarrow> u32" where "modify_reg clear val r = (r AND NOT clear) OR val"

subsection \<open>The message RAM\<close>

definition DLCtoBytes :: "nat list" where
  "DLCtoBytes = [0, 1, 2, 3, 4, 5, 6, 7, 8, 12, 16, 20, 24, 32, 48, 64]"

text \<open>Byte \<open>i\<close> of the little endian words from an address, and the first \<open>n\<close> bytes.\<close>

definition ram_byte :: "(u32 \<Rightarrow> u32) \<Rightarrow> u32 \<Rightarrow> nat \<Rightarrow> u8" where
  "ram_byte m a i = ucast (drop_bit (8 * (i mod 4)) (m (a + 4 * of_nat (i div 4))))"

definition ram_bytes :: "(u32 \<Rightarrow> u32) \<Rightarrow> u32 \<Rightarrow> nat \<Rightarrow> u8 list" where
  "ram_bytes m a n = map (ram_byte m a) [0..<n]"

definition le_word :: "u8 \<Rightarrow> u8 \<Rightarrow> u8 \<Rightarrow> u8 \<Rightarrow> u32" where
  "le_word b0 b1 b2 b3 =
     (push_bit 24 (ucast b3) OR push_bit 16 (ucast b2) OR push_bit 8 (ucast b1) OR ucast b0)"

text \<open>The loop of \<open>FDCAN_CopyMessageToRAM\<close> that writes the payload, from byte \<open>i\<close> on.\<close>

function copy_payload :: "u8 list \<Rightarrow> nat \<Rightarrow> nat \<Rightarrow> u32 \<Rightarrow> (u32 \<Rightarrow> u32) \<Rightarrow> (u32 \<Rightarrow> u32)" where
  "copy_payload data n i a m =
     (if i < n then
        copy_payload data n (i + 4) (a + 4)
          (m(a := le_word (data ! i) (data ! (i + 1)) (data ! (i + 2)) (data ! (i + 3))))
      else m)"
  by pat_completeness auto

termination copy_payload
  by (relation "measure (\<lambda>(data, n, i, a, m). n - i)") auto

declare copy_payload.simps [simp del]

text \<open>The loop that clears the message RAM from an address to before another.\<close>

definition flush_RAM :: "u32 \<Rightarrow> u32 \<Rightarrow> (u32 \<Rightarrow> u32) \<Rightarrow> (u32 \<Rightarrow> u32)" where
  "flush_RAM a e m = fold (\<lambda>k m. m(a + 4 * of_nat k := 0)) [0..<(unat e - unat a + 3) div 4] m"

subsection \<open>Transmission\<close>

definition FDCAN_EXTENDED_ID :: u32 where "FDCAN_EXTENDED_ID = 0x40000000"

definition TxElementW1 :: "FDCAN_TxHeader \<Rightarrow> u32" where
  "TxElementW1 h =
     (if IdType h = FDCAN_STANDARD_ID then
        ErrorStateIndicator h OR FDCAN_STANDARD_ID OR TxFrameType h OR push_bit 18 (Identifier h)
      else ErrorStateIndicator h OR FDCAN_EXTENDED_ID OR TxFrameType h OR Identifier h)"

text \<open>Both words and the payload at an address; the two HALs differ in the data length code (\<open>dlc\<close> is its place in
  the second word, \<open>n\<close> the number of bytes).\<close>

definition write_element ::
  "FDCAN_TxHeader \<Rightarrow> u32 \<Rightarrow> nat \<Rightarrow> u8 list \<Rightarrow> u32 \<Rightarrow> (u32 \<Rightarrow> u32) \<Rightarrow> (u32 \<Rightarrow> u32)" where
  "write_element h dlc n data a m =
     (let w2 = push_bit 24 (MessageMarker h) OR TxEventFifoControl h OR FDFormat h OR BitRateSwitch h OR dlc
      in copy_payload data n 0 (a + 8) (m(a := TxElementW1 h, a + 4 := w2)))"

subsection \<open>Reception\<close>

record FDCAN_RxHeaderFull = FDCAN_RxHeader +
  rxIdType :: u32
  RxFrameType :: u32
  rxErrorStateIndicator :: u32
  RxTimestamp :: u32
  rxBitRateSwitch :: u32
  rxFDFormat :: u32
  rxFilterIndex :: u32
  IsFilterMatchingFrame :: u32

definition FDCAN_RX_FIFO0 :: u32 where "FDCAN_RX_FIFO0 = 0x40"
definition FDCAN_RX_FIFO1 :: u32 where "FDCAN_RX_FIFO1 = 0x41"
definition FDCAN_ELEMENT_MASK_STDID :: u32 where "FDCAN_ELEMENT_MASK_STDID = 0x1FFC0000"
definition FDCAN_ELEMENT_MASK_EXTID :: u32 where "FDCAN_ELEMENT_MASK_EXTID = 0x1FFFFFFF"
definition FDCAN_ELEMENT_MASK_RTR :: u32 where "FDCAN_ELEMENT_MASK_RTR = 0x20000000"
definition FDCAN_ELEMENT_MASK_XTD :: u32 where "FDCAN_ELEMENT_MASK_XTD = 0x40000000"
definition FDCAN_ELEMENT_MASK_ESI :: u32 where "FDCAN_ELEMENT_MASK_ESI = 0x80000000"
definition FDCAN_ELEMENT_MASK_TS :: u32 where "FDCAN_ELEMENT_MASK_TS = 0x0000FFFF"
definition FDCAN_ELEMENT_MASK_DLC :: u32 where "FDCAN_ELEMENT_MASK_DLC = 0x000F0000"
definition FDCAN_ELEMENT_MASK_BRS :: u32 where "FDCAN_ELEMENT_MASK_BRS = 0x00100000"
definition FDCAN_ELEMENT_MASK_FDF :: u32 where "FDCAN_ELEMENT_MASK_FDF = 0x00200000"
definition FDCAN_ELEMENT_MASK_FIDX :: u32 where "FDCAN_ELEMENT_MASK_FIDX = 0x7F000000"
definition FDCAN_ELEMENT_MASK_ANMF :: u32 where "FDCAN_ELEMENT_MASK_ANMF = 0x80000000"

text \<open>The header of the element at an address; the HALs differ in the form of the data length.\<close>

definition read_rx_header :: "(u32 \<Rightarrow> u32) \<Rightarrow> (u32 \<Rightarrow> u32) \<Rightarrow> u32 \<Rightarrow> FDCAN_RxHeaderFull" where
  "read_rx_header length_form m a =
     (let w1 = m a; w2 = m (a + 4);
          idType = w1 AND FDCAN_ELEMENT_MASK_XTD
      in \<lparr>rxIdentifier = (if idType = FDCAN_STANDARD_ID then drop_bit 18 (w1 AND FDCAN_ELEMENT_MASK_STDID)
                         else w1 AND FDCAN_ELEMENT_MASK_EXTID),
          rxDataLength = length_form (w2 AND FDCAN_ELEMENT_MASK_DLC),
          rxIdType = idType,
          RxFrameType = w1 AND FDCAN_ELEMENT_MASK_RTR,
          rxErrorStateIndicator = w1 AND FDCAN_ELEMENT_MASK_ESI,
          RxTimestamp = w2 AND FDCAN_ELEMENT_MASK_TS,
          rxBitRateSwitch = w2 AND FDCAN_ELEMENT_MASK_BRS,
          rxFDFormat = w2 AND FDCAN_ELEMENT_MASK_FDF,
          rxFilterIndex = drop_bit 24 (w2 AND FDCAN_ELEMENT_MASK_FIDX),
          IsFilterMatchingFrame = drop_bit 31 (w2 AND FDCAN_ELEMENT_MASK_ANMF)\<rparr>)"

subsection \<open>Start and the operating mode\<close>

definition FDCAN_TIMEOUT_VALUE :: u32 where "FDCAN_TIMEOUT_VALUE = 10"
definition FDCAN_CCCR_CCE :: u32 where "FDCAN_CCCR_CCE = 0x2"
definition FDCAN_CCCR_ASM :: u32 where "FDCAN_CCCR_ASM = 0x4"
definition FDCAN_CCCR_CSA :: u32 where "FDCAN_CCCR_CSA = 0x8"
definition FDCAN_CCCR_CSR :: u32 where "FDCAN_CCCR_CSR = 0x10"
definition FDCAN_CCCR_MON :: u32 where "FDCAN_CCCR_MON = 0x20"
definition FDCAN_CCCR_DAR :: u32 where "FDCAN_CCCR_DAR = 0x40"
definition FDCAN_CCCR_TEST :: u32 where "FDCAN_CCCR_TEST = 0x80"
definition FDCAN_CCCR_PXHD :: u32 where "FDCAN_CCCR_PXHD = 0x1000"
definition FDCAN_CCCR_TXP :: u32 where "FDCAN_CCCR_TXP = 0x4000"
definition FDCAN_FRAME_FD_BRS :: u32 where "FDCAN_FRAME_FD_BRS = 0x300"
definition FDCAN_TEST_LBCK :: u32 where "FDCAN_TEST_LBCK = 0x10"
definition FDCAN_MODE_RESTRICTED_OPERATION :: u32 where "FDCAN_MODE_RESTRICTED_OPERATION = 1"
definition FDCAN_MODE_BUS_MONITORING :: u32 where "FDCAN_MODE_BUS_MONITORING = 2"

text \<open>A loop that waits while a condition on CCCR holds, until the tick has passed the timeout: whether the condition
  has ended. \<open>None\<close>: the tick never gets there.\<close>

partial_function (option) wait_CCCR ::
  "'m Fdcan_scheme FdcanCtrl \<Rightarrow> (u32 \<Rightarrow> bool) \<Rightarrow> u32 \<Rightarrow> 'm Fdcan_scheme \<Rightarrow> (bool \<times> 'm Fdcan_scheme) option" where
  "wait_CCCR c busy tickstart s =
     (if busy (CCCR s) then
        (let (tick, s1) = poll c s
         in if tick - tickstart > FDCAN_TIMEOUT_VALUE then Some (False, s1)
            else wait_CCCR c busy tickstart s1)
      else Some (True, s))"

definition hal_timeout :: "'m Fdcan_scheme \<Rightarrow> 'm Fdcan_scheme" where
  "hal_timeout s = hal_error HAL_FDCAN_ERROR_TIMEOUT s\<lparr>hal_State := HAL_FDCAN_STATE_ERROR\<rparr>"

text \<open>\<open>HAL_FDCAN_Init\<close> up to the enabling of configuration changes: out of sleep, into the initialisation mode.\<close>

definition enter_configuration ::
  "'m Fdcan_scheme FdcanCtrl \<Rightarrow> 'm Fdcan_scheme \<Rightarrow> (HAL_Status \<times> 'm Fdcan_scheme) option" where
  "enter_configuration c s =
     (let s0 = (if hal_State s = HAL_FDCAN_STATE_RESET then HAL_FDCAN_MspInit c s else s);
          (t1, s1) = poll c (s0\<lparr>CCCR := clear_bits FDCAN_CCCR_CSR (CCCR s0)\<rparr>)
      in case wait_CCCR c (\<lambda>r. r AND FDCAN_CCCR_CSA = FDCAN_CCCR_CSA) t1 s1 of
           None \<Rightarrow> None
         | Some (False, s2) \<Rightarrow> Some (HAL_ERROR, hal_timeout s2)
         | Some (True, s2) \<Rightarrow>
             (let (t2, s3) = poll c (s2\<lparr>CCCR := set_bits FDCAN_CCCR_INIT (CCCR s2)\<rparr>)
              in case wait_CCCR c (\<lambda>r. r AND FDCAN_CCCR_INIT = 0) t2 s3 of
                   None \<Rightarrow> None
                 | Some (False, s4) \<Rightarrow> Some (HAL_ERROR, hal_timeout s4)
                 | Some (True, s4) \<Rightarrow> Some (HAL_OK, s4\<lparr>CCCR := set_bits FDCAN_CCCR_CCE (CCCR s4)\<rparr>)))"

text \<open>The bits of CCCR and TEST for the settings and the mode, in the order of the code.\<close>

definition configure_CCCR :: "FDCAN_Init \<Rightarrow> 'm Fdcan_scheme \<Rightarrow> 'm Fdcan_scheme" where
  "configure_CCCR i s =
     (let c1 = (if AutoRetransmission s then clear_bits FDCAN_CCCR_DAR (CCCR s) else set_bits FDCAN_CCCR_DAR (CCCR s));
          c2 = (if TransmitPause s then set_bits FDCAN_CCCR_TXP c1 else clear_bits FDCAN_CCCR_TXP c1);
          c3 = (if ProtocolException s then clear_bits FDCAN_CCCR_PXHD c2 else set_bits FDCAN_CCCR_PXHD c2);
          c4 = modify_reg FDCAN_FRAME_FD_BRS (FrameFormat s) c3;
          c5 = clear_bits (FDCAN_CCCR_TEST OR FDCAN_CCCR_MON OR FDCAN_CCCR_ASM) c4;
          t = clear_bits FDCAN_TEST_LBCK (TEST s)
      in if initMode i = FDCAN_MODE_RESTRICTED_OPERATION then s\<lparr>CCCR := set_bits FDCAN_CCCR_ASM c5, TEST := t\<rparr>
         else if initMode i \<noteq> FDCAN_MODE_NORMAL then
           (if initMode i \<noteq> FDCAN_MODE_BUS_MONITORING then
              (let c6 = set_bits FDCAN_CCCR_TEST c5
               in s\<lparr>CCCR := (if initMode i = FDCAN_MODE_INTERNAL_LOOPBACK then set_bits FDCAN_CCCR_MON c6 else c6),
                    TEST := set_bits FDCAN_TEST_LBCK t\<rparr>)
            else s\<lparr>CCCR := set_bits FDCAN_CCCR_MON c5, TEST := t\<rparr>)
         else s\<lparr>CCCR := c5, TEST := t\<rparr>)"

definition bit_timing_register :: "u32 \<Rightarrow> u32 \<Rightarrow> u32 \<Rightarrow> u32 \<Rightarrow> u32" where
  "bit_timing_register sjw tseg1 tseg2 prescaler =
     (push_bit 25 (sjw - 1) OR push_bit 8 (tseg1 - 1) OR push_bit 0 (tseg2 - 1) OR push_bit 16 (prescaler - 1))"

definition data_timing_register :: "u32 \<Rightarrow> u32 \<Rightarrow> u32 \<Rightarrow> u32 \<Rightarrow> u32" where
  "data_timing_register sjw tseg1 tseg2 prescaler =
     (push_bit 0 (sjw - 1) OR push_bit 8 (tseg1 - 1) OR push_bit 4 (tseg2 - 1) OR push_bit 16 (prescaler - 1))"

definition configure_timing :: "FDCAN_Init \<Rightarrow> 'm Fdcan_scheme \<Rightarrow> 'm Fdcan_scheme" where
  "configure_timing i s =
     (let s1 = s\<lparr>NBTP := bit_timing_register (NominalSyncJumpWidth i) (NominalTimeSeg1 i) (NominalTimeSeg2 i)
                          (NominalPrescaler i)\<rparr>
      in if FrameFormat s = FDCAN_FRAME_FD_BRS then
           s1\<lparr>DBTP := data_timing_register (DataSyncJumpWidth s) (DataTimeSeg1 s) (DataTimeSeg2 s) (DataPrescaler s)\<rparr>
         else s1)"

definition fdcan_Start :: "'m Fdcan_scheme \<Rightarrow> HAL_Status \<times> 'm Fdcan_scheme" where
  "fdcan_Start s =
     (if hal_State s = HAL_FDCAN_STATE_READY then
        (HAL_OK, s\<lparr>hal_State := HAL_FDCAN_STATE_BUSY, CCCR := clear_bits FDCAN_CCCR_INIT (CCCR s),
                  ErrorCode := HAL_FDCAN_ERROR_NONE\<rparr>)
      else (HAL_ERROR, hal_error HAL_FDCAN_ERROR_NOT_READY s))"

definition FDCAN_INTERRUPT_LINE0 :: u32 where "FDCAN_INTERRUPT_LINE0 = 1"
definition FDCAN_INTERRUPT_LINE1 :: u32 where "FDCAN_INTERRUPT_LINE1 = 2"

end
