(* ===== verification/SensorFdcan.thy ===== *)
theory SensorFdcan
  imports Fdcan
begin

section \<open>The FDCAN HAL of the STM32G4\<close>

text \<open>
  \<open>sensor_ecu/Drivers/STM32G4xx_HAL_Driver/Src/stm32g4xx_hal_fdcan.c\<close>. The layout of the message RAM is fixed: 28 standard
  and 8 extended filters, two receive FIFOs, an event FIFO and a transmit FIFO of three elements each. \<open>g4_hal\<close>
  is the HAL of the driver (\<open>FdcanHal\<close>) made of these functions.
\<close>

record G4Fdcan = Fdcan +
  ClockDivider :: u32
  RXGFC :: u32
  CKDIV :: u32

definition SRAMCAN_BASE :: u32 where "SRAMCAN_BASE = 0x4000A400"
definition SRAMCAN_FLS_NBR :: u32 where "SRAMCAN_FLS_NBR = 28"
definition SRAMCAN_FLE_NBR :: u32 where "SRAMCAN_FLE_NBR = 8"
definition SRAMCAN_RF0_NBR :: u32 where "SRAMCAN_RF0_NBR = 3"
definition SRAMCAN_RF1_NBR :: u32 where "SRAMCAN_RF1_NBR = 3"
definition SRAMCAN_TEF_NBR :: u32 where "SRAMCAN_TEF_NBR = 3"
definition SRAMCAN_TFQ_NBR :: u32 where "SRAMCAN_TFQ_NBR = 3"
definition SRAMCAN_FLS_SIZE :: u32 where "SRAMCAN_FLS_SIZE = 4"
definition SRAMCAN_FLE_SIZE :: u32 where "SRAMCAN_FLE_SIZE = 8"
definition SRAMCAN_RF0_SIZE :: u32 where "SRAMCAN_RF0_SIZE = 72"
definition SRAMCAN_RF1_SIZE :: u32 where "SRAMCAN_RF1_SIZE = 72"
definition SRAMCAN_TEF_SIZE :: u32 where "SRAMCAN_TEF_SIZE = 8"
definition SRAMCAN_TFQ_SIZE :: u32 where "SRAMCAN_TFQ_SIZE = 72"
definition SRAMCAN_FLSSA :: u32 where "SRAMCAN_FLSSA = 0"
definition SRAMCAN_FLESA :: u32 where "SRAMCAN_FLESA = SRAMCAN_FLSSA + SRAMCAN_FLS_NBR * SRAMCAN_FLS_SIZE"
definition SRAMCAN_RF0SA :: u32 where "SRAMCAN_RF0SA = SRAMCAN_FLESA + SRAMCAN_FLE_NBR * SRAMCAN_FLE_SIZE"
definition SRAMCAN_RF1SA :: u32 where "SRAMCAN_RF1SA = SRAMCAN_RF0SA + SRAMCAN_RF0_NBR * SRAMCAN_RF0_SIZE"
definition SRAMCAN_TEFSA :: u32 where "SRAMCAN_TEFSA = SRAMCAN_RF1SA + SRAMCAN_RF1_NBR * SRAMCAN_RF1_SIZE"
definition SRAMCAN_TFQSA :: u32 where "SRAMCAN_TFQSA = SRAMCAN_TEFSA + SRAMCAN_TEF_NBR * SRAMCAN_TEF_SIZE"
definition SRAMCAN_SIZE :: u32 where "SRAMCAN_SIZE = SRAMCAN_TFQSA + SRAMCAN_TFQ_NBR * SRAMCAN_TFQ_SIZE"

definition RXGFC_LSS :: u32 where "RXGFC_LSS = 0x001F0000"
definition RXGFC_LSE :: u32 where "RXGFC_LSE = 0x0F000000"
definition RXGFC_ANFS :: u32 where "RXGFC_ANFS = 0x30"
definition RXGFC_ANFE :: u32 where "RXGFC_ANFE = 0x0C"
definition RXGFC_RRFS :: u32 where "RXGFC_RRFS = 0x2"
definition RXGFC_RRFE :: u32 where "RXGFC_RRFE = 0x1"
definition RXGFC_F0OM :: u32 where "RXGFC_F0OM = 0x200"
definition RXGFC_F1OM :: u32 where "RXGFC_F1OM = 0x100"

definition g4_CalcultateRamBlockAddresses :: "'m G4Fdcan_scheme \<Rightarrow> 'm G4Fdcan_scheme" where
  "g4_CalcultateRamBlockAddresses s =
     s\<lparr>msgRam := (msgRam s)
         \<lparr>StandardFilterSA := SRAMCAN_BASE + SRAMCAN_FLSSA, ExtendedFilterSA := SRAMCAN_BASE + SRAMCAN_FLESA,
          RxFIFO0SA := SRAMCAN_BASE + SRAMCAN_RF0SA, RxFIFO1SA := SRAMCAN_BASE + SRAMCAN_RF1SA,
          TxEventFIFOSA := SRAMCAN_BASE + SRAMCAN_TEFSA, TxFIFOQSA := SRAMCAN_BASE + SRAMCAN_TFQSA\<rparr>,
       RXGFC := modify_reg RXGFC_LSE (push_bit 24 (ExtFiltersNbr s))
                 (modify_reg RXGFC_LSS (push_bit 16 (StdFiltersNbr s)) (RXGFC s)),
       message_RAM := flush_RAM SRAMCAN_BASE (SRAMCAN_BASE + SRAMCAN_SIZE) (message_RAM s)\<rparr>"

definition g4_Init ::
  "'m G4Fdcan_scheme FdcanCtrl \<Rightarrow> FDCAN_Init \<Rightarrow> 'm G4Fdcan_scheme \<Rightarrow> (HAL_Status \<times> 'm G4Fdcan_scheme) option" where
  "g4_Init c i s =
     (case enter_configuration c s of
        None \<Rightarrow> None
      | Some (st, s1) \<Rightarrow>
          if st \<noteq> HAL_OK then Some (st, s1)
          else
            (let s2 = configure_timing i (configure_CCCR i (s1\<lparr>CKDIV := ClockDivider s1\<rparr>));
                 s3 = g4_CalcultateRamBlockAddresses (s2\<lparr>TXBC := set_bits (TxFifoQueueMode s2) (TXBC s2)\<rparr>)
             in Some (HAL_OK, s3\<lparr>LatestTxFifoQRequest := 0, ErrorCode := HAL_FDCAN_ERROR_NONE,
                                 hal_State := HAL_FDCAN_STATE_READY\<rparr>)))"

definition g4_ConfigFilter :: "FDCAN_Filter \<Rightarrow> 'm G4Fdcan_scheme \<Rightarrow> HAL_Status \<times> 'm G4Fdcan_scheme" where
  "g4_ConfigFilter f s =
     (if hal_State s = HAL_FDCAN_STATE_READY \<or> hal_State s = HAL_FDCAN_STATE_BUSY then
        (if filterIdType f = FDCAN_STANDARD_ID then
           (let w1 = push_bit 30 (FilterType f) OR push_bit 27 (FilterConfig f) OR push_bit 16 (FilterID1 f) OR FilterID2 f;
                a = StandardFilterSA (msgRam s) + FilterIndex f * SRAMCAN_FLS_SIZE
            in (HAL_OK, s\<lparr>message_RAM := (message_RAM s)(a := w1)\<rparr>))
         else
           (let w1 = push_bit 29 (FilterConfig f) OR FilterID1 f;
                w2 = push_bit 30 (FilterType f) OR FilterID2 f;
                a = ExtendedFilterSA (msgRam s) + FilterIndex f * SRAMCAN_FLE_SIZE
            in (HAL_OK, s\<lparr>message_RAM := (message_RAM s)(a := w1, a + 4 := w2)\<rparr>)))
      else (HAL_ERROR, hal_error HAL_FDCAN_ERROR_NOT_INITIALIZED s))"

definition g4_ConfigGlobalFilter ::
  "u32 \<Rightarrow> u32 \<Rightarrow> u32 \<Rightarrow> u32 \<Rightarrow> 'm G4Fdcan_scheme \<Rightarrow> HAL_Status \<times> 'm G4Fdcan_scheme" where
  "g4_ConfigGlobalFilter nonMatchingStd nonMatchingExt rejectRemoteStd rejectRemoteExt s =
     (if hal_State s = HAL_FDCAN_STATE_READY then
        (HAL_OK, s\<lparr>RXGFC := modify_reg (RXGFC_ANFS OR RXGFC_ANFE OR RXGFC_RRFS OR RXGFC_RRFE)
           (push_bit 4 nonMatchingStd OR push_bit 2 nonMatchingExt OR push_bit 1 rejectRemoteStd
              OR push_bit 0 rejectRemoteExt) (RXGFC s)\<rparr>)
      else (HAL_ERROR, hal_error HAL_FDCAN_ERROR_NOT_READY s))"

text \<open>The interrupts of each group and the bit of ILS that selects the line of the group.\<close>

definition g4_it_groups :: "(u32 \<times> u32) list" where
  "g4_it_groups =
     [(0x000007, 0x01), (0x000038, 0x02), (0x0001C0, 0x04), (0x001E00, 0x08), (0x00E000, 0x10), (0x030000, 0x20),
      (0xFC0000, 0x40)]"

definition FDCAN_IT_TX_COMPLETE :: u32 where "FDCAN_IT_TX_COMPLETE = 0x80"
definition FDCAN_IT_TX_ABORT_COMPLETE :: u32 where "FDCAN_IT_TX_ABORT_COMPLETE = 0x100"

definition g4_ActivateNotification ::
  "u32 \<Rightarrow> u32 \<Rightarrow> 'm G4Fdcan_scheme \<Rightarrow> HAL_Status \<times> 'm G4Fdcan_scheme" where
  "g4_ActivateNotification its buffers s =
     (if hal_State s = HAL_FDCAN_STATE_READY \<or> hal_State s = HAL_FDCAN_STATE_BUSY then
        (let sel = ILS s;
             e0 = (if \<exists>(l, g)\<in>set g4_it_groups. its AND l \<noteq> 0 \<and> sel AND g = 0
                   then set_bits FDCAN_INTERRUPT_LINE0 (ILE s) else ILE s);
             e1 = (if \<exists>(l, g)\<in>set g4_it_groups. its AND l \<noteq> 0 \<and> sel AND g \<noteq> 0
                   then set_bits FDCAN_INTERRUPT_LINE1 e0 else e0)
         in (HAL_OK,
             s\<lparr>ILE := e1,
               TXBTIE := (if its AND FDCAN_IT_TX_COMPLETE \<noteq> 0 then set_bits buffers (TXBTIE s) else TXBTIE s),
               TXBCIE := (if its AND FDCAN_IT_TX_ABORT_COMPLETE \<noteq> 0 then set_bits buffers (TXBCIE s) else TXBCIE s),
               IE := set_bits its (IE s)\<rparr>))
      else (HAL_ERROR, hal_error HAL_FDCAN_ERROR_NOT_INITIALIZED s))"

subsection \<open>Transmission\<close>

definition g4_TXFQS_TFFL :: u32 where "g4_TXFQS_TFFL = 0x7"
definition g4_TXFQS_TFQPI :: u32 where "g4_TXFQS_TFQPI = 0x30000"
definition TXFQS_TFQF :: u32 where "TXFQS_TFQF = 0x200000"

definition g4_GetTxFifoFreeLevel :: "'m G4Fdcan_scheme \<Rightarrow> u32" where
  "g4_GetTxFifoFreeLevel s = TXFQS s AND g4_TXFQS_TFFL"

definition g4_CopyMessageToRAM ::
  "FDCAN_TxHeader \<Rightarrow> u8 list \<Rightarrow> u32 \<Rightarrow> 'm G4Fdcan_scheme \<Rightarrow> 'm G4Fdcan_scheme" where
  "g4_CopyMessageToRAM header data index s =
     s\<lparr>message_RAM := write_element header (push_bit 16 (DataLength header)) (DLCtoBytes ! unat (DataLength header)) data
         (TxFIFOQSA (msgRam s) + index * SRAMCAN_TFQ_SIZE) (message_RAM s)\<rparr>"

definition g4_AddMessageToTxFifoQ ::
  "'m G4Fdcan_scheme FdcanCtrl \<Rightarrow> FDCAN_TxHeader \<Rightarrow> u8 list \<Rightarrow> 'm G4Fdcan_scheme \<Rightarrow>
   HAL_Status \<times> 'm G4Fdcan_scheme" where
  "g4_AddMessageToTxFifoQ c header data s =
     (if hal_State s = HAL_FDCAN_STATE_BUSY then
        (if TXFQS s AND TXFQS_TFQF \<noteq> 0 then (HAL_ERROR, hal_error HAL_FDCAN_ERROR_FIFO_FULL s)
         else
           (let put = drop_bit 16 (TXFQS s AND g4_TXFQS_TFQPI);
                s1 = write_TXBAR c (push_bit (unat put) 1) (g4_CopyMessageToRAM header data put s)
            in (HAL_OK, s1\<lparr>LatestTxFifoQRequest := push_bit (unat put) 1\<rparr>)))
      else (HAL_ERROR, hal_error HAL_FDCAN_ERROR_NOT_STARTED s))"

subsection \<open>Reception\<close>

definition g4_RXFS_FL :: u32 where "g4_RXFS_FL = 0xF"
definition g4_RXFS_GI :: u32 where "g4_RXFS_GI = 0x300"
definition RXFS_F :: u32 where "RXFS_F = 0x01000000"
definition FDCAN_RX_FIFO_OVERWRITE :: u32 where "FDCAN_RX_FIFO_OVERWRITE = 1"

definition g4_GetRxFifoFillLevel :: "u32 \<Rightarrow> 'm G4Fdcan_scheme \<Rightarrow> u32" where
  "g4_GetRxFifoFillLevel fifo s = (if fifo = FDCAN_RX_FIFO0 then RXF0S s else RXF1S s) AND g4_RXFS_FL"

text \<open>The element a FIFO hands out: with a full FIFO in overwrite mode the one after the oldest.\<close>

definition g4_GetIndex :: "u32 \<Rightarrow> bool \<Rightarrow> u32 \<Rightarrow> u32" where
  "g4_GetIndex rxs overwrite n =
     (let i = drop_bit 8 (rxs AND g4_RXFS_GI)
      in if drop_bit 24 (rxs AND RXFS_F) = 1 \<and> overwrite then (i + 1) AND n else i)"

text \<open>\<open>None\<close>: the header and the data of the caller are not written.\<close>

definition g4_GetRxMessage ::
  "'m G4Fdcan_scheme FdcanCtrl \<Rightarrow> u32 \<Rightarrow> 'm G4Fdcan_scheme \<Rightarrow>
   HAL_Status \<times> (FDCAN_RxHeaderFull \<times> u8 list) option \<times> 'm G4Fdcan_scheme" where
  "g4_GetRxMessage c location s =
     (if hal_State s = HAL_FDCAN_STATE_BUSY then
        (if g4_GetRxFifoFillLevel location s = 0 then (HAL_ERROR, None, hal_error HAL_FDCAN_ERROR_FIFO_EMPTY s)
         else
           (let get = (if location = FDCAN_RX_FIFO0
                  then g4_GetIndex (RXF0S s) (drop_bit 9 (RXGFC s AND RXGFC_F0OM) = FDCAN_RX_FIFO_OVERWRITE) SRAMCAN_RF0_NBR
                  else g4_GetIndex (RXF1S s) (drop_bit 8 (RXGFC s AND RXGFC_F1OM) = FDCAN_RX_FIFO_OVERWRITE) SRAMCAN_RF1_NBR);
                a = (if location = FDCAN_RX_FIFO0 then RxFIFO0SA (msgRam s) + get * SRAMCAN_RF0_SIZE
                     else RxFIFO1SA (msgRam s) + get * SRAMCAN_RF1_SIZE);
                header = read_rx_header (drop_bit 16) (message_RAM s) a;
                bytes = ram_bytes (message_RAM s) (a + 8) (DLCtoBytes ! unat (rxDataLength header))
            in (HAL_OK, Some (header, bytes),
                if location = FDCAN_RX_FIFO0 then write_RXF0A c get s else write_RXF1A c get s)))
      else (HAL_ERROR, None, hal_error HAL_FDCAN_ERROR_NOT_STARTED s))"

subsection \<open>The HAL as the driver uses it\<close>

definition no_header :: FDCAN_RxHeader where "no_header = \<lparr>rxIdentifier = 0, rxDataLength = 0\<rparr>"

text \<open>
  The driver reads the header and the data only after \<open>HAL_OK\<close>. A call of \<open>HAL_FDCAN_Init\<close> that never returns has the
  status \<open>HAL_TIMEOUT\<close>, which the function itself does not use; \<open>HAL_Init_returns\<close> (FdcanSetup) excludes it.
\<close>

definition g4_hal :: "'m G4Fdcan_scheme FdcanCtrl \<Rightarrow> 'm G4Fdcan_scheme FdcanHal" where
  "g4_hal c =
     \<lparr>HAL_FDCAN_Init = \<lambda>i s. (case g4_Init c i s of None \<Rightarrow> (HAL_TIMEOUT, s) | Some r \<Rightarrow> r),
      HAL_FDCAN_ConfigFilter = g4_ConfigFilter,
      HAL_FDCAN_ConfigGlobalFilter = g4_ConfigGlobalFilter,
      HAL_FDCAN_ActivateNotification = g4_ActivateNotification,
      HAL_FDCAN_Start = fdcan_Start,
      HAL_FDCAN_GetTxFifoFreeLevel = g4_GetTxFifoFreeLevel,
      HAL_FDCAN_AddMessageToTxFifoQ = g4_AddMessageToTxFifoQ c,
      HAL_FDCAN_GetRxFifoFillLevel = g4_GetRxFifoFillLevel FDCAN_RX_FIFO0,
      HAL_FDCAN_GetRxMessage = \<lambda>s. (case g4_GetRxMessage c FDCAN_RX_FIFO0 s of
          (st, None, s1) \<Rightarrow> (st, no_header, [], s1)
        | (st, Some (header, bytes), s1) \<Rightarrow> (st, FDCAN_RxHeader.truncate header, bytes, s1)),
      read_CCCR = CCCR, write_CCCR = \<lambda>v s. s\<lparr>CCCR := v\<rparr>, read_PSR = PSR\<rparr>"

end
