(* ===== verification/ControlFdcan.thy ===== *)
theory ControlFdcan
  imports SensorFdcan
begin

section \<open>The FDCAN HAL of the STM32MP1\<close>

text \<open>
  \<open>control_ecu/Drivers/STM32MP1xx_HAL_Driver/Src/stm32mp1xx_hal_fdcan.c\<close>. The layout of the message RAM is computed from the
  settings of \<open>main.c\<close>. \<open>mp1_hal\<close> is the HAL of the driver made of these functions.
\<close>

record MP1Fdcan = Fdcan +
  MessageRAMOffset :: u32
  RxFifo0ElmtsNbr :: u32
  RxFifo0ElmtSize :: u32
  RxFifo1ElmtsNbr :: u32
  RxFifo1ElmtSize :: u32
  RxBuffersNbr :: u32
  RxBufferSize :: u32
  TxEventsNbr :: u32
  TxBuffersNbr :: u32
  TxFifoQueueElmtsNbr :: u32
  TxElmtSize :: u32
  GFC :: u32
  SIDFC :: u32
  XIDFC :: u32
  RXF0C :: u32
  RXF1C :: u32
  RXBC :: u32
  TXEFC :: u32
  RXESC :: u32
  TXESC :: u32
  TTOCF :: u32
  CCU_IE :: u32

definition mp1_SRAMCAN_BASE :: u32 where "mp1_SRAMCAN_BASE = 0x44011000"
definition FDCAN_MESSAGE_RAM_SIZE :: u32 where "FDCAN_MESSAGE_RAM_SIZE = 0x2800"
definition FDCAN_MESSAGE_RAM_END_ADDRESS :: u32 where
  "FDCAN_MESSAGE_RAM_END_ADDRESS = mp1_SRAMCAN_BASE + FDCAN_MESSAGE_RAM_SIZE - 0x4"

text \<open>The fields start address (bits 15..2) and number of elements of a configuration register.\<close>

definition set_area :: "u32 \<Rightarrow> u32 \<Rightarrow> nat \<Rightarrow> u32 \<Rightarrow> u32 \<Rightarrow> u32" where
  "set_area start nmask npos n r =
     modify_reg nmask (push_bit npos n) (modify_reg 0xFFFC (push_bit 2 start) r)"

definition mp1_configure_areas :: "'m MP1Fdcan_scheme \<Rightarrow> 'm MP1Fdcan_scheme" where
  "mp1_configure_areas s =
     (let a0 = MessageRAMOffset s;
          a1 = a0 + StdFiltersNbr s;
          a2 = a1 + ExtFiltersNbr s * 2;
          a3 = a2 + RxFifo0ElmtsNbr s * RxFifo0ElmtSize s;
          a4 = a3 + RxFifo1ElmtsNbr s * RxFifo1ElmtSize s;
          a5 = a4 + RxBuffersNbr s * RxBufferSize s;
          a6 = a5 + TxEventsNbr s * 2
      in s\<lparr>SIDFC := set_area a0 0x00FF0000 16 (StdFiltersNbr s) (SIDFC s),
           XIDFC := set_area a1 0x00FF0000 16 (ExtFiltersNbr s) (XIDFC s),
           RXF0C := set_area a2 0x007F0000 16 (RxFifo0ElmtsNbr s) (RXF0C s),
           RXF1C := set_area a3 0x007F0000 16 (RxFifo1ElmtsNbr s) (RXF1C s),
           RXBC := modify_reg 0xFFFC (push_bit 2 a4) (RXBC s),
           TXEFC := set_area a5 0x003F0000 16 (TxEventsNbr s) (TXEFC s),
           TXBC := modify_reg 0x3F000000 (push_bit 24 (TxFifoQueueElmtsNbr s))
                     (set_area a6 0x003F0000 16 (TxBuffersNbr s) (TXBC s))\<rparr>)"

definition mp1_ram_addresses :: "'m MP1Fdcan_scheme \<Rightarrow> FDCAN_MsgRamAddress" where
  "mp1_ram_addresses s =
     (let std = mp1_SRAMCAN_BASE + MessageRAMOffset s * 4;
          ext = std + StdFiltersNbr s * 4;
          rx0 = ext + ExtFiltersNbr s * 2 * 4;
          rx1 = rx0 + RxFifo0ElmtsNbr s * RxFifo0ElmtSize s * 4;
          rxb = rx1 + RxFifo1ElmtsNbr s * RxFifo1ElmtSize s * 4;
          txe = rxb + RxBuffersNbr s * RxBufferSize s * 4;
          txb = txe + TxEventsNbr s * 2 * 4;
          txq = txb + TxBuffersNbr s * TxElmtSize s * 4
      in \<lparr>StandardFilterSA = std, ExtendedFilterSA = ext, RxFIFO0SA = rx0, RxFIFO1SA = rx1, RxBufferSA = rxb,
          TxEventFIFOSA = txe, TxBufferSA = txb, TxFIFOQSA = txq,
          EndAddress = txq + TxFifoQueueElmtsNbr s * TxElmtSize s * 4\<rparr>)"

definition mp1_CalcultateRamBlockAddresses :: "'m MP1Fdcan_scheme \<Rightarrow> HAL_Status \<times> 'm MP1Fdcan_scheme" where
  "mp1_CalcultateRamBlockAddresses s =
     (let s1 = (mp1_configure_areas s)\<lparr>msgRam := mp1_ram_addresses s\<rparr>
      in if EndAddress (msgRam s1) > FDCAN_MESSAGE_RAM_END_ADDRESS then
           (HAL_ERROR, hal_error HAL_FDCAN_ERROR_PARAM s1\<lparr>hal_State := HAL_FDCAN_STATE_ERROR\<rparr>)
         else
           (HAL_OK, s1\<lparr>message_RAM := flush_RAM (StandardFilterSA (msgRam s1)) (EndAddress (msgRam s1)) (message_RAM s1)\<rparr>))"

definition CvtEltSize :: "u32 list" where
  "CvtEltSize = [0, 0, 0, 0, 0, 1, 2, 3, 4, 0, 5, 0, 0, 0, 6, 0, 0, 0, 7]"

definition mp1_element_sizes :: "'m MP1Fdcan_scheme \<Rightarrow> 'm MP1Fdcan_scheme" where
  "mp1_element_sizes s =
     (let s1 = (if TxFifoQueueElmtsNbr s > 0 then s\<lparr>TXBC := set_bits (TxFifoQueueMode s) (TXBC s)\<rparr> else s);
          s2 = (if TxBuffersNbr s + TxFifoQueueElmtsNbr s > 0
                then s1\<lparr>TXESC := modify_reg 0x7 (CvtEltSize ! unat (TxElmtSize s)) (TXESC s1)\<rparr> else s1);
          s3 = (if RxFifo0ElmtsNbr s > 0
                then s2\<lparr>RXESC := modify_reg 0x7 (push_bit 0 (CvtEltSize ! unat (RxFifo0ElmtSize s))) (RXESC s2)\<rparr> else s2);
          s4 = (if RxFifo1ElmtsNbr s > 0
                then s3\<lparr>RXESC := modify_reg 0x70 (push_bit 4 (CvtEltSize ! unat (RxFifo1ElmtSize s))) (RXESC s3)\<rparr> else s3)
      in if RxBuffersNbr s > 0
         then s4\<lparr>RXESC := modify_reg 0x700 (push_bit 8 (CvtEltSize ! unat (RxBufferSize s))) (RXESC s4)\<rparr> else s4)"

definition mp1_Init ::
  "'m MP1Fdcan_scheme FdcanCtrl \<Rightarrow> FDCAN_Init \<Rightarrow> 'm MP1Fdcan_scheme \<Rightarrow> (HAL_Status \<times> 'm MP1Fdcan_scheme) option" where
  "mp1_Init c i s =
     (case enter_configuration c s of
        None \<Rightarrow> None
      | Some (st, s1) \<Rightarrow>
          if st \<noteq> HAL_OK then Some (st, s1)
          else
            (let s2 = mp1_element_sizes (configure_timing i (configure_CCCR i s1))
             in Some (mp1_CalcultateRamBlockAddresses
                  (s2\<lparr>TTOCF := clear_bits 0x3 (TTOCF s2), LatestTxFifoQRequest := 0,
                      ErrorCode := HAL_FDCAN_ERROR_NONE, hal_State := HAL_FDCAN_STATE_READY\<rparr>))))"

definition FDCAN_FILTER_TO_RXBUFFER :: u32 where "FDCAN_FILTER_TO_RXBUFFER = 7"

text \<open>\<open>RxBufferIndex\<close> and \<open>IsCalibrationMsg\<close> of the filter are parameters; the driver leaves them 0.\<close>

definition mp1_ConfigFilter ::
  "u32 \<Rightarrow> u32 \<Rightarrow> FDCAN_Filter \<Rightarrow> 'm MP1Fdcan_scheme \<Rightarrow> HAL_Status \<times> 'm MP1Fdcan_scheme" where
  "mp1_ConfigFilter rxBufferIndex isCalibrationMsg f s =
     (if hal_State s = HAL_FDCAN_STATE_READY \<or> hal_State s = HAL_FDCAN_STATE_BUSY then
        (if filterIdType f = FDCAN_STANDARD_ID then
           (let w1 = (if FilterConfig f = FDCAN_FILTER_TO_RXBUFFER
                 then push_bit 27 FDCAN_FILTER_TO_RXBUFFER OR push_bit 16 (FilterID1 f) OR push_bit 8 isCalibrationMsg
                        OR rxBufferIndex
                 else push_bit 30 (FilterType f) OR push_bit 27 (FilterConfig f) OR push_bit 16 (FilterID1 f) OR FilterID2 f);
                a = StandardFilterSA (msgRam s) + FilterIndex f * 4
            in (HAL_OK, s\<lparr>message_RAM := (message_RAM s)(a := w1)\<rparr>))
         else
           (let w1 = push_bit 29 (FilterConfig f) OR FilterID1 f;
                w2 = (if FilterConfig f = FDCAN_FILTER_TO_RXBUFFER then rxBufferIndex
                      else push_bit 30 (FilterType f) OR FilterID2 f);
                a = ExtendedFilterSA (msgRam s) + FilterIndex f * 4 * 2
            in (HAL_OK, s\<lparr>message_RAM := (message_RAM s)(a := w1, a + 4 := w2)\<rparr>)))
      else (HAL_ERROR, hal_error HAL_FDCAN_ERROR_NOT_INITIALIZED s))"

definition mp1_ConfigGlobalFilter ::
  "u32 \<Rightarrow> u32 \<Rightarrow> u32 \<Rightarrow> u32 \<Rightarrow> 'm MP1Fdcan_scheme \<Rightarrow> HAL_Status \<times> 'm MP1Fdcan_scheme" where
  "mp1_ConfigGlobalFilter nonMatchingStd nonMatchingExt rejectRemoteStd rejectRemoteExt s =
     (if hal_State s = HAL_FDCAN_STATE_READY then
        (HAL_OK, s\<lparr>GFC := push_bit 4 nonMatchingStd OR push_bit 2 nonMatchingExt OR push_bit 1 rejectRemoteStd
              OR push_bit 0 rejectRemoteExt\<rparr>)
      else (HAL_ERROR, hal_error HAL_FDCAN_ERROR_NOT_READY s))"

definition mp1_IT_TX_COMPLETE :: u32 where "mp1_IT_TX_COMPLETE = 0x200"
definition mp1_IT_TX_ABORT_COMPLETE :: u32 where "mp1_IT_TX_ABORT_COMPLETE = 0x400"
definition FDCAN_IR_MASK :: u32 where "FDCAN_IR_MASK = 0x3FCFFFFF"
definition CCU_IR_MASK :: u32 where "CCU_IR_MASK = 0xC0000000"

definition mp1_ActivateNotification ::
  "u32 \<Rightarrow> u32 \<Rightarrow> 'm MP1Fdcan_scheme \<Rightarrow> HAL_Status \<times> 'm MP1Fdcan_scheme" where
  "mp1_ActivateNotification its buffers s =
     (if hal_State s = HAL_FDCAN_STATE_READY \<or> hal_State s = HAL_FDCAN_STATE_BUSY then
        (HAL_OK,
         s\<lparr>ILE := (if its AND ILS s = 0 then set_bits FDCAN_INTERRUPT_LINE0 (ILE s)
                   else if its AND ILS s = its then set_bits FDCAN_INTERRUPT_LINE1 (ILE s)
                   else FDCAN_INTERRUPT_LINE0 OR FDCAN_INTERRUPT_LINE1),
           TXBTIE := (if its AND mp1_IT_TX_COMPLETE \<noteq> 0 then set_bits buffers (TXBTIE s) else TXBTIE s),
           TXBCIE := (if its AND mp1_IT_TX_ABORT_COMPLETE \<noteq> 0 then set_bits buffers (TXBCIE s) else TXBCIE s),
           IE := set_bits (its AND FDCAN_IR_MASK) (IE s),
           CCU_IE := set_bits (drop_bit 30 (its AND CCU_IR_MASK)) (CCU_IE s)\<rparr>)
      else (HAL_ERROR, hal_error HAL_FDCAN_ERROR_NOT_INITIALIZED s))"

subsection \<open>Transmission\<close>

definition mp1_TXFQS_TFFL :: u32 where "mp1_TXFQS_TFFL = 0x3F"
definition mp1_TXFQS_TFQPI :: u32 where "mp1_TXFQS_TFQPI = 0x1F0000"
definition mp1_TXBC_TFQS :: u32 where "mp1_TXBC_TFQS = 0x3F000000"

definition mp1_GetTxFifoFreeLevel :: "'m MP1Fdcan_scheme \<Rightarrow> u32" where
  "mp1_GetTxFifoFreeLevel s = TXFQS s AND mp1_TXFQS_TFFL"

definition mp1_CopyMessageToRAM ::
  "FDCAN_TxHeader \<Rightarrow> u8 list \<Rightarrow> u32 \<Rightarrow> 'm MP1Fdcan_scheme \<Rightarrow> 'm MP1Fdcan_scheme" where
  "mp1_CopyMessageToRAM header data index s =
     s\<lparr>message_RAM := write_element header (DataLength header) (DLCtoBytes ! unat (drop_bit 16 (DataLength header))) data
         (TxBufferSA (msgRam s) + index * TxElmtSize s * 4) (message_RAM s)\<rparr>"

definition mp1_AddMessageToTxFifoQ ::
  "'m MP1Fdcan_scheme FdcanCtrl \<Rightarrow> FDCAN_TxHeader \<Rightarrow> u8 list \<Rightarrow> 'm MP1Fdcan_scheme \<Rightarrow>
   HAL_Status \<times> 'm MP1Fdcan_scheme" where
  "mp1_AddMessageToTxFifoQ c header data s =
     (if hal_State s = HAL_FDCAN_STATE_BUSY then
        (if TXBC s AND mp1_TXBC_TFQS = 0 then (HAL_ERROR, hal_error HAL_FDCAN_ERROR_PARAM s)
         else if TXFQS s AND TXFQS_TFQF \<noteq> 0 then (HAL_ERROR, hal_error HAL_FDCAN_ERROR_FIFO_FULL s)
         else
           (let put = drop_bit 16 (TXFQS s AND mp1_TXFQS_TFQPI);
                s1 = write_TXBAR c (push_bit (unat put) 1) (mp1_CopyMessageToRAM header data put s)
            in (HAL_OK, s1\<lparr>LatestTxFifoQRequest := push_bit (unat put) 1\<rparr>)))
      else (HAL_ERROR, hal_error HAL_FDCAN_ERROR_NOT_STARTED s))"

subsection \<open>Reception\<close>

definition mp1_RXFS_FL :: u32 where "mp1_RXFS_FL = 0x7F"
definition mp1_RXFS_GI :: u32 where "mp1_RXFS_GI = 0x3F00"
definition mp1_RXFC_FS :: u32 where "mp1_RXFC_FS = 0x7F0000"
definition FDCAN_RX_BUFFER32 :: u32 where "FDCAN_RX_BUFFER32 = 32"

definition mp1_GetRxFifoFillLevel :: "u32 \<Rightarrow> 'm MP1Fdcan_scheme \<Rightarrow> u32" where
  "mp1_GetRxFifoFillLevel fifo s = (if fifo = FDCAN_RX_FIFO0 then RXF0S s else RXF1S s) AND mp1_RXFS_FL"

text \<open>Where the element of a location is, with its index, or the error.\<close>

definition mp1_rx_element :: "u32 \<Rightarrow> 'm MP1Fdcan_scheme \<Rightarrow> u32 + u32 \<times> u32" where
  "mp1_rx_element location s =
     (if location = FDCAN_RX_FIFO0 then
        (if RXF0C s AND mp1_RXFC_FS = 0 then Inl HAL_FDCAN_ERROR_PARAM
         else if RXF0S s AND mp1_RXFS_FL = 0 then Inl HAL_FDCAN_ERROR_FIFO_EMPTY
         else (let get = drop_bit 8 (RXF0S s AND mp1_RXFS_GI)
               in Inr (get, RxFIFO0SA (msgRam s) + get * RxFifo0ElmtSize s * 4)))
      else if location = FDCAN_RX_FIFO1 then
        (if RXF1C s AND mp1_RXFC_FS = 0 then Inl HAL_FDCAN_ERROR_PARAM
         else if RXF1S s AND mp1_RXFS_FL = 0 then Inl HAL_FDCAN_ERROR_FIFO_EMPTY
         else (let get = drop_bit 8 (RXF1S s AND mp1_RXFS_GI)
               in Inr (get, RxFIFO1SA (msgRam s) + get * RxFifo1ElmtSize s * 4)))
      else if location \<ge> RxBuffersNbr s then Inl HAL_FDCAN_ERROR_PARAM
      else Inr (0, RxBufferSA (msgRam s) + location * RxBufferSize s * 4))"

definition mp1_GetRxMessage ::
  "'m MP1Fdcan_scheme FdcanCtrl \<Rightarrow> u32 \<Rightarrow> 'm MP1Fdcan_scheme \<Rightarrow>
   HAL_Status \<times> (FDCAN_RxHeaderFull \<times> u8 list) option \<times> 'm MP1Fdcan_scheme" where
  "mp1_GetRxMessage c location s =
     (if hal_State s = HAL_FDCAN_STATE_BUSY then
        (case mp1_rx_element location s of
           Inl e \<Rightarrow> (HAL_ERROR, None, hal_error e s)
         | Inr (get, a) \<Rightarrow>
             (let header = read_rx_header (\<lambda>d. d) (message_RAM s) a;
                  bytes = ram_bytes (message_RAM s) (a + 8) (DLCtoBytes ! unat (drop_bit 16 (rxDataLength header)))
              in (HAL_OK, Some (header, bytes),
                  if location = FDCAN_RX_FIFO0 then write_RXF0A c get s
                  else if location = FDCAN_RX_FIFO1 then write_RXF1A c get s
                  else if location < FDCAN_RX_BUFFER32 then write_NDAT1 c (push_bit (unat location) 1) s
                  else write_NDAT2 c (push_bit (unat (location AND 0x1F)) 1) s)))
      else (HAL_ERROR, None, hal_error HAL_FDCAN_ERROR_NOT_STARTED s))"

subsection \<open>The HAL as the driver uses it\<close>

definition mp1_hal :: "'m MP1Fdcan_scheme FdcanCtrl \<Rightarrow> 'm MP1Fdcan_scheme FdcanHal" where
  "mp1_hal c =
     \<lparr>HAL_FDCAN_Init = \<lambda>i s. (case mp1_Init c i s of None \<Rightarrow> (HAL_TIMEOUT, s) | Some r \<Rightarrow> r),
      HAL_FDCAN_ConfigFilter = mp1_ConfigFilter 0 0,
      HAL_FDCAN_ConfigGlobalFilter = mp1_ConfigGlobalFilter,
      HAL_FDCAN_ActivateNotification = mp1_ActivateNotification,
      HAL_FDCAN_Start = fdcan_Start,
      HAL_FDCAN_GetTxFifoFreeLevel = mp1_GetTxFifoFreeLevel,
      HAL_FDCAN_AddMessageToTxFifoQ = mp1_AddMessageToTxFifoQ c,
      HAL_FDCAN_GetRxFifoFillLevel = mp1_GetRxFifoFillLevel FDCAN_RX_FIFO0,
      HAL_FDCAN_GetRxMessage = \<lambda>s. (case mp1_GetRxMessage c FDCAN_RX_FIFO0 s of
          (st, None, s1) \<Rightarrow> (st, no_header, [], s1)
        | (st, Some (header, bytes), s1) \<Rightarrow> (st, FDCAN_RxHeader.truncate header, bytes, s1)),
      read_CCCR = CCCR, write_CCCR = \<lambda>v s. s\<lparr>CCCR := v\<rparr>, read_PSR = PSR\<rparr>"

end
