(* ===== verification/FdcanRam.thy ===== *)
theory FdcanRam
  imports ControlFdcan
begin

section \<open>The message RAM: elements written and read\<close>

subsection \<open>The payload\<close>

lemma bit_ucast_byte: "bit (ucast (b :: u8) :: u32) n \<longleftrightarrow> n < 8 \<and> bit b n"
  by (auto simp: bit_simps dest: bit_imp_le_length)

lemma bit_u8_ge: "8 \<le> n \<Longrightarrow> \<not> bit (b :: u8) n"
  by (auto dest: bit_imp_le_length)

lemma ram_byte_le_word:
  assumes "r < 4"
  shows "(ucast (drop_bit (8 * r) (le_word b0 b1 b2 b3)) :: u8) = [b0, b1, b2, b3] ! r"
proof (rule bit_word_eqI)
  fix n assume n: "n < LENGTH(8)"
  have r: "r = 0 \<or> r = 1 \<or> r = 2 \<or> r = 3" using assms by arith
  show "bit (ucast (drop_bit (8 * r) (le_word b0 b1 b2 b3)) :: u8) n \<longleftrightarrow> bit ([b0, b1, b2, b3] ! r) n"
    using r n by (auto simp: le_word_def bit_simps bit_ucast_byte bit_u8_ge)
qed

lemma word_offset_eq:
  assumes "a + 4 * of_nat k = (a :: u32) + 4 * of_nat j" "k < 1000" "j < 1000"
  shows "k = j"
proof -
  have "(4 * of_nat k :: u32) = 4 * of_nat j" using assms(1) by simp
  then have "(of_nat (4 * k) :: u32) = of_nat (4 * j)" by simp
  then have "take_bit 32 (4 * k) = take_bit 32 (4 * j)" by (simp only: word_of_nat_eq_iff) simp
  then show ?thesis using assms(2,3) by (simp add: take_bit_nat_eq_self)
qed

lemma words_of_bytes: "0 < (d::nat) \<Longrightarrow> (d + 3) div 4 = Suc ((d - 4 + 3) div 4)"
proof (cases "d \<le> 4")
  case True
  moreover assume "0 < d"
  ultimately have "d = 1 \<or> d = 2 \<or> d = 3 \<or> d = 4" by linarith
  then show ?thesis by (elim disjE) simp_all
next
  case False
  then obtain e where "d = e + 4" by (metis add.commute le_Suc_ex linorder_not_le nat_less_le)
  then show ?thesis using div_add_self2 [of 4 "e + 3"] by (simp add: add.assoc)
qed

lemma words_left: "i < n \<Longrightarrow> (n - i + 3) div 4 = Suc ((n - (i + 4) + 3) div 4)" for i :: nat
  using words_of_bytes [of "n - i"] by (simp only: diff_diff_left zero_less_diff)
lemma copy_payload_other:
  assumes "\<And>k. k < (n - i + 3) div 4 \<Longrightarrow> x \<noteq> a + 4 * of_nat k"
  shows "copy_payload data n i a m x = m x"
  using assms
proof (induction data n i a m rule: copy_payload.induct)
  case (1 data n i a m)
  show ?case
  proof (cases "i < n")
    case True
    have step: "(n - i + 3) div 4 = Suc ((n - (i + 4) + 3) div 4)" by (rule words_left) fact
    have "x \<noteq> a" using 1(2) [of 0] step by simp
    moreover have "x \<noteq> a + 4 + 4 * of_nat k" if "k < (n - (i + 4) + 3) div 4" for k
      using 1(2) [of "Suc k"] that step by (simp add: algebra_simps)
    ultimately have "copy_payload data n (i + 4) (a + 4)
        (m(a := le_word (data ! i) (data ! (i + 1)) (data ! (i + 2)) (data ! (i + 3)))) x = m x"
      using 1(1) [OF True] by (metis fun_upd_other)
    then show ?thesis using True by (subst copy_payload.simps) simp
  next
    case False
    then show ?thesis by (subst copy_payload.simps) simp
  qed
qed

lemma copy_payload_word:
  assumes "k < (n - i + 3) div 4" "n - i \<le> 64"
  shows "copy_payload data n i a m (a + 4 * of_nat k)
    = le_word (data ! (i + 4 * k)) (data ! (i + 4 * k + 1)) (data ! (i + 4 * k + 2)) (data ! (i + 4 * k + 3))"
  using assms
proof (induction data n i a m arbitrary: k rule: copy_payload.induct)
  case (1 data n i a m)
  have i: "i < n" using 1(2) by (cases "i < n") auto
  let ?m = "m(a := le_word (data ! i) (data ! (i + 1)) (data ! (i + 2)) (data ! (i + 3)))"
  have step: "copy_payload data n i a m = copy_payload data n (i + 4) (a + 4) ?m"
    using i by (subst copy_payload.simps) simp
  show ?case
  proof (cases k)
    case 0
    have "copy_payload data n (i + 4) (a + 4) ?m a = ?m a"
    proof (rule copy_payload_other)
      fix j assume j: "j < (n - (i + 4) + 3) div 4"
      have "j < 999" using j 1(3) by arith
      then show "a \<noteq> a + 4 + 4 * of_nat j"
        using word_offset_eq [of a "Suc j" 0] by (auto simp: algebra_simps)
    qed
    then show ?thesis using 0 step by simp
  next
    case (Suc l)
    have "l < (n - (i + 4) + 3) div 4" "n - (i + 4) \<le> 64" using 1(2,3) Suc words_left [OF i] by simp_all
    from 1(1) [OF i this] show ?thesis
      using Suc step by (simp add: algebra_simps fun_upd_def)
  qed
qed

lemma nth_four: "r < 4 \<Longrightarrow> [d ! j, d ! (j + 1), d ! (j + 2), d ! (j + 3)] ! r = d ! (j + r)"
  by (auto simp: less_Suc_eq numeral_eq_Suc)

lemma copy_payload_bytes:
  assumes "n \<le> 64" "n \<le> length data"
  shows "ram_bytes (copy_payload data n 0 a m) a n = take n data"
proof (rule nth_equalityI)
  show "length (ram_bytes (copy_payload data n 0 a m) a n) = length (take n data)"
    using assms(2) by (simp add: ram_bytes_def)
  fix i assume "i < length (ram_bytes (copy_payload data n 0 a m) a n)"
  then have i: "i < n" by (simp add: ram_bytes_def)
  have "i div 4 < (n - 0 + 3) div 4"
    using div_le_mono [of "i + 4" "n - 0 + 3" 4] i by simp
  from copy_payload_word [OF this, of data a m] assms(1)
  have "ram_byte (copy_payload data n 0 a m) a i = data ! (4 * (i div 4) + i mod 4)"
    by (simp add: ram_byte_def ram_byte_le_word nth_four [simplified] del: mult_div_mod_eq)
  then show "ram_bytes (copy_payload data n 0 a m) a n ! i = take n data ! i"
    using i assms(2) by (simp add: ram_bytes_def)
qed

subsection \<open>Elements\<close>

text \<open>
  The element of a data frame with an 11-bit identifier: what is written for transmission (\<open>tx_element\<close>) and what
  is stored on reception (\<open>rx_element\<close>), where the time stamp, the filter and the unused bits are arbitrary.
\<close>

definition tx_element :: "(u32 \<Rightarrow> u32) \<Rightarrow> u32 \<Rightarrow> CanDrv_Frame_t \<Rightarrow> bool" where
  "tx_element m a f \<longleftrightarrow> can_valid f \<and> m a = push_bit 18 (ucast (frame_id f)) \<and>
     m (a + 4) = push_bit 16 (ucast (frame_dlc f)) \<and>
     ram_bytes m (a + 8) (unat (frame_dlc f)) = take (unat (frame_dlc f)) (frame_data f)"

definition rx_element :: "(u32 \<Rightarrow> u32) \<Rightarrow> u32 \<Rightarrow> CanDrv_Frame_t \<Rightarrow> bool" where
  "rx_element m a f \<longleftrightarrow> can_valid f \<and> m a AND 0x7FFC0000 = push_bit 18 (ucast (frame_id f)) \<and>
     m (a + 4) AND FDCAN_ELEMENT_MASK_DLC = push_bit 16 (ucast (frame_dlc f)) \<and>
     ram_bytes m (a + 8) (unat (frame_dlc f)) = frame_data f"

text \<open>
  A controller stores the frame that another one has sent from an element: the identifier and the flags XTD and RTR, the
  data length code with the flags of FD frames, and the data bytes are those of the sender (at most eight).
\<close>

definition stored_as :: "(u32 \<Rightarrow> u32) \<Rightarrow> u32 \<Rightarrow> (u32 \<Rightarrow> u32) \<Rightarrow> u32 \<Rightarrow> bool" where
  "stored_as m a m' b \<longleftrightarrow> m' b AND 0x7FFC0000 = m a AND 0x7FFC0000 \<and>
     m' (b + 4) AND 0x003F0000 = m (a + 4) AND 0x003F0000 \<and>
     (let n = min 8 (unat (drop_bit 16 (m (a + 4) AND FDCAN_ELEMENT_MASK_DLC)))
      in ram_bytes m' (b + 8) n = ram_bytes m (a + 8) n)"

text \<open>The frame as it arrives: its first bytes.\<close>

definition arrived :: "CanDrv_Frame_t \<Rightarrow> CanDrv_Frame_t" where
  "arrived f = f\<lparr>frame_data := take (unat (frame_dlc f)) (frame_data f)\<rparr>"

lemma can_valid_cases:
  assumes "can_valid f"
  obtains i where "frame_id f = i" "i \<le> 0x7FF" "unat (frame_dlc f) \<le> 8"
  using assms by (auto simp: can_valid_def word_le_nat_alt)

lemma and_above:
  fixes x mask :: "'a::len word"
  assumes "\<And>n. bit x n \<Longrightarrow> bit mask n"
  shows "x AND mask = x"
  by (rule bit_word_eqI) (auto simp: bit_simps dest: assms)

lemma bit_le_11: "x \<le> (0x7FF :: u16) \<Longrightarrow> bit x n \<Longrightarrow> n < 11"
proof -
  assume x: "x \<le> 0x7FF" and b: "bit x n"
  have "unat x < 2 ^ 11" using x by (simp add: word_le_nat_alt)
  then have "unat (take_bit 11 x) = unat x" by (simp only: unsigned_take_bit_eq take_bit_nat_eq_self)
  then have "take_bit 11 x = x" by (simp only: word_unat_eq_iff)
  then show "n < 11" using b by (metis bit_take_bit_iff)
qed

lemma id_field:
  assumes "i \<le> (0x7FF :: u16)"
  shows "push_bit 18 (ucast i :: u32) AND 0x7FFC0000 = push_bit 18 (ucast i)"
    "drop_bit 18 (push_bit 18 (ucast i :: u32)) = ucast i"
proof -
  have mask: "(0x7FFC0000 :: u32) = push_bit 18 (mask 13)" by (simp add: mask_eq_exp_minus_1)
  show "push_bit 18 (ucast i :: u32) AND 0x7FFC0000 = push_bit 18 (ucast i)"
    unfolding mask by (rule and_above) (auto simp: bit_simps dest: bit_le_11 [OF assms])
  show "drop_bit 18 (push_bit 18 (ucast i :: u32)) = ucast i"
    by (rule bit_word_eqI) (auto simp: bit_simps dest: bit_le_11 [OF assms])
qed

lemma dlc_field:
  assumes "unat (d :: u8) \<le> 8"
  shows "push_bit 16 (ucast d :: u32) AND FDCAN_ELEMENT_MASK_DLC = push_bit 16 (ucast d)"
    "push_bit 16 (ucast d :: u32) AND 0x003F0000 = push_bit 16 (ucast d)"
    "drop_bit 16 (push_bit 16 (ucast d :: u32)) = ucast d" "unat (ucast d :: u32) = unat d"
proof -
  have small: "n < 4" if "bit d n" for n
  proof -
    have "unat d < 2 ^ 4" using assms by simp
    then have "unat (take_bit 4 d) = unat d" by (simp only: unsigned_take_bit_eq take_bit_nat_eq_self)
    then have "take_bit 4 d = d" by (simp only: word_unat_eq_iff)
    with that show ?thesis by (metis bit_take_bit_iff)
  qed
  have masks: "FDCAN_ELEMENT_MASK_DLC = push_bit 16 (mask 4)" "(0x003F0000 :: u32) = push_bit 16 (mask 6)"
    by (simp_all add: mask_eq_exp_minus_1 FDCAN_ELEMENT_MASK_DLC_def)
  show "push_bit 16 (ucast d :: u32) AND FDCAN_ELEMENT_MASK_DLC = push_bit 16 (ucast d)"
    unfolding masks by (rule and_above) (auto simp: bit_simps dest: small)
  show "push_bit 16 (ucast d :: u32) AND 0x003F0000 = push_bit 16 (ucast d)"
    unfolding masks by (rule and_above) (auto simp: bit_simps dest: small)
  show "drop_bit 16 (push_bit 16 (ucast d :: u32)) = ucast d"
    by (rule bit_word_eqI) (auto simp: bit_simps dest: small)
  show "unat (ucast d :: u32) = unat d"
    by (simp add: unsigned_ucast_eq take_bit_nat_eq_self order_less_trans [OF unsigned_less])
qed

lemma DLCtoBytes_classic: "n \<le> 8 \<Longrightarrow> DLCtoBytes ! n = n"
  by (auto simp: DLCtoBytes_def le_Suc_eq numeral_eq_Suc)

text \<open>What a driver's write puts into the message RAM, and where.\<close>

lemma write_element_tx:
  assumes "can_valid f" "unat (frame_dlc f) \<le> length data"
    and "take (unat (frame_dlc f)) data = take (unat (frame_dlc f)) (frame_data f)"
  shows "tx_element (write_element (frame_header f dl) (push_bit 16 (ucast (frame_dlc f))) (unat (frame_dlc f)) data a m) a f"
    (is "tx_element ?m a f")
proof -
  let ?n = "unat (frame_dlc f)"
  have n: "?n \<le> 8" using assms(1) by (simp add: can_valid_def word_le_nat_alt)
  let ?h = "m(a := TxElementW1 (frame_header f dl), a + 4 := push_bit 16 (ucast (frame_dlc f)))"
  have m: "?m = copy_payload data ?n 0 (a + 8) ?h"
    by (simp add: write_element_def frame_header_def FDCAN_NO_TX_EVENTS_def FDCAN_CLASSIC_CAN_def FDCAN_BRS_OFF_def)
  have off: "a \<noteq> a + 8 + 4 * of_nat k" "a + 4 \<noteq> a + 8 + 4 * of_nat k" if "k < (?n - 0 + 3) div 4" for k
  proof -
    have "k < 2" using that n by arith
    then show "a \<noteq> a + 8 + 4 * of_nat k" "a + 4 \<noteq> a + 8 + 4 * of_nat k"
      using word_offset_eq [of a 0 "k + 2"] word_offset_eq [of a 1 "k + 2"] by (auto simp: algebra_simps)
  qed
  have "?m a = push_bit 18 (ucast (frame_id f))"
    unfolding m using off
    by (subst copy_payload_other)
      (auto simp: TxElementW1_def frame_header_def FDCAN_STANDARD_ID_def FDCAN_ESI_ACTIVE_def FDCAN_DATA_FRAME_def)
  moreover have "?m (a + 4) = push_bit 16 (ucast (frame_dlc f))"
    unfolding m using off by (subst copy_payload_other) auto
  moreover have "ram_bytes ?m (a + 8) ?n = take ?n (frame_data f)"
    unfolding m using copy_payload_bytes [of ?n data "a + 8" ?h] n assms(2,3) by simp
  ultimately show ?thesis using assms(1) by (simp add: tx_element_def)
qed

lemma write_element_other:
  assumes "n \<le> 8" "16 \<le> x - a"
  shows "write_element h dlc n data a m x = m x"
proof -
  have x: "x \<noteq> a + 4 * of_nat k" if "k < 4" for k
  proof
    assume "x = a + 4 * of_nat k"
    then have "16 \<le> (4 * of_nat k :: u32)" using assms(2) by simp
    moreover have "k = 0 \<or> k = 1 \<or> k = 2 \<or> k = 3" using that by arith
    ultimately show False by auto
  qed
  have "x \<noteq> a + 8 + 4 * of_nat k" if "k < (n - 0 + 3) div 4" for k
    using x [of "k + 2"] that assms(1) by (auto simp: algebra_simps)
  then show ?thesis using x [of 0] x [of 1] by (simp add: write_element_def Let_def copy_payload_other)
qed

lemma stored_rx_element:
  assumes "tx_element m a f" "stored_as m a m' b"
  shows "rx_element m' b (arrived f)"
proof -
  obtain i where v: "can_valid f" "frame_id f = i" "i \<le> 0x7FF" "unat (frame_dlc f) \<le> 8"
    using assms(1) can_valid_cases by (metis tx_element_def)
  note f = id_field [OF v(3)] dlc_field [OF v(4)]
  have tx: "m a = push_bit 18 (ucast i)" "m (a + 4) = push_bit 16 (ucast (frame_dlc f))"
    "ram_bytes m (a + 8) (unat (frame_dlc f)) = take (unat (frame_dlc f)) (frame_data f)"
    using assms(1) v(2) by (simp_all add: tx_element_def)
  have st: "m' b AND 0x7FFC0000 = push_bit 18 (ucast i)" "m' (b + 4) AND 0x003F0000 = push_bit 16 (ucast (frame_dlc f))"
    "ram_bytes m' (b + 8) (unat (frame_dlc f)) = take (unat (frame_dlc f)) (frame_data f)"
    using assms(2) v(4) by (simp_all add: stored_as_def tx f Let_def min_absorb2)
  have "m' (b + 4) AND FDCAN_ELEMENT_MASK_DLC = (m' (b + 4) AND 0x003F0000) AND FDCAN_ELEMENT_MASK_DLC"
    by (simp add: and.assoc FDCAN_ELEMENT_MASK_DLC_def)
  then show ?thesis
    using v(1) st f(3) by (simp add: rx_element_def arrived_def can_valid_def v(2))
qed

end
