(* ===== verification/FdcanLink.thy ===== *)
theory FdcanLink
  imports FdcanRam
begin

section \<open>Frames through the message RAM\<close>

text \<open>
  What the drivers write for transmission and hand to their clients on reception, down to the words of the message
  RAM. \<open>rx_fifo\<close> is what a receive interrupt needs of the HAL: a FIFO that hands out its frames, oldest first.
\<close>

subsection \<open>Reading an element\<close>

lemma read_element:
  assumes "rx_element m a f"
  shows "rxIdentifier (read_rx_header lf m a) = ucast (frame_id f)"
    "rxDataLength (read_rx_header lf m a) = lf (push_bit 16 (ucast (frame_dlc f)))"
proof -
  obtain i where v: "frame_id f = i" "i \<le> 0x7FF"
    using assms can_valid_cases by (metis rx_element_def)
  have w: "m a AND 0x7FFC0000 = push_bit 18 (ucast i)" using assms v(1) by (simp add: rx_element_def)
  have std: "FDCAN_ELEMENT_MASK_STDID = push_bit 18 (mask 11)"
    by (simp add: FDCAN_ELEMENT_MASK_STDID_def mask_eq_exp_minus_1)
  have "FDCAN_ELEMENT_MASK_XTD = 2 ^ 30" by (simp add: FDCAN_ELEMENT_MASK_XTD_def)
  then have xtd: "n = 30" if "bit FDCAN_ELEMENT_MASK_XTD n" for n
    using that by (metis bit_exp_iff)
  have "push_bit 18 (ucast i :: u32) AND FDCAN_ELEMENT_MASK_XTD = 0"
  proof (rule bit_word_eqI)
    fix n
    show "bit (push_bit 18 (ucast i :: u32) AND FDCAN_ELEMENT_MASK_XTD) n \<longleftrightarrow> bit 0 n"
      using bit_le_11 [OF v(2), of "n - 18"] xtd [of n] by (auto simp: bit_simps)
  qed
  moreover have "push_bit 18 (ucast i :: u32) AND FDCAN_ELEMENT_MASK_STDID = push_bit 18 (ucast i)"
    unfolding std by (rule and_above) (auto simp: bit_simps dest: bit_le_11 [OF v(2)])
  moreover have "m a AND FDCAN_ELEMENT_MASK_XTD = (m a AND 0x7FFC0000) AND FDCAN_ELEMENT_MASK_XTD"
    "m a AND FDCAN_ELEMENT_MASK_STDID = (m a AND 0x7FFC0000) AND FDCAN_ELEMENT_MASK_STDID"
    by (simp_all add: and.assoc FDCAN_ELEMENT_MASK_XTD_def FDCAN_ELEMENT_MASK_STDID_def)
  ultimately show "rxIdentifier (read_rx_header lf m a) = ucast (frame_id f)"
    using id_field(2) [OF v(2)] by (simp add: read_rx_header_def Let_def w v(1) FDCAN_STANDARD_ID_def)
  show "rxDataLength (read_rx_header lf m a) = lf (push_bit 16 (ucast (frame_dlc f)))"
    using assms by (simp add: read_rx_header_def Let_def rx_element_def)
qed

lemma ucast_u16_u32: "ucast (ucast (i :: u16) :: u32) = i"
  by (rule bit_word_eqI) (auto simp: bit_simps)

lemma ucast_u8_u32: "ucast (ucast (d :: u8) :: u32) = d"
  by (rule bit_word_eqI) (auto simp: bit_simps)

lemma rx_frames:
  assumes "rx_element m a f"
  shows "sensor_rx_frame (FDCAN_RxHeader.truncate (read_rx_header (drop_bit 16) m a))
      (ram_bytes m (a + 8) (DLCtoBytes ! unat (rxDataLength (read_rx_header (drop_bit 16) m a)))) = f"
    "control_rx_frame (FDCAN_RxHeader.truncate (read_rx_header (\<lambda>d. d) m a))
      (ram_bytes m (a + 8) (DLCtoBytes ! unat (drop_bit 16 (rxDataLength (read_rx_header (\<lambda>d. d) m a))))) = f"
proof -
  have d1: "unat (frame_dlc f) \<le> 8"
    using assms by (simp add: rx_element_def can_valid_def word_le_nat_alt)
  then have d: "unat (frame_dlc f) \<le> 8" "\<not> (8 :: u32) < ucast (frame_dlc f)"
    by (simp_all add: word_less_nat_alt dlc_field(4))
  note rd = read_element [OF assms] dlc_field(3,4) [OF d(1)]
  have bytes: "ram_bytes m (a + 8) (DLCtoBytes ! unat (frame_dlc f)) = frame_data f"
    using assms d(1) by (simp add: rx_element_def DLCtoBytes_classic)
  show "sensor_rx_frame (FDCAN_RxHeader.truncate (read_rx_header (drop_bit 16) m a))
      (ram_bytes m (a + 8) (DLCtoBytes ! unat (rxDataLength (read_rx_header (drop_bit 16) m a)))) = f"
    using d bytes
    by (simp add: sensor_rx_frame_def FDCAN_RxHeader.defs rd CANDRV_MAX_DLC_def ucast_u16_u32 ucast_u8_u32)
  show "control_rx_frame (FDCAN_RxHeader.truncate (read_rx_header (\<lambda>d. d) m a))
      (ram_bytes m (a + 8) (DLCtoBytes ! unat (drop_bit 16 (rxDataLength (read_rx_header (\<lambda>d. d) m a))))) = f"
    using d bytes
    by (simp add: control_rx_frame_def FDCAN_RxHeader.defs rd CANDRV_MAX_DLC_def DLC_SHIFT_def Let_def ucast_u16_u32
        ucast_u8_u32)
qed

subsection \<open>Transmission\<close>

text \<open>The element the next frame goes to; the request for its transmission leaves the message RAM to the controller.\<close>

definition g4_tx_address :: "'m G4Fdcan_scheme \<Rightarrow> u32" where
  "g4_tx_address s = TxFIFOQSA (msgRam s) + drop_bit 16 (TXFQS s AND g4_TXFQS_TFQPI) * SRAMCAN_TFQ_SIZE"

definition mp1_tx_address :: "'m MP1Fdcan_scheme \<Rightarrow> u32" where
  "mp1_tx_address s = TxBufferSA (msgRam s) + drop_bit 16 (TXFQS s AND mp1_TXFQS_TFQPI) * TxElmtSize s * 4"

definition tx_quiet :: "'m Fdcan_scheme FdcanCtrl \<Rightarrow> bool" where
  "tx_quiet c \<longleftrightarrow> (\<forall>v s. message_RAM (write_TXBAR c v s) = message_RAM s)"

lemma sensor_write_element:
  assumes "sensor_CanDrv_Write (g4_hal c) (Some f) s = (CANDRV_OK, s')" "tx_quiet c" "length (frame_data f) = 8"
  shows "tx_element (message_RAM (hfdcan1 s')) (g4_tx_address (hfdcan1 s)) f"
proof -
  have v: "can_valid f" using sensor_can.write_ok [OF assms(1)] by simp
  then have n: "unat (frame_dlc f) \<le> 8" by (simp add: can_valid_def word_le_nat_alt)
  from assms(1,2) have "message_RAM (hfdcan1 s') = write_element (frame_header f (ucast (frame_dlc f)))
      (push_bit 16 (ucast (frame_dlc f))) (DLCtoBytes ! unat (frame_dlc f)) (frame_data f) (g4_tx_address (hfdcan1 s))
      (message_RAM (hfdcan1 s))"
    by (auto simp: sensor_CanDrv_Write_def g4_hal_def hal_call_def g4_AddMessageToTxFifoQ_def g4_CopyMessageToRAM_def
        count_queued_def count_dropped_def frame_header_def g4_tx_address_def tx_quiet_def dlc_field(4) [OF n] Let_def
        split: if_splits)
  then show ?thesis
    using write_element_tx [OF v, of "frame_data f"] n assms(3) by (simp add: DLCtoBytes_classic)
qed

lemma control_write_element:
  assumes "control_CanDrv_Write (mp1_hal c) (Some f) s = (CANDRV_OK, s')" "tx_quiet c" "length (frame_data f) = 8"
  shows "tx_element (message_RAM (hfdcan1 s')) (mp1_tx_address (hfdcan1 s)) f"
proof -
  have v: "can_valid f" using control_can.write_ok [OF assms(1)] by simp
  then have n: "unat (frame_dlc f) \<le> 8" by (simp add: can_valid_def word_le_nat_alt)
  let ?p = "write_at (replicate 8 0) 0 (take (unat (frame_dlc f)) (frame_data f))"
  from assms(1,2) have "message_RAM (hfdcan1 s') = write_element (frame_header f (push_bit DLC_SHIFT (ucast (frame_dlc f))))
      (push_bit 16 (ucast (frame_dlc f))) (DLCtoBytes ! unat (frame_dlc f)) ?p (mp1_tx_address (hfdcan1 s))
      (message_RAM (hfdcan1 s))"
    by (auto simp: control_CanDrv_Write_def mp1_hal_def hal_call_def mp1_AddMessageToTxFifoQ_def mp1_CopyMessageToRAM_def
        count_queued_def count_dropped_def frame_header_def mp1_tx_address_def tx_quiet_def dlc_field(3,4) [OF n] DLC_SHIFT_def
        Let_def split: if_splits)
  moreover have "take (unat (frame_dlc f)) ?p = take (unat (frame_dlc f)) (frame_data f)" "unat (frame_dlc f) \<le> length ?p"
    using n assms(3) by (simp_all add: write_at_0)
  ultimately show ?thesis
    using write_element_tx [OF v, of ?p] n by (simp add: DLCtoBytes_classic)
qed

subsection \<open>The receive interrupt\<close>

locale rx_fifo =
  fixes hal :: "('h, 'n) FdcanHal_scheme"
    and rx_frame :: "FDCAN_RxHeader \<Rightarrow> u8 list \<Rightarrow> CanDrv_Frame_t"
    and loop :: "(CanDrv_Frame_t \<Rightarrow> ('h, 'm) CanDrv_scheme \<Rightarrow> ('h, 'm) CanDrv_scheme) option \<Rightarrow>
      ('h, 'm) CanDrv_scheme \<Rightarrow> ('h, 'm) CanDrv_scheme option"
    and waiting :: "'h \<Rightarrow> CanDrv_Frame_t list \<Rightarrow> bool"
  assumes loop: "loop cb s =
      (if HAL_FDCAN_GetRxFifoFillLevel hal (hfdcan1 s) > 0 then
         (let (st, header, bytes, h) = HAL_FDCAN_GetRxMessage hal (hfdcan1 s);
              s1 = s\<lparr>hfdcan1 := h\<rparr>
          in if st \<noteq> HAL_OK then Some s1
             else
               (let s2 = count_received s1;
                    s3 = (case cb of None \<Rightarrow> s2 | Some f \<Rightarrow> f (rx_frame header bytes) s2)
                in loop cb s3))
       else Some s)"
    and empty: "waiting h [] \<Longrightarrow> HAL_FDCAN_GetRxFifoFillLevel hal h = 0"
    and next_frame: "waiting h (f # fs) \<Longrightarrow> HAL_FDCAN_GetRxFifoFillLevel hal h > 0 \<and>
      (\<exists>header bytes h'. HAL_FDCAN_GetRxMessage hal h = (HAL_OK, header, bytes, h') \<and> rx_frame header bytes = f \<and>
         waiting h' fs)"
begin

text \<open>The loop ends with the FIFO empty; the client has got its frames in order, each after the counter was raised.\<close>

lemma drains:
  assumes "waiting (hfdcan1 s) fs" "\<And>f s. hfdcan1 (ind f s) = hfdcan1 s"
  shows "\<exists>hs. length hs = length fs \<and> waiting (last (hfdcan1 s # hs)) [] \<and>
    loop (Some ind) s = Some (fold (\<lambda>(f, h) s. ind f (count_received (s\<lparr>hfdcan1 := h\<rparr>))) (zip fs hs) s)"
  using assms(1)
proof (induction fs arbitrary: s)
  case Nil
  then show ?case by (subst loop) (simp add: empty)
next
  case (Cons f fs)
  from next_frame [OF Cons.prems] obtain header bytes h where
    h: "HAL_FDCAN_GetRxFifoFillLevel hal (hfdcan1 s) > 0"
      "HAL_FDCAN_GetRxMessage hal (hfdcan1 s) = (HAL_OK, header, bytes, h)" "rx_frame header bytes = f" "waiting h fs"
    by blast
  define s1 where "s1 = ind f (count_received (s\<lparr>hfdcan1 := h\<rparr>))"
  have s1: "hfdcan1 s1 = h" by (simp add: s1_def assms(2))
  have step: "loop (Some ind) s = loop (Some ind) s1"
    using h by (subst loop) (simp add: s1_def Let_def)
  from Cons.IH [of s1] h(4) s1 obtain hs where hs: "length hs = length fs" "waiting (last (hfdcan1 s1 # hs)) []"
    "loop (Some ind) s1 = Some (fold (\<lambda>(f, h) s. ind f (count_received (s\<lparr>hfdcan1 := h\<rparr>))) (zip fs hs) s1)" by blast
  have "waiting (last (hfdcan1 s # h # hs)) []" using hs(2) s1 by simp
  moreover have "loop (Some ind) s
      = Some (fold (\<lambda>(f, h) s. ind f (count_received (s\<lparr>hfdcan1 := h\<rparr>))) (zip (f # fs) (h # hs)) s)"
    using hs(3) step by (simp add: s1_def)
  ultimately show ?case using hs(1) by (intro exI [of _ "h # hs"]) simp
qed

end

text \<open>
  A FIFO of \<open>n\<close> elements of a size at an address holds frames from an index on. The write of an index to the acknowledge
  register of FIFO 0 frees the element (\<open>acks\<close>): the fill level drops by one, the get index moves on, and nothing
  else changes that the drivers depend on.
\<close>

definition fifo_holds :: "(u32 \<Rightarrow> u32) \<Rightarrow> u32 \<Rightarrow> u32 \<Rightarrow> nat \<Rightarrow> nat \<Rightarrow> CanDrv_Frame_t list \<Rightarrow> bool" where
  "fifo_holds m base sz n get fs \<longleftrightarrow>
     get < n \<and> (\<forall>i<length fs. rx_element m (base + of_nat ((get + i) mod n) * sz) (fs ! i))"

lemma fifo_holds_Cons:
  assumes "fifo_holds m base sz n get (f # fs)"
  shows "rx_element m (base + of_nat get * sz) f" "fifo_holds m base sz n ((get + 1) mod n) fs"
proof -
  show "rx_element m (base + of_nat get * sz) f"
    using assms by (auto simp: fifo_holds_def dest: spec [of _ 0])
  have "rx_element m (base + of_nat (((get + 1) mod n + i) mod n) * sz) (fs ! i)" if "i < length fs" for i
  proof -
    have "((get + 1) mod n + i) mod n = (get + Suc i) mod n" by (simp add: mod_simps)
    then show ?thesis using assms that by (auto simp: fifo_holds_def dest: spec [of _ "Suc i"])
  qed
  then show "fifo_holds m base sz n ((get + 1) mod n) fs"
    using assms by (auto simp: fifo_holds_def)
qed

definition rx_acks ::
  "('m Fdcan_scheme \<Rightarrow> u32) \<Rightarrow> ('m Fdcan_scheme \<Rightarrow> u32) \<Rightarrow> ('m Fdcan_scheme \<Rightarrow> nat) \<Rightarrow> ('m Fdcan_scheme \<Rightarrow> 'c) \<Rightarrow>
   'm Fdcan_scheme FdcanCtrl \<Rightarrow> bool" where
  "rx_acks fill get n config c \<longleftrightarrow> (\<forall>h. fill h > 0 \<and> unat (get h) < n h \<and> n h \<le> 64 \<longrightarrow>
     (let h' = write_RXF0A c (get h) h
      in fill h' = fill h - 1 \<and> unat (get h') = (unat (get h) + 1) mod n h \<and> hal_State h' = hal_State h \<and>
         msgRam h' = msgRam h \<and> message_RAM h' = message_RAM h \<and> config h' = config h))"

definition g4_get :: "'m G4Fdcan_scheme \<Rightarrow> u32" where
  "g4_get h = drop_bit 8 (RXF0S h AND g4_RXFS_GI)"

definition mp1_get :: "'m MP1Fdcan_scheme \<Rightarrow> u32" where
  "mp1_get h = drop_bit 8 (RXF0S h AND mp1_RXFS_GI)"

definition g4_acks :: "'m G4Fdcan_scheme FdcanCtrl \<Rightarrow> bool" where
  "g4_acks c \<longleftrightarrow> rx_acks (g4_GetRxFifoFillLevel FDCAN_RX_FIFO0) g4_get (\<lambda>_. 3) RXGFC c"

definition mp1_acks :: "'m MP1Fdcan_scheme FdcanCtrl \<Rightarrow> bool" where
  "mp1_acks c \<longleftrightarrow> rx_acks (mp1_GetRxFifoFillLevel FDCAN_RX_FIFO0) mp1_get (\<lambda>h. unat (RxFifo0ElmtsNbr h))
     (\<lambda>h. (RXF0C h, RxFifo0ElmtsNbr h, RxFifo0ElmtSize h)) c"

text \<open>The frames that wait in FIFO 0 of a started controller, in blocking mode, oldest first.\<close>

definition g4_waiting :: "'m G4Fdcan_scheme FdcanCtrl \<Rightarrow> 'm G4Fdcan_scheme \<Rightarrow> CanDrv_Frame_t list \<Rightarrow> bool" where
  "g4_waiting c h fs \<longleftrightarrow> g4_acks c \<and> hal_State h = HAL_FDCAN_STATE_BUSY \<and> RXGFC h AND RXGFC_F0OM = 0 \<and>
     g4_GetRxFifoFillLevel FDCAN_RX_FIFO0 h = of_nat (length fs) \<and> length fs \<le> 3 \<and>
     fifo_holds (message_RAM h) (RxFIFO0SA (msgRam h)) SRAMCAN_RF0_SIZE 3 (unat (g4_get h)) fs"

definition mp1_waiting :: "'m MP1Fdcan_scheme FdcanCtrl \<Rightarrow> 'm MP1Fdcan_scheme \<Rightarrow> CanDrv_Frame_t list \<Rightarrow> bool" where
  "mp1_waiting c h fs \<longleftrightarrow> mp1_acks c \<and> hal_State h = HAL_FDCAN_STATE_BUSY \<and> RXF0C h AND mp1_RXFC_FS \<noteq> 0 \<and>
     mp1_GetRxFifoFillLevel FDCAN_RX_FIFO0 h = of_nat (length fs) \<and> length fs \<le> 64 \<and> unat (RxFifo0ElmtsNbr h) \<le> 64 \<and>
     fifo_holds (message_RAM h) (RxFIFO0SA (msgRam h)) (RxFifo0ElmtSize h * 4) (unat (RxFifo0ElmtsNbr h))
       (unat (mp1_get h)) fs"

lemma of_nat_Suc_pos:
  assumes "n < 1000"
  shows "(0 :: u32) < of_nat (Suc n)" "of_nat (Suc n) - 1 = (of_nat n :: u32)"
  using assms by (simp_all add: word_less_nat_alt unat_of_nat del: of_nat_Suc) simp

lemma g4_next:
  assumes "g4_waiting c h (f # fs)"
  shows "HAL_FDCAN_GetRxFifoFillLevel (g4_hal c) h > 0 \<and>
    (\<exists>header bytes h'. HAL_FDCAN_GetRxMessage (g4_hal c) h = (HAL_OK, header, bytes, h') \<and>
       sensor_rx_frame header bytes = f \<and> g4_waiting c h' fs)"
proof -
  let ?a = "RxFIFO0SA (msgRam h) + g4_get h * SRAMCAN_RF0_SIZE" and ?h = "write_RXF0A c (g4_get h) h"
  have w: "g4_acks c" "hal_State h = HAL_FDCAN_STATE_BUSY" "RXGFC h AND RXGFC_F0OM = 0"
    "g4_GetRxFifoFillLevel FDCAN_RX_FIFO0 h = of_nat (Suc (length fs))" "Suc (length fs) \<le> 3"
    "fifo_holds (message_RAM h) (RxFIFO0SA (msgRam h)) SRAMCAN_RF0_SIZE 3 (unat (g4_get h)) (f # fs)"
    using assms by (simp_all add: g4_waiting_def)
  have pos: "g4_GetRxFifoFillLevel FDCAN_RX_FIFO0 h > 0"
    "g4_GetRxFifoFillLevel FDCAN_RX_FIFO0 h - 1 = of_nat (length fs)"
    using of_nat_Suc_pos [of "length fs"] w(4,5) by simp_all
  have get: "unat (g4_get h) < 3" using w(6) by (simp add: fifo_holds_def)
  note holds = fifo_holds_Cons [OF w(6)]
  have "g4_GetRxFifoFillLevel FDCAN_RX_FIFO0 ?h = of_nat (length fs) \<and> unat (g4_get ?h) = (unat (g4_get h) + 1) mod 3 \<and>
      hal_State ?h = hal_State h \<and> msgRam ?h = msgRam h \<and> message_RAM ?h = message_RAM h \<and> RXGFC ?h = RXGFC h"
    using w(1) [unfolded g4_acks_def rx_acks_def, rule_format, of h] pos get by (simp add: Let_def)
  then have "g4_waiting c ?h fs"
    using w(1-3,5) holds(2) by (simp add: g4_waiting_def)
  moreover have "g4_GetIndex (RXF0S h) (drop_bit 9 (RXGFC h AND RXGFC_F0OM) = FDCAN_RX_FIFO_OVERWRITE) SRAMCAN_RF0_NBR = g4_get h"
    by (simp add: g4_GetIndex_def g4_get_def Let_def w(3) FDCAN_RX_FIFO_OVERWRITE_def)
  then have "HAL_FDCAN_GetRxMessage (g4_hal c) h = (HAL_OK, FDCAN_RxHeader.truncate (read_rx_header (drop_bit 16) (message_RAM h) ?a),
      ram_bytes (message_RAM h) (?a + 8) (DLCtoBytes ! unat (rxDataLength (read_rx_header (drop_bit 16) (message_RAM h) ?a))), ?h)"
    using w(2) pos(1) by (simp add: g4_hal_def g4_GetRxMessage_def Let_def)
  moreover have "HAL_FDCAN_GetRxFifoFillLevel (g4_hal c) h > 0" using pos(1) by (simp add: g4_hal_def)
  ultimately show ?thesis using rx_frames(1) [of "message_RAM h" ?a f] holds(1) by simp
qed

interpretation g4_rx: rx_fifo "g4_hal c" sensor_rx_frame "sensor_RxLoop (g4_hal c)" "g4_waiting c"
  for c :: "'m G4Fdcan_scheme FdcanCtrl"
proof
  show "g4_waiting c h [] \<Longrightarrow> HAL_FDCAN_GetRxFifoFillLevel (g4_hal c) h = 0" for h
    by (simp add: g4_waiting_def g4_hal_def)
qed (rule sensor_RxLoop.simps, rule g4_next)

lemma mp1_next:
  assumes "mp1_waiting c h (f # fs)"
  shows "HAL_FDCAN_GetRxFifoFillLevel (mp1_hal c) h > 0 \<and>
    (\<exists>header bytes h'. HAL_FDCAN_GetRxMessage (mp1_hal c) h = (HAL_OK, header, bytes, h') \<and>
       control_rx_frame header bytes = f \<and> mp1_waiting c h' fs)"
proof -
  let ?a = "RxFIFO0SA (msgRam h) + mp1_get h * RxFifo0ElmtSize h * 4" and ?h = "write_RXF0A c (mp1_get h) h"
  have w: "mp1_acks c" "hal_State h = HAL_FDCAN_STATE_BUSY" "RXF0C h AND mp1_RXFC_FS \<noteq> 0"
    "mp1_GetRxFifoFillLevel FDCAN_RX_FIFO0 h = of_nat (Suc (length fs))" "Suc (length fs) \<le> 64 \<and> unat (RxFifo0ElmtsNbr h) \<le> 64"
    "fifo_holds (message_RAM h) (RxFIFO0SA (msgRam h)) (RxFifo0ElmtSize h * 4) (unat (RxFifo0ElmtsNbr h))
       (unat (mp1_get h)) (f # fs)"
    using assms by (simp_all add: mp1_waiting_def)
  have pos: "mp1_GetRxFifoFillLevel FDCAN_RX_FIFO0 h > 0"
    "mp1_GetRxFifoFillLevel FDCAN_RX_FIFO0 h - 1 = of_nat (length fs)"
    using of_nat_Suc_pos [of "length fs"] w(4,5) by simp_all
  have get: "unat (mp1_get h) < unat (RxFifo0ElmtsNbr h)" using w(6) by (simp add: fifo_holds_def)
  note holds = fifo_holds_Cons [OF w(6)]
  have "mp1_GetRxFifoFillLevel FDCAN_RX_FIFO0 ?h = of_nat (length fs) \<and>
      unat (mp1_get ?h) = (unat (mp1_get h) + 1) mod unat (RxFifo0ElmtsNbr h) \<and>
      hal_State ?h = hal_State h \<and> msgRam ?h = msgRam h \<and> message_RAM ?h = message_RAM h \<and>
      (RXF0C ?h, RxFifo0ElmtsNbr ?h, RxFifo0ElmtSize ?h) = (RXF0C h, RxFifo0ElmtsNbr h, RxFifo0ElmtSize h)"
    using w(1) [unfolded mp1_acks_def rx_acks_def, rule_format, of h] pos get w(5) by (simp add: Let_def)
  then have "mp1_waiting c ?h fs"
    using w(1-3,5) holds(2) by (simp add: mp1_waiting_def)
  moreover have "mp1_rx_element FDCAN_RX_FIFO0 h = Inr (mp1_get h, ?a)"
    using w(3) pos(1) by (simp add: mp1_rx_element_def mp1_get_def Let_def mp1_GetRxFifoFillLevel_def)
  then have "HAL_FDCAN_GetRxMessage (mp1_hal c) h = (HAL_OK, FDCAN_RxHeader.truncate (read_rx_header (\<lambda>d. d) (message_RAM h) ?a),
      ram_bytes (message_RAM h) (?a + 8)
        (DLCtoBytes ! unat (drop_bit 16 (rxDataLength (read_rx_header (\<lambda>d. d) (message_RAM h) ?a)))), ?h)"
    using w(2) by (simp add: mp1_hal_def mp1_GetRxMessage_def Let_def)
  moreover have "HAL_FDCAN_GetRxFifoFillLevel (mp1_hal c) h > 0" using pos(1) by (simp add: mp1_hal_def)
  moreover have "rx_element (message_RAM h) ?a f" using holds(1) by (simp add: mult.assoc)
  ultimately show ?thesis using rx_frames(2) [of "message_RAM h" ?a f] by simp
qed

interpretation mp1_rx: rx_fifo "mp1_hal c" control_rx_frame "control_RxLoop (mp1_hal c)" "mp1_waiting c"
  for c :: "'m MP1Fdcan_scheme FdcanCtrl"
proof
  show "mp1_waiting c h [] \<Longrightarrow> HAL_FDCAN_GetRxFifoFillLevel (mp1_hal c) h = 0" for h
    by (simp add: mp1_waiting_def mp1_hal_def)
qed (rule control_RxLoop.simps, rule mp1_next)

end
