(* ===== verification/FdcanProps.thy ===== *)
theory FdcanProps
  imports FdcanLink
begin

section \<open>Properties of the CAN path down to the message RAM\<close>

subsection \<open>Example controllers\<close>

text \<open>A status register of FIFO 0 from its get index and its fill level; the acknowledge moves both.\<close>

definition fifo_status :: "u32 \<Rightarrow> u32 \<Rightarrow> u32" where
  "fifo_status g l = (push_bit 8 g OR l)"

definition demo_ack :: "('m Fdcan_scheme \<Rightarrow> u32) \<Rightarrow> ('m Fdcan_scheme \<Rightarrow> u32) \<Rightarrow> ('m Fdcan_scheme \<Rightarrow> nat) \<Rightarrow> u32 \<Rightarrow>
    'm Fdcan_scheme \<Rightarrow> 'm Fdcan_scheme" where
  "demo_ack fill get n v h = h\<lparr>RXF0S := fifo_status (of_nat ((unat v + 1) mod n h)) (fill h - 1)\<rparr>"

lemma rxfs_masks: "mp1_RXFS_FL = mask 7" "mp1_RXFS_GI = push_bit 8 (mask 6)"
  by (simp_all add: mp1_RXFS_FL_def mp1_RXFS_GI_def mask_eq_exp_minus_1)

lemma fifo_status_fields:
  assumes "unat g < 64" "unat l < 128"
  shows "fifo_status g l AND mp1_RXFS_FL = l" "drop_bit 8 (fifo_status g l AND mp1_RXFS_GI) = g"
proof -
  have g: "take_bit 6 g = g" using assms(1)
    by (simp only: word_unat_eq_iff unsigned_take_bit_eq) (simp add: take_bit_nat_eq_self)
  have l: "take_bit 7 l = l" using assms(2)
    by (simp only: word_unat_eq_iff unsigned_take_bit_eq) (simp add: take_bit_nat_eq_self)
  have bits: "bit g n \<Longrightarrow> n < 6" "bit l n \<Longrightarrow> n < 7" for n
    using g l by (metis bit_take_bit_iff)+
  show "fifo_status g l AND mp1_RXFS_FL = l"
    unfolding rxfs_masks fifo_status_def by (rule bit_word_eqI) (auto simp: bit_simps dest: bits)
  show "drop_bit 8 (fifo_status g l AND mp1_RXFS_GI) = g"
    unfolding rxfs_masks fifo_status_def by (rule bit_word_eqI) (auto simp: bit_simps dest: bits)
qed

definition demo_ctrl :: "(u32 \<Rightarrow> 's \<Rightarrow> 's) \<Rightarrow> 's FdcanCtrl" where
  "demo_ctrl ack =
     \<lparr>write_TXBAR = \<lambda>_ s. s, write_RXF0A = ack, write_RXF1A = \<lambda>_ s. s, write_NDAT1 = \<lambda>_ s. s, write_NDAT2 = \<lambda>_ s. s,
      poll = \<lambda>s. (0, s), HAL_FDCAN_MspInit = \<lambda>s. s\<rparr>"

definition mp1_demo_ctrl :: "'m MP1Fdcan_scheme FdcanCtrl" where
  "mp1_demo_ctrl = demo_ctrl (demo_ack (mp1_GetRxFifoFillLevel FDCAN_RX_FIFO0) mp1_get (\<lambda>h. unat (RxFifo0ElmtsNbr h)))"

lemma word_and_less:
  fixes x :: u32
  shows "unat (x AND mp1_RXFS_FL) < 128" "unat (drop_bit 8 (x AND mp1_RXFS_GI)) < 64"
proof -
  have "x AND mp1_RXFS_FL = take_bit 7 x"
    by (simp add: rxfs_masks take_bit_eq_mask)
  then show "unat (x AND mp1_RXFS_FL) < 128"
    using take_bit_nat_less_exp [of 7 "unat x"] by (simp add: unsigned_take_bit_eq)
  have "drop_bit 8 (x AND mp1_RXFS_GI) = take_bit 6 (drop_bit 8 x)"
    unfolding rxfs_masks by (rule bit_word_eqI) (auto simp: bit_simps)
  then show "unat (drop_bit 8 (x AND mp1_RXFS_GI)) < 64"
    using take_bit_nat_less_exp [of 6 "unat (drop_bit 8 x)"] by (simp add: unsigned_take_bit_eq)
qed

lemma mp1_demo_acks: "mp1_acks (mp1_demo_ctrl :: 'm MP1Fdcan_scheme FdcanCtrl)"
proof -
  have "mp1_GetRxFifoFillLevel FDCAN_RX_FIFO0 h' = mp1_GetRxFifoFillLevel FDCAN_RX_FIFO0 h - 1 \<and>
      unat (mp1_get h') = (unat (mp1_get h) + 1) mod unat (RxFifo0ElmtsNbr h)"
    if "mp1_GetRxFifoFillLevel FDCAN_RX_FIFO0 h > 0" "unat (mp1_get h) < unat (RxFifo0ElmtsNbr h)"
      "unat (RxFifo0ElmtsNbr h) \<le> 64" "h' = write_RXF0A mp1_demo_ctrl (mp1_get h) h"
    for h h' :: "'m MP1Fdcan_scheme"
  proof -
    let ?g = "(unat (mp1_get h) + 1) mod unat (RxFifo0ElmtsNbr h)" and ?l = "mp1_GetRxFifoFillLevel FDCAN_RX_FIFO0 h - 1"
    have g: "?g < 64"
      using mod_less_divisor [of "unat (RxFifo0ElmtsNbr h)" "unat (mp1_get h) + 1"] that(2,3) by linarith
    then have g': "unat (of_nat ?g :: u32) = ?g" by (simp add: unat_of_nat take_bit_nat_eq_self)
    have "unat (mp1_GetRxFifoFillLevel FDCAN_RX_FIFO0 h) < 128"
      by (simp add: mp1_GetRxFifoFillLevel_def word_and_less)
    then have l: "unat ?l < 128" using that(1) by (simp add: unat_minus_one word_gt_0)
    have "RXF0S h' = fifo_status (of_nat ?g) ?l"
      using that(4) by (simp add: mp1_demo_ctrl_def demo_ctrl_def demo_ack_def)
    then show ?thesis
      using fifo_status_fields [of "of_nat ?g" ?l] g g' l by (simp add: mp1_get_def mp1_GetRxFifoFillLevel_def)
  qed
  then show ?thesis
    unfolding mp1_acks_def rx_acks_def Let_def
    by (simp add: mp1_demo_ctrl_def demo_ctrl_def demo_ack_def)
qed

definition ram_reset :: FDCAN_MsgRamAddress where
  "ram_reset = \<lparr>StandardFilterSA = 0, ExtendedFilterSA = 0, RxFIFO0SA = 0, RxFIFO1SA = 0, RxBufferSA = 0,
     TxEventFIFOSA = 0, TxBufferSA = 0, TxFIFOQSA = 0, EndAddress = 0\<rparr>"

text \<open>The handles as \<open>MX_FDCAN1_Init\<close> of both ECUs fills them in, the registers after reset.\<close>

definition g4_reset :: G4Fdcan where
  "g4_reset =
     \<lparr>FrameFormat = 0, AutoRetransmission = True, TransmitPause = False, ProtocolException = False, DataPrescaler = 1,
      DataSyncJumpWidth = 1, DataTimeSeg1 = 1, DataTimeSeg2 = 1, StdFiltersNbr = 1, ExtFiltersNbr = 0, TxFifoQueueMode = 0,
      hal_State = HAL_FDCAN_STATE_RESET, ErrorCode = 0, LatestTxFifoQRequest = 0, msgRam = ram_reset,
      message_RAM = \<lambda>_. 0, CCCR = 1, TEST = 0, PSR = 0, NBTP = 0, DBTP = 0, TXBC = 0, TXFQS = 3, RXF0S = 0, RXF1S = 0,
      ILS = 0, ILE = 0, IE = 0, TXBTIE = 0, TXBCIE = 0, ClockDivider = 0, RXGFC = 0, CKDIV = 0\<rparr>"

definition mp1_reset :: MP1Fdcan where
  "mp1_reset =
     \<lparr>FrameFormat = 0, AutoRetransmission = True, TransmitPause = False, ProtocolException = False, DataPrescaler = 1,
      DataSyncJumpWidth = 1, DataTimeSeg1 = 1, DataTimeSeg2 = 1, StdFiltersNbr = 2, ExtFiltersNbr = 0, TxFifoQueueMode = 0,
      hal_State = HAL_FDCAN_STATE_RESET, ErrorCode = 0, LatestTxFifoQRequest = 0, msgRam = ram_reset,
      message_RAM = \<lambda>_. 0, CCCR = 1, TEST = 0, PSR = 0, NBTP = 0, DBTP = 0, TXBC = 0, TXFQS = 8, RXF0S = 0, RXF1S = 0,
      ILS = 0, ILE = 0, IE = 0, TXBTIE = 0, TXBCIE = 0, MessageRAMOffset = 0, RxFifo0ElmtsNbr = 16, RxFifo0ElmtSize = 4,
      RxFifo1ElmtsNbr = 0, RxFifo1ElmtSize = 4, RxBuffersNbr = 0, RxBufferSize = 4, TxEventsNbr = 0, TxBuffersNbr = 0,
      TxFifoQueueElmtsNbr = 8, TxElmtSize = 4, GFC = 0, SIDFC = 0, XIDFC = 0, RXF0C = 0, RXF1C = 0, RXBC = 0, TXEFC = 0,
      RXESC = 0, TXESC = 0, TTOCF = 0, CCU_IE = 0\<rparr>"

text \<open>A started driver on a controller.\<close>

definition on_controller :: "'h \<Rightarrow> 'h CanDrv" where
  "on_controller h =
     \<lparr>hfdcan1 = h, hfdcan1_Init = sensor_can_init, s_busOffPending = False, s_busOffTimer = 0,
      s_stats = \<lparr>txQueued = 0, txDropped = 0, rxCount = 0, busOffCount = 0\<rparr>, tx_trace = []\<rparr>"

definition log_frame :: "CanDrv_Frame_t \<Rightarrow> 'h CanDrv \<Rightarrow> 'h CanDrv" where
  "log_frame f v = v\<lparr>tx_trace := tx_trace v @ [f]\<rparr>"

lemma log_frame_simps [simp]: "hfdcan1 (log_frame f v) = hfdcan1 v" "tx_trace (log_frame f v) = tx_trace v @ [f]"
  by (simp_all add: log_frame_def)

lemma stored_as_shift: "stored_as m a (\<lambda>x. m (x - b + a)) b"
  by (simp add: stored_as_def ram_bytes_def ram_byte_def algebra_simps)

subsection \<open>From the driver of one ECU to the client of the other\<close>

definition mp1_rx_address :: "'m MP1Fdcan_scheme \<Rightarrow> nat \<Rightarrow> u32" where
  "mp1_rx_address h i = RxFIFO0SA (msgRam h)
     + of_nat ((unat (mp1_get h) + i) mod unat (RxFifo0ElmtsNbr h)) * (RxFifo0ElmtSize h * 4)"

definition g4_rx_address :: "'m G4Fdcan_scheme \<Rightarrow> nat \<Rightarrow> u32" where
  "g4_rx_address h i = RxFIFO0SA (msgRam h) + of_nat ((unat (g4_get h) + i) mod 3) * SRAMCAN_RF0_SIZE"

text \<open>What the indication of a receive interrupt sees: each frame with the state of the controller after its element was freed.\<close>

definition indicated ::
  "(CanDrv_Frame_t \<Rightarrow> ('h, 'm) CanDrv_scheme \<Rightarrow> ('h, 'm) CanDrv_scheme) \<Rightarrow> CanDrv_Frame_t list \<Rightarrow> 'h list \<Rightarrow>
   ('h, 'm) CanDrv_scheme \<Rightarrow> ('h, 'm) CanDrv_scheme" where
  "indicated ind fs hs s = fold (\<lambda>(f, h) s. ind f (count_received (s\<lparr>hfdcan1 := h\<rparr>))) (zip fs hs) s"

text \<open>C13: the CAN path down to the message RAM, over both HALs: whatever frames the Sensor ECU's driver has reported as
  written, once the Control ECU's controller has stored them in its FIFO, the receive interrupt there returns, with the FIFO empty, and has handed
  exactly these frames to its client, in order, each with its identifier, its length and its bytes, though the two HALs
  encode the length differently.\<close>

theorem Frames_cross_message_RAM:
  assumes "\<And>i. i < length fs \<Longrightarrow> sensor_CanDrv_Write (g4_hal c) (Some (fs ! i)) (s i) = (CANDRV_OK, s' i) \<and>
      length (frame_data (fs ! i)) = 8 \<and>
      stored_as (message_RAM (hfdcan1 (s' i))) (g4_tx_address (hfdcan1 (s i))) (message_RAM (hfdcan1 w)) (mp1_rx_address (hfdcan1 w) i)"
    and "tx_quiet c" "mp1_acks c'" "hal_State (hfdcan1 w) = HAL_FDCAN_STATE_BUSY" "RXF0C (hfdcan1 w) AND mp1_RXFC_FS \<noteq> 0"
    and "mp1_GetRxFifoFillLevel FDCAN_RX_FIFO0 (hfdcan1 w) = of_nat (length fs)"
    and "unat (mp1_get (hfdcan1 w)) < unat (RxFifo0ElmtsNbr (hfdcan1 w))" "unat (RxFifo0ElmtsNbr (hfdcan1 w)) \<le> 64"
    and "length fs \<le> unat (RxFifo0ElmtsNbr (hfdcan1 w))" "\<And>f v. hfdcan1 (ind f v) = hfdcan1 v"
  shows "\<exists>hs. length hs = length fs \<and> mp1_GetRxFifoFillLevel FDCAN_RX_FIFO0 (last (hfdcan1 w # hs)) = 0 \<and>
    control_RxFifo0Callback (mp1_hal c') (Some ind) FDCAN_IT_RX_FIFO0_NEW_MESSAGE w = Some (indicated ind (map arrived fs) hs w)"
proof -
  have "rx_element (message_RAM (hfdcan1 w)) (mp1_rx_address (hfdcan1 w) i) (arrived (fs ! i))" if "i < length fs" for i
    using stored_rx_element sensor_write_element assms(1) [OF that] assms(2) by blast
  then have "mp1_waiting c' (hfdcan1 w) (map arrived fs)"
    using assms(3-9) by (simp add: mp1_waiting_def fifo_holds_def mp1_rx_address_def)
  from mp1_rx.drains [OF this, of ind] assms(10) obtain hs where "length hs = length fs" "mp1_waiting c' (last (hfdcan1 w # hs)) []"
    "control_RxLoop (mp1_hal c') (Some ind) w = Some (indicated ind (map arrived fs) hs w)"
    by (auto simp only: indicated_def length_map)
  then show ?thesis
    by (intro exI [of _ hs]) (simp add: control_RxFifo0Callback_def FDCAN_IT_RX_FIFO0_NEW_MESSAGE_def mp1_waiting_def)
qed

text \<open>A frame of eight bytes, and a copy of its element in the FIFO of the other controller.\<close>

definition eight_bytes :: CanDrv_Frame_t where
  "eight_bytes = \<lparr>frame_id = 0x100, frame_dlc = 8, frame_data = [1, 2, 3, 4, 5, 6, 7, 8]\<rparr>"

theorem Frames_cross_message_RAM_witness:
  "\<exists>s' w'. sensor_CanDrv_Write (g4_hal (demo_ctrl (\<lambda>_ h. h))) (Some eight_bytes)
       (on_controller (g4_reset\<lparr>hal_State := HAL_FDCAN_STATE_BUSY\<rparr>)) = (CANDRV_OK, s') \<and>
     control_RxFifo0Callback (mp1_hal mp1_demo_ctrl) (Some log_frame) FDCAN_IT_RX_FIFO0_NEW_MESSAGE
       (on_controller (mp1_reset\<lparr>hal_State := HAL_FDCAN_STATE_BUSY, RXF0C := 0x100000, RXF0S := 1,
          message_RAM := \<lambda>x. message_RAM (hfdcan1 s') (x - 0 + 0)\<rparr>)) = Some w' \<and>
     tx_trace w' = [eight_bytes]"
proof -
  define s where "s = on_controller (g4_reset\<lparr>hal_State := HAL_FDCAN_STATE_BUSY\<rparr>)"
  obtain st s' where w: "sensor_CanDrv_Write (g4_hal (demo_ctrl (\<lambda>_ h. h))) (Some eight_bytes) s = (st, s')" by fastforce
  have st: "st = CANDRV_OK"
    using w by (simp add: sensor_CanDrv_Write_def g4_hal_def hal_call_def g4_AddMessageToTxFifoQ_def s_def on_controller_def
        g4_reset_def g4_GetTxFifoFreeLevel_def g4_TXFQS_TFFL_def TXFQS_TFQF_def eight_bytes_def CANDRV_MAX_DLC_def
        CANDRV_MAX_STD_ID_def Let_def)
  define v where "v = on_controller (mp1_reset\<lparr>hal_State := HAL_FDCAN_STATE_BUSY, RXF0C := 0x100000, RXF0S := 1,
      message_RAM := \<lambda>x. message_RAM (hfdcan1 s') (x - 0 + 0)\<rparr>)"
  have addr: "g4_tx_address (hfdcan1 s) = 0" "mp1_rx_address (hfdcan1 v) 0 = 0"
    by (simp_all add: g4_tx_address_def mp1_rx_address_def mp1_get_def s_def v_def on_controller_def g4_reset_def
        mp1_reset_def ram_reset_def g4_TXFQS_TFQPI_def mp1_RXFS_GI_def)
  have ram: "message_RAM (hfdcan1 v) = (\<lambda>x. message_RAM (hfdcan1 s') (x - 0 + 0))"
    by (simp add: v_def on_controller_def)
  have sent: "\<And>i. i < length [eight_bytes] \<Longrightarrow>
      sensor_CanDrv_Write (g4_hal (demo_ctrl (\<lambda>_ h. h))) (Some ([eight_bytes] ! i)) s = (CANDRV_OK, s') \<and>
      length (frame_data ([eight_bytes] ! i)) = 8 \<and>
      stored_as (message_RAM (hfdcan1 s')) (g4_tx_address (hfdcan1 s)) (message_RAM (hfdcan1 v)) (mp1_rx_address (hfdcan1 v) i)"
    using w st addr ram stored_as_shift [of "message_RAM (hfdcan1 s')" 0 0] by (simp add: eight_bytes_def)
  have quiet: "tx_quiet (demo_ctrl (\<lambda>_ h. h) :: G4Fdcan FdcanCtrl)" by (simp add: tx_quiet_def demo_ctrl_def)
  have busy: "hal_State (hfdcan1 v) = HAL_FDCAN_STATE_BUSY" "RXF0C (hfdcan1 v) AND mp1_RXFC_FS \<noteq> 0"
    "mp1_GetRxFifoFillLevel FDCAN_RX_FIFO0 (hfdcan1 v) = of_nat (length [eight_bytes])"
    "unat (mp1_get (hfdcan1 v)) < unat (RxFifo0ElmtsNbr (hfdcan1 v))" "unat (RxFifo0ElmtsNbr (hfdcan1 v)) \<le> 64"
    "length [eight_bytes] \<le> unat (RxFifo0ElmtsNbr (hfdcan1 v))"
    by (simp_all add: v_def on_controller_def mp1_reset_def mp1_RXFC_FS_def mp1_GetRxFifoFillLevel_def mp1_RXFS_FL_def
        mp1_get_def mp1_RXFS_GI_def)
  obtain hs where "length hs = Suc 0"
    "control_RxFifo0Callback (mp1_hal mp1_demo_ctrl) (Some log_frame) FDCAN_IT_RX_FIFO0_NEW_MESSAGE v
      = Some (indicated log_frame (map arrived [eight_bytes]) hs v)"
    using Frames_cross_message_RAM [OF sent quiet mp1_demo_acks busy, of log_frame] by auto
  moreover have "tx_trace (indicated log_frame (map arrived [eight_bytes]) hs v) = [eight_bytes]"
    using \<open>length hs = Suc 0\<close>
    by (auto simp: length_Suc_conv indicated_def arrived_def eight_bytes_def v_def on_controller_def count_received_def)
  ultimately show ?thesis using w st by (auto simp: s_def v_def)
qed

text \<open>The other direction: requests and responses of the diagnostic module.\<close>

theorem Frames_cross_back:
  assumes "\<And>i. i < length fs \<Longrightarrow> control_CanDrv_Write (mp1_hal c) (Some (fs ! i)) (s i) = (CANDRV_OK, s' i) \<and>
      length (frame_data (fs ! i)) = 8 \<and>
      stored_as (message_RAM (hfdcan1 (s' i))) (mp1_tx_address (hfdcan1 (s i))) (message_RAM (hfdcan1 w)) (g4_rx_address (hfdcan1 w) i)"
    and "tx_quiet c" "g4_acks c'" "hal_State (hfdcan1 w) = HAL_FDCAN_STATE_BUSY" "RXGFC (hfdcan1 w) AND RXGFC_F0OM = 0"
    and "g4_GetRxFifoFillLevel FDCAN_RX_FIFO0 (hfdcan1 w) = of_nat (length fs)"
    and "unat (g4_get (hfdcan1 w)) < 3" "length fs \<le> 3" "\<And>f v. hfdcan1 (ind f v) = hfdcan1 v"
  shows "\<exists>hs. length hs = length fs \<and> g4_GetRxFifoFillLevel FDCAN_RX_FIFO0 (last (hfdcan1 w # hs)) = 0 \<and>
    sensor_RxFifo0Callback (g4_hal c') (Some ind) FDCAN_IT_RX_FIFO0_NEW_MESSAGE w = Some (indicated ind (map arrived fs) hs w)"
proof -
  have "rx_element (message_RAM (hfdcan1 w)) (g4_rx_address (hfdcan1 w) i) (arrived (fs ! i))" if "i < length fs" for i
    using stored_rx_element control_write_element assms(1) [OF that] assms(2) by blast
  then have "g4_waiting c' (hfdcan1 w) (map arrived fs)"
    using assms(3-8) by (simp add: g4_waiting_def fifo_holds_def g4_rx_address_def)
  from g4_rx.drains [OF this, of ind] assms(9) obtain hs where "length hs = length fs" "g4_waiting c' (last (hfdcan1 w # hs)) []"
    "sensor_RxLoop (g4_hal c') (Some ind) w = Some (indicated ind (map arrived fs) hs w)"
    by (auto simp only: indicated_def length_map)
  then show ?thesis
    by (intro exI [of _ hs]) (simp add: sensor_RxFifo0Callback_def FDCAN_IT_RX_FIFO0_NEW_MESSAGE_def g4_waiting_def)
qed

subsection \<open>The copy of a received payload\<close>

lemma dlc_nibble: "unat (drop_bit 16 (w AND FDCAN_ELEMENT_MASK_DLC)) < 16"
proof -
  have mask: "FDCAN_ELEMENT_MASK_DLC = push_bit 16 (mask 4)" by (simp add: FDCAN_ELEMENT_MASK_DLC_def mask_eq_exp_minus_1)
  have "drop_bit 16 (w AND FDCAN_ELEMENT_MASK_DLC) = take_bit 4 (drop_bit 16 w)"
    unfolding mask by (rule bit_word_eqI) (auto simp: bit_simps)
  then show ?thesis using take_bit_nat_less_exp [of 4 "unat (drop_bit 16 w)"] by (simp add: unsigned_take_bit_eq)
qed

lemma DLCtoBytes_fits:
  assumes "n < 16"
  shows "DLCtoBytes ! n \<le> 8 \<longleftrightarrow> n \<le> 8" "8 < n \<Longrightarrow> 12 \<le> DLCtoBytes ! n"
proof -
  have "n \<in> set [0..<16]" using assms by simp
  moreover have "\<forall>n\<in>set [0..<16]. (DLCtoBytes ! n \<le> 8 \<longleftrightarrow> n \<le> 8) \<and> (8 < n \<longrightarrow> 12 \<le> DLCtoBytes ! n)"
    by code_simp
  ultimately show "DLCtoBytes ! n \<le> 8 \<longleftrightarrow> n \<le> 8" "8 < n \<Longrightarrow> 12 \<le> DLCtoBytes ! n" by auto
qed

text \<open>C16: the copy of a received payload into \<open>frame.data\<close>, which both receive interrupts leave to the HAL and which has eight bytes,
  stays in that array exactly when the data length code is at most 8. A classic CAN frame may carry a code of 9 to 15 (eight
  data bytes on the bus): the HAL then writes 12 to 64 bytes, before the driver limits the length it reports to 8.\<close>

theorem Rx_copy_fits_iff:
  assumes "HAL_FDCAN_GetRxMessage (g4_hal c) h = (HAL_OK, header, bytes, h')"
    and "HAL_FDCAN_GetRxMessage (mp1_hal c') k = (HAL_OK, header', bytes', k')"
  shows "(length bytes \<le> unat CANDRV_MAX_DLC \<longleftrightarrow> rxDataLength header \<le> 8) \<and>
    (rxDataLength header > 8 \<longrightarrow> 12 \<le> length bytes \<and> frame_dlc (sensor_rx_frame header bytes) = 8) \<and>
    (length bytes' \<le> unat CANDRV_MAX_DLC \<longleftrightarrow> drop_bit 16 (rxDataLength header') \<le> 8) \<and>
    (drop_bit 16 (rxDataLength header') > 8 \<longrightarrow> 12 \<le> length bytes' \<and> frame_dlc (control_rx_frame header' bytes') = 8)"
proof -
  obtain full get where g4: "header = FDCAN_RxHeader.truncate (read_rx_header (drop_bit 16) (message_RAM h) (get :: u32))"
    "full = read_rx_header (drop_bit 16) (message_RAM h) get" "length bytes = DLCtoBytes ! unat (rxDataLength full)"
    using assms(1) by (auto simp: g4_hal_def g4_GetRxMessage_def ram_bytes_def Let_def split: if_split_asm)
  obtain full' get' where mp1: "header' = FDCAN_RxHeader.truncate (read_rx_header (\<lambda>d. d) (message_RAM k) (get' :: u32))"
    "full' = read_rx_header (\<lambda>d. d) (message_RAM k) get'"
    "length bytes' = DLCtoBytes ! unat (drop_bit 16 (rxDataLength full'))"
    using assms(2) by (auto simp: mp1_hal_def mp1_GetRxMessage_def ram_bytes_def Let_def split: if_split_asm sum.split_asm prod.split_asm)
  have len: "rxDataLength full = drop_bit 16 (message_RAM h (get + 4) AND FDCAN_ELEMENT_MASK_DLC)"
    "rxDataLength full' = message_RAM k (get' + 4) AND FDCAN_ELEMENT_MASK_DLC"
    by (simp_all add: g4(2) mp1(2) read_rx_header_def Let_def)
  have same: "rxDataLength header = rxDataLength full" "rxDataLength header' = rxDataLength full'"
    by (simp_all add: g4(1,2) mp1(1,2) FDCAN_RxHeader.defs)
  note fits = DLCtoBytes_fits [OF dlc_nibble]
  show ?thesis
    using fits
    by (simp add: g4(3) mp1(3) same len word_le_nat_alt word_less_nat_alt CANDRV_MAX_DLC_def sensor_rx_frame_def control_rx_frame_def
        DLC_SHIFT_def Let_def)
qed

theorem Rx_copy_fits_iff_witness:
  "\<exists>header bytes h'. HAL_FDCAN_GetRxMessage (g4_hal (demo_ctrl (\<lambda>_ h. h)))
      (g4_reset\<lparr>hal_State := HAL_FDCAN_STATE_BUSY, RXF0S := 1, message_RAM := \<lambda>_. 0x00090000\<rparr>) = (HAL_OK, header, bytes, h') \<and>
    length bytes > unat CANDRV_MAX_DLC \<and> frame_dlc (sensor_rx_frame header bytes) = 8"
proof -
  define h where "h = g4_reset\<lparr>hal_State := HAL_FDCAN_STATE_BUSY, RXF0S := 1, message_RAM := \<lambda>_. 0x00090000\<rparr>"
  define k where "k = mp1_reset\<lparr>hal_State := HAL_FDCAN_STATE_BUSY, RXF0C := 0x100000, RXF0S := 1\<rparr>"
  obtain header bytes h' where r: "HAL_FDCAN_GetRxMessage (g4_hal (demo_ctrl (\<lambda>_ h. h))) h = (HAL_OK, header, bytes, h')"
    and d: "rxDataLength header = 9"
    by (auto simp: g4_hal_def g4_GetRxMessage_def h_def g4_reset_def g4_GetRxFifoFillLevel_def g4_RXFS_FL_def Let_def
        FDCAN_RxHeader.defs read_rx_header_def FDCAN_ELEMENT_MASK_DLC_def)
  obtain header' bytes' k' where "HAL_FDCAN_GetRxMessage (mp1_hal (demo_ctrl (\<lambda>_ h. h))) k = (HAL_OK, header', bytes', k')"
    by (auto simp: mp1_hal_def mp1_GetRxMessage_def mp1_rx_element_def k_def mp1_reset_def mp1_RXFC_FS_def mp1_RXFS_FL_def Let_def)
  from Rx_copy_fits_iff [OF r this] d show ?thesis using r by (auto simp: h_def CANDRV_MAX_DLC_def)
qed

end
