(* ===== verification/FdcanSetup.thy ===== *)
theory FdcanSetup
  imports FdcanProps ControlMain
begin

section \<open>The configuration of the CAN controllers\<close>

text \<open>
  What the registers and the message RAM hold after both drivers have started, over the settings of \<open>MX_FDCAN1_Init\<close>:
  operating mode, bit timing, layout of the message RAM and acceptance filters; and \<open>HAL_FDCAN_Init\<close> returns.
\<close>

subsection \<open>Settings (MX_FDCAN1_Init)\<close>

definition sensor_fdcan_settings :: "'m G4Fdcan_scheme \<Rightarrow> 'm G4Fdcan_scheme" where
  "sensor_fdcan_settings s =
     s\<lparr>ClockDivider := 0, FrameFormat := 0, AutoRetransmission := True, TransmitPause := False,
       ProtocolException := False, DataPrescaler := 1, DataSyncJumpWidth := 1, DataTimeSeg1 := 1, DataTimeSeg2 := 1,
       StdFiltersNbr := 1, ExtFiltersNbr := 0, TxFifoQueueMode := 0\<rparr>"

definition control_fdcan_settings :: "'m MP1Fdcan_scheme \<Rightarrow> 'm MP1Fdcan_scheme" where
  "control_fdcan_settings s =
     s\<lparr>FrameFormat := 0, AutoRetransmission := True, TransmitPause := False,
       ProtocolException := False, DataPrescaler := 1, DataSyncJumpWidth := 1, DataTimeSeg1 := 1, DataTimeSeg2 := 1,
       MessageRAMOffset := 0, StdFiltersNbr := 2, ExtFiltersNbr := 0, RxFifo0ElmtsNbr := 16, RxFifo0ElmtSize := 4,
       RxFifo1ElmtsNbr := 0, RxFifo1ElmtSize := 4, RxBuffersNbr := 0, RxBufferSize := 4, TxEventsNbr := 0,
       TxBuffersNbr := 0, TxFifoQueueElmtsNbr := 8, TxFifoQueueMode := 0, TxElmtSize := 4\<rparr>"

subsection \<open>Which frames a controller stores\<close>

text \<open>
  The acceptance filtering the reference manuals describe: the first matching element of the standard filter list
  decides; a frame that matches none is treated as the global filter says. There are no extended filters here.
\<close>

datatype rx_target = To_FIFO0 | To_FIFO1 | Rejected | Other_action

datatype can_header = Std_data u32 | Std_remote u32 | Ext_data | Ext_remote

definition element_matches :: "u32 \<Rightarrow> u32 \<Rightarrow> bool" where
  "element_matches e i =
     (let t = drop_bit 30 e; a = drop_bit 16 e AND 0x7FF; b = e AND 0x7FF
      in if t = 0 then a \<le> i \<and> i \<le> b else if t = 1 then i = a \<or> i = b
         else if t = 2 then i AND b = a AND b else False)"

definition non_matching :: "u32 \<Rightarrow> rx_target" where
  "non_matching a = (if a = 0 then To_FIFO0 else if a = 1 then To_FIFO1 else Rejected)"

fun std_target :: "u32 list \<Rightarrow> u32 \<Rightarrow> u32 \<Rightarrow> rx_target" where
  "std_target [] anfs i = non_matching anfs"
| "std_target (e # es) anfs i =
     (let act = drop_bit 27 e AND 7
      in if act \<noteq> 0 \<and> element_matches e i then
           (if act = 1 then To_FIFO0 else if act = 2 then To_FIFO1 else if act = 3 then Rejected else Other_action)
         else std_target es anfs i)"

fun frame_target :: "u32 \<Rightarrow> u32 list \<Rightarrow> can_header \<Rightarrow> rx_target" where
  "frame_target gfc es (Std_data i) = std_target es (drop_bit 4 (gfc AND RXGFC_ANFS)) i"
| "frame_target gfc es (Std_remote i) =
     (if gfc AND RXGFC_RRFS \<noteq> 0 then Rejected else std_target es (drop_bit 4 (gfc AND RXGFC_ANFS)) i)"
| "frame_target gfc es Ext_data = non_matching (drop_bit 2 (gfc AND RXGFC_ANFE))"
| "frame_target gfc es Ext_remote =
     (if gfc AND RXGFC_RRFE \<noteq> 0 then Rejected else non_matching (drop_bit 2 (gfc AND RXGFC_ANFE)))"

text \<open>The filter list of each controller: at the start of its message RAM, or where SIDFC says.\<close>

definition g4_filters :: "'m G4Fdcan_scheme \<Rightarrow> u32 list" where
  "g4_filters h = map (\<lambda>k. message_RAM h (SRAMCAN_BASE + 4 * of_nat k)) [0..<unat (drop_bit 16 (RXGFC h AND RXGFC_LSS))]"

definition mp1_filters :: "'m MP1Fdcan_scheme \<Rightarrow> u32 list" where
  "mp1_filters h = map (\<lambda>k. message_RAM h (mp1_SRAMCAN_BASE + (SIDFC h AND 0xFFFC) + 4 * of_nat k))
     [0..<unat (drop_bit 16 (SIDFC h AND 0x00FF0000))]"

text \<open>The bit timing a controller runs with, read from NBTP.\<close>

definition nominal_timing :: "u32 \<Rightarrow> u32 \<times> u32 \<times> u32 \<times> u32" where
  "nominal_timing r = (drop_bit 16 (r AND 0x01FF0000) + 1, drop_bit 8 (r AND 0x0000FF00) + 1, (r AND 0x7F) + 1,
     drop_bit 25 (r AND 0xFE000000) + 1)"

definition timing_of :: "FDCAN_Init \<Rightarrow> u32 \<times> u32 \<times> u32 \<times> u32" where
  "timing_of i = (NominalPrescaler i, NominalTimeSeg1 i, NominalTimeSeg2 i, NominalSyncJumpWidth i)"

subsection \<open>Registers\<close>

lemma register_masks:
  "clear_bits b r AND m = r AND (NOT b AND m)"
  "set_bits b r AND m = (r AND m) OR (b AND m)"
  "modify_reg b v r AND m = (r AND (NOT b AND m)) OR (v AND m)"
  by (simp_all add: clear_bits_def set_bits_def modify_reg_def and.assoc bit.conj_disj_distrib2)

lemmas cccr_bits = FDCAN_CCCR_CCE_def FDCAN_CCCR_ASM_def FDCAN_CCCR_CSA_def FDCAN_CCCR_CSR_def FDCAN_CCCR_MON_def
  FDCAN_CCCR_DAR_def FDCAN_CCCR_TEST_def FDCAN_CCCR_PXHD_def FDCAN_CCCR_TXP_def FDCAN_FRAME_FD_BRS_def FDCAN_CCCR_INIT_def

text \<open>Classic CAN with automatic retransmission; out of any test or monitoring mode in the normal mode.\<close>

lemma configure_CCCR_mode:
  assumes "FrameFormat s = 0" "AutoRetransmission s"
  shows "CCCR (configure_CCCR i s) AND 0x340 = 0"
    "initMode i = FDCAN_MODE_NORMAL \<Longrightarrow> CCCR (configure_CCCR i s) AND 0x3E4 = 0"
  using assms
  by (simp_all add: configure_CCCR_def Let_def register_masks cccr_bits FDCAN_MODE_RESTRICTED_OPERATION_def
      FDCAN_MODE_NORMAL_def FDCAN_MODE_BUS_MONITORING_def split: if_splits)

lemma configure_keeps:
  "configure_timing i (configure_CCCR i s) = configure_CCCR i s\<lparr>NBTP := NBTP (configure_timing i s), DBTP := DBTP (configure_timing i s)\<rparr>"
  by (simp add: configure_timing_def configure_CCCR_def Let_def)

subsection \<open>HAL_FDCAN_Init\<close>

text \<open>The hardware leaves a part of the state alone while the code waits, and so does the pin set-up.\<close>

definition setup_keeps :: "('s \<Rightarrow> 'a) \<Rightarrow> 's FdcanCtrl \<Rightarrow> bool" where
  "setup_keeps sel c \<longleftrightarrow> (\<forall>s. sel (snd (poll c s)) = sel s \<and> sel (HAL_FDCAN_MspInit c s) = sel s)"

lemma wait_CCCR_keeps:
  assumes "wait_CCCR c busy start s = Some r"
  shows "setup_keeps sel c \<longrightarrow> sel (snd r) = sel s"
proof (rule wait_CCCR.raw_induct [OF _ assms, where P = "\<lambda>c busy start s r. setup_keeps sel c \<longrightarrow> sel (snd r) = sel s"])
  fix wait and c :: "'a Fdcan_scheme FdcanCtrl" and busy start s r
  assume IH: "\<And>c busy start s r. wait c busy start s = Some r \<Longrightarrow> setup_keeps sel c \<longrightarrow> sel (snd r) = sel s"
    and body: "(if busy (CCCR s)
      then let (tick, s1) = poll c s
           in if FDCAN_TIMEOUT_VALUE < tick - start then Some (False, s1) else wait c busy start s1
      else Some (True, s)) = Some r"
  obtain tick s1 where p: "poll c s = (tick, s1)" by fastforce
  show "setup_keeps sel c \<longrightarrow> sel (snd r) = sel s"
  proof
    assume c: "setup_keeps sel c"
    then have "sel s1 = sel s" unfolding setup_keeps_def by (metis p snd_conv)
    then show "sel (snd r) = sel s"
      using body p c IH [of c busy start s1 r] by (auto split: if_splits)
  qed
qed

lemma enter_configuration_keeps:
  assumes "enter_configuration c s = Some (HAL_OK, s')" "setup_keeps sel c"
    and "\<And>s v. sel (s\<lparr>CCCR := v\<rparr>) = sel s"
  shows "sel s' = sel s"
proof -
  have poll: "sel (snd (poll c x)) = sel x" "sel (HAL_FDCAN_MspInit c x) = sel x" for x
    using assms(2) by (simp_all add: setup_keeps_def)
  have wait: "sel y = sel x" if "wait_CCCR c busy start x = Some (ok, y)" for busy start x ok y
    using wait_CCCR_keeps [OF that] assms(2) by auto
  define s0 where "s0 = (if hal_State s = HAL_FDCAN_STATE_RESET then HAL_FDCAN_MspInit c s else s)"
  obtain t1 s1 where s1: "poll c (s0\<lparr>CCCR := clear_bits FDCAN_CCCR_CSR (CCCR s0)\<rparr>) = (t1, s1)" by fastforce
  from assms(1) obtain s2 where s2: "wait_CCCR c (\<lambda>r. r AND FDCAN_CCCR_CSA = FDCAN_CCCR_CSA) t1 s1 = Some (True, s2)"
    by (auto simp: enter_configuration_def s0_def [symmetric] s1 Let_def split: option.splits bool.splits)
  obtain t2 s3 where s3: "poll c (s2\<lparr>CCCR := set_bits FDCAN_CCCR_INIT (CCCR s2)\<rparr>) = (t2, s3)" by fastforce
  from assms(1) obtain s4 where s4: "wait_CCCR c (\<lambda>r. r AND FDCAN_CCCR_INIT = 0) t2 s3 = Some (True, s4)"
      "s' = s4\<lparr>CCCR := set_bits FDCAN_CCCR_CCE (CCCR s4)\<rparr>"
    by (auto simp: enter_configuration_def s0_def [symmetric] s1 s2 s3 Let_def split: option.splits bool.splits)
  have "sel s0 = sel s" using poll(2) by (simp add: s0_def)
  moreover have "sel s1 = sel s0" "sel s3 = sel s2"
    using poll(1) [of "s0\<lparr>CCCR := clear_bits FDCAN_CCCR_CSR (CCCR s0)\<rparr>"]
      poll(1) [of "s2\<lparr>CCCR := set_bits FDCAN_CCCR_INIT (CCCR s2)\<rparr>"] s1 s3 assms(3) by simp_all
  ultimately show ?thesis using wait [OF s2] wait [OF s4(1)] s4(2) assms(3) by simp
qed

text \<open>The ticks a waiting loop sees: whatever the hardware does, they pass every timeout.\<close>

fun polled :: "'s FdcanCtrl \<Rightarrow> nat \<Rightarrow> 's \<Rightarrow> 's" where
  "polled c 0 s = s"
| "polled c (Suc n) s = polled c n (snd (poll c s))"

definition ticks_pass :: "'s FdcanCtrl \<Rightarrow> bool" where
  "ticks_pass c \<longleftrightarrow> (\<forall>s start. \<exists>n. fst (poll c (polled c n s)) - start > FDCAN_TIMEOUT_VALUE)"

lemma wait_CCCR_returns:
  assumes "ticks_pass c"
  shows "\<exists>r. wait_CCCR c busy start s = Some r"
proof -
  obtain n where "fst (poll c (polled c n s)) - start > FDCAN_TIMEOUT_VALUE" using assms by (auto simp: ticks_pass_def)
  then show ?thesis
  proof (induction n arbitrary: s)
    case 0
    then show ?case by (subst wait_CCCR.simps) (auto split: prod.split)
  next
    case (Suc n)
    then show ?case using Suc.IH [of "snd (poll c s)"] by (subst wait_CCCR.simps) (auto split: prod.split)
  qed
qed

lemma enter_configuration_returns:
  assumes "ticks_pass c"
  shows "\<exists>st s'. enter_configuration c s = Some (st, s') \<and>
    (st = HAL_OK \<or> st = HAL_ERROR \<and> hal_State s' = HAL_FDCAN_STATE_ERROR \<and> ErrorCode s' AND HAL_FDCAN_ERROR_TIMEOUT \<noteq> 0)"
proof -
  define s0 where "s0 = (if hal_State s = HAL_FDCAN_STATE_RESET then HAL_FDCAN_MspInit c s else s)"
  obtain t1 s1 where s1: "poll c (s0\<lparr>CCCR := clear_bits FDCAN_CCCR_CSR (CCCR s0)\<rparr>) = (t1, s1)" by fastforce
  obtain ok s2 where s2: "wait_CCCR c (\<lambda>r. r AND FDCAN_CCCR_CSA = FDCAN_CCCR_CSA) t1 s1 = Some (ok, s2)"
    using wait_CCCR_returns [OF assms] by (metis prod.collapse)
  obtain t2 s3 where s3: "poll c (s2\<lparr>CCCR := set_bits FDCAN_CCCR_INIT (CCCR s2)\<rparr>) = (t2, s3)" by fastforce
  obtain ok' s4 where s4: "wait_CCCR c (\<lambda>r. r AND FDCAN_CCCR_INIT = 0) t2 s3 = Some (ok', s4)"
    using wait_CCCR_returns [OF assms] by (metis prod.collapse)
  show ?thesis
    by (cases ok; cases ok')
      (simp_all add: enter_configuration_def s0_def [symmetric] s1 s2 s3 s4 Let_def hal_timeout_def hal_error_def
        HAL_FDCAN_ERROR_TIMEOUT_def and_or_absorb_ne0)
qed

text \<open>C17: the initialisation of both HALs, whose loops wait for the controller, returns whatever the controller does, as
  long as the tick goes on (32-bit, with wrap-around): successfully, or with an error that is kept in the handle.\<close>

theorem HAL_Init_returns:
  assumes "ticks_pass c" "ticks_pass c'"
  shows "(\<exists>st s'. g4_Init c i s = Some (st, s') \<and> (st = HAL_OK \<and> hal_State s' = HAL_FDCAN_STATE_READY \<or>
      st = HAL_ERROR \<and> hal_State s' = HAL_FDCAN_STATE_ERROR \<and> ErrorCode s' \<noteq> 0)) \<and>
    (\<exists>st t'. mp1_Init c' i t = Some (st, t') \<and> (st = HAL_OK \<and> hal_State t' = HAL_FDCAN_STATE_READY \<or>
      st = HAL_ERROR \<and> hal_State t' = HAL_FDCAN_STATE_ERROR \<and> ErrorCode t' \<noteq> 0))"
proof
  from enter_configuration_returns [OF assms(1), of s] show "\<exists>st s'. g4_Init c i s = Some (st, s') \<and>
      (st = HAL_OK \<and> hal_State s' = HAL_FDCAN_STATE_READY \<or>
       st = HAL_ERROR \<and> hal_State s' = HAL_FDCAN_STATE_ERROR \<and> ErrorCode s' \<noteq> 0)"
    by (auto simp: g4_Init_def Let_def)
  from enter_configuration_returns [OF assms(2), of t] show "\<exists>st t'. mp1_Init c' i t = Some (st, t') \<and>
      (st = HAL_OK \<and> hal_State t' = HAL_FDCAN_STATE_READY \<or>
       st = HAL_ERROR \<and> hal_State t' = HAL_FDCAN_STATE_ERROR \<and> ErrorCode t' \<noteq> 0)"
    by (auto simp: mp1_Init_def Let_def mp1_CalcultateRamBlockAddresses_def mp1_configure_areas_def hal_error_def
        HAL_FDCAN_ERROR_PARAM_def HAL_FDCAN_ERROR_NONE_def split: if_splits)
qed

text \<open>A controller that never leaves the sleep mode, with a tick that goes on.\<close>

definition stuck_ctrl :: "'m Fdcan_scheme FdcanCtrl" where
  "stuck_ctrl = (demo_ctrl (\<lambda>_ s. s))\<lparr>poll := \<lambda>s. (PSR s, s\<lparr>PSR := PSR s + 1, CCCR := FDCAN_CCCR_CSA\<rparr>)\<rparr>"

lemma stuck_ticks: "ticks_pass (stuck_ctrl :: 'm Fdcan_scheme FdcanCtrl)"
proof -
  have psr: "PSR (polled stuck_ctrl n s) = PSR s + of_nat n" for n and s :: "'m Fdcan_scheme"
    by (induction n arbitrary: s) (simp_all add: stuck_ctrl_def demo_ctrl_def)
  show ?thesis
    unfolding ticks_pass_def
  proof (intro allI)
    fix s :: "'m Fdcan_scheme" and start
    have "fst (poll stuck_ctrl (polled stuck_ctrl (unat (start + 11 - PSR s)) s)) - start = 11"
      using psr [of "unat (start + 11 - PSR s)" s] by (simp add: stuck_ctrl_def demo_ctrl_def)
    then have "fst (poll stuck_ctrl (polled stuck_ctrl (unat (start + 11 - PSR s)) s)) - start > FDCAN_TIMEOUT_VALUE"
      by (simp add: FDCAN_TIMEOUT_VALUE_def)
    then show "\<exists>n. fst (poll stuck_ctrl (polled stuck_ctrl n s)) - start > FDCAN_TIMEOUT_VALUE" by blast
  qed
qed

theorem HAL_Init_returns_witness:
  "\<exists>st s'. g4_Init stuck_ctrl sensor_can_init g4_reset = Some (st, s') \<and> (st = HAL_OK \<or> ErrorCode s' \<noteq> 0)"
  using HAL_Init_returns [OF stuck_ticks stuck_ticks, of sensor_can_init g4_reset mp1_reset] by blast

subsection \<open>The Sensor ECU\<close>

definition g4_handle :: "'m G4Fdcan_scheme \<Rightarrow> u32 \<times> u32 \<times> bool \<times> u32 \<times> u32 \<times> u32" where
  "g4_handle s = (ClockDivider s, FrameFormat s, AutoRetransmission s, StdFiltersNbr s, ExtFiltersNbr s, TxFifoQueueMode s)"

text \<open>A handle after a successful \<open>HAL_FDCAN_Init\<close> with the settings of \<open>MX_FDCAN1_Init\<close>.\<close>

definition g4_ready :: "FDCAN_Init \<Rightarrow> 'm G4Fdcan_scheme \<Rightarrow> bool" where
  "g4_ready i h \<longleftrightarrow> g4_handle h = (0, 0, True, 1, 0, 0) \<and> hal_State h = HAL_FDCAN_STATE_READY \<and>
     StandardFilterSA (msgRam h) = SRAMCAN_BASE \<and> RxFIFO0SA (msgRam h) = SRAMCAN_BASE + 0xB0 \<and>
     TxFIFOQSA (msgRam h) = SRAMCAN_BASE + 0x278 \<and> RXGFC h AND RXGFC_LSS = 0x10000 \<and> RXGFC h AND RXGFC_LSE = 0 \<and>
     NBTP h = bit_timing_register (NominalSyncJumpWidth i) (NominalTimeSeg1 i) (NominalTimeSeg2 i) (NominalPrescaler i) \<and>
     CCCR h AND 0x340 = 0 \<and> (initMode i = FDCAN_MODE_NORMAL \<longrightarrow> CCCR h AND 0x3E4 = 0)"

lemmas sramcan = SRAMCAN_FLS_NBR_def SRAMCAN_FLE_NBR_def SRAMCAN_RF0_NBR_def SRAMCAN_RF1_NBR_def SRAMCAN_TEF_NBR_def
  SRAMCAN_TFQ_NBR_def SRAMCAN_FLS_SIZE_def SRAMCAN_FLE_SIZE_def SRAMCAN_RF0_SIZE_def SRAMCAN_RF1_SIZE_def
  SRAMCAN_TEF_SIZE_def SRAMCAN_TFQ_SIZE_def SRAMCAN_FLSSA_def SRAMCAN_FLESA_def SRAMCAN_RF0SA_def SRAMCAN_RF1SA_def
  SRAMCAN_TEFSA_def SRAMCAN_TFQSA_def SRAMCAN_SIZE_def

lemma g4_Init_ready:
  assumes "g4_Init c i h = Some (HAL_OK, h')" "setup_keeps g4_handle c" "g4_handle h = (0, 0, True, 1, 0, 0)"
  shows "g4_ready i h'"
proof -
  from assms(1) obtain s1 where s1: "enter_configuration c h = Some (HAL_OK, s1)"
    by (auto simp: g4_Init_def Let_def split: option.splits prod.splits if_splits)
  have keep: "g4_handle s1 = g4_handle h"
    by (rule enter_configuration_keeps [OF s1 assms(2)]) (simp add: g4_handle_def)
  define s2 where "s2 = s1\<lparr>CKDIV := ClockDivider s1\<rparr>"
  have s2: "FrameFormat s2 = 0" "AutoRetransmission s2" "g4_handle s2 = (0, 0, True, 1, 0, 0)"
    using keep assms(3) by (simp_all add: s2_def g4_handle_def)
  note mode = configure_CCCR_mode [OF s2(1,2), of i]
  have h': "h' = (g4_CalcultateRamBlockAddresses ((configure_timing i (configure_CCCR i s2))
      \<lparr>TXBC := set_bits (TxFifoQueueMode (configure_timing i (configure_CCCR i s2))) (TXBC (configure_timing i (configure_CCCR i s2)))\<rparr>))
      \<lparr>LatestTxFifoQRequest := 0, ErrorCode := HAL_FDCAN_ERROR_NONE, hal_State := HAL_FDCAN_STATE_READY\<rparr>"
    using assms(1) s1 by (simp add: g4_Init_def s2_def Let_def)
  have timing: "CCCR (configure_timing i x) = CCCR x" "g4_handle (configure_timing i x) = g4_handle x"
    "NBTP (configure_timing i x) = bit_timing_register (NominalSyncJumpWidth i) (NominalTimeSeg1 i) (NominalTimeSeg2 i) (NominalPrescaler i)"
    for x :: "'a G4Fdcan_scheme"
    by (simp_all add: configure_timing_def g4_handle_def Let_def)
  have cccr: "g4_handle (configure_CCCR i x) = g4_handle x" for x :: "'a G4Fdcan_scheme"
    by (simp add: configure_CCCR_def g4_handle_def Let_def)
  have set: "StdFiltersNbr (configure_timing i (configure_CCCR i s2)) = 1" "ExtFiltersNbr (configure_timing i (configure_CCCR i s2)) = 0"
    using s2(3) timing(2) [of "configure_CCCR i s2"] cccr [of s2] by (simp_all add: g4_handle_def)
  have hand: "g4_handle h' = (0, 0, True, 1, 0, 0)"
    using s2(3) timing(2) [of "configure_CCCR i s2"] cccr [of s2]
    by (simp add: h' g4_CalcultateRamBlockAddresses_def g4_handle_def)
  show ?thesis
    unfolding g4_ready_def
    using hand mode by (simp add: h' g4_CalcultateRamBlockAddresses_def timing set register_masks RXGFC_LSS_def RXGFC_LSE_def sramcan)
qed

text \<open>A started controller; the request of a transmission leaves its configuration alone.\<close>

definition g4_configured :: "FDCAN_Init \<Rightarrow> 'm G4Fdcan_scheme \<Rightarrow> bool" where
  "g4_configured i h \<longleftrightarrow>
     NBTP h = bit_timing_register (NominalSyncJumpWidth i) (NominalTimeSeg1 i) (NominalTimeSeg2 i) (NominalPrescaler i) \<and>
     CCCR h AND 0x341 = 0 \<and> (initMode i = FDCAN_MODE_NORMAL \<longrightarrow> CCCR h AND 0x3E5 = 0) \<and>
     RXGFC h AND 0x3F = 0x2B \<and> RXGFC h AND RXGFC_LSS = 0x10000 \<and> RXGFC h AND RXGFC_LSE = 0 \<and>
     message_RAM h SRAMCAN_BASE = 0x080007FF \<and> TxFIFOQSA (msgRam h) = SRAMCAN_BASE + 0x278"

definition g4_tx_keeps :: "'m G4Fdcan_scheme FdcanCtrl \<Rightarrow> bool" where
  "g4_tx_keeps c \<longleftrightarrow> (\<forall>v s. (message_RAM (write_TXBAR c v s), msgRam (write_TXBAR c v s), NBTP (write_TXBAR c v s),
     CCCR (write_TXBAR c v s), RXGFC (write_TXBAR c v s)) = (message_RAM s, msgRam s, NBTP s, CCCR s, RXGFC s))"

lemma hal_call_result: "hal_call f s = (st, s') \<Longrightarrow> f (hfdcan1 s) = (st, hfdcan1 s') \<and> hfdcan1_Init s' = hfdcan1_Init s"
  by (auto simp: hal_call_def split: prod.splits)

lemma g4_filters_configured:
  assumes "sensor_ConfigureFilters (g4_hal c) s = (CANDRV_OK, s')" "g4_ready i (hfdcan1 s)"
  shows "hfdcan1 s' = (hfdcan1 s)\<lparr>message_RAM := (message_RAM (hfdcan1 s))(SRAMCAN_BASE := 0x080007FF),
      RXGFC := modify_reg 0x3F 0x2B (RXGFC (hfdcan1 s))\<rparr> \<and> hfdcan1_Init s' = hfdcan1_Init s"
  using assms
  by (auto simp: sensor_ConfigureFilters_def g4_hal_def g4_ConfigFilter_def g4_ConfigGlobalFilter_def hal_call_def g4_ready_def
      Let_def FDCAN_STANDARD_ID_def FDCAN_FILTER_RANGE_def FDCAN_FILTER_TO_RXFIFO0_def CANDRV_MAX_STD_ID_def FDCAN_REJECT_def
      FDCAN_REJECT_REMOTE_def RXGFC_ANFS_def RXGFC_ANFE_def RXGFC_RRFS_def RXGFC_RRFE_def split: if_splits)

lemma g4_start_configured:
  assumes "g4_ready i (hfdcan1 s)" "sensor_ConfigureFilters (g4_hal c) s = (CANDRV_OK, s2)"
    and "hal_call (g4_ActivateNotification its buffers) s2 = (HAL_OK, s3)" "hal_call fdcan_Start s3 = (HAL_OK, s4)"
  shows "g4_configured i (hfdcan1 s4) \<and> hfdcan1_Init s4 = hfdcan1_Init s"
proof -
  note r = assms(1) [unfolded g4_ready_def]
  note f = g4_filters_configured [OF assms(2,1)]
  have s3: "NBTP (hfdcan1 s3) = NBTP (hfdcan1 s2)" "CCCR (hfdcan1 s3) = CCCR (hfdcan1 s2)" "RXGFC (hfdcan1 s3) = RXGFC (hfdcan1 s2)"
    "message_RAM (hfdcan1 s3) = message_RAM (hfdcan1 s2)" "msgRam (hfdcan1 s3) = msgRam (hfdcan1 s2)"
    "hfdcan1_Init s3 = hfdcan1_Init s2"
    using assms(3) by (auto simp: hal_call_def g4_ActivateNotification_def Let_def split: if_splits)
  have s4: "hfdcan1 s4 = (hfdcan1 s3)\<lparr>hal_State := HAL_FDCAN_STATE_BUSY, CCCR := clear_bits FDCAN_CCCR_INIT (CCCR (hfdcan1 s3)),
      ErrorCode := HAL_FDCAN_ERROR_NONE\<rparr>" "hfdcan1_Init s4 = hfdcan1_Init s3"
    using assms(4) by (auto simp: hal_call_def fdcan_Start_def split: if_splits)
  show ?thesis
    using r f by (simp add: g4_configured_def s4 s3 register_masks FDCAN_CCCR_INIT_def RXGFC_LSS_def RXGFC_LSE_def)
qed

text \<open>\<open>CanDrv_Init\<close> after its choice of the mode.\<close>

definition sensor_start ::
  "('h, 'n) FdcanHal_scheme \<Rightarrow> ('h, 'm) CanDrv_scheme \<Rightarrow> CanDrv_Status_t \<times> ('h, 'm) CanDrv_scheme" where
  "sensor_start hal s1 =
     (let (cs, s2) = sensor_ConfigureFilters hal s1 in
      if cs \<noteq> CANDRV_OK then (CANDRV_ERROR, s2)
      else
        (let (st3, s3) = hal_call (HAL_FDCAN_ActivateNotification hal (FDCAN_IT_RX_FIFO0_NEW_MESSAGE OR sensor_IT_BUS_OFF) 0) s2 in
         if st3 \<noteq> HAL_OK then (CANDRV_ERROR, s3)
         else
           (let (st4, s4) = hal_call (HAL_FDCAN_Start hal) s3 in
            if st4 \<noteq> HAL_OK then (CANDRV_ERROR, s4) else (CANDRV_OK, s4))))"

lemma sensor_Init_start:
  "sensor_CanDrv_Init hal mode s =
     (if mode = CANDRV_MODE_INTERNAL_LOOPBACK then
        (let s0 = s\<lparr>hfdcan1_Init := (hfdcan1_Init s)\<lparr>initMode := FDCAN_MODE_INTERNAL_LOOPBACK\<rparr>\<rparr>;
             (st, s1) = hal_call (HAL_FDCAN_Init hal (hfdcan1_Init s0)) s0
         in if st \<noteq> HAL_OK then (CANDRV_ERROR, s1) else sensor_start hal s1)
      else sensor_start hal s)"
  by (simp add: sensor_CanDrv_Init_def sensor_start_def Let_def split: prod.split)

lemma sensor_start_configured:
  assumes "sensor_start (g4_hal c) s = (CANDRV_OK, s')" "g4_ready i (hfdcan1 s)"
  shows "g4_configured i (hfdcan1 s') \<and> hfdcan1_Init s' = hfdcan1_Init s"
proof -
  obtain cs s2 where s2: "sensor_ConfigureFilters (g4_hal c) s = (cs, s2)" by fastforce
  obtain st3 s3 where s3: "hal_call (g4_ActivateNotification (FDCAN_IT_RX_FIFO0_NEW_MESSAGE OR sensor_IT_BUS_OFF) 0) s2 = (st3, s3)"
    by fastforce
  obtain st4 s4 where s4: "hal_call fdcan_Start s3 = (st4, s4)" by fastforce
  have hal: "HAL_FDCAN_ActivateNotification (g4_hal c) = g4_ActivateNotification" "HAL_FDCAN_Start (g4_hal c) = fdcan_Start"
    by (simp_all add: g4_hal_def)
  have "cs = CANDRV_OK" "st3 = HAL_OK" "st4 = HAL_OK" "s' = s4"
    using assms(1) by (auto simp: sensor_start_def hal s2 s3 s4 split: if_splits)
  then show ?thesis using g4_start_configured [OF assms(2)] s2 s3 s4 by simp
qed

lemma sensor_Init_configured:
  assumes "sensor_CanDrv_Init (g4_hal c) mode s = (CANDRV_OK, s')" "g4_ready (hfdcan1_Init s) (hfdcan1 s)"
    and "setup_keeps g4_handle c"
  shows "g4_configured (hfdcan1_Init s') (hfdcan1 s') \<and> timing_of (hfdcan1_Init s') = timing_of (hfdcan1_Init s) \<and>
    (mode = CANDRV_MODE_NORMAL \<longrightarrow> hfdcan1_Init s' = hfdcan1_Init s)"
proof (cases "mode = CANDRV_MODE_INTERNAL_LOOPBACK")
  case True
  define i where "i = (hfdcan1_Init s)\<lparr>initMode := FDCAN_MODE_INTERNAL_LOOPBACK\<rparr>"
  obtain st s1 where c: "hal_call (HAL_FDCAN_Init (g4_hal c) i) (s\<lparr>hfdcan1_Init := i\<rparr>) = (st, s1)" by fastforce
  then have start: "st = HAL_OK" "sensor_start (g4_hal c) s1 = (CANDRV_OK, s')"
    using assms(1) True by (auto simp: sensor_Init_start i_def Let_def split: if_splits)
  have "g4_Init c i (hfdcan1 s) = Some (HAL_OK, hfdcan1 s1)"
    using hal_call_result [OF c] start(1) by (auto simp: g4_hal_def split: option.splits)
  then have "g4_ready i (hfdcan1 s1)"
    by (rule g4_Init_ready [OF _ assms(3)]) (use assms(2) in \<open>simp add: g4_ready_def\<close>)
  then show ?thesis
    using sensor_start_configured [OF start(2)] hal_call_result [OF c] by (simp add: i_def timing_of_def True)
next
  case False
  then show ?thesis
    using sensor_start_configured [of c s s' "hfdcan1_Init s"] assms(1,2) by (simp add: sensor_Init_start)
qed

text \<open>A write touches the transmit FIFO only: the filters lie below it.\<close>

lemma sensor_Write_controller:
  assumes "sensor_CanDrv_Write hal f s = (st, s')"
  shows "hfdcan1_Init s' = hfdcan1_Init s \<and> (hfdcan1 s' = hfdcan1 s \<or> (\<exists>frame st'. can_valid frame \<and>
    HAL_FDCAN_AddMessageToTxFifoQ hal (frame_header frame (ucast (frame_dlc frame))) (frame_data frame) (hfdcan1 s) = (st', hfdcan1 s')))"
  using assms
  by (auto simp: sensor_CanDrv_Write_def hal_call_def count_dropped_def count_queued_def can_defs not_less Let_def
      split: option.splits if_splits prod.splits)

lemma below_element:
  fixes x a :: u32
  assumes "unat x < unat a" "unat a < 2 ^ 31"
  shows "16 \<le> x - a"
proof -
  have "unat (x - a) = unat x + 2 ^ 32 - unat a" using assms(1) by (simp add: unat_sub_if')
  then show ?thesis using assms by (simp add: word_le_nat_alt)
qed

lemma put_index_less: "unat (drop_bit 16 (x AND g4_TXFQS_TFQPI)) < 4"
proof -
  have mask: "g4_TXFQS_TFQPI = push_bit 16 (mask 2)" by (simp add: g4_TXFQS_TFQPI_def mask_eq_exp_minus_1)
  have "drop_bit 16 (x AND g4_TXFQS_TFQPI) = take_bit 2 (drop_bit 16 x)"
    unfolding mask by (rule bit_word_eqI) (auto simp: bit_simps)
  then show ?thesis using take_bit_nat_less_exp [of 2 "unat (drop_bit 16 x)"] by (simp add: unsigned_take_bit_eq)
qed

lemma g4_Add_configured:
  assumes "g4_AddMessageToTxFifoQ c (frame_header frame (ucast (frame_dlc frame))) data h = (st, h')" "can_valid frame"
    and "g4_configured i h" "g4_tx_keeps c"
  shows "g4_configured i h'"
proof -
  have n: "unat (frame_dlc frame) \<le> 8" using assms(2) by (simp add: can_valid_def word_le_nat_alt)
  let ?put = "drop_bit 16 (TXFQS h AND g4_TXFQS_TFQPI)"
  let ?a = "TxFIFOQSA (msgRam h) + ?put * SRAMCAN_TFQ_SIZE"
  have "unat (?put * 72) = unat ?put * 72" using put_index_less [of "TXFQS h"] by (subst unat_word_ariths) simp
  then have "unat ?a = 0x4000A678 + unat ?put * 72"
    using put_index_less [of "TXFQS h"] assms(3)
    by (simp add: g4_configured_def SRAMCAN_TFQ_SIZE_def SRAMCAN_BASE_def unat_plus_no_wrap)
  then have "16 \<le> SRAMCAN_BASE - ?a"
    using put_index_less [of "TXFQS h"] by (intro below_element) (simp_all add: SRAMCAN_BASE_def)
  then have "message_RAM (g4_CopyMessageToRAM (frame_header frame (ucast (frame_dlc frame))) data ?put h) SRAMCAN_BASE
      = message_RAM h SRAMCAN_BASE"
    using n by (simp add: g4_CopyMessageToRAM_def write_element_other frame_header_def dlc_field(4) DLCtoBytes_classic)
  then show ?thesis
    using assms(1,3,4)
    by (auto simp: g4_AddMessageToTxFifoQ_def g4_configured_def g4_tx_keeps_def hal_error_def Let_def g4_CopyMessageToRAM_def
        split: if_splits)
qed

lemma sensor_writes_configured:
  assumes "writes (sensor_CanDrv_Write (g4_hal c)) fs s = (sts, s')" "g4_configured i (hfdcan1 s)" "g4_tx_keeps c"
  shows "g4_configured i (hfdcan1 s') \<and> hfdcan1_Init s' = hfdcan1_Init s"
  using assms(1,2)
proof (induction fs arbitrary: s sts)
  case (Cons f fs)
  obtain st s1 where w: "sensor_CanDrv_Write (g4_hal c) (Some f) s = (st, s1)" by fastforce
  have hal: "HAL_FDCAN_AddMessageToTxFifoQ (g4_hal c) = g4_AddMessageToTxFifoQ c" by (simp add: g4_hal_def)
  have "g4_configured i (hfdcan1 s1)" "hfdcan1_Init s1 = hfdcan1_Init s"
    using sensor_Write_controller [OF w] g4_Add_configured [OF _ _ Cons.prems(2) assms(3)] Cons.prems(2)
    by (auto simp: hal)
  then show ?case using Cons by (auto simp: w split: prod.splits)
qed simp

text \<open>C14: the Sensor ECU's CAN controller, after a successful initialisation with the settings of \<open>MX_FDCAN1_Init\<close> and of the driver, in either mode,
  and after any number of writes: it runs classic CAN with automatic retransmission, out of the initialisation mode, in the normal mode
  without test or monitoring; its bit timing register holds the timing of the settings; its filters store every standard data
  frame in FIFO 0 and reject remote frames and extended identifiers.\<close>

theorem Sensor_controller_configured:
  assumes "HAL_FDCAN_Init (g4_hal c) sensor_can_init (sensor_fdcan_settings h0) = (HAL_OK, hfdcan1 s)"
    and "hfdcan1_Init s = sensor_can_init" "setup_keeps g4_handle c" "g4_tx_keeps c"
    and "sensor_CanDrv_Init (g4_hal c) mode s = (CANDRV_OK, s1)" "writes (sensor_CanDrv_Write (g4_hal c)) fs s1 = (sts, s2)"
    and "h = hfdcan1 s2"
  shows "CCCR h AND 0x341 = 0 \<and> (mode = CANDRV_MODE_NORMAL \<longrightarrow> CCCR h AND 0x3E5 = 0) \<and>
    nominal_timing (NBTP h) = timing_of sensor_can_init \<and> RXGFC h AND RXGFC_LSE = 0 \<and>
    (\<forall>f. frame_target (RXGFC h) (g4_filters h) f = (case f of Std_data i \<Rightarrow> if i \<le> 0x7FF then To_FIFO0 else Rejected | _ \<Rightarrow> Rejected))"
proof -
  have "g4_Init c sensor_can_init (sensor_fdcan_settings h0) = Some (HAL_OK, hfdcan1 s)"
    using assms(1) by (auto simp: g4_hal_def split: option.splits)
  then have "g4_ready (hfdcan1_Init s) (hfdcan1 s)"
    using g4_Init_ready [OF _ assms(3)] assms(2) by (simp add: sensor_fdcan_settings_def g4_handle_def)
  note i = sensor_Init_configured [OF assms(5) this assms(3)]
  have cfg: "g4_configured (hfdcan1_Init s1) h" using sensor_writes_configured [OF assms(6)] i assms(4,7) by blast
  have sub: "RXGFC h AND m = 0x2B AND m" if "0x3F AND m = m" for m
  proof -
    have "RXGFC h AND m = (RXGFC h AND 0x3F) AND m" using that by (simp add: and.assoc)
    then show ?thesis using cfg by (simp add: g4_configured_def)
  qed
  have gfc: "RXGFC h AND RXGFC_ANFS = 0x20" "RXGFC h AND RXGFC_ANFE = 0x8" "RXGFC h AND RXGFC_RRFS = 2" "RXGFC h AND RXGFC_RRFE = 1"
    by (simp_all add: sub RXGFC_ANFS_def RXGFC_ANFE_def RXGFC_RRFS_def RXGFC_RRFE_def)
  have "g4_filters h = [0x080007FF]"
    using cfg by (simp add: g4_filters_def g4_configured_def)
  then have "frame_target (RXGFC h) (g4_filters h) f
      = (case f of Std_data i \<Rightarrow> if i \<le> 0x7FF then To_FIFO0 else Rejected | _ \<Rightarrow> Rejected)" for f
    by (cases f) (simp_all add: gfc non_matching_def element_matches_def Let_def)
  moreover have "nominal_timing (NBTP h) = timing_of sensor_can_init"
    using cfg i assms(2)
    by (simp add: g4_configured_def timing_of_def sensor_can_init_def nominal_timing_def bit_timing_register_def)
  ultimately show ?thesis
    using cfg i assms(2) by (simp add: g4_configured_def sensor_can_init_def FDCAN_MODE_NORMAL_def)
qed

text \<open>A controller that answers at once, and does nothing else.\<close>

definition ready_ctrl :: "'s FdcanCtrl" where "ready_ctrl = demo_ctrl (\<lambda>_ s. s)"

lemma ready_ctrl_keeps: "setup_keeps sel ready_ctrl" "g4_tx_keeps ready_ctrl"
  by (simp_all add: setup_keeps_def g4_tx_keeps_def ready_ctrl_def demo_ctrl_def)

lemma ready_enters:
  fixes s :: "'m Fdcan_scheme"
  assumes "CCCR s = 1"
  shows "enter_configuration ready_ctrl s = Some (HAL_OK, s\<lparr>CCCR := 3\<rparr>)"
proof -
  have p: "poll ready_ctrl = Pair 0" "HAL_FDCAN_MspInit ready_ctrl = (\<lambda>s :: 'm Fdcan_scheme. s)"
    by (simp_all add: ready_ctrl_def demo_ctrl_def)
  have c: "clear_bits 0x10 1 = 1" "set_bits 1 1 = 1" "set_bits 2 1 = 3"
    by (simp_all add: clear_bits_def set_bits_def)
  have w: "wait_CCCR ready_ctrl busy t x = Some (True, x)" if "\<not> busy (CCCR x)" for busy t and x :: "'m Fdcan_scheme"
    using that by (subst wait_CCCR.simps) simp
  show ?thesis
    using assms by (simp add: enter_configuration_def p c w cccr_bits)
qed

lemma sensor_start_ok: "g4_ready i (hfdcan1 s) \<Longrightarrow> fst (sensor_start (g4_hal c) s) = CANDRV_OK"
  by (simp add: g4_ready_def sensor_start_def sensor_ConfigureFilters_def g4_hal_def hal_call_def g4_ConfigFilter_def
      g4_ConfigGlobalFilter_def g4_ActivateNotification_def fdcan_Start_def Let_def FDCAN_STANDARD_ID_def)

theorem Sensor_controller_configured_witness:
  "\<exists>h s1. g4_Init ready_ctrl sensor_can_init (sensor_fdcan_settings g4_reset) = Some (HAL_OK, h) \<and>
     sensor_CanDrv_Init (g4_hal ready_ctrl) CANDRV_MODE_NORMAL (on_controller h) = (CANDRV_OK, s1) \<and>
     CCCR (hfdcan1 s1) AND 0x3E5 = 0 \<and>
     map (frame_target (RXGFC (hfdcan1 s1)) (g4_filters (hfdcan1 s1))) [Std_data 0x123, Std_remote 0x123, Ext_data]
       = [To_FIFO0, Rejected, Rejected]"
proof -
  obtain h where h: "g4_Init ready_ctrl sensor_can_init (sensor_fdcan_settings g4_reset) = Some (HAL_OK, h)"
    by (simp add: g4_Init_def ready_enters sensor_fdcan_settings_def g4_reset_def Let_def)
  have "g4_ready sensor_can_init h"
    by (rule g4_Init_ready [OF h ready_ctrl_keeps(1)]) (simp add: sensor_fdcan_settings_def g4_handle_def)
  then have "fst (sensor_CanDrv_Init (g4_hal ready_ctrl) CANDRV_MODE_NORMAL (on_controller h)) = CANDRV_OK"
    by (simp add: sensor_Init_start sensor_start_ok on_controller_def)
  then obtain s1 where s1: "sensor_CanDrv_Init (g4_hal ready_ctrl) CANDRV_MODE_NORMAL (on_controller h) = (CANDRV_OK, s1)"
    by (metis prod.collapse)
  have "HAL_FDCAN_Init (g4_hal ready_ctrl) sensor_can_init (sensor_fdcan_settings g4_reset) = (HAL_OK, hfdcan1 (on_controller h))"
    using h by (simp add: g4_hal_def on_controller_def)
  from Sensor_controller_configured [OF this _ ready_ctrl_keeps s1 _ refl, of "[]"] h s1
  show ?thesis by (auto simp: on_controller_def simp del: frame_target.simps)
qed

subsection \<open>The Control ECU\<close>

definition mp1_handle :: "'m MP1Fdcan_scheme \<Rightarrow> u32 list \<times> bool" where
  "mp1_handle s = ([FrameFormat s, MessageRAMOffset s, StdFiltersNbr s, ExtFiltersNbr s, RxFifo0ElmtsNbr s,
     RxFifo0ElmtSize s, RxFifo1ElmtsNbr s, RxFifo1ElmtSize s, RxBuffersNbr s, RxBufferSize s, TxEventsNbr s, TxBuffersNbr s,
     TxFifoQueueElmtsNbr s, TxElmtSize s, TxFifoQueueMode s], AutoRetransmission s)"

definition mp1_main_handle :: "u32 list \<times> bool" where
  "mp1_main_handle = ([0, 0, 2, 0, 16, 4, 0, 4, 0, 4, 0, 0, 8, 4, 0], True)"

text \<open>
  The HAL and the controller agree on the areas of the message RAM: the start addresses in the registers (as offsets) and
  in the handle, the numbers of elements, and elements for eight data bytes (size code 0).
\<close>

definition mp1_layout :: "'m MP1Fdcan_scheme \<Rightarrow> bool" where
  "mp1_layout h \<longleftrightarrow>
     StandardFilterSA (msgRam h) = mp1_SRAMCAN_BASE + (SIDFC h AND 0xFFFC) \<and>
     RxFIFO0SA (msgRam h) = mp1_SRAMCAN_BASE + (RXF0C h AND 0xFFFC) \<and>
     TxBufferSA (msgRam h) = mp1_SRAMCAN_BASE + (TXBC h AND 0xFFFC) \<and>
     SIDFC h AND 0xFFFC = 0 \<and> SIDFC h AND 0x00FF0000 = push_bit 16 2 \<and> XIDFC h AND 0x00FF0000 = 0 \<and>
     RXF0C h AND 0xFFFC = 2 * 4 \<and> RXF0C h AND 0x007F0000 = push_bit 16 16 \<and>
     TXBC h AND 0xFFFC = 2 * 4 + 16 * 16 \<and> TXBC h AND 0x003F0000 = 0 \<and> TXBC h AND 0x3F000000 = push_bit 24 8 \<and>
     TXESC h AND 0x7 = 0 \<and> RXESC h AND 0x7 = 0 \<and> TxElmtSize h = 4 \<and> RxFifo0ElmtSize h = 4"

definition mp1_ready :: "FDCAN_Init \<Rightarrow> 'm MP1Fdcan_scheme \<Rightarrow> bool" where
  "mp1_ready i h \<longleftrightarrow> mp1_handle h = mp1_main_handle \<and> hal_State h = HAL_FDCAN_STATE_READY \<and> mp1_layout h \<and>
     NBTP h = bit_timing_register (NominalSyncJumpWidth i) (NominalTimeSeg1 i) (NominalTimeSeg2 i) (NominalPrescaler i) \<and>
     CCCR h AND 0x340 = 0 \<and> (initMode i = FDCAN_MODE_NORMAL \<longrightarrow> CCCR h AND 0x3E4 = 0)"

lemma mp1_handle_kept:
  "mp1_handle (configure_timing i x) = mp1_handle x" "mp1_handle (configure_CCCR i x) = mp1_handle x"
  "mp1_handle (mp1_element_sizes x) = mp1_handle x"
  by (simp_all add: configure_timing_def configure_CCCR_def mp1_element_sizes_def mp1_handle_def Let_def)

lemma mp1_areas_fit:
  assumes "mp1_handle s = mp1_main_handle"
  shows "fst (mp1_CalcultateRamBlockAddresses s) = HAL_OK"
proof -
  have n: "StdFiltersNbr s = 2" "ExtFiltersNbr s = 0" "RxFifo0ElmtsNbr s = 16" "RxFifo0ElmtSize s = 4" "RxFifo1ElmtsNbr s = 0"
    "RxBuffersNbr s = 0" "TxEventsNbr s = 0" "TxBuffersNbr s = 0" "TxFifoQueueElmtsNbr s = 8" "TxElmtSize s = 4"
    "MessageRAMOffset s = 0"
    using assms by (simp_all add: mp1_handle_def mp1_main_handle_def)
  have "EndAddress (mp1_ram_addresses s) \<le> FDCAN_MESSAGE_RAM_END_ADDRESS"
    by (simp add: mp1_ram_addresses_def n Let_def FDCAN_MESSAGE_RAM_END_ADDRESS_def FDCAN_MESSAGE_RAM_SIZE_def mp1_SRAMCAN_BASE_def)
  then show ?thesis by (simp add: mp1_CalcultateRamBlockAddresses_def Let_def leD)
qed

lemma mp1_Init_ok:
  assumes "enter_configuration c h = Some (HAL_OK, s)" "mp1_handle s = mp1_main_handle"
  shows "\<exists>h'. mp1_Init c i h = Some (HAL_OK, h')"
proof -
  define u where "u = mp1_element_sizes (configure_timing i (configure_CCCR i s))"
  have "mp1_handle (u\<lparr>TTOCF := x, LatestTxFifoQRequest := 0, ErrorCode := y, hal_State := z\<rparr>) = mp1_handle u" for x y z
    by (simp add: mp1_handle_def)
  moreover have "mp1_handle u = mp1_main_handle" using assms(2) by (simp add: u_def mp1_handle_kept)
  ultimately have "fst (mp1_CalcultateRamBlockAddresses (u\<lparr>TTOCF := clear_bits 0x3 (TTOCF u), LatestTxFifoQRequest := 0,
      ErrorCode := HAL_FDCAN_ERROR_NONE, hal_State := HAL_FDCAN_STATE_READY\<rparr>)) = HAL_OK"
    by (intro mp1_areas_fit) simp
  then show ?thesis using assms(1) by (simp add: mp1_Init_def u_def Let_def) (metis prod.collapse)
qed

lemma mp1_Init_ready:
  assumes "mp1_Init c i h = Some (HAL_OK, h')" "setup_keeps mp1_handle c" "mp1_handle h = mp1_main_handle"
  shows "mp1_ready i h'"
proof -
  from assms(1) obtain s1 where s1: "enter_configuration c h = Some (HAL_OK, s1)"
    by (auto simp: mp1_Init_def Let_def split: option.splits prod.splits if_splits)
  have keep: "mp1_handle s1 = mp1_main_handle"
    unfolding assms(3) [symmetric] by (rule enter_configuration_keeps [OF s1 assms(2)]) (simp add: mp1_handle_def)
  have s2: "FrameFormat s1 = 0" "AutoRetransmission s1"
    using keep by (simp_all add: mp1_handle_def mp1_main_handle_def)
  note mode = configure_CCCR_mode [OF s2, of i]
  define t where "t = configure_timing i (configure_CCCR i s1)"
  have t: "CCCR t = CCCR (configure_CCCR i s1)" "mp1_handle t = mp1_main_handle"
    "NBTP t = bit_timing_register (NominalSyncJumpWidth i) (NominalTimeSeg1 i) (NominalTimeSeg2 i) (NominalPrescaler i)"
    using keep mp1_handle_kept(1) [of i "configure_CCCR i s1"] mp1_handle_kept(2) [of i s1]
    by (simp_all add: t_def configure_timing_def Let_def)
  define u where "u = mp1_element_sizes t"
  have u: "CCCR u = CCCR t" "NBTP u = NBTP t" "mp1_handle u = mp1_main_handle" "TXESC u AND 7 = 0" "RXESC u AND 7 = 0"
    using t(2)
    by (simp_all add: u_def mp1_element_sizes_def mp1_handle_def mp1_main_handle_def CvtEltSize_def register_masks)
  have h': "mp1_CalcultateRamBlockAddresses (u\<lparr>TTOCF := clear_bits 0x3 (TTOCF u), LatestTxFifoQRequest := 0,
      ErrorCode := HAL_FDCAN_ERROR_NONE, hal_State := HAL_FDCAN_STATE_READY\<rparr>) = (HAL_OK, h')"
    using assms(1) s1 by (simp add: mp1_Init_def t_def u_def Let_def)
  have n: "StdFiltersNbr u = 2" "ExtFiltersNbr u = 0" "RxFifo0ElmtsNbr u = 16" "RxFifo0ElmtSize u = 4" "RxFifo1ElmtsNbr u = 0"
    "RxBuffersNbr u = 0" "TxEventsNbr u = 0" "TxBuffersNbr u = 0" "TxFifoQueueElmtsNbr u = 8" "TxElmtSize u = 4"
    "MessageRAMOffset u = 0"
    using u(3) by (simp_all add: mp1_handle_def mp1_main_handle_def)
  have h'_eq: "h' = (mp1_configure_areas (u\<lparr>TTOCF := clear_bits 0x3 (TTOCF u), LatestTxFifoQRequest := 0,
        ErrorCode := HAL_FDCAN_ERROR_NONE, hal_State := HAL_FDCAN_STATE_READY\<rparr>))
      \<lparr>msgRam := mp1_ram_addresses u, message_RAM := flush_RAM (StandardFilterSA (mp1_ram_addresses u)) (EndAddress (mp1_ram_addresses u)) (message_RAM u)\<rparr>"
    using h' by (simp add: mp1_CalcultateRamBlockAddresses_def mp1_configure_areas_def mp1_ram_addresses_def Let_def split: if_splits)
  have hand: "mp1_handle h' = mp1_main_handle"
    using u(3) by (simp add: h'_eq mp1_configure_areas_def mp1_handle_def Let_def)
  have "mp1_layout h'"
    by (simp add: mp1_layout_def h'_eq mp1_configure_areas_def mp1_ram_addresses_def n u Let_def set_area_def register_masks)
  then show ?thesis
    unfolding mp1_ready_def
    using hand mode by (simp add: h'_eq mp1_configure_areas_def Let_def u t)
qed

definition mp1_configured :: "FDCAN_Init \<Rightarrow> 'm MP1Fdcan_scheme \<Rightarrow> bool" where
  "mp1_configured i h \<longleftrightarrow> mp1_layout h \<and>
     NBTP h = bit_timing_register (NominalSyncJumpWidth i) (NominalTimeSeg1 i) (NominalTimeSeg2 i) (NominalPrescaler i) \<and>
     CCCR h AND 0x341 = 0 \<and> (initMode i = FDCAN_MODE_NORMAL \<longrightarrow> CCCR h AND 0x3E5 = 0) \<and> GFC h = 0x2B \<and>
     message_RAM h mp1_SRAMCAN_BASE = 0x09000101 \<and> message_RAM h (mp1_SRAMCAN_BASE + 4) = 0x0FDF07E8"

definition mp1_tx_keeps :: "'m MP1Fdcan_scheme FdcanCtrl \<Rightarrow> bool" where
  "mp1_tx_keeps c \<longleftrightarrow> (\<forall>v s. (message_RAM (write_TXBAR c v s), msgRam (write_TXBAR c v s), NBTP (write_TXBAR c v s),
     CCCR (write_TXBAR c v s), GFC (write_TXBAR c v s), SIDFC (write_TXBAR c v s), XIDFC (write_TXBAR c v s), RXF0C (write_TXBAR c v s),
     TXBC (write_TXBAR c v s), TXESC (write_TXBAR c v s), RXESC (write_TXBAR c v s), TxElmtSize (write_TXBAR c v s), RxFifo0ElmtSize (write_TXBAR c v s))
   = (message_RAM s, msgRam s, NBTP s, CCCR s, GFC s, SIDFC s, XIDFC s, RXF0C s, TXBC s, TXESC s, RXESC s, TxElmtSize s, RxFifo0ElmtSize s))"

text \<open>A HAL of the Control ECU whose FDCAN part is \<open>mp1_hal\<close>.\<close>

lemma truncated_hal:
  assumes "FdcanHal.truncate hal = mp1_hal c"
  shows "HAL_FDCAN_Init hal = HAL_FDCAN_Init (mp1_hal c)" "HAL_FDCAN_ConfigFilter hal = mp1_ConfigFilter 0 0"
    "HAL_FDCAN_ConfigGlobalFilter hal = mp1_ConfigGlobalFilter" "HAL_FDCAN_ActivateNotification hal = mp1_ActivateNotification"
    "HAL_FDCAN_Start hal = fdcan_Start" "HAL_FDCAN_AddMessageToTxFifoQ hal = mp1_AddMessageToTxFifoQ c"
  using assms by (simp_all add: FdcanHal.defs mp1_hal_def)

lemma mp1_filters_configured:
  assumes "control_ConfigureFilters hal (Some k_filters) (of_nat (length k_filters)) s = (CANDRV_OK, s')" "mp1_ready i (hfdcan1 s)"
    and "FdcanHal.truncate hal = mp1_hal c"
  shows "hfdcan1 s' = (hfdcan1 s)\<lparr>message_RAM := (message_RAM (hfdcan1 s))
      (mp1_SRAMCAN_BASE := 0x09000101, mp1_SRAMCAN_BASE + 4 := 0x0FDF07E8), GFC := 0x2B\<rparr> \<and> hfdcan1_Init s' = hfdcan1_Init s"
  using assms(1,2)
  by (auto simp: control_ConfigureFilters_def truncated_hal [OF assms(3)] mp1_ConfigFilter_def mp1_ConfigGlobalFilter_def
      hal_call_def mp1_ready_def mp1_layout_def k_filters_def filter_setting_def can_matrix MAX_STD_FILTERS_def
      Let_def FDCAN_STANDARD_ID_def FDCAN_FILTER_RANGE_def FDCAN_FILTER_TO_RXFIFO0_def FDCAN_FILTER_TO_RXBUFFER_def FDCAN_REJECT_def
      FDCAN_REJECT_REMOTE_def split: if_splits)

text \<open>\<open>CanDrv_Init\<close> after the bit timing and the choice of the mode.\<close>

definition control_start ::
  "('h, 'n) FdcanHal_scheme \<Rightarrow> CanDrv_Filter_t list option \<Rightarrow> u8 \<Rightarrow> ('h, 'm) CanDrv_scheme \<Rightarrow>
   CanDrv_Status_t \<times> ('h, 'm) CanDrv_scheme" where
  "control_start hal filters n s2 =
     (let (cs, s3) = control_ConfigureFilters hal filters n s2 in
      if cs \<noteq> CANDRV_OK then (CANDRV_ERROR, s3)
      else
        (let (st4, s4) = hal_call (HAL_FDCAN_ActivateNotification hal (FDCAN_IT_RX_FIFO0_NEW_MESSAGE OR control_IT_BUS_OFF) 0) s3
         in if st4 \<noteq> HAL_OK then (CANDRV_ERROR, s4)
            else
              (let (st5, s5) = hal_call (HAL_FDCAN_Start hal) s4
               in (if st5 = HAL_OK then CANDRV_OK else CANDRV_ERROR, s5))))"

lemma control_Init_start:
  "control_CanDrv_Init hal mode filters n s =
     (let (bt, s1) = ApplyBitTiming hal (s\<lparr>stats_kernelClockHz := s_kernelClockHz s\<rparr>) in
      if bt \<noteq> CANDRV_OK then (CANDRV_ERROR, s1)
      else if mode = CANDRV_MODE_INTERNAL_LOOPBACK then
        (let s0 = s1\<lparr>hfdcan1_Init := (hfdcan1_Init s1)\<lparr>initMode := FDCAN_MODE_INTERNAL_LOOPBACK\<rparr>\<rparr>;
             (st, s2) = hal_call (HAL_FDCAN_Init hal (hfdcan1_Init s0)) s0
         in if st \<noteq> HAL_OK then (CANDRV_ERROR, s2) else control_start hal filters n s2)
      else control_start hal filters n s1)"
proof -
  obtain bt s1 where "ApplyBitTiming hal (s\<lparr>stats_kernelClockHz := s_kernelClockHz s\<rparr>) = (bt, s1)" by fastforce
  then show ?thesis
    unfolding control_CanDrv_Init_def control_start_def Let_def by (cases mode) simp_all
qed

lemma mp1_Activate_keeps:
  assumes "mp1_ActivateNotification its buffers h = (st, h') \<and> A"
  shows "NBTP h' = NBTP h \<and> CCCR h' = CCCR h \<and> GFC h' = GFC h \<and> message_RAM h' = message_RAM h \<and> mp1_layout h' = mp1_layout h"
proof -
  have "(\<exists>e t u i k. h' = h\<lparr>ILE := e, TXBTIE := t, TXBCIE := u, IE := i, CCU_IE := k\<rparr>) \<or> (\<exists>k. h' = h\<lparr>ErrorCode := k\<rparr>)"
  proof (cases "hal_State h = HAL_FDCAN_STATE_READY \<or> hal_State h = HAL_FDCAN_STATE_BUSY")
    case True
    then show ?thesis using assms unfolding mp1_ActivateNotification_def by (simp only: if_True prod.inject) blast
  next
    case False
    then show ?thesis using assms unfolding mp1_ActivateNotification_def hal_error_def by (simp only: if_False prod.inject) blast
  qed
  then show ?thesis
  proof (rule disjE)
    assume "\<exists>e t u i k. h' = h\<lparr>ILE := e, TXBTIE := t, TXBCIE := u, IE := i, CCU_IE := k\<rparr>"
    then obtain e t u i k where "h' = h\<lparr>ILE := e, TXBTIE := t, TXBCIE := u, IE := i, CCU_IE := k\<rparr>" by blast
    then show ?thesis by (simp add: mp1_layout_def)
  next
    assume "\<exists>k. h' = h\<lparr>ErrorCode := k\<rparr>"
    then obtain k where "h' = h\<lparr>ErrorCode := k\<rparr>" by blast
    then show ?thesis by (simp add: mp1_layout_def)
  qed
qed

lemma control_start_configured:
  assumes "control_start hal (Some k_filters) (of_nat (length k_filters)) s = (CANDRV_OK, s')" "mp1_ready i (hfdcan1 s)"
    and "FdcanHal.truncate hal = mp1_hal c"
  shows "mp1_configured i (hfdcan1 s') \<and> hfdcan1_Init s' = hfdcan1_Init s"
proof -
  note hal = truncated_hal [OF assms(3)]
  obtain cs s2 where s2: "control_ConfigureFilters hal (Some k_filters) (of_nat (length k_filters)) s = (cs, s2)" by fastforce
  obtain st3 s3 where s3: "hal_call (mp1_ActivateNotification (FDCAN_IT_RX_FIFO0_NEW_MESSAGE OR control_IT_BUS_OFF) 0) s2 = (st3, s3)"
    by fastforce
  obtain st4 s4 where s4: "hal_call fdcan_Start s3 = (st4, s4)" by fastforce
  have ok: "cs = CANDRV_OK" "st3 = HAL_OK" "st4 = HAL_OK" "s' = s4"
    using assms(1) by (auto simp: control_start_def hal s2 s3 s4 split: if_splits)
  note r = assms(2) [unfolded mp1_ready_def]
  note f = mp1_filters_configured [OF s2 [unfolded ok] assms(2,3)]
  have s3': "NBTP (hfdcan1 s3) = NBTP (hfdcan1 s2)" "CCCR (hfdcan1 s3) = CCCR (hfdcan1 s2)" "GFC (hfdcan1 s3) = GFC (hfdcan1 s2)"
    "message_RAM (hfdcan1 s3) = message_RAM (hfdcan1 s2)" "mp1_layout (hfdcan1 s3) = mp1_layout (hfdcan1 s2)"
    "hfdcan1_Init s3 = hfdcan1_Init s2"
    using mp1_Activate_keeps hal_call_result [OF s3] by blast+
  have s4': "hfdcan1 s4 = (hfdcan1 s3)\<lparr>hal_State := HAL_FDCAN_STATE_BUSY, CCCR := clear_bits FDCAN_CCCR_INIT (CCCR (hfdcan1 s3)),
      ErrorCode := HAL_FDCAN_ERROR_NONE\<rparr>" "hfdcan1_Init s4 = hfdcan1_Init s3"
    using s4 ok(3) by (auto simp: hal_call_def fdcan_Start_def split: if_splits)
  have "mp1_layout (hfdcan1 s4) = mp1_layout (hfdcan1 s3)" "mp1_layout (hfdcan1 s2) = mp1_layout (hfdcan1 s)"
    using f by (simp_all add: s4' mp1_layout_def)
  then show ?thesis
    using r f by (simp add: ok(4) mp1_configured_def s4' s3' register_masks FDCAN_CCCR_INIT_def)
qed

lemma mp1_hal_Init_ready:
  assumes "hal_call (HAL_FDCAN_Init hal i) s = (HAL_OK, s')" "FdcanHal.truncate hal = mp1_hal c"
    and "setup_keeps mp1_handle c" "mp1_handle (hfdcan1 s) = mp1_main_handle"
  shows "mp1_ready i (hfdcan1 s')"
proof -
  have "mp1_Init c i (hfdcan1 s) = Some (HAL_OK, hfdcan1 s')"
    using hal_call_result [OF assms(1)] truncated_hal(1) [OF assms(2)] by (auto simp: mp1_hal_def split: option.splits)
  then show ?thesis by (rule mp1_Init_ready [OF _ assms(3,4)])
qed

lemma control_Init_configured:
  assumes "control_CanDrv_Init hal mode (Some k_filters) (of_nat (length k_filters)) s = (CANDRV_OK, s')"
    and "mp1_ready (hfdcan1_Init s) (hfdcan1 s)" "FdcanHal.truncate hal = mp1_hal c" "setup_keeps mp1_handle c"
  shows "mp1_configured (hfdcan1_Init s') (hfdcan1 s') \<and>
    timing_of (hfdcan1_Init s') = (if s_kernelClockHz s = 24000000 then timing_of (hfdcan1_Init s) else (1, 128, 19, 19)) \<and>
    (mode = CANDRV_MODE_NORMAL \<longrightarrow> initMode (hfdcan1_Init s') = initMode (hfdcan1_Init s))"
proof -
  obtain s1 where s1: "ApplyBitTiming hal (s\<lparr>stats_kernelClockHz := s_kernelClockHz s\<rparr>) = (CANDRV_OK, s1)"
    using assms(1) by (auto simp: control_Init_start Let_def split: prod.splits if_splits)
  have one: "mp1_ready (hfdcan1_Init s1) (hfdcan1 s1) \<and> initMode (hfdcan1_Init s1) = initMode (hfdcan1_Init s) \<and>
      timing_of (hfdcan1_Init s1) = (if s_kernelClockHz s = 24000000 then timing_of (hfdcan1_Init s) else (1, 128, 19, 19))"
  proof (cases "s_kernelClockHz s = 24000000")
    case True
    then show ?thesis using s1 assms(2) by (auto simp: ApplyBitTiming_def KERNEL_CLOCK_HSE_HZ_def)
  next
    case False
    define i where "i = (hfdcan1_Init s)\<lparr>NominalPrescaler := 1, NominalTimeSeg1 := 128, NominalTimeSeg2 := 19, NominalSyncJumpWidth := 19\<rparr>"
    let ?s = "s\<lparr>stats_kernelClockHz := s_kernelClockHz s, hfdcan1_Init := i\<rparr>"
    obtain st s2 where c: "hal_call (HAL_FDCAN_Init hal i) ?s = (st, s2)" by fastforce
    then have "st = HAL_OK" "s1 = s2"
      using s1 False by (auto simp: ApplyBitTiming_def KERNEL_CLOCK_HSE_HZ_def i_def Let_def split: if_splits)
    then have "mp1_ready i (hfdcan1 s1)" "hfdcan1_Init s1 = i"
      using mp1_hal_Init_ready [of hal i ?s s2 c] hal_call_result [OF c] c assms(2-4) by (simp_all add: mp1_ready_def)
    then show ?thesis using False by (simp add: i_def timing_of_def)
  qed
  show ?thesis
  proof (cases "mode = CANDRV_MODE_INTERNAL_LOOPBACK")
    case True
    define i where "i = (hfdcan1_Init s1)\<lparr>initMode := FDCAN_MODE_INTERNAL_LOOPBACK\<rparr>"
    obtain st s2 where c: "hal_call (HAL_FDCAN_Init hal i) (s1\<lparr>hfdcan1_Init := i\<rparr>) = (st, s2)" by fastforce
    then have start: "st = HAL_OK" "control_start hal (Some k_filters) (of_nat (length k_filters)) s2 = (CANDRV_OK, s')"
      using assms(1) True s1 by (auto simp: control_Init_start i_def Let_def split: if_splits)
    have "mp1_ready i (hfdcan1 s2)" "hfdcan1_Init s2 = i"
      using mp1_hal_Init_ready [of hal i "s1\<lparr>hfdcan1_Init := i\<rparr>" s2 c] hal_call_result [OF c] c start(1) one assms(3,4)
      by (simp_all add: mp1_ready_def)
    then show ?thesis
      using control_start_configured [OF start(2) _ assms(3)] one by (simp add: i_def timing_of_def True)
  next
    case False
    then show ?thesis
      using control_start_configured [of hal s1 s' "hfdcan1_Init s1" c] assms(1,3) one s1 by (simp add: control_Init_start)
  qed
qed

lemma control_Write_controller:
  assumes "control_CanDrv_Write hal f s = (st, s')"
  shows "hfdcan1_Init s' = hfdcan1_Init s \<and> (hfdcan1 s' = hfdcan1 s \<or> (\<exists>frame data st'. can_valid frame \<and>
    HAL_FDCAN_AddMessageToTxFifoQ hal (frame_header frame (push_bit DLC_SHIFT (ucast (frame_dlc frame)))) data (hfdcan1 s) = (st', hfdcan1 s')))"
  using assms
  by (auto simp: control_CanDrv_Write_def hal_call_def count_dropped_def count_queued_def can_defs not_less Let_def
      split: option.splits if_splits prod.splits)

lemma mp1_put_index_less: "unat (drop_bit 16 (x AND mp1_TXFQS_TFQPI)) < 32"
proof -
  have mask: "mp1_TXFQS_TFQPI = push_bit 16 (mask 5)" by (simp add: mp1_TXFQS_TFQPI_def mask_eq_exp_minus_1)
  have "drop_bit 16 (x AND mp1_TXFQS_TFQPI) = take_bit 5 (drop_bit 16 x)"
    unfolding mask by (rule bit_word_eqI) (auto simp: bit_simps)
  then show ?thesis using take_bit_nat_less_exp [of 5 "unat (drop_bit 16 x)"] by (simp add: unsigned_take_bit_eq)
qed

lemma mp1_configured_cong:
  assumes "(msgRam h', NBTP h', CCCR h', GFC h', SIDFC h', XIDFC h', RXF0C h', TXBC h', TXESC h', RXESC h', TxElmtSize h', RxFifo0ElmtSize h')
      = (msgRam h, NBTP h, CCCR h, GFC h, SIDFC h, XIDFC h, RXF0C h, TXBC h, TXESC h, RXESC h, TxElmtSize h, RxFifo0ElmtSize h)"
    and "\<And>x. x = mp1_SRAMCAN_BASE \<or> x = mp1_SRAMCAN_BASE + 4 \<Longrightarrow> message_RAM h' x = message_RAM h x"
  shows "mp1_configured i h' = mp1_configured i h"
  using assms(1) assms(2) [of mp1_SRAMCAN_BASE] assms(2) [of "mp1_SRAMCAN_BASE + 4"]
  by (simp add: mp1_configured_def mp1_layout_def)

lemma mp1_Add_cases:
  assumes "mp1_AddMessageToTxFifoQ c header data h = (st, h')"
  shows "(\<exists>e. h' = h\<lparr>ErrorCode := e\<rparr>) \<or> (\<exists>l v. h' = (write_TXBAR c v
    (mp1_CopyMessageToRAM header data (drop_bit 16 (TXFQS h AND mp1_TXFQS_TFQPI)) h))\<lparr>LatestTxFifoQRequest := l\<rparr>)"
  using assms unfolding mp1_AddMessageToTxFifoQ_def hal_error_def Let_def
  by (auto split: if_split_asm)

lemma mp1_Add_configured:
  assumes "mp1_AddMessageToTxFifoQ c (frame_header frame (push_bit DLC_SHIFT (ucast (frame_dlc frame)))) data h = (st, h')"
    and "can_valid frame" "mp1_configured i h" "mp1_tx_keeps c"
  shows "mp1_configured i h'"
proof -
  have n: "unat (frame_dlc frame) \<le> 8" using assms(2) by (simp add: can_valid_def word_le_nat_alt)
  let ?put = "drop_bit 16 (TXFQS h AND mp1_TXFQS_TFQPI)"
  let ?a = "TxBufferSA (msgRam h) + ?put * TxElmtSize h * 4"
  have layout: "TxBufferSA (msgRam h) = mp1_SRAMCAN_BASE + 0x108" "TxElmtSize h = 4"
    using assms(3) by (simp_all add: mp1_configured_def mp1_layout_def)
  have "unat (16 * ?put) = 16 * unat ?put" using mp1_put_index_less [of "TXFQS h"] by (subst unat_word_ariths) simp
  then have a: "unat ?a = 0x44011108 + 16 * unat ?put"
    using mp1_put_index_less [of "TXFQS h"] by (simp add: layout mp1_SRAMCAN_BASE_def unat_plus_no_wrap)
  have below: "16 \<le> mp1_SRAMCAN_BASE - ?a" "16 \<le> mp1_SRAMCAN_BASE + 4 - ?a"
    using a mp1_put_index_less [of "TXFQS h"] by (auto intro!: below_element simp: mp1_SRAMCAN_BASE_def)
  let ?header = "frame_header frame (push_bit DLC_SHIFT (ucast (frame_dlc frame)))"
  let ?copy = "mp1_CopyMessageToRAM ?header data ?put h"
  have ram: "message_RAM ?copy x = message_RAM h x" if "x = mp1_SRAMCAN_BASE \<or> x = mp1_SRAMCAN_BASE + 4" for x
    using n that below
    by (auto simp: mp1_CopyMessageToRAM_def write_element_other frame_header_def dlc_field(3,4) DLC_SHIFT_def DLCtoBytes_classic)
  have "(\<exists>e. h' = h\<lparr>ErrorCode := e\<rparr>) \<or> (\<exists>l v. h' = (write_TXBAR c v ?copy)\<lparr>LatestTxFifoQRequest := l\<rparr>)"
    using mp1_Add_cases [OF assms(1)] .
  then show ?thesis
  proof (rule disjE)
    assume "\<exists>e. h' = h\<lparr>ErrorCode := e\<rparr>"
    then obtain e where h': "h' = h\<lparr>ErrorCode := e\<rparr>" by blast
    have "mp1_configured i h' = mp1_configured i h" by (rule mp1_configured_cong) (simp_all add: h')
    then show ?thesis using assms(3) by simp
  next
    assume "\<exists>l v. h' = (write_TXBAR c v ?copy)\<lparr>LatestTxFifoQRequest := l\<rparr>"
    then obtain l v where h': "h' = (write_TXBAR c v ?copy)\<lparr>LatestTxFifoQRequest := l\<rparr>" by blast
    have "mp1_configured i h' = mp1_configured i h"
      by (rule mp1_configured_cong)
        (use assms(4) [unfolded mp1_tx_keeps_def, rule_format, of v ?copy] ram in \<open>simp_all add: h' mp1_CopyMessageToRAM_def\<close>)
    then show ?thesis using assms(3) by simp
  qed
qed

lemma control_writes_configured:
  assumes "writes (control_CanDrv_Write hal) fs s = (sts, s')" "mp1_configured i (hfdcan1 s)" "mp1_tx_keeps c"
    and "FdcanHal.truncate hal = mp1_hal c"
  shows "mp1_configured i (hfdcan1 s') \<and> hfdcan1_Init s' = hfdcan1_Init s"
  using assms(1,2)
proof (induction fs arbitrary: s sts)
  case (Cons f fs)
  obtain st s1 where w: "control_CanDrv_Write hal (Some f) s = (st, s1)" by fastforce
  have "mp1_configured i (hfdcan1 s1)" "hfdcan1_Init s1 = hfdcan1_Init s"
    using control_Write_controller [OF w] mp1_Add_configured [OF _ _ Cons.prems(2) assms(3)] Cons.prems(2)
    by (auto simp: truncated_hal [OF assms(4)])
  then show ?case using Cons by (auto simp: w split: prod.splits)
qed simp

text \<open>C15: the Control ECU's CAN controller, after a successful initialisation with the settings of \<open>MX_FDCAN1_Init\<close> and of the
  driver, with either kernel clock, in either mode, and after any number of writes: classic CAN with automatic retransmission, out of
  the initialisation mode; the bit timing register holds the timing of the settings; the areas of the message RAM the HAL
  writes are those the registers tell the controller, with elements of eight data bytes; and the filters store exactly
  the standard data frames with the identifiers of \<open>k_filters\<close> in FIFO 0 and reject everything else.\<close>

theorem Control_controller_configured:
  assumes "FdcanHal.truncate hal = mp1_hal c"
    and "HAL_FDCAN_Init hal control_can_init (control_fdcan_settings h0) = (HAL_OK, hfdcan1 s)"
    and "hfdcan1_Init s = control_can_init" "setup_keeps mp1_handle c" "mp1_tx_keeps c"
    and "control_CanDrv_Init hal mode (Some k_filters) (of_nat (length k_filters)) s = (CANDRV_OK, s1)"
    and "writes (control_CanDrv_Write hal) fs s1 = (sts, s2)" "h = hfdcan1 s2"
  shows "CCCR h AND 0x341 = 0 \<and> (mode = CANDRV_MODE_NORMAL \<longrightarrow> CCCR h AND 0x3E5 = 0) \<and>
    nominal_timing (NBTP h) = timing_of (hfdcan1_Init s2) \<and> mp1_layout h \<and>
    (\<forall>f. frame_target (GFC h) (mp1_filters h) f =
       (case f of Std_data i \<Rightarrow> if \<exists>k\<in>set k_filters. ucast (firstId k) \<le> i \<and> i \<le> ucast (lastId k) then To_FIFO0 else Rejected
        | _ \<Rightarrow> Rejected))"
proof -
  have "mp1_Init c control_can_init (control_fdcan_settings h0) = Some (HAL_OK, hfdcan1 s)"
    using assms(2) truncated_hal(1) [OF assms(1)] by (auto simp: mp1_hal_def split: option.splits)
  then have "mp1_ready (hfdcan1_Init s) (hfdcan1 s)"
    using mp1_Init_ready [OF _ assms(4)] assms(3)
    by (simp add: control_fdcan_settings_def mp1_handle_def mp1_main_handle_def)
  note i = control_Init_configured [OF assms(6) this assms(1,4)]
  have cfg: "mp1_configured (hfdcan1_Init s1) h" "hfdcan1_Init s2 = hfdcan1_Init s1"
    using control_writes_configured [OF assms(7) _ assms(5,1)] i assms(8) by blast+
  have "mp1_filters h = [0x09000101, 0x0FDF07E8]"
    using cfg(1) by (simp add: mp1_filters_def mp1_configured_def mp1_layout_def upt_rec)
  then have "frame_target (GFC h) (mp1_filters h) f = (case f of Std_data i \<Rightarrow>
      if \<exists>k\<in>set k_filters. ucast (firstId k) \<le> i \<and> i \<le> ucast (lastId k) then To_FIFO0 else Rejected | _ \<Rightarrow> Rejected)" for f
    using cfg(1)
    by (cases f) (simp_all add: mp1_configured_def non_matching_def element_matches_def Let_def k_filters_def can_matrix
        RXGFC_ANFS_def RXGFC_ANFE_def RXGFC_RRFS_def RXGFC_RRFE_def)
  moreover have "timing_of (hfdcan1_Init s1) = (3, 13, 2, 2) \<or> timing_of (hfdcan1_Init s1) = (1, 128, 19, 19)"
    using i assms(3) by (auto simp: control_can_init_def timing_of_def)
  then have "nominal_timing (NBTP h) = timing_of (hfdcan1_Init s2)"
    using cfg by (auto simp: mp1_configured_def timing_of_def nominal_timing_def bit_timing_register_def)
  ultimately show ?thesis
    using cfg i assms(3) by (simp add: mp1_configured_def control_can_init_def FDCAN_MODE_NORMAL_def)
qed

text \<open>A Control ECU on this controller, with either kernel clock.\<close>

definition bench_control :: "MP1Fdcan ControlHal" where
  "bench_control = FdcanHal.extend (mp1_hal ready_ctrl)
     (ControlHal.fields (\<lambda>_ _. 0) (\<lambda>_ _ h. h) (\<lambda>_ h. h) (\<lambda>_. 24000000) (\<lambda>h. (HAL_OK, h)) (\<lambda>_. False))"

definition on_mp1 :: "u32 \<Rightarrow> MP1Fdcan \<Rightarrow> MP1Fdcan ControlCan" where
  "on_mp1 hz h = CanDrv.extend ((on_controller h)\<lparr>hfdcan1_Init := control_can_init\<rparr>) (ControlCan.fields hz 0 0 0 0)"

lemma mp1_ready_keeps: "setup_keeps sel ready_ctrl" "mp1_tx_keeps ready_ctrl"
  by (simp_all add: setup_keeps_def mp1_tx_keeps_def ready_ctrl_def demo_ctrl_def)

lemma control_start_ok:
  assumes "mp1_ready i (hfdcan1 s)" "FdcanHal.truncate hal = mp1_hal c"
  shows "fst (control_start hal (Some k_filters) (of_nat (length k_filters)) s) = CANDRV_OK"
  using assms(1)
  by (simp add: mp1_ready_def control_start_def control_ConfigureFilters_def truncated_hal [OF assms(2)] hal_call_def k_filters_def
      filter_setting_def MAX_STD_FILTERS_def mp1_ConfigFilter_def mp1_ConfigGlobalFilter_def mp1_ActivateNotification_def
      fdcan_Start_def Let_def FDCAN_STANDARD_ID_def)

theorem Control_controller_configured_witness:
  "\<exists>h s1. mp1_Init ready_ctrl control_can_init (control_fdcan_settings mp1_reset) = Some (HAL_OK, h) \<and>
     control_CanDrv_Init bench_control CANDRV_MODE_NORMAL (Some k_filters) (of_nat (length k_filters)) (on_mp1 24000000 h) = (CANDRV_OK, s1) \<and>
     CCCR (hfdcan1 s1) AND 0x3E5 = 0 \<and>
     map (frame_target (GFC (hfdcan1 s1)) (mp1_filters (hfdcan1 s1))) [Std_data 0x100, Std_data 0x102, Ext_data]
       = [To_FIFO0, Rejected, Rejected]"
proof -
  have tr: "FdcanHal.truncate bench_control = mp1_hal ready_ctrl"
    by (simp add: bench_control_def FdcanHal.defs ControlHal.defs mp1_hal_def)
  have "enter_configuration ready_ctrl (control_fdcan_settings mp1_reset)
      = Some (HAL_OK, control_fdcan_settings mp1_reset\<lparr>CCCR := 3\<rparr>)"
    by (rule ready_enters) (simp add: control_fdcan_settings_def mp1_reset_def)
  moreover have "mp1_handle (control_fdcan_settings mp1_reset\<lparr>CCCR := 3\<rparr>) = mp1_main_handle"
    by (simp add: control_fdcan_settings_def mp1_handle_def mp1_main_handle_def)
  ultimately obtain h where h: "mp1_Init ready_ctrl control_can_init (control_fdcan_settings mp1_reset) = Some (HAL_OK, h)"
    using mp1_Init_ok by blast
  have ready: "mp1_ready control_can_init h"
    by (rule mp1_Init_ready [OF h mp1_ready_keeps(1)]) (simp add: control_fdcan_settings_def mp1_handle_def mp1_main_handle_def)
  have s: "hfdcan1 (on_mp1 24000000 h) = h" "hfdcan1_Init (on_mp1 24000000 h) = control_can_init" "s_kernelClockHz (on_mp1 24000000 h) = 24000000"
    by (simp_all add: on_mp1_def on_controller_def CanDrv.defs ControlCan.defs)
  have "fst (control_CanDrv_Init bench_control CANDRV_MODE_NORMAL (Some k_filters) (of_nat (length k_filters)) (on_mp1 24000000 h)) = CANDRV_OK"
    using ready s by (simp add: control_Init_start ApplyBitTiming_def KERNEL_CLOCK_HSE_HZ_def control_start_ok [OF _ tr])
  then obtain s1 where s1: "control_CanDrv_Init bench_control CANDRV_MODE_NORMAL (Some k_filters) (of_nat (length k_filters))
      (on_mp1 24000000 h) = (CANDRV_OK, s1)" by (metis prod.collapse)
  have init: "HAL_FDCAN_Init bench_control control_can_init (control_fdcan_settings mp1_reset) = (HAL_OK, hfdcan1 (on_mp1 24000000 h))"
    using h truncated_hal(1) [OF tr] by (simp add: mp1_hal_def s)
  from Control_controller_configured [OF tr init s(2) mp1_ready_keeps s1 _ refl, of "[]"] h s1
  show ?thesis by (auto simp: k_filters_def can_matrix simp del: frame_target.simps)
qed

end
