(* ===== verification/Spec2Isabelle.thy ===== *)
theory Spec2Isabelle
  imports Network DtcHistory IsoTpTheorems UdsTheorems DiagNetwork CanDriver ControlMcalProps
    BitTiming OpenAmpProps SimEquivalence FdcanSetup
begin

text \<open>
  A verification library of the mini ECU network: a Sensor ECU (STM32G4, bare metal) that measures a
  speed and broadcasts it on CAN, and a Control ECU (the Cortex-M4 of an STM32MP1, FreeRTOS) that
  checks the frames, supervises them for faults, drives a PWM output, keeps trouble codes and
  answers diagnostic requests (UDS over ISO-TP). A diagnostic tester runs on the Sensor ECU.

  \<^bold>\<open>Conventions.\<close> Machine integers are words of the C type's width (\<open>u8\<close>, \<open>u16\<close>, \<open>u32\<close> of Prelude);
  the promotions of C are written out where they matter. A struct is a record, the static
  variables of a file are the fields of a state record, an enum is a datatype. A null pointer
  is \<open>None\<close>. A buffer is a list of its length; \<open>write_at\<close> (Prelude) is a \<open>memcpy\<close> into it. Code that
  may not return (a loop that depends on the hardware, a jump to the reset handler) is a
  function into \<open>option\<close>, and \<open>None\<close> is not returning. The HAL, FreeRTOS and the registers are
  fields of records of functions over a state \<open>'h\<close> of the peripherals (\<open>FdcanHal\<close>, \<open>SensorHal\<close>,
  \<open>ControlHal\<close>, \<open>EcuHal\<close>): nothing is assumed of them unless a theorem says so.

  \<^bold>\<open>Hardware independent part (common/).\<close>
  \<^item> Crc8, E2e: \<open>common/e2e\<close>. The checksum is linear over XOR; from that, what a check detects
    (every corruption of one byte, every one or two inverted bits), what an undisturbed
    sequence delivers, and what lost frames look like.
  \<^item> DtcManager, DtcHistory: \<open>common/dtc\<close>. The store is a function of the history of events: its
    status byte is the byte ISO 14229-1 defines for that history (a refinement by the relation
    between an entry and its history, kept by every event).
  \<^item> IsoTp: \<open>common/isotp\<close>, both sides of a link over a caller's world \<open>'w\<close>. IsoTpLink: the invariant of
    a link and the segmentation of a message. IsoTpProps, IsoTpWorld: what every operation keeps of
    the link and of the world. IsoTpSender, IsoTpReceiver: the frames of a message and their
    reassembly. IsoTpTotal: every call returns, under a guard on the callbacks. IsoTpTheorems: the properties. The sending loop
    is a \<open>partial_function\<close>; it ends because each turn sends at least one byte or stops.
  \<^item> UdsServer: \<open>common/uds\<close>, every service. UdsProps: an abstract reply for each service and the
    proof that the handlers compute it. UdsTheorems: the answers, sessions and timeouts.
  \<^item> CanMatrix: the identifiers and timing constants of \<open>can_matrix.h\<close>. Printf: the conversions of
    \<open>printf\<close> the log messages use.

  \<^bold>\<open>Sensor ECU (sensor_ecu/Core).\<close> CanDrv holds what both CAN drivers share; SensorMcal the drivers of
  \<open>Mcal/\<close>; SensorApp \<open>sensor_app.c\<close>; TesterApp \<open>tester_app.c\<close> with its ring buffer between interrupt and
  task; SensorMain the start-up, the tick and the main loop of \<open>main.c\<close>, in the steps an interrupt can
  fall between. SensorProps, TesterProps, SensorInvariant: their properties.

  \<^bold>\<open>Control ECU (control_ecu/CM4/Core).\<close> ControlMcal: the drivers, the clock switch, the restart of
  the core as a list of register operations. ControlServices: the state of the ECU (\<open>Ecu\<close>) and the
  services of \<open>control_app.c\<close> that \<open>diag_app.c\<close> calls. DiagApp: \<open>diag_app.c\<close>. ControlApp: the receive task and
  the monitor task, one turn of each loop a definition. ControlMain: the start-up. DiagLink interprets the
  contracts of the stack on the ECU; DiagReturns shows that only a hard reset ends a call; DiagProps, DiagRequests, ControlInvariant, ControlProps,
  ControlMcalProps, CanDriver: their properties. The RTOS is the order of steps:
  \<open>ecu_run\<close> (ControlInvariant) lets turns of the two tasks, interrupts and changes of the hardware follow
  one another in any order; a task is not interrupted by the other inside a turn, which the
  mutexes of the code ensure for the data they share.

  OpenAmp, OpenAmpProps: the mailbox to Linux and the start of OpenAMP (\<open>CM4/OPENAMP\<close>), which \<open>main\<close> runs
  before the application; the poll is modelled in the steps an interrupt can fall between.

  \<^bold>\<open>FDCAN HAL (vendored, both Drivers directories).\<close> The functions of \<open>stm32g4xx_hal_fdcan.c\<close> and \<open>stm32mp1xx_hal_fdcan.c\<close> the two CAN
  drivers call, down to the registers and the message RAM. Fdcan: what both share; SensorFdcan, ControlFdcan: each HAL, ending in the record
  of calls the driver takes (\<open>g4_hal\<close>, \<open>mp1_hal\<close>). What the controller does on a trigger register and the passing of the tick are the fields
  of \<open>FdcanCtrl\<close>. FdcanRam: elements written and read back; FdcanLink: a FIFO is drained oldest first; FdcanProps: frames across
  both HALs, and when the payload copy of a reception fits its buffer; FdcanSetup: the initialisation returns, and what both
  controllers hold after the start with the settings of \<open>MX_FDCAN1_Init\<close>. The waiting loops are a \<open>partial_function\<close>; they end because the tick goes on.

  \<^bold>\<open>PC tester (tester/, C++).\<close> UdsClient: the diagnostic client and the texts of trouble codes; SimulatedEcu: the server
  and the trouble code manager of common/ behind the client's transport interface; Scenario: the regression scenarios
  and the program. ClientProps: the client over any list of responses and over a peer that answers as the standard asks;
  SimProps: the simulated ECU is such a peer, what the client reads from it, and when the scenarios pass (the
  regression scenario needs the default session); SimEquivalence: where its answers differ from those of the Control ECU.

  \<^bold>\<open>Interfaces.\<close> Each is a locale, interpreted on the definitions of the code:
  \<open>isotp_sender\<close>, \<open>isotp_client\<close>, \<open>isotp_guarded\<close>, \<open>isotp_total\<close> (what a link needs of its callbacks), \<open>isotp_port\<close> (the driver
  logs the frames it takes), \<open>isotp_link\<close>, \<open>isotp_link_total\<close>, \<open>isotp_world\<close> (a property of the world the
  callbacks keep); \<open>dtc_store\<close> and \<open>uds_server\<close> (what the server needs of the trouble codes and the
  identifiers); \<open>uds_peer\<close>, \<open>iso_peer\<close> (what the client needs of its transport); \<open>can_driver\<close> (both CAN drivers); \<open>rx_fifo\<close> (the receive FIFO of
  both controllers); \<open>debounce\<close> (both buttons); \<open>bounded_queue\<close> (the ring).

  \<^bold>\<open>Across the components.\<close> Network and this theory: a period of the network from the ADC value on one ECU
  to the PWM output on the other, and the bit timing both ECUs configure. DiagNetwork: a diagnostic exchange
  between the tester on one ECU and the server on the other, from the request to the verdict of the step.

  \<^bold>\<open>Not modelled.\<close> The rest of the HAL (also of its FDCAN files: time triggered mode, clock calibration, event FIFO, the interrupt
  handler), CMSIS, FreeRTOS and OpenAMP middleware sources (vendored), interrupt vectors and pin
  set-up (generated), the unit tests. The start of OpenAMP is a parameter of ControlMain, its model is not linked there. Reads beyond a list are unspecified in HOL; the
  invariants show that the modelled code does not make them where it writes. The time of the
  peripherals is whatever the clock parameter returns; 32-bit millisecond counters wrap.
\<close>

section \<open>Properties across the components\<close>

text \<open>C5: one period of the network: the sensor sends its speed frame, the bus delivers it, the control ECU checks it
  and monitors within 100 ms. From a receiver in step with the sender and without other faults, the PWM
  compare value is the sensor's filtered input converted to a speed and scaled, and it is 0 when the out of range
  fault is injected on the sensor, which exactly then raises the range fault; an ADC failure of
  the sensor raises the sensor fault and leaves the output; and the receiver is in step for the next period.\<close>

theorem Sensor_drives_output:
  fixes w :: "'s Sensor" and e :: "'h Ecu"
  assumes "SendSpeedFrame hal w = w'" "tx_trace w' = tx_trace w @ [frame]" "s_faultMode w \<noteq> FAULT_SILENT"
    and "s_adcFiltered w \<le> 4095" "ecu_ok e" "\<not> e2eError (s_view e)"
    and "synced (s_e2eSpeed e)" "lastCounter (s_e2eSpeed e) = (s_speedAlive w - 1) AND 0x0F"
    and "HandleSpeedFrame ehal frame e = e1" "Monitor_step ehal (n, k, e1) = (n', k', e')"
    and "osKernelGetTickCount ehal (osDelayUntil ehal (n + 10) (hfdcan1 e)) - osKernelGetTickCount ehal (hfdcan1 e) \<le> 100"
  shows "s_faults e' = [False, s_faultMode w = FAULT_OUT_OF_RANGE, False, s_adcError w, s_localInject e'] \<and>
    unat (tim1_CCR2 e') = (if s_faultMode w = FAULT_OUT_OF_RANGE \<or> s_localInject e' then 0
      else unat (AdcToSpeedX10 (s_adcFiltered w)) * 1000 div 2500) \<and>
    synced (s_e2eSpeed e1) \<and> lastCounter (s_e2eSpeed e1) = (s_speedAlive w' - 1) AND 0x0F"
proof -
  note rx = speed_frame_received [OF assms(1-3,7-9)]
  have ok: "ecu_ok e1" using HandleSpeedFrame_ok [OF assms(5), of ehal frame] assms(9) by simp
  have "hfdcan1 e1 = hfdcan1 e" using HandleSpeedFrame_view(3) [of ehal frame e] assms(9) by simp
  with Monitor_step_faults [OF assms(10) ok refl] rx(3,4) assms(11)
  have "s_faults e' = [False, speedX10 (s_view e1) > 2500, e2eError (s_view e1), sensorStatus (s_view e1) AND 0x02 \<noteq> 0,
      s_localInject e']"
    by (simp add: spec_faults_def)
  moreover have "\<not> e2eError (s_view e1)" using rx(5) assms(6) by blast
  ultimately have faults: "s_faults e' = [False, s_faultMode w = FAULT_OUT_OF_RANGE, False, s_adcError w, s_localInject e']"
    by (simp only: rx(1,2) sent_speed_range [OF assms(4)] sent_status_adc)
  have "unat (AdcToSpeedX10 (s_adcFiltered w)) \<le> 2500"
    using AdcToSpeedX10_eq [of "s_adcFiltered w"] assms(4) by (simp add: word_le_nat_alt)
  then have "unat (AdcToSpeedX10 (s_adcFiltered w)) * 1000 div 2500 \<le> 1000" by simp
  then have "unat (tim1_CCR2 e') = (if s_faultMode w = FAULT_OUT_OF_RANGE \<or> s_localInject e' then 0
      else unat (AdcToSpeedX10 (s_adcFiltered w)) * 1000 div 2500)"
    using Monitor_step_output [OF assms(10) ok]
    by (simp add: faults spec_duty_def rx(1) sent_speed_def)
  with faults rx(6,7) show ?thesis by simp
qed


text \<open>An input of 2000 is 122.1 km/h, compare value 488; the injected fault stops the output.\<close>

theorem Sensor_drives_output_witness:
  "\<exists>frame. tx_trace (SendSpeedFrame bench_hal (bench\<lparr>s_adcFiltered := 2000\<rparr>)) = [frame] \<and>
     unat (tim1_CCR2 (snd (snd (Monitor_step demo_hal (0, 0, HandleSpeedFrame demo_hal frame demo_synced))))) = 488"
proof -
  define w where "w = bench\<lparr>s_adcFiltered := 2000\<rparr>"
  have w: "s_faultMode w \<noteq> FAULT_SILENT" "s_faultMode w \<noteq> FAULT_OUT_OF_RANGE" "s_adcFiltered w = 2000"
    "s_speedAlive w = 0" "tx_trace w = []"
    by (simp_all add: w_def bench_def)
  obtain frame where fr: "tx_trace (SendSpeedFrame bench_hal w) = tx_trace w @ [frame]"
    using bench_sends [OF w(1)] .
  define e1 where "e1 = HandleSpeedFrame demo_hal frame demo_synced"
  obtain n k e' where m: "Monitor_step demo_hal (0, 0, e1) = (n, k, e')" by (metis prod_cases3)
  have ok: "ecu_ok e1" unfolding e1_def by (rule HandleSpeedFrame_ok) (rule demo_synced_ok(1))
  have "\<not> s_localInject e1" by (simp add: e1_def HandleSpeedFrame_def Let_def lock_view_def unlock_view_def
      demo_synced_def demo_ecu_def split: prod.split)
  then have "\<not> s_localInject e'" by (rule demo_no_injection [OF m ok])
  moreover have "synced (s_e2eSpeed demo_synced)" "lastCounter (s_e2eSpeed demo_synced) = (s_speedAlive w - 1) AND 0x0F"
    by (simp_all add: demo_synced_def w)
  moreover have "s_adcFiltered w \<le> 4095" by (simp add: w)
  moreover have "osKernelGetTickCount demo_hal (osDelayUntil demo_hal (0 + 10) (hfdcan1 demo_synced))
      - osKernelGetTickCount demo_hal (hfdcan1 demo_synced) \<le> 100"
    by (simp add: demo_hal_def demo_synced_def demo_ecu_def)
  ultimately have "unat (tim1_CCR2 e') = unat (AdcToSpeedX10 2000) * 1000 div 2500"
    using Sensor_drives_output [OF refl fr w(1) _ demo_synced_ok _ _ e1_def [symmetric] m] w(2,3) by simp
  then show ?thesis using fr m by (simp add: AdcToSpeedX10_eq w e1_def flip: w_def)
qed

text \<open>C30: whenever both ECUs have started, their CAN controllers agree on the bit timing: the Sensor ECU runs at
  exactly 500 kbit/s; the Control ECU, whose kernel clock depends on who started it, at exactly 500 kbit/s with
  the crystal and within 0.35 percent of it with the fallback clock, and it refuses to start with any other
  clock; the sample points are between 87 and 89 percent. The Sensor ECU's tick is exactly 10 ms.\<close>

theorem Bit_timings_agree:
  assumes "sensor_main_init shal m = Some m'"
    and "control_CanDrv_Init hal mode filters n (control_MX_FDCAN1_Init hal w) = (CANDRV_OK, w')"
  shows "bit_rate (pll_clock 24000000 sensor_pll) (hfdcan1_Init (main_app m')) = 500000 \<and>
    \<bar>bit_rate (unat (s_kernelClockHz w')) (hfdcan1_Init w') - 500000\<bar> \<le> 500000 * 0.0035 \<and>
    sample_point (hfdcan1_Init (main_app m')) \<in> {0.87..0.89} \<and> sample_point (hfdcan1_Init w') \<in> {0.87..0.89} \<and>
    timer_rate (pll_clock 24000000 sensor_pll) tim6_init = 100"
proof -
  note s = main_init_can [OF assms(1)]
  have "(s_kernelClockHz w', NominalPrescaler (hfdcan1_Init w'), NominalTimeSeg1 (hfdcan1_Init w'),
     NominalTimeSeg2 (hfdcan1_Init w')) \<in> {(24000000, 3, 13, 2), (74250000, 1, 128, 19)}"
    using control_rates [OF assms(2)] by (simp add: can_timing_def)
  then show ?thesis
    by (auto simp: s bit_rate_def sample_point_def timer_rate_def pll_clock_def sensor_pll_def sensor_can_init_def
        tim6_init_def)
qed

theorem Bit_timings_agree_witness:
  "\<exists>m w. sensor_main_init bench_main bench_reset = Some m \<and>
     control_CanDrv_Init demo_hal CANDRV_MODE_NORMAL (Some k_filters) (of_nat (length k_filters))
       (control_MX_FDCAN1_Init demo_hal demo_ecu) = (CANDRV_OK, w) \<and>
     \<bar>bit_rate (unat (s_kernelClockHz w)) (hfdcan1_Init w)
        - bit_rate (pll_clock 24000000 sensor_pll) (hfdcan1_Init (main_app m))\<bar> \<le> 1750"
proof -
  obtain m where m: "sensor_main_init bench_main bench_reset = Some m" using bench_starts by blast
  have "s_kernelClockHz (control_MX_FDCAN1_Init demo_hal demo_ecu) = 24000000"
    by (simp add: control_MX_FDCAN1_Init_def hal_call_def demo_hal_def Let_def) (simp add: demo_ecu_def)
  from CanDrv_Init_demo [OF this, of CANDRV_MODE_NORMAL] obtain w where
    "control_CanDrv_Init demo_hal CANDRV_MODE_NORMAL (Some k_filters) (of_nat (length k_filters))
       (control_MX_FDCAN1_Init demo_hal demo_ecu) = (CANDRV_OK, w)"
    by (metis prod.collapse)
  with Bit_timings_agree [OF m this] m show ?thesis by auto
qed

end
